(* ===== verification/X86_Prelude.thy ===== *)
theory X86_Prelude
  imports Main "HOL-Library.Word" "HOL-Library.Signed_Division" "HOL-Library.Monad_Syntax"
begin

text \<open>
  Shared vocabulary of the development: the Rust integer types as words of their width, the
  checked arithmetic of a build with overflow checks (the default \<open>cargo run\<close> and
  \<open>cargo test\<close> profile), and the generic lemmas on bits, carries and option computations
  that the components use.

  A Rust panic (arithmetic overflow, out-of-range index, \<open>panic!\<close>, \<open>unreachable!\<close>) is the
  value \<^term>\<open>None\<close>; a computation that returns is \<^term>\<open>Some v\<close>. Signed integers are words
  read with \<^const>\<open>sint\<close>.
\<close>

unbundle bit_operations_syntax

section \<open>Integer types\<close>

type_synonym u8 = "8 word"
type_synonym u16 = "16 word"
type_synonym u32 = "32 word"
type_synonym u64 = "64 word"
type_synonym usize = "64 word"
type_synonym i8 = "8 word"
type_synonym i16 = "16 word"
type_synonym i32 = "32 word"
type_synonym i64 = "64 word"

text \<open>Facts that evaluate or unfold checked arithmetic, and the exact laws of the flag formulas.\<close>

named_theorems chk_defs \<open>definitions of the checked operations\<close>
named_theorems exec_defs \<open>definitions of one instruction's execution\<close>
named_theorems reg_simps \<open>reading a register after writing one\<close>

section \<open>Checked arithmetic\<close>

definition add_chk :: "'a::len word \<Rightarrow> 'a word \<Rightarrow> 'a word option" where
  [chk_defs]: "add_chk a b = (if uint a + uint b < 2 ^ LENGTH('a) then Some (a + b) else None)"

definition sub_chk :: "'a::len word \<Rightarrow> 'a word \<Rightarrow> 'a word option" where
  [chk_defs]: "sub_chk a b = (if b \<le> a then Some (a - b) else None)"

definition mul_chk :: "'a::len word \<Rightarrow> 'a word \<Rightarrow> 'a word option" where
  [chk_defs]: "mul_chk a b = (if uint a * uint b < 2 ^ LENGTH('a) then Some (a * b) else None)"

text \<open>The result of a signed operation, when it is in the range of the type.\<close>

definition sfit :: "int \<Rightarrow> 'a::len word option" where
  [chk_defs]: "sfit i = (if - (2 ^ (LENGTH('a) - 1)) \<le> i \<and> i < 2 ^ (LENGTH('a) - 1)
     then Some (word_of_int i) else None)"

definition sadd_chk :: "'a::len word \<Rightarrow> 'a word \<Rightarrow> 'a word option" where
  [chk_defs]: "sadd_chk a b = sfit (sint a + sint b)"

definition smul_chk :: "'a::len word \<Rightarrow> 'a word \<Rightarrow> 'a word option" where
  [chk_defs]: "smul_chk a b = sfit (sint a * sint b)"

text \<open>Shifts panic when the count is the width or more.\<close>

definition shl_chk :: "'a::len word \<Rightarrow> nat \<Rightarrow> 'a word option" where
  [chk_defs]: "shl_chk a n = (if n < LENGTH('a) then Some (push_bit n a) else None)"

definition shr_chk :: "'a::len word \<Rightarrow> nat \<Rightarrow> 'a word option" where
  [chk_defs]: "shr_chk a n = (if n < LENGTH('a) then Some (drop_bit n a) else None)"

text \<open>
  \<open>wrapping_shl\<close> and \<open>wrapping_shr\<close> take the count modulo the width.
\<close>

definition wrapping_shl :: "'a::len word \<Rightarrow> nat \<Rightarrow> 'a word" where
  "wrapping_shl a n = push_bit (n mod LENGTH('a)) a"

definition wrapping_shr :: "'a::len word \<Rightarrow> nat \<Rightarrow> 'a word" where
  "wrapping_shr a n = drop_bit (n mod LENGTH('a)) a"

text \<open>Division and remainder panic on a zero divisor; the signed ones also on \<open>MIN / -1\<close>.\<close>

definition div_chk :: "'a::len word \<Rightarrow> 'a word \<Rightarrow> 'a word option" where
  [chk_defs]: "div_chk a b = (if b = 0 then None else Some (a div b))"

definition rem_chk :: "'a::len word \<Rightarrow> 'a word \<Rightarrow> 'a word option" where
  [chk_defs]: "rem_chk a b = (if b = 0 then None else Some (a mod b))"

definition sdiv_chk :: "'a::len word \<Rightarrow> 'a word \<Rightarrow> 'a word option" where
  [chk_defs]: "sdiv_chk a b = (if b = 0 then None else sfit (sint a sdiv sint b))"

definition srem_chk :: "'a::len word \<Rightarrow> 'a word \<Rightarrow> 'a word option" where
  [chk_defs]: "srem_chk a b =
     (if b = 0 \<or> (sint a = - (2 ^ (LENGTH('a) - 1)) \<and> sint b = - 1) then None
      else Some (word_of_int (sint a smod sint b)))"

text \<open>\<open>trailing_zeros\<close>: the number of zero bits below the lowest set bit, the width for zero.\<close>

definition trailing_zeros :: "'a::len word \<Rightarrow> nat" where
  "trailing_zeros v = length (takeWhile (\<lambda>i. \<not> bit v i) [0..<LENGTH('a)])"

text \<open>A \<open>for\<close> loop over a list whose body may panic.\<close>

fun for_each :: "('a \<Rightarrow> 's \<Rightarrow> 's option) \<Rightarrow> 'a list \<Rightarrow> 's \<Rightarrow> 's option" where
  "for_each body [] s = Some s"
| "for_each body (x # xs) s = do { s \<leftarrow> body x s; for_each body xs s }"

text \<open>A loop that pushes one value per element.\<close>

fun collect :: "('a \<Rightarrow> 'b option) \<Rightarrow> 'a list \<Rightarrow> 'b list option" where
  "collect f [] = Some []"
| "collect f (x # xs) = do { y \<leftarrow> f x; ys \<leftarrow> collect f xs; Some (y # ys) }"

text \<open>\<open>iter().position\<close> and \<open>find\<close>: the index of the first occurrence.\<close>

fun position :: "'a \<Rightarrow> 'a list \<Rightarrow> nat option" where
  "position x [] = None"
| "position x (y # ys) = (if y = x then Some 0 else map_option Suc (position x ys))"

section \<open>Generic lemmas\<close>

lemma for_each_append:
  "for_each body (xs @ ys) s = do { s \<leftarrow> for_each body xs s; for_each body ys s }"
  by (induction xs arbitrary: s) (auto split: bind_splits)

text \<open>The loop rule: a body that returns and keeps an invariant makes a loop that does.\<close>

lemma for_each_invariant:
  assumes "P s" "\<And>x s. x \<in> set xs \<Longrightarrow> P s \<Longrightarrow> \<exists>t. body x s = Some t \<and> P t"
  shows "\<exists>t. for_each body xs s = Some t \<and> P t"
  using assms
proof (induction xs arbitrary: s)
  case (Cons x xs)
  then obtain t where "body x s = Some t" "P t" by (metis list.set_intros(1))
  then show ?case using Cons by (simp add: Cons.IH)
qed simp

lemma add_chk_Some_iff: "add_chk a b = Some c \<longleftrightarrow> uint a + uint b < 2 ^ LENGTH('a) \<and> c = a + b"
  for a b :: "'a::len word"
  by (auto simp: add_chk_def)

lemma add_chk_unat:
  fixes a b c :: "'a::len word"
  assumes "add_chk a b = Some c"
  shows "unat c = unat a + unat b" "unat a + unat b < 2 ^ LENGTH('a)"
proof -
  have lt: "uint a + uint b < 2 ^ LENGTH('a)" and c: "c = a + b"
    using assms by (auto simp: add_chk_Some_iff)
  have "int (unat a + unat b) < int (2 ^ LENGTH('a))" using lt unfolding uint_nat by (simp only: of_nat_add of_nat_power of_nat_numeral)
  then show *: "unat a + unat b < 2 ^ LENGTH('a)" by (simp only: of_nat_less_iff)
  then show "unat c = unat a + unat b" using c by (simp only: unat_word_ariths mod_less)
qed

lemma add_chk_less: "unat a + unat b < 2 ^ LENGTH('a) \<Longrightarrow> add_chk a b = Some (a + b)"
  for a b :: "'a::len word"
proof -
  assume "unat a + unat b < 2 ^ LENGTH('a)"
  then have "int (unat a + unat b) < int (2 ^ LENGTH('a))" by (simp only: of_nat_less_iff)
  then show ?thesis unfolding add_chk_def uint_nat by simp
qed

lemma sub_chk_Some_iff: "sub_chk a b = Some c \<longleftrightarrow> b \<le> a \<and> c = a - b"
  by (auto simp: sub_chk_def)

lemma bind_Some_iff: "Option.bind x f = Some y \<longleftrightarrow> (\<exists>v. x = Some v \<and> f v = Some y)"
  by (cases x) auto

lemma trailing_zeros_ge_iff:
  fixes v :: "'a::len word"
  assumes "n \<le> LENGTH('a)"
  shows "n \<le> trailing_zeros v \<longleftrightarrow> take_bit n v = 0"
proof -
  have "n \<le> length (takeWhile P [0..<m]) \<longleftrightarrow> (\<forall>i<n. P i)" if "n \<le> m" for P :: "nat \<Rightarrow> bool" and m
  proof
    assume n: "n \<le> length (takeWhile P [0..<m])"
    show "\<forall>i<n. P i"
    proof (intro allI impI)
      fix i assume i: "i < n"
      with n have "takeWhile P [0..<m] ! i \<in> set (takeWhile P [0..<m])" by simp
      moreover have "takeWhile P [0..<m] ! i = i"
        using i n that by (simp add: takeWhile_nth)
      ultimately show "P i" by (metis set_takeWhileD)
    qed
  next
    assume "\<forall>i<n. P i"
    then have "takeWhile P [0..<m] = [0..<n] @ takeWhile P [n..<m]"
      using that by (metis atLeastLessThan_iff le0 set_upt takeWhile_append2 upt_add_eq_append le_add_diff_inverse)
    then show "n \<le> length (takeWhile P [0..<m])" by simp
  qed
  from this [OF assms] have "n \<le> trailing_zeros v \<longleftrightarrow> (\<forall>i<n. \<not> bit v i)"
    by (simp add: trailing_zeros_def)
  also have "\<dots> \<longleftrightarrow> take_bit n v = 0"
    by (auto simp: bit_eq_iff bit_simps dest: bit_imp_le_length)
  finally show ?thesis .
qed

text \<open>Testing one bit with a mask.\<close>

lemma and_exp_neq_0_iff: "v AND 2 ^ n \<noteq> 0 \<longleftrightarrow> bit v n" for v :: "'a::len word"
  by (simp add: and_exp_eq_0_iff_not_bit)

section \<open>Carry, borrow and signed overflow as bits\<close>

lemma odd_div_lt4:
  fixes x P :: int
  assumes "0 < P" "- 2 * P \<le> x" "x < 4 * P"
  shows "odd (x div P) \<longleftrightarrow> (- P \<le> x \<and> x < 0) \<or> (P \<le> x \<and> x < 2 * P) \<or> 3 * P \<le> x"
proof -
  define q where "q = x div P"
  define r where "r = x mod P"
  have x: "x = q * P + r" and r: "0 \<le> r" "r < P"
    using assms(1) by (simp_all add: q_def r_def)
  have lo: "- 3 < q"
  proof (rule ccontr)
    assume "\<not> - 3 < q"
    then have "q * P \<le> - 3 * P" using assms(1) by (intro mult_right_mono) auto
    then show False using assms(2) x r by linarith
  qed
  have hi: "q < 4"
  proof (rule ccontr)
    assume "\<not> q < 4"
    then have "4 * P \<le> q * P" using assms(1) by (intro mult_right_mono) auto
    then show False using assms(3) x r by linarith
  qed
  have "q = -2 \<or> q = -1 \<or> q = 0 \<or> q = 1 \<or> q = 2 \<or> q = 3" using lo hi by auto
  then show ?thesis unfolding q_def [symmetric] using x r by auto
qed

lemma bit_word_odd_div: "bit w n \<longleftrightarrow> odd (uint w div 2 ^ n)" for w :: "'a::len word"
  by (metis bit_uint_iff bit_iff_odd bit_imp_le_length)

lemma bit_add_int:
  fixes a b :: "'a::len word"
  assumes "n < LENGTH('a)"
  shows "bit (a + b) n \<longleftrightarrow> odd ((uint a + uint b) div 2 ^ n)"
  using assms by (subst word_add_def) (simp only: bit_word_of_int_iff bit_iff_odd [of "uint a + uint b"] simp_thms)

lemma bit_sub_int:
  fixes a b :: "'a::len word"
  assumes "n < LENGTH('a)"
  shows "bit (a - b) n \<longleftrightarrow> odd ((uint a - uint b) div 2 ^ n)"
  using assms by (subst word_sub_wi) (simp only: bit_word_of_int_iff bit_iff_odd [of "uint a - uint b"] simp_thms)

lemma bit_small:
  fixes a :: "'a::len word"
  assumes "uint a < 2 * 2 ^ n"
  shows "bit a n \<longleftrightarrow> 2 ^ n \<le> uint a"
proof -
  have "0 \<le> uint a" "(0::int) < 2 ^ n" by simp_all
  with assms odd_div_lt4 [of "2 ^ n" "uint a"] show ?thesis
    unfolding bit_word_odd_div by linarith
qed

lemma sint_bit_eq: "sint w = (if bit w (LENGTH('a) - 1) then uint w - 2 ^ LENGTH('a) else uint w)"
  for w :: "'a::len word"
  by (simp add: sint_uint signed_take_bit_eq_take_bit_minus bit_uint_iff take_bit_int_eq_self)

text \<open>Carry out of the low n bits of an addition, borrow of a subtraction.\<close>

lemma bit_carry_add:
  fixes a b :: "'a::len word"
  assumes "n < LENGTH('a)" "uint a < 2 ^ n" "uint b \<le> 2 ^ n"
  shows "bit (a + b) n \<longleftrightarrow> 2 ^ n \<le> uint a + uint b"
proof -
  have "0 \<le> uint a" "0 \<le> uint b" "(0::int) < 2 ^ n" by simp_all
  with assms odd_div_lt4 [of "2 ^ n" "uint a + uint b"] show ?thesis
    unfolding bit_add_int [OF assms(1)] by linarith
qed

lemma bit_borrow_sub:
  fixes a b :: "'a::len word"
  assumes "n < LENGTH('a)" "uint a < 2 ^ n" "uint b \<le> 2 ^ n"
  shows "bit (a - b) n \<longleftrightarrow> a < b"
proof -
  have "0 \<le> uint a" "0 \<le> uint b" "(0::int) < 2 ^ n" by simp_all
  with assms odd_div_lt4 [of "2 ^ n" "uint a - uint b"] show ?thesis
    unfolding bit_sub_int [OF assms(1)] word_less_alt by linarith
qed
text \<open>The signed reading of the low \<open>Suc n\<close> bits of a word.\<close>

definition sval :: "nat \<Rightarrow> 'a::len word \<Rightarrow> int" where
  "sval n a = (if bit a n then uint a - 2 * 2 ^ n else uint a)"

text \<open>Signed overflow over the integers: the operands \<open>A\<close>, \<open>B\<close> are below \<open>2 P\<close>, the sign bit weighs \<open>P\<close>.\<close>

lemma overflow_add_int:
  fixes A B P :: int
  assumes "0 \<le> A" "A < 2 * P" "0 \<le> B" "B < 2 * P"
  shows "(odd ((A + B) div P) \<noteq> (P \<le> A)) \<and> (odd ((A + B) div P) \<noteq> (P \<le> B)) \<longleftrightarrow>
     \<not> (- P \<le> (if P \<le> A then A - 2 * P else A) + (if P \<le> B then B - 2 * P else B) \<and>
        (if P \<le> A then A - 2 * P else A) + (if P \<le> B then B - 2 * P else B) < P)"
proof -
  have "odd ((A + B) div P) \<longleftrightarrow> (- P \<le> A + B \<and> A + B < 0) \<or> (P \<le> A + B \<and> A + B < 2 * P) \<or> 3 * P \<le> A + B"
    using assms by (intro odd_div_lt4) linarith+
  with assms show ?thesis by (cases "P \<le> A"; cases "P \<le> B") (simp; linarith)+
qed

lemma overflow_sub_int:
  fixes A B P :: int
  assumes "0 \<le> A" "A < 2 * P" "0 \<le> B" "B < 2 * P"
  shows "((P \<le> A) \<noteq> (P \<le> B)) \<and> ((P \<le> A) \<noteq> odd ((A - B) div P)) \<longleftrightarrow>
     \<not> (- P \<le> (if P \<le> A then A - 2 * P else A) - (if P \<le> B then B - 2 * P else B) \<and>
        (if P \<le> A then A - 2 * P else A) - (if P \<le> B then B - 2 * P else B) < P)"
    and "(odd ((A - B) div P) \<noteq> (((P \<le> A) \<noteq> (P \<le> B)) \<and> ((P \<le> A) \<noteq> odd ((A - B) div P)))) \<longleftrightarrow>
     (if P \<le> A then A - 2 * P else A) < (if P \<le> B then B - 2 * P else B)"
proof -
  have "odd ((A - B) div P) \<longleftrightarrow> (- P \<le> A - B \<and> A - B < 0) \<or> (P \<le> A - B \<and> A - B < 2 * P) \<or> 3 * P \<le> A - B"
    using assms by (intro odd_div_lt4) linarith+
  note E = this
  show "((P \<le> A) \<noteq> (P \<le> B)) \<and> ((P \<le> A) \<noteq> odd ((A - B) div P)) \<longleftrightarrow>
     \<not> (- P \<le> (if P \<le> A then A - 2 * P else A) - (if P \<le> B then B - 2 * P else B) \<and>
        (if P \<le> A then A - 2 * P else A) - (if P \<le> B then B - 2 * P else B) < P)"
    using assms unfolding E by (cases "P \<le> A"; cases "P \<le> B") auto
  show "(odd ((A - B) div P) \<noteq> (((P \<le> A) \<noteq> (P \<le> B)) \<and> ((P \<le> A) \<noteq> odd ((A - B) div P)))) \<longleftrightarrow>
     (if P \<le> A then A - 2 * P else A) < (if P \<le> B then B - 2 * P else B)"
    using assms unfolding E by (cases "P \<le> A"; cases "P \<le> B") auto
qed

lemma overflow_add_bits:
  fixes a b :: "'a::len word"
  assumes "n < LENGTH('a)" "uint a < 2 * 2 ^ n" "uint b < 2 * 2 ^ n"
  shows "(bit (a + b) n \<noteq> bit a n) \<and> (bit (a + b) n \<noteq> bit b n) \<longleftrightarrow>
     \<not> (- (2 ^ n) \<le> sval n a + sval n b \<and> sval n a + sval n b < 2 ^ n)"
  using overflow_add_int [of "uint a" "2 ^ n" "uint b"] assms
  unfolding bit_add_int [OF assms(1)] sval_def bit_small [OF assms(2)] bit_small [OF assms(3)]
  by simp

lemma overflow_sub_bits:
  fixes a b :: "'a::len word"
  assumes "n < LENGTH('a)" "uint a < 2 * 2 ^ n" "uint b < 2 * 2 ^ n"
  shows "(bit a n \<noteq> bit b n) \<and> (bit a n \<noteq> bit (a - b) n) \<longleftrightarrow>
     \<not> (- (2 ^ n) \<le> sval n a - sval n b \<and> sval n a - sval n b < 2 ^ n)"
  using overflow_sub_int(1) [of "uint a" "2 ^ n" "uint b"] assms
  unfolding bit_sub_int [OF assms(1)] sval_def bit_small [OF assms(2)] bit_small [OF assms(3)]
  by simp

lemma sign_sub_bits:
  fixes a b :: "'a::len word"
  assumes "n < LENGTH('a)" "uint a < 2 * 2 ^ n" "uint b < 2 * 2 ^ n"
  shows "(bit (a - b) n \<noteq> ((bit a n \<noteq> bit b n) \<and> (bit a n \<noteq> bit (a - b) n))) \<longleftrightarrow> sval n a < sval n b"
  using overflow_sub_int(2) [of "uint a" "2 ^ n" "uint b"] assms
  unfolding bit_sub_int [OF assms(1)] sval_def bit_small [OF assms(2)] bit_small [OF assms(3)]
  by simp

text \<open>Loops that collect.\<close>

lemma collect_Some:
  "collect f xs = Some ys \<longleftrightarrow> length ys = length xs \<and> (\<forall>i<length xs. f (xs ! i) = Some (ys ! i))"
proof (induction xs arbitrary: ys)
  case (Cons x xs)
  show ?case
    by (cases ys) (auto simp: bind_Some_iff Cons.IH less_Suc_eq_0_disj)
qed auto

lemma collect_all:
  assumes "\<And>x. x \<in> set xs \<Longrightarrow> f x \<noteq> None"
  shows "collect f xs = Some (map (\<lambda>x. the (f x)) xs)"
  using assms by (induction xs) (auto simp: bind_Some_iff)

lemma position_none: "position x xs = None \<longleftrightarrow> x \<notin> set xs"
  by (induction xs) auto

end
