(* ===== verification/X86_Flags.thy ===== *)
theory X86_Flags
  imports X86_Prelude
begin

text \<open>
  The FLAGS register (\<open>dustbox/src/cpu/flag.rs\<close>): the struct \<open>Flags\<close> as a record, its
  update formulas on \<open>usize\<close> operands, the packing into a word and back, and what the
  formulas compute: carry, borrow and signed overflow of an n-bit operation, parity of the low
  byte.
\<close>

section \<open>The record and the packed word\<close>

record Flags =
  carry :: bool
  reserved1 :: bool
  parity :: bool
  reserved3 :: bool
  adjust :: bool
  reserved5 :: bool
  zero :: bool
  sign :: bool
  trap :: bool
  interrupt :: bool
  direction :: bool
  overflow :: bool
  iopl12 :: bool
  iopl13 :: bool
  nested_task :: bool
  reserved15 :: bool

definition FLAG_CF :: u16 where "FLAG_CF = 0x0001"
definition FLAG_PF :: u16 where "FLAG_PF = 0x0004"
definition FLAG_AF :: u16 where "FLAG_AF = 0x0010"
definition FLAG_ZF :: u16 where "FLAG_ZF = 0x0040"
definition FLAG_SF :: u16 where "FLAG_SF = 0x0080"
definition FLAG_TF :: u16 where "FLAG_TF = 0x0100"
definition FLAG_IF :: u16 where "FLAG_IF = 0x0200"
definition FLAG_DF :: u16 where "FLAG_DF = 0x0400"
definition FLAG_OF :: u16 where "FLAG_OF = 0x0800"

definition PARITY_LOOKUP :: "u16 list" where
  "PARITY_LOOKUP = [
    FLAG_PF, 0, 0, FLAG_PF, 0, FLAG_PF, FLAG_PF, 0, 0, FLAG_PF, FLAG_PF, 0, FLAG_PF, 0, 0, FLAG_PF,
    0, FLAG_PF, FLAG_PF, 0, FLAG_PF, 0, 0, FLAG_PF, FLAG_PF, 0, 0, FLAG_PF, 0, FLAG_PF, FLAG_PF, 0,
    0, FLAG_PF, FLAG_PF, 0, FLAG_PF, 0, 0, FLAG_PF, FLAG_PF, 0, 0, FLAG_PF, 0, FLAG_PF, FLAG_PF, 0,
    FLAG_PF, 0, 0, FLAG_PF, 0, FLAG_PF, FLAG_PF, 0, 0, FLAG_PF, FLAG_PF, 0, FLAG_PF, 0, 0, FLAG_PF,
    0, FLAG_PF, FLAG_PF, 0, FLAG_PF, 0, 0, FLAG_PF, FLAG_PF, 0, 0, FLAG_PF, 0, FLAG_PF, FLAG_PF, 0,
    FLAG_PF, 0, 0, FLAG_PF, 0, FLAG_PF, FLAG_PF, 0, 0, FLAG_PF, FLAG_PF, 0, FLAG_PF, 0, 0, FLAG_PF,
    FLAG_PF, 0, 0, FLAG_PF, 0, FLAG_PF, FLAG_PF, 0, 0, FLAG_PF, FLAG_PF, 0, FLAG_PF, 0, 0, FLAG_PF,
    0, FLAG_PF, FLAG_PF, 0, FLAG_PF, 0, 0, FLAG_PF, FLAG_PF, 0, 0, FLAG_PF, 0, FLAG_PF, FLAG_PF, 0,
    0, FLAG_PF, FLAG_PF, 0, FLAG_PF, 0, 0, FLAG_PF, FLAG_PF, 0, 0, FLAG_PF, 0, FLAG_PF, FLAG_PF, 0,
    FLAG_PF, 0, 0, FLAG_PF, 0, FLAG_PF, FLAG_PF, 0, 0, FLAG_PF, FLAG_PF, 0, FLAG_PF, 0, 0, FLAG_PF,
    FLAG_PF, 0, 0, FLAG_PF, 0, FLAG_PF, FLAG_PF, 0, 0, FLAG_PF, FLAG_PF, 0, FLAG_PF, 0, 0, FLAG_PF,
    0, FLAG_PF, FLAG_PF, 0, FLAG_PF, 0, 0, FLAG_PF, FLAG_PF, 0, 0, FLAG_PF, 0, FLAG_PF, FLAG_PF, 0,
    FLAG_PF, 0, 0, FLAG_PF, 0, FLAG_PF, FLAG_PF, 0, 0, FLAG_PF, FLAG_PF, 0, FLAG_PF, 0, 0, FLAG_PF,
    0, FLAG_PF, FLAG_PF, 0, FLAG_PF, 0, 0, FLAG_PF, FLAG_PF, 0, 0, FLAG_PF, 0, FLAG_PF, FLAG_PF, 0,
    0, FLAG_PF, FLAG_PF, 0, FLAG_PF, 0, 0, FLAG_PF, FLAG_PF, 0, 0, FLAG_PF, 0, FLAG_PF, FLAG_PF, 0,
    FLAG_PF, 0, 0, FLAG_PF, 0, FLAG_PF, FLAG_PF, 0, 0, FLAG_PF, FLAG_PF, 0, FLAG_PF, 0, 0, FLAG_PF]"

definition flags_new :: Flags where
  "flags_new = \<lparr>carry = False, reserved1 = False, parity = False, reserved3 = False,
     adjust = False, reserved5 = False, zero = False, sign = False, trap = False,
     interrupt = False, direction = False, overflow = False, iopl12 = False, iopl13 = False,
     nested_task = False, reserved15 = False\<rparr>"

text \<open>\<open>set_u16\<close> leaves the interrupt flag and the reserved and privilege bits alone.\<close>

definition flags_set_u16 :: "Flags \<Rightarrow> u16 \<Rightarrow> Flags" where
  "flags_set_u16 f val = f\<lparr>
     carry := val AND 0x1 \<noteq> 0,
     parity := val AND 0x4 \<noteq> 0,
     adjust := val AND 0x10 \<noteq> 0,
     zero := val AND 0x40 \<noteq> 0,
     sign := val AND 0x80 \<noteq> 0,
     trap := val AND 0x100 \<noteq> 0,
     direction := val AND 0x400 \<noteq> 0,
     overflow := val AND 0x800 \<noteq> 0\<rparr>"

definition flags_new_from_u16 :: "u16 \<Rightarrow> Flags" where
  "flags_new_from_u16 val = flags_set_u16 flags_new val"

definition flags_u16 :: "Flags \<Rightarrow> u16" where
  "flags_u16 f =
     (let val = 0;
          val = (if carry f then val OR 1 else val);
          val = (if reserved1 f then val OR push_bit 1 1 else val);
          val = (if parity f then val OR push_bit 2 1 else val);
          val = (if adjust f then val OR push_bit 4 1 else val);
          val = (if zero f then val OR push_bit 6 1 else val);
          val = (if sign f then val OR push_bit 7 1 else val);
          val = (if trap f then val OR push_bit 8 1 else val);
          val = (if interrupt f then val OR push_bit 9 1 else val);
          val = (if direction f then val OR push_bit 10 1 else val);
          val = (if overflow f then val OR push_bit 11 1 else val);
          val = (if iopl12 f then val OR push_bit 12 1 else val);
          val = (if iopl13 f then val OR push_bit 13 1 else val);
          val = (if nested_task f then val OR push_bit 14 1 else val)
      in val)"

section \<open>The update formulas\<close>

definition set_szp :: "Flags \<Rightarrow> bool \<Rightarrow> Flags" where
  "set_szp f b = f\<lparr>sign := b, zero := b, parity := b\<rparr>"

definition set_sign_u8 :: "Flags \<Rightarrow> usize \<Rightarrow> Flags" where
  "set_sign_u8 f v = f\<lparr>sign := v AND 0x80 \<noteq> 0\<rparr>"

definition set_sign_u16 :: "Flags \<Rightarrow> usize \<Rightarrow> Flags" where
  "set_sign_u16 f v = f\<lparr>sign := v AND 0x8000 \<noteq> 0\<rparr>"

definition set_sign_u32 :: "Flags \<Rightarrow> usize \<Rightarrow> Flags" where
  "set_sign_u32 f v = f\<lparr>sign := v AND 0x80000000 \<noteq> 0\<rparr>"

definition set_parity :: "Flags \<Rightarrow> usize \<Rightarrow> Flags" where
  "set_parity f v = f\<lparr>parity := PARITY_LOOKUP ! unat (v AND 0xFF) \<noteq> 0\<rparr>"

definition set_zero_u8 :: "Flags \<Rightarrow> usize \<Rightarrow> Flags" where
  "set_zero_u8 f v = f\<lparr>zero := trailing_zeros v \<ge> 8\<rparr>"

definition set_zero_u16 :: "Flags \<Rightarrow> usize \<Rightarrow> Flags" where
  "set_zero_u16 f v = f\<lparr>zero := trailing_zeros v \<ge> 16\<rparr>"

definition set_zero_u32 :: "Flags \<Rightarrow> usize \<Rightarrow> Flags" where
  "set_zero_u32 f v = f\<lparr>zero := trailing_zeros v \<ge> 32\<rparr>"

definition set_adjust :: "Flags \<Rightarrow> usize \<Rightarrow> usize \<Rightarrow> usize \<Rightarrow> Flags" where
  "set_adjust f res v1 v2 = f\<lparr>adjust := (res XOR (v1 XOR v2)) AND 0x10 \<noteq> 0\<rparr>"

definition set_overflow_add_u8 :: "Flags \<Rightarrow> usize \<Rightarrow> usize \<Rightarrow> usize \<Rightarrow> Flags" where
  "set_overflow_add_u8 f res v1 v2 = f\<lparr>overflow := (res XOR v1) AND (res XOR v2) AND 0x80 \<noteq> 0\<rparr>"

definition set_overflow_add_u16 :: "Flags \<Rightarrow> usize \<Rightarrow> usize \<Rightarrow> usize \<Rightarrow> Flags" where
  "set_overflow_add_u16 f res v1 v2 = f\<lparr>overflow := (res XOR v1) AND (res XOR v2) AND 0x8000 \<noteq> 0\<rparr>"

definition set_overflow_add_u32 :: "Flags \<Rightarrow> usize \<Rightarrow> usize \<Rightarrow> usize \<Rightarrow> Flags" where
  "set_overflow_add_u32 f res v1 v2 =
     f\<lparr>overflow := (res XOR v1) AND (res XOR v2) AND 0x80000000 \<noteq> 0\<rparr>"

definition set_overflow_sub_u8 :: "Flags \<Rightarrow> usize \<Rightarrow> usize \<Rightarrow> usize \<Rightarrow> Flags" where
  "set_overflow_sub_u8 f res v1 v2 = f\<lparr>overflow := (v2 XOR v1) AND (v2 XOR res) AND 0x80 \<noteq> 0\<rparr>"

definition set_overflow_sub_u16 :: "Flags \<Rightarrow> usize \<Rightarrow> usize \<Rightarrow> usize \<Rightarrow> Flags" where
  "set_overflow_sub_u16 f res v1 v2 = f\<lparr>overflow := (v2 XOR v1) AND (v2 XOR res) AND 0x8000 \<noteq> 0\<rparr>"

definition set_overflow_sub_u32 :: "Flags \<Rightarrow> usize \<Rightarrow> usize \<Rightarrow> usize \<Rightarrow> Flags" where
  "set_overflow_sub_u32 f res v1 v2 =
     f\<lparr>overflow := (v2 XOR v1) AND (v2 XOR res) AND 0x80000000 \<noteq> 0\<rparr>"

definition set_carry_u8 :: "Flags \<Rightarrow> usize \<Rightarrow> Flags" where
  "set_carry_u8 f res = f\<lparr>carry := res AND 0x100 \<noteq> 0\<rparr>"

definition set_carry_u16 :: "Flags \<Rightarrow> usize \<Rightarrow> Flags" where
  "set_carry_u16 f res = f\<lparr>carry := res AND 0x10000 \<noteq> 0\<rparr>"

definition set_carry_u32 :: "Flags \<Rightarrow> usize \<Rightarrow> Flags" where
  "set_carry_u32 f res = f\<lparr>carry := res AND 0x100000000 \<noteq> 0\<rparr>"

definition carry_val :: "Flags \<Rightarrow> usize" where
  "carry_val f = (if carry f then 1 else 0)"

text \<open>The one-character renderings used by the trace writer.\<close>

definition carry_numeric :: "Flags \<Rightarrow> string" where
  "carry_numeric f = (if carry f then ''1'' else ''0'')"

definition zero_numeric :: "Flags \<Rightarrow> string" where
  "zero_numeric f = (if zero f then ''1'' else ''0'')"

definition sign_numeric :: "Flags \<Rightarrow> string" where
  "sign_numeric f = (if sign f then ''1'' else ''0'')"

definition overflow_numeric :: "Flags \<Rightarrow> string" where
  "overflow_numeric f = (if overflow f then ''1'' else ''0'')"

definition adjust_numeric :: "Flags \<Rightarrow> string" where
  "adjust_numeric f = (if adjust f then ''1'' else ''0'')"

definition parity_numeric :: "Flags \<Rightarrow> string" where
  "parity_numeric f = (if parity f then ''1'' else ''0'')"

definition direction_numeric :: "Flags \<Rightarrow> string" where
  "direction_numeric f = (if direction f then ''1'' else ''0'')"

definition interrupt_numeric :: "Flags \<Rightarrow> string" where
  "interrupt_numeric f = (if interrupt f then ''1'' else ''0'')"

section \<open>What the formulas compute\<close>

lemma mask_bits [simp]:
  fixes v :: "64 word"
  shows "v AND 1 = 0 \<longleftrightarrow> \<not> bit v 0" "v AND 0x10 = 0 \<longleftrightarrow> \<not> bit v 4"
    "v AND 0x80 = 0 \<longleftrightarrow> \<not> bit v 7" "v AND 0x100 = 0 \<longleftrightarrow> \<not> bit v 8"
    "v AND 0x8000 = 0 \<longleftrightarrow> \<not> bit v 15" "v AND 0x10000 = 0 \<longleftrightarrow> \<not> bit v 16"
    "v AND 0x80000000 = 0 \<longleftrightarrow> \<not> bit v 31" "v AND 0x100000000 = 0 \<longleftrightarrow> \<not> bit v 32"
  using and_exp_eq_0_iff_not_bit [of v 0] and_exp_eq_0_iff_not_bit [of v 4] and_exp_eq_0_iff_not_bit [of v 7]
    and_exp_eq_0_iff_not_bit [of v 8] and_exp_eq_0_iff_not_bit [of v 15] and_exp_eq_0_iff_not_bit [of v 16]
    and_exp_eq_0_iff_not_bit [of v 31] and_exp_eq_0_iff_not_bit [of v 32]
  by simp_all

lemma bit_if_or_push:
  fixes v :: "'a::len word"
  assumes "k < LENGTH('a)"
  shows "bit (if c then v OR push_bit k 1 else v) n \<longleftrightarrow> bit v n \<or> (c \<and> n = k)"
  using assms by (auto simp: bit_simps)

lemma flags_u16_bits:
  "bit (flags_u16 f) n \<longleftrightarrow>
     (n = 0 \<and> carry f) \<or> (n = 1 \<and> reserved1 f) \<or> (n = 2 \<and> parity f) \<or> (n = 4 \<and> adjust f) \<or>
     (n = 6 \<and> zero f) \<or> (n = 7 \<and> sign f) \<or> (n = 8 \<and> trap f) \<or> (n = 9 \<and> interrupt f) \<or>
     (n = 10 \<and> direction f) \<or> (n = 11 \<and> overflow f) \<or> (n = 12 \<and> iopl12 f) \<or>
     (n = 13 \<and> iopl13 f) \<or> (n = 14 \<and> nested_task f)"
proof -
  have c: "(if carry f then 0 OR 1 else 0) = (if carry f then 0 OR push_bit 0 1 else (0::u16))"
    by simp
  show ?thesis
    unfolding flags_u16_def Let_def c
    by (simp only: bit_if_or_push len_bit0 len_num1 bit_0_eq bot_apply) (auto)
qed

lemma and_mask_u16:
  fixes v :: u16
  shows "v AND 0x1 = 0 \<longleftrightarrow> \<not> bit v 0" "v AND 0x4 = 0 \<longleftrightarrow> \<not> bit v 2"
    "v AND 0x10 = 0 \<longleftrightarrow> \<not> bit v 4" "v AND 0x40 = 0 \<longleftrightarrow> \<not> bit v 6"
    "v AND 0x80 = 0 \<longleftrightarrow> \<not> bit v 7" "v AND 0x100 = 0 \<longleftrightarrow> \<not> bit v 8"
    "v AND 0x200 = 0 \<longleftrightarrow> \<not> bit v 9" "v AND 0x400 = 0 \<longleftrightarrow> \<not> bit v 10"
    "v AND 0x800 = 0 \<longleftrightarrow> \<not> bit v 11"
  using and_exp_eq_0_iff_not_bit [of v 0] and_exp_eq_0_iff_not_bit [of v 2] and_exp_eq_0_iff_not_bit [of v 4]
    and_exp_eq_0_iff_not_bit [of v 6] and_exp_eq_0_iff_not_bit [of v 7] and_exp_eq_0_iff_not_bit [of v 8]
    and_exp_eq_0_iff_not_bit [of v 9] and_exp_eq_0_iff_not_bit [of v 10] and_exp_eq_0_iff_not_bit [of v 11]
  by simp_all

lemma flags_pack_unpack:
  "flags_set_u16 g (flags_u16 f) =
     f\<lparr>reserved1 := reserved1 g, reserved3 := reserved3 g, reserved5 := reserved5 g,
       interrupt := interrupt g, iopl12 := iopl12 g, iopl13 := iopl13 g,
       nested_task := nested_task g, reserved15 := reserved15 g\<rparr>"
  by (simp add: flags_set_u16_def and_mask_u16 flags_u16_bits)

lemma flags_unpack_pack: "flags_u16 (flags_new_from_u16 v) = v AND 0x0DD5"
proof (rule bit_eqI)
  fix n assume "possible_bit TYPE(16 word) n"
  moreover have "\<forall>k \<in> set [0..<16]. bit (flags_u16 (flags_new_from_u16 v)) k = bit (v AND 0x0DD5) k"
    by (simp add: upt_conv_Cons flags_u16_bits flags_new_from_u16_def flags_set_u16_def
        flags_new_def and_mask_u16 bit_and_iff eval_nat_numeral)
  ultimately show "bit (flags_u16 (flags_new_from_u16 v)) n = bit (v AND 0x0DD5) n"
    by simp
qed

text \<open>The parity table: entry i is set when i has an even number of one bits.\<close>

definition even_ones :: "'a::semiring_bits \<Rightarrow> bool" where
  "even_ones v \<longleftrightarrow> even (length (filter (bit v) [0..<8]))"


lemma even_ones_unfold:
  "even_ones v \<longleftrightarrow> (bit v 0 = (bit v 1 = (bit v 2 = (bit v 3 = (bit v 4 = (bit v 5 = (bit v 6 = bit v 7)))))))"
  proof -
  have "[0..<8] = [0, 1, 2, 3, 4, 5, 6, 7::nat]" by (simp add: upt_conv_Cons)
  then show ?thesis by (simp add: even_ones_def)
qed


lemma parity_table: "map (\<lambda>x. x \<noteq> 0) PARITY_LOOKUP = map (even_ones \<circ> int) [0..<256]"
  by (simp add: even_ones_unfold upt_conv_Cons PARITY_LOOKUP_def FLAG_PF_def)

lemma set_parity_spec: "set_parity f v = f\<lparr>parity := even_ones v\<rparr>"
proof -
  let ?i = "unat (v AND 0xFF)"
  have m: "(0xFF :: usize) = mask 8" by (simp add: mask_eq_exp_minus_1)
  have i: "?i = unat (take_bit 8 v)" by (simp add: m take_bit_eq_mask)
  have lt: "?i < 256"
    using take_bit_nat_less_exp [of 8 "unat v"] by (simp add: i unsigned_take_bit_eq)
  have "map (\<lambda>x. x \<noteq> 0) PARITY_LOOKUP ! ?i = (even_ones \<circ> int) ?i"
    unfolding parity_table using lt by (subst nth_map) (simp_all del: upt_conv_Cons)
  moreover have "length PARITY_LOOKUP = 256" by (simp add: PARITY_LOOKUP_def)
  ultimately have "(PARITY_LOOKUP ! ?i \<noteq> 0) = even_ones (int ?i)"
    using lt by simp
  also have "even_ones (int ?i) = even_ones v"
    by (simp add: even_ones_unfold i bit_simps unsigned_take_bit_eq)
  finally show ?thesis by (simp add: set_parity_def)
qed

end
