(* ===== verification/X86_Registers.thy ===== *)
theory X86_Registers
  imports X86_Flags
begin

text \<open>
  The register file (\<open>dustbox/src/cpu/register.rs\<close>, \<open>dustbox/src/cpu/segment.rs\<close>): the enum
  \<open>R\<close> of register names, the 32-bit registers with their 8- and 16-bit parts, the segment
  registers, and the laws that relate reading a name to writing another one.

  The fixed arrays \<open>[GPR; 15]\<close> and \<open>[u16; 6]\<close> are functions from the index; every index the
  code uses is a literal below the length. Names that a getter or setter does not accept are
  \<^term>\<open>None\<close> (\<open>unreachable!\<close> panics).
\<close>

section \<open>Register names\<close>

datatype R =
    AL | CL | DL | BL | AH | CH | DH | BH
  | AX | CX | DX | BX | SP | BP | SI | DI
  | ES | CS | SS | DS | FS | GS
  | IP
  | EAX | ECX | EDX | EBX | ESP | EBP | ESI | EDI
  | ST0 | ST1 | ST2 | ST3 | ST4 | ST5 | ST6 | ST7

definition R_fmt :: "R \<Rightarrow> string" where
  "R_fmt r = (case r of
     R.AL \<Rightarrow> ''al'' | R.CL \<Rightarrow> ''cl'' | R.DL \<Rightarrow> ''dl'' | R.BL \<Rightarrow> ''bl''
   | R.AH \<Rightarrow> ''ah'' | R.CH \<Rightarrow> ''ch'' | R.DH \<Rightarrow> ''dh'' | R.BH \<Rightarrow> ''bh''
   | R.AX \<Rightarrow> ''ax'' | R.CX \<Rightarrow> ''cx'' | R.DX \<Rightarrow> ''dx'' | R.BX \<Rightarrow> ''bx''
   | R.SP \<Rightarrow> ''sp'' | R.BP \<Rightarrow> ''bp'' | R.SI \<Rightarrow> ''si'' | R.DI \<Rightarrow> ''di''
   | R.ES \<Rightarrow> ''es'' | R.CS \<Rightarrow> ''cs'' | R.SS \<Rightarrow> ''ss'' | R.DS \<Rightarrow> ''ds''
   | R.FS \<Rightarrow> ''fs'' | R.GS \<Rightarrow> ''gs'' | R.IP \<Rightarrow> ''ip'' | R.EAX \<Rightarrow> ''eax''
   | R.ECX \<Rightarrow> ''ecx'' | R.EDX \<Rightarrow> ''edx'' | R.EBX \<Rightarrow> ''ebx'' | R.ESP \<Rightarrow> ''esp''
   | R.EBP \<Rightarrow> ''ebp'' | R.ESI \<Rightarrow> ''esi'' | R.EDI \<Rightarrow> ''edi'' | R.ST0 \<Rightarrow> ''st0''
   | R.ST1 \<Rightarrow> ''st1'' | R.ST2 \<Rightarrow> ''st2'' | R.ST3 \<Rightarrow> ''st3'' | R.ST4 \<Rightarrow> ''st4''
   | R.ST5 \<Rightarrow> ''st5'' | R.ST6 \<Rightarrow> ''st6'' | R.ST7 \<Rightarrow> ''st7'')"

definition R_index :: "R \<Rightarrow> usize option" where
  "R_index r =
     (if r \<in> {R.AL, R.AX, R.EAX, R.ES} then Some 0
      else if r \<in> {R.CL, R.CX, R.ECX, R.CS} then Some 1
      else if r \<in> {R.DL, R.DX, R.EDX, R.SS} then Some 2
      else if r \<in> {R.BL, R.BX, R.EBX, R.DS} then Some 3
      else if r \<in> {R.AH, R.SP, R.ESP, R.FS} then Some 4
      else if r \<in> {R.CH, R.BP, R.EBP, R.GS} then Some 5
      else if r \<in> {R.DH, R.SI, R.ESI} then Some 6
      else if r \<in> {R.BH, R.DI, R.EDI} then Some 7
      else None)"

definition R_u8 :: "R \<Rightarrow> u8 option" where
  "R_u8 r = map_option ucast (R_index r)"

definition R_is_gpr :: "R \<Rightarrow> bool" where
  "R_is_gpr r \<longleftrightarrow> r \<in> {
     R.AL, R.CL, R.DL, R.BL, R.AH, R.CH, R.DH, R.BH,
     R.AX, R.CX, R.DX, R.BX, R.SP, R.BP, R.SI, R.DI,
     R.EAX, R.ECX, R.EDX, R.EBX, R.ESP, R.EBP, R.ESI, R.EDI}"

definition R_is_8bit :: "R \<Rightarrow> bool" where
  "R_is_8bit r \<longleftrightarrow> r \<in> {R.AL, R.CL, R.DL, R.BL, R.AH, R.CH, R.DH, R.BH}"

definition r8 :: "u8 \<Rightarrow> R option" where
  "r8 v = (if v = 0 then Some R.AL else if v = 1 then Some R.CL else if v = 2 then Some R.DL
     else if v = 3 then Some R.BL else if v = 4 then Some R.AH else if v = 5 then Some R.CH
     else if v = 6 then Some R.DH else if v = 7 then Some R.BH else None)"

definition r16 :: "u8 \<Rightarrow> R option" where
  "r16 v = (if v = 0 then Some R.AX else if v = 1 then Some R.CX else if v = 2 then Some R.DX
     else if v = 3 then Some R.BX else if v = 4 then Some R.SP else if v = 5 then Some R.BP
     else if v = 6 then Some R.SI else if v = 7 then Some R.DI else None)"

definition r32 :: "u8 \<Rightarrow> R option" where
  "r32 v = (if v = 0 then Some R.EAX else if v = 1 then Some R.ECX else if v = 2 then Some R.EDX
     else if v = 3 then Some R.EBX else if v = 4 then Some R.ESP else if v = 5 then Some R.EBP
     else if v = 6 then Some R.ESI else if v = 7 then Some R.EDI else None)"

definition sr :: "u8 \<Rightarrow> R option" where
  "sr v = (if v = 0 then Some R.ES else if v = 1 then Some R.CS else if v = 2 then Some R.SS
     else if v = 3 then Some R.DS else if v = 4 then Some R.FS else if v = 5 then Some R.GS
     else None)"

definition fpr :: "u8 \<Rightarrow> R option" where
  "fpr v = (if v = 0 then Some R.ST0 else if v = 1 then Some R.ST1 else if v = 2 then Some R.ST2
     else if v = 3 then Some R.ST3 else if v = 4 then Some R.ST4 else if v = 5 then Some R.ST5
     else if v = 6 then Some R.ST6 else if v = 7 then Some R.ST7 else None)"

section \<open>Segments and addressing modes\<close>

datatype Segment = Default | CS | DS | ES | FS | GS | SS

definition Segment_as_str :: "Segment \<Rightarrow> string" where
  "Segment_as_str s = (case s of
     Segment.Default \<Rightarrow> ''ds'' | Segment.DS \<Rightarrow> ''ds'' | Segment.CS \<Rightarrow> ''cs''
   | Segment.ES \<Rightarrow> ''es'' | Segment.FS \<Rightarrow> ''fs'' | Segment.GS \<Rightarrow> ''gs'' | Segment.SS \<Rightarrow> ''ss'')"

definition as_register :: "Segment \<Rightarrow> R" where
  "as_register s = (case s of
     Segment.Default \<Rightarrow> R.DS | Segment.DS \<Rightarrow> R.DS | Segment.CS \<Rightarrow> R.CS
   | Segment.ES \<Rightarrow> R.ES | Segment.FS \<Rightarrow> R.FS | Segment.GS \<Rightarrow> R.GS | Segment.SS \<Rightarrow> R.SS)"

datatype AMode =
    BXSI | BXDI | BPSI | BPDI | SI | DI | BP | BX
  | EAX | ECX | EDX | EBX | ESP | EBP | ESI | EDI

definition AMode_fmt :: "AMode \<Rightarrow> string" where
  "AMode_fmt a = (case a of
     AMode.BXSI \<Rightarrow> ''bx+si'' | AMode.BXDI \<Rightarrow> ''bx+di'' | AMode.BPSI \<Rightarrow> ''bp+si''
   | AMode.BPDI \<Rightarrow> ''bp+di'' | AMode.SI \<Rightarrow> ''si'' | AMode.DI \<Rightarrow> ''di'' | AMode.BP \<Rightarrow> ''bp''
   | AMode.BX \<Rightarrow> ''bx'' | AMode.EAX \<Rightarrow> ''eax'' | AMode.ECX \<Rightarrow> ''ecx'' | AMode.EDX \<Rightarrow> ''edx''
   | AMode.EBX \<Rightarrow> ''ebx'' | AMode.ESP \<Rightarrow> ''esp'' | AMode.EBP \<Rightarrow> ''ebp'' | AMode.ESI \<Rightarrow> ''esi''
   | AMode.EDI \<Rightarrow> ''edi'')"

definition AMode_index :: "AMode \<Rightarrow> usize" where
  "AMode_index a = (case a of
     AMode.BXSI \<Rightarrow> 0 | AMode.EAX \<Rightarrow> 0 | AMode.BXDI \<Rightarrow> 1 | AMode.ECX \<Rightarrow> 1
   | AMode.BPSI \<Rightarrow> 2 | AMode.EDX \<Rightarrow> 2 | AMode.BPDI \<Rightarrow> 3 | AMode.EBX \<Rightarrow> 3
   | AMode.SI \<Rightarrow> 4 | AMode.ESP \<Rightarrow> 4 | AMode.DI \<Rightarrow> 5 | AMode.EBP \<Rightarrow> 5
   | AMode.BP \<Rightarrow> 6 | AMode.ESI \<Rightarrow> 6 | AMode.BX \<Rightarrow> 7 | AMode.EDI \<Rightarrow> 7)"

datatype AddressSize = A16bit | A32bit

definition amode_from :: "AddressSize \<Rightarrow> u8 \<Rightarrow> AMode option" where
  "amode_from sz v = (case sz of
     A16bit \<Rightarrow>
       (if v = 0 then Some AMode.BXSI else if v = 1 then Some AMode.BXDI
        else if v = 2 then Some AMode.BPSI else if v = 3 then Some AMode.BPDI
        else if v = 4 then Some AMode.SI else if v = 5 then Some AMode.DI
        else if v = 6 then Some AMode.BP else if v = 7 then Some AMode.BX else None)
   | A32bit \<Rightarrow>
       (if v = 0 then Some AMode.EAX else if v = 1 then Some AMode.ECX
        else if v = 2 then Some AMode.EDX else if v = 3 then Some AMode.EBX
        else if v = 4 then Some AMode.ESP else if v = 5 then Some AMode.EBP
        else if v = 6 then Some AMode.ESI else if v = 7 then Some AMode.EDI else None))"

section \<open>The register file\<close>

record GPR =
  gpr_val :: u32

definition set_hi :: "GPR \<Rightarrow> u8 \<Rightarrow> GPR" where
  "set_hi g v = g\<lparr>gpr_val := (gpr_val g AND 0xFFFF00FF) + push_bit 8 (ucast v)\<rparr>"

definition set_lo :: "GPR \<Rightarrow> u8 \<Rightarrow> GPR" where
  "set_lo g v = g\<lparr>gpr_val := (gpr_val g AND 0xFFFFFF00) + ucast v\<rparr>"

definition lo_u8 :: "GPR \<Rightarrow> u8" where
  "lo_u8 g = ucast (gpr_val g AND 0xFF)"

definition hi_u8 :: "GPR \<Rightarrow> u8" where
  "hi_u8 g = ucast (drop_bit 8 (gpr_val g))"

definition set16 :: "GPR \<Rightarrow> u16 \<Rightarrow> GPR" where
  "set16 g v = g\<lparr>gpr_val := (gpr_val g AND 0xFFFF0000) OR ucast v\<rparr>"

definition set32 :: "GPR \<Rightarrow> u32 \<Rightarrow> GPR" where
  "set32 g v = g\<lparr>gpr_val := v\<rparr>"

record RegisterState =
  ip :: u16
  gpr :: "nat \<Rightarrow> GPR"
  sreg16 :: "nat \<Rightarrow> u16"
  flags :: Flags

definition RegisterState_default :: RegisterState where
  "RegisterState_default = \<lparr>ip = 0, gpr = (\<lambda>_. \<lparr>gpr_val = 0\<rparr>), sreg16 = (\<lambda>_. 0), flags = flags_new\<rparr>"

definition upd_gpr :: "RegisterState \<Rightarrow> nat \<Rightarrow> (GPR \<Rightarrow> GPR) \<Rightarrow> RegisterState" where
  "upd_gpr s i f = s\<lparr>gpr := (gpr s)(i := f (gpr s i))\<rparr>"

definition upd_sreg :: "RegisterState \<Rightarrow> nat \<Rightarrow> u16 \<Rightarrow> RegisterState" where
  "upd_sreg s i v = s\<lparr>sreg16 := (sreg16 s)(i := v)\<rparr>"

definition rs_get_r8 :: "RegisterState \<Rightarrow> R \<Rightarrow> u8 option" where
  "rs_get_r8 s r = (case r of
     R.AL \<Rightarrow> Some (lo_u8 (gpr s 0)) | R.CL \<Rightarrow> Some (lo_u8 (gpr s 1))
   | R.DL \<Rightarrow> Some (lo_u8 (gpr s 2)) | R.BL \<Rightarrow> Some (lo_u8 (gpr s 3))
   | R.AH \<Rightarrow> Some (hi_u8 (gpr s 0)) | R.CH \<Rightarrow> Some (hi_u8 (gpr s 1))
   | R.DH \<Rightarrow> Some (hi_u8 (gpr s 2)) | R.BH \<Rightarrow> Some (hi_u8 (gpr s 3))
   | _ \<Rightarrow> None)"

definition rs_set_r8 :: "RegisterState \<Rightarrow> R \<Rightarrow> u8 \<Rightarrow> RegisterState option" where
  "rs_set_r8 s r v = (case r of
     R.AL \<Rightarrow> Some (upd_gpr s 0 (\<lambda>g. set_lo g v)) | R.CL \<Rightarrow> Some (upd_gpr s 1 (\<lambda>g. set_lo g v))
   | R.DL \<Rightarrow> Some (upd_gpr s 2 (\<lambda>g. set_lo g v)) | R.BL \<Rightarrow> Some (upd_gpr s 3 (\<lambda>g. set_lo g v))
   | R.AH \<Rightarrow> Some (upd_gpr s 0 (\<lambda>g. set_hi g v)) | R.CH \<Rightarrow> Some (upd_gpr s 1 (\<lambda>g. set_hi g v))
   | R.DH \<Rightarrow> Some (upd_gpr s 2 (\<lambda>g. set_hi g v)) | R.BH \<Rightarrow> Some (upd_gpr s 3 (\<lambda>g. set_hi g v))
   | _ \<Rightarrow> None)"

definition rs_get_r16 :: "RegisterState \<Rightarrow> R \<Rightarrow> u16 option" where
  "rs_get_r16 s r = (case r of
     R.AX \<Rightarrow> Some (ucast (gpr_val (gpr s 0))) | R.CX \<Rightarrow> Some (ucast (gpr_val (gpr s 1)))
   | R.DX \<Rightarrow> Some (ucast (gpr_val (gpr s 2))) | R.BX \<Rightarrow> Some (ucast (gpr_val (gpr s 3)))
   | R.SP \<Rightarrow> Some (ucast (gpr_val (gpr s 4))) | R.BP \<Rightarrow> Some (ucast (gpr_val (gpr s 5)))
   | R.SI \<Rightarrow> Some (ucast (gpr_val (gpr s 6))) | R.DI \<Rightarrow> Some (ucast (gpr_val (gpr s 7)))
   | R.ES \<Rightarrow> Some (sreg16 s 0) | R.CS \<Rightarrow> Some (sreg16 s 1) | R.SS \<Rightarrow> Some (sreg16 s 2)
   | R.DS \<Rightarrow> Some (sreg16 s 3) | R.FS \<Rightarrow> Some (sreg16 s 4) | R.GS \<Rightarrow> Some (sreg16 s 5)
   | R.IP \<Rightarrow> Some (ip s)
   | _ \<Rightarrow> None)"

text \<open>Writing a name that is no 16-bit register prints a message and changes nothing.\<close>

definition rs_set_r16 :: "RegisterState \<Rightarrow> R \<Rightarrow> u16 \<Rightarrow> RegisterState" where
  "rs_set_r16 s r v = (case r of
     R.AX \<Rightarrow> upd_gpr s 0 (\<lambda>g. set16 g v) | R.CX \<Rightarrow> upd_gpr s 1 (\<lambda>g. set16 g v)
   | R.DX \<Rightarrow> upd_gpr s 2 (\<lambda>g. set16 g v) | R.BX \<Rightarrow> upd_gpr s 3 (\<lambda>g. set16 g v)
   | R.SP \<Rightarrow> upd_gpr s 4 (\<lambda>g. set16 g v) | R.BP \<Rightarrow> upd_gpr s 5 (\<lambda>g. set16 g v)
   | R.SI \<Rightarrow> upd_gpr s 6 (\<lambda>g. set16 g v) | R.DI \<Rightarrow> upd_gpr s 7 (\<lambda>g. set16 g v)
   | R.ES \<Rightarrow> upd_sreg s 0 v | R.CS \<Rightarrow> upd_sreg s 1 v | R.SS \<Rightarrow> upd_sreg s 2 v
   | R.DS \<Rightarrow> upd_sreg s 3 v | R.FS \<Rightarrow> upd_sreg s 4 v | R.GS \<Rightarrow> upd_sreg s 5 v
   | _ \<Rightarrow> s)"

definition rs_get_r32 :: "RegisterState \<Rightarrow> R \<Rightarrow> u32 option" where
  "rs_get_r32 s r = (case r of
     R.EAX \<Rightarrow> Some (gpr_val (gpr s 0)) | R.ECX \<Rightarrow> Some (gpr_val (gpr s 1))
   | R.EDX \<Rightarrow> Some (gpr_val (gpr s 2)) | R.EBX \<Rightarrow> Some (gpr_val (gpr s 3))
   | R.ESP \<Rightarrow> Some (gpr_val (gpr s 4)) | R.EBP \<Rightarrow> Some (gpr_val (gpr s 5))
   | R.ESI \<Rightarrow> Some (gpr_val (gpr s 6)) | R.EDI \<Rightarrow> Some (gpr_val (gpr s 7))
   | _ \<Rightarrow> None)"

definition rs_set_r32 :: "RegisterState \<Rightarrow> R \<Rightarrow> u32 \<Rightarrow> RegisterState option" where
  "rs_set_r32 s r v = (case r of
     R.EAX \<Rightarrow> Some (upd_gpr s 0 (\<lambda>g. set32 g v)) | R.ECX \<Rightarrow> Some (upd_gpr s 1 (\<lambda>g. set32 g v))
   | R.EDX \<Rightarrow> Some (upd_gpr s 2 (\<lambda>g. set32 g v)) | R.EBX \<Rightarrow> Some (upd_gpr s 3 (\<lambda>g. set32 g v))
   | R.ESP \<Rightarrow> Some (upd_gpr s 4 (\<lambda>g. set32 g v)) | R.EBP \<Rightarrow> Some (upd_gpr s 5 (\<lambda>g. set32 g v))
   | R.ESI \<Rightarrow> Some (upd_gpr s 6 (\<lambda>g. set32 g v)) | R.EDI \<Rightarrow> Some (upd_gpr s 7 (\<lambda>g. set32 g v))
   | _ \<Rightarrow> None)"

section \<open>Register laws\<close>

lemma u32_masks:
  "(0xFFFF00FF :: u32) = NOT (push_bit 8 (mask 8))" "(0xFFFFFF00 :: u32) = NOT (mask 8)"
  "(0xFFFF0000 :: u32) = NOT (mask 16)" "(0xFF :: u32) = mask 8"
  by (simp_all add: mask_eq_exp_minus_1)

lemma set_hi_or: "set_hi g v = g\<lparr>gpr_val := (gpr_val g AND NOT (push_bit 8 (mask 8))) OR push_bit 8 (ucast v)\<rparr>"
proof -
  have "(gpr_val g AND NOT (push_bit 8 (mask 8))) AND push_bit 8 (ucast v) = 0"
    by (rule bit_word_eqI) (auto simp: bit_simps dest: bit_imp_le_length)
  then show ?thesis by (simp add: set_hi_def u32_masks disjunctive_add_eq_or)
qed

lemma set_lo_or: "set_lo g v = g\<lparr>gpr_val := (gpr_val g AND NOT (mask 8)) OR ucast v\<rparr>"
proof -
  have "(gpr_val g AND NOT (mask 8)) AND ucast v = 0"
    by (rule bit_word_eqI) (auto simp: bit_simps dest: bit_imp_le_length)
  then show ?thesis by (simp add: set_lo_def u32_masks disjunctive_add_eq_or)
qed

lemmas gpr_bits = set_hi_or set_lo_or lo_u8_def hi_u8_def set16_def set32_def u32_masks

lemma bit_beyond: "8 \<le> n \<Longrightarrow> \<not> bit (v :: u8) n" "16 \<le> n \<Longrightarrow> \<not> bit (w :: u16) n"
  by (auto dest: bit_imp_le_length)

lemma gpr_parts:
  "lo_u8 (set_lo g v) = v" "hi_u8 (set_lo g v) = hi_u8 g"
  "hi_u8 (set_hi g v) = v" "lo_u8 (set_hi g v) = lo_u8 g"
  "lo_u8 (set16 g w) = ucast w" "hi_u8 (set16 g w) = ucast (drop_bit 8 w)"
  "ucast (gpr_val (set16 g w)) = w"
  "set_lo g (lo_u8 g) = g" "set_hi g (hi_u8 g) = g" "set16 g (ucast (gpr_val g)) = g"
  "set_lo (set_lo g v) v' = set_lo g v'" "set_hi (set_hi g v) v' = set_hi g v'"
  "set16 (set16 g w) w' = set16 g w'" "set_lo (set_hi g v) v' = set_hi (set_lo g v') v"
  by (auto simp: gpr_bits intro!: bit_word_eqI GPR.equality simp: bit_simps bit_beyond)

section \<open>Reading after writing\<close>

text \<open>
  A bank of named cells: what a client of the register file relies on. The names a bank
  accepts, a getter and a setter.
\<close>

locale register_bank =
  fixes names :: "'r set"
    and get :: "'s \<Rightarrow> 'r \<Rightarrow> 'v"
    and put :: "'s \<Rightarrow> 'r \<Rightarrow> 'v \<Rightarrow> 's"
  assumes get_put: "r \<in> names \<Longrightarrow> r' \<in> names \<Longrightarrow> get (put s r v) r' = (if r = r' then v else get s r')"
    and put_get: "r \<in> names \<Longrightarrow> put s r (get s r) = s"
    and put_put: "r \<in> names \<Longrightarrow> put (put s r v) r w = put s r w"
    and put_swap: "r \<in> names \<Longrightarrow> r' \<in> names \<Longrightarrow> r \<noteq> r' \<Longrightarrow>
      put (put s r v) r' w = put (put s r' w) r v"
begin

lemma get_put_same: "r \<in> names \<Longrightarrow> get (put s r v) r = v"
  by (simp add: get_put)

lemma get_put_other: "r \<in> names \<Longrightarrow> r' \<in> names \<Longrightarrow> r \<noteq> r' \<Longrightarrow> get (put s r v) r' = get s r'"
  by (simp add: get_put)

text \<open>Exchanging two cells twice is the identity.\<close>

lemma exchange_twice:
  assumes "r \<in> names" "r' \<in> names"
    and "t = put (put s r (get s r')) r' (get s r)"
  shows "put (put t r (get t r')) r' (get t r) = s"
proof (cases "r = r'")
  case True
  with assms show ?thesis by (simp add: get_put put_put put_get)
next
  case False
  with assms have t: "get t r = get s r'" "get t r' = get s r"
    by (simp_all add: get_put)
  have "put (put t r (get s r)) r' (get s r') = s"
    unfolding assms(3) using assms(1,2) False
    by (metis put_get put_put put_swap)
  with t show ?thesis by simp
qed

text \<open>Storing the contents of a list of distinct cells and writing them back.\<close>

lemma get_fold_put:
  assumes "set rs \<subseteq> names" "r \<in> names" "length vs = length rs" "distinct rs"
  shows "get (fold (\<lambda>(r, v) s. put s r v) (zip rs vs) s) r =
    (case map_of (zip rs vs) r of Some v \<Rightarrow> v | None \<Rightarrow> get s r)"
  using assms(3,1,4)
proof (induction rs vs arbitrary: s rule: list_induct2')
  case (4 x xs y ys)
  then have IH: "get (fold (\<lambda>(r, v) s. put s r v) (zip xs ys) (put s x y)) r =
      (case map_of (zip xs ys) r of Some v \<Rightarrow> v | None \<Rightarrow> get (put s x y) r)"
    by simp
  have nx: "map_of (zip xs ys) x = None"
    using 4 by (auto simp: map_of_eq_None_iff dest: set_zip_leftD)
  show ?case
  proof (cases "r = x")
    case True
    then show ?thesis using IH 4(3) nx by (simp add: get_put)
  next
    case False
    then show ?thesis
      using IH 4(3) assms(2) by (cases "map_of (zip xs ys) r") (simp_all add: get_put)
  qed
qed simp_all

end

definition names8 :: "R set" where
  "names8 = {R.AL, R.CL, R.DL, R.BL, R.AH, R.CH, R.DH, R.BH}"

definition names16 :: "R set" where
  "names16 = {R.AX, R.CX, R.DX, R.BX, R.SP, R.BP, R.SI, R.DI, R.ES, R.CS, R.SS, R.DS, R.FS, R.GS}"

definition names32 :: "R set" where
  "names32 = {R.EAX, R.ECX, R.EDX, R.EBX, R.ESP, R.EBP, R.ESI, R.EDI}"

text \<open>Total views of the getters and setters on the names they accept.\<close>

definition reg8 :: "RegisterState \<Rightarrow> R \<Rightarrow> u8" where "reg8 s r = the (rs_get_r8 s r)"
definition put8 :: "RegisterState \<Rightarrow> R \<Rightarrow> u8 \<Rightarrow> RegisterState" where "put8 s r v = the (rs_set_r8 s r v)"
definition reg16 :: "RegisterState \<Rightarrow> R \<Rightarrow> u16" where "reg16 s r = the (rs_get_r16 s r)"
definition reg32 :: "RegisterState \<Rightarrow> R \<Rightarrow> u32" where "reg32 s r = the (rs_get_r32 s r)"
definition put32 :: "RegisterState \<Rightarrow> R \<Rightarrow> u32 \<Rightarrow> RegisterState" where "put32 s r v = the (rs_set_r32 s r v)"

lemmas rs_defs = rs_get_r8_def rs_set_r8_def rs_get_r16_def rs_set_r16_def rs_get_r32_def
  rs_set_r32_def upd_gpr_def upd_sreg_def reg8_def put8_def reg16_def reg32_def put32_def

lemma rs_get_r8_Some: "r \<in> names8 \<Longrightarrow> rs_get_r8 s r = Some (reg8 s r)"
  by (auto simp: names8_def rs_defs)
lemma rs_set_r8_Some: "r \<in> names8 \<Longrightarrow> rs_set_r8 s r v = Some (put8 s r v)"
  by (auto simp: names8_def rs_defs)
lemma rs_get_r16_Some: "r \<in> insert R.IP names16 \<Longrightarrow> rs_get_r16 s r = Some (reg16 s r)"
  by (auto simp: names16_def rs_defs)
lemma rs_get_r32_Some: "r \<in> names32 \<Longrightarrow> rs_get_r32 s r = Some (reg32 s r)"
  by (auto simp: names32_def rs_defs)
lemma rs_set_r32_Some: "r \<in> names32 \<Longrightarrow> rs_set_r32 s r v = Some (put32 s r v)"
  by (auto simp: names32_def rs_defs)

text \<open>The cell a name lives in: a part of a general register, or a segment register.\<close>

definition gidx :: "R \<Rightarrow> nat" where
  "gidx r = (case r of
     R.AL \<Rightarrow> 0 | R.AH \<Rightarrow> 0 | R.AX \<Rightarrow> 0 | R.EAX \<Rightarrow> 0 | R.CL \<Rightarrow> 1 | R.CH \<Rightarrow> 1 | R.CX \<Rightarrow> 1 | R.ECX \<Rightarrow> 1
   | R.DL \<Rightarrow> 2 | R.DH \<Rightarrow> 2 | R.DX \<Rightarrow> 2 | R.EDX \<Rightarrow> 2 | R.BL \<Rightarrow> 3 | R.BH \<Rightarrow> 3 | R.BX \<Rightarrow> 3 | R.EBX \<Rightarrow> 3
   | R.SP \<Rightarrow> 4 | R.ESP \<Rightarrow> 4 | R.BP \<Rightarrow> 5 | R.EBP \<Rightarrow> 5 | R.SI \<Rightarrow> 6 | R.ESI \<Rightarrow> 6 | R.DI \<Rightarrow> 7 | R.EDI \<Rightarrow> 7
   | R.ES \<Rightarrow> 0 | R.CS \<Rightarrow> 1 | R.SS \<Rightarrow> 2 | R.DS \<Rightarrow> 3 | R.FS \<Rightarrow> 4 | R.GS \<Rightarrow> 5 | _ \<Rightarrow> 8)"

definition sregs :: "R set" where "sregs = {R.ES, R.CS, R.SS, R.DS, R.FS, R.GS}"
definition highs :: "R set" where "highs = {R.AH, R.CH, R.DH, R.BH}"

lemma cell8:
  "r \<in> names8 \<Longrightarrow> reg8 s r = (if r \<in> highs then hi_u8 (gpr s (gidx r)) else lo_u8 (gpr s (gidx r)))"
  "r \<in> names8 \<Longrightarrow> put8 s r v = upd_gpr s (gidx r) (\<lambda>g. if r \<in> highs then set_hi g v else set_lo g v)"
  by (auto simp: names8_def rs_defs gidx_def highs_def)

lemma cell16:
  "r \<in> names16 \<Longrightarrow> reg16 s r = (if r \<in> sregs then sreg16 s (gidx r) else ucast (gpr_val (gpr s (gidx r))))"
  "r \<in> names16 \<Longrightarrow> rs_set_r16 s r v =
     (if r \<in> sregs then upd_sreg s (gidx r) v else upd_gpr s (gidx r) (\<lambda>g. set16 g v))"
  by (auto simp: names16_def rs_defs gidx_def sregs_def)

lemma cell32:
  "r \<in> names32 \<Longrightarrow> reg32 s r = gpr_val (gpr s (gidx r))"
  "r \<in> names32 \<Longrightarrow> put32 s r v = upd_gpr s (gidx r) (\<lambda>g. set32 g v)"
  by (auto simp: names32_def rs_defs gidx_def)

lemma gidx_inj:
  "r \<in> names8 \<Longrightarrow> r' \<in> names8 \<Longrightarrow> gidx r = gidx r' \<Longrightarrow> (r \<in> highs \<longleftrightarrow> r' \<in> highs) \<Longrightarrow> r = r'"
  "r \<in> names16 \<Longrightarrow> r' \<in> names16 \<Longrightarrow> gidx r = gidx r' \<Longrightarrow> (r \<in> sregs \<longleftrightarrow> r' \<in> sregs) \<Longrightarrow> r = r'"
  "r \<in> names32 \<Longrightarrow> r' \<in> names32 \<Longrightarrow> gidx r = gidx r' \<Longrightarrow> r = r'"
  by (auto simp: names8_def names16_def names32_def gidx_def highs_def sregs_def)

interpretation bank8: register_bank names8 reg8 put8
  by unfold_locales
    (auto simp: cell8 upd_gpr_def gpr_parts fun_upd_twist dest: gidx_inj(1))

interpretation bank16: register_bank names16 reg16 rs_set_r16
  by unfold_locales
    (auto simp: cell16 upd_gpr_def upd_sreg_def gpr_parts fun_upd_twist dest: gidx_inj(2))

interpretation bank32: register_bank names32 reg32 put32
  by unfold_locales
    (auto simp: cell32 upd_gpr_def set32_def fun_upd_twist dest: gidx_inj(3))

end
