(* ===== verification/X86_Instr.thy ===== *)
theory X86_Instr
  imports X86_Registers
begin

text \<open>
  Decoded instructions (\<open>dustbox/src/cpu/op.rs\<close>, \<open>parameter.rs\<close>, \<open>instruction.rs\<close>): the enum
  \<open>Op\<close>, the operands, the prefixes, and the mod-reg-rm byte.

  The 230 alternatives of \<open>Op\<close> are grouped into sub-enumerations by the kind of instruction, one
  constructor of \<open>Op\<close> wrapping each group; the names are the source's, except \<open>IntN\<close> for \<open>Int\<close>
  (a keyword). A group's constructor and its name stand for the one constructor of the source.
\<close>

unbundle bit_operations_syntax

section \<open>Operations\<close>

datatype ArithOp =
    Aaa | Aad | Aam | Aas | Adc8 | Adc16 | Adc32 | Add8 | Add16 | Add32 | Cbw | Cmp8 | Cmp16
  | Cmp32 | Cwd16 | Cwde32 | Daa | Das | Dec8 | Dec16 | Dec32 | Inc8 | Inc16 | Inc32 | Neg8
  | Neg16 | Neg32 | Sbb8 | Sbb16 | Sbb32 | Sub8 | Sub16 | Sub32

datatype MulOp =
    Div8 | Div16 | Div32 | Idiv8 | Idiv16 | Idiv32 | Imul8 | Imul16 | Imul32 | Mul8 | Mul16
  | Mul32

datatype LogicOp =
    And8 | And16 | And32 | Arpl | Bound | Bsf | Bt | Bts | Not8 | Not16 | Not32 | Or8 | Or16
  | Or32 | Setc | Setg | Setnz | Test8 | Test16 | Test32 | Xor8 | Xor16 | Xor32

datatype ShiftOp =
    Rcl8 | Rcl16 | Rcl32 | Rcr8 | Rcr16 | Rcr32 | Rol8 | Rol16 | Rol32 | Ror8 | Ror16
  | Ror32 | Sar8 | Sar16 | Sar32 | Shl8 | Shl16 | Shl32 | Shld | Shr8 | Shr16 | Shr32 | Shrd

datatype MoveOp =
    Enter | Lahf | Lar16 | Lds | Lea16 | Leave | Les | Mov8 | Mov16 | Mov32 | Movsx16
  | Movsx32 | Movzx16 | Movzx32 | Nop | Pop16 | Pop32 | Popa16 | Popad32 | Popf | Push16
  | Push32 | Pusha16 | Pushad32 | Pushf | Sahf | Salc | Sldt | Xchg8 | Xchg16 | Xchg32
  | Xlatb

datatype StringOp =
    Cmpsb | Cmpsw | In8 | In16 | Insb | Insw | Lodsb | Lodsw | Lodsd | Movsb | Movsw | Movsd
  | Out8 | Out16 | Outsb | Outsw | Scasb | Scasw | Stosb | Stosw | Stosd

datatype JumpCond =
    Ja | Jc | Jcxz | Jg | Jl | Jna | Jnc | Jng | Jnl | Jno | Jns | Jnz | Jo | Jpe | Jpo | Js
  | Jz

datatype FlowOp =
    CallNear | CallFar | Hlt | IntN | Into | Iret | Jcc JumpCond | JmpShort | JmpNear
  | JmpFar | Loop | Loope | Loopne | Retn | Retf | RetImm16

datatype FlagOp =
    Clc | Cld | Cli | Cmc | Stc | Std | Sti

datatype FpuOp =
    Fabs | Fadd | Faddp | Fchs | Fcom | Fcomp | Fcos | Fdiv | Fdivp | Fidiv | Fdivr | Ffree
  | Ficom | Ficomp | Fild | Finit | Fist | Fistp | Fisttp | Fld | Fld1 | Fldl2t | Fldl2e
  | Fldz | Fldpi | Fldcw | Fmul | Fimul | Fpatan | Frndint | Fsin | Fsincos | Fsqrt | Fst
  | Fstp | Fstsw | Fnstcw | Fsub | Fsubp | Fsubr | Fsubrp | Ftst | Fwait | Fxch

datatype Invalid = Reg u8 | InvalidOp | FPUOp

datatype Op =
    Arith ArithOp | Mul MulOp | Logic LogicOp | Shift ShiftOp | Move MoveOp
  | Str StringOp | Flow FlowOp | Flag FlagOp | Fpu FpuOp
  | Uninitialized
  | Invalid "u8 list" Invalid

definition is_valid :: "Op \<Rightarrow> bool" where
  "is_valid self = (case self of Uninitialized \<Rightarrow> False | Invalid _ _ \<Rightarrow> False | _ \<Rightarrow> True)"

section \<open>Parameters\<close>

datatype Parameter =
    Reg8 R | Reg16 R | SReg16 R | Reg32 R | FPR80 R
  | Imm8 u8 | ImmS8 i8 | Imm16 u16 | Imm32 u32 | Ptr16Imm u16 u16
  | Ptr8 Segment u16 | Ptr8Amode Segment AMode
  | Ptr8AmodeS8 Segment AMode i8 | Ptr8AmodeS16 Segment AMode i16
  | Ptr16 Segment u16 | Ptr16Amode Segment AMode
  | Ptr16AmodeS8 Segment AMode i8 | Ptr16AmodeS16 Segment AMode i16
  | Ptr32 Segment u16 | Ptr32Amode Segment AMode
  | Ptr32AmodeS8 Segment AMode i8 | Ptr32AmodeS16 Segment AMode i16
  | NoParam

record ParameterSet =
  p_dst :: Parameter
  p_src :: Parameter
  p_src2 :: Parameter

definition param_count :: "ParameterSet \<Rightarrow> nat" where
  "param_count ps =
     (case p_dst ps of NoParam \<Rightarrow> 0
      | _ \<Rightarrow> (case p_src ps of NoParam \<Rightarrow> 1
         | _ \<Rightarrow> (case p_src2 ps of NoParam \<Rightarrow> 2 | _ \<Rightarrow> 3)))"

definition is_imm :: "Parameter \<Rightarrow> bool" where
  "is_imm p = (case p of Imm8 _ \<Rightarrow> True | Imm16 _ \<Rightarrow> True | Imm32 _ \<Rightarrow> True | ImmS8 _ \<Rightarrow> True | _ \<Rightarrow> False)"

definition is_ptr :: "Parameter \<Rightarrow> bool" where
  "is_ptr p = (case p of
     Ptr8 _ _ \<Rightarrow> True | Ptr16 _ _ \<Rightarrow> True | Ptr16Imm _ _ \<Rightarrow> True | Ptr8Amode _ _ \<Rightarrow> True
   | Ptr8AmodeS8 _ _ _ \<Rightarrow> True | Ptr8AmodeS16 _ _ _ \<Rightarrow> True | Ptr16Amode _ _ \<Rightarrow> True
   | Ptr16AmodeS8 _ _ _ \<Rightarrow> True | Ptr16AmodeS16 _ _ _ \<Rightarrow> True | _ \<Rightarrow> False)"

definition is_reg :: "Parameter \<Rightarrow> bool" where
  "is_reg p = (case p of Reg8 _ \<Rightarrow> True | Reg16 _ \<Rightarrow> True | Reg32 _ \<Rightarrow> True | SReg16 _ \<Rightarrow> True | _ \<Rightarrow> False)"

definition is_none :: "Parameter \<Rightarrow> bool" where
  "is_none p = (p = NoParam)"

section \<open>Instructions\<close>

datatype RepeatMode = RepNone | Rep | Repe | Repne

datatype OperandSize = Op16bit | Op32bit

record Instruction =
  command :: Op
  params :: ParameterSet
  ilength :: u8
  segment_prefix :: Segment
  repeat :: RepeatMode
  lock :: bool
  op_size :: OperandSize
  address_size :: AddressSize

definition RepeatMode_as_str :: "RepeatMode \<Rightarrow> string" where
  "RepeatMode_as_str r = (case r of RepNone \<Rightarrow> '''' | Rep \<Rightarrow> ''Rep'' | Repe \<Rightarrow> ''Repe'' | Repne \<Rightarrow> ''Repne'')"

definition op_size_from_op :: "Op \<Rightarrow> OperandSize" where
  "op_size_from_op op =
     (if op = Move Mov32 \<or> op = Arith Inc32 \<or> op = Arith Dec32 then Op32bit else Op16bit)"

definition instr_new3 :: "Op \<Rightarrow> Parameter \<Rightarrow> Parameter \<Rightarrow> Parameter \<Rightarrow> Instruction" where
  "instr_new3 op d s s2 =
     \<lparr>command = op, params = \<lparr>p_dst = d, p_src = s, p_src2 = s2\<rparr>, ilength = 0,
      segment_prefix = Segment.Default, repeat = RepNone, lock = False,
      op_size = op_size_from_op op, address_size = A16bit\<rparr>"

definition instr_new :: "Op \<Rightarrow> Instruction" where
  "instr_new op = instr_new3 op NoParam NoParam NoParam"

definition instr_new1 :: "Op \<Rightarrow> Parameter \<Rightarrow> Instruction" where
  "instr_new1 op d = instr_new3 op d NoParam NoParam"

definition instr_new2 :: "Op \<Rightarrow> Parameter \<Rightarrow> Parameter \<Rightarrow> Instruction" where
  "instr_new2 op d s = instr_new3 op d s NoParam"

definition is_ret :: "Instruction \<Rightarrow> bool" where
  "is_ret i = (command i = Flow Retn \<or> command i = Flow Retf \<or> command i = Flow RetImm16)"

definition is_loop :: "Instruction \<Rightarrow> bool" where
  "is_loop i = (command i = Flow Loop \<or> command i = Flow Loope \<or> command i = Flow Loopne)"

definition is_unconditional_jmp :: "Instruction \<Rightarrow> bool" where
  "is_unconditional_jmp i =
     (command i = Flow JmpShort \<or> command i = Flow JmpNear \<or> command i = Flow JmpFar)"

text \<open>The operands of an instruction.\<close>

abbreviation op_dst :: "Instruction \<Rightarrow> Parameter" where "op_dst i \<equiv> p_dst (params i)"
abbreviation op_src :: "Instruction \<Rightarrow> Parameter" where "op_src i \<equiv> p_src (params i)"
abbreviation op_src2 :: "Instruction \<Rightarrow> Parameter" where "op_src2 i \<equiv> p_src2 (params i)"

section \<open>The mod-reg-rm byte\<close>

record ModRegRm =
  md :: u8
  reg :: u8
  rm :: u8

definition modrm_u8 :: "ModRegRm \<Rightarrow> u8" where
  "modrm_u8 x = push_bit 6 (md x) OR push_bit 3 (reg x) OR rm x"

definition rm_reg :: "u8 \<Rightarrow> u8 \<Rightarrow> u8" where
  "rm_reg rm' reg' = modrm_u8 \<lparr>md = 3, reg = reg', rm = rm'\<rparr>"

section \<open>The decoder's state\<close>

record Decoder =
  current_seg :: u16
  current_offset :: u16

definition Decoder_default :: Decoder where
  "Decoder_default = \<lparr>current_seg = 0, current_offset = 0\<rparr>"

end
