(* ===== verification/X86_Memory.thy ===== *)
theory X86_Memory
  imports X86_Prelude
begin

text \<open>
  Memory (\<open>dustbox/src/memory/\<close>): the flat byte array, segment:offset addresses and the MMU that
  translates them. The byte vector is a function from addresses with its length beside it; an
  access past the length is the panic \<^term>\<open>None\<close>, as is the unreachable arm of an unset address.
  The locale \<open>byte_store\<close> is the contract of a byte-addressed store; the little-endian word laws
  are proved from it once and reach the program through its interpretation on \<open>FlatMemory\<close>.
\<close>

unbundle bit_operations_syntax

section \<open>FlatMemory\<close>

record FlatMemory =
  data :: "u32 \<Rightarrow> u8"
  data_len :: nat

definition FlatMemory_new :: FlatMemory where
  "FlatMemory_new = \<lparr>data = (\<lambda>_. 0), data_len = 0x10000 * 64\<rparr>"

definition mem_read_u8 :: "FlatMemory \<Rightarrow> u32 \<Rightarrow> u8 option" where
  "mem_read_u8 m addr = (if unat addr < data_len m then Some (data m addr) else None)"

definition mem_read_u16 :: "FlatMemory \<Rightarrow> u32 \<Rightarrow> u16 option" where
  "mem_read_u16 m addr = do {
     addr1 \<leftarrow> add_chk addr 1;
     hi \<leftarrow> mem_read_u8 m addr1;
     lo \<leftarrow> mem_read_u8 m addr;
     Some (push_bit 8 (ucast hi) OR ucast lo)
   }"

definition mem_write_u8 :: "FlatMemory \<Rightarrow> u32 \<Rightarrow> u8 \<Rightarrow> FlatMemory option" where
  "mem_write_u8 m addr v =
     (if unat addr < data_len m then Some (m\<lparr>data := (data m)(addr := v)\<rparr>) else None)"

definition mem_write_u16 :: "FlatMemory \<Rightarrow> u32 \<Rightarrow> u16 \<Rightarrow> FlatMemory option" where
  "mem_write_u16 m addr v = do {
     m \<leftarrow> mem_write_u8 m addr (ucast v);
     addr1 \<leftarrow> add_chk addr 1;
     mem_write_u8 m addr1 (ucast (drop_bit 8 v))
   }"

definition mem_read_u32 :: "FlatMemory \<Rightarrow> u32 \<Rightarrow> u32 option" where
  "mem_read_u32 m addr = do {
     addr2 \<leftarrow> add_chk addr 2;
     hi \<leftarrow> mem_read_u16 m addr2;
     lo \<leftarrow> mem_read_u16 m addr;
     Some (push_bit 16 (ucast hi) OR ucast lo)
   }"

definition mem_write_u32 :: "FlatMemory \<Rightarrow> u32 \<Rightarrow> u32 \<Rightarrow> FlatMemory option" where
  "mem_write_u32 m addr v = do {
     m \<leftarrow> mem_write_u16 m addr (ucast v);
     addr2 \<leftarrow> add_chk addr 2;
     mem_write_u16 m addr2 (ucast (drop_bit 16 v))
   }"

text \<open>Slices: the range must lie inside the vector.\<close>

definition mem_read :: "FlatMemory \<Rightarrow> u32 \<Rightarrow> nat \<Rightarrow> u8 list option" where
  "mem_read m addr n =
     (if unat addr + n \<le> data_len m then Some (map (\<lambda>i. data m (addr + of_nat i)) [0..<n]) else None)"

fun write_bytes :: "(u32 \<Rightarrow> u8) \<Rightarrow> u32 \<Rightarrow> u8 list \<Rightarrow> u32 \<Rightarrow> u8" where
  "write_bytes f addr [] = f"
| "write_bytes f addr (b # bs) = write_bytes (f(addr := b)) (addr + 1) bs"

definition mem_write :: "FlatMemory \<Rightarrow> u32 \<Rightarrow> u8 list \<Rightarrow> FlatMemory option" where
  "mem_write m addr bs =
     (if unat addr + length bs \<le> data_len m then Some (m\<lparr>data := write_bytes (data m) addr bs\<rparr>)
      else None)"

section \<open>MemoryAddress\<close>

datatype MemoryAddress =
    RealSegmentOffset u16 u16
  | LongSegmentOffset u16 u16
  | Unset

datatype Ordering = Less | Equal | Greater

definition u32_cmp :: "u32 \<Rightarrow> u32 \<Rightarrow> Ordering" where
  "u32_cmp a b = (if a < b then Less else if a = b then Equal else Greater)"

definition default_real :: MemoryAddress where
  "default_real = RealSegmentOffset 0 0"

fun addr_value :: "MemoryAddress \<Rightarrow> u32 option" where
  "addr_value (RealSegmentOffset seg off) = add_chk (push_bit 4 (ucast seg)) (ucast off)"
| "addr_value (LongSegmentOffset seg off) = add_chk (push_bit 16 (ucast seg)) (ucast off)"
| "addr_value Unset = None"

fun addr_segment :: "MemoryAddress \<Rightarrow> u16 option" where
  "addr_segment (RealSegmentOffset seg _) = Some seg"
| "addr_segment (LongSegmentOffset seg _) = Some seg"
| "addr_segment Unset = None"

fun addr_offset :: "MemoryAddress \<Rightarrow> u16 option" where
  "addr_offset (RealSegmentOffset _ off) = Some off"
| "addr_offset (LongSegmentOffset _ off) = Some off"
| "addr_offset Unset = None"

fun set_offset :: "MemoryAddress \<Rightarrow> u16 \<Rightarrow> MemoryAddress option" where
  "set_offset (RealSegmentOffset seg _) n = Some (RealSegmentOffset seg n)"
| "set_offset (LongSegmentOffset seg _) n = Some (LongSegmentOffset seg n)"
| "set_offset Unset n = None"

fun add_offset :: "MemoryAddress \<Rightarrow> u16 \<Rightarrow> MemoryAddress option" where
  "add_offset (RealSegmentOffset seg off) n = map_option (RealSegmentOffset seg) (add_chk off n)"
| "add_offset (LongSegmentOffset seg off) n = map_option (LongSegmentOffset seg) (add_chk off n)"
| "add_offset Unset n = None"

definition inc_u8 :: "MemoryAddress \<Rightarrow> MemoryAddress option" where "inc_u8 a = add_offset a 1"
definition inc_u16 :: "MemoryAddress \<Rightarrow> MemoryAddress option" where "inc_u16 a = add_offset a 2"
definition inc_u32 :: "MemoryAddress \<Rightarrow> MemoryAddress option" where "inc_u32 a = add_offset a 4"
definition inc_n :: "MemoryAddress \<Rightarrow> u16 \<Rightarrow> MemoryAddress option" where "inc_n a n = add_offset a n"

text \<open>The \<open>Ord\<close> and \<open>PartialOrd\<close> instances.\<close>

definition addr_cmp :: "MemoryAddress \<Rightarrow> MemoryAddress \<Rightarrow> Ordering option" where
  "addr_cmp self other = do {
     o_val \<leftarrow> addr_value other;
     s_val \<leftarrow> addr_value self;
     Some (u32_cmp o_val s_val)
   }"

definition addr_partial_cmp :: "MemoryAddress \<Rightarrow> MemoryAddress \<Rightarrow> Ordering option" where
  "addr_partial_cmp self other = addr_cmp other self"

section \<open>MMU\<close>

record MMU =
  memory :: FlatMemory
  flags_address :: MemoryAddress

definition MMU_default :: MMU where
  "MMU_default = \<lparr>memory = FlatMemory_new, flags_address = Unset\<rparr>"

definition upd_memory :: "MMU \<Rightarrow> FlatMemory option \<Rightarrow> MMU option" where
  "upd_memory u r = map_option (\<lambda>m. u\<lparr>memory := m\<rparr>) r"

definition mmu_set_flag :: "MMU \<Rightarrow> u16 \<Rightarrow> bool \<Rightarrow> MMU option" where
  "mmu_set_flag u flag_mask flag_value =
     (if flags_address u = Unset then None
      else do {
        addr \<leftarrow> addr_value (flags_address u);
        flags \<leftarrow> mem_read_u16 (memory u) addr;
        let flags = (if flag_value then flags OR flag_mask else flags AND NOT flag_mask);
        upd_memory u (mem_write_u16 (memory u) addr flags)
      })"

definition mmu_read :: "MMU \<Rightarrow> u16 \<Rightarrow> u16 \<Rightarrow> nat \<Rightarrow> u8 list option" where
  "mmu_read u seg off n = do {
     addr \<leftarrow> addr_value (RealSegmentOffset seg off);
     mem_read (memory u) addr n
   }"

definition mmu_read_u8_addr :: "MMU \<Rightarrow> MemoryAddress \<Rightarrow> u8 option" where
  "mmu_read_u8_addr u a = do { addr \<leftarrow> addr_value a; mem_read_u8 (memory u) addr }"

definition mmu_read_u8 :: "MMU \<Rightarrow> u16 \<Rightarrow> u16 \<Rightarrow> u8 option" where
  "mmu_read_u8 u seg off = do {
     addr \<leftarrow> addr_value (RealSegmentOffset seg off);
     mem_read_u8 (memory u) addr
   }"

definition mmu_read_u16 :: "MMU \<Rightarrow> u16 \<Rightarrow> u16 \<Rightarrow> u16 option" where
  "mmu_read_u16 u seg off = do {
     addr \<leftarrow> addr_value (RealSegmentOffset seg off);
     mem_read_u16 (memory u) addr
   }"

definition mmu_write_u8 :: "MMU \<Rightarrow> u16 \<Rightarrow> u16 \<Rightarrow> u8 \<Rightarrow> MMU option" where
  "mmu_write_u8 u seg off v = do {
     addr \<leftarrow> addr_value (RealSegmentOffset seg off);
     upd_memory u (mem_write_u8 (memory u) addr v)
   }"

definition mmu_write :: "MMU \<Rightarrow> u16 \<Rightarrow> u16 \<Rightarrow> u8 list \<Rightarrow> MMU option" where
  "mmu_write u seg off bs = do {
     addr \<leftarrow> addr_value (RealSegmentOffset seg off);
     upd_memory u (mem_write (memory u) addr bs)
   }"

definition mmu_write_u16 :: "MMU \<Rightarrow> u16 \<Rightarrow> u16 \<Rightarrow> u16 \<Rightarrow> MMU option" where
  "mmu_write_u16 u seg off v = do {
     addr \<leftarrow> addr_value (RealSegmentOffset seg off);
     upd_memory u (mem_write_u16 (memory u) addr v)
   }"

definition mmu_read_u32 :: "MMU \<Rightarrow> u16 \<Rightarrow> u16 \<Rightarrow> u32 option" where
  "mmu_read_u32 u seg off = do {
     addr \<leftarrow> addr_value (RealSegmentOffset seg off);
     mem_read_u32 (memory u) addr
   }"

definition mmu_write_u32 :: "MMU \<Rightarrow> u16 \<Rightarrow> u16 \<Rightarrow> u32 \<Rightarrow> MMU option" where
  "mmu_write_u32 u seg off v = do {
     addr \<leftarrow> addr_value (RealSegmentOffset seg off);
     upd_memory u (mem_write_u32 (memory u) addr v)
   }"

text \<open>The writers that also advance the address they are given.\<close>

definition mmu_write_u8_inc :: "MMU \<Rightarrow> MemoryAddress \<Rightarrow> u8 \<Rightarrow> (MMU \<times> MemoryAddress) option" where
  "mmu_write_u8_inc u a v = do {
     addr \<leftarrow> addr_value a;
     u \<leftarrow> upd_memory u (mem_write_u8 (memory u) addr v);
     a \<leftarrow> inc_u8 a;
     Some (u, a)
   }"

definition mmu_write_u16_inc :: "MMU \<Rightarrow> MemoryAddress \<Rightarrow> u16 \<Rightarrow> (MMU \<times> MemoryAddress) option" where
  "mmu_write_u16_inc u a v = do {
     addr \<leftarrow> addr_value a;
     u \<leftarrow> upd_memory u (mem_write_u16 (memory u) addr v);
     a \<leftarrow> inc_u16 a;
     Some (u, a)
   }"

definition mmu_write_u32_inc :: "MMU \<Rightarrow> MemoryAddress \<Rightarrow> u32 \<Rightarrow> (MMU \<times> MemoryAddress) option" where
  "mmu_write_u32_inc u a v = do {
     addr \<leftarrow> addr_value a;
     u \<leftarrow> upd_memory u (mem_write_u32 (memory u) addr v);
     a \<leftarrow> inc_u32 a;
     Some (u, a)
   }"

text \<open>
  \<open>readz\<close>: bytes up to a NUL. The offset is incremented with the overflow check, so the loop
  ends by offset 0xFFFF at the latest.
\<close>

function readz_loop :: "MMU \<Rightarrow> u16 \<Rightarrow> u16 \<Rightarrow> u8 list option" where
  "readz_loop u seg off = do {
     addr \<leftarrow> addr_value (RealSegmentOffset seg off);
     b \<leftarrow> mem_read_u8 (memory u) addr;
     if b = 0 then Some []
     else do {
       off' \<leftarrow> add_chk off 1;
       rest \<leftarrow> readz_loop u seg off';
       Some (b # rest)
     }
   }"
  by pat_completeness auto
termination
proof (relation "measure (\<lambda>(u, seg, off). 0xFFFF - unat off)")
  fix u :: MMU and seg off off' :: u16
  assume "add_chk off 1 = Some off'"
  from add_chk_unat [OF this] have "unat off' = unat off + 1" "unat off < 0xFFFF" by simp_all
  then show "((u, seg, off'), (u, seg, off)) \<in> measure (\<lambda>(u, seg, off). 0xFFFF - unat off)"
    by simp
qed simp

definition mmu_readz :: "MMU \<Rightarrow> u16 \<Rightarrow> u16 \<Rightarrow> u8 list option" where
  "mmu_readz u seg off = readz_loop u seg off"

definition mmu_read_vec :: "MMU \<Rightarrow> u16 \<Rightarrow> (u16 \<times> u16) option" where
  "mmu_read_vec u v = do {
     let v_abs = push_bit 2 (ucast v :: u32);
     seg \<leftarrow> mem_read_u16 (memory u) v_abs;
     v_abs2 \<leftarrow> add_chk v_abs 2;
     off \<leftarrow> mem_read_u16 (memory u) v_abs2;
     Some (seg, off)
   }"

definition mmu_write_vec :: "MMU \<Rightarrow> u16 \<Rightarrow> MemoryAddress \<Rightarrow> MMU option" where
  "mmu_write_vec u v a = do {
     let v_abs = push_bit 2 (ucast v :: u32);
     seg \<leftarrow> addr_segment a;
     u \<leftarrow> upd_memory u (mem_write_u16 (memory u) v_abs seg);
     v_abs2 \<leftarrow> add_chk v_abs 2;
     off \<leftarrow> addr_offset a;
     upd_memory u (mem_write_u16 (memory u) v_abs2 off)
   }"

section \<open>Little-endian words over a byte store\<close>

lemma le16_join: "push_bit 8 (ucast (ucast (drop_bit 8 v) :: u8)) OR ucast (ucast v :: u8) = v"
  for v :: u16
  by (rule bit_word_eqI) (auto simp: bit_simps)

lemma le32_join: "push_bit 16 (ucast (ucast (drop_bit 16 v) :: u16)) OR ucast (ucast v :: u16) = v"
  for v :: u32
  by (rule bit_word_eqI) (auto simp: bit_simps)

definition le_read16 :: "('s \<Rightarrow> u32 \<Rightarrow> u8 option) \<Rightarrow> 's \<Rightarrow> u32 \<Rightarrow> u16 option" where
  "le_read16 rd s a = do {
     a1 \<leftarrow> add_chk a 1; hi \<leftarrow> rd s a1; lo \<leftarrow> rd s a; Some (push_bit 8 (ucast hi) OR ucast lo) }"

definition le_write16 :: "('s \<Rightarrow> u32 \<Rightarrow> u8 \<Rightarrow> 's option) \<Rightarrow> 's \<Rightarrow> u32 \<Rightarrow> u16 \<Rightarrow> 's option" where
  "le_write16 wr s a v = do {
     s \<leftarrow> wr s a (ucast v); a1 \<leftarrow> add_chk a 1; wr s a1 (ucast (drop_bit 8 v)) }"

definition le_read32 :: "('s \<Rightarrow> u32 \<Rightarrow> u8 option) \<Rightarrow> 's \<Rightarrow> u32 \<Rightarrow> u32 option" where
  "le_read32 rd s a = do {
     a2 \<leftarrow> add_chk a 2; hi \<leftarrow> le_read16 rd s a2; lo \<leftarrow> le_read16 rd s a;
     Some (push_bit 16 (ucast hi) OR ucast lo) }"

definition le_write32 :: "('s \<Rightarrow> u32 \<Rightarrow> u8 \<Rightarrow> 's option) \<Rightarrow> 's \<Rightarrow> u32 \<Rightarrow> u32 \<Rightarrow> 's option" where
  "le_write32 wr s a v = do {
     s \<leftarrow> le_write16 wr s a (ucast v); a2 \<leftarrow> add_chk a 2; le_write16 wr s a2 (ucast (drop_bit 16 v)) }"

text \<open>The byte ranges of two accesses do not meet.\<close>

definition apart :: "u32 \<Rightarrow> nat \<Rightarrow> u32 \<Rightarrow> nat \<Rightarrow> bool" where
  "apart a n b m \<longleftrightarrow> unat a + n \<le> unat b \<or> unat b + m \<le> unat a"

locale byte_store =
  fixes rd :: "'s \<Rightarrow> u32 \<Rightarrow> u8 option"
    and wr :: "'s \<Rightarrow> u32 \<Rightarrow> u8 \<Rightarrow> 's option"
    and bytes :: "'s \<Rightarrow> nat"
  assumes rd_defined: "(rd s a \<noteq> None) = (unat a < bytes s)"
    and wr_defined: "(wr s a v \<noteq> None) = (unat a < bytes s)"
    and wr_bytes: "wr s a v = Some t \<Longrightarrow> bytes t = bytes s"
    and rd_wr: "wr s a v = Some t \<Longrightarrow> rd t b = (if b = a then Some v else rd s b)"
begin

lemma write16_bytes: "le_write16 wr s a v = Some t \<Longrightarrow> bytes t = bytes s"
  by (auto simp: le_write16_def bind_Some_iff dest!: wr_bytes)

lemma write32_bytes: "le_write32 wr s a v = Some t \<Longrightarrow> bytes t = bytes s"
  by (auto simp: le_write32_def bind_Some_iff dest!: write16_bytes)

lemma write16_defined:
  assumes "unat a + 1 < bytes s" "bytes s \<le> 2 ^ 32"
  shows "\<exists>t. le_write16 wr s a v = Some t"
proof -
  have "add_chk a 1 = Some (a + 1)" using assms by (intro add_chk_less) simp
  moreover from add_chk_unat(1) [OF this] have "unat (a + 1) = unat a + 1" by simp
  moreover obtain s1 where "wr s a (ucast v) = Some s1"
    using wr_defined [of s a "ucast v"] assms by fastforce
  ultimately show ?thesis
    using wr_defined [of s1 "a + 1" "ucast (drop_bit 8 v)"] wr_bytes assms
    by (fastforce simp: le_write16_def)
qed

lemma write32_defined:
  assumes "unat a + 3 < bytes s" "bytes s \<le> 2 ^ 32"
  shows "\<exists>t. le_write32 wr s a v = Some t"
proof -
  have "add_chk a 2 = Some (a + 2)" using assms by (intro add_chk_less) simp
  moreover from add_chk_unat(1) [OF this] have "unat (a + 2) = unat a + 2" by simp
  moreover obtain s1 where "le_write16 wr s a (ucast v) = Some s1"
    using write16_defined [of a s "ucast v"] assms by auto
  ultimately show ?thesis
    using write16_defined [of "a + 2" s1 "ucast (drop_bit 16 v)"] write16_bytes assms
    by (fastforce simp: le_write32_def)
qed

lemma read16_defined:
  assumes "unat a + 1 < bytes s" "bytes s \<le> 2 ^ 32"
  shows "\<exists>v. le_read16 rd s a = Some v"
proof -
  have "add_chk a 1 = Some (a + 1)" using assms by (intro add_chk_less) simp
  moreover from add_chk_unat(1) [OF this] have "unat (a + 1) = unat a + 1" by simp
  ultimately show ?thesis
    using rd_defined [of s "a + 1"] rd_defined [of s a] assms by (fastforce simp: le_read16_def)
qed

lemma read32_defined:
  assumes "unat a + 3 < bytes s" "bytes s \<le> 2 ^ 32"
  shows "\<exists>v. le_read32 rd s a = Some v"
proof -
  have "add_chk a 2 = Some (a + 2)" using assms by (intro add_chk_less) simp
  moreover from add_chk_unat(1) [OF this] have "unat (a + 2) = unat a + 2" by simp
  ultimately show ?thesis
    using read16_defined [of "a + 2" s] read16_defined [of a s] assms by (fastforce simp: le_read32_def)
qed

lemma read_write16:
  assumes "le_write16 wr s a v = Some t"
  shows "le_read16 rd t a = Some v"
proof -
  obtain s1 a1 where *: "wr s a (ucast v) = Some s1" "add_chk a 1 = Some a1"
    "wr s1 a1 (ucast (drop_bit 8 v)) = Some t"
    using assms by (auto simp: le_write16_def bind_Some_iff)
  have "a1 \<noteq> a" using add_chk_unat(1) [OF *(2)] by auto
  with * show ?thesis by (simp add: le_read16_def rd_wr [OF *(3)] rd_wr [OF *(1)] le16_join)
qed

lemma read_write16_byte:
  assumes "le_write16 wr s a v = Some t" "apart a 2 b 1"
  shows "rd t b = rd s b"
proof -
  obtain s1 a1 where *: "wr s a (ucast v) = Some s1" "add_chk a 1 = Some a1"
    "wr s1 a1 (ucast (drop_bit 8 v)) = Some t"
    using assms by (auto simp: le_write16_def bind_Some_iff)
  have "b \<noteq> a1" "b \<noteq> a"
    using add_chk_unat(1) [OF *(2)] assms(2) by (auto simp: apart_def)
  with * show ?thesis by (simp add: rd_wr [OF *(3)] rd_wr [OF *(1)])
qed

lemma read_write16_other:
  assumes "le_write16 wr s a v = Some t" "apart a 2 b 2"
  shows "le_read16 rd t b = le_read16 rd s b"
proof (cases "add_chk b 1")
  case (Some b1)
  then have "apart a 2 b 1" "apart a 2 b1 1"
    using assms(2) add_chk_unat(1) [OF Some] by (auto simp: apart_def)
  with Some assms(1) show ?thesis by (simp add: le_read16_def read_write16_byte)
qed (simp add: le_read16_def)

lemma read_write32:
  assumes "le_write32 wr s a v = Some t"
  shows "le_read32 rd t a = Some v"
proof -
  obtain s1 a2 where *: "le_write16 wr s a (ucast v) = Some s1" "add_chk a 2 = Some a2"
    "le_write16 wr s1 a2 (ucast (drop_bit 16 v)) = Some t"
    using assms by (auto simp: le_write32_def bind_Some_iff)
  have "apart a2 2 a 2" using add_chk_unat(1) [OF *(2)] by (simp add: apart_def)
  with * show ?thesis
    by (simp add: le_read32_def read_write16 [OF *(3)] read_write16 [OF *(1)]
        read_write16_other [OF *(3)] le32_join)
qed

lemma read_write32_byte:
  assumes "le_write32 wr s a v = Some t" "apart a 4 b 1"
  shows "rd t b = rd s b"
proof -
  obtain s1 a2 where *: "le_write16 wr s a (ucast v) = Some s1" "add_chk a 2 = Some a2"
    "le_write16 wr s1 a2 (ucast (drop_bit 16 v)) = Some t"
    using assms by (auto simp: le_write32_def bind_Some_iff)
  have "apart a 2 b 1" "apart a2 2 b 1"
    using add_chk_unat(1) [OF *(2)] assms(2) by (auto simp: apart_def)
  then show ?thesis by (simp add: read_write16_byte [OF *(1)] read_write16_byte [OF *(3)])
qed

lemma read16_cong:
  assumes "\<And>c. unat c = unat b \<or> unat c = unat b + 1 \<Longrightarrow> rd t c = rd s c"
  shows "le_read16 rd t b = le_read16 rd s b"
proof (cases "add_chk b 1")
  case (Some b1)
  with add_chk_unat(1) [OF Some] assms [of b1] assms [of b] show ?thesis by (simp add: le_read16_def)
qed (simp add: le_read16_def)

lemma read32_cong:
  assumes "\<And>c. unat b \<le> unat c \<and> unat c < unat b + 4 \<Longrightarrow> rd t c = rd s c"
  shows "le_read32 rd t b = le_read32 rd s b"
proof (cases "add_chk b 2")
  case (Some b2)
  have "le_read16 rd t b = le_read16 rd s b" "le_read16 rd t b2 = le_read16 rd s b2"
    using add_chk_unat(1) [OF Some] assms by (auto intro!: read16_cong)
  with Some show ?thesis by (simp add: le_read32_def)
qed (simp add: le_read32_def)

lemma read_write32_other:
  assumes "le_write32 wr s a v = Some t" "apart a 4 b 4"
  shows "le_read32 rd t b = le_read32 rd s b"
  using assms by (intro read32_cong read_write32_byte [OF assms(1)]) (auto simp: apart_def)

end

interpretation flat: byte_store mem_read_u8 mem_write_u8 data_len
  by unfold_locales (auto simp: mem_read_u8_def mem_write_u8_def split: if_splits)

lemma mem_word_le:
  "mem_read_u16 = le_read16 mem_read_u8" "mem_write_u16 = le_write16 mem_write_u8"
  "mem_read_u32 = le_read32 mem_read_u8" "mem_write_u32 = le_write32 mem_write_u8"
  by (simp_all add: fun_eq_iff mem_read_u16_def le_read16_def mem_write_u16_def le_write16_def
      mem_read_u32_def le_read32_def mem_write_u32_def le_write32_def)

lemma word16_lt: "unat (x :: u16) < 65536"
  using unsigned_less [where 'a = nat, of x] by simp

section \<open>The MMU never panics on a full-size memory\<close>

text \<open>
  Every segment:offset pair lies below 0x10FFF0, so a memory of that size plus the bytes of the
  widest access makes every MMU access succeed; \<open>MMU::default\<close> has 4 MiB.
\<close>

definition mmu_ok :: "MMU \<Rightarrow> bool" where
  "mmu_ok u \<longleftrightarrow> 0x10FFF3 \<le> data_len (memory u) \<and> data_len (memory u) \<le> 2 ^ 32"

definition lin :: "u16 \<Rightarrow> u16 \<Rightarrow> u32" where
  "lin seg off = push_bit 4 (ucast seg) + ucast off"

lemma unat_shl4: "unat (push_bit 4 (ucast seg :: u32)) = 16 * unat seg" for seg :: u16
proof -
  have "unat (push_bit 4 (ucast seg :: u32)) = take_bit 32 (push_bit 4 (take_bit 32 (unat seg)))"
    by (simp only: unsigned_push_bit_eq unsigned_ucast_eq) simp
  then show ?thesis using word16_lt [of seg] by (simp add: take_bit_eq_mod push_bit_eq_mult)
qed

lemma unat_lin: "unat (lin seg off) = 16 * unat seg + unat off"
proof -
  have s: "unat seg < 65536" "unat off < 65536"
    using word16_lt [of seg] word16_lt [of off] by simp_all
  have "unat (ucast off :: u32) = unat off"
    using s by (simp add: unsigned_ucast_eq take_bit_nat_eq_self)
  then show ?thesis using s unat_shl4 [of seg] by (simp add: lin_def unat_word_ariths)
qed

lemma lin_bound: "unat (lin seg off) \<le> 0x10FFEF"
  using unat_lin [of seg off] word16_lt [of seg] word16_lt [of off] by simp

lemma addr_value_real: "addr_value (RealSegmentOffset seg off) = Some (lin seg off)"
proof -
  have s: "unat seg < 65536" "unat off < 65536"
    using word16_lt [of seg] word16_lt [of off] by simp_all
  have "unat (ucast off :: u32) = unat off"
    using s by (simp add: unsigned_ucast_eq take_bit_nat_eq_self)
  then show ?thesis using s unat_shl4 [of seg] by (simp add: lin_def add_chk_less)
qed

declare addr_value.simps(1) [simp del]

definition peek8 :: "MMU \<Rightarrow> u16 \<Rightarrow> u16 \<Rightarrow> u8" where "peek8 u s o' = the (mmu_read_u8 u s o')"
definition peek16 :: "MMU \<Rightarrow> u16 \<Rightarrow> u16 \<Rightarrow> u16" where "peek16 u s o' = the (mmu_read_u16 u s o')"
definition peek32 :: "MMU \<Rightarrow> u16 \<Rightarrow> u16 \<Rightarrow> u32" where "peek32 u s o' = the (mmu_read_u32 u s o')"
definition poke8 :: "MMU \<Rightarrow> u16 \<Rightarrow> u16 \<Rightarrow> u8 \<Rightarrow> MMU" where "poke8 u s o' v = the (mmu_write_u8 u s o' v)"
definition poke16 :: "MMU \<Rightarrow> u16 \<Rightarrow> u16 \<Rightarrow> u16 \<Rightarrow> MMU" where "poke16 u s o' v = the (mmu_write_u16 u s o' v)"
definition poke32 :: "MMU \<Rightarrow> u16 \<Rightarrow> u16 \<Rightarrow> u32 \<Rightarrow> MMU" where "poke32 u s o' v = the (mmu_write_u32 u s o' v)"

lemma mmu_read8 [simp]: "mmu_ok u \<Longrightarrow> mmu_read_u8 u s o' = Some (peek8 u s o')"
  using lin_bound [of s o']
  by (auto simp: mmu_ok_def mmu_read_u8_def addr_value_real peek8_def mem_read_u8_def)

lemma mmu_read16 [simp]: "mmu_ok u \<Longrightarrow> mmu_read_u16 u s o' = Some (peek16 u s o')"
  using lin_bound [of s o'] flat.read16_defined [of "lin s o'" "memory u"]
  by (auto simp: mmu_ok_def mmu_read_u16_def addr_value_real peek16_def mem_word_le)

lemma mmu_read32 [simp]: "mmu_ok u \<Longrightarrow> mmu_read_u32 u s o' = Some (peek32 u s o')"
  using lin_bound [of s o'] flat.read32_defined [of "lin s o'" "memory u"]
  by (auto simp: mmu_ok_def mmu_read_u32_def addr_value_real peek32_def mem_word_le)

lemma mmu_write8 [simp]: "mmu_ok u \<Longrightarrow> mmu_write_u8 u s o' v = Some (poke8 u s o' v)"
  using lin_bound [of s o']
  by (auto simp: mmu_ok_def mmu_write_u8_def addr_value_real poke8_def mem_write_u8_def upd_memory_def)

lemma mmu_write16 [simp]: "mmu_ok u \<Longrightarrow> mmu_write_u16 u s o' v = Some (poke16 u s o' v)"
  using lin_bound [of s o'] flat.write16_defined [of "lin s o'" "memory u" v]
  by (auto simp: mmu_ok_def mmu_write_u16_def addr_value_real poke16_def mem_word_le upd_memory_def)

lemma mmu_write32 [simp]: "mmu_ok u \<Longrightarrow> mmu_write_u32 u s o' v = Some (poke32 u s o' v)"
  using lin_bound [of s o'] flat.write32_defined [of "lin s o'" "memory u" v]
  by (auto simp: mmu_ok_def mmu_write_u32_def addr_value_real poke32_def mem_word_le upd_memory_def)

lemma upd_memory_Some: "upd_memory u r = Some t \<longleftrightarrow> (\<exists>m. r = Some m \<and> t = u\<lparr>memory := m\<rparr>)"
  by (auto simp: upd_memory_def)

lemma poke_memory:
  assumes "mmu_ok u"
  shows "mem_write_u8 (memory u) (lin s o') v8 = Some (memory (poke8 u s o' v8))"
    and "mem_write_u16 (memory u) (lin s o') v16 = Some (memory (poke16 u s o' v16))"
    and "mem_write_u32 (memory u) (lin s o') v32 = Some (memory (poke32 u s o' v32))"
  using mmu_write8 [OF assms, of s o' v8] mmu_write16 [OF assms, of s o' v16]
    mmu_write32 [OF assms, of s o' v32]
  by (auto simp: mmu_write_u8_def mmu_write_u16_def mmu_write_u32_def addr_value_real upd_memory_Some)

lemma poke_flags_address [simp]:
  assumes "mmu_ok u"
  shows "flags_address (poke8 u s o' v8) = flags_address u"
    and "flags_address (poke16 u s o' v16) = flags_address u"
    and "flags_address (poke32 u s o' v32) = flags_address u"
  using mmu_write8 [OF assms, of s o' v8] mmu_write16 [OF assms, of s o' v16]
    mmu_write32 [OF assms, of s o' v32]
  by (auto simp: mmu_write_u8_def mmu_write_u16_def mmu_write_u32_def addr_value_real upd_memory_Some)

lemma poke_ok [simp]:
  assumes "mmu_ok u"
  shows "mmu_ok (poke8 u s o' v8)" "mmu_ok (poke16 u s o' v16)" "mmu_ok (poke32 u s o' v32)"
  using assms poke_memory(1) [OF assms, of s o' v8] poke_memory(2) [OF assms, of s o' v16]
    poke_memory(3) [OF assms, of s o' v32]
    flat.wr_bytes flat.write16_bytes flat.write32_bytes
  by (auto simp: mmu_ok_def mem_word_le)

lemma peek_memory:
  assumes "mmu_ok u"
  shows "mem_read_u8 (memory u) (lin s o') = Some (peek8 u s o')"
    and "mem_read_u16 (memory u) (lin s o') = Some (peek16 u s o')"
    and "mem_read_u32 (memory u) (lin s o') = Some (peek32 u s o')"
  using mmu_read8 [OF assms, of s o'] mmu_read16 [OF assms, of s o'] mmu_read32 [OF assms, of s o']
  by (auto simp: mmu_read_u8_def mmu_read_u16_def mmu_read_u32_def addr_value_real)

text \<open>Reading after writing, at the same address and at an address out of reach of the write.\<close>

lemma peek_poke_same [simp]:
  assumes "mmu_ok u"
  shows "peek8 (poke8 u s o' v8) s o' = v8" "peek16 (poke16 u s o' v16) s o' = v16"
    "peek32 (poke32 u s o' v32) s o' = v32"
proof -
  show "peek8 (poke8 u s o' v8) s o' = v8"
    using flat.rd_wr [OF poke_memory(1) [OF assms, of s o' v8], of "lin s o'"]
      peek_memory(1) [OF poke_ok(1) [OF assms], of s o' v8 s o'] by simp
  show "peek16 (poke16 u s o' v16) s o' = v16"
    using flat.read_write16 [OF poke_memory(2) [OF assms, of s o' v16, unfolded mem_word_le]]
      peek_memory(2) [OF poke_ok(2) [OF assms], of s o' v16 s o'] by (simp add: mem_word_le)
  show "peek32 (poke32 u s o' v32) s o' = v32"
    using flat.read_write32 [OF poke_memory(3) [OF assms, of s o' v32, unfolded mem_word_le]]
      peek_memory(3) [OF poke_ok(3) [OF assms], of s o' v32 s o'] by (simp add: mem_word_le)
qed

definition seg_apart :: "u16 \<Rightarrow> u16 \<Rightarrow> nat \<Rightarrow> u16 \<Rightarrow> u16 \<Rightarrow> nat \<Rightarrow> bool" where
  "seg_apart s o' n t p m \<longleftrightarrow> apart (lin s o') n (lin t p) m"

lemma peek8_poke8_other:
  assumes "mmu_ok u" "seg_apart s o' 1 t p 1"
  shows "peek8 (poke8 u s o' v) t p = peek8 u t p"
  using flat.rd_wr [OF poke_memory(1) [OF assms(1)], of s o' v "lin t p"] assms(2)
    peek_memory(1) [OF poke_ok(1) [OF assms(1)], of s o' v t p] peek_memory(1) [OF assms(1), of t p]
  by (auto simp: seg_apart_def apart_def split: if_splits)

lemma peek8_poke16_other:
  assumes "mmu_ok u" "seg_apart s o' 2 t p 1"
  shows "peek8 (poke16 u s o' v) t p = peek8 u t p"
  using flat.read_write16_byte [OF poke_memory(2) [OF assms(1), of s o' v, unfolded mem_word_le], of "lin t p"]
    assms(2) peek_memory(1) [OF poke_ok(2) [OF assms(1)], of s o' v t p] peek_memory(1) [OF assms(1), of t p]
  by (simp add: seg_apart_def)

lemma peek16_poke16_other:
  assumes "mmu_ok u" "seg_apart s o' 2 t p 2"
  shows "peek16 (poke16 u s o' v) t p = peek16 u t p"
  using flat.read_write16_other [OF poke_memory(2) [OF assms(1), of s o' v, unfolded mem_word_le], of "lin t p"]
    assms(2) peek_memory(2) [OF poke_ok(2) [OF assms(1)], of s o' v t p] peek_memory(2) [OF assms(1), of t p]
  by (simp add: seg_apart_def mem_word_le)

lemma peek32_poke32_other:
  assumes "mmu_ok u" "seg_apart s o' 4 t p 4"
  shows "peek32 (poke32 u s o' v) t p = peek32 u t p"
  using flat.read_write32_other [OF poke_memory(3) [OF assms(1), of s o' v, unfolded mem_word_le], of "lin t p"]
    assms(2) peek_memory(3) [OF poke_ok(3) [OF assms(1)], of s o' v t p] peek_memory(3) [OF assms(1), of t p]
  by (simp add: seg_apart_def mem_word_le)

text \<open>Two pairs that name the same linear address see the same memory.\<close>

lemma peek_alias:
  assumes "lin s o' = lin t p"
  shows "peek8 u s o' = peek8 u t p" "peek16 u s o' = peek16 u t p" "peek32 u s o' = peek32 u t p"
  using assms
  by (simp_all add: peek8_def peek16_def peek32_def mmu_read_u8_def mmu_read_u16_def mmu_read_u32_def
      addr_value_real)

lemma mmu_default_ok: "mmu_ok MMU_default"
  by (simp add: mmu_ok_def MMU_default_def FlatMemory_new_def)

end
