(* ===== verification/X86_Cpu.thy ===== *)
theory X86_Cpu
  imports X86_Instr X86_Memory
begin

text \<open>
  The processor (\<open>dustbox/src/cpu/mod.rs\<close>): its state, the stack, operand access, interrupts, and
  the comparison and decimal-adjust helpers that several instructions share. Diagnostics behind
  the \<open>DEBUG_\<close> constants (all false) print only and are left out.
\<close>

unbundle bit_operations_syntax

section \<open>State\<close>

datatype Exception = DIV0 | UD | DF | TS | NP | SS | GP | PF

record CPU =
  instruction_count :: usize
  cycle_count :: usize
  regs :: RegisterState
  fatal_error :: bool
  deterministic :: bool
  decoder :: Decoder
  clock_hz :: usize

definition CPU_default :: CPU where
  "CPU_default = \<lparr>instruction_count = 0, cycle_count = 0, regs = RegisterState_default,
     fatal_error = False, deterministic = False, decoder = Decoder_default, clock_hz = 5000000\<rparr>"

definition CPU_deterministic :: CPU where
  "CPU_deterministic = CPU_default\<lparr>deterministic := True\<rparr>"

definition get_r8 :: "CPU \<Rightarrow> R \<Rightarrow> u8 option" where "get_r8 c r = rs_get_r8 (regs c) r"

definition set_r8 :: "CPU \<Rightarrow> R \<Rightarrow> u8 \<Rightarrow> CPU option" where
  "set_r8 c r v = map_option (\<lambda>s. c\<lparr>regs := s\<rparr>) (rs_set_r8 (regs c) r v)"

definition get_r16 :: "CPU \<Rightarrow> R \<Rightarrow> u16 option" where "get_r16 c r = rs_get_r16 (regs c) r"

definition set_r16 :: "CPU \<Rightarrow> R \<Rightarrow> u16 \<Rightarrow> CPU" where
  "set_r16 c r v = c\<lparr>regs := rs_set_r16 (regs c) r v\<rparr>"

definition get_r32 :: "CPU \<Rightarrow> R \<Rightarrow> u32 option" where "get_r32 c r = rs_get_r32 (regs c) r"

definition set_r32 :: "CPU \<Rightarrow> R \<Rightarrow> u32 \<Rightarrow> CPU option" where
  "set_r32 c r v = map_option (\<lambda>s. c\<lparr>regs := s\<rparr>) (rs_set_r32 (regs c) r v)"

text \<open>The instruction pointer and the flags, as the instructions assign them.\<close>

definition cpu_ip :: "CPU \<Rightarrow> u16" where "cpu_ip c = ip (regs c)"
definition set_ip :: "CPU \<Rightarrow> u16 \<Rightarrow> CPU" where "set_ip c v = c\<lparr>regs := (regs c)\<lparr>ip := v\<rparr>\<rparr>"
definition cpu_flags :: "CPU \<Rightarrow> Flags" where "cpu_flags c = flags (regs c)"
definition with_flags :: "CPU \<Rightarrow> Flags \<Rightarrow> CPU" where "with_flags c f = c\<lparr>regs := (regs c)\<lparr>flags := f\<rparr>\<rparr>"

text \<open>\<open>exception\<close> prints and leaves the processor as it is.\<close>

definition cpu_exception :: "CPU \<Rightarrow> Exception \<Rightarrow> usize \<Rightarrow> CPU" where
  "cpu_exception c which error = c"

section \<open>Comparison\<close>

definition cmp8 :: "CPU \<Rightarrow> usize \<Rightarrow> usize \<Rightarrow> CPU" where
  "cmp8 c dst src =
     (let res = dst - src;
          f = cpu_flags c;
          f = set_carry_u8 f res;
          f = set_overflow_sub_u8 f res src dst;
          f = set_sign_u8 f res;
          f = set_zero_u8 f res;
          f = set_adjust f res src dst;
          f = set_parity f res
      in with_flags c f)"

definition cmp16 :: "CPU \<Rightarrow> usize \<Rightarrow> usize \<Rightarrow> CPU" where
  "cmp16 c dst src =
     (let res = dst - src;
          f = cpu_flags c;
          f = set_carry_u16 f res;
          f = set_overflow_sub_u16 f res src dst;
          f = set_sign_u16 f res;
          f = set_zero_u16 f res;
          f = set_adjust f res src dst;
          f = set_parity f res
      in with_flags c f)"

definition cmp32 :: "CPU \<Rightarrow> usize \<Rightarrow> usize \<Rightarrow> CPU" where
  "cmp32 c dst src =
     (let res = dst - src;
          f = cpu_flags c;
          f = set_carry_u32 f res;
          f = set_overflow_sub_u32 f res src dst;
          f = set_sign_u32 f res;
          f = set_zero_u32 f res;
          f = set_adjust f res src dst;
          f = set_parity f res
      in with_flags c f)"

section \<open>Stack\<close>

definition push16 :: "CPU \<Rightarrow> MMU \<Rightarrow> u16 \<Rightarrow> (CPU \<times> MMU) option" where
  "push16 c u v = do {
     sp \<leftarrow> get_r16 c R.SP;
     let sp = sp - 2;
     let c = set_r16 c R.SP sp;
     ss \<leftarrow> get_r16 c R.SS;
     u \<leftarrow> mmu_write_u16 u ss sp v;
     Some (c, u)
   }"

definition push32 :: "CPU \<Rightarrow> MMU \<Rightarrow> u32 \<Rightarrow> (CPU \<times> MMU) option" where
  "push32 c u v = do {
     sp \<leftarrow> get_r16 c R.SP;
     let sp = sp - 4;
     let c = set_r16 c R.SP sp;
     ss \<leftarrow> get_r16 c R.SS;
     u \<leftarrow> mmu_write_u32 u ss sp v;
     Some (c, u)
   }"

definition pop16 :: "CPU \<Rightarrow> MMU \<Rightarrow> (u16 \<times> CPU) option" where
  "pop16 c u = do {
     ss \<leftarrow> get_r16 c R.SS;
     sp \<leftarrow> get_r16 c R.SP;
     v \<leftarrow> mmu_read_u16 u ss sp;
     let sp = sp + 2;
     Some (v, set_r16 c R.SP sp)
   }"

definition pop32 :: "CPU \<Rightarrow> MMU \<Rightarrow> (u32 \<times> CPU) option" where
  "pop32 c u = do {
     ss \<leftarrow> get_r16 c R.SS;
     sp \<leftarrow> get_r16 c R.SP;
     v \<leftarrow> mmu_read_u32 u ss sp;
     let sp = sp + 4;
     Some (v, set_r16 c R.SP sp)
   }"

section \<open>Addresses\<close>

definition get_memory_address :: "CPU \<Rightarrow> MemoryAddress option" where
  "get_memory_address c = do { cs \<leftarrow> get_r16 c R.CS; Some (RealSegmentOffset cs (cpu_ip c)) }"

definition get_address :: "CPU \<Rightarrow> u32 option" where
  "get_address c = do { a \<leftarrow> get_memory_address c; addr_value a }"

definition get_address_pair :: "CPU \<Rightarrow> (u16 \<times> u16) option" where
  "get_address_pair c = do { cs \<leftarrow> get_r16 c R.CS; Some (cs, cpu_ip c) }"

definition segment :: "CPU \<Rightarrow> Segment \<Rightarrow> u16 option" where
  "segment c seg = get_r16 c (as_register seg)"

definition execute_interrupt :: "CPU \<Rightarrow> MMU \<Rightarrow> u8 \<Rightarrow> (CPU \<times> MMU) option" where
  "execute_interrupt c u vec = do {
     let flags = flags_u16 (cpu_flags c);
     (c, u) \<leftarrow> push16 c u flags;
     ss \<leftarrow> get_r16 c R.SS;
     sp \<leftarrow> get_r16 c R.SP;
     let u = u\<lparr>flags_address := RealSegmentOffset ss sp\<rparr>;
     let c = with_flags c ((cpu_flags c)\<lparr>interrupt := False\<rparr>);
     let c = with_flags c ((cpu_flags c)\<lparr>trap := False\<rparr>);
     (cs, ip) \<leftarrow> get_address_pair c;
     (c, u) \<leftarrow> push16 c u cs;
     (c, u) \<leftarrow> push16 c u ip;
     let base = 0;
     let idx = push_bit 2 (ucast vec :: u16);
     ip \<leftarrow> mmu_read_u16 u base idx;
     idx2 \<leftarrow> add_chk idx 2;
     cs \<leftarrow> mmu_read_u16 u base idx2;
     let c = set_ip c ip;
     Some (set_r16 c R.CS cs, u)
   }"

section \<open>Instruction stream readers\<close>

definition cpu_read_u8 :: "CPU \<Rightarrow> MMU \<Rightarrow> (u8 \<times> CPU) option" where
  "cpu_read_u8 c u = do {
     (seg, off) \<leftarrow> get_address_pair c;
     b \<leftarrow> mmu_read_u8 u seg off;
     ip \<leftarrow> add_chk (cpu_ip c) 1;
     Some (b, set_ip c ip)
   }"

definition cpu_read_u16 :: "CPU \<Rightarrow> MMU \<Rightarrow> (u16 \<times> CPU) option" where
  "cpu_read_u16 c u = do {
     (lo, c) \<leftarrow> cpu_read_u8 c u;
     (hi, c) \<leftarrow> cpu_read_u8 c u;
     Some (push_bit 8 (ucast hi) OR ucast lo, c)
   }"

definition cpu_read_s8 :: "CPU \<Rightarrow> MMU \<Rightarrow> (i8 \<times> CPU) option" where
  "cpu_read_s8 c u = cpu_read_u8 c u"

definition cpu_read_s16 :: "CPU \<Rightarrow> MMU \<Rightarrow> (i16 \<times> CPU) option" where
  "cpu_read_s16 c u = cpu_read_u16 c u"

definition cpu_read_rel8 :: "CPU \<Rightarrow> MMU \<Rightarrow> (u16 \<times> CPU) option" where
  "cpu_read_rel8 c u = do {
     (val, c) \<leftarrow> cpu_read_u8 c u;
     t \<leftarrow> sadd_chk (cpu_ip c :: i16) (scast (val :: i8));
     Some (t, c)
   }"

definition cpu_read_rel16 :: "CPU \<Rightarrow> MMU \<Rightarrow> (u16 \<times> CPU) option" where
  "cpu_read_rel16 c u = do {
     (val, c) \<leftarrow> cpu_read_u16 c u;
     t \<leftarrow> sadd_chk (cpu_ip c :: i16) val;
     Some (t, c)
   }"

section \<open>Operands\<close>

definition get_amode_addr :: "CPU \<Rightarrow> AMode \<Rightarrow> (u16 \<times> u16) option" where
  "get_amode_addr c a = (case a of
     AMode.BX \<Rightarrow> do { s \<leftarrow> get_r16 c R.DS; off \<leftarrow> get_r16 c R.BX; Some (s, off) }
   | AMode.BP \<Rightarrow> do { s \<leftarrow> get_r16 c R.SS; off \<leftarrow> get_r16 c R.BP; Some (s, off) }
   | AMode.SI \<Rightarrow> do { s \<leftarrow> get_r16 c R.DS; off \<leftarrow> get_r16 c R.SI; Some (s, off) }
   | AMode.DI \<Rightarrow> do { s \<leftarrow> get_r16 c R.DS; off \<leftarrow> get_r16 c R.DI; Some (s, off) }
   | AMode.BXSI \<Rightarrow> do { s \<leftarrow> get_r16 c R.DS; b \<leftarrow> get_r16 c R.BX; i \<leftarrow> get_r16 c R.SI; Some (s, b + i) }
   | AMode.BXDI \<Rightarrow> do { s \<leftarrow> get_r16 c R.DS; b \<leftarrow> get_r16 c R.BX; i \<leftarrow> get_r16 c R.DI; Some (s, b + i) }
   | AMode.BPSI \<Rightarrow> do { s \<leftarrow> get_r16 c R.SS; b \<leftarrow> get_r16 c R.BP; i \<leftarrow> get_r16 c R.SI; Some (s, b + i) }
   | AMode.BPDI \<Rightarrow> do { s \<leftarrow> get_r16 c R.SS; b \<leftarrow> get_r16 c R.BP; i \<leftarrow> get_r16 c R.DI; Some (s, b + i) }
   | _ \<Rightarrow> None)"

definition amode :: "CPU \<Rightarrow> AMode \<Rightarrow> usize option" where
  "amode c a = (case a of
     AMode.BXSI \<Rightarrow> do { b \<leftarrow> get_r16 c R.BX; i \<leftarrow> get_r16 c R.SI; Some (ucast (b + i)) }
   | AMode.BXDI \<Rightarrow> do { b \<leftarrow> get_r16 c R.BX; i \<leftarrow> get_r16 c R.DI; Some (ucast (b + i)) }
   | AMode.BPSI \<Rightarrow> do { b \<leftarrow> get_r16 c R.BP; i \<leftarrow> get_r16 c R.SI; Some (ucast (b + i)) }
   | AMode.BPDI \<Rightarrow> do { b \<leftarrow> get_r16 c R.BP; i \<leftarrow> get_r16 c R.DI; Some (ucast (b + i)) }
   | AMode.SI \<Rightarrow> map_option ucast (get_r16 c R.SI)
   | AMode.DI \<Rightarrow> map_option ucast (get_r16 c R.DI)
   | AMode.BP \<Rightarrow> map_option ucast (get_r16 c R.BP)
   | AMode.BX \<Rightarrow> map_option ucast (get_r16 c R.BX)
   | AMode.EAX \<Rightarrow> map_option ucast (get_r32 c R.EAX)
   | AMode.ECX \<Rightarrow> map_option ucast (get_r32 c R.ECX)
   | AMode.EDX \<Rightarrow> map_option ucast (get_r32 c R.EDX)
   | AMode.EBX \<Rightarrow> map_option ucast (get_r32 c R.EBX)
   | AMode.ESP \<Rightarrow> map_option ucast (get_r32 c R.ESP)
   | AMode.EBP \<Rightarrow> map_option ucast (get_r32 c R.EBP)
   | AMode.ESI \<Rightarrow> map_option ucast (get_r32 c R.ESI)
   | AMode.EDI \<Rightarrow> map_option ucast (get_r32 c R.EDI))"

definition read_segment_selector :: "CPU \<Rightarrow> MMU \<Rightarrow> Parameter \<Rightarrow> (u16 \<times> u16) option" where
  "read_segment_selector c u p = do {
     (seg, off) \<leftarrow> (case p of
         Ptr16 seg imm \<Rightarrow> do { s \<leftarrow> segment c seg; Some (s, imm) }
       | Ptr16Amode _ a \<Rightarrow> get_amode_addr c a
       | Ptr16AmodeS8 _ a imms \<Rightarrow> do {
           (seg, off) \<leftarrow> get_amode_addr c a;
           t \<leftarrow> sadd_chk (ucast off :: i32) (scast imms);
           Some (seg, ucast t) }
       | _ \<Rightarrow> None);
     o_val \<leftarrow> mmu_read_u16 u seg off;
     off2 \<leftarrow> add_chk off 2;
     s_val \<leftarrow> mmu_read_u16 u seg off2;
     Some (s_val, o_val)
   }"

definition read_parameter_address :: "CPU \<Rightarrow> Parameter \<Rightarrow> usize option" where
  "read_parameter_address c p = (case p of
     Ptr16Amode _ a \<Rightarrow> amode c a
   | Ptr16AmodeS8 _ a imm \<Rightarrow> map_option (\<lambda>x. x + scast imm) (amode c a)
   | Ptr16AmodeS16 _ a imm \<Rightarrow> map_option (\<lambda>x. x + scast imm) (amode c a)
   | Ptr16 _ imm \<Rightarrow> Some (ucast imm)
   | _ \<Rightarrow> None)"

definition read_parameter_imm :: "Parameter \<Rightarrow> usize option" where
  "read_parameter_imm p = (case p of
     Imm8 imm \<Rightarrow> Some (ucast imm) | Imm16 imm \<Rightarrow> Some (ucast imm) | ImmS8 imm \<Rightarrow> Some (scast imm)
   | _ \<Rightarrow> None)"

text \<open>
  The segment and offset of a memory operand: the base from the addressing mode, truncated to 16
  bits, plus the sign-extended displacement, wrapping.
\<close>

definition offset_amode :: "CPU \<Rightarrow> Segment \<Rightarrow> AMode \<Rightarrow> (u16 \<times> u16) option" where
  "offset_amode c seg a = do { s \<leftarrow> segment c seg; x \<leftarrow> amode c a; Some (s, ucast x) }"

definition offset_amode_s8 :: "CPU \<Rightarrow> Segment \<Rightarrow> AMode \<Rightarrow> i8 \<Rightarrow> (u16 \<times> u16) option" where
  "offset_amode_s8 c seg a imm = do {
     s \<leftarrow> segment c seg; x \<leftarrow> amode c a; Some (s, ucast x + scast imm) }"

definition offset_amode_s16 :: "CPU \<Rightarrow> Segment \<Rightarrow> AMode \<Rightarrow> i16 \<Rightarrow> (u16 \<times> u16) option" where
  "offset_amode_s16 c seg a imm = do {
     s \<leftarrow> segment c seg; x \<leftarrow> amode c a; Some (s, ucast x + imm) }"

definition read_parameter_value :: "CPU \<Rightarrow> MMU \<Rightarrow> Parameter \<Rightarrow> usize option" where
  "read_parameter_value c u p = (case p of
     Imm8 imm \<Rightarrow> Some (ucast imm)
   | Imm16 imm \<Rightarrow> Some (ucast imm)
   | Imm32 imm \<Rightarrow> Some (ucast imm)
   | ImmS8 imm \<Rightarrow> Some (scast imm)
   | Reg8 r \<Rightarrow> map_option ucast (get_r8 c r)
   | Reg16 r \<Rightarrow> map_option ucast (get_r16 c r)
   | Reg32 r \<Rightarrow> map_option ucast (get_r32 c r)
   | SReg16 r \<Rightarrow> map_option ucast (get_r16 c r)
   | Ptr8 seg imm \<Rightarrow> do { s \<leftarrow> segment c seg; v \<leftarrow> mmu_read_u8 u s imm; Some (ucast v) }
   | Ptr8Amode seg a \<Rightarrow> do { (s, off) \<leftarrow> offset_amode c seg a; v \<leftarrow> mmu_read_u8 u s off; Some (ucast v) }
   | Ptr8AmodeS8 seg a imm \<Rightarrow> do {
       (s, off) \<leftarrow> offset_amode_s8 c seg a imm; v \<leftarrow> mmu_read_u8 u s off; Some (ucast v) }
   | Ptr8AmodeS16 seg a imm \<Rightarrow> do {
       (s, off) \<leftarrow> offset_amode_s16 c seg a imm; v \<leftarrow> mmu_read_u8 u s off; Some (ucast v) }
   | Ptr16 seg imm \<Rightarrow> do { s \<leftarrow> segment c seg; v \<leftarrow> mmu_read_u16 u s imm; Some (ucast v) }
   | Ptr16Amode seg a \<Rightarrow> do { (s, off) \<leftarrow> offset_amode c seg a; v \<leftarrow> mmu_read_u16 u s off; Some (ucast v) }
   | Ptr16AmodeS8 seg a imm \<Rightarrow> do {
       (s, off) \<leftarrow> offset_amode_s8 c seg a imm; v \<leftarrow> mmu_read_u16 u s off; Some (ucast v) }
   | Ptr16AmodeS16 seg a imm \<Rightarrow> do {
       (s, off) \<leftarrow> offset_amode_s16 c seg a imm; v \<leftarrow> mmu_read_u16 u s off; Some (ucast v) }
   | Ptr32 seg off \<Rightarrow> do { s \<leftarrow> segment c seg; v \<leftarrow> mmu_read_u32 u s off; Some (ucast v) }
   | Ptr32Amode seg a \<Rightarrow> do { (s, off) \<leftarrow> offset_amode c seg a; v \<leftarrow> mmu_read_u32 u s off; Some (ucast v) }
   | Ptr32AmodeS8 seg a imm \<Rightarrow> do {
       (s, off) \<leftarrow> offset_amode_s8 c seg a imm; v \<leftarrow> mmu_read_u32 u s off; Some (ucast v) }
   | _ \<Rightarrow> None)"

text \<open>Writing to a memory operand leaves the processor as it is.\<close>

definition keep_cpu :: "CPU \<Rightarrow> MMU option \<Rightarrow> (CPU \<times> MMU) option" where
  "keep_cpu c r = map_option (\<lambda>u. (c, u)) r"

definition write_parameter_u8 :: "CPU \<Rightarrow> MMU \<Rightarrow> Parameter \<Rightarrow> u8 \<Rightarrow> (CPU \<times> MMU) option" where
  "write_parameter_u8 c u p v = (case p of
     Reg8 r \<Rightarrow> do { c \<leftarrow> set_r8 c r v; Some (c, u) }
   | Ptr8 seg off \<Rightarrow> do { s \<leftarrow> segment c seg; keep_cpu c (mmu_write_u8 u s off v) }
   | Ptr8Amode seg a \<Rightarrow> do { (s, off) \<leftarrow> offset_amode c seg a; keep_cpu c (mmu_write_u8 u s off v) }
   | Ptr8AmodeS8 seg a imm \<Rightarrow> do {
       (s, off) \<leftarrow> offset_amode_s8 c seg a imm; keep_cpu c (mmu_write_u8 u s off v) }
   | Ptr8AmodeS16 seg a imm \<Rightarrow> do {
       (s, off) \<leftarrow> offset_amode_s16 c seg a imm; keep_cpu c (mmu_write_u8 u s off v) }
   | _ \<Rightarrow> None)"

definition write_parameter_u16 :: "CPU \<Rightarrow> MMU \<Rightarrow> Segment \<Rightarrow> Parameter \<Rightarrow> u16 \<Rightarrow> (CPU \<times> MMU) option" where
  "write_parameter_u16 c u sgm p v = (case p of
     Reg16 r \<Rightarrow> Some (set_r16 c r v, u)
   | SReg16 r \<Rightarrow> Some (set_r16 c r v, u)
   | Imm16 imm \<Rightarrow> do { s \<leftarrow> segment c sgm; keep_cpu c (mmu_write_u16 u s imm v) }
   | Ptr16 seg off \<Rightarrow> do { s \<leftarrow> segment c seg; keep_cpu c (mmu_write_u16 u s off v) }
   | Ptr16Amode seg a \<Rightarrow> do { (s, off) \<leftarrow> offset_amode c seg a; keep_cpu c (mmu_write_u16 u s off v) }
   | Ptr16AmodeS8 seg a imm \<Rightarrow> do {
       (s, off) \<leftarrow> offset_amode_s8 c seg a imm; keep_cpu c (mmu_write_u16 u s off v) }
   | Ptr16AmodeS16 seg a imm \<Rightarrow> do {
       (s, off) \<leftarrow> offset_amode_s16 c seg a imm; keep_cpu c (mmu_write_u16 u s off v) }
   | _ \<Rightarrow> None)"

definition write_parameter_u32 :: "CPU \<Rightarrow> MMU \<Rightarrow> Segment \<Rightarrow> Parameter \<Rightarrow> u32 \<Rightarrow> (CPU \<times> MMU) option" where
  "write_parameter_u32 c u sgm p v = (case p of
     Reg32 r \<Rightarrow> do { c \<leftarrow> set_r32 c r v; Some (c, u) }
   | Ptr32 seg off \<Rightarrow> do { s \<leftarrow> segment c seg; keep_cpu c (mmu_write_u32 u s off v) }
   | Ptr32Amode seg a \<Rightarrow> do { (s, off) \<leftarrow> offset_amode c seg a; keep_cpu c (mmu_write_u32 u s off v) }
   | Ptr32AmodeS8 seg a imm \<Rightarrow> do {
       (s, off) \<leftarrow> offset_amode_s8 c seg a imm; keep_cpu c (mmu_write_u32 u s off v) }
   | Ptr32AmodeS16 seg a imm \<Rightarrow> do {
       (s, off) \<leftarrow> offset_amode_s16 c seg a imm; keep_cpu c (mmu_write_u32 u s off v) }
   | _ \<Rightarrow> None)"

section \<open>Decimal adjustment\<close>

definition adjb :: "CPU \<Rightarrow> i8 \<Rightarrow> i8 \<Rightarrow> CPU option" where
  "adjb c param1 param2 = do {
     al0 \<leftarrow> get_r8 c R.AL;
     c \<leftarrow> (if adjust (cpu_flags c) \<or> al0 AND 0xF > 9
       then do {
         al \<leftarrow> sadd_chk (ucast al0 :: i16) (scast param1);
         ah0 \<leftarrow> get_r8 c R.AH;
         ah \<leftarrow> sadd_chk (ucast ah0 :: i16) (scast param2);
         c \<leftarrow> set_r8 c R.AL (ucast al);
         c \<leftarrow> set_r8 c R.AH (ucast ah);
         Some (with_flags c ((cpu_flags c)\<lparr>adjust := True, carry := True\<rparr>))
       }
       else Some (with_flags c ((cpu_flags c)\<lparr>adjust := False, carry := False\<rparr>)));
     al \<leftarrow> get_r8 c R.AL;
     set_r8 c R.AL (al AND 0x0F)
   }"

definition adj4 :: "CPU \<Rightarrow> i16 \<Rightarrow> i16 \<Rightarrow> CPU option" where
  "adj4 c param1 param2 = do {
     al \<leftarrow> get_r8 c R.AL;
     let f = cpu_flags c;
     (al, f) \<leftarrow> (if al AND 0x0F > 0x09 \<or> adjust f
       then do {
         (al, f) \<leftarrow> (if al > 0x99 \<or> carry f
           then do { t \<leftarrow> sadd_chk (ucast al :: i16) param2; Some (ucast t, f\<lparr>carry := True\<rparr>) }
           else Some (al, f\<lparr>carry := False\<rparr>));
         t \<leftarrow> sadd_chk (ucast al :: i16) param1;
         Some (ucast t, f\<lparr>adjust := True\<rparr>)
       }
       else do {
         (al, f) \<leftarrow> (if al > 0x99 \<or> carry f
           then do { t \<leftarrow> sadd_chk (ucast al :: i16) param2; Some (ucast t, f\<lparr>carry := True\<rparr>) }
           else Some (al, f\<lparr>carry := False\<rparr>));
         Some (al, f\<lparr>adjust := False\<rparr>)
       });
     c \<leftarrow> set_r8 (with_flags c f) R.AL al;
     let f = (cpu_flags c)\<lparr>sign := al AND 0x80 \<noteq> 0, zero := al = 0\<rparr>;
     Some (with_flags c (set_parity f (ucast al)))
   }"

section \<open>Reading registers of an updated processor\<close>

lemma names16_mem [simp]:
  "R.AX \<in> names16" "R.CX \<in> names16" "R.DX \<in> names16" "R.BX \<in> names16" "R.SP \<in> names16"
  "R.BP \<in> names16" "R.SI \<in> names16" "R.DI \<in> names16" "R.ES \<in> names16" "R.CS \<in> names16"
  "R.SS \<in> names16" "R.DS \<in> names16" "R.FS \<in> names16" "R.GS \<in> names16"
  by (simp_all add: names16_def)

lemma names8_mem [simp]:
  "R.AL \<in> names8" "R.CL \<in> names8" "R.DL \<in> names8" "R.BL \<in> names8"
  "R.AH \<in> names8" "R.CH \<in> names8" "R.DH \<in> names8" "R.BH \<in> names8"
  by (simp_all add: names8_def)

lemma names32_mem [simp]:
  "R.EAX \<in> names32" "R.ECX \<in> names32" "R.EDX \<in> names32" "R.EBX \<in> names32"
  "R.ESP \<in> names32" "R.EBP \<in> names32" "R.ESI \<in> names32" "R.EDI \<in> names32"
  by (simp_all add: names32_def)

lemma as_register_mem [simp]: "as_register s \<in> names16"
  by (cases s) (simp_all add: as_register_def)

definition r8v :: "CPU \<Rightarrow> R \<Rightarrow> u8" where "r8v c r = reg8 (regs c) r"
definition r16v :: "CPU \<Rightarrow> R \<Rightarrow> u16" where "r16v c r = reg16 (regs c) r"
definition r32v :: "CPU \<Rightarrow> R \<Rightarrow> u32" where "r32v c r = reg32 (regs c) r"
definition w8 :: "CPU \<Rightarrow> R \<Rightarrow> u8 \<Rightarrow> CPU" where "w8 c r v = the (set_r8 c r v)"
definition w32 :: "CPU \<Rightarrow> R \<Rightarrow> u32 \<Rightarrow> CPU" where "w32 c r v = the (set_r32 c r v)"

lemma getters [simp]:
  "r \<in> names8 \<Longrightarrow> get_r8 c r = Some (r8v c r)"
  "r \<in> names16 \<Longrightarrow> get_r16 c r = Some (r16v c r)"
  "r \<in> names32 \<Longrightarrow> get_r32 c r = Some (r32v c r)"
  "r \<in> names8 \<Longrightarrow> set_r8 c r v = Some (w8 c r v)"
  "r \<in> names32 \<Longrightarrow> set_r32 c r v32 = Some (w32 c r v32)"
  by (simp_all add: get_r8_def get_r16_def get_r32_def set_r8_def set_r32_def w8_def w32_def
      r8v_def r16v_def r32v_def rs_get_r8_Some rs_get_r16_Some rs_get_r32_Some
      rs_set_r8_Some rs_set_r32_Some)

lemma regs_set:
  "r \<in> names8 \<Longrightarrow> w8 c r v8 = c\<lparr>regs := put8 (regs c) r v8\<rparr>"
  "r \<in> names32 \<Longrightarrow> w32 c r v32 = c\<lparr>regs := put32 (regs c) r v32\<rparr>"
  by (simp_all add: w8_def w32_def set_r8_def set_r32_def rs_set_r8_Some rs_set_r32_Some)

lemma reg_set_same_width [simp]:
  "r \<in> names8 \<Longrightarrow> r' \<in> names8 \<Longrightarrow> r8v (w8 c r v8) r' = (if r' = r then v8 else r8v c r')"
  "r \<in> names16 \<Longrightarrow> r' \<in> names16 \<Longrightarrow> r16v (set_r16 c r v16) r' = (if r' = r then v16 else r16v c r')"
  "r \<in> names32 \<Longrightarrow> r' \<in> names32 \<Longrightarrow> r32v (w32 c r v32) r' = (if r' = r then v32 else r32v c r')"
  by (simp_all add: r8v_def r16v_def r32v_def regs_set set_r16_def bank8.get_put bank16.get_put
      bank32.get_put)

text \<open>The instruction pointer and the flags are no part of the register bank.\<close>

lemma put_frame:
  "r \<in> names8 \<Longrightarrow> ip (put8 s r v8) = ip s" "r \<in> names8 \<Longrightarrow> flags (put8 s r v8) = flags s"
  "ip (rs_set_r16 s r v16) = ip s" "flags (rs_set_r16 s r v16) = flags s"
  "r \<in> names32 \<Longrightarrow> ip (put32 s r v32) = ip s" "r \<in> names32 \<Longrightarrow> flags (put32 s r v32) = flags s"
  by (auto simp: cell8 cell32 rs_set_r16_def upd_gpr_def upd_sreg_def split: R.split)

lemma ip_flags_set [simp]:
  "r \<in> names8 \<Longrightarrow> cpu_ip (w8 c r v8) = cpu_ip c" "r \<in> names8 \<Longrightarrow> cpu_flags (w8 c r v8) = cpu_flags c"
  "cpu_ip (set_r16 c r' v16) = cpu_ip c" "cpu_flags (set_r16 c r' v16) = cpu_flags c"
  "s \<in> names32 \<Longrightarrow> cpu_ip (w32 c s v32) = cpu_ip c"
  "s \<in> names32 \<Longrightarrow> cpu_flags (w32 c s v32) = cpu_flags c"
  "cpu_ip (set_ip c i) = i" "cpu_flags (set_ip c i) = cpu_flags c"
  "cpu_ip (with_flags c f) = cpu_ip c" "cpu_flags (with_flags c f) = f"
  by (simp_all add: cpu_ip_def cpu_flags_def set_ip_def with_flags_def set_r16_def regs_set put_frame)

lemma reg_ip_flags [simp]:
  "r8v (set_ip c i) r = r8v c r" "r8v (with_flags c f) r = r8v c r"
  "r' \<in> names16 \<Longrightarrow> r16v (set_ip c i) r' = r16v c r'" "r16v (with_flags c f) r' = r16v c r'"
  "r32v (set_ip c i) r = r32v c r" "r32v (with_flags c f) r = r32v c r"
  by (auto simp: r8v_def r16v_def r32v_def set_ip_def with_flags_def rs_defs names16_def split: R.split)

lemma with_flags_twice [simp]:
  "with_flags (with_flags c f) g = with_flags c g" "with_flags c (cpu_flags c) = c"
  by (simp_all add: with_flags_def cpu_flags_def)

lemma cpu_frame [simp]:
  "decoder (set_r16 c r' v16) = decoder c" "decoder (set_ip c i) = decoder c"
  "decoder (with_flags c f) = decoder c"
  "fatal_error (set_r16 c r' v16) = fatal_error c" "fatal_error (set_ip c i) = fatal_error c"
  "fatal_error (with_flags c f) = fatal_error c"
  by (simp_all add: set_r16_def set_ip_def with_flags_def)

lemma segment_some [simp]: "segment c s = Some (r16v c (as_register s))"
  by (simp add: segment_def)

lemma amode_some: "\<exists>x. amode c a = Some x"
  by (cases a) (simp_all add: amode_def)

section \<open>The stack\<close>

text \<open>
  A stack of machine words as its clients see it: pushing and popping never fail on a good state,
  the word pushed is the one on top, and the \<open>cap\<close> topmost words survive a push.
\<close>

fun push_all :: "('s \<Rightarrow> 'v \<Rightarrow> 's option) \<Rightarrow> 's \<Rightarrow> 'v list \<Rightarrow> 's option" where
  "push_all push s [] = Some s"
| "push_all push s (v # vs) = do { s \<leftarrow> push s v; push_all push s vs }"

fun pop_all :: "('s \<Rightarrow> ('v \<times> 's) option) \<Rightarrow> nat \<Rightarrow> 's \<Rightarrow> ('v list \<times> 's) option" where
  "pop_all pop 0 s = Some ([], s)"
| "pop_all pop (Suc n) s = do { (v, s) \<leftarrow> pop s; (vs, s) \<leftarrow> pop_all pop n s; Some (v # vs, s) }"

locale word_stack =
  fixes push :: "'s \<Rightarrow> 'v \<Rightarrow> 's option"
    and pop :: "'s \<Rightarrow> ('v \<times> 's) option"
    and top :: "'s \<Rightarrow> nat \<Rightarrow> 'v"
    and ptr :: "'s \<Rightarrow> 'p::ab_group_add"
    and width :: 'p
    and ok :: "'s \<Rightarrow> bool"
    and cap :: nat
  assumes push_defined: "ok s \<Longrightarrow> \<exists>t. push s v = Some t \<and> ok t \<and> ptr t = ptr s - width"
    and push_top: "ok s \<Longrightarrow> push s v = Some t \<Longrightarrow> k < cap \<Longrightarrow>
      top t k = (case k of 0 \<Rightarrow> v | Suc j \<Rightarrow> top s j)"
    and pop_defined: "ok s \<Longrightarrow> \<exists>t. pop s = Some (top s 0, t) \<and> ok t \<and> ptr t = ptr s + width"
    and pop_top: "ok s \<Longrightarrow> pop s = Some (v, t) \<Longrightarrow> top t k = top s (Suc k)"
begin

lemma push_all_spec:
  assumes "ok s" "length vs \<le> cap"
  shows "\<exists>t. push_all push s vs = Some t \<and> ok t \<and>
    (\<forall>k<length vs. top t k = rev vs ! k) \<and>
    (\<forall>k. length vs + k < cap \<longrightarrow> top t (length vs + k) = top s k) \<and>
    ((\<Sum>i<length vs. width) + ptr t = ptr s)"
  using assms
proof (induction vs arbitrary: s)
  case (Cons v vs)
  obtain s1 where s1: "push s v = Some s1" "ok s1" "ptr s1 = ptr s - width"
    using push_defined [OF Cons.prems(1), of v] by auto
  have len: "length vs \<le> cap" using Cons.prems(2) by simp
  obtain t where t: "push_all push s1 vs = Some t" "ok t"
    "\<And>k. k < length vs \<Longrightarrow> top t k = rev vs ! k"
    "\<And>k. length vs + k < cap \<Longrightarrow> top t (length vs + k) = top s1 k"
    "(\<Sum>i<length vs. width) + ptr t = ptr s1"
    using Cons.IH [OF s1(2) len] by blast
  have new: "top s1 k = (case k of 0 \<Rightarrow> v | Suc j \<Rightarrow> top s j)" if "k < cap" for k
    using push_top [OF Cons.prems(1) s1(1) that] .
  have "top t k = rev (v # vs) ! k" if "k < length (v # vs)" for k
  proof (cases "k < length vs")
    case True
    then show ?thesis using t(3) by (simp add: nth_append)
  next
    case False
    with that have k: "k = length vs" by simp
    moreover have "0 < cap" using Cons.prems(2) by simp
    ultimately show ?thesis using t(4) [of 0] new [of 0] Cons.prems(2) by (simp add: nth_append)
  qed
  moreover have "top t (length (v # vs) + k) = top s k" if "length (v # vs) + k < cap" for k
    using t(4) [of "Suc k"] new [of "Suc k"] that by simp
  moreover have "(\<Sum>i<length (v # vs). width) + ptr t = ptr s"
    using t(5) s1(3) by (simp add: algebra_simps)
  ultimately show ?case using s1 t(1,2) by auto
qed simp

lemma pop_all_spec:
  assumes "ok s"
  shows "\<exists>t. pop_all pop n s = Some (map (top s) [0..<n], t) \<and> ok t \<and>
    ptr t = ptr s + (\<Sum>i<n. width) \<and> (\<forall>k. top t k = top s (n + k))"
  using assms
proof (induction n arbitrary: s)
  case (Suc n)
  obtain s1 where s1: "pop s = Some (top s 0, s1)" "ok s1" "ptr s1 = ptr s + width"
    using pop_defined [OF Suc.prems] by auto
  have tops: "top s1 k = top s (Suc k)" for k using pop_top [OF Suc.prems s1(1)] .
  obtain t where t: "pop_all pop n s1 = Some (map (top s1) [0..<n], t)" "ok t"
    "ptr t = ptr s1 + (\<Sum>i<n. width)" "\<And>k. top t k = top s1 (n + k)"
    using Suc.IH [OF s1(2)] by blast
  have "map (top s) [0..<Suc n] = top s 0 # map (top s1) [0..<n]"
    by (simp add: tops map_upt_Suc del: upt_Suc)
  then show ?case using s1 t tops by (auto simp: algebra_simps simp del: upt_Suc)
qed simp

text \<open>What is pushed comes back in reverse order, and the pointer returns to where it was.\<close>

lemma pop_push_all:
  assumes "ok s" "length vs \<le> cap"
  shows "\<exists>t t'. push_all push s vs = Some t \<and> pop_all pop (length vs) t = Some (rev vs, t') \<and>
    ptr t' = ptr s \<and> ok t' \<and> (\<forall>k. length vs + k < cap \<longrightarrow> top t' k = top s k)"
proof -
  obtain t where t: "push_all push s vs = Some t" "ok t" "\<forall>k<length vs. top t k = rev vs ! k"
    "\<forall>k. length vs + k < cap \<longrightarrow> top t (length vs + k) = top s k"
    "(\<Sum>i<length vs. width) + ptr t = ptr s"
    using push_all_spec [OF assms] by blast
  obtain t' where t': "pop_all pop (length vs) t = Some (map (top t) [0..<length vs], t')" "ok t'"
    "ptr t' = ptr t + (\<Sum>i<length vs. width)" "\<forall>k. top t' k = top t (length vs + k)"
    using pop_all_spec [OF t(2)] by blast
  have "map (top t) [0..<length vs] = rev vs"
    using t(3) by (auto intro: nth_equalityI)
  then show ?thesis using t t' by (auto simp: algebra_simps)
qed

end

text \<open>The two stacks of the processor: words of 16 bits and of 32 bits, both at SS:SP.\<close>

definition push_st16 :: "CPU \<times> MMU \<Rightarrow> u16 \<Rightarrow> (CPU \<times> MMU) option" where
  "push_st16 s v = push16 (fst s) (snd s) v"

definition pop_st16 :: "CPU \<times> MMU \<Rightarrow> (u16 \<times> (CPU \<times> MMU)) option" where
  "pop_st16 s = map_option (\<lambda>(v, c). (v, (c, snd s))) (pop16 (fst s) (snd s))"

definition push_st32 :: "CPU \<times> MMU \<Rightarrow> u32 \<Rightarrow> (CPU \<times> MMU) option" where
  "push_st32 s v = push32 (fst s) (snd s) v"

definition pop_st32 :: "CPU \<times> MMU \<Rightarrow> (u32 \<times> (CPU \<times> MMU)) option" where
  "pop_st32 s = map_option (\<lambda>(v, c). (v, (c, snd s))) (pop32 (fst s) (snd s))"

definition slot16 :: "CPU \<times> MMU \<Rightarrow> nat \<Rightarrow> u16" where
  "slot16 s k = peek16 (snd s) (r16v (fst s) R.SS) (r16v (fst s) R.SP + of_nat (2 * k))"

definition slot32 :: "CPU \<times> MMU \<Rightarrow> nat \<Rightarrow> u32" where
  "slot32 s k = peek32 (snd s) (r16v (fst s) R.SS) (r16v (fst s) R.SP + of_nat (4 * k))"

lemma slot_apart:
  fixes sp :: u16
  assumes "0 < m" "m * w < 65536" "0 < w" "w dvd 65536"
  shows "seg_apart s (sp - of_nat w) w s (sp - of_nat w + of_nat (m * w)) w"
proof -
  define x where "x = sp - of_nat w"
  define y where "y = x + of_nat (m * w)"
  have x: "unat x < 65536" by (rule word16_lt)
  have y: "unat y = (unat x + m * w) mod 65536"
    using assms(2) by (simp add: y_def unat_word_ariths unsigned_of_nat take_bit_eq_mod mod_simps)
  obtain q where q: "65536 = w * q" using assms(4) by (metis dvdE)
  have "unat x + w \<le> unat y \<or> unat y + w \<le> unat x"
  proof (cases "unat x + m * w < 65536")
    case True
    then show ?thesis using y assms(1) by (cases m) auto
  next
    case False
    then have "unat y = unat x + m * w - 65536"
      using y x assms(2) by (simp add: mod_if)
    moreover have "m * w + w \<le> 65536"
    proof -
      have "m * w < q * w" using assms(2) unfolding q by (simp only: mult.commute)
      then have "m < q" using assms(3) by simp
      then have "Suc m * w \<le> q * w" by (intro mult_le_mono1) simp
      then show ?thesis using q by (simp add: mult.commute)
    qed
    ultimately show ?thesis using False by auto
  qed
  then show ?thesis by (auto simp: seg_apart_def apart_def unat_lin x_def y_def)
qed

lemma push16_eq:
  "mmu_ok u \<Longrightarrow> push16 c u v =
     Some (set_r16 c R.SP (r16v c R.SP - 2), poke16 u (r16v c R.SS) (r16v c R.SP - 2) v)"
  by (simp add: push16_def Let_def)

lemma push32_eq:
  "mmu_ok u \<Longrightarrow> push32 c u v =
     Some (set_r16 c R.SP (r16v c R.SP - 4), poke32 u (r16v c R.SS) (r16v c R.SP - 4) v)"
  by (simp add: push32_def Let_def)

lemma pop16_eq:
  "mmu_ok u \<Longrightarrow> pop16 c u =
     Some (peek16 u (r16v c R.SS) (r16v c R.SP), set_r16 c R.SP (r16v c R.SP + 2))"
  by (simp add: pop16_def Let_def)

lemma pop32_eq:
  "mmu_ok u \<Longrightarrow> pop32 c u =
     Some (peek32 u (r16v c R.SS) (r16v c R.SP), set_r16 c R.SP (r16v c R.SP + 4))"
  by (simp add: pop32_def Let_def)

interpretation stack16: word_stack push_st16 pop_st16 slot16 "\<lambda>s. r16v (fst s) R.SP" 2
  "\<lambda>s. mmu_ok (snd s)" "32768"
proof unfold_locales
  fix s t :: "CPU \<times> MMU" and v and k :: nat
  assume ok: "mmu_ok (snd s)" and t: "push_st16 s v = Some t" and k: "k < 32768"
  show "slot16 t k = (case k of 0 \<Rightarrow> v | Suc j \<Rightarrow> slot16 s j)"
  proof (cases k)
    case 0
    then show ?thesis using t ok by (auto simp: push_st16_def push16_eq slot16_def)
  next
    case (Suc j)
    then have "seg_apart (r16v (fst s) R.SS) (r16v (fst s) R.SP - 2) 2 (r16v (fst s) R.SS)
        (r16v (fst s) R.SP - 2 + of_nat (k * 2)) 2"
      using slot_apart [of k 2 "r16v (fst s) R.SS" "r16v (fst s) R.SP"] k by simp
    from peek16_poke16_other [OF ok this, of v] show ?thesis
      using t ok Suc by (auto simp: push_st16_def push16_eq slot16_def algebra_simps)
  qed
qed (auto simp: push_st16_def pop_st16_def push16_eq pop16_eq slot16_def algebra_simps)

interpretation stack32: word_stack push_st32 pop_st32 slot32 "\<lambda>s. r16v (fst s) R.SP" 4
  "\<lambda>s. mmu_ok (snd s)" "16384"
proof unfold_locales
  fix s t :: "CPU \<times> MMU" and v and k :: nat
  assume ok: "mmu_ok (snd s)" and t: "push_st32 s v = Some t" and k: "k < 16384"
  show "slot32 t k = (case k of 0 \<Rightarrow> v | Suc j \<Rightarrow> slot32 s j)"
  proof (cases k)
    case 0
    then show ?thesis using t ok by (auto simp: push_st32_def push32_eq slot32_def)
  next
    case (Suc j)
    then have "seg_apart (r16v (fst s) R.SS) (r16v (fst s) R.SP - 4) 4 (r16v (fst s) R.SS)
        (r16v (fst s) R.SP - 4 + of_nat (k * 4)) 4"
      using slot_apart [of k 4 "r16v (fst s) R.SS" "r16v (fst s) R.SP"] k by simp
    from peek32_poke32_other [OF ok this, of v] show ?thesis
      using t ok Suc by (auto simp: push_st32_def push32_eq slot32_def algebra_simps)
  qed
qed (auto simp: push_st32_def pop_st32_def push32_eq pop32_eq slot32_def algebra_simps)

section \<open>Flags of a difference\<close>

lemma take_bit_diff_eq:
  fixes a b :: "'a::len word"
  assumes "uint a < 2 ^ m" "uint b < 2 ^ m" "m < LENGTH('a)"
  shows "take_bit m (a - b) = 0 \<longleftrightarrow> a = b"
proof
  assume "take_bit m (a - b) = 0"
  then have "take_bit m (uint (a - b)) = 0" by (metis unsigned_0 unsigned_take_bit_eq)
  moreover have "uint (a - b) = take_bit LENGTH('a) (uint a - uint b)"
    by (simp add: uint_word_ariths take_bit_eq_mod)
  ultimately have "take_bit m (uint a - uint b) = 0"
    using assms(3) by (simp add: min_absorb1)
  then have d: "2 ^ m dvd uint a - uint b" by (simp add: take_bit_eq_mod dvd_eq_mod_eq_0)
  have "\<bar>uint a - uint b\<bar> < 2 ^ m" using assms uint_ge_0 [of a] uint_ge_0 [of b] by linarith
  with d have "uint a - uint b = 0" using dvd_imp_le_int by (metis abs_of_nonneg linorder_not_less zero_le_power zero_le_numeral)
  then show "a = b" by (simp add: word_uint_eq_iff)
qed simp

lemma overflow_sub_mask:
  fixes a b r :: usize
  shows "(a XOR b) AND (a XOR r) AND 0x80 \<noteq> 0 \<longleftrightarrow> (bit a 7 \<noteq> bit b 7) \<and> (bit a 7 \<noteq> bit r 7)"
    "(a XOR b) AND (a XOR r) AND 0x8000 \<noteq> 0 \<longleftrightarrow> (bit a 15 \<noteq> bit b 15) \<and> (bit a 15 \<noteq> bit r 15)"
    "(a XOR b) AND (a XOR r) AND 0x80000000 \<noteq> 0 \<longleftrightarrow> (bit a 31 \<noteq> bit b 31) \<and> (bit a 31 \<noteq> bit r 31)"
  by (simp_all add: and.assoc [symmetric] bit_simps)

lemma overflow_add_mask:
  fixes a b r :: usize
  shows "(r XOR a) AND (r XOR b) AND 0x80 \<noteq> 0 \<longleftrightarrow> (bit r 7 \<noteq> bit a 7) \<and> (bit r 7 \<noteq> bit b 7)"
    "(r XOR a) AND (r XOR b) AND 0x8000 \<noteq> 0 \<longleftrightarrow> (bit r 15 \<noteq> bit a 15) \<and> (bit r 15 \<noteq> bit b 15)"
    "(r XOR a) AND (r XOR b) AND 0x80000000 \<noteq> 0 \<longleftrightarrow> (bit r 31 \<noteq> bit a 31) \<and> (bit r 31 \<noteq> bit b 31)"
  by (simp_all add: and.assoc [symmetric] bit_simps)

lemma sub_flag_facts:
  fixes a b :: usize
  assumes "uint a < 2 * 2 ^ n" "uint b < 2 * 2 ^ n" "Suc n < 64"
  shows "bit (a - b) (Suc n) \<longleftrightarrow> a < b"
    and "Suc n \<le> trailing_zeros (a - b) \<longleftrightarrow> a = b"
    and "(bit (a - b) n \<noteq> ((bit a n \<noteq> bit b n) \<and> (bit a n \<noteq> bit (a - b) n))) \<longleftrightarrow> sval n a < sval n b"
    and "((bit a n \<noteq> bit b n) \<and> (bit a n \<noteq> bit (a - b) n)) \<longleftrightarrow>
      \<not> (- (2 ^ n) \<le> sval n a - sval n b \<and> sval n a - sval n b < 2 ^ n)"
proof -
  show "bit (a - b) (Suc n) \<longleftrightarrow> a < b" using bit_borrow_sub [of "Suc n" a b] assms by simp
  show "Suc n \<le> trailing_zeros (a - b) \<longleftrightarrow> a = b"
    using trailing_zeros_ge_iff [of "Suc n" "a - b"] take_bit_diff_eq [of a "Suc n" b] assms by simp
  show "(bit (a - b) n \<noteq> ((bit a n \<noteq> bit b n) \<and> (bit a n \<noteq> bit (a - b) n))) \<longleftrightarrow> sval n a < sval n b"
    using sign_sub_bits [of n a b] assms by simp
  show "((bit a n \<noteq> bit b n) \<and> (bit a n \<noteq> bit (a - b) n)) \<longleftrightarrow>
      \<not> (- (2 ^ n) \<le> sval n a - sval n b \<and> sval n a - sval n b < 2 ^ n)"
    using overflow_sub_bits [of n a b] assms by simp
qed

end
