(* ===== verification/X86_Laws_Core.thy ===== *)
theory X86_Laws_Core
  imports X86_Cpu
begin

text \<open>
  Properties of the state the instructions work on: flags, registers, memory, stack and
  interrupt entry.
\<close>

unbundle bit_operations_syntax

text \<open>C1. Packing the flags into a word and unpacking them: the word built from flags read from
  \<open>v\<close> is \<open>v\<close> without the bits that \<open>set_u16\<close> ignores (the interrupt flag among them), and
  unpacking a packed flag record over another one transfers exactly the eight flags it assigns.\<close>

theorem flags_word_roundtrip:
  "flags_u16 (flags_new_from_u16 v) = v AND 0x0DD5 \<and>
   flags_set_u16 g (flags_u16 f) =
     g\<lparr>carry := carry f, parity := parity f, adjust := adjust f, zero := zero f, sign := sign f,
       trap := trap f, direction := direction f, overflow := overflow f\<rparr>"
  by (simp add: flags_unpack_pack) (simp add: flags_set_u16_def and_mask_u16 flags_u16_bits)

text \<open>C2. The parity flag is set exactly when the low byte has an even number of one bits, and no
  other flag changes.\<close>

theorem parity_counts_ones:
  "set_parity f v = f\<lparr>parity := even (card {i. i < 8 \<and> bit v i})\<rparr>"
proof -
  have "length (filter (bit v) [0..<8]) = card (set (filter (bit v) [0..<8]))"
    by (rule distinct_card [symmetric]) simp
  also have "set (filter (bit v) [0..<8]) = {i. i < 8 \<and> bit v i}" by auto
  finally show ?thesis by (simp add: set_parity_spec even_ones_def)
qed

text \<open>C3. A register bank behaves like an array of independent cells: reading the register just
  written gives the value, any other register of the same width keeps its value, and the
  instruction pointer and the flags never change.\<close>

theorem register_cells_independent:
  "(r \<in> names8 \<longrightarrow> r' \<in> names8 \<longrightarrow>
      (\<exists>t. rs_set_r8 s r v8 = Some t \<and> rs_get_r8 t r' = (if r' = r then Some v8 else rs_get_r8 s r') \<and>
        ip t = ip s \<and> flags t = flags s)) \<and>
   (r \<in> names16 \<longrightarrow> r' \<in> names16 \<longrightarrow>
      rs_get_r16 (rs_set_r16 s r v16) r' = (if r' = r then Some v16 else rs_get_r16 s r') \<and>
      ip (rs_set_r16 s r v16) = ip s \<and> flags (rs_set_r16 s r v16) = flags s) \<and>
   (r \<in> names32 \<longrightarrow> r' \<in> names32 \<longrightarrow>
      (\<exists>t. rs_set_r32 s r v32 = Some t \<and> rs_get_r32 t r' = (if r' = r then Some v32 else rs_get_r32 s r') \<and>
        ip t = ip s \<and> flags t = flags s))"
  by (auto simp: rs_get_r8_Some rs_set_r8_Some rs_get_r16_Some rs_get_r32_Some rs_set_r32_Some
      bank8.get_put bank16.get_put bank32.get_put put_frame)

theorem register_cells_independent_witness:
  "rs_get_r16 (rs_set_r16 RegisterState_default R.BX 0x1234) R.BX = Some 0x1234 \<and>
   rs_get_r16 (rs_set_r16 RegisterState_default R.BX 0x1234) R.SI = Some 0"
  using register_cells_independent [of R.BX R.BX RegisterState_default 0 "0x1234" 0]
    register_cells_independent [of R.BX R.SI RegisterState_default 0 "0x1234" 0]
  by (simp add: rs_get_r16_def RegisterState_default_def)


text \<open>C4. The names of one register are views of the same 32 bits: the word register is its high
  and low byte, the low half of the double word; writing a byte register changes that byte of the
  word register and of the double word and nothing else, writing a word keeps the upper half.\<close>

theorem sub_register_views:
  assumes "(l, h, x, e) \<in> {(R.AL, R.AH, R.AX, R.EAX), (R.CL, R.CH, R.CX, R.ECX),
     (R.DL, R.DH, R.DX, R.EDX), (R.BL, R.BH, R.BX, R.EBX)}"
  shows "reg16 s x = push_bit 8 (ucast (reg8 s h)) OR ucast (reg8 s l) \<and>
    reg16 s x = ucast (reg32 s e) \<and>
    reg32 (put8 s l b) e = reg32 s e AND NOT 0xFF OR ucast b \<and>
    reg32 (put8 s h b) e = reg32 s e AND NOT 0xFF00 OR push_bit 8 (ucast b) \<and>
    reg32 (rs_set_r16 s x w) e = reg32 s e AND NOT 0xFFFF OR ucast w"
proof -
  have m: "(0xFF :: u32) = mask 8" "(0xFF00 :: u32) = push_bit 8 (mask 8)" "(0xFFFF :: u32) = mask 16"
    by (simp_all add: mask_eq_exp_minus_1)
  have p: "v = push_bit 8 (ucast (ucast (drop_bit 8 v) :: u8)) OR ucast (ucast v :: u8)" for v :: u16
    by (rule bit_word_eqI) (auto simp: bit_simps)
  have q: "push_bit 8 (ucast (hi_u8 g)) OR ucast (lo_u8 g) = (ucast (gpr_val g) :: u16)" for g
    unfolding hi_u8_def lo_u8_def by (rule bit_word_eqI) (auto simp: bit_simps m)
  show ?thesis
    using assms
    by (elim insertE emptyE)
      (simp_all add: rs_defs q set_lo_or set_hi_or set16_def m u32_masks)
qed

theorem sub_register_views_witness:
  "reg16 RegisterState_default R.BX = 0 \<and>
   reg32 (put8 RegisterState_default R.BH 0x12) R.EBX = 0x1200"
  using sub_register_views [of R.BL R.BH R.BX R.EBX RegisterState_default "0x12" 0]
  by (simp add: rs_defs RegisterState_default_def lo_u8_def hi_u8_def)

text \<open>C5. On a memory of full size no segment:offset access panics, whatever the segment and the
  offset: every read returns a value and every write a memory of the same size.\<close>

theorem mmu_accesses_total:
  assumes "mmu_ok u"
  shows "(\<exists>b w l. mmu_read_u8 u s p = Some b \<and> mmu_read_u16 u s p = Some w \<and> mmu_read_u32 u s p = Some l) \<and>
    (\<exists>t. mmu_write_u8 u s p v8 = Some t \<and> mmu_ok t) \<and>
    (\<exists>t. mmu_write_u16 u s p v16 = Some t \<and> mmu_ok t) \<and>
    (\<exists>t. mmu_write_u32 u s p v32 = Some t \<and> mmu_ok t)"
  using assms by simp

theorem mmu_accesses_total_witness:
  "\<exists>t. mmu_write_u32 MMU_default 0xFFFF 0xFFFF 7 = Some t \<and> mmu_ok t"
  using mmu_accesses_total [OF mmu_default_ok, of "0xFFFF" "0xFFFF" 0 0 7] by simp

text \<open>C6. Memory words survive a write elsewhere and are read back as written: little-endian
  16- and 32-bit accesses, addressed by any segment:offset pair that names the same linear address.\<close>

theorem mmu_read_after_write:
  assumes "mmu_ok u"
  shows "(\<exists>t. mmu_write_u16 u s p v = Some t \<and>
      (\<forall>s' p'. 16 * unat s' + unat p' = 16 * unat s + unat p \<longrightarrow> mmu_read_u16 t s' p' = Some v) \<and>
      (\<forall>s' p'. 16 * unat s' + unat p' + 1 < 16 * unat s + unat p \<or>
         16 * unat s + unat p + 1 < 16 * unat s' + unat p' \<longrightarrow> mmu_read_u16 t s' p' = mmu_read_u16 u s' p')) \<and>
    (\<exists>t. mmu_write_u32 u s p w = Some t \<and>
      (\<forall>s' p'. 16 * unat s' + unat p' = 16 * unat s + unat p \<longrightarrow> mmu_read_u32 t s' p' = Some w) \<and>
      (\<forall>s' p'. 16 * unat s' + unat p' + 3 < 16 * unat s + unat p \<or>
         16 * unat s + unat p + 3 < 16 * unat s' + unat p' \<longrightarrow> mmu_read_u32 t s' p' = mmu_read_u32 u s' p'))"
proof -
  have same: "lin s' p' = lin s p" if "16 * unat s' + unat p' = 16 * unat s + unat p" for s' p'
    using that unat_lin [of s' p'] unat_lin [of s p] by (simp add: word_unat_eq_iff)
  have far: "seg_apart s p 2 s' p' 2" if "16 * unat s' + unat p' + 1 < 16 * unat s + unat p \<or>
      16 * unat s + unat p + 1 < 16 * unat s' + unat p'" for s' p'
    using that by (auto simp: seg_apart_def apart_def unat_lin)
  have far4: "seg_apart s p 4 s' p' 4" if "16 * unat s' + unat p' + 3 < 16 * unat s + unat p \<or>
      16 * unat s + unat p + 3 < 16 * unat s' + unat p'" for s' p'
    using that by (auto simp: seg_apart_def apart_def unat_lin)
  have "peek16 (poke16 u s p v) s' p' = v" if "16 * unat s' + unat p' = 16 * unat s + unat p" for s' p'
    using peek_alias(2) [OF same [OF that]] assms by simp
  moreover have "peek32 (poke32 u s p w) s' p' = w" if "16 * unat s' + unat p' = 16 * unat s + unat p" for s' p'
    using peek_alias(3) [OF same [OF that]] assms by simp
  ultimately show ?thesis
    using assms peek16_poke16_other [OF assms far] peek32_poke32_other [OF assms far4] by simp
qed

theorem mmu_read_after_write_witness:
  "\<exists>t. mmu_write_u16 MMU_default 0x1000 0x0020 0xBEEF = Some t \<and> mmu_read_u16 t 0x1002 0 = Some 0xBEEF"
proof -
  obtain t where "mmu_write_u16 MMU_default 0x1000 0x0020 0xBEEF = Some t"
    "\<forall>s' p'. 16 * unat s' + unat p' = 16 * unat (0x1000 :: u16) + unat (0x0020 :: u16) \<longrightarrow>
       mmu_read_u16 t s' p' = Some 0xBEEF"
    using mmu_read_after_write [OF mmu_default_ok, of "0x1000" "0x0020" "0xBEEF" 0] by blast
  then show ?thesis by (intro exI [of _ t]) simp
qed

text \<open>C7. Pushing a list of words and popping as many gives the list back in reverse and the stack
  pointer where it was, for up to 32768 words, and never panics; the words below are untouched.\<close>

theorem push_pop_words:
  assumes "mmu_ok u" "length vs \<le> 32768"
  shows "\<exists>t t'. push_all push_st16 (c, u) vs = Some t \<and>
    pop_all pop_st16 (length vs) t = Some (rev vs, t') \<and>
    r16v (fst t') R.SP = r16v c R.SP \<and>
    (\<forall>k. length vs + k < 32768 \<longrightarrow> slot16 t' k = slot16 (c, u) k)"
  using stack16.pop_push_all [of "(c, u)" vs] assms by auto

theorem push_pop_words_witness:
  "\<exists>t t'. push_all push_st16 (CPU_default, MMU_default) [1, 2, 3] = Some t \<and>
    pop_all pop_st16 3 t = Some ([3, 2, 1], t') \<and> r16v (fst t') R.SP = r16v CPU_default R.SP"
  using push_pop_words [OF mmu_default_ok, of "[1, 2, 3]" CPU_default]
  by (auto simp: numeral_3_eq_3 simp del: push_all.simps pop_all.simps)

text \<open>C8. Double words on the same stack: the same law, for up to 16384 of them.\<close>

theorem push_pop_dwords:
  assumes "mmu_ok u" "length vs \<le> 16384"
  shows "\<exists>t t'. push_all push_st32 (c, u) vs = Some t \<and>
    pop_all pop_st32 (length vs) t = Some (rev vs, t') \<and>
    r16v (fst t') R.SP = r16v c R.SP \<and>
    (\<forall>k. length vs + k < 16384 \<longrightarrow> slot32 t' k = slot32 (c, u) k)"
  using stack32.pop_push_all [of "(c, u)" vs] assms by auto

theorem push_pop_dwords_witness:
  "\<exists>t t'. push_all push_st32 (CPU_default, MMU_default) [1, 2] = Some t \<and>
    pop_all pop_st32 2 t = Some ([2, 1], t')"
  using push_pop_dwords [OF mmu_default_ok, of "[1, 2]" CPU_default]
  by (auto simp: numeral_2_eq_2 simp del: push_all.simps pop_all.simps)

lemma flags_address_frame [simp]:
  "mmu_ok (u\<lparr>flags_address := a\<rparr>) = mmu_ok u"
  "peek8 (u\<lparr>flags_address := a\<rparr>) s p = peek8 u s p"
  "peek16 (u\<lparr>flags_address := a\<rparr>) s p = peek16 u s p"
  "peek32 (u\<lparr>flags_address := a\<rparr>) s p = peek32 u s p"
  by (simp_all add: mmu_ok_def peek8_def peek16_def peek32_def mmu_read_u8_def mmu_read_u16_def mmu_read_u32_def)

lemma poke16_flags_address:
  "mmu_ok u \<Longrightarrow> poke16 (u\<lparr>flags_address := a\<rparr>) s p v = (poke16 u s p v)\<lparr>flags_address := a\<rparr>"
  using mmu_write16 [of u s p v] mmu_write16 [of "u\<lparr>flags_address := a\<rparr>" s p v]
  by (auto simp: mmu_write_u16_def addr_value_real upd_memory_Some)

text \<open>Slots below a push, and the slot of the push itself.\<close>

lemma slot16_push:
  assumes "mmu_ok u" "k < 32768" "s = r16v c R.SS" "q = r16v c R.SP - 2"
  shows "slot16 (set_r16 c R.SP q, poke16 u s q v) k =
    (case k of 0 \<Rightarrow> v | Suc j \<Rightarrow> slot16 (c, u) j)"
  using stack16.push_top [of "(c, u)" v _ k] assms by (simp add: push_st16_def push16_eq)

lemma execute_interrupt_eq:
  fixes c :: CPU and u :: MMU and n :: u8
  defines "c1 \<equiv> set_r16 c R.SP (r16v c R.SP - 2)"
  defines "u1 \<equiv> poke16 u (r16v c R.SS) (r16v c R.SP - 2) (flags_u16 (cpu_flags c))"
  defines "u2 \<equiv> poke16 u1 (r16v c R.SS) (r16v c R.SP - 2 - 2) (r16v c R.CS)"
  defines "u3 \<equiv> poke16 u2 (r16v c R.SS) (r16v c R.SP - 2 - 2 - 2) (cpu_ip c)"
  assumes ok: "mmu_ok u"
  shows "\<exists>c'. execute_interrupt c u n =
      Some (c', u3\<lparr>flags_address := RealSegmentOffset (r16v c R.SS) (r16v c R.SP - 2)\<rparr>) \<and>
    r16v c' R.SP = r16v c R.SP - 2 - 2 - 2 \<and> r16v c' R.SS = r16v c R.SS \<and>
    cpu_flags c' = (cpu_flags c)\<lparr>interrupt := False, trap := False\<rparr> \<and>
    cpu_ip c' = peek16 u3 0 (4 * ucast n) \<and> r16v c' R.CS = peek16 u3 0 (4 * ucast n + 2)"
proof -
  have idx: "push_bit 2 (ucast n :: u16) = 4 * ucast n" by (simp add: push_bit_eq_mult mult.commute)
  have n: "unat n < 256" using unsigned_less [where 'a = nat, of n] by simp
  then have "unat (4 * ucast n :: u16) = 4 * unat n"
    by (simp add: unat_word_ariths unsigned_ucast_eq take_bit_nat_eq_self)
  then have chk: "add_chk (4 * ucast n :: u16) 2 = Some (4 * ucast n + 2)"
    using n by (intro add_chk_less) simp
  show ?thesis
    using ok by (simp add: execute_interrupt_def push16_eq get_address_pair_def Let_def idx chk
        poke16_flags_address u1_def u2_def u3_def)
qed

lemma interrupt_frame:
  assumes "mmu_ok u"
    and "execute_interrupt c u n = Some (c', u')"
  shows "r16v c' R.SP = r16v c R.SP - 6 \<and> \<not> interrupt (cpu_flags c') \<and> \<not> trap (cpu_flags c') \<and>
    slot16 (c', u') 0 = cpu_ip c \<and> slot16 (c', u') 1 = r16v c R.CS \<and>
    slot16 (c', u') 2 = flags_u16 (cpu_flags c) \<and>
    flags_address u' = RealSegmentOffset (r16v c R.SS) (r16v c R.SP - 2) \<and>
    cpu_ip c' = peek16 u' 0 (4 * ucast n) \<and> r16v c' R.CS = peek16 u' 0 (4 * ucast n + 2)"
proof -
  let ?s = "r16v c R.SS" and ?p = "r16v c R.SP"
  define u1 where "u1 = poke16 u ?s (?p - 2) (flags_u16 (cpu_flags c))"
  define u2 where "u2 = poke16 u1 ?s (?p - 2 - 2) (r16v c R.CS)"
  define u3 where "u3 = poke16 u2 ?s (?p - 2 - 2 - 2) (cpu_ip c)"
  have ok: "mmu_ok u1" "mmu_ok u2" using assms(1) by (simp_all add: u1_def u2_def)
  have c': "u' = u3\<lparr>flags_address := RealSegmentOffset ?s (?p - 2)\<rparr>"
    "r16v c' R.SP = ?p - 2 - 2 - 2" "r16v c' R.SS = ?s"
    "cpu_flags c' = (cpu_flags c)\<lparr>interrupt := False, trap := False\<rparr>"
    "cpu_ip c' = peek16 u3 0 (4 * ucast n)" "r16v c' R.CS = peek16 u3 0 (4 * ucast n + 2)"
    using execute_interrupt_eq [OF assms(1), of c n] assms(2) unfolding u1_def u2_def u3_def by auto
  let ?c1 = "set_r16 c R.SP (?p - 2)" and ?c2 = "set_r16 c R.SP (?p - 2 - 2)"
  have top: "slot16 (c', u') k = slot16 (set_r16 ?c2 R.SP (?p - 2 - 2 - 2), u3) k" for k
    using c' by (simp add: slot16_def)
  have "slot16 (set_r16 ?c2 R.SP (?p - 2 - 2 - 2), u3) k =
      (case k of 0 \<Rightarrow> cpu_ip c | Suc j \<Rightarrow> slot16 (?c2, u2) j)" if "k < 32768" for k
    using slot16_push [OF ok(2) that, of ?s ?c2 "?p - 2 - 2 - 2"] by (simp add: u3_def)
  moreover have "slot16 (?c2, u2) k = (case k of 0 \<Rightarrow> r16v c R.CS | Suc j \<Rightarrow> slot16 (?c1, u1) j)"
    if "k < 32768" for k
    using slot16_push [OF ok(1) that, of ?s ?c1 "?p - 2 - 2" "r16v c R.CS"]
    by (simp add: u2_def slot16_def)
  moreover have "slot16 (?c1, u1) 0 = flags_u16 (cpu_flags c)"
    using slot16_push [OF assms(1), of 0 ?s c "?p - 2"] by (simp add: u1_def)
  ultimately show ?thesis using c' top by (simp add: numeral_2_eq_2)
qed

text \<open>C10. \<open>execute_interrupt\<close> pushes the flags, CS and IP, records where the flags lie, turns the
  interrupt and trap flags off and continues at the vector whose offset is the low word and whose
  segment is the high word of the table entry.\<close>

theorem interrupt_enters_handler:
  assumes "mmu_ok u"
    and "execute_interrupt c u n = Some (c', u')"
  shows "r16v c' R.SP = r16v c R.SP - 6 \<and> \<not> interrupt (cpu_flags c') \<and> \<not> trap (cpu_flags c') \<and>
    slot16 (c', u') 0 = cpu_ip c \<and> slot16 (c', u') 1 = r16v c R.CS \<and>
    slot16 (c', u') 2 = flags_u16 (cpu_flags c) \<and>
    flags_address u' = RealSegmentOffset (r16v c R.SS) (r16v c R.SP - 2) \<and>
    cpu_ip c' = peek16 u' 0 (4 * ucast n) \<and> r16v c' R.CS = peek16 u' 0 (4 * ucast n + 2)"
  using assms by (rule interrupt_frame)

theorem interrupt_enters_handler_witness:
  "\<exists>c' u'. execute_interrupt CPU_default MMU_default 0x21 = Some (c', u') \<and>
    slot16 (c', u') 2 = flags_u16 (cpu_flags CPU_default) \<and> r16v c' R.SP = r16v CPU_default R.SP - 6"
  using execute_interrupt_eq [OF mmu_default_ok, of CPU_default "0x21"]
    interrupt_enters_handler [OF mmu_default_ok, of CPU_default "0x21"] by blast

end
