(* ===== verification/X86_Decoder.thy ===== *)
theory X86_Decoder
  imports X86_Instr X86_Memory
begin

text \<open>
  The instruction decoder (\<open>dustbox/src/cpu/decoder.rs\<close>): readers of the instruction stream, operand
  decoding from the mod-reg-rm byte, the opcode map, and the recursion over prefixes.

  The match on the opcode byte is cut into consecutive ranges, one definition each, in the order
  of the source. A decoding step takes the decoder's position and the instruction under
  construction and returns both, or \<^term>\<open>None\<close> for a panic. The recursion on prefixes has fuel:
  each prefix adds 1 to the 8-bit length after its recursive call, so more than 255 prefixes panic
  and 257 units of fuel give every result there is.
\<close>

unbundle bit_operations_syntax

section \<open>Reading the instruction stream\<close>

definition dec_read_u8 :: "Decoder \<Rightarrow> MMU \<Rightarrow> (u8 \<times> Decoder) option" where
  "dec_read_u8 d u = do {
     b \<leftarrow> mmu_read_u8 u (current_seg d) (current_offset d);
     Some (b, d\<lparr>current_offset := current_offset d + 1\<rparr>)
   }"

definition dec_read_s8 :: "Decoder \<Rightarrow> MMU \<Rightarrow> (i8 \<times> Decoder) option" where
  "dec_read_s8 d u = dec_read_u8 d u"

definition dec_read_u16 :: "Decoder \<Rightarrow> MMU \<Rightarrow> (u16 \<times> Decoder) option" where
  "dec_read_u16 d u = do {
     (lo, d) \<leftarrow> dec_read_u8 d u;
     (hi, d) \<leftarrow> dec_read_u8 d u;
     Some (push_bit 8 (ucast hi) OR ucast lo, d)
   }"

definition dec_read_s16 :: "Decoder \<Rightarrow> MMU \<Rightarrow> (i16 \<times> Decoder) option" where
  "dec_read_s16 d u = dec_read_u16 d u"

definition dec_read_u32 :: "Decoder \<Rightarrow> MMU \<Rightarrow> (u32 \<times> Decoder) option" where
  "dec_read_u32 d u = do {
     (lo, d) \<leftarrow> dec_read_u16 d u;
     (hi, d) \<leftarrow> dec_read_u16 d u;
     Some (push_bit 16 (ucast hi) OR ucast lo, d)
   }"

text \<open>Jump targets: the displacement is relative to the offset behind it, truncated to 16 bits.\<close>

definition dec_read_rel8 :: "Decoder \<Rightarrow> MMU \<Rightarrow> (u16 \<times> Decoder) option" where
  "dec_read_rel8 d u = do {
     (val, d) \<leftarrow> dec_read_s8 d u;
     Some (ucast ((ucast (current_offset d) :: i64) + scast (val :: i8)), d)
   }"

definition dec_read_rel16 :: "Decoder \<Rightarrow> MMU \<Rightarrow> (u16 \<times> Decoder) option" where
  "dec_read_rel16 d u = do {
     (val, d) \<leftarrow> dec_read_s16 d u;
     Some (ucast ((ucast (current_offset d) :: i64) + scast (val :: i16)), d)
   }"

definition read_mod_reg_rm :: "Decoder \<Rightarrow> MMU \<Rightarrow> (ModRegRm \<times> Decoder) option" where
  "read_mod_reg_rm d u = do {
     b \<leftarrow> mmu_read_u8 u (current_seg d) (current_offset d);
     let d = d\<lparr>current_offset := current_offset d + 1\<rparr>;
     Some (\<lparr>md = drop_bit 6 b, reg = drop_bit 3 b AND 7, rm = b AND 7\<rparr>, d)
   }"

definition current_flat :: "Decoder \<Rightarrow> u32 option" where
  "current_flat d = addr_value (RealSegmentOffset (current_seg d) (current_offset d))"

section \<open>Operands\<close>

definition dec_rm8 :: "Decoder \<Rightarrow> MMU \<Rightarrow> Segment \<Rightarrow> u8 \<Rightarrow> u8 \<Rightarrow> (Parameter \<times> Decoder) option" where
  "dec_rm8 d u seg rm' md' =
     (if md' = 0 then
        (if rm' = 6 then do { (x, d) \<leftarrow> dec_read_u16 d u; Some (Ptr8 seg x, d) }
         else do { a \<leftarrow> amode_from A16bit rm'; Some (Ptr8Amode seg a, d) })
      else if md' = 1 then do {
        a \<leftarrow> amode_from A16bit rm'; (x, d) \<leftarrow> dec_read_s8 d u; Some (Ptr8AmodeS8 seg a x, d) }
      else if md' = 2 then do {
        a \<leftarrow> amode_from A16bit rm'; (x, d) \<leftarrow> dec_read_s16 d u; Some (Ptr8AmodeS16 seg a x, d) }
      else if md' = 3 then do { r \<leftarrow> r8 rm'; Some (Reg8 r, d) }
      else None)"

definition dec_rm16 :: "Decoder \<Rightarrow> MMU \<Rightarrow> Instruction \<Rightarrow> u8 \<Rightarrow> u8 \<Rightarrow> (Parameter \<times> Decoder) option" where
  "dec_rm16 d u op rm' md' =
     (let seg = segment_prefix op; asz = address_size op in
      if md' = 0 then
        (if rm' = 6 then do { (x, d) \<leftarrow> dec_read_u16 d u; Some (Ptr16 seg x, d) }
         else do { a \<leftarrow> amode_from asz rm'; Some (Ptr16Amode seg a, d) })
      else if md' = 1 then do {
        a \<leftarrow> amode_from asz rm'; (x, d) \<leftarrow> dec_read_s8 d u; Some (Ptr16AmodeS8 seg a x, d) }
      else if md' = 2 then do {
        a \<leftarrow> amode_from asz rm'; (x, d) \<leftarrow> dec_read_s16 d u; Some (Ptr16AmodeS16 seg a x, d) }
      else if md' = 3 then do { r \<leftarrow> r16 rm'; Some (Reg16 r, d) }
      else None)"

definition dec_rm32 :: "Decoder \<Rightarrow> MMU \<Rightarrow> Instruction \<Rightarrow> u8 \<Rightarrow> u8 \<Rightarrow> (Parameter \<times> Decoder) option" where
  "dec_rm32 d u op rm' md' =
     (let seg = segment_prefix op; asz = address_size op in
      if md' = 0 then
        (if rm' = 6 then do { (x, d) \<leftarrow> dec_read_u16 d u; Some (Ptr32 seg x, d) }
         else do { a \<leftarrow> amode_from asz rm'; Some (Ptr32Amode seg a, d) })
      else if md' = 1 then do {
        a \<leftarrow> amode_from asz rm'; (x, d) \<leftarrow> dec_read_s8 d u; Some (Ptr32AmodeS8 seg a x, d) }
      else if md' = 2 then do {
        a \<leftarrow> amode_from asz rm'; (x, d) \<leftarrow> dec_read_s16 d u; Some (Ptr32AmodeS16 seg a x, d) }
      else if md' = 3 then do { r \<leftarrow> r32 rm'; Some (Reg32 r, d) }
      else None)"

definition dec_rmf16 :: "Decoder \<Rightarrow> MMU \<Rightarrow> Instruction \<Rightarrow> u8 \<Rightarrow> u8 \<Rightarrow> (Parameter \<times> Decoder) option" where
  "dec_rmf16 d u op rm' md' =
     (let seg = segment_prefix op; asz = address_size op in
      if md' = 0 then
        (if rm' = 6 then do { (x, d) \<leftarrow> dec_read_u16 d u; Some (Ptr16 seg x, d) }
         else do { a \<leftarrow> amode_from asz rm'; Some (Ptr16Amode seg a, d) })
      else if md' = 1 then do {
        a \<leftarrow> amode_from asz rm'; (x, d) \<leftarrow> dec_read_s8 d u; Some (Ptr16AmodeS8 seg a x, d) }
      else if md' = 2 then do {
        a \<leftarrow> amode_from asz rm'; (x, d) \<leftarrow> dec_read_s16 d u; Some (Ptr16AmodeS16 seg a x, d) }
      else if md' = 3 then do { r \<leftarrow> fpr rm'; Some (FPR80 r, d) }
      else None)"

definition dec_rmf32 :: "Decoder \<Rightarrow> MMU \<Rightarrow> Instruction \<Rightarrow> u8 \<Rightarrow> u8 \<Rightarrow> (Parameter \<times> Decoder) option" where
  "dec_rmf32 d u op rm' md' =
     (let seg = segment_prefix op; asz = address_size op in
      if md' = 0 then
        (if rm' = 6 then do { (x, d) \<leftarrow> dec_read_u16 d u; Some (Ptr32 seg x, d) }
         else do { a \<leftarrow> amode_from asz rm'; Some (Ptr32Amode seg a, d) })
      else if md' = 1 then do {
        a \<leftarrow> amode_from asz rm'; (x, d) \<leftarrow> dec_read_s8 d u; Some (Ptr32AmodeS8 seg a x, d) }
      else if md' = 2 then do {
        a \<leftarrow> amode_from asz rm'; (x, d) \<leftarrow> dec_read_s16 d u; Some (Ptr32AmodeS16 seg a x, d) }
      else if md' = 3 then do { r \<leftarrow> fpr rm'; Some (FPR80 r, d) }
      else None)"

text \<open>Operand pairs: a mod-reg-rm byte, then the displacement.\<close>

definition dec_r8_rm8 :: "Decoder \<Rightarrow> MMU \<Rightarrow> Segment \<Rightarrow> (ParameterSet \<times> Decoder) option" where
  "dec_r8_rm8 d u seg = do {
     (x, d) \<leftarrow> read_mod_reg_rm d u;
     r \<leftarrow> r8 (reg x);
     (p, d) \<leftarrow> dec_rm8 d u seg (rm x) (md x);
     Some (\<lparr>p_dst = Reg8 r, p_src = p, p_src2 = NoParam\<rparr>, d)
   }"

definition dec_rm8_r8 :: "Decoder \<Rightarrow> MMU \<Rightarrow> Segment \<Rightarrow> (ParameterSet \<times> Decoder) option" where
  "dec_rm8_r8 d u seg = do {
     (x, d) \<leftarrow> read_mod_reg_rm d u;
     (p, d) \<leftarrow> dec_rm8 d u seg (rm x) (md x);
     r \<leftarrow> r8 (reg x);
     Some (\<lparr>p_dst = p, p_src = Reg8 r, p_src2 = NoParam\<rparr>, d)
   }"

definition dec_sreg_rm16 :: "Decoder \<Rightarrow> MMU \<Rightarrow> Instruction \<Rightarrow> (ParameterSet \<times> Decoder) option" where
  "dec_sreg_rm16 d u op = do {
     (x, d) \<leftarrow> read_mod_reg_rm d u;
     r \<leftarrow> sr (reg x);
     (p, d) \<leftarrow> dec_rm16 d u op (rm x) (md x);
     Some (\<lparr>p_dst = SReg16 r, p_src = p, p_src2 = NoParam\<rparr>, d)
   }"

definition dec_rm16_sreg :: "Decoder \<Rightarrow> MMU \<Rightarrow> Instruction \<Rightarrow> (ParameterSet \<times> Decoder) option" where
  "dec_rm16_sreg d u op = do {
     (x, d) \<leftarrow> read_mod_reg_rm d u;
     (p, d) \<leftarrow> dec_rm16 d u op (rm x) (md x);
     r \<leftarrow> sr (reg x);
     Some (\<lparr>p_dst = p, p_src = SReg16 r, p_src2 = NoParam\<rparr>, d)
   }"

definition dec_r16_rm8 :: "Decoder \<Rightarrow> MMU \<Rightarrow> Segment \<Rightarrow> (ParameterSet \<times> Decoder) option" where
  "dec_r16_rm8 d u seg = do {
     (x, d) \<leftarrow> read_mod_reg_rm d u;
     r \<leftarrow> r16 (reg x);
     (p, d) \<leftarrow> dec_rm8 d u seg (rm x) (md x);
     Some (\<lparr>p_dst = Reg16 r, p_src = p, p_src2 = NoParam\<rparr>, d)
   }"

definition dec_r32_rm8 :: "Decoder \<Rightarrow> MMU \<Rightarrow> Segment \<Rightarrow> (ParameterSet \<times> Decoder) option" where
  "dec_r32_rm8 d u seg = do {
     (x, d) \<leftarrow> read_mod_reg_rm d u;
     r \<leftarrow> r32 (reg x);
     (p, d) \<leftarrow> dec_rm8 d u seg (rm x) (md x);
     Some (\<lparr>p_dst = Reg32 r, p_src = p, p_src2 = NoParam\<rparr>, d)
   }"

definition dec_r32_rm16 :: "Decoder \<Rightarrow> MMU \<Rightarrow> Instruction \<Rightarrow> (ParameterSet \<times> Decoder) option" where
  "dec_r32_rm16 d u op = do {
     (x, d) \<leftarrow> read_mod_reg_rm d u;
     r \<leftarrow> r32 (reg x);
     (p, d) \<leftarrow> dec_rm16 d u op (rm x) (md x);
     Some (\<lparr>p_dst = Reg32 r, p_src = p, p_src2 = NoParam\<rparr>, d)
   }"

definition dec_r16_rm16 :: "Decoder \<Rightarrow> MMU \<Rightarrow> Instruction \<Rightarrow> (ParameterSet \<times> Decoder) option" where
  "dec_r16_rm16 d u op = do {
     (x, d) \<leftarrow> read_mod_reg_rm d u;
     r \<leftarrow> r16 (reg x);
     (p, d) \<leftarrow> dec_rm16 d u op (rm x) (md x);
     Some (\<lparr>p_dst = Reg16 r, p_src = p, p_src2 = NoParam\<rparr>, d)
   }"

definition dec_rm16_r16 :: "Decoder \<Rightarrow> MMU \<Rightarrow> Instruction \<Rightarrow> (ParameterSet \<times> Decoder) option" where
  "dec_rm16_r16 d u op = do {
     (x, d) \<leftarrow> read_mod_reg_rm d u;
     (p, d) \<leftarrow> dec_rm16 d u op (rm x) (md x);
     r \<leftarrow> r16 (reg x);
     Some (\<lparr>p_dst = p, p_src = Reg16 r, p_src2 = NoParam\<rparr>, d)
   }"

text \<open>\<open>r16_m16\<close> prints a message for a register operand and decodes it all the same.\<close>

definition dec_r16_m16 :: "Decoder \<Rightarrow> MMU \<Rightarrow> Instruction \<Rightarrow> (ParameterSet \<times> Decoder) option" where
  "dec_r16_m16 d u op = do {
     (x, d) \<leftarrow> read_mod_reg_rm d u;
     r \<leftarrow> r16 (reg x);
     (p, d) \<leftarrow> dec_rm16 d u op (rm x) (md x);
     Some (\<lparr>p_dst = Reg16 r, p_src = p, p_src2 = NoParam\<rparr>, d)
   }"

definition dec_r32_rm32 :: "Decoder \<Rightarrow> MMU \<Rightarrow> Instruction \<Rightarrow> (ParameterSet \<times> Decoder) option" where
  "dec_r32_rm32 d u op = do {
     (x, d) \<leftarrow> read_mod_reg_rm d u;
     r \<leftarrow> r32 (reg x);
     (p, d) \<leftarrow> dec_rm32 d u op (rm x) (md x);
     Some (\<lparr>p_dst = Reg32 r, p_src = p, p_src2 = NoParam\<rparr>, d)
   }"

definition dec_rm32_r32 :: "Decoder \<Rightarrow> MMU \<Rightarrow> Instruction \<Rightarrow> (ParameterSet \<times> Decoder) option" where
  "dec_rm32_r32 d u op = do {
     (x, d) \<leftarrow> read_mod_reg_rm d u;
     (p, d) \<leftarrow> dec_rm32 d u op (rm x) (md x);
     r \<leftarrow> r32 (reg x);
     Some (\<lparr>p_dst = p, p_src = Reg32 r, p_src2 = NoParam\<rparr>, d)
   }"

end
