(* ===== verification/X86_Decoder_Ops.thy ===== *)
theory X86_Decoder_Ops
  imports X86_Decoder
begin

text \<open>
  The opcode map of the decoder (\<open>dustbox/src/cpu/decoder.rs\<close>, the match of \<open>decode\<close>): one
  definition per range of opcodes, in the order of the source, without the prefix bytes.
\<close>

unbundle bit_operations_syntax

section \<open>Steps shared by the arms\<close>

type_synonym dec_result = "(Instruction \<times> Decoder) option"

definition imm8 :: "Decoder \<Rightarrow> MMU \<Rightarrow> (Parameter \<times> Decoder) option" where
  "imm8 d u = map_option (\<lambda>(x, d). (Imm8 x, d)) (dec_read_u8 d u)"

definition imms8 :: "Decoder \<Rightarrow> MMU \<Rightarrow> (Parameter \<times> Decoder) option" where
  "imms8 d u = map_option (\<lambda>(x, d). (ImmS8 x, d)) (dec_read_s8 d u)"

definition imm16 :: "Decoder \<Rightarrow> MMU \<Rightarrow> (Parameter \<times> Decoder) option" where
  "imm16 d u = map_option (\<lambda>(x, d). (Imm16 x, d)) (dec_read_u16 d u)"

definition imm32 :: "Decoder \<Rightarrow> MMU \<Rightarrow> (Parameter \<times> Decoder) option" where
  "imm32 d u = map_option (\<lambda>(x, d). (Imm32 x, d)) (dec_read_u32 d u)"

definition rel8 :: "Decoder \<Rightarrow> MMU \<Rightarrow> (Parameter \<times> Decoder) option" where
  "rel8 d u = map_option (\<lambda>(x, d). (Imm16 x, d)) (dec_read_rel8 d u)"

definition rel16 :: "Decoder \<Rightarrow> MMU \<Rightarrow> (Parameter \<times> Decoder) option" where
  "rel16 d u = map_option (\<lambda>(x, d). (Imm16 x, d)) (dec_read_rel16 d u)"

definition moffs :: "(u16 \<Rightarrow> Parameter) \<Rightarrow> Decoder \<Rightarrow> MMU \<Rightarrow> (Parameter \<times> Decoder) option" where
  "moffs mk d u = map_option (\<lambda>(x, d). (mk x, d)) (dec_read_u16 d u)"

text \<open>Setting the command alone, with all operands, with the first, with a fixed first and the second.\<close>

definition op_only :: "Op \<Rightarrow> Instruction \<Rightarrow> Decoder \<Rightarrow> dec_result" where
  "op_only c op d = Some (op\<lparr>command := c\<rparr>, d)"

definition op_params :: "Op \<Rightarrow> Instruction \<Rightarrow> (ParameterSet \<times> Decoder) option \<Rightarrow> dec_result" where
  "op_params c op r = map_option (\<lambda>(ps, d). (op\<lparr>command := c, params := ps\<rparr>, d)) r"

definition set_dst :: "Instruction \<Rightarrow> Parameter \<Rightarrow> Instruction" where
  "set_dst op p = op\<lparr>params := (params op)\<lparr>p_dst := p\<rparr>\<rparr>"

definition set_src :: "Instruction \<Rightarrow> Parameter \<Rightarrow> Instruction" where
  "set_src op p = op\<lparr>params := (params op)\<lparr>p_src := p\<rparr>\<rparr>"

definition set_src2 :: "Instruction \<Rightarrow> Parameter \<Rightarrow> Instruction" where
  "set_src2 op p = op\<lparr>params := (params op)\<lparr>p_src2 := p\<rparr>\<rparr>"

definition op_dst1 :: "Op \<Rightarrow> Instruction \<Rightarrow> (Parameter \<times> Decoder) option \<Rightarrow> dec_result" where
  "op_dst1 c op r = map_option (\<lambda>(p, d). (set_dst (op\<lparr>command := c\<rparr>) p, d)) r"

definition op_dst_src :: "Op \<Rightarrow> Instruction \<Rightarrow> Parameter \<Rightarrow> (Parameter \<times> Decoder) option \<Rightarrow> dec_result" where
  "op_dst_src c op p r = map_option (\<lambda>(q, d). (set_src (set_dst (op\<lparr>command := c\<rparr>) p) q, d)) r"

definition sized :: "Instruction \<Rightarrow> 'a \<Rightarrow> 'a \<Rightarrow> 'a" where
  "sized op a b = (case op_size op of Op16bit \<Rightarrow> a | Op32bit \<Rightarrow> b)"

definition prefixed_16_32_rm_r :: "Decoder \<Rightarrow> MMU \<Rightarrow> Instruction \<Rightarrow> Op \<Rightarrow> Op \<Rightarrow> dec_result" where
  "prefixed_16_32_rm_r d u op op16 op32 =
     sized op (op_params op16 op (dec_rm16_r16 d u (op\<lparr>command := op16\<rparr>)))
       (op_params op32 op (dec_rm32_r32 d u (op\<lparr>command := op32\<rparr>)))"

definition prefixed_16_32_r_rm :: "Decoder \<Rightarrow> MMU \<Rightarrow> Instruction \<Rightarrow> Op \<Rightarrow> Op \<Rightarrow> dec_result" where
  "prefixed_16_32_r_rm d u op op16 op32 =
     sized op (op_params op16 op (dec_r16_rm16 d u (op\<lparr>command := op16\<rparr>)))
       (op_params op32 op (dec_r32_rm32 d u (op\<lparr>command := op32\<rparr>)))"

text \<open>The operations selected by the reg field: \<^term>\<open>None\<close> is unreachable.\<close>

definition alu_op8 :: "u8 \<Rightarrow> Op option" where
  "alu_op8 r =
     (if r = 0 then Some (Arith Add8)
      else if r = 1 then Some (Logic Or8)
      else if r = 2 then Some (Arith Adc8)
      else if r = 3 then Some (Arith Sbb8)
      else if r = 4 then Some (Logic And8)
      else if r = 5 then Some (Arith Sub8)
      else if r = 6 then Some (Logic Xor8)
      else if r = 7 then Some (Arith Cmp8)
      else None)"

definition alu_op16 :: "u8 \<Rightarrow> Op option" where
  "alu_op16 r =
     (if r = 0 then Some (Arith Add16)
      else if r = 1 then Some (Logic Or16)
      else if r = 2 then Some (Arith Adc16)
      else if r = 3 then Some (Arith Sbb16)
      else if r = 4 then Some (Logic And16)
      else if r = 5 then Some (Arith Sub16)
      else if r = 6 then Some (Logic Xor16)
      else if r = 7 then Some (Arith Cmp16)
      else None)"

definition alu_op32 :: "u8 \<Rightarrow> Op option" where
  "alu_op32 r =
     (if r = 0 then Some (Arith Add32)
      else if r = 1 then Some (Logic Or32)
      else if r = 2 then Some (Arith Adc32)
      else if r = 3 then Some (Arith Sbb32)
      else if r = 4 then Some (Logic And32)
      else if r = 5 then Some (Arith Sub32)
      else if r = 6 then Some (Logic Xor32)
      else if r = 7 then Some (Arith Cmp32)
      else None)"

definition shift_op8 :: "u8 \<Rightarrow> Op \<Rightarrow> Op" where
  "shift_op8 r bad =
     (if r = 0 then Shift Rol8
      else if r = 1 then Shift Ror8
      else if r = 2 then Shift Rcl8
      else if r = 3 then Shift Rcr8
      else if r = 4 then Shift Shl8
      else if r = 5 then Shift Shr8
      else if r = 7 then Shift Sar8
      else bad)"

definition shift_op16 :: "u8 \<Rightarrow> Op \<Rightarrow> Op" where
  "shift_op16 r bad =
     (if r = 0 then Shift Rol16
      else if r = 1 then Shift Ror16
      else if r = 2 then Shift Rcl16
      else if r = 3 then Shift Rcr16
      else if r = 4 then Shift Shl16
      else if r = 5 then Shift Shr16
      else if r = 7 then Shift Sar16
      else bad)"

definition shift_op32 :: "u8 \<Rightarrow> Op \<Rightarrow> Op" where
  "shift_op32 r bad =
     (if r = 0 then Shift Rol32
      else if r = 1 then Shift Ror32
      else if r = 2 then Shift Rcl32
      else if r = 3 then Shift Rcr32
      else if r = 4 then Shift Shl32
      else if r = 5 then Shift Shr32
      else if r = 7 then Shift Sar32
      else bad)"

section \<open>Opcodes 00 to 3F\<close>

definition dec_0x :: "u8 \<Rightarrow> Decoder \<Rightarrow> MMU \<Rightarrow> Instruction \<Rightarrow> dec_result" where
  "dec_0x b d u op =
     (if b = 0x00 then op_params (Arith Add8) op (dec_rm8_r8 d u (segment_prefix op))
      else if b = 0x01 then prefixed_16_32_rm_r d u op (Arith Add16) (Arith Add32)
      else if b = 0x02 then op_params (Arith Add8) op (dec_r8_rm8 d u (segment_prefix op))
      else if b = 0x03 then prefixed_16_32_r_rm d u op (Arith Add16) (Arith Add32)
      else if b = 0x04 then op_dst_src (Arith Add8) op (Reg8 R.AL) (imm8 d u)
      else if b = 0x05 then sized op (op_dst_src (Arith Add16) op (Reg16 R.AX) (imm16 d u))
        (op_dst_src (Arith Add32) op (Reg32 R.EAX) (imm32 d u))
      else if b = 0x06 then op_dst1 (Move Push16) op (Some (SReg16 R.ES, d))
      else if b = 0x07 then op_dst1 (Move Pop16) op (Some (SReg16 R.ES, d))
      else if b = 0x08 then op_params (Logic Or8) op (dec_rm8_r8 d u (segment_prefix op))
      else if b = 0x09 then prefixed_16_32_rm_r d u op (Logic Or16) (Logic Or32)
      else if b = 0x0A then op_params (Logic Or8) op (dec_r8_rm8 d u (segment_prefix op))
      else if b = 0x0B then op_params (Logic Or16) op (dec_r16_rm16 d u (op\<lparr>command := Logic Or16\<rparr>))
      else if b = 0x0C then op_dst_src (Logic Or8) op (Reg8 R.AL) (imm8 d u)
      else if b = 0x0D then sized op (op_dst_src (Logic Or16) op (Reg16 R.AX) (imm16 d u))
        (op_dst_src (Logic Or32) op (Reg32 R.EAX) (imm32 d u))
      else if b = 0x0E then op_dst1 (Move Push16) op (Some (SReg16 R.CS, d))
      else None)"

definition dec_0F :: "u8 \<Rightarrow> Decoder \<Rightarrow> MMU \<Rightarrow> Instruction \<Rightarrow> dec_result" where
  "dec_0F b d u op = do {
     (b2, d) \<leftarrow> dec_read_u8 d u;
       (if b2 = 0x00 then do {
          (x, d) \<leftarrow> read_mod_reg_rm d u;
          op_dst1 (if reg x = 0 then Move Sldt else Invalid [b, b2] (Reg (reg x))) op
            (dec_rm16 d u op (rm x) (md x)) }
        else if b2 = 0x02 then op_params (Move Lar16) op (dec_r16_rm16 d u op)
        else if b2 = 0x82 then op_dst1 (Flow (Jcc Jc)) op (rel16 d u)
        else if b2 = 0x83 then op_dst1 (Flow (Jcc Jnc)) op (rel16 d u)
        else if b2 = 0x84 then op_dst1 (Flow (Jcc Jz)) op (rel16 d u)
        else if b2 = 0x85 then op_dst1 (Flow (Jcc Jnz)) op (rel16 d u)
        else if b2 = 0x86 then op_dst1 (Flow (Jcc Jna)) op (rel16 d u)
        else if b2 = 0x87 then op_dst1 (Flow (Jcc Ja)) op (rel16 d u)
        else if b2 = 0x89 then op_dst1 (Flow (Jcc Jns)) op (rel16 d u)
        else if b2 = 0x8C then op_dst1 (Flow (Jcc Jl)) op (rel16 d u)
        else if b2 = 0x8D then op_dst1 (Flow (Jcc Jnl)) op (rel16 d u)
        else if b2 = 0x8E then op_dst1 (Flow (Jcc Jng)) op (rel16 d u)
        else if b2 = 0x8F then op_dst1 (Flow (Jcc Jg)) op (rel16 d u)
        else if b2 = 0x92 then do {
          (x, d) \<leftarrow> read_mod_reg_rm d u;
          op_dst1 (Logic Setc) op (dec_rm8 d u (segment_prefix op) (rm x) (md x)) }
        else if b2 = 0x95 then do {
          (x, d) \<leftarrow> read_mod_reg_rm d u;
          op_dst1 (Logic Setnz) op (dec_rm8 d u (segment_prefix op) (rm x) (md x)) }
        else if b2 = 0x9F then do {
          (x, d) \<leftarrow> read_mod_reg_rm d u;
          op_dst1 (Logic Setg) op (dec_rm8 d u (segment_prefix op) (rm x) (md x)) }
        else if b2 = 0xA0 then op_dst1 (Move Push16) op (Some (SReg16 R.FS, d))
        else if b2 = 0xA1 then op_dst1 (Move Pop16) op (Some (SReg16 R.FS, d))
        else if b2 = 0xA3 then op_params (Logic Bt) op (dec_rm16_r16 d u op)
        else if b2 = 0xA4 then do {
          (op, d) \<leftarrow> op_params (Shift Shld) op (dec_rm16_r16 d u op);
          (p, d) \<leftarrow> imm8 d u; Some (set_src2 op p, d) }
        else if b2 = 0xA8 then op_dst1 (Move Push16) op (Some (SReg16 R.GS, d))
        else if b2 = 0xA9 then op_dst1 (Move Pop16) op (Some (SReg16 R.GS, d))
        else if b2 = 0xAC then do {
          (op, d) \<leftarrow> op_params (Shift Shrd) op (dec_rm16_r16 d u op);
          (p, d) \<leftarrow> imm8 d u; Some (set_src2 op p, d) }
        else if b2 = 0xAF then prefixed_16_32_r_rm d u op (Mul Imul16) (Mul Imul32)
        else if b2 = 0xB6 then sized op (op_params (Move Movzx16) op (dec_r16_rm8 d u (segment_prefix op)))
          (op_params (Move Movzx32) op (dec_r32_rm8 d u (segment_prefix op)))
        else if b2 = 0xB7 then sized op (op_only (Invalid [b, b2] InvalidOp) op d)
          (op_params (Move Movzx32) op (dec_r32_rm16 d u op))
        else if b2 = 0xBA then do {
          (x, d) \<leftarrow> read_mod_reg_rm d u;
          (op, d) \<leftarrow> op_dst1 (Logic Bts) op (dec_rm16 d u op (rm x) (md x));
          (p, d) \<leftarrow> imm8 d u; Some (set_src op p, d) }
        else if b2 = 0xBC then op_params (Logic Bsf) op (dec_r16_rm16 d u op)
        else if b2 = 0xBE then sized op (op_params (Move Movsx16) op (dec_r16_rm8 d u (segment_prefix op)))
          (op_params (Move Movsx32) op (dec_r32_rm8 d u (segment_prefix op)))
        else if b2 = 0xBF then sized op (op_only (Invalid [b, b2] InvalidOp) op d)
          (op_params (Move Movsx32) op (dec_r32_rm16 d u op))
        else op_only (Invalid [b, b2] InvalidOp) op d)
   }"

definition dec_1x :: "u8 \<Rightarrow> Decoder \<Rightarrow> MMU \<Rightarrow> Instruction \<Rightarrow> dec_result" where
  "dec_1x b d u op =
     (if b = 0x10 then op_params (Arith Adc8) op (dec_rm8_r8 d u (segment_prefix op))
      else if b = 0x11 then prefixed_16_32_rm_r d u op (Arith Adc16) (Arith Adc32)
      else if b = 0x12 then op_params (Arith Adc8) op (dec_r8_rm8 d u (segment_prefix op))
      else if b = 0x13 then op_params (Arith Adc16) op (dec_r16_rm16 d u (op\<lparr>command := Arith Adc16\<rparr>))
      else if b = 0x14 then op_dst_src (Arith Adc8) op (Reg8 R.AL) (imm8 d u)
      else if b = 0x15 then sized op (op_dst_src (Arith Adc16) op (Reg16 R.AX) (imm16 d u))
        (op_dst_src (Arith Adc32) op (Reg32 R.EAX) (imm32 d u))
      else if b = 0x16 then op_dst1 (Move Push16) op (Some (SReg16 R.SS, d))
      else if b = 0x17 then op_dst1 (Move Pop16) op (Some (SReg16 R.SS, d))
      else if b = 0x18 then op_params (Arith Sbb8) op (dec_rm8_r8 d u (segment_prefix op))
      else if b = 0x19 then prefixed_16_32_rm_r d u op (Arith Sbb16) (Arith Sbb32)
      else if b = 0x1A then op_params (Arith Sbb8) op (dec_r8_rm8 d u (segment_prefix op))
      else if b = 0x1B then op_params (Arith Sbb16) op (dec_r16_rm16 d u (op\<lparr>command := Arith Sbb16\<rparr>))
      else if b = 0x1C then op_dst_src (Arith Sbb8) op (Reg8 R.AL) (imm8 d u)
      else if b = 0x1D then sized op (op_dst_src (Arith Sbb16) op (Reg16 R.AX) (imm16 d u))
        (op_dst_src (Arith Sbb32) op (Reg32 R.EAX) (imm32 d u))
      else if b = 0x1E then op_dst1 (Move Push16) op (Some (SReg16 R.DS, d))
      else if b = 0x1F then op_dst1 (Move Pop16) op (Some (SReg16 R.DS, d))
      else None)"

definition dec_2x :: "u8 \<Rightarrow> Decoder \<Rightarrow> MMU \<Rightarrow> Instruction \<Rightarrow> dec_result" where
  "dec_2x b d u op =
     (if b = 0x20 then op_params (Logic And8) op (dec_rm8_r8 d u (segment_prefix op))
      else if b = 0x21 then prefixed_16_32_rm_r d u op (Logic And16) (Logic And32)
      else if b = 0x22 then op_params (Logic And8) op (dec_r8_rm8 d u (segment_prefix op))
      else if b = 0x23 then op_params (Logic And16) op (dec_r16_rm16 d u (op\<lparr>command := Logic And16\<rparr>))
      else if b = 0x24 then op_dst_src (Logic And8) op (Reg8 R.AL) (imm8 d u)
      else if b = 0x25 then sized op (op_dst_src (Logic And16) op (Reg16 R.AX) (imm16 d u))
        (op_dst_src (Logic And32) op (Reg32 R.EAX) (imm32 d u))
      else if b = 0x27 then op_only (Arith Daa) op d
      else if b = 0x28 then op_params (Arith Sub8) op (dec_rm8_r8 d u (segment_prefix op))
      else if b = 0x29 then prefixed_16_32_rm_r d u op (Arith Sub16) (Arith Sub32)
      else if b = 0x2A then op_params (Arith Sub8) op (dec_r8_rm8 d u (segment_prefix op))
      else if b = 0x2B then prefixed_16_32_r_rm d u op (Arith Sub16) (Arith Sub32)
      else if b = 0x2C then op_dst_src (Arith Sub8) op (Reg8 R.AL) (imm8 d u)
      else if b = 0x2D then sized op (op_dst_src (Arith Sub16) op (Reg16 R.AX) (imm16 d u))
        (op_dst_src (Arith Sub32) op (Reg32 R.EAX) (imm32 d u))
      else if b = 0x2F then op_only (Arith Das) op d
      else None)"

definition dec_3x :: "u8 \<Rightarrow> Decoder \<Rightarrow> MMU \<Rightarrow> Instruction \<Rightarrow> dec_result" where
  "dec_3x b d u op =
     (if b = 0x30 then op_params (Logic Xor8) op (dec_rm8_r8 d u (segment_prefix op))
      else if b = 0x31 then prefixed_16_32_rm_r d u op (Logic Xor16) (Logic Xor32)
      else if b = 0x32 then op_params (Logic Xor8) op (dec_r8_rm8 d u (segment_prefix op))
      else if b = 0x33 then prefixed_16_32_r_rm d u op (Logic Xor16) (Logic Xor32)
      else if b = 0x34 then op_dst_src (Logic Xor8) op (Reg8 R.AL) (imm8 d u)
      else if b = 0x35 then sized op (op_dst_src (Logic Xor16) op (Reg16 R.AX) (imm16 d u))
        (op_dst_src (Logic Xor32) op (Reg32 R.EAX) (imm32 d u))
      else if b = 0x37 then op_only (Arith Aaa) op d
      else if b = 0x38 then op_params (Arith Cmp8) op (dec_rm8_r8 d u (segment_prefix op))
      else if b = 0x39 then prefixed_16_32_rm_r d u op (Arith Cmp16) (Arith Cmp32)
      else if b = 0x3A then op_params (Arith Cmp8) op (dec_r8_rm8 d u (segment_prefix op))
      else if b = 0x3B then prefixed_16_32_r_rm d u op (Arith Cmp16) (Arith Cmp32)
      else if b = 0x3C then op_dst_src (Arith Cmp8) op (Reg8 R.AL) (imm8 d u)
      else if b = 0x3D then sized op (op_dst_src (Arith Cmp16) op (Reg16 R.AX) (imm16 d u))
        (op_dst_src (Arith Cmp32) op (Reg32 R.EAX) (imm32 d u))
      else if b = 0x3F then op_only (Arith Aas) op d
      else None)"

section \<open>Opcodes 40 to 7F\<close>

definition dec_4x_6x :: "u8 \<Rightarrow> Decoder \<Rightarrow> MMU \<Rightarrow> Instruction \<Rightarrow> dec_result" where
  "dec_4x_6x b d u op =
     (if 0x40 \<le> b \<and> b \<le> 0x47 then sized op
        (op_dst1 (Arith Inc16) op (map_option (\<lambda>r. (Reg16 r, d)) (r16 (b AND 7))))
        (op_dst1 (Arith Inc32) op (map_option (\<lambda>r. (Reg32 r, d)) (r32 (b AND 7))))
      else if 0x48 \<le> b \<and> b \<le> 0x4F then sized op
        (op_dst1 (Arith Dec16) op (map_option (\<lambda>r. (Reg16 r, d)) (r16 (b AND 7))))
        (op_dst1 (Arith Dec32) op (map_option (\<lambda>r. (Reg32 r, d)) (r32 (b AND 7))))
      else if 0x50 \<le> b \<and> b \<le> 0x57 then sized op
        (op_dst1 (Move Push16) op (map_option (\<lambda>r. (Reg16 r, d)) (r16 (b AND 7))))
        (op_dst1 (Move Push32) op (map_option (\<lambda>r. (Reg32 r, d)) (r32 (b AND 7))))
      else if 0x58 \<le> b \<and> b \<le> 0x5F then sized op
        (op_dst1 (Move Pop16) op (map_option (\<lambda>r. (Reg16 r, d)) (r16 (b AND 7))))
        (op_dst1 (Move Pop32) op (map_option (\<lambda>r. (Reg32 r, d)) (r32 (b AND 7))))
      else if b = 0x60 then op_only (sized op (Move Pusha16) (Move Pushad32)) op d
      else if b = 0x61 then op_only (sized op (Move Popa16) (Move Popad32)) op d
      else if b = 0x62 then op_params (Logic Bound) op (dec_r16_rm16 d u op)
      else if b = 0x63 then op_params (Logic Arpl) op (dec_rm16_r16 d u op)
      else if b = 0x68 then op_dst1 (Move Push16) op (imm16 d u)
      else if b = 0x69 then sized op
        (do { (op, d) \<leftarrow> op_params (Mul Imul16) op (dec_r16_rm16 d u (op\<lparr>command := Mul Imul16\<rparr>));
              (p, d) \<leftarrow> imm16 d u; Some (set_src2 op p, d) })
        (do { (op, d) \<leftarrow> op_params (Mul Imul32) op (dec_r32_rm32 d u (op\<lparr>command := Mul Imul32\<rparr>));
              (p, d) \<leftarrow> imm32 d u; Some (set_src2 op p, d) })
      else if b = 0x6A then op_dst1 (Move Push16) op (imms8 d u)
      else if b = 0x6B then sized op
        (do { (op, d) \<leftarrow> op_params (Mul Imul16) op (dec_r16_rm16 d u (op\<lparr>command := Mul Imul16\<rparr>));
              (p, d) \<leftarrow> imms8 d u; Some (set_src2 op p, d) })
        (do { (op, d) \<leftarrow> op_params (Mul Imul32) op (dec_r32_rm32 d u (op\<lparr>command := Mul Imul32\<rparr>));
              (p, d) \<leftarrow> imms8 d u; Some (set_src2 op p, d) })
      else if b = 0x6C then op_only (Str Insb) op d
      else if b = 0x6D then op_only (Str Insw) op d
      else if b = 0x6E then op_only (Str Outsb) op d
      else if b = 0x6F then op_only (Str Outsw) op d
      else None)"

definition dec_7x :: "u8 \<Rightarrow> Decoder \<Rightarrow> MMU \<Rightarrow> Instruction \<Rightarrow> dec_result" where
  "dec_7x b d u op =
     (if b = 0x70 then op_dst1 (Flow (Jcc Jo)) op (rel8 d u)
      else if b = 0x71 then op_dst1 (Flow (Jcc Jno)) op (rel8 d u)
      else if b = 0x72 then op_dst1 (Flow (Jcc Jc)) op (rel8 d u)
      else if b = 0x73 then op_dst1 (Flow (Jcc Jnc)) op (rel8 d u)
      else if b = 0x74 then op_dst1 (Flow (Jcc Jz)) op (rel8 d u)
      else if b = 0x75 then op_dst1 (Flow (Jcc Jnz)) op (rel8 d u)
      else if b = 0x76 then op_dst1 (Flow (Jcc Jna)) op (rel8 d u)
      else if b = 0x77 then op_dst1 (Flow (Jcc Ja)) op (rel8 d u)
      else if b = 0x78 then op_dst1 (Flow (Jcc Js)) op (rel8 d u)
      else if b = 0x79 then op_dst1 (Flow (Jcc Jns)) op (rel8 d u)
      else if b = 0x7A then op_dst1 (Flow (Jcc Jpe)) op (rel8 d u)
      else if b = 0x7B then op_dst1 (Flow (Jcc Jpo)) op (rel8 d u)
      else if b = 0x7C then op_dst1 (Flow (Jcc Jl)) op (rel8 d u)
      else if b = 0x7D then op_dst1 (Flow (Jcc Jnl)) op (rel8 d u)
      else if b = 0x7E then op_dst1 (Flow (Jcc Jng)) op (rel8 d u)
      else if b = 0x7F then op_dst1 (Flow (Jcc Jg)) op (rel8 d u)
      else None)"

section \<open>Opcodes 80 to BF\<close>

definition dec_8x :: "u8 \<Rightarrow> Decoder \<Rightarrow> MMU \<Rightarrow> Instruction \<Rightarrow> dec_result" where
  "dec_8x b d u op =
     (if b = 0x80 \<or> b = 0x82 then do {
        (x, d) \<leftarrow> read_mod_reg_rm d u;
        do {
        (p, d) \<leftarrow> dec_rm8 d u (segment_prefix op) (rm x) (md x);
        (q, d) \<leftarrow> imm8 d u;
        c \<leftarrow> alu_op8 (reg x);
        Some (set_src (set_dst (op\<lparr>command := c\<rparr>) p) q, d) } }
      else if b = 0x81 then do {
        (x, d) \<leftarrow> read_mod_reg_rm d u;
        sized op (do {
        (p, d) \<leftarrow> dec_rm16 d u op (rm x) (md x);
        (q, d) \<leftarrow> imm16 d u;
        c \<leftarrow> alu_op16 (reg x);
        Some (set_src (set_dst (op\<lparr>command := c\<rparr>) p) q, d) })
        (do {
        (p, d) \<leftarrow> dec_rm32 d u op (rm x) (md x);
        (q, d) \<leftarrow> imm32 d u;
        c \<leftarrow> alu_op32 (reg x);
        Some (set_src (set_dst (op\<lparr>command := c\<rparr>) p) q, d) }) }
      else if b = 0x83 then do {
        (x, d) \<leftarrow> read_mod_reg_rm d u;
        sized op (do {
        (p, d) \<leftarrow> dec_rm16 d u op (rm x) (md x);
        (q, d) \<leftarrow> imms8 d u;
        c \<leftarrow> alu_op16 (reg x);
        Some (set_src (set_dst (op\<lparr>command := c\<rparr>) p) q, d) })
        (do {
        (p, d) \<leftarrow> dec_rm32 d u op (rm x) (md x);
        (q, d) \<leftarrow> imms8 d u;
        c \<leftarrow> alu_op32 (reg x);
        Some (set_src (set_dst (op\<lparr>command := c\<rparr>) p) q, d) }) }
      else if b = 0x84 then op_params (Logic Test8) op (dec_rm8_r8 d u (segment_prefix op))
      else if b = 0x85 then prefixed_16_32_rm_r d u op (Logic Test16) (Logic Test32)
      else if b = 0x86 then op_params (Move Xchg8) op (dec_rm8_r8 d u (segment_prefix op))
      else if b = 0x87 then op_params (Move Xchg16) op (dec_rm16_r16 d u op)
      else if b = 0x88 then op_params (Move Mov8) op (dec_rm8_r8 d u (segment_prefix op))
      else if b = 0x89 then prefixed_16_32_rm_r d u op (Move Mov16) (Move Mov32)
      else if b = 0x8A then op_params (Move Mov8) op (dec_r8_rm8 d u (segment_prefix op))
      else if b = 0x8B then prefixed_16_32_r_rm d u op (Move Mov16) (Move Mov32)
      else if b = 0x8C then op_params (Move Mov16) op (dec_rm16_sreg d u op)
      else if b = 0x8D then op_params (Move Lea16) op (dec_r16_m16 d u op)
      else if b = 0x8E then op_params (Move Mov16) op (dec_sreg_rm16 d u op)
      else if b = 0x8F then do {
        (x, d) \<leftarrow> read_mod_reg_rm d u;
        op_dst1 (if reg x = 0 then Move Pop16 else Invalid [b] FPUOp) op (dec_rm16 d u op (rm x) (md x)) }
      else None)"

definition dec_9x :: "u8 \<Rightarrow> Decoder \<Rightarrow> MMU \<Rightarrow> Instruction \<Rightarrow> dec_result" where
  "dec_9x b d u op =
     (if b = 0x90 then op_only (Move Nop) op d
      else if 0x91 \<le> b \<and> b \<le> 0x97 then sized op
        (op_dst_src (Move Xchg16) op (Reg16 R.AX) (map_option (\<lambda>r. (Reg16 r, d)) (r16 (b AND 7))))
        (op_dst_src (Move Xchg32) op (Reg32 R.EAX) (map_option (\<lambda>r. (Reg32 r, d)) (r32 (b AND 7))))
      else if b = 0x98 then op_only (sized op (Arith Cbw) (Arith Cwde32)) op d
      else if b = 0x99 then op_only (Arith Cwd16) op d
      else if b = 0x9A then do {
        (imm, d) \<leftarrow> dec_read_u16 d u;
        (seg, d) \<leftarrow> dec_read_u16 d u;
        op_dst1 (Flow CallFar) op (Some (Ptr16Imm seg imm, d)) }
      else if b = 0x9B then op_only (Fpu Fwait) op d
      else if b = 0x9C then op_only (Move Pushf) op d
      else if b = 0x9D then op_only (Move Popf) op d
      else if b = 0x9E then op_only (Move Sahf) op d
      else if b = 0x9F then op_only (Move Lahf) op d
      else None)"

definition dec_Ax :: "u8 \<Rightarrow> Decoder \<Rightarrow> MMU \<Rightarrow> Instruction \<Rightarrow> dec_result" where
  "dec_Ax b d u op =
     (if b = 0xA0 then op_dst_src (Move Mov8) op (Reg8 R.AL) (moffs (Ptr8 (segment_prefix op)) d u)
      else if b = 0xA1 then sized op (op_dst_src (Move Mov16) op (Reg16 R.AX) (moffs (Ptr16 (segment_prefix op)) d u))
        (op_dst_src (Move Mov32) op (Reg32 R.EAX) (moffs (Ptr32 (segment_prefix op)) d u))
      else if b = 0xA2 then do {
        (op, d) \<leftarrow> op_dst1 (Move Mov8) op (moffs (Ptr8 (segment_prefix op)) d u);
        Some (set_src op (Reg8 R.AL), d) }
      else if b = 0xA3 then sized op
        (do { (op, d) \<leftarrow> op_dst1 (Move Mov16) op (moffs (Ptr16 (segment_prefix op)) d u); Some (set_src op (Reg16 R.AX), d) })
        (do { (op, d) \<leftarrow> op_dst1 (Move Mov32) op (moffs (Ptr32 (segment_prefix op)) d u); Some (set_src op (Reg32 R.EAX), d) })
      else if b = 0xA4 then op_only (Str Movsb) op d
      else if b = 0xA5 then op_only (sized op (Str Movsw) (Str Movsd)) op d
      else if b = 0xA6 then op_only (Str Cmpsb) op d
      else if b = 0xA7 then op_only (Str Cmpsw) op d
      else if b = 0xA8 then op_dst_src (Logic Test8) op (Reg8 R.AL) (imm8 d u)
      else if b = 0xA9 then sized op (op_dst_src (Logic Test16) op (Reg16 R.AX) (imm16 d u))
        (op_dst_src (Logic Test32) op (Reg32 R.EAX) (imm32 d u))
      else if b = 0xAA then op_only (Str Stosb) op d
      else if b = 0xAB then op_only (sized op (Str Stosw) (Str Stosd)) op d
      else if b = 0xAC then op_only (Str Lodsb) op d
      else if b = 0xAD then op_only (sized op (Str Lodsw) (Str Lodsd)) op d
      else if b = 0xAE then op_only (Str Scasb) op d
      else if b = 0xAF then op_only (Str Scasw) op d
      else None)"

definition dec_Bx :: "u8 \<Rightarrow> Decoder \<Rightarrow> MMU \<Rightarrow> Instruction \<Rightarrow> dec_result" where
  "dec_Bx b d u op =
     (if 0xB0 \<le> b \<and> b \<le> 0xB7 then do {
        r \<leftarrow> r8 (b AND 7);
        op_dst_src (Move Mov8) op (Reg8 r) (imm8 d u) }
      else if 0xB8 \<le> b then sized op
        (do { r \<leftarrow> r16 (b AND 7); op_dst_src (Move Mov16) op (Reg16 r) (imm16 d u) })
        (do { r \<leftarrow> r32 (b AND 7); op_dst_src (Move Mov32) op (Reg32 r) (imm32 d u) })
      else None)"

section \<open>Opcodes C0 to D7\<close>

definition dec_C0_C7 :: "u8 \<Rightarrow> Decoder \<Rightarrow> MMU \<Rightarrow> Instruction \<Rightarrow> dec_result" where
  "dec_C0_C7 b d u op =
     (if b = 0xC0 then do {
        (x, d) \<leftarrow> read_mod_reg_rm d u;
        do {
        (op, d) \<leftarrow> op_dst1 (shift_op8 (reg x) (Invalid [b] (Reg (reg x)))) op (dec_rm8 d u (segment_prefix op) (rm x) (md x));
        (p, d) \<leftarrow> imm8 d u;
        Some (set_src op p, d) } }
      else if b = 0xC1 then do {
        (x, d) \<leftarrow> read_mod_reg_rm d u;
        sized op (do {
        (op, d) \<leftarrow> op_dst1 (shift_op16 (reg x) (Invalid [b] (Reg (reg x)))) op (dec_rm16 d u op (rm x) (md x));
        (p, d) \<leftarrow> imm8 d u;
        Some (set_src op p, d) })
        (do {
        (op, d) \<leftarrow> op_dst1 (shift_op32 (reg x) (Invalid [b] (Reg (reg x)))) op (dec_rm32 d u op (rm x) (md x));
        (p, d) \<leftarrow> imm8 d u;
        Some (set_src op p, d) }) }
      else if b = 0xC2 then op_dst1 (Flow Retn) op (imm16 d u)
      else if b = 0xC3 then op_only (Flow Retn) op d
      else if b = 0xC4 then op_params (Move Les) op (dec_r16_m16 d u op)
      else if b = 0xC5 then op_params (Move Lds) op (dec_r16_m16 d u op)
      else if b = 0xC6 then do {
        (x, d) \<leftarrow> read_mod_reg_rm d u;
        do {
        (p, d) \<leftarrow> dec_rm8 d u (segment_prefix op) (rm x) (md x);
        (q, d) \<leftarrow> imm8 d u;
        let c = (if reg x = 0 then Move Mov8 else Invalid [b, modrm_u8 x] (Reg (reg x)));
        Some (set_src (set_dst (op\<lparr>command := c\<rparr>) p) q, d) } }
      else if b = 0xC7 then do {
        (x, d) \<leftarrow> read_mod_reg_rm d u;
        sized op (do {
        (p, d) \<leftarrow> dec_rm16 d u op (rm x) (md x);
        (q, d) \<leftarrow> imm16 d u;
        let c = (if reg x = 0 then Move Mov16 else Invalid [b, modrm_u8 x] (Reg (reg x)));
        Some (set_src (set_dst (op\<lparr>command := c\<rparr>) p) q, d) })
        (do {
        (p, d) \<leftarrow> dec_rm32 d u op (rm x) (md x);
        (q, d) \<leftarrow> imm32 d u;
        let c = (if reg x = 0 then Move Mov32 else Invalid [b, modrm_u8 x] (Reg (reg x)));
        Some (set_src (set_dst (op\<lparr>command := c\<rparr>) p) q, d) }) }
      else None)"

definition dec_C8_CF :: "u8 \<Rightarrow> Decoder \<Rightarrow> MMU \<Rightarrow> Instruction \<Rightarrow> dec_result" where
  "dec_C8_CF b d u op =
     (if b = 0xC8 then do {
        (op, d) \<leftarrow> op_dst1 (Move Enter) op (imm16 d u);
        (p, d) \<leftarrow> imm8 d u;
        Some (set_src op p, d) }
      else if b = 0xC9 then op_only (Move Leave) op d
      else if b = 0xCA then op_dst1 (Flow Retf) op (imm16 d u)
      else if b = 0xCB then op_only (Flow Retf) op d
      else if b = 0xCC then op_dst1 (Flow IntN) op (Some (Imm8 3, d))
      else if b = 0xCD then op_dst1 (Flow IntN) op (imm8 d u)
      else if b = 0xCE then op_only (Flow Into) op d
      else if b = 0xCF then op_only (Flow Iret) op d
      else None)"

definition dec_D0_D7 :: "u8 \<Rightarrow> Decoder \<Rightarrow> MMU \<Rightarrow> Instruction \<Rightarrow> dec_result" where
  "dec_D0_D7 b d u op =
     (if b = 0xD0 then do {
        (x, d) \<leftarrow> read_mod_reg_rm d u;
        do {
        (op, d) \<leftarrow> op_dst1 (shift_op8 (reg x) (Invalid [b, modrm_u8 x] (Reg (reg x)))) op (dec_rm8 d u (segment_prefix op) (rm x) (md x));
        (p, d) \<leftarrow> Some (Imm8 1, d);
        Some (set_src op p, d) } }
      else if b = 0xD1 then do {
        (x, d) \<leftarrow> read_mod_reg_rm d u;
        do {
        (op, d) \<leftarrow> op_dst1 (shift_op16 (reg x) (Invalid [b] (Reg (reg x)))) op (dec_rm16 d u op (rm x) (md x));
        (p, d) \<leftarrow> Some (Imm16 1, d);
        Some (set_src op p, d) } }
      else if b = 0xD2 then do {
        (x, d) \<leftarrow> read_mod_reg_rm d u;
        do {
        (op, d) \<leftarrow> op_dst1 (shift_op8 (reg x) (Invalid [b] (Reg (reg x)))) op (dec_rm8 d u (segment_prefix op) (rm x) (md x));
        (p, d) \<leftarrow> Some (Reg8 R.CL, d);
        Some (set_src op p, d) } }
      else if b = 0xD3 then do {
        (x, d) \<leftarrow> read_mod_reg_rm d u;
        do {
        (op, d) \<leftarrow> op_dst1 (shift_op16 (reg x) (Invalid [b] (Reg (reg x)))) op (dec_rm16 d u op (rm x) (md x));
        (p, d) \<leftarrow> Some (Reg8 R.CL, d);
        Some (set_src op p, d) } }
      else if b = 0xD4 then op_dst1 (Arith Aam) op (imm8 d u)
      else if b = 0xD5 then op_dst1 (Arith Aad) op (imm8 d u)
      else if b = 0xD6 then op_only (Move Salc) op d
      else if b = 0xD7 then op_only (Move Xlatb) op d
      else None)"

section \<open>Opcodes D8 to DF\<close>

definition dec_D8 :: "u8 \<Rightarrow> Decoder \<Rightarrow> MMU \<Rightarrow> Instruction \<Rightarrow> dec_result" where
  "dec_D8 b d u op = do {
     (x, d) \<leftarrow> read_mod_reg_rm d u;
       (if reg x = 0 then op_dst1 (Fpu Fadd) op (dec_rmf32 d u op (rm x) (md x))
        else if reg x = 1 then op_dst1 (Fpu Fmul) op (dec_rmf32 d u op (rm x) (md x))
        else if reg x = 3 then op_dst1 (Fpu Fcomp) op (dec_rmf32 d u op (rm x) (md x))
        else if reg x = 4 then op_dst1 (Fpu Fsub) op (dec_rmf32 d u op (rm x) (md x))
        else if reg x = 5 then op_dst1 (Fpu Fsubr) op (dec_rmf32 d u op (rm x) (md x))
        else if reg x = 6 then op_dst1 (Fpu Fdiv) op (dec_rmf32 d u op (rm x) (md x))
        else if reg x = 7 then op_dst1 (Fpu Fdivr) op (dec_rmf32 d u op (rm x) (md x))
        else op_only (Invalid [b, modrm_u8 x] FPUOp) op d)
   }"

definition dec_D9 :: "u8 \<Rightarrow> Decoder \<Rightarrow> MMU \<Rightarrow> Instruction \<Rightarrow> dec_result" where
  "dec_D9 b d u op = do {
     (x, d) \<leftarrow> read_mod_reg_rm d u;
       (if md x = 0 \<or> md x = 1 \<or> md x = 2 then (if reg x = 0 then op_dst1 (Fpu Fld) op (dec_rmf32 d u op (rm x) (md x))
          else if reg x = 2 then op_dst1 (Fpu Fst) op (dec_rmf32 d u op (rm x) (md x))
          else if reg x = 3 then op_dst1 (Fpu Fstp) op (dec_rmf32 d u op (rm x) (md x))
          else if reg x = 5 then op_dst1 (Fpu Fldcw) op (dec_rmf16 d u op (rm x) (md x))
          else if reg x = 7 then op_dst1 (Fpu Fnstcw) op (dec_rmf16 d u op (rm x) (md x))
          else op_only (Invalid [b, modrm_u8 x] FPUOp) op d)
        else if md x = 3 then (if reg x = 0 then op_dst1 (Fpu Fld) op (map_option (\<lambda>r. (FPR80 r, d)) (fpr (rm x)))
          else if reg x = 1 then op_dst1 (Fpu Fxch) op (map_option (\<lambda>r. (FPR80 r, d)) (fpr (rm x)))
          else if reg x = 4 then (if rm x = 0 then op_only (Fpu Fchs) op d
         else if rm x = 1 then op_only (Fpu Fabs) op d
         else if rm x = 4 then op_only (Fpu Ftst) op d
         else op_only (Invalid [b, modrm_u8 x] FPUOp) op d)
          else if reg x = 5 then (if rm x = 0 then op_only (Fpu Fld1) op d
         else if rm x = 1 then op_only (Fpu Fldl2t) op d
         else if rm x = 2 then op_only (Fpu Fldl2e) op d
         else if rm x = 3 then op_only (Fpu Fldpi) op d
         else if rm x = 6 then op_only (Fpu Fldz) op d
         else op_only (Invalid [b, modrm_u8 x] FPUOp) op d)
          else if reg x = 6 then (if rm x = 3 then op_only (Fpu Fpatan) op d
         else op_only (Invalid [b, modrm_u8 x] FPUOp) op d)
          else if reg x = 7 then (if rm x = 2 then op_only (Fpu Fsqrt) op d
         else if rm x = 3 then op_only (Fpu Fsincos) op d
         else if rm x = 4 then op_only (Fpu Frndint) op d
         else if rm x = 6 then op_only (Fpu Fsin) op d
         else if rm x = 7 then op_only (Fpu Fcos) op d
         else op_only (Invalid [b, modrm_u8 x] FPUOp) op d)
          else op_only (Invalid [b, modrm_u8 x] FPUOp) op d)
        else op_only (Invalid [b, modrm_u8 x] FPUOp) op d)
   }"

definition dec_DA :: "u8 \<Rightarrow> Decoder \<Rightarrow> MMU \<Rightarrow> Instruction \<Rightarrow> dec_result" where
  "dec_DA b d u op = do {
     (x, d) \<leftarrow> read_mod_reg_rm d u;
       (if reg x = 3 then op_dst1 (Fpu Ficomp) op (dec_rmf32 d u op (rm x) (md x))
        else op_only (Invalid [b, modrm_u8 x] FPUOp) op d)
   }"

definition dec_DB :: "u8 \<Rightarrow> Decoder \<Rightarrow> MMU \<Rightarrow> Instruction \<Rightarrow> dec_result" where
  "dec_DB b d u op = do {
     (x, d) \<leftarrow> read_mod_reg_rm d u;
       (if reg x = 0 then op_dst1 (Fpu Fild) op (dec_rmf32 d u op (rm x) (md x))
        else if reg x = 1 then op_dst1 (Fpu Fisttp) op (dec_rmf32 d u op (rm x) (md x))
        else if reg x = 3 then op_dst1 (Fpu Fistp) op (dec_rmf32 d u op (rm x) (md x))
        else if reg x = 4 then (if md x = 3 \<and> rm x = 3 then op_only (Fpu Finit) op d else Some (op, d))
        else op_only (Invalid [b, modrm_u8 x] FPUOp) op d)
   }"

definition dec_DC :: "u8 \<Rightarrow> Decoder \<Rightarrow> MMU \<Rightarrow> Instruction \<Rightarrow> dec_result" where
  "dec_DC b d u op = do {
     (x, d) \<leftarrow> read_mod_reg_rm d u;
     op_only (Invalid [b, modrm_u8 x] FPUOp) op d
   }"

definition dec_DD :: "u8 \<Rightarrow> Decoder \<Rightarrow> MMU \<Rightarrow> Instruction \<Rightarrow> dec_result" where
  "dec_DD b d u op = do {
     (x, d) \<leftarrow> read_mod_reg_rm d u;
       (if reg x = 0 then op_dst1 (Fpu Ffree) op (map_option (\<lambda>r. (FPR80 r, d)) (fpr (rm x)))
        else if reg x = 2 then op_dst1 (Fpu Fst) op (dec_rmf32 d u op (rm x) (md x))
        else if reg x = 3 then op_dst1 (Fpu Fstp) op (dec_rmf32 d u op (rm x) (md x))
        else op_only (Invalid [b, modrm_u8 x] FPUOp) op d)
   }"

definition dec_DE :: "u8 \<Rightarrow> Decoder \<Rightarrow> MMU \<Rightarrow> Instruction \<Rightarrow> dec_result" where
  "dec_DE b d u op = do {
     (x, d) \<leftarrow> read_mod_reg_rm d u;
       (if reg x = 0 then op_dst1 (Fpu Faddp) op (map_option (\<lambda>r. (FPR80 r, d)) (fpr (rm x)))
        else if reg x = 1 then op_dst1 (Fpu Fimul) op (dec_rmf16 d u op (rm x) (md x))
        else if reg x = 2 then op_dst1 (Fpu Ficom) op (dec_rmf16 d u op (rm x) (md x))
        else if reg x = 3 then op_dst1 (Fpu Ficomp) op (dec_rmf16 d u op (rm x) (md x))
        else if reg x = 4 then op_dst1 (Fpu Fsubrp) op (map_option (\<lambda>r. (FPR80 r, d)) (fpr (rm x)))
        else if reg x = 5 then op_dst1 (Fpu Fsubp) op (map_option (\<lambda>r. (FPR80 r, d)) (fpr (rm x)))
        else if reg x = 6 then op_dst1 (Fpu Fidiv) op (dec_rmf16 d u op (rm x) (md x))
        else if reg x = 7 then op_dst1 (Fpu Fdivp) op (dec_rmf16 d u op (rm x) (md x))
        else op_only (Invalid [b, modrm_u8 x] FPUOp) op d)
   }"

definition dec_DF :: "u8 \<Rightarrow> Decoder \<Rightarrow> MMU \<Rightarrow> Instruction \<Rightarrow> dec_result" where
  "dec_DF b d u op = do {
     (x, d) \<leftarrow> read_mod_reg_rm d u;
       (if reg x = 0 then op_dst1 (Fpu Fild) op (dec_rmf16 d u op (rm x) (md x))
        else if reg x = 2 then op_dst1 (Fpu Fist) op (dec_rmf16 d u op (rm x) (md x))
        else if reg x = 3 then op_dst1 (Fpu Fistp) op (dec_rmf16 d u op (rm x) (md x))
        else if reg x = 4 then (if md x = 3 \<and> rm x = 0 then op_dst1 (Fpu Fstsw) op (Some (Reg16 R.AX, d))
         else op_only (Invalid [b, modrm_u8 x] FPUOp) op d)
        else if reg x = 5 then op_dst1 (Fpu Fild) op (dec_rmf32 d u op (rm x) (md x))
        else if reg x = 7 then op_dst1 (Fpu Fistp) op (dec_rmf32 d u op (rm x) (md x))
        else op_only (Invalid [b, modrm_u8 x] FPUOp) op d)
   }"

section \<open>Opcodes E0 to FF\<close>

definition dec_Ex :: "u8 \<Rightarrow> Decoder \<Rightarrow> MMU \<Rightarrow> Instruction \<Rightarrow> dec_result" where
  "dec_Ex b d u op =
     (if b = 0xE0 then op_dst1 (Flow Loopne) op (rel8 d u)
      else if b = 0xE1 then op_dst1 (Flow Loope) op (rel8 d u)
      else if b = 0xE2 then op_dst1 (Flow Loop) op (rel8 d u)
      else if b = 0xE3 then op_dst1 (Flow (Jcc Jcxz)) op (rel8 d u)
      else if b = 0xE4 then op_dst_src (Str In8) op (Reg8 R.AL) (imm8 d u)
      else if b = 0xE5 then op_dst_src (Str In16) op (Reg16 R.AX) (imm8 d u)
      else if b = 0xE6 then do {
        (op, d) \<leftarrow> op_dst1 (Str Out8) op (imm8 d u);
        Some (set_src op (Reg8 R.AL), d) }
      else if b = 0xE7 then do {
        (op, d) \<leftarrow> op_dst1 (Str Out16) op (imm8 d u);
        Some (set_src op (Reg16 R.AX), d) }
      else if b = 0xE8 then op_dst1 (Flow CallNear) op (rel16 d u)
      else if b = 0xE9 then op_dst1 (Flow JmpNear) op (rel16 d u)
      else if b = 0xEA then do {
        (imm, d) \<leftarrow> dec_read_u16 d u;
        (seg, d) \<leftarrow> dec_read_u16 d u;
        op_dst1 (Flow JmpFar) op (Some (Ptr16Imm seg imm, d)) }
      else if b = 0xEB then op_dst1 (Flow JmpShort) op (rel8 d u)
      else if b = 0xEC then op_dst_src (Str In8) op (Reg8 R.AL) (Some (Reg16 R.DX, d))
      else if b = 0xED then op_dst_src (Str In16) op (Reg16 R.AX) (Some (Reg16 R.DX, d))
      else if b = 0xEE then op_dst_src (Str Out8) op (Reg16 R.DX) (Some (Reg8 R.AL, d))
      else if b = 0xEF then op_dst_src (Str Out16) op (Reg16 R.DX) (Some (Reg16 R.AX, d))
      else None)"

definition dec_Fx :: "u8 \<Rightarrow> Decoder \<Rightarrow> MMU \<Rightarrow> Instruction \<Rightarrow> dec_result" where
  "dec_Fx b d u op =
     (if b = 0xF1 then op_dst1 (Flow IntN) op (Some (Imm8 1, d))
      else if b = 0xF4 then op_only (Flow Hlt) op d
      else if b = 0xF5 then op_only (Flag Cmc) op d
      else if b = 0xF6 then do {
        (x, d) \<leftarrow> read_mod_reg_rm d u;
        do {
        (p, d) \<leftarrow> dec_rm8 d u (segment_prefix op) (rm x) (md x);
        let op = set_dst op p;
         (if reg x = 0 \<or> reg x = 1 then do { (q, d) \<leftarrow> imm8 d u; Some (set_src (op\<lparr>command := Logic Test8\<rparr>) q, d) }
          else if reg x = 2 then op_only (Logic Not8) op d
          else if reg x = 3 then op_only (Arith Neg8) op d
          else if reg x = 4 then op_only (Mul Mul8) op d
          else if reg x = 5 then op_only (Mul Imul8) op d
          else if reg x = 6 then op_only (Mul Div8) op d
          else if reg x = 7 then op_only (Mul Idiv8) op d
          else None) } }
      else if b = 0xF7 then do {
        (x, d) \<leftarrow> read_mod_reg_rm d u;
        sized op (do {
        (p, d) \<leftarrow> dec_rm16 d u op (rm x) (md x);
        let op = set_dst op p;
         (if reg x = 0 \<or> reg x = 1 then do { (q, d) \<leftarrow> imm16 d u; Some (set_src (op\<lparr>command := Logic Test16\<rparr>) q, d) }
          else if reg x = 2 then op_only (Logic Not16) op d
          else if reg x = 3 then op_only (Arith Neg16) op d
          else if reg x = 4 then op_only (Mul Mul16) op d
          else if reg x = 5 then op_only (Mul Imul16) op d
          else if reg x = 6 then op_only (Mul Div16) op d
          else if reg x = 7 then op_only (Mul Idiv16) op d
          else None) })
        (do {
        (p, d) \<leftarrow> dec_rm32 d u op (rm x) (md x);
        let op = set_dst op p;
         (if reg x = 0 \<or> reg x = 1 then do { (q, d) \<leftarrow> imm32 d u; Some (set_src (op\<lparr>command := Logic Test32\<rparr>) q, d) }
          else if reg x = 2 then op_only (Logic Not32) op d
          else if reg x = 3 then op_only (Arith Neg32) op d
          else if reg x = 4 then op_only (Mul Mul32) op d
          else if reg x = 5 then op_only (Mul Imul32) op d
          else if reg x = 6 then op_only (Mul Div32) op d
          else if reg x = 7 then op_only (Mul Idiv32) op d
          else op_only (Invalid [b, modrm_u8 x] (Reg (reg x))) op d) }) }
      else if b = 0xF8 then op_only (Flag Clc) op d
      else if b = 0xF9 then op_only (Flag Stc) op d
      else if b = 0xFA then op_only (Flag Cli) op d
      else if b = 0xFB then op_only (Flag Sti) op d
      else if b = 0xFC then op_only (Flag Cld) op d
      else if b = 0xFD then op_only (Flag Std) op d
      else if b = 0xFE then do {
        (x, d) \<leftarrow> read_mod_reg_rm d u;
        op_dst1 (if reg x = 0 \<or> reg x = 2 then Arith Inc8
           else if reg x = 1 then Arith Dec8
           else Invalid [b, modrm_u8 x] (Reg (reg x))) op (dec_rm8 d u (segment_prefix op) (rm x) (md x)) }
      else if b = 0xFF then do {
        (x, d) \<leftarrow> read_mod_reg_rm d u;
        sized op (op_dst1 (if reg x = 0 then Arith Inc16
           else if reg x = 1 then Arith Dec16
           else if reg x = 2 then Flow CallNear
           else if reg x = 3 then Flow CallFar
           else if reg x = 4 then Flow JmpNear
           else if reg x = 5 then Flow JmpFar
           else if reg x = 6 then Move Push16
           else Invalid [b, modrm_u8 x] (Reg (reg x))) op (dec_rm16 d u op (rm x) (md x)))
        (op_dst1 (if reg x = 0 then Arith Inc32
           else if reg x = 1 then Arith Dec32
           else if reg x = 6 then Move Push32
           else Invalid [b, modrm_u8 x] (Reg (reg x))) op (dec_rm32 d u op (rm x) (md x))) }
      else None)"

section \<open>The whole map and the prefixes\<close>

definition dec_opcode :: "u8 \<Rightarrow> Decoder \<Rightarrow> MMU \<Rightarrow> Instruction \<Rightarrow> dec_result" where
  "dec_opcode b d u op =
     (if b < 0x0F then dec_0x b d u op
      else if b = 0x0F then dec_0F b d u op
      else if b < 0x20 then dec_1x b d u op
      else if b < 0x30 then dec_2x b d u op
      else if b < 0x40 then dec_3x b d u op
      else if b < 0x70 then dec_4x_6x b d u op
      else if b < 0x80 then dec_7x b d u op
      else if b < 0x90 then dec_8x b d u op
      else if b < 0xA0 then dec_9x b d u op
      else if b < 0xB0 then dec_Ax b d u op
      else if b < 0xC0 then dec_Bx b d u op
      else if b < 0xC8 then dec_C0_C7 b d u op
      else if b < 0xD0 then dec_C8_CF b d u op
      else if b < 0xD8 then dec_D0_D7 b d u op
      else if b = 0xD8 then dec_D8 b d u op
      else if b = 0xD9 then dec_D9 b d u op
      else if b = 0xDA then dec_DA b d u op
      else if b = 0xDB then dec_DB b d u op
      else if b = 0xDC then dec_DC b d u op
      else if b = 0xDD then dec_DD b d u op
      else if b = 0xDE then dec_DE b d u op
      else if b = 0xDF then dec_DF b d u op
      else if b < 0xF0 then dec_Ex b d u op
      else dec_Fx b d u op)"

text \<open>
  A prefix byte and what it records before the rest is decoded. The byte F3 records its repeat
  mode afterwards, by the operation it found.
\<close>

definition apply_prefix :: "u8 \<Rightarrow> Instruction \<Rightarrow> Instruction option" where
  "apply_prefix b op =
     (if b = 0x26 then Some (op\<lparr>segment_prefix := Segment.ES\<rparr>)
      else if b = 0x2E then Some (op\<lparr>segment_prefix := Segment.CS\<rparr>)
      else if b = 0x36 then Some (op\<lparr>segment_prefix := Segment.SS\<rparr>)
      else if b = 0x3E then Some (op\<lparr>segment_prefix := Segment.DS\<rparr>)
      else if b = 0x64 then Some (op\<lparr>segment_prefix := Segment.FS\<rparr>)
      else if b = 0x65 then Some (op\<lparr>segment_prefix := Segment.GS\<rparr>)
      else if b = 0x66 then Some (op\<lparr>op_size := Op32bit\<rparr>)
      else if b = 0x67 then Some (op\<lparr>address_size := A32bit\<rparr>)
      else if b = 0xF0 then Some (op\<lparr>lock := True\<rparr>)
      else if b = 0xF2 then Some (op\<lparr>repeat := Repne\<rparr>)
      else if b = 0xF3 then Some op
      else None)"

definition finish_prefix :: "u8 \<Rightarrow> Instruction \<Rightarrow> Instruction" where
  "finish_prefix b op =
     (if b \<noteq> 0xF3 then op
      else if command op \<in> {Str Insb, Str Insw, Str Outsb, Str Outsw, Str Movsb, Str Movsw, Str Movsd,
         Str Stosb, Str Stosw, Str Stosd, Str Lodsb, Str Lodsw, Str Lodsd}
        then op\<lparr>repeat := Rep\<rparr>
      else if command op \<in> {Str Cmpsb, Str Cmpsw, Str Scasb, Str Scasw} then op\<lparr>repeat := Repe\<rparr>
      else op\<lparr>command := Invalid [b] InvalidOp\<rparr>)"

fun decode :: "nat \<Rightarrow> Decoder \<Rightarrow> MMU \<Rightarrow> Instruction \<Rightarrow> dec_result" where
  "decode 0 d u op = None"
| "decode (Suc n) d u op = do {
     let start_offset = current_offset d;
     (b, d) \<leftarrow> dec_read_u8 d u;
     case apply_prefix b op of
       Some op' \<Rightarrow> do {
         (op, d) \<leftarrow> decode n d u op';
         len \<leftarrow> add_chk (ilength op) 1;
         Some (finish_prefix b (op\<lparr>ilength := len\<rparr>), d)
       }
     | None \<Rightarrow> do {
         (op, d) \<leftarrow> dec_opcode b d u op;
         Some (op\<lparr>ilength := ucast ((ucast (ilength op) :: u16) + current_offset d - start_offset)\<rparr>, d)
       }
   }"

definition DECODE_FUEL :: nat where "DECODE_FUEL = 257"

definition get_instruction :: "Decoder \<Rightarrow> MMU \<Rightarrow> u16 \<Rightarrow> u16 \<Rightarrow> dec_result" where
  "get_instruction d u seg off =
     decode DECODE_FUEL (d\<lparr>current_seg := seg, current_offset := off\<rparr>) u (instr_new Uninitialized)"

section \<open>Blocks of instructions\<close>

record InstructionInfo =
  info_segment :: usize
  info_offset :: usize
  info_bytes :: "u8 list"
  info_instruction :: Instruction

definition get_instruction_info :: "Decoder \<Rightarrow> MMU \<Rightarrow> u16 \<Rightarrow> u16 \<Rightarrow> (InstructionInfo \<times> Decoder) option" where
  "get_instruction_info d u seg off = do {
     (instr, d) \<leftarrow> get_instruction d u seg off;
     bytes \<leftarrow> mmu_read u seg off (unat (ilength instr));
     Some (\<lparr>info_segment = ucast seg, info_offset = ucast off, info_bytes = bytes,
       info_instruction = instr\<rparr>, d)
   }"

fun block_loop :: "nat \<Rightarrow> Decoder \<Rightarrow> MMU \<Rightarrow> u16 \<Rightarrow> u16 \<Rightarrow> u16 \<Rightarrow> (InstructionInfo list \<times> Decoder) option" where
  "block_loop 0 d u seg off inst_offset = Some ([], d)"
| "block_loop (Suc n) d u seg off inst_offset = do {
     at \<leftarrow> add_chk off inst_offset;
     (info, d) \<leftarrow> get_instruction_info d u seg at;
     inst_offset \<leftarrow> add_chk inst_offset (of_nat (length (info_bytes info)));
     (infos, d) \<leftarrow> block_loop n d u seg off inst_offset;
     Some (info # infos, d)
   }"

definition decode_to_block :: "Decoder \<Rightarrow> MMU \<Rightarrow> u16 \<Rightarrow> u16 \<Rightarrow> nat \<Rightarrow> (InstructionInfo list \<times> Decoder) option" where
  "decode_to_block d u seg off n = block_loop n d u seg off 0"

end
