(* ===== verification/X86_Exec_Arith.thy ===== *)
theory X86_Exec_Arith
  imports X86_Cpu
begin

text \<open>
  Arithmetic instructions: the arms of \<open>Machine::execute\<close> (\<open>dustbox/src/machine.rs\<close>) for addition,
  subtraction, negation, comparison, decimal and ASCII adjustment, width changes, multiplication
  and division. One definition per arm, on the processor and the MMU, the only parts of the machine
  these arms touch.

  An arm that leaves \<open>execute\<close> with \<open>return\<close> says so in its result (\<open>Return\<close>), since that skips the
  repeat suffix at the end of \<open>execute\<close>. A checked operation whose operand types already rule the
  panic out is written without the check.
\<close>

unbundle bit_operations_syntax

section \<open>Leaving an arm\<close>

datatype Exit = Fall | Return

type_synonym exec_result = "(Exit \<times> CPU \<times> MMU) option"

definition falls :: "(CPU \<times> MMU) option \<Rightarrow> exec_result" where
  "falls r = map_option (\<lambda>(c, u). (Fall, c, u)) r"

text \<open>An operation without an arm prints a message.\<close>

definition unhandled :: "CPU \<Rightarrow> MMU \<Rightarrow> (CPU \<times> MMU) option" where
  "unhandled c u = Some (c, u)"

section \<open>Adjustment and width changes\<close>

definition exec_Aaa :: "Instruction \<Rightarrow> CPU \<Rightarrow> MMU \<Rightarrow> (CPU \<times> MMU) option" where
  "exec_Aaa op c u = do {
     al \<leftarrow> get_r8 c R.AL;
     let v = (if al > 0xF9 then 2 else 1);
     c \<leftarrow> adjb c 6 v;
     Some (c, u)
   }"

definition exec_Aad :: "Instruction \<Rightarrow> CPU \<Rightarrow> MMU \<Rightarrow> (CPU \<times> MMU) option" where
  "exec_Aad op c u = do {
     v \<leftarrow> read_parameter_value c u (op_dst op);
     let op1 = (ucast v :: u16);
     ah \<leftarrow> get_r8 c R.AH;
     ax \<leftarrow> mul_chk (ucast ah) op1;
     al0 \<leftarrow> get_r8 c R.AL;
     ax \<leftarrow> add_chk ax (ucast al0);
     let al = (ucast ax :: u8);
     let c = set_r16 c R.AX (ucast al);
     let f = (cpu_flags c)\<lparr>sign := al \<ge> 0x80, zero := al = 0\<rparr>;
     Some (with_flags c (set_parity f (ucast al)), u)
   }"

definition exec_Aam :: "Instruction \<Rightarrow> CPU \<Rightarrow> MMU \<Rightarrow> exec_result" where
  "exec_Aam op c u = do {
     v \<leftarrow> read_parameter_value c u (op_dst op);
     let imm8 = (ucast v :: u8);
     if imm8 = 0 then Some (Return, cpu_exception c DIV0 0, u)
     else do {
       al \<leftarrow> get_r8 c R.AL;
       c \<leftarrow> set_r8 c R.AH (al div imm8);
       c \<leftarrow> set_r8 c R.AL (al mod imm8);
       al \<leftarrow> get_r8 c R.AL;
       let f = (cpu_flags c)\<lparr>sign := al AND 0x80 \<noteq> 0, zero := al = 0\<rparr>;
       Some (Fall, with_flags c (set_parity f (ucast al)), u)
     }
   }"

definition exec_Aas :: "Instruction \<Rightarrow> CPU \<Rightarrow> MMU \<Rightarrow> (CPU \<times> MMU) option" where
  "exec_Aas op c u = do {
     al \<leftarrow> get_r8 c R.AL;
     let v = (if al < 6 then - 2 else - 1);
     c \<leftarrow> adjb c (- 6) v;
     Some (c, u)
   }"

definition exec_Cbw :: "Instruction \<Rightarrow> CPU \<Rightarrow> MMU \<Rightarrow> (CPU \<times> MMU) option" where
  "exec_Cbw op c u = do {
     al \<leftarrow> get_r8 c R.AL;
     let ah = (if al AND 0x80 \<noteq> 0 then 0xFF else 0x00);
     c \<leftarrow> set_r8 c R.AH ah;
     Some (c, u)
   }"

definition exec_Cwd16 :: "Instruction \<Rightarrow> CPU \<Rightarrow> MMU \<Rightarrow> (CPU \<times> MMU) option" where
  "exec_Cwd16 op c u = do {
     ax \<leftarrow> get_r16 c R.AX;
     let dx = (if ax AND 0x8000 \<noteq> 0 then 0xFFFF else 0);
     Some (set_r16 c R.DX dx, u)
   }"

definition exec_Cwde32 :: "Instruction \<Rightarrow> CPU \<Rightarrow> MMU \<Rightarrow> (CPU \<times> MMU) option" where
  "exec_Cwde32 op c u = do {
     ax \<leftarrow> get_r16 c R.AX;
     c \<leftarrow> set_r32 c R.EAX (scast (ax :: i16));
     Some (c, u)
   }"

definition exec_Daa :: "Instruction \<Rightarrow> CPU \<Rightarrow> MMU \<Rightarrow> (CPU \<times> MMU) option" where
  "exec_Daa op c u = do { c \<leftarrow> adj4 c 6 0x60; Some (c, u) }"

definition exec_Das :: "Instruction \<Rightarrow> CPU \<Rightarrow> MMU \<Rightarrow> (CPU \<times> MMU) option" where
  "exec_Das op c u = do { c \<leftarrow> adj4 c (- 6) (- 0x60); Some (c, u) }"

section \<open>Addition, subtraction, comparison\<close>

definition exec_Adc8 :: "Instruction \<Rightarrow> CPU \<Rightarrow> MMU \<Rightarrow> (CPU \<times> MMU) option" where
  "exec_Adc8 op c u = do {
     src \<leftarrow> read_parameter_value c u (op_src op);
     dst \<leftarrow> read_parameter_value c u (op_dst op);
     let carry_in = (if carry (cpu_flags c) then 1 else 0);
     let res = dst + src + carry_in;
     (c, u) \<leftarrow> write_parameter_u8 c u (op_dst op) (ucast (res AND 0xFF));
     sum_in \<leftarrow> add_chk src carry_in;
     let f = cpu_flags c;
     let f = set_overflow_add_u8 f res sum_in dst;
     let f = set_sign_u8 f res;
     let f = set_zero_u8 f res;
     let f = set_adjust f res sum_in dst;
     let f = set_carry_u8 f res;
     let f = set_parity f res;
     Some (with_flags c f, u)
   }"

definition exec_Adc16 :: "Instruction \<Rightarrow> CPU \<Rightarrow> MMU \<Rightarrow> (CPU \<times> MMU) option" where
  "exec_Adc16 op c u = do {
     src \<leftarrow> read_parameter_value c u (op_src op);
     dst \<leftarrow> read_parameter_value c u (op_dst op);
     let carry_in = (if carry (cpu_flags c) then 1 else 0);
     let res = dst + src + carry_in;
     (c, u) \<leftarrow> write_parameter_u16 c u (segment_prefix op) (op_dst op) (ucast (res AND 0xFFFF));
     sum_in \<leftarrow> add_chk src carry_in;
     let f = cpu_flags c;
     let f = set_overflow_add_u16 f res sum_in dst;
     let f = set_sign_u16 f res;
     let f = set_zero_u16 f res;
     let f = set_adjust f res sum_in dst;
     let f = set_carry_u16 f res;
     let f = set_parity f res;
     Some (with_flags c f, u)
   }"

definition exec_Add8 :: "Instruction \<Rightarrow> CPU \<Rightarrow> MMU \<Rightarrow> (CPU \<times> MMU) option" where
  "exec_Add8 op c u = do {
     src \<leftarrow> read_parameter_value c u (op_src op);
     dst \<leftarrow> read_parameter_value c u (op_dst op);
     let src = (ucast src :: u8);
     let dst = (ucast dst :: u8);
     let res = ucast src + ucast dst;
     let f = cpu_flags c;
     let f = set_carry_u8 f res;
     let f = set_parity f res;
     let f = set_adjust f res (ucast src) (ucast dst);
     let f = set_zero_u8 f res;
     let f = set_sign_u8 f res;
     let f = set_overflow_add_u8 f res (ucast src) (ucast dst);
     let c = with_flags c f;
     write_parameter_u8 c u (op_dst op) (ucast res)
   }"

definition exec_Add16 :: "Instruction \<Rightarrow> CPU \<Rightarrow> MMU \<Rightarrow> (CPU \<times> MMU) option" where
  "exec_Add16 op c u = do {
     src \<leftarrow> read_parameter_value c u (op_src op);
     dst \<leftarrow> read_parameter_value c u (op_dst op);
     let src = (ucast src :: u16);
     let dst = (ucast dst :: u16);
     let res = ucast src + ucast dst;
     let f = cpu_flags c;
     let f = set_carry_u16 f res;
     let f = set_parity f res;
     let f = set_adjust f res (ucast src) (ucast dst);
     let f = set_zero_u16 f res;
     let f = set_sign_u16 f res;
     let f = set_overflow_add_u16 f res (ucast src) (ucast dst);
     let c = with_flags c f;
     write_parameter_u16 c u (segment_prefix op) (op_dst op) (ucast res)
   }"

definition exec_Add32 :: "Instruction \<Rightarrow> CPU \<Rightarrow> MMU \<Rightarrow> (CPU \<times> MMU) option" where
  "exec_Add32 op c u = do {
     src \<leftarrow> read_parameter_value c u (op_src op);
     dst \<leftarrow> read_parameter_value c u (op_dst op);
     let src = (ucast src :: u32);
     let dst = (ucast dst :: u32);
     let res = ucast src + ucast dst;
     let f = cpu_flags c;
     let f = set_carry_u32 f res;
     let f = set_parity f res;
     let f = set_adjust f res (ucast src) (ucast dst);
     let f = set_zero_u32 f res;
     let f = set_sign_u32 f res;
     let f = set_overflow_add_u32 f res (ucast src) (ucast dst);
     let c = with_flags c f;
     write_parameter_u32 c u (segment_prefix op) (op_dst op) (ucast res)
   }"

definition exec_Cmp8 :: "Instruction \<Rightarrow> CPU \<Rightarrow> MMU \<Rightarrow> (CPU \<times> MMU) option" where
  "exec_Cmp8 op c u = do {
     src \<leftarrow> read_parameter_value c u (op_src op);
     dst \<leftarrow> read_parameter_value c u (op_dst op);
     Some (cmp8 c dst src, u)
   }"

definition exec_Cmp16 :: "Instruction \<Rightarrow> CPU \<Rightarrow> MMU \<Rightarrow> (CPU \<times> MMU) option" where
  "exec_Cmp16 op c u = do {
     src \<leftarrow> read_parameter_value c u (op_src op);
     dst \<leftarrow> read_parameter_value c u (op_dst op);
     Some (cmp16 c dst src, u)
   }"

definition exec_Cmp32 :: "Instruction \<Rightarrow> CPU \<Rightarrow> MMU \<Rightarrow> (CPU \<times> MMU) option" where
  "exec_Cmp32 op c u = do {
     src \<leftarrow> read_parameter_value c u (op_src op);
     dst \<leftarrow> read_parameter_value c u (op_dst op);
     Some (cmp32 c dst src, u)
   }"

definition exec_Dec8 :: "Instruction \<Rightarrow> CPU \<Rightarrow> MMU \<Rightarrow> (CPU \<times> MMU) option" where
  "exec_Dec8 op c u = do {
     dst \<leftarrow> read_parameter_value c u (op_dst op);
     let src = 1;
     let res = dst - src;
     let f = cpu_flags c;
     let f = set_overflow_sub_u8 f res src dst;
     let f = set_sign_u8 f res;
     let f = set_zero_u8 f res;
     let f = set_adjust f res src dst;
     let f = set_parity f res;
     let c = with_flags c f;
     write_parameter_u8 c u (op_dst op) (ucast res)
   }"

definition exec_Dec16 :: "Instruction \<Rightarrow> CPU \<Rightarrow> MMU \<Rightarrow> (CPU \<times> MMU) option" where
  "exec_Dec16 op c u = do {
     dst \<leftarrow> read_parameter_value c u (op_dst op);
     let src = 1;
     let res = dst - src;
     let f = cpu_flags c;
     let f = set_overflow_sub_u16 f res src dst;
     let f = set_sign_u16 f res;
     let f = set_zero_u16 f res;
     let f = set_adjust f res src dst;
     let f = set_parity f res;
     let c = with_flags c f;
     write_parameter_u16 c u (segment_prefix op) (op_dst op) (ucast res)
   }"

definition exec_Dec32 :: "Instruction \<Rightarrow> CPU \<Rightarrow> MMU \<Rightarrow> (CPU \<times> MMU) option" where
  "exec_Dec32 op c u = do {
     dst \<leftarrow> read_parameter_value c u (op_dst op);
     let src = 1;
     let res = dst - src;
     let f = cpu_flags c;
     let f = set_overflow_sub_u32 f res src dst;
     let f = set_sign_u32 f res;
     let f = set_zero_u32 f res;
     let f = set_adjust f res src dst;
     let f = set_parity f res;
     let c = with_flags c f;
     write_parameter_u32 c u (segment_prefix op) (op_dst op) (ucast res)
   }"

definition exec_Inc8 :: "Instruction \<Rightarrow> CPU \<Rightarrow> MMU \<Rightarrow> (CPU \<times> MMU) option" where
  "exec_Inc8 op c u = do {
     dst \<leftarrow> read_parameter_value c u (op_dst op);
     let src = 1;
     let res = dst + src;
     let f = cpu_flags c;
     let f = set_overflow_add_u8 f res src dst;
     let f = set_sign_u8 f res;
     let f = set_zero_u8 f res;
     let f = set_adjust f res src dst;
     let f = set_parity f res;
     let c = with_flags c f;
     write_parameter_u8 c u (op_dst op) (ucast res)
   }"

definition exec_Inc16 :: "Instruction \<Rightarrow> CPU \<Rightarrow> MMU \<Rightarrow> (CPU \<times> MMU) option" where
  "exec_Inc16 op c u = do {
     dst \<leftarrow> read_parameter_value c u (op_dst op);
     let src = 1;
     let res = dst + src;
     let f = cpu_flags c;
     let f = set_overflow_add_u16 f res src dst;
     let f = set_sign_u16 f res;
     let f = set_zero_u16 f res;
     let f = set_adjust f res src dst;
     let f = set_parity f res;
     let c = with_flags c f;
     write_parameter_u16 c u (segment_prefix op) (op_dst op) (ucast res)
   }"

definition exec_Inc32 :: "Instruction \<Rightarrow> CPU \<Rightarrow> MMU \<Rightarrow> (CPU \<times> MMU) option" where
  "exec_Inc32 op c u = do {
     dst \<leftarrow> read_parameter_value c u (op_dst op);
     let src = 1;
     let res = dst + src;
     let f = cpu_flags c;
     let f = set_overflow_add_u32 f res src dst;
     let f = set_sign_u32 f res;
     let f = set_zero_u32 f res;
     let f = set_adjust f res src dst;
     let f = set_parity f res;
     let c = with_flags c f;
     write_parameter_u32 c u (segment_prefix op) (op_dst op) (ucast res)
   }"

definition exec_Neg8 :: "Instruction \<Rightarrow> CPU \<Rightarrow> MMU \<Rightarrow> (CPU \<times> MMU) option" where
  "exec_Neg8 op c u = do {
     dst \<leftarrow> read_parameter_value c u (op_dst op);
     let src = (0 :: u8);
     let res = (ucast (src - ucast dst) :: usize);
     (c, u) \<leftarrow> write_parameter_u8 c u (op_dst op) (ucast res);
     let f = cpu_flags c;
     let f = f\<lparr>carry := dst \<noteq> 0\<rparr>;
     let f = f\<lparr>overflow := res = 0x80\<rparr>;
     let f = set_sign_u8 f res;
     let f = set_zero_u8 f res;
     let f = set_adjust f res (ucast src) dst;
     let f = set_parity f res;
     Some (with_flags c f, u)
   }"

definition exec_Neg16 :: "Instruction \<Rightarrow> CPU \<Rightarrow> MMU \<Rightarrow> (CPU \<times> MMU) option" where
  "exec_Neg16 op c u = do {
     dst \<leftarrow> read_parameter_value c u (op_dst op);
     let src = (0 :: u16);
     let res = (ucast (src - ucast dst) :: usize);
     (c, u) \<leftarrow> write_parameter_u16 c u (segment_prefix op) (op_dst op) (ucast res);
     let f = cpu_flags c;
     let f = f\<lparr>carry := dst \<noteq> 0\<rparr>;
     let f = f\<lparr>overflow := res = 0x8000\<rparr>;
     let f = set_sign_u16 f res;
     let f = set_zero_u16 f res;
     let f = set_adjust f res (ucast src) dst;
     let f = set_parity f res;
     Some (with_flags c f, u)
   }"

definition exec_Neg32 :: "Instruction \<Rightarrow> CPU \<Rightarrow> MMU \<Rightarrow> (CPU \<times> MMU) option" where
  "exec_Neg32 op c u = do {
     dst \<leftarrow> read_parameter_value c u (op_dst op);
     let src = (0 :: u32);
     let res = (ucast (src - ucast dst) :: usize);
     (c, u) \<leftarrow> write_parameter_u32 c u (segment_prefix op) (op_dst op) (ucast res);
     let f = cpu_flags c;
     let f = f\<lparr>carry := dst \<noteq> 0\<rparr>;
     let f = f\<lparr>overflow := res = 0x80000000\<rparr>;
     let f = set_sign_u32 f res;
     let f = set_zero_u32 f res;
     let f = set_adjust f res (ucast src) dst;
     let f = set_parity f res;
     Some (with_flags c f, u)
   }"

definition exec_Sbb8 :: "Instruction \<Rightarrow> CPU \<Rightarrow> MMU \<Rightarrow> (CPU \<times> MMU) option" where
  "exec_Sbb8 op c u = do {
     src \<leftarrow> read_parameter_value c u (op_src op);
     dst \<leftarrow> read_parameter_value c u (op_dst op);
     let cf = (if carry (cpu_flags c) then 1 else 0);
     let res = dst - (src + cf);
     let f = cpu_flags c;
     let f = set_overflow_sub_u8 f res src dst;
     let f = set_sign_u8 f res;
     let f = set_zero_u8 f res;
     let f = set_adjust f res src dst;
     let f = set_parity f res;
     let f = set_carry_u8 f res;
     let c = with_flags c f;
     write_parameter_u8 c u (op_dst op) (ucast res)
   }"

definition exec_Sbb16 :: "Instruction \<Rightarrow> CPU \<Rightarrow> MMU \<Rightarrow> (CPU \<times> MMU) option" where
  "exec_Sbb16 op c u = do {
     src \<leftarrow> read_parameter_value c u (op_src op);
     dst \<leftarrow> read_parameter_value c u (op_dst op);
     let cf = (if carry (cpu_flags c) then 1 else 0);
     let res = dst - (src + cf);
     let f = cpu_flags c;
     let f = set_overflow_sub_u16 f res src dst;
     let f = set_sign_u16 f res;
     let f = set_zero_u16 f res;
     let f = set_adjust f res src dst;
     let f = set_parity f res;
     let f = set_carry_u16 f res;
     let c = with_flags c f;
     write_parameter_u16 c u (segment_prefix op) (op_dst op) (ucast res)
   }"

definition exec_Sub8 :: "Instruction \<Rightarrow> CPU \<Rightarrow> MMU \<Rightarrow> (CPU \<times> MMU) option" where
  "exec_Sub8 op c u = do {
     src \<leftarrow> read_parameter_value c u (op_src op);
     dst \<leftarrow> read_parameter_value c u (op_dst op);
     let res = dst - src;
     let f = cpu_flags c;
     let f = set_overflow_sub_u8 f res src dst;
     let f = set_sign_u8 f res;
     let f = set_zero_u8 f res;
     let f = set_adjust f res src dst;
     let f = set_parity f res;
     let f = set_carry_u8 f res;
     let c = with_flags c f;
     write_parameter_u8 c u (op_dst op) (ucast res)
   }"

definition exec_Sub16 :: "Instruction \<Rightarrow> CPU \<Rightarrow> MMU \<Rightarrow> (CPU \<times> MMU) option" where
  "exec_Sub16 op c u = do {
     src \<leftarrow> read_parameter_value c u (op_src op);
     dst \<leftarrow> read_parameter_value c u (op_dst op);
     let res = dst - src;
     let f = cpu_flags c;
     let f = set_overflow_sub_u16 f res src dst;
     let f = set_sign_u16 f res;
     let f = set_zero_u16 f res;
     let f = set_adjust f res src dst;
     let f = set_parity f res;
     let f = set_carry_u16 f res;
     let c = with_flags c f;
     write_parameter_u16 c u (segment_prefix op) (op_dst op) (ucast res)
   }"

definition exec_Sub32 :: "Instruction \<Rightarrow> CPU \<Rightarrow> MMU \<Rightarrow> (CPU \<times> MMU) option" where
  "exec_Sub32 op c u = do {
     src \<leftarrow> read_parameter_value c u (op_src op);
     dst \<leftarrow> read_parameter_value c u (op_dst op);
     let res = dst - src;
     let f = cpu_flags c;
     let f = set_overflow_sub_u32 f res src dst;
     let f = set_sign_u32 f res;
     let f = set_zero_u32 f res;
     let f = set_adjust f res src dst;
     let f = set_parity f res;
     let f = set_carry_u32 f res;
     let c = with_flags c f;
     write_parameter_u32 c u (segment_prefix op) (op_dst op) (ucast res)
   }"

section \<open>Multiplication\<close>

definition exec_Mul8 :: "Instruction \<Rightarrow> CPU \<Rightarrow> MMU \<Rightarrow> (CPU \<times> MMU) option" where
  "exec_Mul8 op c u = do {
     al \<leftarrow> get_r8 c R.AL;
     arg1 \<leftarrow> read_parameter_value c u (op_dst op);
     let ax = (ucast (ucast al * arg1) :: u16);
     let c = set_r16 c R.AX ax;
     let b = (ax AND 0xFF00 \<noteq> 0);
     Some (with_flags c ((cpu_flags c)\<lparr>carry := b, overflow := b\<rparr>), u)
   }"

definition exec_Mul16 :: "Instruction \<Rightarrow> CPU \<Rightarrow> MMU \<Rightarrow> (CPU \<times> MMU) option" where
  "exec_Mul16 op c u = do {
     src \<leftarrow> get_r16 c R.AX;
     dst \<leftarrow> read_parameter_value c u (op_dst op);
     let res = dst * ucast src;
     let c = set_r16 c R.AX (ucast res);
     let dx = (ucast (drop_bit 16 res) :: u16);
     let c = set_r16 c R.DX dx;
     Some (with_flags c ((cpu_flags c)\<lparr>carry := dx \<noteq> 0, overflow := dx \<noteq> 0\<rparr>), u)
   }"

definition exec_Mul32 :: "Instruction \<Rightarrow> CPU \<Rightarrow> MMU \<Rightarrow> (CPU \<times> MMU) option" where
  "exec_Mul32 op c u = do {
     src \<leftarrow> get_r32 c R.EAX;
     dst \<leftarrow> read_parameter_value c u (op_dst op);
     let res = dst * ucast src;
     c \<leftarrow> set_r32 c R.EAX (ucast res);
     let edx = (ucast (drop_bit 32 res) :: u32);
     c \<leftarrow> set_r32 c R.EDX edx;
     Some (with_flags c ((cpu_flags c)\<lparr>carry := edx \<noteq> 0, overflow := edx \<noteq> 0\<rparr>), u)
   }"

definition exec_Imul8 :: "Instruction \<Rightarrow> CPU \<Rightarrow> MMU \<Rightarrow> (CPU \<times> MMU) option" where
  "exec_Imul8 op c u = do {
     f1 \<leftarrow> get_r8 c R.AL;
     v \<leftarrow> read_parameter_value c u (op_dst op);
     let f2 = (ucast v :: i8);
     ax \<leftarrow> smul_chk (scast f1 :: i16) (scast f2);
     let c = set_r16 c R.AX ax;
     let b = \<not> (ax AND 0xFF80 = 0xFF80 \<or> ax AND 0xFF80 = 0x0000);
     Some (with_flags c ((cpu_flags c)\<lparr>carry := b, overflow := b\<rparr>), u)
   }"

text \<open>Carry and overflow of a 16-bit signed product: it does not fit the word.\<close>

definition imul16_flags :: "CPU \<Rightarrow> i64 \<Rightarrow> CPU" where
  "imul16_flags c temps =
     (let tempi = (ucast temps :: u32);
          b = (\<not> (tempi AND 0xFFFF8000 = 0xFFFF8000 \<or> tempi AND 0xFFFF8000 = 0))
      in with_flags c ((cpu_flags c)\<lparr>carry := b, overflow := b\<rparr>))"

definition exec_Imul16 :: "Instruction \<Rightarrow> CPU \<Rightarrow> MMU \<Rightarrow> (CPU \<times> MMU) option" where
  "exec_Imul16 op c u =
     (if param_count (params op) = 1 then do {
        a \<leftarrow> get_r16 c R.AX;
        v \<leftarrow> read_parameter_value c u (op_dst op);
        let b = (ucast v :: i16);
        temps \<leftarrow> smul_chk (scast (a :: i16) :: i64) (scast b);
        let c = set_r16 c R.AX (ucast temps);
        let c = set_r16 c R.DX (ucast (signed_drop_bit 16 temps));
        Some (imul16_flags c temps, u)
      }
      else if param_count (params op) = 2 then do {
        a \<leftarrow> read_parameter_value c u (op_dst op);
        v \<leftarrow> read_parameter_value c u (op_src op);
        let b = (ucast v :: i16);
        temps \<leftarrow> smul_chk (scast (ucast a :: i16) :: i64) (scast b);
        (c, u) \<leftarrow> write_parameter_u16 c u (segment_prefix op) (op_dst op) (ucast temps);
        Some (imul16_flags c temps, u)
      }
      else if param_count (params op) = 3 then do {
        a \<leftarrow> read_parameter_value c u (op_src op);
        v \<leftarrow> read_parameter_value c u (op_src2 op);
        let b = (ucast v :: i16);
        temps \<leftarrow> smul_chk (scast (ucast a :: i16) :: i64) (scast b);
        (c, u) \<leftarrow> write_parameter_u16 c u (segment_prefix op) (op_dst op) (ucast temps);
        Some (imul16_flags c temps, u)
      }
      else None)"

definition exec_Imul32 :: "Instruction \<Rightarrow> CPU \<Rightarrow> MMU \<Rightarrow> (CPU \<times> MMU) option" where
  "exec_Imul32 op c u = do {
     (tmp, c, u) \<leftarrow>
       (if param_count (params op) = 1 then do {
          v \<leftarrow> read_parameter_value c u (op_dst op);
          eax \<leftarrow> get_r32 c R.EAX;
          tmp \<leftarrow> smul_chk (scast (eax :: i32) :: i64) (scast (ucast v :: i32));
          c \<leftarrow> set_r32 c R.EAX (ucast tmp);
          c \<leftarrow> set_r32 c R.EDX (ucast (signed_drop_bit 32 tmp));
          Some (tmp, c, u)
        }
        else if param_count (params op) = 2 then do {
          a \<leftarrow> read_parameter_value c u (op_dst op);
          b \<leftarrow> read_parameter_value c u (op_src op);
          tmp \<leftarrow> smul_chk a b;
          (c, u) \<leftarrow> write_parameter_u32 c u (segment_prefix op) (op_dst op) (ucast tmp);
          Some (tmp, c, u)
        }
        else if param_count (params op) = 3 then do {
          a \<leftarrow> read_parameter_value c u (op_src op);
          b \<leftarrow> read_parameter_value c u (op_src2 op);
          tmp \<leftarrow> smul_chk b a;
          (c, u) \<leftarrow> write_parameter_u32 c u (segment_prefix op) (op_dst op) (ucast tmp);
          Some (tmp, c, u)
        }
        else None);
     let b = (tmp \<noteq> scast (ucast tmp :: i32));
     Some (with_flags c ((cpu_flags c)\<lparr>carry := b, overflow := b\<rparr>), u)
   }"

section \<open>Division\<close>

definition exec_Div8 :: "Instruction \<Rightarrow> CPU \<Rightarrow> MMU \<Rightarrow> exec_result" where
  "exec_Div8 op c u = do {
     ax \<leftarrow> get_r16 c R.AX;
     v \<leftarrow> read_parameter_value c u (op_dst op);
     let op1 = (ucast v :: u16);
     if op1 = 0 then Some (Return, cpu_exception c DIV0 0, u)
     else do {
       let quotient = ax div op1;
       let remainder = (ucast (ax mod op1) :: u8);
       let quo8 = (ucast (quotient AND 0xFF) :: u8);
       if quotient > 0xFF then Some (Return, cpu_exception c DIV0 0, u)
       else do {
         c \<leftarrow> set_r8 c R.AH remainder;
         c \<leftarrow> set_r8 c R.AL quo8;
         Some (Fall, c, u)
       }
     }
   }"

definition exec_Div16 :: "Instruction \<Rightarrow> CPU \<Rightarrow> MMU \<Rightarrow> exec_result" where
  "exec_Div16 op c u = do {
     dx \<leftarrow> get_r16 c R.DX;
     ax \<leftarrow> get_r16 c R.AX;
     let num = push_bit 16 (ucast dx :: u32) + ucast ax;
     v \<leftarrow> read_parameter_value c u (op_dst op);
     let op1 = (ucast v :: u32);
     if op1 = 0 then Some (Return, cpu_exception c DIV0 0, u)
     else do {
       let remainder = (ucast (num mod op1) :: u16);
       let quotient = num div op1;
       let quo16 = (ucast (quotient AND 0xFFFF) :: u16);
       if quotient \<noteq> ucast quo16 then Some (Return, cpu_exception c DIV0 0, u)
       else Some (Fall, set_r16 (set_r16 c R.DX remainder) R.AX quo16, u)
     }
   }"

definition exec_Div32 :: "Instruction \<Rightarrow> CPU \<Rightarrow> MMU \<Rightarrow> exec_result" where
  "exec_Div32 op c u = do {
     edx \<leftarrow> get_r32 c R.EDX;
     eax \<leftarrow> get_r32 c R.EAX;
     let num = push_bit 32 (ucast edx :: u64) + ucast eax;
     v \<leftarrow> read_parameter_value c u (op_dst op);
     let op1 = v;
     if op1 = 0 then Some (Return, cpu_exception c DIV0 0, u)
     else do {
       let remainder = (ucast (num mod op1) :: u32);
       let quotient = num div op1;
       let quo32 = (ucast (quotient AND 0xFFFF) :: u32);
       if quotient \<noteq> ucast quo32 then Some (Return, cpu_exception c DIV0 0, u)
       else do {
         c \<leftarrow> set_r32 c R.EDX remainder;
         c \<leftarrow> set_r32 c R.EAX quo32;
         Some (Fall, c, u)
       }
     }
   }"

definition exec_Idiv8 :: "Instruction \<Rightarrow> CPU \<Rightarrow> MMU \<Rightarrow> exec_result" where
  "exec_Idiv8 op c u = do {
     ax \<leftarrow> get_r16 c R.AX;
     v \<leftarrow> read_parameter_value c u (op_dst op);
     let op1 = (ucast v :: i8);
     if op1 = 0 then Some (Return, cpu_exception c DIV0 0, u)
     else do {
       r \<leftarrow> srem_chk (ax :: i16) (scast op1);
       let rem8 = (ucast r :: i8);
       quo \<leftarrow> sdiv_chk (ax :: i16) (scast op1);
       let quo8s = (ucast (quo AND 0xFF) :: i8);
       if quo \<noteq> scast quo8s then Some (Return, cpu_exception c DIV0 0, u)
       else do {
         c \<leftarrow> set_r8 c R.AL (ucast quo);
         c \<leftarrow> set_r8 c R.AH rem8;
         Some (Fall, c, u)
       }
     }
   }"

definition exec_Idiv16 :: "Instruction \<Rightarrow> CPU \<Rightarrow> MMU \<Rightarrow> exec_result" where
  "exec_Idiv16 op c u = do {
     dx \<leftarrow> get_r16 c R.DX;
     ax \<leftarrow> get_r16 c R.AX;
     let dividend = push_bit 16 (ucast dx :: i32) OR ucast ax;
     v \<leftarrow> read_parameter_value c u (op_dst op);
     let op1 = (ucast v :: i16);
     if op1 = 0 then Some (Return, cpu_exception c DIV0 0, u)
     else do {
       quo \<leftarrow> sdiv_chk dividend (scast op1);
       r \<leftarrow> srem_chk dividend (scast op1);
       let rem16 = (ucast r :: i16);
       let quo16s = (ucast quo :: i16);
       if quo \<noteq> scast quo16s then Some (Return, cpu_exception c DIV0 0, u)
       else Some (Fall, set_r16 (set_r16 c R.AX quo16s) R.DX rem16, u)
     }
   }"

definition exec_Idiv32 :: "Instruction \<Rightarrow> CPU \<Rightarrow> MMU \<Rightarrow> exec_result" where
  "exec_Idiv32 op c u = do {
     edx \<leftarrow> get_r32 c R.EDX;
     eax \<leftarrow> get_r32 c R.EAX;
     let dividend = push_bit 32 (ucast edx :: i64) OR ucast eax;
     v \<leftarrow> read_parameter_value c u (op_dst op);
     let op1 = (ucast v :: i32);
     if op1 = 0 then Some (Return, cpu_exception c DIV0 0, u)
     else do {
       quo \<leftarrow> sdiv_chk dividend (scast op1);
       r \<leftarrow> srem_chk dividend (scast op1);
       let rem32 = (ucast r :: i32);
       let quo32s = (ucast quo :: i32);
       if quo \<noteq> scast quo32s then Some (Return, cpu_exception c DIV0 0, u)
       else do {
         c \<leftarrow> set_r32 c R.EAX quo32s;
         c \<leftarrow> set_r32 c R.EDX rem32;
         Some (Fall, c, u)
       }
     }
   }"

section \<open>Dispatch\<close>

text \<open>\<open>Adc32\<close> and \<open>Sbb32\<close> have no arm.\<close>

definition exec_arith :: "ArithOp \<Rightarrow> Instruction \<Rightarrow> CPU \<Rightarrow> MMU \<Rightarrow> exec_result" where
  "exec_arith k op c u = (case k of
     Aaa \<Rightarrow> falls (exec_Aaa op c u) | Aad \<Rightarrow> falls (exec_Aad op c u)
   | Aam \<Rightarrow> exec_Aam op c u | Aas \<Rightarrow> falls (exec_Aas op c u)
   | Adc8 \<Rightarrow> falls (exec_Adc8 op c u) | Adc16 \<Rightarrow> falls (exec_Adc16 op c u)
   | Add8 \<Rightarrow> falls (exec_Add8 op c u) | Add16 \<Rightarrow> falls (exec_Add16 op c u)
   | Add32 \<Rightarrow> falls (exec_Add32 op c u) | Cbw \<Rightarrow> falls (exec_Cbw op c u)
   | Cmp8 \<Rightarrow> falls (exec_Cmp8 op c u) | Cmp16 \<Rightarrow> falls (exec_Cmp16 op c u)
   | Cmp32 \<Rightarrow> falls (exec_Cmp32 op c u) | Cwd16 \<Rightarrow> falls (exec_Cwd16 op c u)
   | Cwde32 \<Rightarrow> falls (exec_Cwde32 op c u) | Daa \<Rightarrow> falls (exec_Daa op c u)
   | Das \<Rightarrow> falls (exec_Das op c u) | Dec8 \<Rightarrow> falls (exec_Dec8 op c u)
   | Dec16 \<Rightarrow> falls (exec_Dec16 op c u) | Dec32 \<Rightarrow> falls (exec_Dec32 op c u)
   | Inc8 \<Rightarrow> falls (exec_Inc8 op c u) | Inc16 \<Rightarrow> falls (exec_Inc16 op c u)
   | Inc32 \<Rightarrow> falls (exec_Inc32 op c u) | Neg8 \<Rightarrow> falls (exec_Neg8 op c u)
   | Neg16 \<Rightarrow> falls (exec_Neg16 op c u) | Neg32 \<Rightarrow> falls (exec_Neg32 op c u)
   | Sbb8 \<Rightarrow> falls (exec_Sbb8 op c u) | Sbb16 \<Rightarrow> falls (exec_Sbb16 op c u)
   | Sub8 \<Rightarrow> falls (exec_Sub8 op c u) | Sub16 \<Rightarrow> falls (exec_Sub16 op c u)
   | Sub32 \<Rightarrow> falls (exec_Sub32 op c u)
   | Adc32 \<Rightarrow> falls (unhandled c u) | Sbb32 \<Rightarrow> falls (unhandled c u))"

definition exec_mul :: "MulOp \<Rightarrow> Instruction \<Rightarrow> CPU \<Rightarrow> MMU \<Rightarrow> exec_result" where
  "exec_mul k op c u = (case k of
     Div8 \<Rightarrow> exec_Div8 op c u | Div16 \<Rightarrow> exec_Div16 op c u | Div32 \<Rightarrow> exec_Div32 op c u
   | Idiv8 \<Rightarrow> exec_Idiv8 op c u | Idiv16 \<Rightarrow> exec_Idiv16 op c u | Idiv32 \<Rightarrow> exec_Idiv32 op c u
   | Imul8 \<Rightarrow> falls (exec_Imul8 op c u) | Imul16 \<Rightarrow> falls (exec_Imul16 op c u)
   | Imul32 \<Rightarrow> falls (exec_Imul32 op c u) | Mul8 \<Rightarrow> falls (exec_Mul8 op c u)
   | Mul16 \<Rightarrow> falls (exec_Mul16 op c u) | Mul32 \<Rightarrow> falls (exec_Mul32 op c u))"

end
