(* ===== verification/X86_Operands.thy ===== *)
theory X86_Operands
  imports X86_Cpu
begin

text \<open>
  Operands as places. The locale \<open>operand\<close> states what an instruction relies on when it reads its
  operands, computes, and writes its destination: a place can always be read and written, what was
  written is read back, IP and FLAGS are left alone, and setting the flags commutes with the write.
  It is interpreted on the byte, word and double word operands of \<open>CPU::read_parameter_value\<close> and
  \<open>CPU::write_parameter_*\<close>.
\<close>

unbundle bit_operations_syntax

section \<open>Places\<close>

fun place8 :: "Parameter \<Rightarrow> bool" where
  "place8 (Reg8 r) = (r \<in> names8)"
| "place8 (Ptr8 _ _) = True"
| "place8 (Ptr8Amode _ _) = True"
| "place8 (Ptr8AmodeS8 _ _ _) = True"
| "place8 (Ptr8AmodeS16 _ _ _) = True"
| "place8 _ = False"

fun place16 :: "Parameter \<Rightarrow> bool" where
  "place16 (Reg16 r) = (r \<in> names16)"
| "place16 (SReg16 r) = (r \<in> names16)"
| "place16 (Ptr16 _ _) = True"
| "place16 (Ptr16Amode _ _) = True"
| "place16 (Ptr16AmodeS8 _ _ _) = True"
| "place16 (Ptr16AmodeS16 _ _ _) = True"
| "place16 _ = False"

fun place32 :: "Parameter \<Rightarrow> bool" where
  "place32 (Reg32 r) = (r \<in> names32)"
| "place32 (Ptr32 _ _) = True"
| "place32 (Ptr32Amode _ _) = True"
| "place32 (Ptr32AmodeS8 _ _ _) = True"
| "place32 _ = False"

definition operand8 :: "CPU \<Rightarrow> MMU \<Rightarrow> Parameter \<Rightarrow> u8 option" where
  "operand8 c u p = map_option ucast (read_parameter_value c u p)"

definition operand16 :: "CPU \<Rightarrow> MMU \<Rightarrow> Parameter \<Rightarrow> u16 option" where
  "operand16 c u p = map_option ucast (read_parameter_value c u p)"

definition operand32 :: "CPU \<Rightarrow> MMU \<Rightarrow> Parameter \<Rightarrow> u32 option" where
  "operand32 c u p = map_option ucast (read_parameter_value c u p)"

text \<open>
  The outcome of an instruction on its destination: it finishes, the destination reads as \<open>v\<close>, the
  flags satisfy \<open>P\<close> and the instruction pointer is where it was.
\<close>

definition writes :: "(CPU \<Rightarrow> MMU \<Rightarrow> Parameter \<Rightarrow> 'v option) \<Rightarrow> (CPU \<times> MMU) option \<Rightarrow> CPU \<Rightarrow> Parameter \<Rightarrow> 'v \<Rightarrow>
    (Flags \<Rightarrow> bool) \<Rightarrow> bool" where
  "writes get res c p v P \<longleftrightarrow> (\<exists>c' u'. res = Some (c', u') \<and> mmu_ok u' \<and> get c' u' p = Some v \<and>
     P (cpu_flags c') \<and> cpu_ip c' = cpu_ip c)"

locale operand =
  fixes place :: "Parameter \<Rightarrow> bool"
    and get :: "CPU \<Rightarrow> MMU \<Rightarrow> Parameter \<Rightarrow> 'v option"
    and put :: "CPU \<Rightarrow> MMU \<Rightarrow> Segment \<Rightarrow> Parameter \<Rightarrow> 'v \<Rightarrow> (CPU \<times> MMU) option"
  assumes get_defined: "mmu_ok u \<Longrightarrow> place p \<Longrightarrow> \<exists>v. get c u p = Some v"
    and put_defined: "mmu_ok u \<Longrightarrow> place p \<Longrightarrow> \<exists>c' u'. put c u s p v = Some (c', u') \<and> mmu_ok u' \<and>
      cpu_ip c' = cpu_ip c \<and> cpu_flags c' = cpu_flags c"
    and get_put: "mmu_ok u \<Longrightarrow> place p \<Longrightarrow> put c u s p v = Some (c', u') \<Longrightarrow> get c' u' p = Some v"
    and get_flags: "get (with_flags c f) u p = get c u p"
    and put_flags: "put (with_flags c f) u s p v = map_option (\<lambda>(c', u'). (with_flags c' f, u')) (put c u s p v)"
begin

text \<open>An instruction that sets the flags and then writes its destination.\<close>

lemma write_after_flags:
  assumes "mmu_ok u" "place p" "P f"
  shows "writes get (put (with_flags c f) u s p v) c p v P"
proof -
  obtain c' u' where p: "put (with_flags c f) u s p v = Some (c', u')" "mmu_ok u'"
    "cpu_ip c' = cpu_ip (with_flags c f)" "cpu_flags c' = cpu_flags (with_flags c f)"
    using put_defined [OF assms(1,2), of "with_flags c f" s v] by blast
  moreover have "get c' u' p = Some v" by (rule get_put [OF assms(1,2) p(1)])
  ultimately show ?thesis using assms(3) by (simp add: writes_def)
qed

text \<open>One that writes first and sets the flags from what it computed.\<close>

lemma flags_after_write:
  assumes "mmu_ok u" "place p" "\<And>c'. cpu_flags c' = cpu_flags c \<Longrightarrow> P (F c')"
  shows "writes get (do { (c', u') \<leftarrow> put c u s p v; Some (with_flags c' (F c'), u') }) c p v P"
proof -
  obtain c' u' where p: "put c u s p v = Some (c', u')" "mmu_ok u'"
    "cpu_ip c' = cpu_ip c" "cpu_flags c' = cpu_flags c"
    using put_defined [OF assms(1,2), of c s v] by blast
  moreover have "get c' u' p = Some v" by (rule get_put [OF assms(1,2) p(1)])
  ultimately show ?thesis using assms(3) by (simp add: writes_def get_flags)
qed

lemma move_operand:
  assumes "mmu_ok u" "place p" "get c u q = Some v"
  shows "\<exists>c' u'. put c u s p v = Some (c', u') \<and> get c' u' p = get c u q"
  using put_defined [OF assms(1,2), of c s v] get_put [OF assms(1,2), of c s v] assms(3) by fastforce

end

lemma getters_flags [simp]:
  "get_r8 (with_flags c f) r = get_r8 c r" "get_r16 (with_flags c f) r = get_r16 c r"
  "get_r32 (with_flags c f) r = get_r32 c r"
  by (simp_all add: get_r8_def get_r16_def get_r32_def with_flags_def rs_get_r8_def rs_get_r16_def
      rs_get_r32_def split: R.split)

lemma amode_flags [simp]: "amode (with_flags c f) a = amode c a"
  by (cases a) (simp_all add: amode_def)

lemma set_flags_swap:
  "r \<in> names8 \<Longrightarrow> w8 (with_flags c f) r v8 = with_flags (w8 c r v8) f"
  "set_r16 (with_flags c f) r v16 = with_flags (set_r16 c r v16) f"
  "r \<in> names32 \<Longrightarrow> w32 (with_flags c f) r v32 = with_flags (w32 c r v32) f"
  by (auto simp: regs_set set_r16_def with_flags_def cell8 cell32 rs_set_r16_def upd_gpr_def upd_sreg_def
      split: R.split)

lemmas offset_defs = offset_amode_def offset_amode_s8_def offset_amode_s16_def

text \<open>The base of an addressing mode, and with it the segment:offset of a memory operand.\<close>

definition ea_base :: "CPU \<Rightarrow> AMode \<Rightarrow> u16" where
  "ea_base c a = ucast (the (amode c a))"

lemma offset_some [simp]:
  "offset_amode c s a = Some (r16v c (as_register s), ea_base c a)"
  "offset_amode_s8 c s a i8 = Some (r16v c (as_register s), ea_base c a + scast i8)"
  "offset_amode_s16 c s a i16 = Some (r16v c (as_register s), ea_base c a + i16)"
  using amode_some [of c a] by (auto simp: offset_defs ea_base_def)

lemma ea_flags [simp]: "ea_base (with_flags c f) a = ea_base c a"
  by (simp add: ea_base_def)

lemma read_parameter_flags [simp]: "read_parameter_value (with_flags c f) u p = read_parameter_value c u p"
  by (simp add: read_parameter_value_def split: Parameter.split)

lemma set_flags_chk:
  "set_r8 (with_flags c f) r v8 = map_option (\<lambda>c. with_flags c f) (set_r8 c r v8)"
  "set_r32 (with_flags c f) r v32 = map_option (\<lambda>c. with_flags c f) (set_r32 c r v32)"
  by (auto simp: set_r8_def set_r32_def with_flags_def rs_set_r8_def rs_set_r32_def upd_gpr_def
      split: R.split)

lemma keep_flags: "keep_cpu (with_flags c f) x = map_option (\<lambda>(c', u'). (with_flags c' f, u')) (keep_cpu c x)"
  by (cases x) (simp_all add: keep_cpu_def)

lemma write_parameter_flags:
  "write_parameter_u8 (with_flags c f) u p v8 =
     map_option (\<lambda>(c', u'). (with_flags c' f, u')) (write_parameter_u8 c u p v8)"
  "write_parameter_u16 (with_flags c f) u s p v16 =
     map_option (\<lambda>(c', u'). (with_flags c' f, u')) (write_parameter_u16 c u s p v16)"
  "write_parameter_u32 (with_flags c f) u s p v32 =
     map_option (\<lambda>(c', u'). (with_flags c' f, u')) (write_parameter_u32 c u s p v32)"
  by (cases p; simp add: write_parameter_u8_def write_parameter_u16_def write_parameter_u32_def
      keep_flags set_flags_swap(2) set_flags_chk bind_map_option map_option_bind o_def)+

lemmas operand_defs = operand8_def operand16_def operand32_def read_parameter_value_def keep_cpu_def
  write_parameter_u8_def write_parameter_u16_def write_parameter_u32_def

lemma ucast_down_up [simp]:
  "ucast (ucast (v :: u8) :: usize) = v" "ucast (ucast (w :: u16) :: usize) = w"
  "ucast (ucast (d :: u32) :: usize) = d"
  by (rule bit_word_eqI, simp add: bit_simps)+

interpretation op8: operand place8 operand8 "\<lambda>c u s p v. write_parameter_u8 c u p v"
proof
  fix c c' u u' s p v f
  show "mmu_ok u \<Longrightarrow> place8 p \<Longrightarrow> \<exists>v. operand8 c u p = Some v"
    by (cases p) (simp_all add: operand_defs)
  show "mmu_ok u \<Longrightarrow> place8 p \<Longrightarrow> \<exists>c' u'. write_parameter_u8 c u p v = Some (c', u') \<and> mmu_ok u' \<and>
      cpu_ip c' = cpu_ip c \<and> cpu_flags c' = cpu_flags c"
    by (cases p) (simp_all add: operand_defs)
  show "mmu_ok u \<Longrightarrow> place8 p \<Longrightarrow> write_parameter_u8 c u p v = Some (c', u') \<Longrightarrow> operand8 c' u' p = Some v"
    by (cases p) (auto simp: operand_defs)
  show "operand8 (with_flags c f) u p = operand8 c u p"
    by (simp add: operand8_def)
qed (rule write_parameter_flags)

interpretation op16: operand place16 operand16 write_parameter_u16
proof
  fix c c' u u' s p v f
  show "mmu_ok u \<Longrightarrow> place16 p \<Longrightarrow> \<exists>v. operand16 c u p = Some v"
    by (cases p) (simp_all add: operand_defs)
  show "mmu_ok u \<Longrightarrow> place16 p \<Longrightarrow> \<exists>c' u'. write_parameter_u16 c u s p v = Some (c', u') \<and> mmu_ok u' \<and>
      cpu_ip c' = cpu_ip c \<and> cpu_flags c' = cpu_flags c"
    by (cases p) (simp_all add: operand_defs)
  show "mmu_ok u \<Longrightarrow> place16 p \<Longrightarrow> write_parameter_u16 c u s p v = Some (c', u') \<Longrightarrow> operand16 c' u' p = Some v"
    by (cases p) (auto simp: operand_defs)
  show "operand16 (with_flags c f) u p = operand16 c u p"
    by (simp add: operand16_def)
qed (rule write_parameter_flags)

interpretation op32: operand place32 operand32 write_parameter_u32
proof
  fix c c' u u' s p v f
  show "mmu_ok u \<Longrightarrow> place32 p \<Longrightarrow> \<exists>v. operand32 c u p = Some v"
    by (cases p) (simp_all add: operand_defs)
  show "mmu_ok u \<Longrightarrow> place32 p \<Longrightarrow> \<exists>c' u'. write_parameter_u32 c u s p v = Some (c', u') \<and> mmu_ok u' \<and>
      cpu_ip c' = cpu_ip c \<and> cpu_flags c' = cpu_flags c"
    by (cases p) (simp_all add: operand_defs)
  show "mmu_ok u \<Longrightarrow> place32 p \<Longrightarrow> write_parameter_u32 c u s p v = Some (c', u') \<Longrightarrow> operand32 c' u' p = Some v"
    by (cases p) (auto simp: operand_defs)
  show "operand32 (with_flags c f) u p = operand32 c u p"
    by (simp add: operand32_def)
qed (rule write_parameter_flags)

lemma default_registers [simp]:
  "r \<in> names8 \<Longrightarrow> r8v CPU_default r = 0"
  "r \<in> names32 \<Longrightarrow> r32v CPU_default r = 0"
  by (auto simp: names8_def names32_def r8v_def r32v_def rs_defs CPU_default_def RegisterState_default_def
      lo_u8_def hi_u8_def)

end
