(* ===== verification/X86_Narrow.thy ===== *)
theory X86_Narrow
  imports X86_Cpu
begin

text \<open>
  Arithmetic on 8-, 16- and 32-bit operands carried out in 64-bit words, as \<open>Machine::execute\<close> does
  it: what the bits of the wide result say about the narrow one, and what the arithmetic flags mean.
\<close>

unbundle bit_operations_syntax

section \<open>What the flags of an operation say about its result, at any width\<close>

definition result_flags :: "'a::len word \<Rightarrow> int \<Rightarrow> Flags \<Rightarrow> bool" where
  "result_flags r exact f \<longleftrightarrow>
     (zero f \<longleftrightarrow> r = 0) \<and> (sign f \<longleftrightarrow> sint r < 0) \<and> (parity f \<longleftrightarrow> even_ones r) \<and>
     (overflow f \<longleftrightarrow> exact \<notin> {- (2 ^ (LENGTH('a) - 1)) ..< 2 ^ (LENGTH('a) - 1)})"

definition add_flags :: "'a::len word \<Rightarrow> 'a word \<Rightarrow> Flags \<Rightarrow> bool" where
  "add_flags a b f \<longleftrightarrow> result_flags (a + b) (sint a + sint b) f \<and>
     (carry f \<longleftrightarrow> 2 ^ LENGTH('a) \<le> uint a + uint b) \<and>
     (adjust f \<longleftrightarrow> 16 \<le> uint a mod 16 + uint b mod 16)"

definition sub_flags :: "'a::len word \<Rightarrow> 'a word \<Rightarrow> Flags \<Rightarrow> bool" where
  "sub_flags a b f \<longleftrightarrow> result_flags (a - b) (sint a - sint b) f \<and>
     (carry f \<longleftrightarrow> a < b) \<and> (adjust f \<longleftrightarrow> uint a mod 16 < uint b mod 16)"

section \<open>Words narrower than the 64 bits they are computed in\<close>

lemma uint_up:
  fixes a :: "'a::len word"
  assumes "LENGTH('a) \<le> 64"
  shows "uint (ucast a :: usize) = uint a"
proof -
  have "uint a < 2 ^ LENGTH('a)" by simp
  also have "(2 :: int) ^ LENGTH('a) \<le> 2 ^ 64" using assms by (intro power_increasing) simp_all
  finally have "take_bit 64 (uint a) = uint a" by (intro take_bit_int_eq_self) simp_all
  then show ?thesis by (simp add: unsigned_ucast_eq)
qed

lemma sval_up:
  fixes a :: "'a::len word"
  assumes "LENGTH('a) = Suc n" "Suc n \<le> 64"
  shows "sval n (ucast a :: usize) = sint a"
proof -
  have "bit (ucast a :: usize) n \<longleftrightarrow> bit a n" using assms by (simp add: bit_ucast_iff)
  then show ?thesis using assms by (simp add: sval_def sint_bit_eq uint_up)
qed

lemma bit_down:
  fixes w :: usize
  assumes "LENGTH('a::len) = Suc n" "Suc n \<le> 64"
  shows "bit w n \<longleftrightarrow> sint (ucast w :: 'a word) < 0"
proof -
  have "sint (ucast w :: 'a word) < 0 \<longleftrightarrow> bit (ucast w :: 'a word) (LENGTH('a) - Suc 0)"
    by (rule bit_last_iff [symmetric])
  then show ?thesis using assms by (simp add: bit_ucast_iff)
qed

lemma even_ones_down:
  fixes w :: usize
  assumes "8 \<le> LENGTH('a::len)"
  shows "even_ones (ucast w :: 'a word) = even_ones w"
proof -
  have "filter (bit (ucast w :: 'a word)) [0..<8] = filter (bit w) [0..<8]"
    using assms by (intro filter_cong) (auto simp: bit_simps)
  then show ?thesis by (simp add: even_ones_def)
qed

lemma len64: "LENGTH(64) = 64" by simp

lemma ucast_arith_down:
  fixes a b :: "'a::len word"
  assumes "LENGTH('a) \<le> 64"
  shows "ucast (ucast a + ucast b :: usize) = a + b" "ucast (ucast a - ucast b :: usize) = a - b"
    "ucast (ucast a * ucast b :: usize) = a * b"
proof -
  have u: "uint (ucast w :: 'a word) = take_bit LENGTH('a) (uint w)" for w :: usize
    by (simp add: unsigned_ucast_eq)
  have t: "take_bit LENGTH('a) (x mod 2 ^ 64) = take_bit LENGTH('a) x" for x :: int
    using assms by (simp only: take_bit_eq_mod [symmetric] take_bit_take_bit min_absorb1)
  note U = u uint_word_ariths uint_up [OF assms] len64 t
  show "ucast (ucast a + ucast b :: usize) = a + b"
    by (rule word_uint_eqI) (simp only: U, simp only: take_bit_eq_mod)
  show "ucast (ucast a - ucast b :: usize) = a - b"
    by (rule word_uint_eqI) (simp only: U, simp only: take_bit_eq_mod)
  show "ucast (ucast a * ucast b :: usize) = a * b"
    by (rule word_uint_eqI) (simp only: U, simp only: take_bit_eq_mod)
qed

lemma trailing_zeros_down:
  fixes w :: usize
  assumes "LENGTH('a::len) \<le> 64"
  shows "LENGTH('a) \<le> trailing_zeros w \<longleftrightarrow> (ucast w :: 'a word) = 0"
proof -
  have "(ucast w :: 'a word) = 0 \<longleftrightarrow> take_bit LENGTH('a) w = 0"
    using assms by (auto simp: bit_eq_iff bit_simps dest: bit_imp_le_length)
  then show ?thesis using trailing_zeros_ge_iff [of "LENGTH('a)" w] assms
    by simp
qed

text \<open>The carry into a bit is the carry out of the bits below.\<close>

lemma div_below_twice: "0 \<le> s \<Longrightarrow> s < 2 * P \<Longrightarrow> s div P = (if P \<le> s then 1 else 0)" for s P :: int
  by (auto simp: div_pos_geq div_pos_pos_trivial)

lemma mod_borrow:
  fixes x y P :: int
  assumes "0 \<le> x" "x < P" "0 \<le> y" "y < P"
  shows "P \<le> (x - y) mod P + y \<longleftrightarrow> x < y"
proof (cases "x < y")
  case True
  have "(x - y) mod P = (x - y + P) mod P" by simp
  also have "\<dots> = x - y + P" using assms True by (intro mod_pos_pos_trivial) linarith+
  finally show ?thesis using assms True by simp
next
  case False
  then have "(x - y) mod P = x - y" using assms by (intro mod_pos_pos_trivial) linarith+
  then show ?thesis using assms False by simp
qed

lemma carry_into_add:
  fixes a b :: "'a::len word"
  assumes "n < LENGTH('a)"
  shows "(bit (a + b) n \<noteq> (bit a n \<noteq> bit b n)) \<longleftrightarrow> 2 ^ n \<le> uint a mod 2 ^ n + uint b mod 2 ^ n"
proof -
  let ?P = "2 ^ n :: int"
  have r: "0 \<le> uint a mod ?P" "uint a mod ?P < ?P" "0 \<le> uint b mod ?P" "uint b mod ?P < ?P" by simp_all
  have "(uint a + uint b) div ?P = uint a div ?P + uint b div ?P + (uint a mod ?P + uint b mod ?P) div ?P"
    by (rule div_add1_eq)
  moreover have "(uint a mod ?P + uint b mod ?P) div ?P = (if ?P \<le> uint a mod ?P + uint b mod ?P then 1 else 0)"
    using r by (intro div_below_twice) linarith+
  ultimately show ?thesis
    unfolding bit_add_int [OF assms] by (simp add: bit_word_odd_div)
qed

lemma carry_into_sub:
  fixes a b :: "'a::len word"
  assumes "n < LENGTH('a)"
  shows "(bit (a - b) n \<noteq> (bit a n \<noteq> bit b n)) \<longleftrightarrow> uint a mod 2 ^ n < uint b mod 2 ^ n"
proof -
  have "(bit ((a - b) + b) n \<noteq> (bit (a - b) n \<noteq> bit b n)) \<longleftrightarrow>
      2 ^ n \<le> uint (a - b) mod 2 ^ n + uint b mod 2 ^ n" by (rule carry_into_add [OF assms])
  moreover have "uint (a - b) mod 2 ^ n = (uint a mod 2 ^ n - uint b mod 2 ^ n) mod 2 ^ n"
    using assms by (simp add: uint_word_ariths mod_mod_cancel le_imp_power_dvd mod_diff_eq)
  moreover have "2 ^ n \<le> (uint a mod 2 ^ n - uint b mod 2 ^ n) mod 2 ^ n + uint b mod 2 ^ n \<longleftrightarrow>
      uint a mod 2 ^ n < uint b mod 2 ^ n" by (rule mod_borrow) simp_all
  ultimately show ?thesis by auto
qed

lemma add_facts:
  fixes a b :: "'a::len word"
  assumes "LENGTH('a) = Suc n" "Suc n < 64" "8 \<le> LENGTH('a)"
  defines "r \<equiv> (ucast a + ucast b :: usize)"
  shows "bit r (Suc n) \<longleftrightarrow> 2 ^ LENGTH('a) \<le> uint a + uint b"
    "Suc n \<le> trailing_zeros r \<longleftrightarrow> a + b = 0" "bit r n \<longleftrightarrow> sint (a + b) < 0"
    "(bit r n \<noteq> bit (ucast a :: usize) n) \<and> (bit r n \<noteq> bit (ucast b :: usize) n) \<longleftrightarrow>
       sint a + sint b \<notin> {- (2 ^ (LENGTH('a) - 1)) ..< 2 ^ (LENGTH('a) - 1)}"
    "even_ones r = even_ones (a + b)" "ucast r = a + b"
proof -
  have L: "LENGTH('a) \<le> 64" "Suc n \<le> 64" "Suc n < LENGTH(64)" "n < LENGTH(64)" using assms by simp_all
  note U = uint_up [OF L(1), of a] uint_up [OF L(1), of b]
  have lt: "uint a < 2 * 2 ^ n" "uint b < 2 * 2 ^ n"
    using unsigned_less [where 'a = int, of a] unsigned_less [where 'a = int, of b] assms(1) by simp_all
  show down: "ucast r = a + b" unfolding r_def by (rule ucast_arith_down(1) [OF L(1)])
  show "bit r (Suc n) \<longleftrightarrow> 2 ^ LENGTH('a) \<le> uint a + uint b"
    using bit_carry_add [OF L(3), of "ucast a" "ucast b"] lt assms(1) by (simp add: r_def U)
  show "Suc n \<le> trailing_zeros r \<longleftrightarrow> a + b = 0"
    using trailing_zeros_down [OF L(1), of r] down assms(1) by simp
  show "bit r n \<longleftrightarrow> sint (a + b) < 0" using bit_down [OF assms(1) L(2), of r] down by simp
  show "(bit r n \<noteq> bit (ucast a :: usize) n) \<and> (bit r n \<noteq> bit (ucast b :: usize) n) \<longleftrightarrow>
       sint a + sint b \<notin> {- (2 ^ (LENGTH('a) - 1)) ..< 2 ^ (LENGTH('a) - 1)}"
    using overflow_add_bits [OF L(4), of "ucast a" "ucast b"] lt assms(1)
    by (simp add: r_def U sval_up [OF assms(1) L(2)])
  show "even_ones r = even_ones (a + b)" using even_ones_down [OF assms(3), of r] down by simp
qed

lemma sub_facts:
  fixes a b :: "'a::len word"
  assumes "LENGTH('a) = Suc n" "Suc n < 64" "8 \<le> LENGTH('a)"
  defines "r \<equiv> (ucast a - ucast b :: usize)"
  shows "bit r (Suc n) \<longleftrightarrow> a < b"
    "Suc n \<le> trailing_zeros r \<longleftrightarrow> a = b" "bit r n \<longleftrightarrow> sint (a - b) < 0"
    "(bit (ucast a :: usize) n \<noteq> bit (ucast b :: usize) n) \<and> (bit (ucast a :: usize) n \<noteq> bit r n) \<longleftrightarrow>
       sint a - sint b \<notin> {- (2 ^ (LENGTH('a) - 1)) ..< 2 ^ (LENGTH('a) - 1)}"
    "even_ones r = even_ones (a - b)" "ucast r = a - b"
proof -
  have L: "LENGTH('a) \<le> 64" "Suc n \<le> 64" "Suc n < LENGTH(64)" "n < LENGTH(64)" using assms by simp_all
  note U = uint_up [OF L(1), of a] uint_up [OF L(1), of b]
  have lt: "uint (ucast a :: usize) < 2 * 2 ^ n" "uint (ucast b :: usize) < 2 * 2 ^ n"
    using unsigned_less [where 'a = int, of a] unsigned_less [where 'a = int, of b] assms(1)
    by (simp_all add: U)
  note F = sub_flag_facts [OF lt assms(2)]
  show down: "ucast r = a - b" unfolding r_def by (rule ucast_arith_down(2) [OF L(1)])
  show "bit r (Suc n) \<longleftrightarrow> a < b" using F(1) by (simp add: r_def word_less_alt U)
  show "Suc n \<le> trailing_zeros r \<longleftrightarrow> a = b" using F(2) by (simp add: r_def word_uint_eq_iff U)
  show "bit r n \<longleftrightarrow> sint (a - b) < 0" using bit_down [OF assms(1) L(2), of r] down by simp
  show "(bit (ucast a :: usize) n \<noteq> bit (ucast b :: usize) n) \<and> (bit (ucast a :: usize) n \<noteq> bit r n) \<longleftrightarrow>
       sint a - sint b \<notin> {- (2 ^ (LENGTH('a) - 1)) ..< 2 ^ (LENGTH('a) - 1)}"
    using F(4) assms(1) by (simp add: r_def sval_up [OF assms(1) L(2)])
  show "even_ones r = even_ones (a - b)" using even_ones_down [OF assms(3), of r] down by simp
qed

section \<open>Operands with bits above their width\<close>

text \<open>
  Two wide words with the same low half: everything below the top is the same, and the bit above it
  of a sum or a difference is off exactly when one operand's is.
\<close>

lemma low_half_agrees:
  fixes x y :: usize
  assumes "ucast x = (ucast y :: 'a::len word)" "LENGTH('a) = Suc n" "Suc n < 64" "8 \<le> LENGTH('a)"
  shows "k \<le> n \<Longrightarrow> bit x k = bit y k" "bit x 4 = bit y 4" "even_ones x = even_ones y"
    "Suc n \<le> trailing_zeros x \<longleftrightarrow> Suc n \<le> trailing_zeros y"
proof -
  have b: "bit x k = bit y k" if "k \<le> n" for k
  proof -
    have "bit (ucast x :: 'a word) k = bit (ucast y :: 'a word) k" using assms(1) by simp
    then show ?thesis using that assms(2,3) by (simp add: bit_ucast_iff)
  qed
  then show "k \<le> n \<Longrightarrow> bit x k = bit y k" .
  show "bit x 4 = bit y 4" using b assms(2,4) by simp
  show "even_ones x = even_ones y"
    using even_ones_down [OF assms(4), of x] even_ones_down [OF assms(4), of y] assms(1) by simp
  have L: "LENGTH('a) \<le> 64" using assms(2,3) by simp
  show "Suc n \<le> trailing_zeros x \<longleftrightarrow> Suc n \<le> trailing_zeros y"
    using trailing_zeros_down [OF L, of x] trailing_zeros_down [OF L, of y] assms(1,2) by simp
qed

lemma uint_down:
  fixes x :: usize
  assumes "LENGTH('a::len) \<le> 64"
  shows "uint x mod 2 ^ LENGTH('a) = uint (ucast x :: 'a word)"
  by (simp add: unsigned_ucast_eq take_bit_eq_mod)

lemma top_add:
  fixes x y x0 y0 :: usize
  assumes "LENGTH('a::len) < 64" "ucast x = (ucast x0 :: 'a word)" "ucast y = (ucast y0 :: 'a word)"
  shows "bit (x + y) LENGTH('a) \<longleftrightarrow> bit (x0 + y0) LENGTH('a) \<noteq>
    ((bit x LENGTH('a) \<noteq> bit x0 LENGTH('a)) \<noteq> (bit y LENGTH('a) \<noteq> bit y0 LENGTH('a)))"
proof -
  have L: "LENGTH('a) \<le> 64" "LENGTH('a) < LENGTH(64)" using assms(1) by simp_all
  show ?thesis
    using carry_into_add [OF L(2), of x y] carry_into_add [OF L(2), of x0 y0] assms(2,3)
    unfolding uint_down [OF L(1)] by auto
qed

lemma top_sub:
  fixes x y x0 y0 :: usize
  assumes "LENGTH('a::len) < 64" "ucast x = (ucast x0 :: 'a word)" "ucast y = (ucast y0 :: 'a word)"
  shows "bit (x - y) LENGTH('a) \<longleftrightarrow> bit (x0 - y0) LENGTH('a) \<noteq>
    ((bit x LENGTH('a) \<noteq> bit x0 LENGTH('a)) \<noteq> (bit y LENGTH('a) \<noteq> bit y0 LENGTH('a)))"
proof -
  have L: "LENGTH('a) \<le> 64" "LENGTH('a) < LENGTH(64)" using assms(1) by simp_all
  show ?thesis
    using carry_into_sub [OF L(2), of x y] carry_into_sub [OF L(2), of x0 y0] assms(2,3)
    unfolding uint_down [OF L(1)] by auto
qed

lemma bit_top_up: "\<not> bit (ucast (a :: 'a::len word) :: usize) LENGTH('a)"
  by (simp add: bit_ucast_iff bit_imp_le_length)

end
