(* ===== verification/X86_Laws_Arith.thy ===== *)
theory X86_Laws_Arith
  imports X86_Exec_Arith X86_Operands X86_Narrow
begin

text \<open>
  Addition, subtraction, comparison, increment, decrement and negation: what every instruction leaves
  in its writable destination and in the flags, for every source that can be read. The flags are facts
  about the exact signed and unsigned results, but for a carry inverted by a negative sign-extended
  byte, and the overflow and adjust of ADC.
\<close>

unbundle bit_operations_syntax

section \<open>Flag updates of the instructions\<close>

lemmas flag_set_defs = set_parity_spec set_adjust_def
  set_carry_u8_def set_carry_u16_def set_carry_u32_def set_sign_u8_def set_sign_u16_def set_sign_u32_def
  set_zero_u8_def set_zero_u16_def set_zero_u32_def
  set_overflow_sub_u8_def set_overflow_sub_u16_def set_overflow_sub_u32_def
  set_overflow_add_u8_def set_overflow_add_u16_def set_overflow_add_u32_def
  overflow_add_mask overflow_sub_mask

lemma adjust_bit:
  fixes r v1 v2 :: usize
  shows "(r XOR (v1 XOR v2)) AND 0x10 \<noteq> 0 \<longleftrightarrow> (bit r 4 \<noteq> (bit v1 4 \<noteq> bit v2 4))"
  by (auto simp: bit_simps)

lemma adjust_add:
  fixes a b :: "'a::len word"
  assumes "LENGTH('a) \<le> 64"
  shows "(bit (ucast a + ucast b :: usize) 4 \<noteq> (bit (ucast a :: usize) 4 \<noteq> bit (ucast b :: usize) 4)) \<longleftrightarrow>
    16 \<le> uint a mod 16 + uint b mod 16"
  using carry_into_add [of 4 "ucast a :: usize" "ucast b"] by (simp add: uint_up [OF assms])

lemma adjust_sub:
  fixes a b :: "'a::len word"
  assumes "LENGTH('a) \<le> 64"
  shows "(bit (ucast a - ucast b :: usize) 4 \<noteq> (bit (ucast a :: usize) 4 \<noteq> bit (ucast b :: usize) 4)) \<longleftrightarrow>
    uint a mod 16 < uint b mod 16"
  using carry_into_sub [of 4 "ucast a :: usize" "ucast b"] by (simp add: uint_up [OF assms])

lemma add_flags_intro:
  fixes a b :: "'a::len word"
  assumes "LENGTH('a) = Suc n" "Suc n < 64" "8 \<le> LENGTH('a)"
  defines "r \<equiv> (ucast a + ucast b :: usize)"
  assumes "carry f = bit r (Suc n)" "parity f = even_ones r" "zero f \<longleftrightarrow> Suc n \<le> trailing_zeros r"
    "sign f = bit r n"
    "overflow f \<longleftrightarrow> (bit r n \<noteq> bit (ucast a :: usize) n) \<and> (bit r n \<noteq> bit (ucast b :: usize) n)"
    "adjust f \<longleftrightarrow> (bit r 4 \<noteq> (bit (ucast a :: usize) 4 \<noteq> bit (ucast b :: usize) 4))"
  shows "add_flags a b f"
  using add_facts [OF assms(1-3), of a b] adjust_add [of a b] assms(1,2) assms(5-)
  unfolding add_flags_def result_flags_def r_def by simp

lemma sub_flags_intro:
  fixes a b :: "'a::len word"
  assumes "LENGTH('a) = Suc n" "Suc n < 64" "8 \<le> LENGTH('a)"
  defines "r \<equiv> (ucast a - ucast b :: usize)"
  assumes "carry f = bit r (Suc n)" "parity f = even_ones r" "zero f \<longleftrightarrow> Suc n \<le> trailing_zeros r"
    "sign f = bit r n"
    "overflow f \<longleftrightarrow> (bit (ucast a :: usize) n \<noteq> bit (ucast b :: usize) n) \<and> (bit (ucast a :: usize) n \<noteq> bit r n)"
    "adjust f \<longleftrightarrow> (bit r 4 \<noteq> (bit (ucast a :: usize) 4 \<noteq> bit (ucast b :: usize) 4))"
  shows "sub_flags a b f"
  using sub_facts [OF assms(1-3), of a b] adjust_sub [of a b] assms(1,2) assms(5-)
  unfolding sub_flags_def result_flags_def r_def by simp

lemma ucast_low_bits:
  fixes x :: usize and w :: "'a::len word"
  assumes "ucast x = w" "k < LENGTH('a)" "LENGTH('a) \<le> 64"
  shows "bit x k = bit w k"
  using assms by (auto simp: bit_simps)

lemma ucast_hom:
  fixes x y :: usize
  assumes "LENGTH('a::len) \<le> 64"
  shows "(ucast (x + y) :: 'a word) = ucast x + ucast y" "(ucast (x - y) :: 'a word) = ucast x - ucast y"
proof -
  have u: "uint (ucast w :: 'a word) = take_bit LENGTH('a) (uint w)" for w :: usize
    by (simp add: unsigned_ucast_eq)
  have t: "take_bit LENGTH('a) (z mod 2 ^ 64) = take_bit LENGTH('a) z" for z :: int
    using assms by (simp only: take_bit_eq_mod [symmetric] take_bit_take_bit min_absorb1)
  note U = u uint_word_ariths len64 t
  show "(ucast (x + y) :: 'a word) = ucast x + ucast y"
    by (rule word_uint_eqI) (simp only: U, simp only: take_bit_eq_mod mod_add_eq)
  show "(ucast (x - y) :: 'a word) = ucast x - ucast y"
    by (rule word_uint_eqI) (simp only: U, simp only: take_bit_eq_mod mod_diff_eq)
qed

lemma ucast_same [simp]:
  fixes a :: "'a::len word"
  assumes "LENGTH('a) \<le> 64"
  shows "ucast (ucast a :: usize) = a"
  using assms by (intro bit_word_eqI) (simp add: bit_simps)

text \<open>
  A source is read into 64 bits and not cut to the width of the operation. Everything an instruction
  takes from the low half of its operands is unaffected by the bits above; the carry, read from the bit just above
  the result, is inverted when the source has that bit set.
\<close>

definition carry_flipped :: "bool \<Rightarrow> Flags \<Rightarrow> Flags" where
  "carry_flipped x f = f\<lparr>carry := (carry f \<noteq> x)\<rparr>"

lemma carry_flipped_simps [simp]:
  "carry (carry_flipped x f) \<longleftrightarrow> carry f \<noteq> x" "parity (carry_flipped x f) = parity f"
  "adjust (carry_flipped x f) = adjust f" "zero (carry_flipped x f) = zero f"
  "sign (carry_flipped x f) = sign f" "overflow (carry_flipped x f) = overflow f"
  "carry_flipped False f = f"
  by (simp_all add: carry_flipped_def)

lemma sub_flags_any:
  fixes x y :: usize
  assumes "LENGTH('a::len) = Suc n" "Suc n < 64" "8 \<le> LENGTH('a)"
  assumes "carry f = bit (x - y) (Suc n)" "parity f = even_ones (x - y)"
    "zero f \<longleftrightarrow> Suc n \<le> trailing_zeros (x - y)" "sign f = bit (x - y) n"
    "overflow f \<longleftrightarrow> (bit x n \<noteq> bit y n) \<and> (bit x n \<noteq> bit (x - y) n)"
    "adjust f \<longleftrightarrow> (bit (x - y) 4 \<noteq> (bit y 4 \<noteq> bit x 4))"
  shows "sub_flags (ucast x :: 'a word) (ucast y) (carry_flipped (bit x (Suc n) \<noteq> bit y (Suc n)) f)"
proof -
  let ?a = "ucast x :: 'a word" and ?b = "ucast y :: 'a word"
  let ?A = "ucast ?a :: usize" and ?B = "ucast ?b :: usize"
  have L: "LENGTH('a) \<le> 64" using assms(1,2) by simp
  have ab: "ucast x = (ucast ?A :: 'a word)" "ucast y = (ucast ?B :: 'a word)" using L by simp_all
  have r: "ucast (x - y) = (ucast (?A - ?B) :: 'a word)" using L by (simp add: ucast_hom)
  note R = low_half_agrees [OF r assms(1-3)] and X = low_half_agrees [OF ab(1) assms(1-3)]
    and Y = low_half_agrees [OF ab(2) assms(1-3)]
  have "bit (x - y) (Suc n) \<longleftrightarrow> bit (?A - ?B) (Suc n) \<noteq> (bit x (Suc n) \<noteq> bit y (Suc n))"
    using top_sub [where 'a = 'a, OF _ ab] assms(1,2) bit_top_up [of ?a] bit_top_up [of ?b] by auto
  then show ?thesis using assms(4-)
    by (intro sub_flags_intro [OF assms(1-3)]) (auto simp: R(2-) R(1) X(2) X(1) Y(2) Y(1))
qed

lemma sub_flags_wide:
  fixes a :: "'a::len word" and s :: usize
  assumes "LENGTH('a) = Suc n" "Suc n < 64" "8 \<le> LENGTH('a)"
  defines "r \<equiv> (ucast a - s :: usize)"
  assumes "carry f = bit r (Suc n)" "parity f = even_ones r" "zero f \<longleftrightarrow> Suc n \<le> trailing_zeros r"
    "sign f = bit r n"
    "overflow f \<longleftrightarrow> (bit (ucast a :: usize) n \<noteq> bit s n) \<and> (bit (ucast a :: usize) n \<noteq> bit r n)"
    "adjust f \<longleftrightarrow> (bit r 4 \<noteq> (bit (ucast a :: usize) 4 \<noteq> bit s 4))"
  shows "sub_flags a (ucast s) (carry_flipped (bit s (Suc n)) f)"
  using sub_flags_any [OF assms(1-3), where x = "ucast a" and y = s] assms bit_top_up [of a] by auto

section \<open>Addition\<close>

lemma ucast_up_bits:
  "uint (ucast (a :: u8) :: usize) < 2 ^ 8" "uint (ucast (b :: u16) :: usize) < 2 ^ 16"
  "uint (ucast (d :: u32) :: usize) < 2 ^ 32"
  using unsigned_less [where 'a = int, of a] unsigned_less [where 'a = int, of b]
    unsigned_less [where 'a = int, of d] by (simp_all add: uint_up)

lemma exec_Add8_eq:
  assumes "read_parameter_value c u (op_src op) = Some s" "read_parameter_value c u (op_dst op) = Some d"
  shows "\<exists>f. exec_Add8 op c u = write_parameter_u8 (with_flags c f) u (op_dst op) (ucast s + ucast d) \<and>
    add_flags (ucast s :: u8) (ucast d) f"
  unfolding exec_Add8_def using assms
  by (simp add: Let_def ucast_arith_down(1) flag_set_defs adjust_bit)
    (rule exI, rule conjI [OF refl], rule add_flags_intro [where n = 7]; simp add: bit_xor_iff)

lemma exec_Add16_eq:
  assumes "read_parameter_value c u (op_src op) = Some s" "read_parameter_value c u (op_dst op) = Some d"
  shows "\<exists>f. exec_Add16 op c u = write_parameter_u16 (with_flags c f) u (segment_prefix op) (op_dst op)
      (ucast s + ucast d) \<and> add_flags (ucast s :: u16) (ucast d) f"
  unfolding exec_Add16_def using assms
  by (simp add: Let_def ucast_arith_down(1) flag_set_defs adjust_bit)
    (rule exI, rule conjI [OF refl], rule add_flags_intro [where n = 15]; simp add: bit_xor_iff)

lemma exec_Add32_eq:
  assumes "read_parameter_value c u (op_src op) = Some s" "read_parameter_value c u (op_dst op) = Some d"
  shows "\<exists>f. exec_Add32 op c u = write_parameter_u32 (with_flags c f) u (segment_prefix op) (op_dst op)
      (ucast s + ucast d) \<and> add_flags (ucast s :: u32) (ucast d) f"
  unfolding exec_Add32_def using assms
  by (simp add: Let_def ucast_arith_down(1) flag_set_defs adjust_bit)
    (rule exI, rule conjI [OF refl], rule add_flags_intro [where n = 31]; simp add: bit_xor_iff)

section \<open>Subtraction\<close>

lemma exec_Sub8_eq:
  fixes a :: u8
  assumes "read_parameter_value c u (op_src op) = Some s"
    "read_parameter_value c u (op_dst op) = Some (ucast a)"
  shows "\<exists>f. exec_Sub8 op c u = write_parameter_u8 (with_flags c f) u (op_dst op) (a - ucast s) \<and>
    sub_flags a (ucast s) (carry_flipped (bit s 8) f)"
  unfolding exec_Sub8_def using assms
  by (simp add: Let_def ucast_hom flag_set_defs adjust_bit)
    (rule exI, rule conjI [OF refl], rule sub_flags_wide [where n = 7, simplified]; auto simp: bit_xor_iff)

lemma exec_Sub16_eq:
  fixes a :: u16
  assumes "read_parameter_value c u (op_src op) = Some s"
    "read_parameter_value c u (op_dst op) = Some (ucast a)"
  shows "\<exists>f. exec_Sub16 op c u = write_parameter_u16 (with_flags c f) u (segment_prefix op) (op_dst op) (a - ucast s) \<and>
    sub_flags a (ucast s) (carry_flipped (bit s 16) f)"
  unfolding exec_Sub16_def using assms
  by (simp add: Let_def ucast_hom flag_set_defs adjust_bit)
    (rule exI, rule conjI [OF refl], rule sub_flags_wide [where n = 15, simplified]; auto simp: bit_xor_iff)

lemma exec_Sub32_eq:
  fixes a :: u32
  assumes "read_parameter_value c u (op_src op) = Some s"
    "read_parameter_value c u (op_dst op) = Some (ucast a)"
  shows "\<exists>f. exec_Sub32 op c u = write_parameter_u32 (with_flags c f) u (segment_prefix op) (op_dst op) (a - ucast s) \<and>
    sub_flags a (ucast s) (carry_flipped (bit s 32) f)"
  unfolding exec_Sub32_def using assms
  by (simp add: Let_def ucast_hom flag_set_defs adjust_bit)
    (rule exI, rule conjI [OF refl], rule sub_flags_wide [where n = 31, simplified]; auto simp: bit_xor_iff)

section \<open>Increment, decrement, negation\<close>

text \<open>Increment and decrement set every arithmetic flag but the carry.\<close>

lemma ucast_up_1 [simp]: "ucast (1 :: 'a::len word) = (1 :: usize)"
  by (rule bit_word_eqI) (auto simp: bit_simps)

lemma ucast_arith_down_1:
  fixes a :: "'a::len word"
  assumes "LENGTH('a) \<le> 64"
  shows "ucast (ucast a + 1 :: usize) = a + 1" "ucast (ucast a - 1 :: usize) = a - 1"
    "ucast (1 + ucast a :: usize) = 1 + a"
  using ucast_arith_down [OF assms, of a 1] ucast_arith_down [OF assms, of 1 a] by simp_all

definition inc_flags :: "'a::len word \<Rightarrow> Flags \<Rightarrow> Flags \<Rightarrow> bool" where
  "inc_flags a f0 f \<longleftrightarrow> result_flags (a + 1) (sint a + 1) f \<and>
     (adjust f \<longleftrightarrow> uint a mod 16 = 15) \<and> carry f = carry f0"

definition dec_flags :: "'a::len word \<Rightarrow> Flags \<Rightarrow> Flags \<Rightarrow> bool" where
  "dec_flags a f0 f \<longleftrightarrow> result_flags (a - 1) (sint a - 1) f \<and>
     (adjust f \<longleftrightarrow> uint a mod 16 = 0) \<and> carry f = carry f0"

lemma result_flags_carry [simp]: "result_flags r e (f\<lparr>carry := x\<rparr>) = result_flags r e f"
  by (simp add: result_flags_def)

lemma nibble_edge: "16 \<le> uint a mod 16 + 1 \<longleftrightarrow> uint a mod 16 = 15" "uint a mod 16 < 1 \<longleftrightarrow> uint a mod 16 = 0"
  for a :: "'a::len word"
proof -
  have "0 \<le> uint a mod 16" "uint a mod 16 < 16" by simp_all
  then show "16 \<le> uint a mod 16 + 1 \<longleftrightarrow> uint a mod 16 = 15" "uint a mod 16 < 1 \<longleftrightarrow> uint a mod 16 = 0"
    by linarith+
qed

lemma inc_flags_intro:
  fixes a :: "'a::len word"
  assumes "add_flags a 1 (f\<lparr>carry := x\<rparr>)" "carry f = carry f0" "8 \<le> LENGTH('a)"
  shows "inc_flags a f0 f"
  using assms nibble_edge [of a] by (simp add: add_flags_def inc_flags_def)

lemma dec_flags_intro:
  fixes a :: "'a::len word"
  assumes "sub_flags a 1 (f\<lparr>carry := x\<rparr>)" "carry f = carry f0" "8 \<le> LENGTH('a)"
  shows "dec_flags a f0 f"
  using assms nibble_edge [of a] by (simp add: sub_flags_def dec_flags_def)

lemma exec_Inc8_eq:
  fixes a :: u8
  assumes "read_parameter_value c u (op_dst op) = Some (ucast a)"
  shows "\<exists>f. exec_Inc8 op c u = write_parameter_u8 (with_flags c f) u (op_dst op) (a + 1) \<and>
    inc_flags a (cpu_flags c) f"
  unfolding exec_Inc8_def using assms
  by (simp add: Let_def ucast_arith_down_1 flag_set_defs adjust_bit)
    (rule exI, rule conjI [OF refl], rule inc_flags_intro [OF add_flags_intro [where n = 7]];
     auto simp: bit_xor_iff)

lemma exec_Inc16_eq:
  fixes a :: u16
  assumes "read_parameter_value c u (op_dst op) = Some (ucast a)"
  shows "\<exists>f. exec_Inc16 op c u = write_parameter_u16 (with_flags c f) u (segment_prefix op) (op_dst op) (a + 1) \<and>
    inc_flags a (cpu_flags c) f"
  unfolding exec_Inc16_def using assms
  by (simp add: Let_def ucast_arith_down_1 flag_set_defs adjust_bit)
    (rule exI, rule conjI [OF refl], rule inc_flags_intro [OF add_flags_intro [where n = 15]];
     auto simp: bit_xor_iff)

lemma exec_Inc32_eq:
  fixes a :: u32
  assumes "read_parameter_value c u (op_dst op) = Some (ucast a)"
  shows "\<exists>f. exec_Inc32 op c u = write_parameter_u32 (with_flags c f) u (segment_prefix op) (op_dst op) (a + 1) \<and>
    inc_flags a (cpu_flags c) f"
  unfolding exec_Inc32_def using assms
  by (simp add: Let_def ucast_arith_down_1 flag_set_defs adjust_bit)
    (rule exI, rule conjI [OF refl], rule inc_flags_intro [OF add_flags_intro [where n = 31]];
     auto simp: bit_xor_iff)

lemma exec_Dec8_eq:
  fixes a :: u8
  assumes "read_parameter_value c u (op_dst op) = Some (ucast a)"
  shows "\<exists>f. exec_Dec8 op c u = write_parameter_u8 (with_flags c f) u (op_dst op) (a - 1) \<and>
    dec_flags a (cpu_flags c) f"
  unfolding exec_Dec8_def using assms
  by (simp add: Let_def ucast_arith_down_1 flag_set_defs adjust_bit)
    (rule exI, rule conjI [OF refl], rule dec_flags_intro [OF sub_flags_intro [where n = 7]];
     auto simp: bit_xor_iff)

lemma exec_Dec16_eq:
  fixes a :: u16
  assumes "read_parameter_value c u (op_dst op) = Some (ucast a)"
  shows "\<exists>f. exec_Dec16 op c u = write_parameter_u16 (with_flags c f) u (segment_prefix op) (op_dst op) (a - 1) \<and>
    dec_flags a (cpu_flags c) f"
  unfolding exec_Dec16_def using assms
  by (simp add: Let_def ucast_arith_down_1 flag_set_defs adjust_bit)
    (rule exI, rule conjI [OF refl], rule dec_flags_intro [OF sub_flags_intro [where n = 15]];
     auto simp: bit_xor_iff)

lemma exec_Dec32_eq:
  fixes a :: u32
  assumes "read_parameter_value c u (op_dst op) = Some (ucast a)"
  shows "\<exists>f. exec_Dec32 op c u = write_parameter_u32 (with_flags c f) u (segment_prefix op) (op_dst op) (a - 1) \<and>
    dec_flags a (cpu_flags c) f"
  unfolding exec_Dec32_def using assms
  by (simp add: Let_def ucast_arith_down_1 flag_set_defs adjust_bit)
    (rule exI, rule conjI [OF refl], rule dec_flags_intro [OF sub_flags_intro [where n = 31]];
     auto simp: bit_xor_iff)

section \<open>Negation\<close>

definition neg_flags :: "'a::len word \<Rightarrow> Flags \<Rightarrow> bool" where
  "neg_flags a f \<longleftrightarrow> result_flags (- a) (- sint a) f \<and>
     (carry f \<longleftrightarrow> a \<noteq> 0) \<and> (adjust f \<longleftrightarrow> uint a mod 16 \<noteq> 0)"

lemma sint_bounds:
  fixes a :: "'a::len word"
  assumes "LENGTH('a) = Suc n"
  shows "- (2 ^ n) \<le> sint a" "sint a < 2 ^ n"
  using sint_greater_eq [of a] sint_less [of a] assms by simp_all

lemma neg_overflow:
  fixes a :: "'a::len word"
  assumes "LENGTH('a) = Suc n"
  shows "- sint a \<notin> {- (2 ^ n) ..< 2 ^ n} \<longleftrightarrow> - a = 2 ^ n"
proof -
  have "- sint a \<notin> {- (2 ^ n) ..< 2 ^ n} \<longleftrightarrow> sint a = - (2 ^ n)"
    using sint_bounds [OF assms, of a] by auto
  also have "\<dots> \<longleftrightarrow> a = word_of_int (- (2 ^ n))"
  proof
    assume "sint a = - (2 ^ n)"
    then show "a = word_of_int (- (2 ^ n))" by (metis scast_eq scast_id id_apply)
  next
    have "sint (word_of_int (- (2 ^ n)) :: 'a word) = signed_take_bit n (- (2 ^ n))"
      using assms by (subst sint_sbintrunc') simp
    also have "\<dots> = - (2 ^ n)" by (rule signed_take_bit_int_eq_self) simp_all
    finally show "a = word_of_int (- (2 ^ n)) \<Longrightarrow> sint a = - (2 ^ n)" by simp
  qed
  also have "word_of_int (- (2 ^ n)) = - (2 ^ n :: 'a word)" by simp
  also have "a = - (2 ^ n) \<longleftrightarrow> - a = 2 ^ n" by (metis minus_minus)
  finally show ?thesis .
qed

lemma neg_facts:
  fixes a :: "'a::len word"
  assumes "LENGTH('a) = Suc n" "Suc n < 64" "8 \<le> LENGTH('a)"
  defines "r \<equiv> (ucast (- a) :: usize)"
  shows "Suc n \<le> trailing_zeros r \<longleftrightarrow> - a = 0" "bit r n \<longleftrightarrow> sint (- a) < 0"
    "even_ones r = even_ones (- a)" "ucast r = - a"
    "(bit r 4 \<noteq> bit (ucast a :: usize) 4) \<longleftrightarrow> uint a mod 16 \<noteq> 0"
proof -
  have L: "LENGTH('a) \<le> 64" "Suc n \<le> 64" using assms by simp_all
  show down: "ucast r = - a" unfolding r_def using L(1) by (intro bit_word_eqI) (simp add: bit_simps)
  show "Suc n \<le> trailing_zeros r \<longleftrightarrow> - a = 0"
    using trailing_zeros_down [OF L(1), of r] down assms(1) by simp
  show "bit r n \<longleftrightarrow> sint (- a) < 0" using bit_down [OF assms(1) L(2), of r] down by simp
  show "even_ones r = even_ones (- a)" using even_ones_down [OF assms(3), of r] down by simp
  have "bit r 4 = bit (- a) 4" "bit (ucast a :: usize) 4 = bit a 4"
    using assms(1,3) by (simp_all add: r_def bit_simps)
  moreover have "(bit (0 - a) 4 \<noteq> (bit (0 :: 'a word) 4 \<noteq> bit a 4)) \<longleftrightarrow> uint (0 :: 'a word) mod 2 ^ 4 < uint a mod 2 ^ 4"
    using assms(3) by (intro carry_into_sub) simp
  moreover have "0 < uint a mod 16 \<longleftrightarrow> uint a mod 16 \<noteq> 0"
    using pos_mod_sign [of 16 "uint a"] by auto
  ultimately show "(bit r 4 \<noteq> bit (ucast a :: usize) 4) \<longleftrightarrow> uint a mod 16 \<noteq> 0" by simp
qed

lemma neg_flags_intro:
  fixes a :: "'a::len word"
  assumes "LENGTH('a) = Suc n" "Suc n < 64" "8 \<le> LENGTH('a)"
  defines "r \<equiv> (ucast (- a) :: usize)"
  assumes "carry f \<longleftrightarrow> a \<noteq> 0" "parity f = even_ones r" "zero f \<longleftrightarrow> Suc n \<le> trailing_zeros r"
    "sign f = bit r n" "overflow f \<longleftrightarrow> - a = 2 ^ n" "adjust f \<longleftrightarrow> bit r 4 \<noteq> bit (ucast a :: usize) 4"
  shows "neg_flags a f"
  using neg_facts [OF assms(1-3), of a] neg_overflow [OF assms(1), of a] assms(1) assms(5-)
  unfolding neg_flags_def result_flags_def r_def by simp

lemma ucast_eq_literal:
  "ucast (x :: u8) = (0x80 :: usize) \<longleftrightarrow> x = 2 ^ 7" "ucast (y :: u16) = (0x8000 :: usize) \<longleftrightarrow> y = 2 ^ 15"
  "ucast (z :: u32) = (0x80000000 :: usize) \<longleftrightarrow> z = 2 ^ 31"
  by (simp_all add: word_uint_eq_iff uint_up)

lemma ucast_zero_iff:
  "ucast (x :: u8) = (0 :: usize) \<longleftrightarrow> x = 0" "ucast (y :: u16) = (0 :: usize) \<longleftrightarrow> y = 0"
  "ucast (z :: u32) = (0 :: usize) \<longleftrightarrow> z = 0"
  by (simp_all add: word_uint_eq_iff uint_up)

lemma exec_Neg8_writes:
  fixes a :: u8
  assumes "mmu_ok u" "place8 (op_dst op)" "read_parameter_value c u (op_dst op) = Some (ucast a)"
  shows "writes operand8 (exec_Neg8 op c u) c (op_dst op) (- a) (neg_flags a)"
  unfolding exec_Neg8_def using assms(3)
  by (simp add: Let_def flag_set_defs adjust_bit ucast_eq_literal ucast_zero_iff)
    (rule op8.flags_after_write [OF assms(1,2)], rule neg_flags_intro [where n = 7]; auto simp: bit_xor_iff)

lemma exec_Neg16_writes:
  fixes a :: u16
  assumes "mmu_ok u" "place16 (op_dst op)" "read_parameter_value c u (op_dst op) = Some (ucast a)"
  shows "writes operand16 (exec_Neg16 op c u) c (op_dst op) (- a) (neg_flags a)"
  unfolding exec_Neg16_def using assms(3)
  by (simp add: Let_def flag_set_defs adjust_bit ucast_eq_literal ucast_zero_iff)
    (rule op16.flags_after_write [OF assms(1,2)], rule neg_flags_intro [where n = 15]; auto simp: bit_xor_iff)

lemma exec_Neg32_writes:
  fixes a :: u32
  assumes "mmu_ok u" "place32 (op_dst op)" "read_parameter_value c u (op_dst op) = Some (ucast a)"
  shows "writes operand32 (exec_Neg32 op c u) c (op_dst op) (- a) (neg_flags a)"
  unfolding exec_Neg32_def using assms(3)
  by (simp add: Let_def flag_set_defs adjust_bit ucast_eq_literal ucast_zero_iff)
    (rule op32.flags_after_write [OF assms(1,2)], rule neg_flags_intro [where n = 31]; auto simp: bit_xor_iff)

section \<open>Addition with carry\<close>

text \<open>
  The code adds the carry to the source first and takes every flag but the carry from the sum of the
  destination and that value. The overflow and adjust flags are therefore those of \<open>a + (b + 1)\<close>,
  which differ from those of \<open>a + b + 1\<close> when \<open>b + 1\<close> wraps.
\<close>

definition adc_flags :: "'a::len word \<Rightarrow> 'a word \<Rightarrow> bool \<Rightarrow> Flags \<Rightarrow> bool" where
  "adc_flags a b cin f \<longleftrightarrow>
     result_flags (a + b + of_bool cin) (sint a + sint (b + of_bool cin)) f \<and>
     (carry f \<longleftrightarrow> 2 ^ LENGTH('a) \<le> uint a + uint b + of_bool cin) \<and>
     (adjust f \<longleftrightarrow> 16 \<le> uint a mod 16 + uint (b + of_bool cin) mod 16)"

lemma adc_flags_intro:
  fixes a b :: "'a::len word" and k :: usize
  assumes "LENGTH('a) = Suc n" "Suc n < 64" "8 \<le> LENGTH('a)" "k = of_bool cin"
  defines "r \<equiv> (ucast a + ucast b + k :: usize)"
  assumes "carry f = bit r (Suc n)" "parity f = even_ones r" "zero f \<longleftrightarrow> Suc n \<le> trailing_zeros r"
    "sign f = bit r n"
    "overflow f \<longleftrightarrow> (bit r n \<noteq> bit (ucast b + k) n) \<and> (bit r n \<noteq> bit (ucast a :: usize) n)"
    "adjust f \<longleftrightarrow> (bit r 4 \<noteq> (bit (ucast b + k) 4 \<noteq> bit (ucast a :: usize) 4))"
  shows "adc_flags a b cin f"
proof -
  let ?b = "b + of_bool cin"
  have L: "LENGTH('a) \<le> 64" "Suc n \<le> 64" "n < LENGTH('a)" "Suc n < LENGTH(64)" "4 < LENGTH('a)"
    using assms(1-3) by simp_all
  have dk: "ucast k = (of_bool cin :: 'a word)" using assms(4) by simp
  have da: "ucast (ucast a :: usize) = a" using L(1) by simp
  have db: "ucast (ucast b + k) = ?b" using L(1) by (simp add: ucast_hom dk)
  have dr: "ucast r = a + ?b" using L(1) by (simp add: r_def ucast_hom dk)
  note low = ucast_low_bits [OF _ _ L(1)]
  have B: "bit r n = bit (a + ?b) n" "bit (ucast b + k) n = bit ?b n" "bit (ucast a :: usize) n = bit a n"
    "bit r 4 = bit (a + ?b) 4" "bit (ucast b + k) 4 = bit ?b 4" "bit (ucast a :: usize) 4 = bit a 4"
    using low [OF dr L(3)] low [OF db L(3)] low [OF da L(3)] low [OF dr L(5)] low [OF db L(5)] low [OF da L(5)]
    by simp_all
  have lt: "uint a < 2 * 2 ^ n" "uint ?b < 2 * 2 ^ n"  "uint b < 2 * 2 ^ n"
    using unsigned_less [where 'a = int, of a] unsigned_less [where 'a = int, of ?b]
      unsigned_less [where 'a = int, of b] assms(1) by simp_all
  have s: "sval n x = sint x" for x :: "'a word" using assms(1) by (simp add: sval_def sint_bit_eq)
  have ov: "(bit (a + ?b) n \<noteq> bit ?b n) \<and> (bit (a + ?b) n \<noteq> bit a n) \<longleftrightarrow>
      \<not> (- (2 ^ n) \<le> sint a + sint ?b \<and> sint a + sint ?b < 2 ^ n)"
    using overflow_add_bits [OF L(3) lt(1,2)] by (auto simp: s)
  have ub: "uint (ucast b + k :: usize) = uint b + of_bool cin"
  proof -
    have "uint b + of_bool cin < 2 ^ 64"
    proof -
      have "(2::int) * 2 ^ n \<le> 2 ^ 63" using assms(2) power_increasing [of "Suc n" 63 "2::int"] by simp
      with lt(3) show ?thesis by simp
    qed
    moreover have "0 \<le> uint b + of_bool cin" by simp
    ultimately have "(uint b + of_bool cin) mod 2 ^ 64 = uint b + of_bool cin"
      by (intro mod_pos_pos_trivial)
    then show ?thesis using assms(4) by (cases cin) (simp_all add: uint_word_ariths uint_up [OF L(1)])
  qed
  have cr: "bit r (Suc n) \<longleftrightarrow> 2 ^ Suc n \<le> uint a + uint b + of_bool cin"
    using bit_carry_add [OF L(4), of "ucast a" "ucast b + k"] lt(1,3) ub
    by (simp add: r_def uint_up [OF L(1)] add.assoc)
  have tz: "Suc n \<le> trailing_zeros r \<longleftrightarrow> a + ?b = 0"
    using trailing_zeros_down [OF L(1), of r] dr assms(1) by simp
  have sg: "bit r n \<longleftrightarrow> sint (a + ?b) < 0" using bit_down [OF assms(1) L(2), of r] dr by simp
  have pa: "even_ones r = even_ones (a + ?b)" using even_ones_down [OF assms(3), of r] dr by simp
  have ad: "(bit (a + ?b) 4 \<noteq> (bit a 4 \<noteq> bit ?b 4)) \<longleftrightarrow> 16 \<le> uint a mod 16 + uint ?b mod 16"
    using carry_into_add [OF L(5), of a ?b] by simp
  have e: "a + b + of_bool cin = a + ?b" by (simp add: add.assoc)
  have "overflow f \<longleftrightarrow> sint a + sint ?b \<notin> {- (2 ^ (LENGTH('a) - 1)) ..< 2 ^ (LENGTH('a) - 1)}"
    using assms(10) ov unfolding B assms(1) by simp
  moreover have "adjust f \<longleftrightarrow> 16 \<le> uint a mod 16 + uint ?b mod 16"
    using assms(11) ad unfolding B by blast
  ultimately show ?thesis
    unfolding adc_flags_def result_flags_def e assms(1) using assms(6-9) cr tz sg pa by simp
qed

lemma adc_flags_wide:
  fixes a :: "'a::len word" and k s :: usize
  assumes "LENGTH('a) = Suc n" "Suc n < 64" "8 \<le> LENGTH('a)" "k = of_bool cin"
  defines "r \<equiv> (ucast a + s + k :: usize)"
  assumes "carry f = bit r (Suc n)" "parity f = even_ones r" "zero f \<longleftrightarrow> Suc n \<le> trailing_zeros r"
    "sign f = bit r n"
    "overflow f \<longleftrightarrow> (bit r n \<noteq> bit (s + k) n) \<and> (bit r n \<noteq> bit (ucast a :: usize) n)"
    "adjust f \<longleftrightarrow> (bit r 4 \<noteq> (bit (s + k) 4 \<noteq> bit (ucast a :: usize) 4))"
  shows "adc_flags a (ucast s) cin (carry_flipped (bit s (Suc n)) f)"
proof -
  let ?b = "ucast s :: 'a word"
  let ?B = "ucast ?b :: usize"
  have L: "LENGTH('a) \<le> 64" using assms(1,2) by simp
  have b: "ucast s = (ucast ?B :: 'a word)" using L by simp
  have r: "ucast r = (ucast (ucast a + ?B + k) :: 'a word)" unfolding r_def using L by (simp add: ucast_hom)
  have t: "ucast (s + k) = (ucast (?B + k) :: 'a word)" using L by (simp add: ucast_hom)
  note R = low_half_agrees [OF r assms(1-3)] and S = low_half_agrees [OF t assms(1-3)]
  have "bit (ucast a + s) (Suc n) \<longleftrightarrow> bit (ucast a + ?B) (Suc n) \<noteq> bit s (Suc n)"
    using top_add [where 'a = 'a, of "ucast a" "ucast a" s ?B] b assms(1,2) bit_top_up [of ?b] by auto
  moreover have "ucast (ucast a + s) = (ucast (ucast a + ?B) :: 'a word)" using L by (simp add: ucast_hom)
  ultimately have "bit r (Suc n) \<longleftrightarrow> bit (ucast a + ?B + k) (Suc n) \<noteq> bit s (Suc n)"
    using top_add [where 'a = 'a, of "ucast a + s" "ucast a + ?B" k k] assms(1,2) by (auto simp: r_def)
  then show ?thesis using assms(6-)
    by (intro adc_flags_intro [OF assms(1-4)]) (auto simp: R(2-) R(1) S(2) S(1))
qed

lemma and_low_mask: "ucast (x AND 0xFF) = (ucast x :: u8)" "ucast (y AND 0xFFFF) = (ucast y :: u16)"
  for x y :: usize
proof -
  have m: "(0xFF :: usize) = mask 8" "(0xFFFF :: usize) = mask 16" by (simp_all add: mask_eq_exp_minus_1)
  show "ucast (x AND 0xFF) = (ucast x :: u8)" "ucast (y AND 0xFFFF) = (ucast y :: u16)"
    unfolding m by (rule bit_word_eqI, simp add: bit_simps)+
qed

text \<open>The sum of the source and the carry is formed in 64 bits, where only a source of all ones overflows.\<close>

lemma add_carry_chk: "add_chk (s :: usize) (of_bool p) = (if p \<and> s = - 1 then None else Some (s + of_bool p))"
proof -
  have "uint (- 1 :: usize) = 2 ^ 64 - 1" by (simp add: unsigned_minus_1_eq_mask mask_eq_exp_minus_1)
  then have "s = - 1 \<longleftrightarrow> uint s = 2 ^ 64 - 1" by (simp only: word_uint_eq_iff)
  then show ?thesis using unsigned_less [where 'a = int, of s] by (cases p) (auto simp: add_chk_def)
qed

lemma ucast_of_bool: "ucast (of_bool p :: usize) = of_bool p" by simp

lemma carry_bit: "(if f then 1 else 0) = (of_bool f :: usize)" by simp

lemma exec_Adc8_panics:
  assumes "read_parameter_value c u (op_src op) = Some (- 1)" "carry (cpu_flags c)"
  shows "exec_Adc8 op c u = None"
  unfolding exec_Adc8_def carry_bit using assms add_carry_chk [of "- 1" True]
  by (auto simp: Let_def split: bind_splits)

lemma exec_Adc8_writes:
  fixes a :: u8
  assumes "mmu_ok u" "place8 (op_dst op)" "read_parameter_value c u (op_dst op) = Some (ucast a)"
    "read_parameter_value c u (op_src op) = Some s" "\<not> (carry (cpu_flags c) \<and> s = - 1)"
  shows "writes operand8 (exec_Adc8 op c u) c (op_dst op) (a + ucast s + of_bool (carry (cpu_flags c)))
    (\<lambda>f. adc_flags a (ucast s) (carry (cpu_flags c)) (carry_flipped (bit s 8) f))"
proof -
  have chk: "add_chk s (of_bool (carry (cpu_flags c))) = Some (s + of_bool (carry (cpu_flags c)))"
    using add_carry_chk [of s "carry (cpu_flags c)"] assms(5) by auto
  show ?thesis
    unfolding exec_Adc8_def carry_bit using assms(3,4)
    by (simp add: Let_def and_low_mask ucast_hom chk ucast_of_bool flag_set_defs adjust_bit split del: split_of_bool)
      (rule op8.flags_after_write [OF assms(1,2)], rule adc_flags_wide [where n = 7, simplified];
       auto simp: bit_xor_iff)
qed

lemma exec_Adc16_panics:
  assumes "read_parameter_value c u (op_src op) = Some (- 1)" "carry (cpu_flags c)"
  shows "exec_Adc16 op c u = None"
  unfolding exec_Adc16_def carry_bit using assms add_carry_chk [of "- 1" True]
  by (auto simp: Let_def split: bind_splits)

lemma exec_Adc16_writes:
  fixes a :: u16
  assumes "mmu_ok u" "place16 (op_dst op)" "read_parameter_value c u (op_dst op) = Some (ucast a)"
    "read_parameter_value c u (op_src op) = Some s" "\<not> (carry (cpu_flags c) \<and> s = - 1)"
  shows "writes operand16 (exec_Adc16 op c u) c (op_dst op) (a + ucast s + of_bool (carry (cpu_flags c)))
    (\<lambda>f. adc_flags a (ucast s) (carry (cpu_flags c)) (carry_flipped (bit s 16) f))"
proof -
  have chk: "add_chk s (of_bool (carry (cpu_flags c))) = Some (s + of_bool (carry (cpu_flags c)))"
    using add_carry_chk [of s "carry (cpu_flags c)"] assms(5) by auto
  show ?thesis
    unfolding exec_Adc16_def carry_bit using assms(3,4)
    by (simp add: Let_def and_low_mask ucast_hom chk ucast_of_bool flag_set_defs adjust_bit split del: split_of_bool)
      (rule op16.flags_after_write [OF assms(1,2)], rule adc_flags_wide [where n = 15, simplified];
       auto simp: bit_xor_iff)
qed

section \<open>Subtraction with borrow\<close>

definition sbb_flags :: "'a::len word \<Rightarrow> 'a word \<Rightarrow> bool \<Rightarrow> Flags \<Rightarrow> bool" where
  "sbb_flags a b cin f \<longleftrightarrow>
     result_flags (a - b - of_bool cin) (sint a - sint b - of_bool cin) f \<and>
     (carry f \<longleftrightarrow> uint a < uint b + of_bool cin) \<and>
     (adjust f \<longleftrightarrow> uint a mod 16 < uint b mod 16 + of_bool cin)"

text \<open>The sign bit of \<open>A - B - K\<close> and signed overflow, over the integers.\<close>

lemma overflow_borrow_int:
  fixes A B P K :: int
  assumes "0 \<le> A" "A < 2 * P" "0 \<le> B" "B < 2 * P" "K = 0 \<or> K = 1"
  shows "((P \<le> A) \<noteq> (P \<le> B)) \<and> ((P \<le> A) \<noteq> odd ((A - B - K) div P)) \<longleftrightarrow>
     \<not> (- P \<le> (if P \<le> A then A - 2 * P else A) - (if P \<le> B then B - 2 * P else B) - K \<and>
        (if P \<le> A then A - 2 * P else A) - (if P \<le> B then B - 2 * P else B) - K < P)"
proof -
  have "odd ((A - B - K) div P) \<longleftrightarrow> (- P \<le> A - B - K \<and> A - B - K < 0) \<or>
      (P \<le> A - B - K \<and> A - B - K < 2 * P) \<or> 3 * P \<le> A - B - K"
    using assms by (intro odd_div_lt4) linarith+
  note E = this
  show ?thesis using assms unfolding E by (cases "P \<le> A"; cases "P \<le> B") auto
qed

text \<open>The borrow into a bit.\<close>

lemma borrow_into_int:
  fixes A B P K :: int
  assumes "0 < P" "K = 0 \<or> K = 1"
  shows "(odd ((A - B - K) div P) \<noteq> (odd (A div P) \<noteq> odd (B div P))) \<longleftrightarrow> A mod P < B mod P + K"
proof -
  let ?d = "A mod P - B mod P - K"
  have r: "0 \<le> A mod P" "A mod P < P" "0 \<le> B mod P" "B mod P < P" using assms(1) by simp_all
  have "A - B - K = ?d + (A div P - B div P) * P"
    by (simp add: algebra_simps flip: minus_mod_eq_mult_div)
  then have "(A - B - K) div P = (A div P - B div P) + ?d div P"
    using assms(1) by (metis div_mult_self1 less_irrefl)
  moreover have "?d div P = (if A mod P < B mod P + K then - 1 else 0)"
  proof (cases "A mod P < B mod P + K")
    case True
    have "(?d + P) div P = ?d div P + 1" using assms(1) by (intro div_add_self2) simp
    then have "?d div P = (?d + P) div P - 1" by linarith
    also have "(?d + P) div P = 0" using True r assms(2) by (intro div_pos_pos_trivial) linarith+
    finally show ?thesis using True by simp
  next
    case False
    have "?d div P = 0" using False r assms(2) by (intro div_pos_pos_trivial) linarith+
    then show ?thesis using False by simp
  qed
  ultimately show ?thesis by simp
qed

lemma sbb_flags_intro:
  fixes a b :: "'a::len word" and k :: usize
  assumes "LENGTH('a) = Suc n" "Suc n < 64" "8 \<le> LENGTH('a)" "k = of_bool cin"
  defines "r \<equiv> (ucast a - (ucast b + k) :: usize)"
  assumes "carry f = bit r (Suc n)" "parity f = even_ones r" "zero f \<longleftrightarrow> Suc n \<le> trailing_zeros r"
    "sign f = bit r n"
    "overflow f \<longleftrightarrow> (bit (ucast a :: usize) n \<noteq> bit (ucast b :: usize) n) \<and> (bit (ucast a :: usize) n \<noteq> bit r n)"
    "adjust f \<longleftrightarrow> (bit r 4 \<noteq> (bit (ucast b :: usize) 4 \<noteq> bit (ucast a :: usize) 4))"
  shows "sbb_flags a b cin f"
proof -
  let ?k = "of_bool cin :: int"
  have L: "LENGTH('a) \<le> 64" "Suc n \<le> 64" "Suc n < LENGTH(64)" "n < LENGTH('a)" "4 < LENGTH('a)"
    using assms(1-3) by simp_all
  have K: "?k = 0 \<or> ?k = 1" by simp
  have dk: "ucast k = (of_bool cin :: 'a word)" using assms(4) by simp
  have dr: "ucast r = a - b - of_bool cin" using L(1) by (simp add: r_def ucast_hom dk diff_diff_eq)
  have lt: "uint a < 2 * 2 ^ n" "uint b < 2 * 2 ^ n"
    using unsigned_less [where 'a = int, of a] unsigned_less [where 'a = int, of b] assms(1) by simp_all
  have ub: "uint (ucast b + k :: usize) = uint b + ?k"
  proof -
    have "(2::int) * 2 ^ n \<le> 2 ^ 63" using assms(2) power_increasing [of "Suc n" 63 "2::int"] by simp
    with lt(2) have "uint b + ?k < 2 ^ 64" by simp
    moreover have "0 \<le> uint b + ?k" by simp
    ultimately have "(uint b + ?k) mod 2 ^ 64 = uint b + ?k" by (intro mod_pos_pos_trivial)
    then show ?thesis using assms(4) by (cases cin) (simp_all add: uint_word_ariths uint_up [OF L(1)])
  qed
  have w: "a - b - of_bool cin = word_of_int (uint a - uint b - ?k)" by simp
  have wb: "bit (a - b - of_bool cin) m = odd ((uint a - uint b - ?k) div 2 ^ m)" if "m < LENGTH('a)" for m
    unfolding w using that by (simp only: bit_word_of_int_iff bit_iff_odd [of "uint a - uint b - ?k"] simp_thms)
  note low = ucast_low_bits [OF dr _ L(1)]
  have up: "bit (ucast x :: usize) m = bit x m" if "m < LENGTH('a)" for x :: "'a word" and m
    using that L(1) by (simp add: bit_simps)
  have sv: "sint x = (if 2 ^ n \<le> uint x then uint x - 2 * 2 ^ n else uint x)"
    if "uint x < 2 * 2 ^ n" for x :: "'a word"
    using that bit_small [of x n] assms(1) by (simp add: sint_bit_eq)
  have "overflow f \<longleftrightarrow> ((2 ^ n \<le> uint a) \<noteq> (2 ^ n \<le> uint b)) \<and>
      ((2 ^ n \<le> uint a) \<noteq> odd ((uint a - uint b - ?k) div 2 ^ n))"
    using assms(10)
    unfolding up [OF L(4)] low [OF L(4)] wb [OF L(4)] bit_small [OF lt(1)] bit_small [OF lt(2)] .
  also have "\<dots> \<longleftrightarrow> \<not> (- (2 ^ n) \<le> sint a - sint b - ?k \<and> sint a - sint b - ?k < 2 ^ n)"
    unfolding sv [OF lt(1)] sv [OF lt(2)]
    by (rule overflow_borrow_int [OF _ lt(1) _ lt(2) K]) simp_all
  finally have ov: "overflow f \<longleftrightarrow> \<not> (- (2 ^ n) \<le> sint a - sint b - ?k \<and> sint a - sint b - ?k < 2 ^ n)" .
  have "adjust f \<longleftrightarrow> (odd ((uint a - uint b - ?k) div 2 ^ 4) \<noteq>
      (odd (uint a div 2 ^ 4) \<noteq> odd (uint b div 2 ^ 4)))"
    using assms(11) unfolding up [OF L(5)] low [OF L(5)] wb [OF L(5)]
    unfolding bit_word_odd_div by blast
  also have "\<dots> \<longleftrightarrow> uint a mod 2 ^ 4 < uint b mod 2 ^ 4 + ?k"
    by (rule borrow_into_int [OF _ K]) simp
  finally have ad: "adjust f \<longleftrightarrow> uint a mod 16 < uint b mod 16 + ?k" by simp
  have cr: "bit r (Suc n) \<longleftrightarrow> uint a < uint b + ?k"
    using bit_borrow_sub [OF L(3), of "ucast a" "ucast b + k"] lt ub
    by (simp add: r_def uint_up [OF L(1)] word_less_alt)
  have tz: "Suc n \<le> trailing_zeros r \<longleftrightarrow> a - b - of_bool cin = 0"
    using trailing_zeros_down [OF L(1), of r] dr assms(1) by simp
  have sg: "bit r n \<longleftrightarrow> sint (a - b - of_bool cin) < 0" using bit_down [OF assms(1) L(2), of r] dr by simp
  have pa: "even_ones r = even_ones (a - b - of_bool cin)" using even_ones_down [OF assms(3), of r] dr by simp
  show ?thesis
    unfolding sbb_flags_def result_flags_def assms(1) using assms(6-9) cr tz sg pa ad ov by simp
qed

lemma sbb_flags_wide:
  fixes a :: "'a::len word" and k s :: usize
  assumes "LENGTH('a) = Suc n" "Suc n < 64" "8 \<le> LENGTH('a)" "k = of_bool cin"
  defines "r \<equiv> (ucast a - (s + k) :: usize)"
  assumes "carry f = bit r (Suc n)" "parity f = even_ones r" "zero f \<longleftrightarrow> Suc n \<le> trailing_zeros r"
    "sign f = bit r n"
    "overflow f \<longleftrightarrow> (bit (ucast a :: usize) n \<noteq> bit s n) \<and> (bit (ucast a :: usize) n \<noteq> bit r n)"
    "adjust f \<longleftrightarrow> (bit r 4 \<noteq> (bit s 4 \<noteq> bit (ucast a :: usize) 4))"
  shows "sbb_flags a (ucast s) cin (carry_flipped (bit s (Suc n)) f)"
proof -
  let ?b = "ucast s :: 'a word"
  let ?B = "ucast ?b :: usize"
  have L: "LENGTH('a) \<le> 64" using assms(1,2) by simp
  have b: "ucast s = (ucast ?B :: 'a word)" using L by simp
  have r: "ucast r = (ucast (ucast a - (?B + k)) :: 'a word)" unfolding r_def using L by (simp add: ucast_hom)
  have t: "ucast (s + k) = (ucast (?B + k) :: 'a word)" using L by (simp add: ucast_hom)
  note R = low_half_agrees [OF r assms(1-3)] and S = low_half_agrees [OF b assms(1-3)]
  have "bit (s + k) (Suc n) \<longleftrightarrow> bit (?B + k) (Suc n) \<noteq> bit s (Suc n)"
    using top_add [where 'a = 'a, of s ?B k k] b assms(1,2) bit_top_up [of ?b] by auto
  then have "bit r (Suc n) \<longleftrightarrow> bit (ucast a - (?B + k)) (Suc n) \<noteq> bit s (Suc n)"
    using top_sub [where 'a = 'a, of "ucast a" "ucast a" "s + k" "?B + k"] t assms(1,2) by (auto simp: r_def)
  then show ?thesis using assms(6-)
    by (intro sbb_flags_intro [OF assms(1-4)]) (auto simp: R(2-) R(1) S(2) S(1))
qed

lemma exec_Sbb8_writes:
  fixes a :: u8
  assumes "mmu_ok u" "place8 (op_dst op)" "read_parameter_value c u (op_dst op) = Some (ucast a)"
    "read_parameter_value c u (op_src op) = Some s"
  shows "writes operand8 (exec_Sbb8 op c u) c (op_dst op) (a - ucast s - of_bool (carry (cpu_flags c)))
    (\<lambda>f. sbb_flags a (ucast s) (carry (cpu_flags c)) (carry_flipped (bit s 8) f))"
  unfolding exec_Sbb8_def carry_bit using assms(3,4)
  by (simp add: Let_def ucast_hom ucast_of_bool diff_diff_eq flag_set_defs adjust_bit split del: split_of_bool)
    (rule op8.write_after_flags [OF assms(1,2)], rule sbb_flags_wide [where n = 7, simplified];
     auto simp: bit_xor_iff)

lemma exec_Sbb16_writes:
  fixes a :: u16
  assumes "mmu_ok u" "place16 (op_dst op)" "read_parameter_value c u (op_dst op) = Some (ucast a)"
    "read_parameter_value c u (op_src op) = Some s"
  shows "writes operand16 (exec_Sbb16 op c u) c (op_dst op) (a - ucast s - of_bool (carry (cpu_flags c)))
    (\<lambda>f. sbb_flags a (ucast s) (carry (cpu_flags c)) (carry_flipped (bit s 16) f))"
  unfolding exec_Sbb16_def carry_bit using assms(3,4)
  by (simp add: Let_def ucast_hom ucast_of_bool diff_diff_eq flag_set_defs adjust_bit split del: split_of_bool)
    (rule op16.write_after_flags [OF assms(1,2)], rule sbb_flags_wide [where n = 15, simplified];
     auto simp: bit_xor_iff)

section \<open>The instructions\<close>

lemma add_flags_commute: "add_flags a b f = add_flags b a f"
  by (simp add: add_flags_def add.commute)

lemma exec_Add8_writes:
  fixes a :: u8
  assumes "mmu_ok u" "place8 (op_dst op)" "read_parameter_value c u (op_dst op) = Some (ucast a)"
    "read_parameter_value c u (op_src op) = Some s"
  shows "writes operand8 (exec_Add8 op c u) c (op_dst op) (a + ucast s) (add_flags a (ucast s))"
  using exec_Add8_eq [OF assms(4,3)] op8.write_after_flags [OF assms(1,2)]
  by (auto simp: add.commute add_flags_commute)

lemma exec_Add16_writes:
  fixes a :: u16
  assumes "mmu_ok u" "place16 (op_dst op)" "read_parameter_value c u (op_dst op) = Some (ucast a)"
    "read_parameter_value c u (op_src op) = Some s"
  shows "writes operand16 (exec_Add16 op c u) c (op_dst op) (a + ucast s) (add_flags a (ucast s))"
  using exec_Add16_eq [OF assms(4,3)] op16.write_after_flags [OF assms(1,2)]
  by (auto simp: add.commute add_flags_commute)

lemma exec_Add32_writes:
  fixes a :: u32
  assumes "mmu_ok u" "place32 (op_dst op)" "read_parameter_value c u (op_dst op) = Some (ucast a)"
    "read_parameter_value c u (op_src op) = Some s"
  shows "writes operand32 (exec_Add32 op c u) c (op_dst op) (a + ucast s) (add_flags a (ucast s))"
  using exec_Add32_eq [OF assms(4,3)] op32.write_after_flags [OF assms(1,2)]
  by (auto simp: add.commute add_flags_commute)

lemma exec_Sub8_writes:
  fixes a :: u8
  assumes "mmu_ok u" "place8 (op_dst op)" "read_parameter_value c u (op_dst op) = Some (ucast a)"
    "read_parameter_value c u (op_src op) = Some s"
  shows "writes operand8 (exec_Sub8 op c u) c (op_dst op) (a - ucast s)
    (\<lambda>f. sub_flags a (ucast s) (carry_flipped (bit s 8) f))"
  using exec_Sub8_eq [OF assms(4,3)] op8.write_after_flags [OF assms(1,2)] by auto

lemma exec_Sub16_writes:
  fixes a :: u16
  assumes "mmu_ok u" "place16 (op_dst op)" "read_parameter_value c u (op_dst op) = Some (ucast a)"
    "read_parameter_value c u (op_src op) = Some s"
  shows "writes operand16 (exec_Sub16 op c u) c (op_dst op) (a - ucast s)
    (\<lambda>f. sub_flags a (ucast s) (carry_flipped (bit s 16) f))"
  using exec_Sub16_eq [OF assms(4,3)] op16.write_after_flags [OF assms(1,2)] by auto

lemma exec_Sub32_writes:
  fixes a :: u32
  assumes "mmu_ok u" "place32 (op_dst op)" "read_parameter_value c u (op_dst op) = Some (ucast a)"
    "read_parameter_value c u (op_src op) = Some s"
  shows "writes operand32 (exec_Sub32 op c u) c (op_dst op) (a - ucast s)
    (\<lambda>f. sub_flags a (ucast s) (carry_flipped (bit s 32) f))"
  using exec_Sub32_eq [OF assms(4,3)] op32.write_after_flags [OF assms(1,2)] by auto

lemma exec_Inc8_writes:
  fixes a :: u8
  assumes "mmu_ok u" "place8 (op_dst op)" "read_parameter_value c u (op_dst op) = Some (ucast a)"
  shows "writes operand8 (exec_Inc8 op c u) c (op_dst op) (a + 1) (inc_flags a (cpu_flags c))"
  using exec_Inc8_eq [OF assms(3)] op8.write_after_flags [OF assms(1,2)]
  by (auto simp: add.commute add_flags_commute)

lemma exec_Inc16_writes:
  fixes a :: u16
  assumes "mmu_ok u" "place16 (op_dst op)" "read_parameter_value c u (op_dst op) = Some (ucast a)"
  shows "writes operand16 (exec_Inc16 op c u) c (op_dst op) (a + 1) (inc_flags a (cpu_flags c))"
  using exec_Inc16_eq [OF assms(3)] op16.write_after_flags [OF assms(1,2)]
  by (auto simp: add.commute add_flags_commute)

lemma exec_Inc32_writes:
  fixes a :: u32
  assumes "mmu_ok u" "place32 (op_dst op)" "read_parameter_value c u (op_dst op) = Some (ucast a)"
  shows "writes operand32 (exec_Inc32 op c u) c (op_dst op) (a + 1) (inc_flags a (cpu_flags c))"
  using exec_Inc32_eq [OF assms(3)] op32.write_after_flags [OF assms(1,2)]
  by (auto simp: add.commute add_flags_commute)

lemma exec_Dec8_writes:
  fixes a :: u8
  assumes "mmu_ok u" "place8 (op_dst op)" "read_parameter_value c u (op_dst op) = Some (ucast a)"
  shows "writes operand8 (exec_Dec8 op c u) c (op_dst op) (a - 1) (dec_flags a (cpu_flags c))"
  using exec_Dec8_eq [OF assms(3)] op8.write_after_flags [OF assms(1,2)]
  by (auto simp: add.commute add_flags_commute)

lemma exec_Dec16_writes:
  fixes a :: u16
  assumes "mmu_ok u" "place16 (op_dst op)" "read_parameter_value c u (op_dst op) = Some (ucast a)"
  shows "writes operand16 (exec_Dec16 op c u) c (op_dst op) (a - 1) (dec_flags a (cpu_flags c))"
  using exec_Dec16_eq [OF assms(3)] op16.write_after_flags [OF assms(1,2)]
  by (auto simp: add.commute add_flags_commute)

lemma exec_Dec32_writes:
  fixes a :: u32
  assumes "mmu_ok u" "place32 (op_dst op)" "read_parameter_value c u (op_dst op) = Some (ucast a)"
  shows "writes operand32 (exec_Dec32 op c u) c (op_dst op) (a - 1) (dec_flags a (cpu_flags c))"
  using exec_Dec32_eq [OF assms(3)] op32.write_after_flags [OF assms(1,2)]
  by (auto simp: add.commute add_flags_commute)

section \<open>The sources of an instruction\<close>

text \<open>
  The sources the decoder gives the operations of a width: a place of that width, an immediate, or (16
  and 32 bits) a byte the machine sign-extends. Only a negative byte reaches above the width.
\<close>

definition source8 :: "Parameter \<Rightarrow> bool" where
  "source8 p \<longleftrightarrow> place8 p \<or> (case p of Imm8 _ \<Rightarrow> True | _ \<Rightarrow> False)"

definition source16 :: "Parameter \<Rightarrow> bool" where
  "source16 p \<longleftrightarrow> place16 p \<or> (case p of Imm16 _ \<Rightarrow> True | ImmS8 _ \<Rightarrow> True | _ \<Rightarrow> False)"

definition source32 :: "Parameter \<Rightarrow> bool" where
  "source32 p \<longleftrightarrow> place32 p \<or> (case p of Imm32 _ \<Rightarrow> True | ImmS8 _ \<Rightarrow> True | _ \<Rightarrow> False)"

definition negative_byte :: "Parameter \<Rightarrow> bool" where
  "negative_byte p \<longleftrightarrow> (case p of ImmS8 i \<Rightarrow> sint i < 0 | _ \<Rightarrow> False)"

lemma ucast_top:
  "\<not> bit (ucast (a :: u8) :: usize) 8" "\<not> bit (ucast (b :: u16) :: usize) 16" "\<not> bit (ucast (d :: u32) :: usize) 32"
  using bit_top_up [of a] bit_top_up [of b] bit_top_up [of d] by simp_all

lemma scast_top: "bit (scast (i :: u8) :: usize) 16 \<longleftrightarrow> sint i < 0" "bit (scast i :: usize) 32 \<longleftrightarrow> sint i < 0"
  using bit_last_iff [of i] by (simp_all add: bit_simps)

lemma source_top:
  assumes "read_parameter_value c u p = Some s"
  shows "source8 p \<Longrightarrow> \<not> bit s 8" "source16 p \<Longrightarrow> bit s 16 = negative_byte p"
    "source32 p \<Longrightarrow> bit s 32 = negative_byte p"
  using assms
  by (cases p; auto simp: source8_def source16_def source32_def negative_byte_def read_parameter_value_def
      bind_Some_iff ucast_top scast_top)+

section \<open>Properties\<close>

text \<open>
  The relation of two operands, as a comparison leaves it in the flags. Carry is their unsigned order,
  inverted when \<open>flipped\<close>.
\<close>

definition cmp_flags :: "'a::len word \<Rightarrow> 'a word \<Rightarrow> bool \<Rightarrow> Flags \<Rightarrow> bool" where
  "cmp_flags a b flipped f \<longleftrightarrow>
     (carry f \<longleftrightarrow> (a < b) \<noteq> flipped) \<and> (zero f \<longleftrightarrow> a = b) \<and>
     ((sign f \<noteq> overflow f) \<longleftrightarrow> sint a < sint b) \<and>
     (overflow f \<longleftrightarrow> sint a - sint b \<notin> {- (2 ^ (LENGTH('a) - 1)) ..< 2 ^ (LENGTH('a) - 1)}) \<and>
     (sign f \<longleftrightarrow> sint (a - b) < 0) \<and> (parity f \<longleftrightarrow> even_ones (a - b)) \<and>
     (adjust f \<longleftrightarrow> uint a mod 16 < uint b mod 16)"

lemma signed_order:
  fixes a b :: "'a::len word"
  assumes "LENGTH('a) = Suc n" "Suc n < 64" "8 \<le> LENGTH('a)"
  shows "((sint (a - b) < 0) \<noteq> (sint a - sint b \<notin> {- (2 ^ n) ..< 2 ^ n})) \<longleftrightarrow> sint a < sint b"
proof -
  have L: "LENGTH('a) \<le> 64" "Suc n \<le> 64" using assms by simp_all
  have lt: "uint (ucast a :: usize) < 2 * 2 ^ n" "uint (ucast b :: usize) < 2 * 2 ^ n"
    using unsigned_less [where 'a = int, of a] unsigned_less [where 'a = int, of b] assms(1)
    by (simp_all add: uint_up [OF L(1)])
  show ?thesis
    using sub_flag_facts(3) [OF lt assms(2)] sub_facts(3,4) [OF assms, of a b] assms(1)
    by (simp add: sval_up [OF assms(1) L(2)]) blast
qed

lemma cmp_flags_sub:
  fixes a b :: "'a::len word"
  assumes "LENGTH('a) = Suc n" "Suc n < 64" "8 \<le> LENGTH('a)" "sub_flags a b (carry_flipped x f)"
  shows "cmp_flags a b x f"
  using signed_order [OF assms(1-3), of a b] assms(1,4)
  by (auto simp: cmp_flags_def sub_flags_def result_flags_def)

lemmas cmp_spec = Let_def flag_set_defs adjust_bit

lemma cmp8_spec:
  "cmp_flags (ucast dst :: u8) (ucast src) (bit dst 8 \<noteq> bit src 8) (cpu_flags (cmp8 c dst src))"
proof (rule cmp_flags_sub [where n = 7])
  show "sub_flags (ucast dst :: u8) (ucast src) (carry_flipped (bit dst 8 \<noteq> bit src 8) (cpu_flags (cmp8 c dst src)))"
    using sub_flags_any [where 'a = 8 and n = 7 and x = dst and y = src and f = "cpu_flags (cmp8 c dst src)"]
    by (simp add: cmp8_def cmp_spec bit_xor_iff)
qed simp_all

lemma cmp16_spec:
  "cmp_flags (ucast dst :: u16) (ucast src) (bit dst 16 \<noteq> bit src 16) (cpu_flags (cmp16 c dst src))"
proof (rule cmp_flags_sub [where n = 15])
  show "sub_flags (ucast dst :: u16) (ucast src) (carry_flipped (bit dst 16 \<noteq> bit src 16) (cpu_flags (cmp16 c dst src)))"
    using sub_flags_any [where 'a = 16 and n = 15 and x = dst and y = src and f = "cpu_flags (cmp16 c dst src)"]
    by (simp add: cmp16_def cmp_spec bit_xor_iff)
qed simp_all

lemma cmp32_spec:
  "cmp_flags (ucast dst :: u32) (ucast src) (bit dst 32 \<noteq> bit src 32) (cpu_flags (cmp32 c dst src))"
proof (rule cmp_flags_sub [where n = 31])
  show "sub_flags (ucast dst :: u32) (ucast src) (carry_flipped (bit dst 32 \<noteq> bit src 32) (cpu_flags (cmp32 c dst src)))"
    using sub_flags_any [where 'a = 32 and n = 31 and x = dst and y = src and f = "cpu_flags (cmp32 c dst src)"]
    by (simp add: cmp32_def cmp_spec bit_xor_iff)
qed simp_all

section \<open>Properties\<close>

text \<open>C9. A comparison sets the flags to the relation of its operands at each width, for all the 64-bit
  values it can be called with: zero is equality, sign against overflow is the signed order, overflow
  says that the signed difference does not fit, and sign, parity and adjust are those of the difference. Carry is
  the unsigned order, but inverted when exactly one of the two values has the bit just above the width
  set. A negative sign-extended byte has it (CMP with opcode 83), the words CMPSB compares as bytes may
  have it, and operands of the width do not.\<close>

theorem comparison_flags:
  "cmp_flags (ucast dst :: u8) (ucast src) (bit dst 8 \<noteq> bit src 8) (cpu_flags (cmp8 c dst src)) \<and>
   cmp_flags (ucast dst :: u16) (ucast src) (bit dst 16 \<noteq> bit src 16) (cpu_flags (cmp16 c dst src)) \<and>
   cmp_flags (ucast dst :: u32) (ucast src) (bit dst 32 \<noteq> bit src 32) (cpu_flags (cmp32 c dst src)) \<and>
   (\<forall>p u. read_parameter_value c u p = Some src \<longrightarrow>
      (source8 p \<longrightarrow> \<not> bit src 8) \<and> (source16 p \<longrightarrow> bit src 16 = negative_byte p) \<and>
      (source32 p \<longrightarrow> bit src 32 = negative_byte p))"
  by (intro conjI allI impI; (rule cmp8_spec | rule cmp16_spec | rule cmp32_spec | erule source_top, assumption))

theorem comparison_flags_witness:
  "\<not> carry (cpu_flags (cmp16 CPU_default 5 (- 1))) \<and> carry (cpu_flags (cmp16 CPU_default 5 0xFFFF)) \<and>
   bit (- 1 :: usize) 16"
proof -
  have carry: "carry (cpu_flags (cmp16 CPU_default 5 s)) \<longleftrightarrow> ((5 :: u16) < ucast s) \<noteq> bit s 16" for s :: usize
    using comparison_flags [of 5 s CPU_default] by (simp only: cmp_flags_def) (simp add: bit_simps)
  have "ucast (- 1 :: usize) = (- 1 :: u16)" by (rule bit_word_eqI) (simp add: bit_simps)
  then have "(5 :: u16) < ucast (- 1 :: usize)" by (simp add: word_less_alt unsigned_minus_1_eq_mask mask_eq_exp_minus_1)
  moreover have "bit (- 1 :: usize) 16"
    using comparison_flags [of _ "- 1" CPU_default, THEN conjunct2, THEN conjunct2, THEN conjunct2]
    by (auto dest!: spec [of _ "ImmS8 (- 1)"] simp: read_parameter_value_def source16_def negative_byte_def)
  ultimately show ?thesis using carry [of "- 1"] carry [of "0xFFFF"] by (simp add: bit_simps)
qed

text \<open>C11. ADD at 8, 16 and 32 bits leaves the sum of the destination and the low bits of its source in
  every writable destination and sets the flags from the exact sums, carry and adjust from the unsigned
  and overflow from the signed one. ADC at 8 and 16 bits leaves the sum with the carry; zero, sign and
  parity are those of the sum, but overflow and adjust are those of the destination plus the wrapped
  \<open>source + carry\<close> (which is not the exact sum), and carry is that of the exact sum inverted when the
  source has the bit above the width set, which is so exactly for a negative sign-extended byte. With
  the carry set, a source of all ones stops it with a panic.\<close>

theorem addition_correct:
  assumes "mmu_ok u" "read_parameter_value c u (op_dst op) = Some d" "read_parameter_value c u (op_src op) = Some s"
  shows "(place8 (op_dst op) \<longrightarrow> d = ucast (a8 :: u8) \<longrightarrow>
      writes operand8 (exec_Add8 op c u) c (op_dst op) (a8 + ucast s) (add_flags a8 (ucast s)) \<and>
      (if carry (cpu_flags c) \<and> s = - 1 then exec_Adc8 op c u = None
       else writes operand8 (exec_Adc8 op c u) c (op_dst op) (a8 + ucast s + of_bool (carry (cpu_flags c)))
         (\<lambda>f. adc_flags a8 (ucast s) (carry (cpu_flags c)) (carry_flipped (bit s 8) f))) \<and>
      (source8 (op_src op) \<longrightarrow> \<not> bit s 8)) \<and>
    (place16 (op_dst op) \<longrightarrow> d = ucast (a16 :: u16) \<longrightarrow>
      writes operand16 (exec_Add16 op c u) c (op_dst op) (a16 + ucast s) (add_flags a16 (ucast s)) \<and>
      (if carry (cpu_flags c) \<and> s = - 1 then exec_Adc16 op c u = None
       else writes operand16 (exec_Adc16 op c u) c (op_dst op) (a16 + ucast s + of_bool (carry (cpu_flags c)))
         (\<lambda>f. adc_flags a16 (ucast s) (carry (cpu_flags c)) (carry_flipped (bit s 16) f))) \<and>
      (source16 (op_src op) \<longrightarrow> bit s 16 = negative_byte (op_src op))) \<and>
    (place32 (op_dst op) \<longrightarrow> d = ucast (a32 :: u32) \<longrightarrow>
      writes operand32 (exec_Add32 op c u) c (op_dst op) (a32 + ucast s) (add_flags a32 (ucast s)))"
  using exec_Add8_writes [OF assms(1), of op c] exec_Adc8_writes [OF assms(1), of op c]
    exec_Add16_writes [OF assms(1), of op c] exec_Adc16_writes [OF assms(1), of op c]
    exec_Add32_writes [OF assms(1), of op c] exec_Adc8_panics [of c u op] exec_Adc16_panics [of c u op]
    source_top [OF assms(3)] assms(2,3) by auto

theorem addition_correct_witness:
  "writes operand8 (exec_Add8 (instr_new2 (Arith Add8) (Reg8 R.BL) (Imm8 0x90)) CPU_default MMU_default)
     CPU_default (Reg8 R.BL) 0x90 (add_flags (0 :: u8) 0x90) \<and>
   exec_Adc16 (instr_new2 (Arith Adc16) (Reg16 R.BX) (ImmS8 (- 1)))
     (with_flags CPU_default (flags_new\<lparr>carry := True\<rparr>)) MMU_default = None"
  using addition_correct [OF mmu_default_ok, of CPU_default "instr_new2 (Arith Add8) (Reg8 R.BL) (Imm8 0x90)" 0 "0x90" 0]
    addition_correct [OF mmu_default_ok, of "with_flags CPU_default (flags_new\<lparr>carry := True\<rparr>)"
      "instr_new2 (Arith Adc16) (Reg16 R.BX) (ImmS8 (- 1))" _ "- 1" _ "r16v CPU_default R.BX"]
  by (simp add: instr_new2_def instr_new3_def read_parameter_value_def)

text \<open>C12. SUB at 8, 16 and 32 bits and SBB at 8 and 16 leave the difference of the destination and the low
  bits of the source (less the carry in) in every writable destination; zero, sign, parity and overflow
  are those of the exact signed difference and adjust is the borrow out of the low nibble. Carry is the
  unsigned borrow, except that it is inverted when the source has the bit above the width set, which is so exactly
  for a negative sign-extended byte (opcode 83): \<open>sub ax, byte -1\<close> with 5 in AX clears it.\<close>

theorem subtraction_correct:
  assumes "mmu_ok u" "read_parameter_value c u (op_dst op) = Some d" "read_parameter_value c u (op_src op) = Some s"
  shows "(place8 (op_dst op) \<longrightarrow> d = ucast (a8 :: u8) \<longrightarrow>
      writes operand8 (exec_Sub8 op c u) c (op_dst op) (a8 - ucast s)
        (\<lambda>f. sub_flags a8 (ucast s) (carry_flipped (bit s 8) f)) \<and>
      writes operand8 (exec_Sbb8 op c u) c (op_dst op) (a8 - ucast s - of_bool (carry (cpu_flags c)))
        (\<lambda>f. sbb_flags a8 (ucast s) (carry (cpu_flags c)) (carry_flipped (bit s 8) f)) \<and>
      (source8 (op_src op) \<longrightarrow> \<not> bit s 8)) \<and>
    (place16 (op_dst op) \<longrightarrow> d = ucast (a16 :: u16) \<longrightarrow>
      writes operand16 (exec_Sub16 op c u) c (op_dst op) (a16 - ucast s)
        (\<lambda>f. sub_flags a16 (ucast s) (carry_flipped (bit s 16) f)) \<and>
      writes operand16 (exec_Sbb16 op c u) c (op_dst op) (a16 - ucast s - of_bool (carry (cpu_flags c)))
        (\<lambda>f. sbb_flags a16 (ucast s) (carry (cpu_flags c)) (carry_flipped (bit s 16) f)) \<and>
      (source16 (op_src op) \<longrightarrow> bit s 16 = negative_byte (op_src op))) \<and>
    (place32 (op_dst op) \<longrightarrow> d = ucast (a32 :: u32) \<longrightarrow>
      writes operand32 (exec_Sub32 op c u) c (op_dst op) (a32 - ucast s)
        (\<lambda>f. sub_flags a32 (ucast s) (carry_flipped (bit s 32) f)) \<and>
      (source32 (op_src op) \<longrightarrow> bit s 32 = negative_byte (op_src op)))"
  using exec_Sub8_writes [OF assms(1), of op c] exec_Sbb8_writes [OF assms(1), of op c]
    exec_Sub16_writes [OF assms(1), of op c] exec_Sbb16_writes [OF assms(1), of op c]
    exec_Sub32_writes [OF assms(1), of op c] source_top [OF assms(3)] assms(2,3) by simp

theorem subtraction_correct_witness:
  "writes operand32 (exec_Sub32 (instr_new2 (Arith Sub32) (Reg32 R.ECX) (Imm32 1)) CPU_default MMU_default)
     CPU_default (Reg32 R.ECX) (- 1) (sub_flags (0 :: u32) 1) \<and>
   writes operand32 (exec_Sub32 (instr_new2 (Arith Sub32) (Reg32 R.ECX) (ImmS8 (- 1))) CPU_default MMU_default)
     CPU_default (Reg32 R.ECX) (- ucast (- 1 :: usize)) (\<lambda>f. sub_flags (0 :: u32) (ucast (- 1 :: usize)) (carry_flipped True f))"
  using subtraction_correct [OF mmu_default_ok, of CPU_default "instr_new2 (Arith Sub32) (Reg32 R.ECX) (Imm32 1)"
      0 1 _ _ 0]
    subtraction_correct [OF mmu_default_ok, of CPU_default "instr_new2 (Arith Sub32) (Reg32 R.ECX) (ImmS8 (- 1))"
      0 "- 1" _ _ 0]
  by (simp add: instr_new2_def instr_new3_def read_parameter_value_def)

text \<open>C13. INC and DEC change every arithmetic flag but the carry; NEG is the subtraction from zero. All
  three finish at the three widths and leave the result in the operand.\<close>

theorem increment_negate_correct:
  assumes "mmu_ok u" "read_parameter_value c u (op_dst op) = Some d"
  shows "(place8 (op_dst op) \<longrightarrow> d = ucast (a8 :: u8) \<longrightarrow>
      writes operand8 (exec_Inc8 op c u) c (op_dst op) (a8 + 1) (inc_flags a8 (cpu_flags c)) \<and>
      writes operand8 (exec_Dec8 op c u) c (op_dst op) (a8 - 1) (dec_flags a8 (cpu_flags c)) \<and>
      writes operand8 (exec_Neg8 op c u) c (op_dst op) (- a8) (neg_flags a8)) \<and>
    (place16 (op_dst op) \<longrightarrow> d = ucast (a16 :: u16) \<longrightarrow>
      writes operand16 (exec_Inc16 op c u) c (op_dst op) (a16 + 1) (inc_flags a16 (cpu_flags c)) \<and>
      writes operand16 (exec_Dec16 op c u) c (op_dst op) (a16 - 1) (dec_flags a16 (cpu_flags c)) \<and>
      writes operand16 (exec_Neg16 op c u) c (op_dst op) (- a16) (neg_flags a16)) \<and>
    (place32 (op_dst op) \<longrightarrow> d = ucast (a32 :: u32) \<longrightarrow>
      writes operand32 (exec_Inc32 op c u) c (op_dst op) (a32 + 1) (inc_flags a32 (cpu_flags c)) \<and>
      writes operand32 (exec_Dec32 op c u) c (op_dst op) (a32 - 1) (dec_flags a32 (cpu_flags c)) \<and>
      writes operand32 (exec_Neg32 op c u) c (op_dst op) (- a32) (neg_flags a32))"
proof -
  note l8 = exec_Inc8_writes [OF assms(1), of op c] exec_Dec8_writes [OF assms(1), of op c]
    exec_Neg8_writes [OF assms(1), of op c]
  note l16 = exec_Inc16_writes [OF assms(1), of op c] exec_Dec16_writes [OF assms(1), of op c]
    exec_Neg16_writes [OF assms(1), of op c]
  note l32 = exec_Inc32_writes [OF assms(1), of op c] exec_Dec32_writes [OF assms(1), of op c]
    exec_Neg32_writes [OF assms(1), of op c]
  show ?thesis using l8 l16 l32 assms(2) by simp
qed

theorem increment_negate_correct_witness:
  "writes operand8 (exec_Neg8 (instr_new1 (Arith Neg8) (Reg8 R.AH)) CPU_default MMU_default)
     CPU_default (Reg8 R.AH) 0 (neg_flags (0 :: u8))"
  using increment_negate_correct [OF mmu_default_ok, of CPU_default "instr_new1 (Arith Neg8) (Reg8 R.AH)" 0 0 0 0]
  by (simp add: instr_new1_def instr_new3_def read_parameter_value_def)

text \<open>C14. The overflow flag of ADC is wrong when adding the carry to the source leaves the signed
  range: with the largest positive source and the carry set, the flag is the negation of signed
  overflow of \<open>a + b + 1\<close>.\<close>

theorem adc_overflow_inverted:
  assumes "mmu_ok u" "place8 (op_dst op)" "carry (cpu_flags c)"
    "read_parameter_value c u (op_dst op) = Some (ucast (a :: u8))" "read_parameter_value c u (op_src op) = Some 0x7F"
  shows "writes operand8 (exec_Adc8 op c u) c (op_dst op) (a + 0x80)
    (\<lambda>f. overflow f \<longleftrightarrow> \<not> sint a + 0x7F + 1 \<notin> {- (2 ^ 7) ..< 2 ^ 7})"
proof -
  have "writes operand8 (exec_Adc8 op c u) c (op_dst op) (a + 0x7F + of_bool True) (adc_flags a 0x7F True)"
    using exec_Adc8_writes [OF assms(1,2,4,5)] assms(3) by (simp add: bit_simps)
  moreover have "overflow f \<longleftrightarrow> \<not> sint a + 0x7F + 1 \<notin> {- (2 ^ 7) ..< 2 ^ 7}" if "adc_flags a 0x7F True f" for f
  proof -
    have "sint (0x80 :: u8) = - 128" by (simp add: sint_bit_eq bit_simps)
    then have "overflow f \<longleftrightarrow> sint a - 128 \<notin> {- (2 ^ 7) ..< 2 ^ 7}"
      using that by (simp add: adc_flags_def result_flags_def)
    then show ?thesis using sint_bounds [of 7 a] by auto
  qed
  ultimately show ?thesis by (auto simp: writes_def add.commute)
qed

theorem adc_overflow_inverted_witness:
  "writes operand8 (exec_Adc8 (instr_new2 (Arith Adc8) (Reg8 R.BL) (Imm8 0x7F))
      (with_flags CPU_default (flags_new\<lparr>carry := True\<rparr>)) MMU_default)
     (with_flags CPU_default (flags_new\<lparr>carry := True\<rparr>)) (Reg8 R.BL) 0x80 (\<lambda>f. \<not> overflow f)"
  using adc_overflow_inverted [OF mmu_default_ok, of "instr_new2 (Arith Adc8) (Reg8 R.BL) (Imm8 0x7F)"
      "with_flags CPU_default (flags_new\<lparr>carry := True\<rparr>)" 0]
  by (simp add: instr_new2_def instr_new3_def read_parameter_value_def)

end
