(* ===== verification/X86_Laws_MulDiv.thy ===== *)
theory X86_Laws_MulDiv
  imports X86_Laws_Arith
begin

text \<open>
  Multiplication and division: the products over the integers, the quotient and remainder, the
  divide exception and the panics.
\<close>

unbundle bit_operations_syntax

section \<open>Products\<close>

lemma uint_mult_lt:
  fixes x y :: "'a::len word"
  shows "uint x * uint y < 2 ^ (2 * LENGTH('a))" "0 \<le> uint x * uint y"
proof -
  have "uint x * uint y < 2 ^ LENGTH('a) * 2 ^ LENGTH('a)"
    by (intro mult_strict_mono') simp_all
  then show "uint x * uint y < 2 ^ (2 * LENGTH('a))" by (simp add: mult_2 power_add)
qed simp

lemma uint_product:
  fixes x y :: "'a::len word"
  assumes "2 * LENGTH('a) \<le> 64"
  shows "uint (ucast x * ucast y :: usize) = uint x * uint y"
proof -
  have "LENGTH('a) \<le> 64" using assms by simp
  moreover have "uint x * uint y < 2 ^ 64"
    using uint_mult_lt(1) [of x y] power_increasing [OF assms, of "2 :: int"] by simp
  ultimately show ?thesis by (simp add: uint_word_ariths uint_up mod_pos_pos_trivial)
qed

text \<open>A double-width value is its high and low half.\<close>

lemma div_below_square: "x < P * P \<Longrightarrow> 0 < P \<Longrightarrow> x div P < P" for x P :: int
proof (rule ccontr)
  assume a: "x < P * P" "0 < P" "\<not> x div P < P"
  then have "P * P \<le> P * (x div P)" by (intro mult_left_mono) simp_all
  also have "\<dots> = x - x mod P" by (simp add: minus_mod_eq_mult_div)
  also have "\<dots> \<le> x" using a(2) by simp
  finally show False using a(1) by simp
qed

lemma high_byte_zero: "x AND 0xFF00 = 0 \<longleftrightarrow> drop_bit 8 x = 0" for x :: u16
proof -
  have m: "(0xFF00 :: u16) = push_bit 8 (mask 8)" by (simp add: mask_eq_exp_minus_1)
  have b: "bit (x AND 0xFF00) (8 + n) \<longleftrightarrow> bit x (8 + n)" for n
    unfolding m using bit_imp_le_length [of x "8 + n"] by (auto simp: bit_simps)
  show ?thesis
  proof
    assume "x AND 0xFF00 = 0"
    then show "drop_bit 8 x = 0" by (intro bit_word_eqI) (simp add: bit_drop_bit_eq b [symmetric])
  next
    assume d: "drop_bit 8 x = 0"
    have "\<not> bit x (8 + n)" for n using arg_cong [OF d, of "\<lambda>w. bit w n"] by (simp add: bit_drop_bit_eq)
    then have "\<not> bit x n" if "8 \<le> n" for n using that by (metis le_add_diff_inverse)
    then show "x AND 0xFF00 = 0" unfolding m by (intro bit_word_eqI) (auto simp: bit_simps)
  qed
qed

lemma uint_drop: "uint (drop_bit n w) = uint w div 2 ^ n" for w :: "'a::len word"
  by (simp only: unsigned_drop_bit_eq) (simp add: drop_bit_eq_div take_bit_int_eq_self)

lemma uint_halves:
  fixes w :: usize
  assumes "uint w < 2 ^ (2 * LENGTH('a::len))" "2 * LENGTH('a) \<le> 64"
  shows "2 ^ LENGTH('a) * uint (ucast (drop_bit LENGTH('a) w) :: 'a word) + uint (ucast w :: 'a word) = uint w"
proof -
  let ?P = "2 ^ LENGTH('a) :: int"
  have "uint w div ?P < ?P" using assms(1) by (intro div_below_square) (simp_all add: mult_2 power_add)
  moreover have "0 \<le> uint w div ?P" by (intro pos_imp_zdiv_nonneg_iff [THEN iffD2]) simp_all
  ultimately have "(uint w div ?P) mod ?P = uint w div ?P" by (intro mod_pos_pos_trivial)
  then have "uint (ucast (drop_bit LENGTH('a) w) :: 'a word) = uint w div ?P"
    by (simp only: unsigned_ucast_eq uint_drop take_bit_eq_mod)
  moreover have "uint (ucast w :: 'a word) = uint w mod ?P" by (simp add: unsigned_ucast_eq take_bit_eq_mod)
  ultimately show ?thesis by simp
qed

lemma exec_Mul8_product:
  fixes a :: u8
  assumes "read_parameter_value c u (op_dst op) = Some (ucast a)"
  shows "\<exists>c'. exec_Mul8 op c u = Some (c', u) \<and> uint (r16v c' R.AX) = uint (r8v c R.AL) * uint a \<and>
    (carry (cpu_flags c') \<longleftrightarrow> 2 ^ 8 \<le> uint (r8v c R.AL) * uint a) \<and>
    overflow (cpu_flags c') = carry (cpu_flags c')"
proof -
  let ?ax = "ucast (ucast (r8v c R.AL) * ucast a :: usize) :: u16"
  have lt: "uint (r8v c R.AL) * uint a < 2 ^ 16" using uint_mult_lt(1) [of "r8v c R.AL" a] by simp
  have "uint ?ax = take_bit 16 (uint (ucast (r8v c R.AL) * ucast a :: usize))"
    by (simp only: unsigned_ucast_eq) simp
  then have ax: "uint ?ax = uint (r8v c R.AL) * uint a"
    using lt by (simp add: uint_product take_bit_int_eq_self)
  have "?ax AND 0xFF00 \<noteq> 0 \<longleftrightarrow> 2 ^ 8 \<le> uint ?ax"
  proof -
    have "?ax AND 0xFF00 = 0 \<longleftrightarrow> drop_bit 8 ?ax = 0" by (rule high_byte_zero)
    also have "\<dots> \<longleftrightarrow> uint ?ax div 2 ^ 8 = 0"
      by (simp only: word_uint_eq_iff uint_drop unsigned_0)
    finally show ?thesis by (simp add: zdiv_eq_0_iff not_less)
  qed
  then show ?thesis using assms ax by (simp add: exec_Mul8_def Let_def)
qed

text \<open>The product in a pair of registers; carry and overflow say that the high one is used.\<close>

lemma exec_Mul16_product:
  fixes a :: u16
  assumes "read_parameter_value c u (op_dst op) = Some (ucast a)"
  shows "\<exists>c'. exec_Mul16 op c u = Some (c', u) \<and>
    2 ^ 16 * uint (r16v c' R.DX) + uint (r16v c' R.AX) = uint (r16v c R.AX) * uint a \<and>
    (carry (cpu_flags c') \<longleftrightarrow> r16v c' R.DX \<noteq> 0) \<and> overflow (cpu_flags c') = carry (cpu_flags c')"
proof -
  let ?r = "ucast a * ucast (r16v c R.AX) :: usize"
  have "uint ?r = uint a * uint (r16v c R.AX)" by (rule uint_product) simp
  moreover have "2 ^ 16 * uint (ucast (drop_bit 16 ?r) :: u16) + uint (ucast ?r :: u16) = uint ?r"
    using uint_halves [of ?r, where 'a = 16] uint_mult_lt(1) [of a "r16v c R.AX"] uint_product [of a "r16v c R.AX"]
    by simp
  ultimately show ?thesis using assms by (simp add: exec_Mul16_def Let_def mult.commute)
qed

lemma exec_Mul32_product:
  fixes a :: u32
  assumes "read_parameter_value c u (op_dst op) = Some (ucast a)"
  shows "\<exists>c'. exec_Mul32 op c u = Some (c', u) \<and>
    2 ^ 32 * uint (r32v c' R.EDX) + uint (r32v c' R.EAX) = uint (r32v c R.EAX) * uint a \<and>
    (carry (cpu_flags c') \<longleftrightarrow> r32v c' R.EDX \<noteq> 0) \<and> overflow (cpu_flags c') = carry (cpu_flags c')"
proof -
  let ?r = "ucast a * ucast (r32v c R.EAX) :: usize"
  have "uint ?r = uint a * uint (r32v c R.EAX)" by (rule uint_product) simp
  moreover have "2 ^ 32 * uint (ucast (drop_bit 32 ?r) :: u32) + uint (ucast ?r :: u32) = uint ?r"
    using uint_halves [of ?r, where 'a = 32] uint_mult_lt(1) [of a "r32v c R.EAX"] uint_product [of a "r32v c R.EAX"]
    by simp
  ultimately show ?thesis using assms by (simp add: exec_Mul32_def Let_def mult.commute)
qed

section \<open>Unsigned division\<close>

lemma uint_ucast_up:
  fixes a :: "'a::len word"
  assumes "LENGTH('a) \<le> LENGTH('b::len)"
  shows "uint (ucast a :: 'b word) = uint a"
proof -
  have "uint a < 2 ^ LENGTH('a)" by simp
  also have "(2 :: int) ^ LENGTH('a) \<le> 2 ^ LENGTH('b)" using assms by (intro power_increasing) simp_all
  finally have "take_bit LENGTH('b) (uint a) = uint a" by (intro take_bit_int_eq_self) simp_all
  then show ?thesis by (simp add: unsigned_ucast_eq)
qed

text \<open>Taking the low part of a value that fits.\<close>

lemma uint_ucast_down:
  fixes w :: "'b::len word"
  assumes "uint w < 2 ^ LENGTH('a::len)"
  shows "uint (ucast w :: 'a word) = uint w"
  using assms by (simp add: unsigned_ucast_eq take_bit_int_eq_self)

lemma ucast_low_mask:
  fixes w :: "'b::len word"
  shows "ucast (w AND mask LENGTH('a)) = (ucast w :: 'a::len word)"
  by (rule bit_word_eqI) (auto simp: bit_simps dest: bit_imp_le_length)

lemma exec_Div8_quotient:
  fixes a :: u8
  assumes "read_parameter_value c u (op_dst op) = Some (ucast a)"
  shows "if a = 0 \<or> 2 ^ 8 \<le> uint (r16v c R.AX) div uint a
    then exec_Div8 op c u = Some (Return, cpu_exception c DIV0 0, u)
    else \<exists>c'. exec_Div8 op c u = Some (Fall, c', u) \<and>
      uint (r8v c' R.AL) * uint a + uint (r8v c' R.AH) = uint (r16v c R.AX) \<and> r8v c' R.AH < a"
proof (cases "a = 0")
  case True
  then show ?thesis using assms by (simp add: exec_Div8_def)
next
  case False
  let ?x = "r16v c R.AX" and ?a = "ucast a :: u16"
  have d: "ucast (ucast a :: usize) = ?a" by (rule bit_word_eqI) (simp add: bit_simps)
  have a: "uint ?a = uint a" by (rule uint_ucast_up) simp
  have na: "?a \<noteq> 0" "0 < uint a" using False a uint_ge_0 [of a] by (auto simp: word_uint_eq_iff less_le)
  have q: "uint (?x div ?a) = uint ?x div uint a" by (simp add: uint_div_distrib a)
  have gt: "0xFF < ?x div ?a \<longleftrightarrow> 2 ^ 8 \<le> uint ?x div uint a" unfolding word_less_alt q by auto
  have lt: "uint ?x mod uint a < uint a" using na by simp
  have "uint (?x mod ?a) < 2 ^ LENGTH(8)"
    using lt unsigned_less [where 'a = int, of a] by (simp add: uint_mod_distrib a)
  then have r: "uint (ucast (?x mod ?a) :: u8) = uint ?x mod uint a"
    by (simp add: uint_ucast_down uint_mod_distrib a)
  show ?thesis
  proof (cases "2 ^ 8 \<le> uint ?x div uint a")
    case True
    then show ?thesis using assms na gt False d by (simp add: exec_Div8_def Let_def)
  next
    case small: False
    have m: "(0xFF :: u16) = mask LENGTH(8)" by (simp add: mask_eq_exp_minus_1)
    have "uint (ucast ((?x div ?a) AND 0xFF) :: u8) = uint ?x div uint a"
      using small unfolding m ucast_low_mask by (simp add: uint_ucast_down q)
    then show ?thesis using assms na gt small False r d lt
      by (simp add: exec_Div8_def Let_def word_less_alt)
  qed
qed

text \<open>A value equals its low half exactly when the high half is zero.\<close>

lemma mod_fits: "0 \<le> z \<Longrightarrow> 0 < P \<Longrightarrow> z \<noteq> z mod P \<longleftrightarrow> P \<le> z" for z P :: int
  by (metis mod_pos_pos_trivial not_less pos_mod_bound)

lemma low_half_eq:
  fixes w :: "'b::len word"
  assumes "LENGTH('a::len) \<le> LENGTH('b)"
  shows "w \<noteq> ucast (ucast (w AND mask LENGTH('a)) :: 'a word) \<longleftrightarrow> 2 ^ LENGTH('a) \<le> uint w"
proof -
  have "uint (ucast (ucast w :: 'a word) :: 'b word) = uint w mod 2 ^ LENGTH('a)"
    by (subst uint_ucast_up [OF assms]) (simp only: unsigned_ucast_eq take_bit_eq_mod)
  then show ?thesis using mod_fits [of "uint w" "2 ^ LENGTH('a)"]
    unfolding ucast_low_mask by (simp add: word_uint_eq_iff)
qed

lemma uint_pair:
  "uint (push_bit 16 (ucast (h :: u16) :: u32) + ucast (l :: u16)) = 2 ^ 16 * uint h + uint l"
  "uint (push_bit 32 (ucast (hh :: u32) :: u64) + ucast (ll :: u32)) = 2 ^ 32 * uint hh + uint ll"
proof -
  have "uint h < 2 ^ 16" "uint l < 2 ^ 16" "uint hh < 2 ^ 32" "uint ll < 2 ^ 32"
    using unsigned_less [where 'a = int, of h] unsigned_less [where 'a = int, of l]
      unsigned_less [where 'a = int, of hh] unsigned_less [where 'a = int, of ll] by simp_all
  then show "uint (push_bit 16 (ucast h :: u32) + ucast l) = 2 ^ 16 * uint h + uint l"
    "uint (push_bit 32 (ucast hh :: u64) + ucast ll) = 2 ^ 32 * uint hh + uint ll"
    by (simp_all add: uint_word_ariths push_bit_eq_mult uint_ucast_up mod_pos_pos_trivial mult.commute)
qed

lemma exec_Div16_quotient:
  fixes a :: u16
  assumes "read_parameter_value c u (op_dst op) = Some (ucast a)"
  shows "let x = 2 ^ 16 * uint (r16v c R.DX) + uint (r16v c R.AX) in
    if a = 0 \<or> 2 ^ 16 \<le> x div uint a
    then exec_Div16 op c u = Some (Return, cpu_exception c DIV0 0, u)
    else \<exists>c'. exec_Div16 op c u = Some (Fall, c', u) \<and>
      uint (r16v c' R.AX) * uint a + uint (r16v c' R.DX) = x \<and> r16v c' R.DX < a"
proof (cases "a = 0")
  case True
  then show ?thesis using assms by (simp add: exec_Div16_def Let_def)
next
  case False
  let ?x = "push_bit 16 (ucast (r16v c R.DX) :: u32) + ucast (r16v c R.AX)" and ?a = "ucast a :: u32"
  define X where "X = 2 ^ 16 * uint (r16v c R.DX) + uint (r16v c R.AX)"
  have x: "uint ?x = X" unfolding X_def by (rule uint_pair)
  have d: "ucast (ucast a :: usize) = ?a" by (rule bit_word_eqI) (simp add: bit_simps)
  have a: "uint ?a = uint a" by (rule uint_ucast_up) simp
  have na: "?a \<noteq> 0" "0 < uint a" using False a uint_ge_0 [of a] by (auto simp: word_uint_eq_iff less_le)
  have q: "uint (?x div ?a) = X div uint a" by (simp only: uint_div_distrib a x)
  have lt: "X mod uint a < uint a" using na by simp
  have m: "(0xFFFF :: u32) = mask LENGTH(16)" by (simp add: mask_eq_exp_minus_1)
  have mr: "uint (?x mod ?a) = X mod uint a" by (simp only: uint_mod_distrib a x)
  then have "uint (?x mod ?a) < 2 ^ LENGTH(16)"
    using lt unsigned_less [where 'a = int, of a] by simp
  then have r: "uint (ucast (?x mod ?a) :: u16) = X mod uint a"
    using uint_ucast_down [of "?x mod ?a", where 'a = 16] mr by simp
  have big: "?x div ?a \<noteq> ucast (ucast ((?x div ?a) AND 0xFFFF) :: u16) \<longleftrightarrow> 2 ^ 16 \<le> X div uint a"
    using low_half_eq [of "?x div ?a", where 'a = 16] q unfolding m by simp
  show ?thesis
  proof (cases "2 ^ 16 \<le> X div uint a")
    case True
    then have "exec_Div16 op c u = Some (Return, cpu_exception c DIV0 0, u)"
      using assms na big d by (simp add: exec_Div16_def Let_def)
    then show ?thesis using True by (simp add: Let_def X_def)
  next
    case small: False
    have "uint (ucast ((?x div ?a) AND 0xFFFF) :: u16) = X div uint a"
      using small q uint_ucast_down [of "?x div ?a", where 'a = 16] unfolding m ucast_low_mask by simp
    moreover have "exec_Div16 op c u = Some (Fall, set_r16 (set_r16 c R.DX (ucast (?x mod ?a))) R.AX
        (ucast ((?x div ?a) AND 0xFFFF)), u)"
      using assms na big d small by (simp add: exec_Div16_def Let_def)
    ultimately show ?thesis using small False r lt
      by (simp add: Let_def word_less_alt X_def)
  qed
qed

text \<open>
  The 32-bit division keeps only 16 bits of the quotient before it tests for overflow, so it raises
  the exception for every quotient of 2 ^ 16 and more.
\<close>

lemma exec_Div32_quotient:
  fixes a :: u32
  assumes "read_parameter_value c u (op_dst op) = Some (ucast a)"
  shows "let x = 2 ^ 32 * uint (r32v c R.EDX) + uint (r32v c R.EAX) in
    if a = 0 \<or> 2 ^ 16 \<le> x div uint a
    then exec_Div32 op c u = Some (Return, cpu_exception c DIV0 0, u)
    else \<exists>c'. exec_Div32 op c u = Some (Fall, c', u) \<and>
      uint (r32v c' R.EAX) * uint a + uint (r32v c' R.EDX) = x \<and> r32v c' R.EDX < a"
proof (cases "a = 0")
  case True
  then show ?thesis using assms by (simp add: exec_Div32_def Let_def)
next
  case False
  let ?x = "push_bit 32 (ucast (r32v c R.EDX) :: u64) + ucast (r32v c R.EAX)" and ?a = "ucast a :: u64"
  define X where "X = 2 ^ 32 * uint (r32v c R.EDX) + uint (r32v c R.EAX)"
  have x: "uint ?x = X" unfolding X_def by (rule uint_pair)
  have a: "uint ?a = uint a" by (rule uint_ucast_up) simp
  have na: "?a \<noteq> 0" "0 < uint a" using False a uint_ge_0 [of a] by (auto simp: word_uint_eq_iff less_le)
  have q: "uint (?x div ?a) = X div uint a" by (simp only: uint_div_distrib a x)
  have lt: "X mod uint a < uint a" using na by simp
  have m: "(0xFFFF :: u64) = mask LENGTH(16)" by (simp add: mask_eq_exp_minus_1)
  have mr: "uint (?x mod ?a) = X mod uint a" by (simp only: uint_mod_distrib a x)
  then have "uint (?x mod ?a) < 2 ^ LENGTH(32)"
    using lt unsigned_less [where 'a = int, of a] by simp
  then have r: "uint (ucast (?x mod ?a) :: u32) = X mod uint a"
    using uint_ucast_down [of "?x mod ?a", where 'a = 32] mr by simp
  have w: "ucast (ucast y :: u32) = y \<longleftrightarrow> uint y < 2 ^ 32" for y :: u64
    using low_half_eq [of y, where 'a = 32] ucast_low_mask [of y, where 'a = 32] by auto
  have tk: "uint ((?x div ?a) AND 0xFFFF) = (X div uint a) mod 2 ^ 16"
    unfolding m take_bit_eq_mask [symmetric] unfolding unsigned_take_bit_eq q
    unfolding take_bit_eq_mod by simp
  have lq: "uint (ucast ((?x div ?a) AND 0xFFFF) :: u32) = (X div uint a) mod 2 ^ 16"
    using uint_ucast_down [of "(?x div ?a) AND 0xFFFF", where 'a = 32] tk
      pos_mod_bound [of "2 ^ 16" "X div uint a"] by simp
  have big: "?x div ?a \<noteq> ucast (ucast ((?x div ?a) AND 0xFFFF) :: u32) \<longleftrightarrow> 2 ^ 16 \<le> X div uint a"
  proof -
    have "uint (ucast (ucast ((?x div ?a) AND 0xFFFF) :: u32) :: u64) = (X div uint a) mod 2 ^ 16"
      using lq by (subst uint_ucast_up) simp_all
    moreover have "0 \<le> X div uint a" using q uint_ge_0 [of "?x div ?a"] by simp
    ultimately show ?thesis using mod_fits [of "X div uint a" "2 ^ 16"]
      by (simp only: word_uint_eq_iff q) simp
  qed
  show ?thesis
  proof (cases "2 ^ 16 \<le> X div uint a")
    case True
    then have "exec_Div32 op c u = Some (Return, cpu_exception c DIV0 0, u)"
      using assms na big by (simp add: exec_Div32_def Let_def)
    then show ?thesis using True by (simp add: Let_def X_def)
  next
    case small: False
    moreover have "0 \<le> X div uint a" using q uint_ge_0 [of "?x div ?a"] by simp
    ultimately have "uint (ucast ((?x div ?a) AND 0xFFFF) :: u32) = X div uint a"
      using lq by (simp add: mod_pos_pos_trivial)
    moreover have "exec_Div32 op c u = Some (Fall, w32 (w32 c R.EDX (ucast (?x mod ?a))) R.EAX
        (ucast ((?x div ?a) AND 0xFFFF)), u)"
      using assms na big small by (simp add: exec_Div32_def Let_def)
    ultimately show ?thesis using small False r lt
      by (simp add: Let_def word_less_alt X_def)
  qed
qed

section \<open>Signed products\<close>

lemma sint_range:
  fixes a :: "'a::len word"
  shows "- (2 ^ (LENGTH('a) - 1)) \<le> sint a" "sint a < 2 ^ (LENGTH('a) - 1)"
  using sint_greater_eq [of a] sint_less [of a] by simp_all

lemma sint_scast_up:
  fixes a :: "'a::len word"
  assumes "LENGTH('a) \<le> LENGTH('b::len)"
  shows "sint (scast a :: 'b word) = sint a"
proof -
  have p: "(2 :: int) ^ (LENGTH('a) - 1) \<le> 2 ^ (LENGTH('b) - 1)"
    using assms by (intro power_increasing) simp_all
  have "signed_take_bit (LENGTH('b) - 1) (sint a) = sint a"
    using sint_range [of a] p by (intro signed_take_bit_int_eq_self) linarith+
  then show ?thesis by (simp add: signed_scast_eq)
qed

lemma sint_word_of_int:
  assumes "- (2 ^ (LENGTH('a::len) - 1)) \<le> i" "i < 2 ^ (LENGTH('a) - 1)"
  shows "sint (word_of_int i :: 'a word) = i"
  using assms by (subst sint_sbintrunc') (rule signed_take_bit_int_eq_self)

lemma sfit_Some:
  assumes "- (2 ^ (LENGTH('a::len) - 1)) \<le> i" "i < 2 ^ (LENGTH('a) - 1)"
  shows "\<exists>w. sfit i = Some (w :: 'a word) \<and> sint w = i"
  using assms sint_word_of_int [OF assms] by (simp add: sfit_def)

lemma sint_mult_range:
  fixes x y :: "'a::len word"
  shows "- (2 ^ (2 * (LENGTH('a) - 1))) \<le> sint x * sint y" "sint x * sint y \<le> 2 ^ (2 * (LENGTH('a) - 1))"
proof -
  let ?P = "2 ^ (LENGTH('a) - 1) :: int"
  have "\<bar>sint x\<bar> \<le> ?P" "\<bar>sint y\<bar> \<le> ?P" using sint_range [of x] sint_range [of y] by linarith+
  then have "\<bar>sint x * sint y\<bar> \<le> ?P * ?P" unfolding abs_mult by (intro mult_mono) simp_all
  then show "- (2 ^ (2 * (LENGTH('a) - 1))) \<le> sint x * sint y" "sint x * sint y \<le> 2 ^ (2 * (LENGTH('a) - 1))"
    by (simp_all add: mult_2 power_add abs_le_iff)
qed

lemma smul_wide:
  fixes x y :: "'a::len word"
  assumes "2 * LENGTH('a) \<le> LENGTH('b::len)"
  shows "\<exists>w. smul_chk (scast x :: 'b word) (scast y) = Some w \<and> sint w = sint x * sint y"
proof -
  have l: "LENGTH('a) \<le> LENGTH('b)" using assms by simp
  have "2 * (LENGTH('a) - 1) < LENGTH('b) - 1" using assms len_gt_0 [where 'a = 'a] by linarith
  then have "(2 :: int) ^ (2 * (LENGTH('a) - 1)) < 2 ^ (LENGTH('b) - 1)" by (intro power_strict_increasing) simp_all
  then show ?thesis
    using sint_mult_range [of x y] unfolding smul_chk_def sint_scast_up [OF l]
    by (intro sfit_Some) linarith+
qed

text \<open>The carry test: the bits from the sign of the low half upwards are all equal.\<close>

lemma high_bits_zero:
  fixes w :: "'a::len word"
  assumes "k \<le> LENGTH('a)"
  shows "w AND NOT (mask k) = 0 \<longleftrightarrow> uint w < 2 ^ k"
proof -
  have "w AND NOT (mask k) = 0 \<longleftrightarrow> take_bit k w = w"
    by (auto simp: bit_eq_iff bit_simps)
  also have "\<dots> \<longleftrightarrow> uint w = uint w mod 2 ^ k"
    unfolding word_uint_eq_iff unsigned_take_bit_eq unfolding take_bit_eq_mod by auto
  finally show ?thesis using mod_fits [of "uint w" "2 ^ k"] by auto
qed

text \<open>All equal: none set, or all set, which is none set in the complement.\<close>

lemma sign_range_int:
  fixes u p H :: int
  assumes "0 \<le> u" "u < 2 * H" "0 < p" "2 * p \<le> H"
  shows "(2 * H - 1 - u < p \<or> u < p) \<longleftrightarrow>
    - p \<le> (if H \<le> u then u - 2 * H else u) \<and> (if H \<le> u then u - 2 * H else u) < p"
  using assms by (cases "H \<le> u") auto

lemma sign_extended:
  fixes w :: "'a::len word"
  assumes "Suc k < LENGTH('a)"
  shows "(w AND NOT (mask k) = NOT (mask k) \<or> w AND NOT (mask k) = 0) \<longleftrightarrow> - (2 ^ k) \<le> sint w \<and> sint w < 2 ^ k"
proof -
  let ?L = "2 ^ LENGTH('a) :: int"
  have k: "k \<le> LENGTH('a)" using assms by simp
  have P: "2 * 2 ^ k \<le> (2 ^ (LENGTH('a) - 1) :: int)" 
    using power_increasing [of "Suc k" "LENGTH('a) - 1" "2 :: int"] assms by simp
  have LL: "?L = 2 * 2 ^ (LENGTH('a) - 1)" by (metis len_gt_0 power_minus_mult mult.commute)
  have "w AND NOT (mask k) = NOT (mask k) \<longleftrightarrow> NOT w AND NOT (mask k) = 0"
    by (auto simp: bit_eq_iff bit_simps)
  also have "\<dots> \<longleftrightarrow> uint (NOT w) < 2 ^ k" by (rule high_bits_zero [OF k])
  also have "uint (NOT w) = ?L - 1 - uint w"
  proof -
    have "NOT w = word_of_int (- 1 - uint w)" by (simp add: not_eq_complement)
    then have "uint (NOT w) = (- 1 - uint w) mod ?L" by (simp only: uint_word_of_int)
    also have "\<dots> = (- 1 - uint w + ?L) mod ?L" by simp
    also have "\<dots> = (?L - 1 - uint w) mod ?L" by (simp add: algebra_simps)
    also have "\<dots> = ?L - 1 - uint w"
      using unsigned_less [where 'a = int, of w] uint_ge_0 [of w] by (intro mod_pos_pos_trivial) linarith+
    finally show ?thesis .
  qed
  finally have hi: "w AND NOT (mask k) = NOT (mask k) \<longleftrightarrow> ?L - 1 - uint w < 2 ^ k" .
  have b: "bit w (LENGTH('a) - 1) \<longleftrightarrow> 2 ^ (LENGTH('a) - 1) \<le> uint w"
    using bit_small [of w "LENGTH('a) - 1"] unsigned_less [where 'a = int, of w] LL by simp
  show ?thesis
    unfolding hi high_bits_zero [OF k] sint_bit_eq b LL
    using P LL unsigned_less [where 'a = int, of w] by (intro sign_range_int) simp_all
qed

lemma exec_Imul8_product:
  fixes a :: i8
  assumes "read_parameter_value c u (op_dst op) = Some (ucast a)"
  shows "\<exists>c'. exec_Imul8 op c u = Some (c', u) \<and> sint (r16v c' R.AX) = sint (r8v c R.AL) * sint a \<and>
    (carry (cpu_flags c') \<longleftrightarrow> sint (r8v c R.AL) * sint a \<notin> {- (2 ^ 7) ..< 2 ^ 7}) \<and>
    overflow (cpu_flags c') = carry (cpu_flags c')"
proof -
  obtain ax :: i16 where ax: "smul_chk (scast (r8v c R.AL)) (scast a) = Some ax"
    "sint ax = sint (r8v c R.AL) * sint a"
    using smul_wide [of "r8v c R.AL" a, where 'b = 16] by auto
  have m: "(0xFF80 :: u16) = NOT (mask 7)" by (simp add: mask_eq_exp_minus_1)
  show ?thesis using assms ax sign_extended [of 7 ax] unfolding exec_Imul8_def m by (auto simp: Let_def)
qed

lemma ucast_down_scast:
  fixes x :: "'b::len word"
  assumes "LENGTH('a::len) \<le> LENGTH('b)"
  shows "(ucast x :: 'a word) = word_of_int (sint x)"
proof -
  have "(2 :: 'a word) ^ LENGTH('b) = 0" using assms by (simp add: exp_eq_zero_iff)
  then have "word_of_int (sint x) = (ucast x :: 'a word)" by (simp add: sint_bit_eq)
  then show ?thesis by simp
qed

lemma sint_ucast_down:
  fixes x :: "'b::len word"
  assumes "LENGTH('a::len) \<le> LENGTH('b)" "- (2 ^ (LENGTH('a) - 1)) \<le> sint x" "sint x < 2 ^ (LENGTH('a) - 1)"
  shows "sint (ucast x :: 'a word) = sint x"
  unfolding ucast_down_scast [OF assms(1)] by (rule sint_word_of_int [OF assms(2,3)])

lemma sint_halves:
  fixes t :: i64
  assumes "- (2 ^ 31) \<le> sint t" "sint t < 2 ^ 31"
  shows "2 ^ 16 * sint (ucast (signed_drop_bit 16 t) :: u16) + uint (ucast t :: u16) = sint t"
proof -
  have q: "sint (signed_drop_bit 16 t) = sint t div 2 ^ 16"
    by (simp add: sint_signed_drop_bit_eq drop_bit_eq_div)
  have "- (2 ^ 15) \<le> sint t div 2 ^ 16" "sint t div 2 ^ 16 < 2 ^ 15"
    using assms zdiv_mono1 [of "- (2 ^ 31)" "sint t" "2 ^ 16"] zdiv_mono1 [of "sint t" "2 ^ 31 - 1" "2 ^ 16"] by simp_all
  then have "sint (ucast (signed_drop_bit 16 t) :: u16) = sint t div 2 ^ 16"
    using sint_ucast_down [of "signed_drop_bit 16 t", where 'a = 16] q by simp
  moreover have "uint (ucast t :: u16) = sint t mod 2 ^ LENGTH(16)"
    by (subst ucast_down_scast) (simp_all only: uint_word_of_int len64, simp_all)
  ultimately show ?thesis by simp
qed

lemma exec_Imul16_product:
  fixes a :: i16
  assumes "read_parameter_value c u (op_dst op) = Some (ucast a)" "param_count (params op) = 1"
  shows "\<exists>c'. exec_Imul16 op c u = Some (c', u) \<and>
    2 ^ 16 * sint (r16v c' R.DX) + uint (r16v c' R.AX) = sint (r16v c R.AX) * sint a \<and>
    (carry (cpu_flags c') \<longleftrightarrow> sint (r16v c R.AX) * sint a \<notin> {- (2 ^ 15) ..< 2 ^ 15}) \<and>
    overflow (cpu_flags c') = carry (cpu_flags c')"
proof -
  obtain t :: i64 where t: "smul_chk (scast (r16v c R.AX)) (scast a) = Some t"
    "sint t = sint (r16v c R.AX) * sint a"
    using smul_wide [of "r16v c R.AX" a, where 'b = 64] by auto
  have r: "- (2 ^ 31) \<le> sint t" "sint t < 2 ^ 31" using sint_mult_range [of "r16v c R.AX" a] t(2) by simp_all
  have s: "sint (ucast t :: 32 word) = sint t" using r by (intro sint_ucast_down) simp_all
  have m: "(0xFFFF8000 :: u32) = NOT (mask 15)" by (simp add: mask_eq_exp_minus_1)
  show ?thesis using assms t sint_halves [OF r] sign_extended [of 15 "ucast t :: u32"] s
    unfolding exec_Imul16_def imul16_flags_def m by (auto simp: Let_def)
qed

text \<open>A value that survives narrowing and sign extension.\<close>

lemma narrow_eq:
  fixes w :: "'b::len word"
  assumes "LENGTH('a::len) \<le> LENGTH('b)"
  shows "w = scast (ucast w :: 'a word) \<longleftrightarrow> - (2 ^ (LENGTH('a) - 1)) \<le> sint w \<and> sint w < 2 ^ (LENGTH('a) - 1)"
proof
  assume "w = scast (ucast w :: 'a word)"
  then have "sint w = sint (ucast w :: 'a word)" using sint_scast_up [OF assms] by metis
  then show "- (2 ^ (LENGTH('a) - 1)) \<le> sint w \<and> sint w < 2 ^ (LENGTH('a) - 1)"
    using sint_range [of "ucast w :: 'a word"] by simp
next
  assume r: "- (2 ^ (LENGTH('a) - 1)) \<le> sint w \<and> sint w < 2 ^ (LENGTH('a) - 1)"
  then have "sint (scast (ucast w :: 'a word) :: 'b word) = sint w"
    using sint_ucast_down [OF assms, of w] sint_scast_up [OF assms] by metis
  then show "w = scast (ucast w :: 'a word)" by (metis signed_word_eqI)
qed

lemma sint_halves_32:
  fixes t :: i64
  shows "2 ^ 32 * sint (ucast (signed_drop_bit 32 t) :: u32) + uint (ucast t :: u32) = sint t"
proof -
  have q: "sint (signed_drop_bit 32 t) = sint t div 2 ^ 32"
    by (simp add: sint_signed_drop_bit_eq drop_bit_eq_div)
  have "- (2 ^ 31) \<le> sint t div 2 ^ 32" "sint t div 2 ^ 32 < 2 ^ 31"
    using sint_range [of t] zdiv_mono1 [of "- (2 ^ 63)" "sint t" "2 ^ 32"] zdiv_mono1 [of "sint t" "2 ^ 63 - 1" "2 ^ 32"]
    by simp_all
  then have "sint (ucast (signed_drop_bit 32 t) :: u32) = sint t div 2 ^ 32"
    using sint_ucast_down [of "signed_drop_bit 32 t", where 'a = 32] q by simp
  moreover have "uint (ucast t :: u32) = sint t mod 2 ^ LENGTH(32)"
    by (subst ucast_down_scast) (simp_all only: uint_word_of_int len64, simp_all)
  ultimately show ?thesis by simp
qed

lemma exec_Imul32_product:
  fixes a :: i32
  assumes "read_parameter_value c u (op_dst op) = Some (ucast a)" "param_count (params op) = 1"
  shows "\<exists>c'. exec_Imul32 op c u = Some (c', u) \<and>
    2 ^ 32 * sint (r32v c' R.EDX) + uint (r32v c' R.EAX) = sint (r32v c R.EAX) * sint a \<and>
    (carry (cpu_flags c') \<longleftrightarrow> sint (r32v c R.EAX) * sint a \<notin> {- (2 ^ 31) ..< 2 ^ 31}) \<and>
    overflow (cpu_flags c') = carry (cpu_flags c')"
proof -
  obtain t :: i64 where t: "smul_chk (scast (r32v c R.EAX)) (scast a) = Some t"
    "sint t = sint (r32v c R.EAX) * sint a"
    using smul_wide [of "r32v c R.EAX" a, where 'b = 64] by auto
  show ?thesis using assms t sint_halves_32 [of t] narrow_eq [of t, where 'a = 32]
    unfolding exec_Imul32_def by (auto simp: Let_def)
qed

section \<open>Signed division\<close>

lemma sdiv_fits:
  fixes x d P :: int
  assumes "- P \<le> x" "x < P" "\<not> (x = - P \<and> d = - 1)" "0 < P"
  shows "- P \<le> x sdiv d" "x sdiv d < P"
proof -
  have r: "- \<bar>x\<bar> \<le> x sdiv d" "x sdiv d \<le> \<bar>x\<bar>" using sdiv_int_range [of x d] by simp_all
  then show "- P \<le> x sdiv d" using assms by linarith
  show "x sdiv d < P"
  proof (rule ccontr)
    assume "\<not> x sdiv d < P"
    then have "x = - P" "x sdiv d = - x" using r assms by linarith+
    then show False using int_sdiv_negated_is_minus1 [of x d] assms(3,4) by simp
  qed
qed

text \<open>What the two checked signed operations return on sign-extended operands.\<close>

lemma signed_division:
  fixes x :: "'b::len word" and a :: "'a::len word"
  assumes "LENGTH('a) \<le> LENGTH('b)" "a \<noteq> 0" "2 \<le> LENGTH('b)"
  shows "(sint x = - (2 ^ (LENGTH('b) - 1)) \<and> sint a = - 1 \<longrightarrow>
      srem_chk x (scast a) = None \<and> sdiv_chk x (scast a) = None) \<and>
    (\<not> (sint x = - (2 ^ (LENGTH('b) - 1)) \<and> sint a = - 1) \<longrightarrow>
      (\<exists>q r. srem_chk x (scast a) = Some r \<and> sdiv_chk x (scast a) = Some q \<and>
        sint q = sint x sdiv sint a \<and> sint r = sint x smod sint a))"
proof -
  let ?P = "2 ^ (LENGTH('b) - 1) :: int"
  have sa: "sint (scast a :: 'b word) = sint a" by (rule sint_scast_up [OF assms(1)])
  then have nz: "(scast a :: 'b word) \<noteq> 0" "sint a \<noteq> 0"
    using assms(2) by (metis signed_0 signed_word_eqI)+
  have x: "- ?P \<le> sint x" "sint x < ?P" by (rule sint_range)+
  have d: "\<bar>sint a\<bar> \<le> ?P"
    using sint_range [of "scast a :: 'b word"] unfolding sa by linarith
  have "sint x smod sint a \<in> {- \<bar>sint a\<bar> + 1..\<bar>sint a\<bar> - 1}" by (rule smod_int_range [OF nz(2)])
  then have r: "- ?P \<le> sint x smod sint a" "sint x smod sint a < ?P" using d by auto
  have "\<exists>q r. srem_chk x (scast a) = Some r \<and> sdiv_chk x (scast a) = Some q \<and>
        sint q = sint x sdiv sint a \<and> sint r = sint x smod sint a"
    if c: "\<not> (sint x = - ?P \<and> sint a = - 1)"
    using sfit_Some [where 'a = 'b, OF sdiv_fits [OF x c]] sint_word_of_int [where 'a = 'b, OF r] nz c
    by (auto simp: srem_chk_def sdiv_chk_def sa)
  moreover have "srem_chk x (scast a) = None \<and> sdiv_chk x (scast a) = None"
    if c: "sint x = - ?P" "sint a = - 1"
    using c by (simp add: srem_chk_def sdiv_chk_def sa sfit_def)
  ultimately show ?thesis by blast
qed

lemma exec_Idiv8_quotient:
  fixes a :: i8
  assumes "read_parameter_value c u (op_dst op) = Some (ucast a)"
  defines "x \<equiv> sint (r16v c R.AX)"
  shows "if a = 0 then exec_Idiv8 op c u = Some (Return, cpu_exception c DIV0 0, u)
    else if x = - (2 ^ 15) \<and> sint a = - 1 then exec_Idiv8 op c u = None
    else if x sdiv sint a \<notin> {- (2 ^ 7) ..< 2 ^ 7} then exec_Idiv8 op c u = Some (Return, cpu_exception c DIV0 0, u)
    else \<exists>c'. exec_Idiv8 op c u = Some (Fall, c', u) \<and>
      sint (r8v c' R.AL) = x sdiv sint a \<and> sint (r8v c' R.AH) = x smod sint a"
proof (cases "a = 0")
  case True
  then show ?thesis using assms by (simp add: exec_Idiv8_def)
next
  case False
  have d: "ucast (ucast a :: usize) = a" by simp
  have m: "(0xFF :: u16) = mask LENGTH(8)" by (simp add: mask_eq_exp_minus_1)
  note D = signed_division [where 'b = 16 and 'a = 8, OF _ False, of "r16v c R.AX"]
  show ?thesis
  proof (cases "x = - (2 ^ 15) \<and> sint a = - 1")
    case True
    then show ?thesis using False assms D by (simp add: exec_Idiv8_def x_def Let_def)
  next
    case c: False
    then obtain q r where q: "srem_chk (r16v c R.AX) (scast a) = Some r" "sdiv_chk (r16v c R.AX) (scast a) = Some q"
      "sint q = x sdiv sint a" "sint r = x smod sint a"
      using D unfolding x_def by auto
    have n: "q = scast (ucast (q AND 0xFF) :: u8) \<longleftrightarrow> x sdiv sint a \<in> {- (2 ^ 7) ..< 2 ^ 7}"
      using narrow_eq [of q, where 'a = 8] q(3) unfolding m ucast_low_mask by auto
    have "sint a \<noteq> 0" using False by (metis signed_0 signed_word_eqI)
    then have "sint r \<in> {- \<bar>sint a\<bar> + 1..\<bar>sint a\<bar> - 1}" unfolding q(4) by (rule smod_int_range)
    then have "sint (ucast r :: u8) = sint r"
      using sint_range [of a] by (intro sint_ucast_down) auto
    moreover have "sint (ucast q :: u8) = sint q" if "x sdiv sint a \<in> {- (2 ^ 7) ..< 2 ^ 7}"
      using that q(3) by (intro sint_ucast_down) auto
    moreover have "exec_Idiv8 op c u = (if q \<noteq> scast (ucast (q AND 0xFF) :: u8)
        then Some (Return, cpu_exception c DIV0 0, u)
        else Some (Fall, w8 (w8 c R.AL (ucast q)) R.AH (ucast r), u))"
      using assms False d q(1,2) unfolding exec_Idiv8_def by (simp add: Let_def)
    ultimately show ?thesis using False c n q(3,4) by auto
  qed
qed

section \<open>Properties\<close>

text \<open>C15. The multiplications compute the exact product: MUL and the one-operand IMUL, both at 8, 16
  and 32 bits, never panic, put the product in AX, DX:AX or EDX:EAX, and set carry and overflow
  exactly when the low half alone does not hold it.\<close>

theorem multiplication_exact:
  assumes "read_parameter_value c u (op_dst op) = Some v"
  shows "(v = ucast (a8 :: u8) \<longrightarrow>
      (\<exists>c'. exec_Mul8 op c u = Some (c', u) \<and> uint (r16v c' R.AX) = uint (r8v c R.AL) * uint a8 \<and>
        (carry (cpu_flags c') \<longleftrightarrow> 2 ^ 8 \<le> uint (r8v c R.AL) * uint a8) \<and>
        overflow (cpu_flags c') = carry (cpu_flags c')) \<and>
      (\<exists>c'. exec_Imul8 op c u = Some (c', u) \<and> sint (r16v c' R.AX) = sint (r8v c R.AL) * sint a8 \<and>
        (carry (cpu_flags c') \<longleftrightarrow> sint (r8v c R.AL) * sint a8 \<notin> {- (2 ^ 7) ..< 2 ^ 7}) \<and>
        overflow (cpu_flags c') = carry (cpu_flags c'))) \<and>
    (v = ucast (a16 :: u16) \<longrightarrow>
      (\<exists>c'. exec_Mul16 op c u = Some (c', u) \<and>
        2 ^ 16 * uint (r16v c' R.DX) + uint (r16v c' R.AX) = uint (r16v c R.AX) * uint a16 \<and>
        (carry (cpu_flags c') \<longleftrightarrow> r16v c' R.DX \<noteq> 0) \<and> overflow (cpu_flags c') = carry (cpu_flags c')) \<and>
      (param_count (params op) = 1 \<longrightarrow>
        (\<exists>c'. exec_Imul16 op c u = Some (c', u) \<and>
          2 ^ 16 * sint (r16v c' R.DX) + uint (r16v c' R.AX) = sint (r16v c R.AX) * sint a16 \<and>
          (carry (cpu_flags c') \<longleftrightarrow> sint (r16v c R.AX) * sint a16 \<notin> {- (2 ^ 15) ..< 2 ^ 15}) \<and>
          overflow (cpu_flags c') = carry (cpu_flags c')))) \<and>
    (v = ucast (a32 :: u32) \<longrightarrow>
      (\<exists>c'. exec_Mul32 op c u = Some (c', u) \<and>
        2 ^ 32 * uint (r32v c' R.EDX) + uint (r32v c' R.EAX) = uint (r32v c R.EAX) * uint a32 \<and>
        (carry (cpu_flags c') \<longleftrightarrow> r32v c' R.EDX \<noteq> 0) \<and> overflow (cpu_flags c') = carry (cpu_flags c')) \<and>
      (param_count (params op) = 1 \<longrightarrow>
        (\<exists>c'. exec_Imul32 op c u = Some (c', u) \<and>
          2 ^ 32 * sint (r32v c' R.EDX) + uint (r32v c' R.EAX) = sint (r32v c R.EAX) * sint a32 \<and>
          (carry (cpu_flags c') \<longleftrightarrow> sint (r32v c R.EAX) * sint a32 \<notin> {- (2 ^ 31) ..< 2 ^ 31}) \<and>
          overflow (cpu_flags c') = carry (cpu_flags c'))))"
  using exec_Mul8_product [of c u op a8] exec_Imul8_product [of c u op a8] exec_Mul16_product [of c u op a16]
    exec_Imul16_product [of c u op a16] exec_Mul32_product [of c u op a32]
    exec_Imul32_product [of c u op a32] assms by simp

theorem multiplication_exact_witness:
  "\<exists>c'. exec_Mul16 (instr_new1 (Mul Mul16) (Imm16 300)) (set_r16 CPU_default R.AX 1000) MMU_default = Some (c', MMU_default) \<and>
     2 ^ 16 * uint (r16v c' R.DX) + uint (r16v c' R.AX) = 300000"
  using multiplication_exact [of "set_r16 CPU_default R.AX 1000" MMU_default "instr_new1 (Mul Mul16) (Imm16 300)" 300 0 300 0]
  by (auto simp: instr_new1_def instr_new3_def read_parameter_value_def)

text \<open>C16. Unsigned division at 8 and 16 bits: a zero divisor or a quotient that does not fit raises the
  divide exception and changes nothing else; otherwise quotient and remainder satisfy the division
  equation with a remainder below the divisor. At 32 bits the same holds with the exception raised
  for every quotient of 2 ^ 16 and more, although the register would hold it.\<close>

theorem unsigned_division_exact:
  assumes "read_parameter_value c u (op_dst op) = Some v"
  shows "(v = ucast (a8 :: u8) \<longrightarrow>
      (if a8 = 0 \<or> 2 ^ 8 \<le> uint (r16v c R.AX) div uint a8
       then exec_Div8 op c u = Some (Return, cpu_exception c DIV0 0, u)
       else \<exists>c'. exec_Div8 op c u = Some (Fall, c', u) \<and>
         uint (r8v c' R.AL) * uint a8 + uint (r8v c' R.AH) = uint (r16v c R.AX) \<and> r8v c' R.AH < a8)) \<and>
    (v = ucast (a16 :: u16) \<longrightarrow>
      (let x = 2 ^ 16 * uint (r16v c R.DX) + uint (r16v c R.AX) in
       if a16 = 0 \<or> 2 ^ 16 \<le> x div uint a16
       then exec_Div16 op c u = Some (Return, cpu_exception c DIV0 0, u)
       else \<exists>c'. exec_Div16 op c u = Some (Fall, c', u) \<and>
         uint (r16v c' R.AX) * uint a16 + uint (r16v c' R.DX) = x \<and> r16v c' R.DX < a16)) \<and>
    (v = ucast (a32 :: u32) \<longrightarrow>
      (let x = 2 ^ 32 * uint (r32v c R.EDX) + uint (r32v c R.EAX) in
       if a32 = 0 \<or> 2 ^ 16 \<le> x div uint a32
       then exec_Div32 op c u = Some (Return, cpu_exception c DIV0 0, u)
       else \<exists>c'. exec_Div32 op c u = Some (Fall, c', u) \<and>
         uint (r32v c' R.EAX) * uint a32 + uint (r32v c' R.EDX) = x \<and> r32v c' R.EDX < a32))"
  using exec_Div8_quotient [of c u op a8] exec_Div16_quotient [of c u op a16] exec_Div32_quotient [of c u op a32]
    assms by blast

theorem unsigned_division_exact_witness:
  "exec_Div32 (instr_new1 (Mul Div32) (Imm32 1)) (w32 CPU_default R.EAX 0x10000) MMU_default =
     Some (Return, cpu_exception (w32 CPU_default R.EAX 0x10000) DIV0 0, MMU_default)"
  using unsigned_division_exact [of "w32 CPU_default R.EAX 0x10000" MMU_default "instr_new1 (Mul Div32) (Imm32 1)" 1 0 0 1]
  by (simp add: instr_new1_def instr_new3_def read_parameter_value_def)

text \<open>C17. Signed 8-bit division truncates towards zero; it raises the exception on a zero divisor and on a
  quotient outside the byte, except that dividing the smallest word by -1 panics.\<close>

theorem signed_division_cases:
  assumes "read_parameter_value c u (op_dst op) = Some (ucast (a :: i8))"
  shows "if a = 0 then exec_Idiv8 op c u = Some (Return, cpu_exception c DIV0 0, u)
    else if sint (r16v c R.AX) = - (2 ^ 15) \<and> sint a = - 1 then exec_Idiv8 op c u = None
    else if sint (r16v c R.AX) sdiv sint a \<notin> {- (2 ^ 7) ..< 2 ^ 7}
      then exec_Idiv8 op c u = Some (Return, cpu_exception c DIV0 0, u)
    else \<exists>c'. exec_Idiv8 op c u = Some (Fall, c', u) \<and>
      sint (r8v c' R.AL) = sint (r16v c R.AX) sdiv sint a \<and> sint (r8v c' R.AH) = sint (r16v c R.AX) smod sint a"
  by (rule exec_Idiv8_quotient [OF assms])

theorem signed_division_cases_witness:
  "exec_Idiv8 (instr_new1 (Mul Idiv8) (Imm8 0xFF)) (set_r16 CPU_default R.AX 0x8000) MMU_default = None"
  using signed_division_cases [of "set_r16 CPU_default R.AX 0x8000" MMU_default "instr_new1 (Mul Idiv8) (Imm8 0xFF)" "0xFF"]
  by (simp add: instr_new1_def instr_new3_def read_parameter_value_def sint_bit_eq bit_simps)

end
