(* ===== verification/X86_Exec_Logic.thy ===== *)
theory X86_Exec_Logic
  imports X86_Exec_Arith
begin

text \<open>
  Bitwise instructions, bit tests and conditional sets: the arms of \<open>Machine::execute\<close>
  (\<open>dustbox/src/machine.rs\<close>), one definition per arm. The scan loop of \<open>Bsf\<close> is a partial function:
  its value is \<^term>\<open>None\<close> where the loop of the source would not end.
\<close>

unbundle bit_operations_syntax

section \<open>And, or, xor, test, not\<close>

definition exec_And8 :: "Instruction \<Rightarrow> CPU \<Rightarrow> MMU \<Rightarrow> (CPU \<times> MMU) option" where
  "exec_And8 op c u = do {
     src \<leftarrow> read_parameter_value c u (op_src op);
     dst \<leftarrow> read_parameter_value c u (op_dst op);
     let res = dst AND src;
     let f = cpu_flags c;
     let f = f\<lparr>overflow := False, carry := False\<rparr>;
     let f = set_sign_u8 f res;
     let f = set_zero_u8 f res;
     let f = set_parity f res;
     let c = with_flags c f;
     write_parameter_u8 c u (op_dst op) (ucast res)
   }"

definition exec_And16 :: "Instruction \<Rightarrow> CPU \<Rightarrow> MMU \<Rightarrow> (CPU \<times> MMU) option" where
  "exec_And16 op c u = do {
     src \<leftarrow> read_parameter_value c u (op_src op);
     dst \<leftarrow> read_parameter_value c u (op_dst op);
     let res = dst AND src;
     let f = cpu_flags c;
     let f = f\<lparr>overflow := False, carry := False\<rparr>;
     let f = set_sign_u16 f res;
     let f = set_zero_u16 f res;
     let f = set_parity f res;
     let c = with_flags c f;
     write_parameter_u16 c u (segment_prefix op) (op_dst op) (ucast res)
   }"

definition exec_Or8 :: "Instruction \<Rightarrow> CPU \<Rightarrow> MMU \<Rightarrow> (CPU \<times> MMU) option" where
  "exec_Or8 op c u = do {
     src \<leftarrow> read_parameter_value c u (op_src op);
     dst \<leftarrow> read_parameter_value c u (op_dst op);
     let res = dst OR src;
     let f = cpu_flags c;
     let f = f\<lparr>overflow := False, carry := False\<rparr>;
     let f = set_sign_u8 f res;
     let f = set_zero_u8 f res;
     let f = set_parity f res;
     let c = with_flags c f;
     write_parameter_u8 c u (op_dst op) (ucast (res AND 0xFF))
   }"

definition exec_Or16 :: "Instruction \<Rightarrow> CPU \<Rightarrow> MMU \<Rightarrow> (CPU \<times> MMU) option" where
  "exec_Or16 op c u = do {
     src \<leftarrow> read_parameter_value c u (op_src op);
     dst \<leftarrow> read_parameter_value c u (op_dst op);
     let res = dst OR src;
     let f = cpu_flags c;
     let f = f\<lparr>overflow := False, carry := False\<rparr>;
     let f = set_sign_u16 f res;
     let f = set_zero_u16 f res;
     let f = set_parity f res;
     let c = with_flags c f;
     write_parameter_u16 c u (segment_prefix op) (op_dst op) (ucast (res AND 0xFFFF))
   }"

definition exec_Xor8 :: "Instruction \<Rightarrow> CPU \<Rightarrow> MMU \<Rightarrow> (CPU \<times> MMU) option" where
  "exec_Xor8 op c u = do {
     src \<leftarrow> read_parameter_value c u (op_src op);
     dst \<leftarrow> read_parameter_value c u (op_dst op);
     let res = dst XOR src;
     let f = cpu_flags c;
     let f = f\<lparr>overflow := False, carry := False\<rparr>;
     let f = set_sign_u8 f res;
     let f = set_zero_u8 f res;
     let f = set_parity f res;
     let c = with_flags c f;
     write_parameter_u8 c u (op_dst op) (ucast res)
   }"

definition exec_Xor16 :: "Instruction \<Rightarrow> CPU \<Rightarrow> MMU \<Rightarrow> (CPU \<times> MMU) option" where
  "exec_Xor16 op c u = do {
     src \<leftarrow> read_parameter_value c u (op_src op);
     dst \<leftarrow> read_parameter_value c u (op_dst op);
     let res = dst XOR src;
     let f = cpu_flags c;
     let f = f\<lparr>overflow := False, carry := False\<rparr>;
     let f = set_sign_u16 f res;
     let f = set_zero_u16 f res;
     let f = set_parity f res;
     let c = with_flags c f;
     write_parameter_u16 c u (segment_prefix op) (op_dst op) (ucast res)
   }"

definition exec_Xor32 :: "Instruction \<Rightarrow> CPU \<Rightarrow> MMU \<Rightarrow> (CPU \<times> MMU) option" where
  "exec_Xor32 op c u = do {
     src \<leftarrow> read_parameter_value c u (op_src op);
     dst \<leftarrow> read_parameter_value c u (op_dst op);
     let res = dst XOR src;
     let f = cpu_flags c;
     let f = f\<lparr>overflow := False, carry := False\<rparr>;
     let f = set_sign_u32 f res;
     let f = set_zero_u32 f res;
     let f = set_parity f res;
     let c = with_flags c f;
     write_parameter_u32 c u (segment_prefix op) (op_dst op) (ucast res)
   }"

definition exec_Test8 :: "Instruction \<Rightarrow> CPU \<Rightarrow> MMU \<Rightarrow> (CPU \<times> MMU) option" where
  "exec_Test8 op c u = do {
     src \<leftarrow> read_parameter_value c u (op_src op);
     dst \<leftarrow> read_parameter_value c u (op_dst op);
     let res = dst AND src;
     let f = cpu_flags c;
     let f = f\<lparr>overflow := False, carry := False\<rparr>;
     let f = set_sign_u8 f res;
     let f = set_zero_u8 f res;
     let f = set_parity f res;
     Some (with_flags c f, u)
   }"

definition exec_Test16 :: "Instruction \<Rightarrow> CPU \<Rightarrow> MMU \<Rightarrow> (CPU \<times> MMU) option" where
  "exec_Test16 op c u = do {
     src \<leftarrow> read_parameter_value c u (op_src op);
     dst \<leftarrow> read_parameter_value c u (op_dst op);
     let res = dst AND src;
     let f = cpu_flags c;
     let f = f\<lparr>overflow := False, carry := False\<rparr>;
     let f = set_sign_u16 f res;
     let f = set_zero_u16 f res;
     let f = set_parity f res;
     Some (with_flags c f, u)
   }"

definition exec_Not8 :: "Instruction \<Rightarrow> CPU \<Rightarrow> MMU \<Rightarrow> (CPU \<times> MMU) option" where
  "exec_Not8 op c u = do {
     dst \<leftarrow> read_parameter_value c u (op_dst op);
     let res = NOT dst;
     write_parameter_u8 c u (op_dst op) (ucast (res AND 0xFF))
   }"

definition exec_Not16 :: "Instruction \<Rightarrow> CPU \<Rightarrow> MMU \<Rightarrow> (CPU \<times> MMU) option" where
  "exec_Not16 op c u = do {
     dst \<leftarrow> read_parameter_value c u (op_dst op);
     let res = NOT dst;
     write_parameter_u16 c u (segment_prefix op) (op_dst op) (ucast (res AND 0xFFFF))
   }"

section \<open>Bit scan, bit test, conditional set\<close>

partial_function (option) bsf_loop :: "usize \<Rightarrow> u16 \<Rightarrow> u16 option" where
  "bsf_loop src count =
     (if src AND 1 = 0
      then do { count \<leftarrow> add_chk count 1; bsf_loop (drop_bit 1 src) count }
      else Some count)"

definition exec_Bsf :: "Instruction \<Rightarrow> CPU \<Rightarrow> MMU \<Rightarrow> (CPU \<times> MMU) option" where
  "exec_Bsf op c u = do {
     src \<leftarrow> read_parameter_value c u (op_src op);
     if src = 0 then Some (with_flags c ((cpu_flags c)\<lparr>zero := True\<rparr>), u)
     else do {
       count \<leftarrow> bsf_loop src 0;
       (c, u) \<leftarrow> write_parameter_u16 c u (segment_prefix op) (op_dst op) count;
       Some (with_flags c ((cpu_flags c)\<lparr>zero := False\<rparr>), u)
     }
   }"

definition exec_Bt :: "Instruction \<Rightarrow> CPU \<Rightarrow> MMU \<Rightarrow> (CPU \<times> MMU) option" where
  "exec_Bt op c u = do {
     bit_base \<leftarrow> read_parameter_value c u (op_dst op);
     bit_offset \<leftarrow> read_parameter_value c u (op_src op);
     let b = (bit_base AND push_bit (unat (bit_offset AND 15)) 1 \<noteq> 0);
     Some (with_flags c ((cpu_flags c)\<lparr>carry := b\<rparr>), u)
   }"

definition exec_Setc :: "Instruction \<Rightarrow> CPU \<Rightarrow> MMU \<Rightarrow> (CPU \<times> MMU) option" where
  "exec_Setc op c u =
     write_parameter_u8 c u (op_dst op) (if carry (cpu_flags c) then 1 else 0)"

definition exec_Setnz :: "Instruction \<Rightarrow> CPU \<Rightarrow> MMU \<Rightarrow> (CPU \<times> MMU) option" where
  "exec_Setnz op c u =
     write_parameter_u8 c u (op_dst op) (if \<not> zero (cpu_flags c) then 1 else 0)"

text \<open>\<open>Arpl\<close> and \<open>Bound\<close> print only; the 32-bit forms of and, or, not, test, and \<open>Bts\<close>, \<open>Setg\<close> have no arm.\<close>

definition exec_logic :: "LogicOp \<Rightarrow> Instruction \<Rightarrow> CPU \<Rightarrow> MMU \<Rightarrow> exec_result" where
  "exec_logic k op c u = (case k of
     And8 \<Rightarrow> falls (exec_And8 op c u) | And16 \<Rightarrow> falls (exec_And16 op c u)
   | Or8 \<Rightarrow> falls (exec_Or8 op c u) | Or16 \<Rightarrow> falls (exec_Or16 op c u)
   | Xor8 \<Rightarrow> falls (exec_Xor8 op c u) | Xor16 \<Rightarrow> falls (exec_Xor16 op c u)
   | Xor32 \<Rightarrow> falls (exec_Xor32 op c u)
   | Test8 \<Rightarrow> falls (exec_Test8 op c u) | Test16 \<Rightarrow> falls (exec_Test16 op c u)
   | Not8 \<Rightarrow> falls (exec_Not8 op c u) | Not16 \<Rightarrow> falls (exec_Not16 op c u)
   | Bsf \<Rightarrow> falls (exec_Bsf op c u) | Bt \<Rightarrow> falls (exec_Bt op c u)
   | Setc \<Rightarrow> falls (exec_Setc op c u) | Setnz \<Rightarrow> falls (exec_Setnz op c u)
   | Arpl \<Rightarrow> falls (Some (c, u)) | Bound \<Rightarrow> falls (Some (c, u))
   | _ \<Rightarrow> falls (unhandled c u))"

end
