(* ===== verification/X86_Exec_Shift.thy ===== *)
theory X86_Exec_Shift
  imports X86_Exec_Arith
begin

text \<open>
  Shifts and rotates: the arms of \<open>Machine::execute\<close> (\<open>dustbox/src/machine.rs\<close>), one definition per
  arm, at the widths the source computes in. Shift counts are reduced by a mask or a remainder in
  the lines above each shift, below the width of the shifted value, so the overflow check of the
  shift cannot fail.
\<close>

unbundle bit_operations_syntax

section \<open>Rotates through carry\<close>

definition exec_Rcl8 :: "Instruction \<Rightarrow> CPU \<Rightarrow> MMU \<Rightarrow> (CPU \<times> MMU) option" where
  "exec_Rcl8 op c u = do {
     v \<leftarrow> read_parameter_value c u (op_src op);
     let count = unat ((v AND 0x1F) mod 9);
     if count > 0 then do {
       let cf = (ucast (carry_val (cpu_flags c)) :: u16);
       d \<leftarrow> read_parameter_value c u (op_dst op);
       let op1 = (ucast d :: u16);
       let res = (ucast (if count = 1 then push_bit 1 op1 OR cf
          else push_bit count op1 OR push_bit (count - 1) cf OR drop_bit (9 - count) op1) :: u8);
       (c, u) \<leftarrow> write_parameter_u8 c u (op_dst op) res;
       let cf = drop_bit (8 - count) op1 AND 1;
       let f = (cpu_flags c)\<lparr>carry := cf \<noteq> 0, overflow := cf XOR drop_bit 7 (ucast res) \<noteq> 0\<rparr>;
       Some (with_flags c f, u)
     }
     else Some (c, u)
   }"

definition exec_Rcl16 :: "Instruction \<Rightarrow> CPU \<Rightarrow> MMU \<Rightarrow> (CPU \<times> MMU) option" where
  "exec_Rcl16 op c u = do {
     v \<leftarrow> read_parameter_value c u (op_src op);
     let count = unat ((v AND 0x1F) mod 17);
     if count > 0 then do {
       let cf = (ucast (carry_val (cpu_flags c)) :: u16);
       d \<leftarrow> read_parameter_value c u (op_dst op);
       let op1 = (ucast d :: u16);
       let res = (if count = 1 then push_bit 1 op1 OR cf
          else if count = 16 then push_bit 15 cf OR drop_bit 1 op1
          else push_bit count op1 OR push_bit (count - 1) cf OR drop_bit (17 - count) op1);
       (c, u) \<leftarrow> write_parameter_u16 c u (segment_prefix op) (op_dst op) res;
       let f = (cpu_flags c)\<lparr>carry := drop_bit (16 - count) op1 AND 1 \<noteq> 0\<rparr>;
       let f = f\<lparr>overflow := ucast (carry_val f) XOR drop_bit 15 op1 \<noteq> 0\<rparr>;
       Some (with_flags c f, u)
     }
     else Some (c, u)
   }"

definition exec_Rcr8 :: "Instruction \<Rightarrow> CPU \<Rightarrow> MMU \<Rightarrow> (CPU \<times> MMU) option" where
  "exec_Rcr8 op c u = do {
     v \<leftarrow> read_parameter_value c u (op_src op);
     let count = unat ((v AND 0x1F) mod 9);
     if count \<noteq> 0 then do {
       d \<leftarrow> read_parameter_value c u (op_dst op);
       let op1 = (ucast d :: u16);
       let cf = (ucast (carry_val (cpu_flags c)) :: u16);
       let res = (ucast (drop_bit count op1 OR push_bit (8 - count) cf OR push_bit (9 - count) op1) :: u8);
       (c, u) \<leftarrow> write_parameter_u8 c u (op_dst op) res;
       let of_bit = drop_bit 7 ((res XOR push_bit 1 res) AND 0x80);
       let f = (cpu_flags c)\<lparr>carry := drop_bit (count - 1) op1 AND 0x1 \<noteq> 0, overflow := of_bit \<noteq> 0\<rparr>;
       Some (with_flags c f, u)
     }
     else Some (c, u)
   }"

definition exec_Rcr16 :: "Instruction \<Rightarrow> CPU \<Rightarrow> MMU \<Rightarrow> (CPU \<times> MMU) option" where
  "exec_Rcr16 op c u = do {
     op1 \<leftarrow> read_parameter_value c u (op_dst op);
     v \<leftarrow> read_parameter_value c u (op_src op);
     let count = unat (((ucast v :: u32) AND 0x1F) mod 17);
     if count > 0 then do {
       let cf = carry_val (cpu_flags c);
       let res = drop_bit count op1 OR push_bit (16 - count) cf OR push_bit (17 - count) op1;
       (c, u) \<leftarrow> write_parameter_u16 c u (segment_prefix op) (op_dst op) (ucast res);
       let bit15 = drop_bit 15 res AND 1;
       let bit14 = drop_bit 14 res AND 1;
       let f = (cpu_flags c)\<lparr>carry := drop_bit (count - 1) op1 AND 1 \<noteq> 0, overflow := bit15 XOR bit14 \<noteq> 0\<rparr>;
       Some (with_flags c f, u)
     }
     else Some (c, u)
   }"

definition exec_Rcr32 :: "Instruction \<Rightarrow> CPU \<Rightarrow> MMU \<Rightarrow> (CPU \<times> MMU) option" where
  "exec_Rcr32 op c u = do {
     op1 \<leftarrow> read_parameter_value c u (op_dst op);
     v \<leftarrow> read_parameter_value c u (op_src op);
     let count = unat ((ucast v :: u32) AND 0x1F);
     if count > 0 then do {
       let cf = carry_val (cpu_flags c);
       let res = (if count = 1 then drop_bit 1 op1 OR push_bit 31 cf
          else drop_bit count op1 OR push_bit (32 - count) cf OR push_bit (33 - count) op1);
       (c, u) \<leftarrow> write_parameter_u32 c u (segment_prefix op) (op_dst op) (ucast res);
       let f = (cpu_flags c)\<lparr>carry := drop_bit (count - 1) op1 AND 1 \<noteq> 0,
          overflow := (res XOR push_bit 1 res) AND 0x80000000 \<noteq> 0\<rparr>;
       Some (with_flags c f, u)
     }
     else Some (c, u)
   }"

section \<open>Rotates\<close>

definition exec_Rol8 :: "Instruction \<Rightarrow> CPU \<Rightarrow> MMU \<Rightarrow> exec_result" where
  "exec_Rol8 op c u = do {
     d \<leftarrow> read_parameter_value c u (op_dst op);
     let op1 = (ucast d :: u8);
     count \<leftarrow> read_parameter_value c u (op_src op);
     if count AND 0x07 = 0 then
       (if count AND 0x18 \<noteq> 0 then do {
          let bit0 = op1 AND 1;
          let bit7 = drop_bit 7 op1;
          let f = (cpu_flags c)\<lparr>overflow := bit0 XOR bit7 \<noteq> 0, carry := bit0 \<noteq> 0\<rparr>;
          Some (Return, with_flags c f, u)
        }
        else Some (Return, c, u))
     else do {
       let count = unat (count AND 0x7);
       let res = push_bit count op1 OR drop_bit (8 - count) op1;
       (c, u) \<leftarrow> write_parameter_u8 c u (op_dst op) res;
       let bit0 = res AND 1;
       let bit7 = drop_bit 7 res;
       let f = (cpu_flags c)\<lparr>overflow := bit0 XOR bit7 \<noteq> 0, carry := bit0 \<noteq> 0\<rparr>;
       Some (Fall, with_flags c f, u)
     }
   }"

definition exec_Rol16 :: "Instruction \<Rightarrow> CPU \<Rightarrow> MMU \<Rightarrow> (CPU \<times> MMU) option" where
  "exec_Rol16 op c u = do {
     d \<leftarrow> read_parameter_value c u (op_dst op);
     v \<leftarrow> read_parameter_value c u (op_src op);
     let count = v AND 0x1F;
     let res = word_rotl (unat count) (ucast d :: u16);
     (c, u) \<leftarrow> write_parameter_u16 c u (segment_prefix op) (op_dst op) res;
     let bit0 = res AND 1;
     let bit15 = drop_bit 15 res AND 1;
     let f = cpu_flags c;
     let f = (if count = 1 then f\<lparr>overflow := bit0 XOR bit15 \<noteq> 0\<rparr> else f);
     let f = f\<lparr>carry := bit0 \<noteq> 0\<rparr>;
     Some (with_flags c f, u)
   }"

definition exec_Ror8 :: "Instruction \<Rightarrow> CPU \<Rightarrow> MMU \<Rightarrow> exec_result" where
  "exec_Ror8 op c u = do {
     d \<leftarrow> read_parameter_value c u (op_dst op);
     let op1 = (ucast d :: u8);
     v \<leftarrow> read_parameter_value c u (op_src op);
     let count = v AND 0x1F;
     if count AND 0x07 = 0 then
       (if count AND 0x18 \<noteq> 0 then do {
          let bit6 = drop_bit 6 op1 AND 1;
          let bit7 = drop_bit 7 op1;
          let f = (cpu_flags c)\<lparr>overflow := bit6 XOR bit7 \<noteq> 0, carry := bit7 \<noteq> 0\<rparr>;
          Some (Return, with_flags c f, u)
        }
        else Some (Return, c, u))
     else do {
       let res = word_rotr (unat count) op1;
       (c, u) \<leftarrow> write_parameter_u8 c u (op_dst op) res;
       let bit6 = drop_bit 6 res AND 1;
       let bit7 = drop_bit 7 res;
       let f = (cpu_flags c)\<lparr>overflow := bit6 XOR bit7 \<noteq> 0, carry := bit7 \<noteq> 0\<rparr>;
       Some (Fall, with_flags c f, u)
     }
   }"

definition exec_Ror16 :: "Instruction \<Rightarrow> CPU \<Rightarrow> MMU \<Rightarrow> (CPU \<times> MMU) option" where
  "exec_Ror16 op c u = do {
     d \<leftarrow> read_parameter_value c u (op_dst op);
     v \<leftarrow> read_parameter_value c u (op_src op);
     let count = v AND 0x1F;
     let res = word_rotr (unat count) (ucast d :: u16);
     (c, u) \<leftarrow> write_parameter_u16 c u (segment_prefix op) (op_dst op) res;
     let bit14 = drop_bit 14 res AND 1;
     let bit15 = drop_bit 15 res AND 1;
     let f = cpu_flags c;
     let f = (if count = 1 then f\<lparr>overflow := bit14 XOR bit15 \<noteq> 0\<rparr> else f);
     let f = f\<lparr>carry := bit15 \<noteq> 0\<rparr>;
     Some (with_flags c f, u)
   }"

definition exec_Ror32 :: "Instruction \<Rightarrow> CPU \<Rightarrow> MMU \<Rightarrow> (CPU \<times> MMU) option" where
  "exec_Ror32 op c u = do {
     d \<leftarrow> read_parameter_value c u (op_dst op);
     v \<leftarrow> read_parameter_value c u (op_src op);
     let count = v AND 0x1F;
     let res = word_rotr (unat count) (ucast d :: u32);
     write_parameter_u32 c u (segment_prefix op) (op_dst op) res
   }"

section \<open>Arithmetic shift right\<close>

definition exec_Sar8 :: "Instruction \<Rightarrow> CPU \<Rightarrow> MMU \<Rightarrow> (CPU \<times> MMU) option" where
  "exec_Sar8 op c u = do {
     d \<leftarrow> read_parameter_value c u (op_dst op);
     let op1 = (ucast d :: u8);
     v \<leftarrow> read_parameter_value c u (op_src op);
     let count = unat (v AND 0x1F);
     if count > 0 then do {
       let count = (if count > 8 then 8 else count);
       let res = (if op1 AND 0x80 \<noteq> 0
          then drop_bit count (ucast op1 :: usize) OR push_bit (8 - count) 0xFF
          else drop_bit count (ucast op1));
       (c, u) \<leftarrow> write_parameter_u8 c u (op_dst op) (ucast res);
       let f = (cpu_flags c)\<lparr>carry := drop_bit (count - 1) (ucast op1 :: i64) AND 0x1 \<noteq> 0, overflow := False\<rparr>;
       let f = set_sign_u8 f res;
       let f = set_zero_u8 f res;
       let f = set_parity f res;
       Some (with_flags c f, u)
     }
     else Some (c, u)
   }"

definition exec_Sar16 :: "Instruction \<Rightarrow> CPU \<Rightarrow> MMU \<Rightarrow> (CPU \<times> MMU) option" where
  "exec_Sar16 op c u = do {
     dst \<leftarrow> read_parameter_value c u (op_dst op);
     v \<leftarrow> read_parameter_value c u (op_src op);
     let count = unat (v AND 0x1F);
     if count > 0 then do {
       let count = (if count > 16 then 16 else count);
       let res = (if dst AND 0x8000 \<noteq> 0
          then drop_bit count dst OR push_bit (16 - count) 0xFFFF
          else drop_bit count dst);
       (c, u) \<leftarrow> write_parameter_u16 c u (segment_prefix op) (op_dst op) (ucast res);
       let f = (cpu_flags c)\<lparr>carry := drop_bit (count - 1) (ucast dst :: u16) AND 0x1 \<noteq> 0, overflow := False\<rparr>;
       let f = set_sign_u16 f res;
       let f = set_zero_u16 f res;
       let f = set_parity f res;
       Some (with_flags c f, u)
     }
     else Some (c, u)
   }"

definition exec_Sar32 :: "Instruction \<Rightarrow> CPU \<Rightarrow> MMU \<Rightarrow> (CPU \<times> MMU) option" where
  "exec_Sar32 op c u = do {
     dst \<leftarrow> read_parameter_value c u (op_dst op);
     v \<leftarrow> read_parameter_value c u (op_src op);
     let count = unat (v AND 0x1F);
     if count > 0 then do {
       let res = (if dst AND 0x80000000 \<noteq> 0
          then drop_bit count dst OR push_bit (32 - count) 0xFFFFFFFF
          else drop_bit count dst);
       (c, u) \<leftarrow> write_parameter_u32 c u (segment_prefix op) (op_dst op) (ucast res);
       let f = (cpu_flags c)\<lparr>carry := drop_bit (count - 1) (ucast dst :: u32) AND 0x1 \<noteq> 0, overflow := False\<rparr>;
       let f = set_sign_u32 f res;
       let f = set_zero_u32 f res;
       let f = set_parity f res;
       Some (with_flags c f, u)
     }
     else Some (c, u)
   }"

section \<open>Shift left\<close>

definition exec_Shl8 :: "Instruction \<Rightarrow> CPU \<Rightarrow> MMU \<Rightarrow> (CPU \<times> MMU) option" where
  "exec_Shl8 op c u = do {
     v \<leftarrow> read_parameter_value c u (op_src op);
     let count = unat (v AND 0x1F);
     if count > 0 then do {
       d \<leftarrow> read_parameter_value c u (op_dst op);
       let op1 = (ucast d :: u16);
       let cf = (if count \<le> 8 then drop_bit (8 - count) op1 AND 0x1 else 0);
       let res = (if count \<le> 8 then push_bit count op1 else 0);
       let of_bits = (if count \<le> 8 then cf XOR drop_bit 7 res else 0);
       let f = cpu_flags c;
       let f = set_sign_u8 f (ucast res);
       let f = set_zero_u8 f (ucast res);
       let f = set_parity f (ucast res);
       let f = f\<lparr>carry := cf \<noteq> 0, overflow := of_bits \<noteq> 0\<rparr>;
       let c = with_flags c f;
       write_parameter_u8 c u (op_dst op) (ucast res)
     }
     else Some (c, u)
   }"

definition exec_Shl16 :: "Instruction \<Rightarrow> CPU \<Rightarrow> MMU \<Rightarrow> (CPU \<times> MMU) option" where
  "exec_Shl16 op c u = do {
     v \<leftarrow> read_parameter_value c u (op_src op);
     let count = unat (v AND 0x1F);
     if count > 0 then do {
       d \<leftarrow> read_parameter_value c u (op_dst op);
       let op1 = (ucast d :: u32);
       let cf = (if count \<le> 16 then drop_bit (16 - count) (ucast op1 :: u16) AND 0x1 else 0);
       let res = (if count \<le> 16 then push_bit count op1 else 0);
       let of_bits = (if count \<le> 16 then cf XOR drop_bit 15 (ucast res :: u16) else 0);
       (c, u) \<leftarrow> write_parameter_u16 c u (segment_prefix op) (op_dst op) (ucast res);
       let f = cpu_flags c;
       let f = set_sign_u16 f (ucast res);
       let f = set_zero_u16 f (ucast res);
       let f = set_parity f (ucast res);
       let f = f\<lparr>carry := cf \<noteq> 0, overflow := of_bits AND 1 \<noteq> 0\<rparr>;
       Some (with_flags c f, u)
     }
     else Some (c, u)
   }"

definition exec_Shl32 :: "Instruction \<Rightarrow> CPU \<Rightarrow> MMU \<Rightarrow> (CPU \<times> MMU) option" where
  "exec_Shl32 op c u = do {
     dst \<leftarrow> read_parameter_value c u (op_dst op);
     v \<leftarrow> read_parameter_value c u (op_src op);
     let count = unat (v AND 0x1F);
     if count > 0 then do {
       let res = wrapping_shl dst count;
       (c, u) \<leftarrow> write_parameter_u32 c u (segment_prefix op) (op_dst op) (ucast res);
       let f = (cpu_flags c)\<lparr>carry := res AND 0x80000000 \<noteq> 0\<rparr>;
       let f = (if count = 1
          then f\<lparr>overflow := carry_val f XOR drop_bit 15 (res AND 0x8000) \<noteq> 0\<rparr> else f);
       let f = set_sign_u32 f res;
       let f = set_zero_u32 f res;
       let f = set_parity f res;
       Some (with_flags c f, u)
     }
     else Some (c, u)
   }"

definition exec_Shld :: "Instruction \<Rightarrow> CPU \<Rightarrow> MMU \<Rightarrow> (CPU \<times> MMU) option" where
  "exec_Shld op c u = do {
     v \<leftarrow> read_parameter_value c u (op_src2 op);
     let count = unat (v AND 0x1F);
     if count > 0 then do {
       d \<leftarrow> read_parameter_value c u (op_dst op);
       let op1 = (ucast d :: u32);
       s \<leftarrow> read_parameter_value c u (op_src op);
       let op2 = (ucast s :: u32);
       let temp_32 = push_bit 16 op1 OR op2;
       let result_32 = push_bit count temp_32;
       let result_32 = (if count > 16 then result_32 OR push_bit (count - 16) op1 else result_32);
       let res16 = (ucast (drop_bit 16 result_32) :: u16);
       (c, u) \<leftarrow> write_parameter_u16 c u (segment_prefix op) (op_dst op) res16;
       let cf = drop_bit (32 - count) temp_32 AND 0x1;
       let of_bits = cf XOR ucast (drop_bit 15 res16);
       let f = (cpu_flags c)\<lparr>carry := cf \<noteq> 0, overflow := of_bits \<noteq> 0\<rparr>;
       let f = set_zero_u16 f (ucast res16);
       let f = set_sign_u16 f (ucast res16);
       let f = set_parity f (ucast res16);
       Some (with_flags c f, u)
     }
     else Some (c, u)
   }"

section \<open>Logical shift right\<close>

definition exec_Shr8 :: "Instruction \<Rightarrow> CPU \<Rightarrow> MMU \<Rightarrow> (CPU \<times> MMU) option" where
  "exec_Shr8 op c u = do {
     dst \<leftarrow> read_parameter_value c u (op_dst op);
     v \<leftarrow> read_parameter_value c u (op_src op);
     let count = unat (v AND 0x1F);
     if count > 0 then do {
       let res = wrapping_shr dst count;
       (c, u) \<leftarrow> write_parameter_u8 c u (op_dst op) (ucast res);
       let f = (cpu_flags c)\<lparr>carry := wrapping_shr dst (count - 1) AND 0x1 \<noteq> 0, overflow := dst AND 0x80 \<noteq> 0\<rparr>;
       let f = set_sign_u8 f res;
       let f = set_zero_u8 f res;
       let f = set_parity f res;
       Some (with_flags c f, u)
     }
     else Some (c, u)
   }"

definition exec_Shr16 :: "Instruction \<Rightarrow> CPU \<Rightarrow> MMU \<Rightarrow> (CPU \<times> MMU) option" where
  "exec_Shr16 op c u = do {
     dst \<leftarrow> read_parameter_value c u (op_dst op);
     v \<leftarrow> read_parameter_value c u (op_src op);
     let count = unat (v AND 0x1F);
     if count > 0 then do {
       let res = wrapping_shr dst count;
       (c, u) \<leftarrow> write_parameter_u16 c u (segment_prefix op) (op_dst op) (ucast res);
       let f = (cpu_flags c)\<lparr>carry := wrapping_shr dst (count - 1) AND 0x1 \<noteq> 0, overflow := dst AND 0x8000 \<noteq> 0\<rparr>;
       let f = set_sign_u16 f res;
       let f = set_zero_u16 f res;
       let f = set_parity f res;
       Some (with_flags c f, u)
     }
     else Some (c, u)
   }"

definition exec_Shr32 :: "Instruction \<Rightarrow> CPU \<Rightarrow> MMU \<Rightarrow> (CPU \<times> MMU) option" where
  "exec_Shr32 op c u = do {
     dst \<leftarrow> read_parameter_value c u (op_dst op);
     v \<leftarrow> read_parameter_value c u (op_src op);
     let count = unat (v AND 0x1F);
     if count > 0 then do {
       let res = wrapping_shr dst count;
       (c, u) \<leftarrow> write_parameter_u32 c u (segment_prefix op) (op_dst op) (ucast res);
       let f = (cpu_flags c)\<lparr>carry := wrapping_shr dst (count - 1) AND 0x1 \<noteq> 0, overflow := dst AND 0x80000000 \<noteq> 0\<rparr>;
       let f = set_sign_u32 f res;
       let f = set_zero_u32 f res;
       let f = set_parity f res;
       Some (with_flags c f, u)
     }
     else Some (c, u)
   }"

definition exec_Shrd :: "Instruction \<Rightarrow> CPU \<Rightarrow> MMU \<Rightarrow> exec_result" where
  "exec_Shrd op c u = do {
     v \<leftarrow> read_parameter_value c u (op_src2 op);
     let count = unat (v AND 0x1F);
     if count = 0 then Some (Return, c, u)
     else do {
       dst \<leftarrow> read_parameter_value c u (op_dst op);
       src \<leftarrow> read_parameter_value c u (op_src op);
       let temp_32 = push_bit 16 src OR dst;
       let result_32 = drop_bit count temp_32;
       let result_32 = (if count > 16 then result_32 OR push_bit (32 - count) dst else result_32);
       let result_16 = (ucast result_32 :: u16);
       (c, u) \<leftarrow> write_parameter_u16 c u (segment_prefix op) (op_dst op) result_16;
       let f = cpu_flags c;
       let f = set_sign_u16 f (ucast result_16);
       let f = set_zero_u16 f (ucast result_16);
       let f = set_parity f (ucast result_16);
       let cf = drop_bit (count - 1) dst AND 0x1;
       let of_bits = drop_bit 15 (push_bit 1 result_16 XOR result_16) AND 0x1;
       let cf = (if count > 16 then drop_bit (count - 17) src AND 0x1 else cf);
       let f = f\<lparr>carry := cf \<noteq> 0, overflow := of_bits \<noteq> 0\<rparr>;
       Some (Fall, with_flags c f, u)
     }
   }"

text \<open>\<open>Rcl32\<close> and \<open>Rol32\<close> have no arm.\<close>

definition exec_shift :: "ShiftOp \<Rightarrow> Instruction \<Rightarrow> CPU \<Rightarrow> MMU \<Rightarrow> exec_result" where
  "exec_shift k op c u = (case k of
     Rcl8 \<Rightarrow> falls (exec_Rcl8 op c u) | Rcl16 \<Rightarrow> falls (exec_Rcl16 op c u)
   | Rcr8 \<Rightarrow> falls (exec_Rcr8 op c u) | Rcr16 \<Rightarrow> falls (exec_Rcr16 op c u)
   | Rcr32 \<Rightarrow> falls (exec_Rcr32 op c u)
   | Rol8 \<Rightarrow> exec_Rol8 op c u | Rol16 \<Rightarrow> falls (exec_Rol16 op c u)
   | Ror8 \<Rightarrow> exec_Ror8 op c u | Ror16 \<Rightarrow> falls (exec_Ror16 op c u)
   | Ror32 \<Rightarrow> falls (exec_Ror32 op c u)
   | Sar8 \<Rightarrow> falls (exec_Sar8 op c u) | Sar16 \<Rightarrow> falls (exec_Sar16 op c u)
   | Sar32 \<Rightarrow> falls (exec_Sar32 op c u)
   | Shl8 \<Rightarrow> falls (exec_Shl8 op c u) | Shl16 \<Rightarrow> falls (exec_Shl16 op c u)
   | Shl32 \<Rightarrow> falls (exec_Shl32 op c u) | Shld \<Rightarrow> falls (exec_Shld op c u)
   | Shr8 \<Rightarrow> falls (exec_Shr8 op c u) | Shr16 \<Rightarrow> falls (exec_Shr16 op c u)
   | Shr32 \<Rightarrow> falls (exec_Shr32 op c u) | Shrd \<Rightarrow> exec_Shrd op c u
   | Rcl32 \<Rightarrow> falls (unhandled c u) | Rol32 \<Rightarrow> falls (unhandled c u))"

end
