(* ===== verification/X86_Exec_Move.thy ===== *)
theory X86_Exec_Move
  imports X86_Exec_Arith
begin

text \<open>
  Data movement, stack frames, string instructions without port access, and the flag setters: the
  arms of \<open>Machine::execute\<close> (\<open>dustbox/src/machine.rs\<close>), one definition per arm.
\<close>

unbundle bit_operations_syntax

section \<open>Flags and AH, AL\<close>

definition exec_Lahf :: "Instruction \<Rightarrow> CPU \<Rightarrow> MMU \<Rightarrow> (CPU \<times> MMU) option" where
  "exec_Lahf op c u = do {
     let f = cpu_flags c;
     let val = (0 :: u8);
     let val = (if carry f then val OR 1 else val);
     let val = val OR push_bit 1 1;
     let val = (if parity f then val OR push_bit 2 1 else val);
     let val = (if adjust f then val OR push_bit 4 1 else val);
     let val = (if zero f then val OR push_bit 6 1 else val);
     let val = (if sign f then val OR push_bit 7 1 else val);
     c \<leftarrow> set_r8 c R.AH val;
     Some (c, u)
   }"

definition exec_Sahf :: "Instruction \<Rightarrow> CPU \<Rightarrow> MMU \<Rightarrow> (CPU \<times> MMU) option" where
  "exec_Sahf op c u = do {
     ah \<leftarrow> get_r8 c R.AH;
     let f = (cpu_flags c)\<lparr>carry := ah AND 0x1 \<noteq> 0, parity := ah AND 0x4 \<noteq> 0,
        adjust := ah AND 0x10 \<noteq> 0, zero := ah AND 0x40 \<noteq> 0, sign := ah AND 0x80 \<noteq> 0\<rparr>;
     Some (with_flags c f, u)
   }"

definition exec_Salc :: "Instruction \<Rightarrow> CPU \<Rightarrow> MMU \<Rightarrow> (CPU \<times> MMU) option" where
  "exec_Salc op c u = do {
     let al = (if carry (cpu_flags c) then 0xFF else 0);
     c \<leftarrow> set_r8 c R.AL al;
     Some (c, u)
   }"

section \<open>Moves\<close>

definition exec_Lds :: "Instruction \<Rightarrow> CPU \<Rightarrow> MMU \<Rightarrow> (CPU \<times> MMU) option" where
  "exec_Lds op c u = do {
     (seg, off) \<leftarrow> read_segment_selector c u (op_src op);
     let c = set_r16 c R.DS seg;
     write_parameter_u16 c u (segment_prefix op) (op_dst op) off
   }"

definition exec_Les :: "Instruction \<Rightarrow> CPU \<Rightarrow> MMU \<Rightarrow> (CPU \<times> MMU) option" where
  "exec_Les op c u = do {
     (seg, off) \<leftarrow> read_segment_selector c u (op_src op);
     let c = set_r16 c R.ES seg;
     write_parameter_u16 c u (segment_prefix op) (op_dst op) off
   }"

definition exec_Lea16 :: "Instruction \<Rightarrow> CPU \<Rightarrow> MMU \<Rightarrow> (CPU \<times> MMU) option" where
  "exec_Lea16 op c u = do {
     src \<leftarrow> read_parameter_address c (op_src op);
     write_parameter_u16 c u (segment_prefix op) (op_dst op) (ucast src)
   }"

definition exec_Mov8 :: "Instruction \<Rightarrow> CPU \<Rightarrow> MMU \<Rightarrow> (CPU \<times> MMU) option" where
  "exec_Mov8 op c u = do {
     v \<leftarrow> read_parameter_value c u (op_src op);
     write_parameter_u8 c u (op_dst op) (ucast v)
   }"

definition exec_Mov16 :: "Instruction \<Rightarrow> CPU \<Rightarrow> MMU \<Rightarrow> (CPU \<times> MMU) option" where
  "exec_Mov16 op c u = do {
     v \<leftarrow> read_parameter_value c u (op_src op);
     write_parameter_u16 c u (segment_prefix op) (op_dst op) (ucast v)
   }"

definition exec_Mov32 :: "Instruction \<Rightarrow> CPU \<Rightarrow> MMU \<Rightarrow> (CPU \<times> MMU) option" where
  "exec_Mov32 op c u = do {
     v \<leftarrow> read_parameter_value c u (op_src op);
     write_parameter_u32 c u (segment_prefix op) (op_dst op) (ucast v)
   }"

definition exec_Movsx16 :: "Instruction \<Rightarrow> CPU \<Rightarrow> MMU \<Rightarrow> (CPU \<times> MMU) option" where
  "exec_Movsx16 op c u = do {
     v \<leftarrow> read_parameter_value c u (op_src op);
     let src = (ucast v :: u8);
     let v16 = (ucast src :: u16);
     let v16 = (if src AND 0x80 \<noteq> 0 then v16 + 0xFF00 else v16);
     write_parameter_u16 c u (segment_prefix op) (op_dst op) v16
   }"

definition exec_Movsx32 :: "Instruction \<Rightarrow> CPU \<Rightarrow> MMU \<Rightarrow> (CPU \<times> MMU) option" where
  "exec_Movsx32 op c u = do {
     v \<leftarrow> read_parameter_value c u (op_src op);
     let src = (ucast v :: u16);
     let v32 = (ucast src :: u32);
     let byte_case = (if src AND 0x80 \<noteq> 0 then add_chk v32 0xFFFFFF00 else Some v32);
     v32 \<leftarrow> (case op_src op of
         Reg8 _ \<Rightarrow> byte_case
       | Ptr8AmodeS8 _ _ _ \<Rightarrow> byte_case
       | Ptr8AmodeS16 _ _ _ \<Rightarrow> byte_case
       | Reg16 _ \<Rightarrow> (if src AND 0x8000 \<noteq> 0 then add_chk v32 0xFFFF0000 else Some v32)
       | _ \<Rightarrow> None);
     write_parameter_u32 c u (segment_prefix op) (op_dst op) v32
   }"

definition exec_Movzx16 :: "Instruction \<Rightarrow> CPU \<Rightarrow> MMU \<Rightarrow> (CPU \<times> MMU) option" where
  "exec_Movzx16 op c u = do {
     v \<leftarrow> read_parameter_value c u (op_src op);
     write_parameter_u16 c u (segment_prefix op) (op_dst op) (ucast v)
   }"

definition exec_Movzx32 :: "Instruction \<Rightarrow> CPU \<Rightarrow> MMU \<Rightarrow> (CPU \<times> MMU) option" where
  "exec_Movzx32 op c u = do {
     v \<leftarrow> read_parameter_value c u (op_src op);
     write_parameter_u32 c u (segment_prefix op) (op_dst op) (ucast v)
   }"

definition exec_Xchg8 :: "Instruction \<Rightarrow> CPU \<Rightarrow> MMU \<Rightarrow> (CPU \<times> MMU) option" where
  "exec_Xchg8 op c u = do {
     src \<leftarrow> read_parameter_value c u (op_src op);
     dst \<leftarrow> read_parameter_value c u (op_dst op);
     (c, u) \<leftarrow> write_parameter_u8 c u (op_dst op) (ucast src);
     write_parameter_u8 c u (op_src op) (ucast dst)
   }"

definition exec_Xchg16 :: "Instruction \<Rightarrow> CPU \<Rightarrow> MMU \<Rightarrow> (CPU \<times> MMU) option" where
  "exec_Xchg16 op c u = do {
     src \<leftarrow> read_parameter_value c u (op_src op);
     dst \<leftarrow> read_parameter_value c u (op_dst op);
     (c, u) \<leftarrow> write_parameter_u16 c u (segment_prefix op) (op_dst op) (ucast src);
     write_parameter_u16 c u (segment_prefix op) (op_src op) (ucast dst)
   }"

definition exec_Xchg32 :: "Instruction \<Rightarrow> CPU \<Rightarrow> MMU \<Rightarrow> (CPU \<times> MMU) option" where
  "exec_Xchg32 op c u = do {
     src \<leftarrow> read_parameter_value c u (op_src op);
     dst \<leftarrow> read_parameter_value c u (op_dst op);
     (c, u) \<leftarrow> write_parameter_u32 c u (segment_prefix op) (op_dst op) (ucast src);
     write_parameter_u32 c u (segment_prefix op) (op_src op) (ucast dst)
   }"

definition exec_Xlatb :: "Instruction \<Rightarrow> CPU \<Rightarrow> MMU \<Rightarrow> (CPU \<times> MMU) option" where
  "exec_Xlatb op c u = do {
     seg \<leftarrow> segment c (segment_prefix op);
     bx \<leftarrow> get_r16 c R.BX;
     al \<leftarrow> get_r8 c R.AL;
     off \<leftarrow> add_chk bx (ucast al);
     al \<leftarrow> mmu_read_u8 u seg off;
     c \<leftarrow> set_r8 c R.AL al;
     Some (c, u)
   }"

section \<open>Stack\<close>

definition exec_Push16 :: "Instruction \<Rightarrow> CPU \<Rightarrow> MMU \<Rightarrow> (CPU \<times> MMU) option" where
  "exec_Push16 op c u = do {
     v \<leftarrow> read_parameter_value c u (op_dst op);
     push16 c u (ucast v)
   }"

definition exec_Push32 :: "Instruction \<Rightarrow> CPU \<Rightarrow> MMU \<Rightarrow> (CPU \<times> MMU) option" where
  "exec_Push32 op c u = do {
     v \<leftarrow> read_parameter_value c u (op_dst op);
     push32 c u (ucast v)
   }"

definition exec_Pop16 :: "Instruction \<Rightarrow> CPU \<Rightarrow> MMU \<Rightarrow> (CPU \<times> MMU) option" where
  "exec_Pop16 op c u = do {
     (v, c) \<leftarrow> pop16 c u;
     write_parameter_u16 c u (segment_prefix op) (op_dst op) v
   }"

definition exec_Pop32 :: "Instruction \<Rightarrow> CPU \<Rightarrow> MMU \<Rightarrow> (CPU \<times> MMU) option" where
  "exec_Pop32 op c u = do {
     (v, c) \<leftarrow> pop32 c u;
     write_parameter_u32 c u (segment_prefix op) (op_dst op) v
   }"

definition exec_Pusha16 :: "Instruction \<Rightarrow> CPU \<Rightarrow> MMU \<Rightarrow> (CPU \<times> MMU) option" where
  "exec_Pusha16 op c u = do {
     ax \<leftarrow> get_r16 c R.AX;
     cx \<leftarrow> get_r16 c R.CX;
     dx \<leftarrow> get_r16 c R.DX;
     bx \<leftarrow> get_r16 c R.BX;
     sp \<leftarrow> get_r16 c R.SP;
     bp \<leftarrow> get_r16 c R.BP;
     si \<leftarrow> get_r16 c R.SI;
     di \<leftarrow> get_r16 c R.DI;
     (c, u) \<leftarrow> push16 c u ax;
     (c, u) \<leftarrow> push16 c u cx;
     (c, u) \<leftarrow> push16 c u dx;
     (c, u) \<leftarrow> push16 c u bx;
     (c, u) \<leftarrow> push16 c u sp;
     (c, u) \<leftarrow> push16 c u bp;
     (c, u) \<leftarrow> push16 c u si;
     push16 c u di
   }"

definition exec_Pushad32 :: "Instruction \<Rightarrow> CPU \<Rightarrow> MMU \<Rightarrow> (CPU \<times> MMU) option" where
  "exec_Pushad32 op c u = do {
     eax \<leftarrow> get_r32 c R.EAX;
     ecx \<leftarrow> get_r32 c R.ECX;
     edx \<leftarrow> get_r32 c R.EDX;
     ebx \<leftarrow> get_r32 c R.EBX;
     esp \<leftarrow> get_r32 c R.ESP;
     ebp \<leftarrow> get_r32 c R.EBP;
     esi \<leftarrow> get_r32 c R.ESI;
     edi \<leftarrow> get_r32 c R.EDI;
     (c, u) \<leftarrow> push32 c u eax;
     (c, u) \<leftarrow> push32 c u ecx;
     (c, u) \<leftarrow> push32 c u edx;
     (c, u) \<leftarrow> push32 c u ebx;
     (c, u) \<leftarrow> push32 c u esp;
     (c, u) \<leftarrow> push32 c u ebp;
     (c, u) \<leftarrow> push32 c u esi;
     push32 c u edi
   }"

text \<open>The skipped stack pointer is added to with the overflow check.\<close>

definition exec_Popa16 :: "Instruction \<Rightarrow> CPU \<Rightarrow> MMU \<Rightarrow> (CPU \<times> MMU) option" where
  "exec_Popa16 op c u = do {
     (di, c) \<leftarrow> pop16 c u;
     let c = set_r16 c R.DI di;
     (si, c) \<leftarrow> pop16 c u;
     let c = set_r16 c R.SI si;
     (bp, c) \<leftarrow> pop16 c u;
     let c = set_r16 c R.BP bp;
     sp \<leftarrow> get_r16 c R.SP;
     sp \<leftarrow> add_chk sp 2;
     let c = set_r16 c R.SP sp;
     (bx, c) \<leftarrow> pop16 c u;
     let c = set_r16 c R.BX bx;
     (dx, c) \<leftarrow> pop16 c u;
     let c = set_r16 c R.DX dx;
     (cx, c) \<leftarrow> pop16 c u;
     let c = set_r16 c R.CX cx;
     (ax, c) \<leftarrow> pop16 c u;
     Some (set_r16 c R.AX ax, u)
   }"

definition exec_Popad32 :: "Instruction \<Rightarrow> CPU \<Rightarrow> MMU \<Rightarrow> (CPU \<times> MMU) option" where
  "exec_Popad32 op c u = do {
     (edi, c) \<leftarrow> pop32 c u;
     c \<leftarrow> set_r32 c R.EDI edi;
     (esi, c) \<leftarrow> pop32 c u;
     c \<leftarrow> set_r32 c R.ESI esi;
     (ebp, c) \<leftarrow> pop32 c u;
     c \<leftarrow> set_r32 c R.EBP ebp;
     esp \<leftarrow> get_r32 c R.ESP;
     esp \<leftarrow> add_chk esp 4;
     c \<leftarrow> set_r32 c R.ESP esp;
     (ebx, c) \<leftarrow> pop32 c u;
     c \<leftarrow> set_r32 c R.EBX ebx;
     (edx, c) \<leftarrow> pop32 c u;
     c \<leftarrow> set_r32 c R.EDX edx;
     (ecx, c) \<leftarrow> pop32 c u;
     c \<leftarrow> set_r32 c R.ECX ecx;
     (eax, c) \<leftarrow> pop32 c u;
     c \<leftarrow> set_r32 c R.EAX eax;
     Some (c, u)
   }"

definition exec_Pushf :: "Instruction \<Rightarrow> CPU \<Rightarrow> MMU \<Rightarrow> (CPU \<times> MMU) option" where
  "exec_Pushf op c u = push16 c u (flags_u16 (cpu_flags c))"

definition exec_Popf :: "Instruction \<Rightarrow> CPU \<Rightarrow> MMU \<Rightarrow> (CPU \<times> MMU) option" where
  "exec_Popf op c u = do {
     (v, c) \<leftarrow> pop16 c u;
     Some (with_flags c (flags_set_u16 (cpu_flags c) v), u)
   }"

text \<open>The nested frame pointers of \<open>Enter\<close>: one more push per level, BP going down by 2.\<close>

fun enter_loop :: "nat \<Rightarrow> CPU \<Rightarrow> MMU \<Rightarrow> (CPU \<times> MMU) option" where
  "enter_loop 0 c u = Some (c, u)"
| "enter_loop (Suc n) c u = do {
     bp \<leftarrow> get_r16 c R.BP;
     bp \<leftarrow> sub_chk bp 2;
     let c = set_r16 c R.BP bp;
     ss \<leftarrow> get_r16 c R.SS;
     bp \<leftarrow> get_r16 c R.BP;
     val \<leftarrow> mmu_read_u16 u ss bp;
     (c, u) \<leftarrow> push16 c u val;
     enter_loop n c u
   }"

definition exec_Enter :: "Instruction \<Rightarrow> CPU \<Rightarrow> MMU \<Rightarrow> (CPU \<times> MMU) option" where
  "exec_Enter op c u = do {
     v \<leftarrow> read_parameter_value c u (op_dst op);
     let alloc_size = (ucast v :: u16);
     nesting_level \<leftarrow> read_parameter_value c u (op_src op);
     let nesting_level = nesting_level AND 0x1F;
     bp \<leftarrow> get_r16 c R.BP;
     (c, u) \<leftarrow> push16 c u bp;
     frame_temp \<leftarrow> get_r16 c R.SP;
     (c, u) \<leftarrow> (if nesting_level \<noteq> 0
       then do { (c, u) \<leftarrow> enter_loop (unat nesting_level) c u; push16 c u frame_temp }
       else Some (c, u));
     let c = set_r16 c R.BP frame_temp;
     sp \<leftarrow> get_r16 c R.SP;
     sp \<leftarrow> sub_chk sp alloc_size;
     Some (set_r16 c R.SP sp, u)
   }"

definition exec_Leave :: "Instruction \<Rightarrow> CPU \<Rightarrow> MMU \<Rightarrow> (CPU \<times> MMU) option" where
  "exec_Leave op c u = do {
     bp \<leftarrow> get_r16 c R.BP;
     let c = set_r16 c R.SP bp;
     (bp, c) \<leftarrow> pop16 c u;
     Some (set_r16 c R.BP bp, u)
   }"

text \<open>\<open>Sldt\<close> prints only; \<open>Lar16\<close> has no arm.\<close>

definition exec_move :: "MoveOp \<Rightarrow> Instruction \<Rightarrow> CPU \<Rightarrow> MMU \<Rightarrow> (CPU \<times> MMU) option" where
  "exec_move k op c u = (case k of
     Enter \<Rightarrow> exec_Enter op c u | Lahf \<Rightarrow> exec_Lahf op c u | Lar16 \<Rightarrow> unhandled c u
   | Lds \<Rightarrow> exec_Lds op c u | Lea16 \<Rightarrow> exec_Lea16 op c u | Leave \<Rightarrow> exec_Leave op c u
   | Les \<Rightarrow> exec_Les op c u | Mov8 \<Rightarrow> exec_Mov8 op c u | Mov16 \<Rightarrow> exec_Mov16 op c u
   | Mov32 \<Rightarrow> exec_Mov32 op c u | Movsx16 \<Rightarrow> exec_Movsx16 op c u
   | Movsx32 \<Rightarrow> exec_Movsx32 op c u | Movzx16 \<Rightarrow> exec_Movzx16 op c u
   | Movzx32 \<Rightarrow> exec_Movzx32 op c u | Nop \<Rightarrow> Some (c, u)
   | Pop16 \<Rightarrow> exec_Pop16 op c u | Pop32 \<Rightarrow> exec_Pop32 op c u | Popa16 \<Rightarrow> exec_Popa16 op c u
   | Popad32 \<Rightarrow> exec_Popad32 op c u | Popf \<Rightarrow> exec_Popf op c u | Push16 \<Rightarrow> exec_Push16 op c u
   | Push32 \<Rightarrow> exec_Push32 op c u | Pusha16 \<Rightarrow> exec_Pusha16 op c u
   | Pushad32 \<Rightarrow> exec_Pushad32 op c u | Pushf \<Rightarrow> exec_Pushf op c u | Sahf \<Rightarrow> exec_Sahf op c u
   | Salc \<Rightarrow> exec_Salc op c u | Sldt \<Rightarrow> Some (c, u) | Xchg8 \<Rightarrow> exec_Xchg8 op c u
   | Xchg16 \<Rightarrow> exec_Xchg16 op c u | Xchg32 \<Rightarrow> exec_Xchg32 op c u | Xlatb \<Rightarrow> exec_Xlatb op c u)"

section \<open>Flag setters\<close>

definition exec_flag :: "FlagOp \<Rightarrow> CPU \<Rightarrow> CPU" where
  "exec_flag k c =
     (let f = cpu_flags c in with_flags c (case k of
        Clc \<Rightarrow> f\<lparr>carry := False\<rparr>
      | Cld \<Rightarrow> f\<lparr>direction := False\<rparr>
      | Cli \<Rightarrow> f\<lparr>interrupt := False\<rparr>
      | Cmc \<Rightarrow> f\<lparr>carry := \<not> carry f\<rparr>
      | Stc \<Rightarrow> f\<lparr>carry := True\<rparr>
      | Std \<Rightarrow> f\<lparr>direction := True\<rparr>
      | Sti \<Rightarrow> f\<lparr>interrupt := True\<rparr>))"

end
