(* ===== verification/X86_Exec_Flow.thy ===== *)
theory X86_Exec_Flow
  imports X86_Exec_Arith
begin

text \<open>
  Control flow and string instructions without port access: the arms of \<open>Machine::execute\<close>
  (\<open>dustbox/src/machine.rs\<close>), one definition per arm; the conditional jumps share the definition of
  their conditions. The conditions are parenthesised the way Rust parses them: \<open>&\<close> and \<open>|\<close> bind
  tighter than \<open>==\<close> and \<open>!=\<close>.
\<close>

unbundle bit_operations_syntax

section \<open>Jumps, calls, returns\<close>

text \<open>The flags and CX decide.\<close>

definition jump_taken :: "JumpCond \<Rightarrow> Flags \<Rightarrow> u16 \<Rightarrow> bool" where
  "jump_taken k f cx = (case k of
     Ja \<Rightarrow> \<not> carry f \<and> \<not> zero f
   | Jc \<Rightarrow> carry f
   | Jcxz \<Rightarrow> cx = 0
   | Jg \<Rightarrow> (\<not> zero f \<and> sign f) = overflow f
   | Jl \<Rightarrow> sign f \<noteq> overflow f
   | Jna \<Rightarrow> carry f \<or> zero f
   | Jnc \<Rightarrow> \<not> carry f
   | Jng \<Rightarrow> (zero f \<or> sign f) \<noteq> overflow f
   | Jnl \<Rightarrow> sign f = overflow f
   | Jno \<Rightarrow> \<not> overflow f
   | Jns \<Rightarrow> \<not> sign f
   | Jnz \<Rightarrow> \<not> zero f
   | Jo \<Rightarrow> overflow f
   | Jpe \<Rightarrow> parity f
   | Jpo \<Rightarrow> \<not> parity f
   | Js \<Rightarrow> sign f
   | Jz \<Rightarrow> zero f)"

definition exec_Jcc :: "JumpCond \<Rightarrow> Instruction \<Rightarrow> CPU \<Rightarrow> MMU \<Rightarrow> (CPU \<times> MMU) option" where
  "exec_Jcc k op c u = do {
     cx \<leftarrow> get_r16 c R.CX;
     if jump_taken k (cpu_flags c) cx
     then do {
       v \<leftarrow> read_parameter_value c u (op_dst op);
       Some (set_ip c (ucast v), u)
     }
     else Some (c, u)
   }"

definition exec_Jmp :: "Instruction \<Rightarrow> CPU \<Rightarrow> MMU \<Rightarrow> (CPU \<times> MMU) option" where
  "exec_Jmp op c u = do {
     v \<leftarrow> read_parameter_value c u (op_dst op);
     Some (set_ip c (ucast v), u)
   }"

text \<open>The far pointer of a far call or jump.\<close>

definition far_target :: "CPU \<Rightarrow> Parameter \<Rightarrow> (u16 \<times> u16) option" where
  "far_target c p = (case p of
     Ptr16Imm seg offs \<Rightarrow> Some (seg, offs)
   | Ptr16 seg offs \<Rightarrow> do { s \<leftarrow> segment c seg; Some (s, offs) }
   | Ptr16Amode seg a \<Rightarrow> do { s \<leftarrow> segment c seg; x \<leftarrow> amode c a; Some (s, ucast x) }
   | Ptr16AmodeS8 seg a imm \<Rightarrow> do { s \<leftarrow> segment c seg; x \<leftarrow> amode c a; Some (s, ucast (x + scast imm)) }
   | _ \<Rightarrow> None)"

definition exec_JmpFar :: "Instruction \<Rightarrow> CPU \<Rightarrow> MMU \<Rightarrow> (CPU \<times> MMU) option" where
  "exec_JmpFar op c u = do {
     (seg, offs) \<leftarrow> far_target c (op_dst op);
     Some (set_ip (set_r16 c R.CS seg) offs, u)
   }"

definition exec_CallNear :: "Instruction \<Rightarrow> CPU \<Rightarrow> MMU \<Rightarrow> (CPU \<times> MMU) option" where
  "exec_CallNear op c u = do {
     let old_ip = cpu_ip c;
     temp_ip \<leftarrow> read_parameter_value c u (op_dst op);
     (c, u) \<leftarrow> push16 c u old_ip;
     Some (set_ip c (ucast temp_ip), u)
   }"

definition exec_CallFar :: "Instruction \<Rightarrow> CPU \<Rightarrow> MMU \<Rightarrow> (CPU \<times> MMU) option" where
  "exec_CallFar op c u = do {
     old_seg \<leftarrow> get_r16 c R.CS;
     let old_ip = cpu_ip c;
     (c, u) \<leftarrow> push16 c u old_seg;
     (c, u) \<leftarrow> push16 c u old_ip;
     (seg, offs) \<leftarrow> far_target c (op_dst op);
     Some (set_ip (set_r16 c R.CS seg) offs, u)
   }"

definition exec_Retn :: "Instruction \<Rightarrow> CPU \<Rightarrow> MMU \<Rightarrow> (CPU \<times> MMU) option" where
  "exec_Retn op c u = do {
     (val, c) \<leftarrow> pop16 c u;
     let c = set_ip c val;
     if param_count (params op) = 1 then do {
       v \<leftarrow> read_parameter_value c u (op_dst op);
       let imm16 = (ucast v :: u16);
       sp \<leftarrow> get_r16 c R.SP;
       Some (set_r16 c R.SP (sp + imm16), u)
     }
     else Some (c, u)
   }"

definition exec_Retf :: "Instruction \<Rightarrow> CPU \<Rightarrow> MMU \<Rightarrow> (CPU \<times> MMU) option" where
  "exec_Retf op c u = do {
     c \<leftarrow> (if param_count (params op) = 1 then do {
         v \<leftarrow> read_parameter_value c u (op_dst op);
         let imm16 = (ucast v :: u16);
         sp \<leftarrow> get_r16 c R.SP;
         sp \<leftarrow> add_chk sp imm16;
         Some (set_r16 c R.SP sp)
       }
       else Some c);
     (ip, c) \<leftarrow> pop16 c u;
     let c = set_ip c ip;
     (cs, c) \<leftarrow> pop16 c u;
     Some (set_r16 c R.CS cs, u)
   }"

definition exec_Int :: "Instruction \<Rightarrow> CPU \<Rightarrow> MMU \<Rightarrow> (CPU \<times> MMU) option" where
  "exec_Int op c u = do {
     n \<leftarrow> read_parameter_imm (op_dst op);
     execute_interrupt c u (ucast n)
   }"

definition exec_Iret :: "Instruction \<Rightarrow> CPU \<Rightarrow> MMU \<Rightarrow> (CPU \<times> MMU) option" where
  "exec_Iret op c u = do {
     (ip, c) \<leftarrow> pop16 c u;
     let c = set_ip c ip;
     (cs, c) \<leftarrow> pop16 c u;
     let c = set_r16 c R.CS cs;
     (flags, c) \<leftarrow> pop16 c u;
     let c = with_flags c (flags_set_u16 (cpu_flags c) flags);
     Some (c, u\<lparr>flags_address := Unset\<rparr>)
   }"

definition exec_Loop :: "(Flags \<Rightarrow> bool) \<Rightarrow> Instruction \<Rightarrow> CPU \<Rightarrow> MMU \<Rightarrow> (CPU \<times> MMU) option" where
  "exec_Loop cond op c u = do {
     v \<leftarrow> read_parameter_value c u (op_dst op);
     let dst = (ucast v :: u16);
     cx \<leftarrow> get_r16 c R.CX;
     let cx = cx - 1;
     let c = set_r16 c R.CX cx;
     if cx \<noteq> 0 \<and> cond (cpu_flags c) then Some (set_ip c dst, u) else Some (c, u)
   }"

text \<open>\<open>Hlt\<close> does nothing; \<open>Into\<close> and \<open>RetImm16\<close> have no arm.\<close>

definition exec_flow :: "FlowOp \<Rightarrow> Instruction \<Rightarrow> CPU \<Rightarrow> MMU \<Rightarrow> (CPU \<times> MMU) option" where
  "exec_flow k op c u = (case k of
     CallNear \<Rightarrow> exec_CallNear op c u | CallFar \<Rightarrow> exec_CallFar op c u | Hlt \<Rightarrow> Some (c, u)
   | IntN \<Rightarrow> exec_Int op c u | Into \<Rightarrow> unhandled c u | Iret \<Rightarrow> exec_Iret op c u
   | Jcc j \<Rightarrow> exec_Jcc j op c u | JmpShort \<Rightarrow> exec_Jmp op c u | JmpNear \<Rightarrow> exec_Jmp op c u
   | JmpFar \<Rightarrow> exec_JmpFar op c u
   | Loop \<Rightarrow> exec_Loop (\<lambda>_. True) op c u
   | Loope \<Rightarrow> exec_Loop zero op c u
   | Loopne \<Rightarrow> exec_Loop (\<lambda>f. \<not> zero f) op c u
   | Retn \<Rightarrow> exec_Retn op c u | Retf \<Rightarrow> exec_Retf op c u | RetImm16 \<Rightarrow> unhandled c u)"

section \<open>String instructions\<close>

text \<open>SI or DI moves by the operand size, up or down by the direction flag, wrapping.\<close>

definition advance :: "CPU \<Rightarrow> R \<Rightarrow> u16 \<Rightarrow> CPU option" where
  "advance c r n = do {
     x \<leftarrow> get_r16 c r;
     let x = (if \<not> direction (cpu_flags c) then x + n else x - n);
     Some (set_r16 c r x)
   }"

definition exec_Cmpsb :: "Instruction \<Rightarrow> CPU \<Rightarrow> MMU \<Rightarrow> (CPU \<times> MMU) option" where
  "exec_Cmpsb op c u = do {
     seg \<leftarrow> segment c (segment_prefix op);
     si \<leftarrow> get_r16 c R.SI;
     src \<leftarrow> mmu_read_u16 u seg si;
     es \<leftarrow> get_r16 c R.ES;
     di \<leftarrow> get_r16 c R.DI;
     dst \<leftarrow> mmu_read_u16 u es di;
     let c = cmp8 c (ucast dst) (ucast src);
     c \<leftarrow> advance c R.SI 1;
     c \<leftarrow> advance c R.DI 1;
     Some (c, u)
   }"

definition exec_Cmpsw :: "Instruction \<Rightarrow> CPU \<Rightarrow> MMU \<Rightarrow> (CPU \<times> MMU) option" where
  "exec_Cmpsw op c u = do {
     seg \<leftarrow> segment c (segment_prefix op);
     si \<leftarrow> get_r16 c R.SI;
     src \<leftarrow> mmu_read_u16 u seg si;
     es \<leftarrow> get_r16 c R.ES;
     di \<leftarrow> get_r16 c R.DI;
     dst \<leftarrow> mmu_read_u16 u es di;
     let c = cmp16 c (ucast dst) (ucast src);
     c \<leftarrow> advance c R.SI 2;
     c \<leftarrow> advance c R.DI 2;
     Some (c, u)
   }"

definition exec_Lodsb :: "Instruction \<Rightarrow> CPU \<Rightarrow> MMU \<Rightarrow> (CPU \<times> MMU) option" where
  "exec_Lodsb op c u = do {
     seg \<leftarrow> segment c (segment_prefix op);
     si \<leftarrow> get_r16 c R.SI;
     val \<leftarrow> mmu_read_u8 u seg si;
     c \<leftarrow> set_r8 c R.AL val;
     c \<leftarrow> advance c R.SI 1;
     Some (c, u)
   }"

definition exec_Lodsw :: "Instruction \<Rightarrow> CPU \<Rightarrow> MMU \<Rightarrow> (CPU \<times> MMU) option" where
  "exec_Lodsw op c u = do {
     seg \<leftarrow> segment c (segment_prefix op);
     si \<leftarrow> get_r16 c R.SI;
     val \<leftarrow> mmu_read_u16 u seg si;
     let c = set_r16 c R.AX val;
     c \<leftarrow> advance c R.SI 2;
     Some (c, u)
   }"

definition exec_Lodsd :: "Instruction \<Rightarrow> CPU \<Rightarrow> MMU \<Rightarrow> (CPU \<times> MMU) option" where
  "exec_Lodsd op c u = do {
     seg \<leftarrow> segment c (segment_prefix op);
     si \<leftarrow> get_r16 c R.SI;
     val \<leftarrow> mmu_read_u32 u seg si;
     c \<leftarrow> set_r32 c R.EAX val;
     c \<leftarrow> advance c R.SI 4;
     Some (c, u)
   }"

definition exec_Movsb :: "Instruction \<Rightarrow> CPU \<Rightarrow> MMU \<Rightarrow> (CPU \<times> MMU) option" where
  "exec_Movsb op c u = do {
     seg \<leftarrow> segment c (segment_prefix op);
     si \<leftarrow> get_r16 c R.SI;
     val \<leftarrow> mmu_read_u8 u seg si;
     c \<leftarrow> advance c R.SI 1;
     es \<leftarrow> get_r16 c R.ES;
     di \<leftarrow> get_r16 c R.DI;
     u \<leftarrow> mmu_write_u8 u es di val;
     c \<leftarrow> advance c R.DI 1;
     Some (c, u)
   }"

definition exec_Movsw :: "Instruction \<Rightarrow> CPU \<Rightarrow> MMU \<Rightarrow> (CPU \<times> MMU) option" where
  "exec_Movsw op c u = do {
     seg \<leftarrow> segment c (segment_prefix op);
     si \<leftarrow> get_r16 c R.SI;
     val \<leftarrow> mmu_read_u16 u seg si;
     c \<leftarrow> advance c R.SI 2;
     es \<leftarrow> get_r16 c R.ES;
     di \<leftarrow> get_r16 c R.DI;
     u \<leftarrow> mmu_write_u16 u es di val;
     c \<leftarrow> advance c R.DI 2;
     Some (c, u)
   }"

definition exec_Movsd :: "Instruction \<Rightarrow> CPU \<Rightarrow> MMU \<Rightarrow> (CPU \<times> MMU) option" where
  "exec_Movsd op c u = do {
     seg \<leftarrow> segment c (segment_prefix op);
     si \<leftarrow> get_r16 c R.SI;
     val \<leftarrow> mmu_read_u32 u seg si;
     c \<leftarrow> advance c R.SI 4;
     es \<leftarrow> get_r16 c R.ES;
     di \<leftarrow> get_r16 c R.DI;
     u \<leftarrow> mmu_write_u32 u es di val;
     c \<leftarrow> advance c R.DI 4;
     Some (c, u)
   }"

definition exec_Scasb :: "Instruction \<Rightarrow> CPU \<Rightarrow> MMU \<Rightarrow> (CPU \<times> MMU) option" where
  "exec_Scasb op c u = do {
     src \<leftarrow> get_r8 c R.AL;
     es \<leftarrow> get_r16 c R.ES;
     di \<leftarrow> get_r16 c R.DI;
     dst \<leftarrow> mmu_read_u8 u es di;
     let c = cmp8 c (ucast dst) (ucast src);
     c \<leftarrow> advance c R.DI 1;
     Some (c, u)
   }"

definition exec_Scasw :: "Instruction \<Rightarrow> CPU \<Rightarrow> MMU \<Rightarrow> (CPU \<times> MMU) option" where
  "exec_Scasw op c u = do {
     src \<leftarrow> get_r16 c R.AX;
     es \<leftarrow> get_r16 c R.ES;
     di \<leftarrow> get_r16 c R.DI;
     dst \<leftarrow> mmu_read_u16 u es di;
     let c = cmp16 c (ucast dst) (ucast src);
     c \<leftarrow> advance c R.DI 2;
     Some (c, u)
   }"

definition exec_Stosb :: "Instruction \<Rightarrow> CPU \<Rightarrow> MMU \<Rightarrow> (CPU \<times> MMU) option" where
  "exec_Stosb op c u = do {
     al \<leftarrow> get_r8 c R.AL;
     es \<leftarrow> get_r16 c R.ES;
     di \<leftarrow> get_r16 c R.DI;
     u \<leftarrow> mmu_write_u8 u es di al;
     c \<leftarrow> advance c R.DI 1;
     Some (c, u)
   }"

definition exec_Stosw :: "Instruction \<Rightarrow> CPU \<Rightarrow> MMU \<Rightarrow> (CPU \<times> MMU) option" where
  "exec_Stosw op c u = do {
     ax \<leftarrow> get_r16 c R.AX;
     es \<leftarrow> get_r16 c R.ES;
     di \<leftarrow> get_r16 c R.DI;
     u \<leftarrow> mmu_write_u16 u es di ax;
     c \<leftarrow> advance c R.DI 2;
     Some (c, u)
   }"

definition exec_Stosd :: "Instruction \<Rightarrow> CPU \<Rightarrow> MMU \<Rightarrow> (CPU \<times> MMU) option" where
  "exec_Stosd op c u = do {
     eax \<leftarrow> get_r32 c R.EAX;
     es \<leftarrow> get_r16 c R.ES;
     di \<leftarrow> get_r16 c R.DI;
     u \<leftarrow> mmu_write_u32 u es di eax;
     c \<leftarrow> advance c R.DI 4;
     Some (c, u)
   }"

section \<open>The repeat suffix\<close>

text \<open>
  The end of \<open>execute\<close>: a repeat prefix counts CX down, wrapping, and goes back to the start of the
  instruction while CX is not 0 and the zero flag allows it.
\<close>

definition repeat_suffix :: "RepeatMode \<Rightarrow> u16 \<Rightarrow> CPU \<Rightarrow> CPU option" where
  "repeat_suffix r start_ip c =
     (if r = RepNone then Some c
      else do {
        cx \<leftarrow> get_r16 c R.CX;
        let cx = cx - 1;
        let c = set_r16 c R.CX cx;
        let again = (case r of
            Rep \<Rightarrow> cx \<noteq> 0
          | Repe \<Rightarrow> cx \<noteq> 0 \<and> zero (cpu_flags c)
          | Repne \<Rightarrow> cx \<noteq> 0 \<and> \<not> zero (cpu_flags c)
          | RepNone \<Rightarrow> False);
        Some (if again then set_ip c start_ip else c)
      })"

end
