(* ===== verification/X86_Device.thy ===== *)
theory X86_Device
  imports X86_Operands
begin

text \<open>
  The interface of a device (\<open>trait Component\<close> in machine.rs): reading and writing an I/O port and
  handling an interrupt, each of which says whether the device handled the request. A panic of the
  device is \<open>None\<close>; a port read that the device does not handle is \<open>Some (None, d)\<close>.

  The locale \<open>device\<close> is what the dispatch of the machine relies on: a request that a device declines
  has not changed it.
\<close>

type_synonym 'd port_in = "'d \<Rightarrow> u16 \<Rightarrow> (u8 option \<times> 'd) option"
type_synonym 'd port_out = "'d \<Rightarrow> u16 \<Rightarrow> u8 \<Rightarrow> (bool \<times> 'd) option"
type_synonym 'd int_handler = "'d \<Rightarrow> u8 \<Rightarrow> CPU \<Rightarrow> MMU \<Rightarrow> (bool \<times> 'd \<times> CPU \<times> MMU) option"

text \<open>The defaults of the trait.\<close>

definition no_in_u8 :: "'d port_in" where "no_in_u8 d port = Some (None, d)"
definition no_out_u8 :: "'d port_out" where "no_out_u8 d port v = Some (False, d)"
definition no_int :: "'d int_handler" where "no_int d n c u = Some (False, d, c, u)"

locale device =
  fixes inp :: "'d port_in"
    and outp :: "'d port_out"
    and intr :: "'d int_handler"
  assumes in_declined: "inp d port = Some (None, d') \<Longrightarrow> d' = d"
    and out_declined: "outp d port v = Some (False, d') \<Longrightarrow> d' = d"
    and intr_declined: "intr d n c u = Some (False, d', c', u') \<Longrightarrow> d' = d \<and> c' = c \<and> u' = u"
begin

text \<open>The device answers a port with a value, or is as before.\<close>

lemma in_cases:
  assumes "inp d port = Some (r, d')"
  obtains (answered) v where "r = Some v" | (declined) "r = None" "d' = d"
  using assms in_declined by (cases r) auto

lemma out_cases:
  assumes "outp d port v = Some (b, d')"
  obtains (taken) "b" | (declined) "\<not> b" "d' = d"
  using assms out_declined by (cases b) auto

end

end
