(* ===== verification/X86_Pic.thy ===== *)
theory X86_Pic
  imports X86_Device
begin

text \<open>
  The interrupt controller (\<open>dustbox/src/pic.rs\<close>): the command and mask registers at \<open>io_base\<close> and
  \<open>io_base + 1\<close>. The machine has two, at 0x20 and 0xA0.
\<close>

unbundle bit_operations_syntax

datatype OperationMode =
    Clear | NonspecificEOI | NoOperation | SpecificEOI | SetAutoEOI
  | RotateOnNonspecificEOICommand | SetPriorityCommand | RotateOnSpecificEOICommand

record PIC =
  pic_command :: u8
  pic_data :: u8
  pic_io_base :: u16
  pic_operation :: OperationMode

definition PIC_new :: "u16 \<Rightarrow> PIC" where
  "PIC_new base = \<lparr>pic_command = 0, pic_data = 0, pic_io_base = base, pic_operation = NoOperation\<rparr>"

definition get_ocw1 :: "PIC \<Rightarrow> u8" where "get_ocw1 p = 0"

definition get_register :: "PIC \<Rightarrow> u8" where "get_register p = 0"

text \<open>
  Bits 4 and 3 select the command word: OCW2 sets the operation, OCW3 is accepted and ignored, and
  an initialisation word (ICW1, bit 4) panics, after the command register has been written.
\<close>

definition set_command :: "PIC \<Rightarrow> u8 \<Rightarrow> PIC option" where
  "set_command p val =
     (let p = p\<lparr>pic_command := val\<rparr>;
          kind = drop_bit 3 val AND 3
      in if kind = 0 then
           (let operation = drop_bit 5 val AND 7;
                m = (if operation = 0 then Clear
                  else if operation = 1 then NonspecificEOI
                  else if operation = 2 then NoOperation
                  else if operation = 3 then SpecificEOI
                  else if operation = 4 then SetAutoEOI
                  else if operation = 5 then RotateOnNonspecificEOICommand
                  else if operation = 6 then SetPriorityCommand
                  else RotateOnSpecificEOICommand)
            in Some (p\<lparr>pic_operation := m\<rparr>))
         else if kind = 1 then Some p
         else None)"

definition set_data :: "PIC \<Rightarrow> u8 \<Rightarrow> PIC" where
  "set_data p val = p\<lparr>pic_data := val\<rparr>"

definition pic_in_u8 :: "PIC port_in" where
  "pic_in_u8 p port =
     (if port < pic_io_base p then Some (None, p)
      else if port - pic_io_base p = 0 then Some (Some (get_register p), p)
      else if port - pic_io_base p = 1 then Some (Some (get_ocw1 p), p)
      else Some (None, p))"

definition pic_out_u8 :: "PIC port_out" where
  "pic_out_u8 p port v =
     (if port < pic_io_base p then Some (False, p)
      else if port - pic_io_base p = 0 then map_option (\<lambda>p. (True, p)) (set_command p v)
      else if port - pic_io_base p = 1 then Some (True, set_data p v)
      else Some (False, p))"

interpretation pic: device pic_in_u8 pic_out_u8 no_int
  by unfold_locales (auto simp: pic_in_u8_def pic_out_u8_def no_int_def split: if_splits)

lemma pic_out_base [simp]: "pic_out_u8 p port v = Some (b, p') \<Longrightarrow> pic_io_base p' = pic_io_base p"
  by (auto simp: pic_out_u8_def set_command_def set_data_def Let_def split: if_splits)

text \<open>Writing the command port panics exactly on the initialisation words (bit 4 set).\<close>

lemma low_two_bits:
  fixes x :: u8
  shows "x AND 3 = 0 \<longleftrightarrow> \<not> bit x 0 \<and> \<not> bit x 1" "x AND 3 = 1 \<longleftrightarrow> bit x 0 \<and> \<not> bit x 1"
proof -
  have m: "(3 :: u8) = mask 2" by (simp add: mask_eq_exp_minus_1)
  have all: "(\<forall>n. bit (x AND 3) n = (n = 0 \<and> b)) \<longleftrightarrow> bit x 0 = b \<and> \<not> bit x 1" for b
  proof
    assume "\<forall>n. bit (x AND 3) n = (n = 0 \<and> b)"
    from spec [OF this, of 0] spec [OF this, of 1] show "bit x 0 = b \<and> \<not> bit x 1"
      unfolding m by (simp add: bit_simps)
  next
    assume "bit x 0 = b \<and> \<not> bit x 1"
    then show "\<forall>n. bit (x AND 3) n = (n = 0 \<and> b)"
      unfolding m by (auto simp: bit_simps less_2_cases_iff)
  qed
  have e: "x AND 3 = y \<longleftrightarrow> (\<forall>n. bit (x AND 3) n = bit y n)" for y :: u8
    by (metis bit_word_eqI)
  show "x AND 3 = 0 \<longleftrightarrow> \<not> bit x 0 \<and> \<not> bit x 1" unfolding e using all [of False] by simp
  show "x AND 3 = 1 \<longleftrightarrow> bit x 0 \<and> \<not> bit x 1" unfolding e using all [of True] by (simp add: bit_1_iff)
qed

lemma set_command_defined: "set_command p v = None \<longleftrightarrow> bit v 4"
  by (auto simp: set_command_def Let_def low_two_bits bit_drop_bit_eq numeral_eq_Suc)

end
