(* ===== verification/X86_Pit.thy ===== *)
theory X86_Pit
  imports X86_Device
begin

text \<open>
  The interval timer (\<open>dustbox/src/pit.rs\<close>): three counters behind ports 0x40 to 0x42, the mode
  command at 0x43 and the time-of-day services of INT 1A. The ticks since midnight that \<open>PIT::init\<close>
  computes from the host's clock are an argument.
\<close>

unbundle bit_operations_syntax

datatype AccessMode = LatchCountValue | LoByteOnly | HiByteOnly | LoByteHiByte

datatype OperatingMode = Mode0 | Mode1 | Mode2 | Mode3 | Mode4 | Mode5

datatype BcdMode = SixteenBitBinary | FourDigitBCD

record Timer =
  tm_count :: u32
  tm_reload :: u16
  tm_latch :: u32
  tm_hi :: bool
  tm_channel :: u8
  access_mode :: AccessMode
  operating_mode :: OperatingMode
  bcd_mode :: BcdMode

definition Timer_new :: "u8 \<Rightarrow> Timer" where
  "Timer_new ch = \<lparr>tm_count = 0, tm_reload = 0, tm_latch = 0, tm_hi = False, tm_channel = ch,
     access_mode = LoByteHiByte, operating_mode = Mode0, bcd_mode = SixteenBitBinary\<rparr>"

definition timer_inc :: "Timer \<Rightarrow> Timer option" where
  "timer_inc t = do {
     n \<leftarrow> add_chk (tm_count t) 1;
     Some (t\<lparr>tm_count := if n \<ge> 0x1800B0 then 0 else n\<rparr>)
   }"

definition get_next_u8 :: "Timer \<Rightarrow> (u8 \<times> Timer) option" where
  "get_next_u8 t = (case access_mode t of
     LatchCountValue \<Rightarrow>
       (let res = (if tm_hi t then ucast (drop_bit 8 (tm_latch t)) else ucast (tm_latch t AND 0xFF))
        in Some (res, t\<lparr>tm_hi := \<not> tm_hi t\<rparr>))
   | LoByteHiByte \<Rightarrow>
       (let res = (if tm_hi t then ucast (drop_bit 8 (tm_count t)) else ucast (tm_count t AND 0xFF))
        in Some (res, t\<lparr>tm_hi := \<not> tm_hi t\<rparr>))
   | LoByteOnly \<Rightarrow> None
   | HiByteOnly \<Rightarrow> None)"

definition write_reload_part :: "Timer \<Rightarrow> u8 \<Rightarrow> Timer option" where
  "write_reload_part t val = (case access_mode t of
     LatchCountValue \<Rightarrow> None
   | LoByteHiByte \<Rightarrow>
       Some (t\<lparr>tm_reload := if tm_hi t then (tm_reload t AND 0x00FF) OR push_bit 8 (ucast val)
                         else (tm_reload t AND 0xFF00) OR ucast val,
               tm_hi := \<not> tm_hi t\<rparr>)
   | LoByteOnly \<Rightarrow> Some (t\<lparr>tm_reload := (tm_reload t AND 0xFF00) OR ucast val\<rparr>)
   | HiByteOnly \<Rightarrow> Some (t\<lparr>tm_reload := (tm_reload t AND 0x00FF) OR push_bit 8 (ucast val)\<rparr>))"

definition set_mode :: "Timer \<Rightarrow> u8 \<Rightarrow> u8 \<Rightarrow> u8 \<Rightarrow> Timer option" where
  "set_mode t am om bm = do {
     t \<leftarrow> (if am = 0 then Some (t\<lparr>tm_latch := tm_count t, access_mode := LatchCountValue\<rparr>)
       else if am = 1 then Some (t\<lparr>access_mode := LoByteOnly\<rparr>)
       else if am = 2 then Some (t\<lparr>access_mode := HiByteOnly\<rparr>)
       else if am = 3 then Some (t\<lparr>access_mode := LoByteHiByte\<rparr>)
       else None);
     t \<leftarrow> (if om = 0 then Some (t\<lparr>operating_mode := Mode0\<rparr>)
       else if om = 1 then Some (t\<lparr>operating_mode := Mode1\<rparr>)
       else if om = 2 \<or> om = 6 then Some (t\<lparr>operating_mode := Mode2\<rparr>)
       else if om = 3 \<or> om = 7 then Some (t\<lparr>operating_mode := Mode3\<rparr>)
       else if om = 4 then Some (t\<lparr>operating_mode := Mode4\<rparr>)
       else if om = 5 then Some (t\<lparr>operating_mode := Mode5\<rparr>)
       else None);
     if bm = 0 then Some (t\<lparr>bcd_mode := SixteenBitBinary\<rparr>) else None
   }"

record PIT =
  timer0 :: Timer
  timer1 :: Timer
  timer2 :: Timer

definition PIT_default :: PIT where
  "PIT_default = \<lparr>timer0 = Timer_new 0, timer1 = Timer_new 1, timer2 = Timer_new 2\<rparr>"

definition pit_init :: "u32 \<Rightarrow> PIT \<Rightarrow> PIT" where
  "pit_init ticks p = p\<lparr>timer0 := (timer0 p)\<lparr>tm_count := ticks\<rparr>\<rparr>"

definition pit_update :: "PIT \<Rightarrow> MMU \<Rightarrow> (PIT \<times> MMU) option" where
  "pit_update p u = do {
     t \<leftarrow> timer_inc (timer0 p);
     u \<leftarrow> mmu_write_u32 u 0x0040 0x006C (tm_count t);
     Some (p\<lparr>timer0 := t\<rparr>, u)
   }"

definition counter :: "PIT \<Rightarrow> u8 \<Rightarrow> Timer option" where
  "counter p n =
     (if n = 0 then Some (timer0 p) else if n = 1 then Some (timer1 p) else if n = 2 then Some (timer2 p) else None)"

definition put_counter :: "PIT \<Rightarrow> u8 \<Rightarrow> Timer \<Rightarrow> PIT" where
  "put_counter p n t =
     (if n = 0 then p\<lparr>timer0 := t\<rparr> else if n = 1 then p\<lparr>timer1 := t\<rparr> else p\<lparr>timer2 := t\<rparr>)"

definition set_mode_command :: "PIT \<Rightarrow> u8 \<Rightarrow> PIT option" where
  "set_mode_command p val =
     (let ch = drop_bit 6 val AND 3; am = drop_bit 4 val AND 3; om = drop_bit 1 val AND 7; bm = val AND 1
      in if ch = 3 then None
         else do {
           t \<leftarrow> counter p ch;
           t \<leftarrow> set_mode t am om bm;
           Some (put_counter p ch t)
         })"

definition pit_in_u8 :: "PIT port_in" where
  "pit_in_u8 p port =
     (if port = 0x40 then do { (v, t) \<leftarrow> get_next_u8 (timer0 p); Some (Some v, p\<lparr>timer0 := t\<rparr>) }
      else if port = 0x41 then do { (v, t) \<leftarrow> get_next_u8 (timer1 p); Some (Some v, p\<lparr>timer1 := t\<rparr>) }
      else if port = 0x42 then do { (v, t) \<leftarrow> get_next_u8 (timer2 p); Some (Some v, p\<lparr>timer2 := t\<rparr>) }
      else Some (None, p))"

definition pit_out_u8 :: "PIT port_out" where
  "pit_out_u8 p port v =
     (if port = 0x40 then do { t \<leftarrow> write_reload_part (timer0 p) v; Some (True, p\<lparr>timer0 := t\<rparr>) }
      else if port = 0x41 then do { t \<leftarrow> write_reload_part (timer1 p) v; Some (True, p\<lparr>timer1 := t\<rparr>) }
      else if port = 0x42 then do { t \<leftarrow> write_reload_part (timer2 p) v; Some (True, p\<lparr>timer2 := t\<rparr>) }
      else if port = 0x43 then do { p \<leftarrow> set_mode_command p v; Some (True, p) }
      else Some (False, p))"

definition pit_int :: "PIT int_handler" where
  "pit_int p n c u =
     (if n \<noteq> 0x1A then Some (False, p, c, u)
      else do {
        ah \<leftarrow> get_r8 c R.AH;
        if ah = 0x00 then
          (if deterministic c then do {
             let c = set_r16 c R.CX 0;
             let c = set_r16 c R.DX 0;
             c \<leftarrow> set_r8 c R.AL 0;
             Some (True, p, c, u)
           } else do {
             let cx = (ucast (drop_bit 16 (tm_count (timer0 p))) :: u16);
             let dx = (ucast (tm_count (timer0 p) AND 0xFFFF) :: u16);
             let c = set_r16 c R.CX cx;
             let c = set_r16 c R.DX dx;
             c \<leftarrow> set_r8 c R.AL 0;
             Some (True, p, c, u)
           })
        else if ah = 0x01 then do {
          cx \<leftarrow> get_r16 c R.CX;
          dx \<leftarrow> get_r16 c R.DX;
          let ticks = push_bit 16 (ucast cx :: u32) OR ucast dx;
          Some (True, p\<lparr>timer0 := (timer0 p)\<lparr>tm_count := ticks\<rparr>\<rparr>, c, u)
        }
        else Some (False, p, c, u)
      })"

interpretation pit: device pit_in_u8 pit_out_u8 pit_int
  by unfold_locales
    (auto simp: pit_in_u8_def pit_out_u8_def pit_int_def bind_Some_iff Let_def split: if_splits)

end
