(* ===== verification/X86_Keyboard.thy ===== *)
theory X86_Keyboard
  imports X86_Device
begin

text \<open>
  The keyboard (\<open>dustbox/src/keyboard.rs\<close>): the presses that the host has queued, the controller's
  status byte, the ports 0x60, 0x61 and 0x64, and INT 16. \<open>Keycode\<close> and \<open>Mod\<close> belong to the
  \<open>sdl2\<close> crate: a \<open>Keycode\<close> is given by the name
  of its variant, a \<open>Mod\<close> that the source does not name is an \<open>OtherMod\<close>; the source only
  compares them. A match on key codes is a table from the variant to the pair of codes.
\<close>

unbundle bit_operations_syntax

datatype Keycode = Keycode string

datatype Mod = LSHIFTMOD | RSHIFTMOD | LCTRLMOD | RCTRLMOD | LALTMOD | RALTMOD | OtherMod nat

record Keypress =
  keycode :: Keycode
  modifier :: Mod

definition normal_codes :: "(string \<times> u8 \<times> u8) list" where
  "normal_codes = [
    (''Escape'', 0x01, 0x1B), (''Num1'', 0x02, 0x31), (''Num2'', 0x03, 0x32), (''Num3'', 0x04, 0x33),
    (''Num4'', 0x05, 0x34), (''Num5'', 0x06, 0x35), (''Num6'', 0x07, 0x36), (''Num7'', 0x08, 0x37),
    (''Num8'', 0x09, 0x38), (''Num9'', 0x0A, 0x39), (''Num0'', 0x0B, 0x30), (''Minus'', 0x0C, 0x2D),
    (''Equals'', 0x0D, 0x3D), (''Backspace'', 0x0E, 0x08), (''Tab'', 0x0F, 0x09), (''Q'', 0x10, 0x71),
    (''W'', 0x11, 0x77), (''E'', 0x12, 0x65), (''R'', 0x13, 0x72), (''T'', 0x14, 0x74),
    (''Y'', 0x15, 0x79), (''U'', 0x16, 0x75), (''I'', 0x17, 0x69), (''O'', 0x18, 0x6F),
    (''P'', 0x19, 0x70), (''LeftBracket'', 0x1A, 0x5B), (''RightBracket'', 0x1B, 0x5D),
    (''Return'', 0x1C, 0x0D), (''A'', 0x1E, 0x61), (''S'', 0x1F, 0x73), (''D'', 0x20, 0x64),
    (''F'', 0x21, 0x66), (''G'', 0x22, 0x67), (''H'', 0x23, 0x68), (''J'', 0x24, 0x6A),
    (''K'', 0x25, 0x6B), (''L'', 0x26, 0x6C), (''Colon'', 0x27, 0x3B), (''Quote'', 0x28, 0x27),
    (''Caret'', 0x29, 0x60), (''Backslash'', 0x2B, 0x5C), (''Z'', 0x2C, 0x7A), (''X'', 0x2D, 0x78),
    (''C'', 0x2E, 0x63), (''V'', 0x2F, 0x76), (''B'', 0x30, 0x62), (''N'', 0x31, 0x6E),
    (''M'', 0x32, 0x6D), (''Comma'', 0x33, 0x2C), (''Period'', 0x34, 0x2E), (''Slash'', 0x35, 0x2F),
    (''Asterisk'', 0x37, 0x2A), (''Space'', 0x39, 0x20), (''F1'', 0x3B, 0x00), (''F2'', 0x3C, 0x00),
    (''F3'', 0x3D, 0x00), (''F4'', 0x3E, 0x00), (''F5'', 0x3F, 0x00), (''F6'', 0x40, 0x00),
    (''F7'', 0x41, 0x00), (''F8'', 0x42, 0x00), (''F9'', 0x43, 0x00), (''F10'', 0x44, 0x00),
    (''Home'', 0x47, 0x00), (''Up'', 0x48, 0x00), (''PageUp'', 0x49, 0x00), (''KpMinus'', 0x4A, 0x2D),
    (''Left'', 0x4B, 0x00), (''Right'', 0x4D, 0x00), (''KpPlus'', 0x4E, 0x2B), (''End'', 0x4F, 0x00),
    (''Down'', 0x50, 0x00), (''PageDown'', 0x51, 0x00), (''Insert'', 0x52, 0x00),
    (''Delete'', 0x53, 0x00)]"

definition to_std_normal :: "Keycode \<Rightarrow> u8 \<times> u8" where
  "to_std_normal k = (case k of Keycode v \<Rightarrow>
     (case map_of normal_codes v of Some codes \<Rightarrow> codes | None \<Rightarrow> (0, 0)))"

definition shift_codes :: "(string \<times> u8 \<times> u8) list" where
  "shift_codes = [
    (''Escape'', 0x01, 0x1B), (''Num1'', 0x02, 0x21), (''Num2'', 0x03, 0x40), (''Num3'', 0x04, 0x23),
    (''Num4'', 0x05, 0x24), (''Num5'', 0x06, 0x25), (''Num6'', 0x07, 0x5E), (''Num7'', 0x08, 0x26),
    (''Num8'', 0x09, 0x2A), (''Num9'', 0x0A, 0x28), (''Num0'', 0x0B, 0x29), (''Minus'', 0x0C, 0x5F),
    (''Equals'', 0x0D, 0x2B), (''Backspace'', 0x0E, 0x08), (''Tab'', 0x0F, 0x00), (''Q'', 0x10, 0x51),
    (''W'', 0x11, 0x57), (''E'', 0x12, 0x45), (''R'', 0x13, 0x52), (''T'', 0x14, 0x54),
    (''Y'', 0x15, 0x59), (''U'', 0x16, 0x55), (''I'', 0x17, 0x49), (''O'', 0x18, 0x4F),
    (''P'', 0x19, 0x50), (''LeftBracket'', 0x1A, 0x7B), (''RightBracket'', 0x1B, 0x7D),
    (''Return'', 0x1C, 0x0D), (''A'', 0x1E, 0x41), (''S'', 0x1F, 0x53), (''D'', 0x20, 0x44),
    (''F'', 0x21, 0x46), (''G'', 0x22, 0x47), (''H'', 0x23, 0x48), (''J'', 0x24, 0x4A),
    (''K'', 0x25, 0x4B), (''L'', 0x26, 0x4C), (''Colon'', 0x27, 0x3A), (''Quote'', 0x28, 0x22),
    (''Caret'', 0x29, 0x7E), (''Backslash'', 0x2B, 0x7C), (''Z'', 0x2C, 0x5A), (''X'', 0x2D, 0x58),
    (''C'', 0x2E, 0x43), (''V'', 0x2F, 0x56), (''B'', 0x30, 0x42), (''N'', 0x31, 0x4E),
    (''M'', 0x32, 0x4D), (''Comma'', 0x33, 0x3C), (''Period'', 0x34, 0x3E), (''Slash'', 0x35, 0x3F),
    (''Asterisk'', 0x37, 0x2A), (''Space'', 0x39, 0x20), (''F1'', 0x54, 0x00), (''F2'', 0x55, 0x00),
    (''F3'', 0x56, 0x00), (''F4'', 0x57, 0x00), (''F5'', 0x58, 0x00), (''F6'', 0x59, 0x00),
    (''F7'', 0x5A, 0x00), (''F8'', 0x5B, 0x00), (''F9'', 0x5C, 0x00), (''F10'', 0x5D, 0x00),
    (''Home'', 0x47, 0x37), (''Up'', 0x48, 0x38), (''PageUp'', 0x49, 0x39), (''KpMinus'', 0x4A, 0x2D),
    (''Left'', 0x4B, 0x34), (''KpClearEntry'', 0x4C, 0x35), (''Right'', 0x4D, 0x36),
    (''KpPlus'', 0x4E, 0x2B), (''End'', 0x4F, 0x31), (''Down'', 0x50, 0x32), (''PageDown'', 0x51, 0x33),
    (''Insert'', 0x52, 0x30), (''Delete'', 0x53, 0x2E)]"

definition to_std_shift :: "Keycode \<Rightarrow> u8 \<times> u8" where
  "to_std_shift k = (case k of Keycode v \<Rightarrow>
     (case map_of shift_codes v of Some codes \<Rightarrow> codes | None \<Rightarrow> (0, 0)))"

definition to_std_ctrl :: "Keycode \<Rightarrow> u8 \<times> u8" where "to_std_ctrl k = (0, 0)"

definition to_std_alt :: "Keycode \<Rightarrow> u8 \<times> u8" where "to_std_alt k = (0, 0)"

definition map_sdl_to_dos_standard_codes :: "Keypress \<Rightarrow> u8 \<times> u8" where
  "map_sdl_to_dos_standard_codes kp =
     (if keycode kp = Keycode ''LGui'' then (0, 0)
      else if keycode kp = Keycode ''LShift'' then (0, 0)
      else if keycode kp = Keycode ''RShift'' then (0, 0)
      else if modifier kp = LSHIFTMOD \<or> modifier kp = RSHIFTMOD then to_std_shift (keycode kp)
      else if modifier kp = LCTRLMOD \<or> modifier kp = RCTRLMOD then to_std_ctrl (keycode kp)
      else if modifier kp = LALTMOD \<or> modifier kp = RALTMOD then to_std_alt (keycode kp)
      else to_std_normal (keycode kp))"

record KeyboardStatus =
  output_buffer_status :: bool
  input_buffer_status :: bool
  system :: bool
  kb_mode :: bool
  unknown4 :: bool
  unknown5 :: bool
  timeout_error :: bool
  parity_error :: bool

definition KeyboardStatus_default :: KeyboardStatus where
  "KeyboardStatus_default = \<lparr>output_buffer_status = False, input_buffer_status = False, system = True,
     kb_mode = False, unknown4 = True, unknown5 = False, timeout_error = False, parity_error = False\<rparr>"

definition status_as_u8 :: "KeyboardStatus \<Rightarrow> u8" where
  "status_as_u8 s =
     (let res = 0;
          res = (if output_buffer_status s then res OR 1 else res);
          res = (if input_buffer_status s then res OR 2 else res);
          res = (if system s then res OR 4 else res);
          res = (if kb_mode s then res OR 8 else res);
          res = (if unknown4 s then res OR 16 else res);
          res = (if unknown5 s then res OR 32 else res);
          res = (if timeout_error s then res OR 64 else res)
      in (if parity_error s then res OR 128 else res))"

text \<open>\<open>Vec::push\<close> appends to \<open>keypresses\<close>, so the most recent press is the last of the list.\<close>

record Keyboard =
  keypresses :: "Keypress list"
  status_register :: KeyboardStatus

definition Keyboard_default :: Keyboard where
  "Keyboard_default = \<lparr>keypresses = [], status_register = KeyboardStatus_default\<rparr>"

definition has_queued_presses :: "Keyboard \<Rightarrow> bool" where
  "has_queued_presses k \<longleftrightarrow> keypresses k \<noteq> []"

definition add_keypress :: "Keyboard \<Rightarrow> Keycode \<Rightarrow> Mod \<Rightarrow> Keyboard" where
  "add_keypress k kc m =
     k\<lparr>keypresses := keypresses k @ [\<lparr>keycode = kc, modifier = m\<rparr>],
       status_register := (status_register k)\<lparr>output_buffer_status := True\<rparr>\<rparr>"

text \<open>\<open>Vec::pop().unwrap()\<close>: an empty queue panics.\<close>

definition consume_keypress :: "Keyboard \<Rightarrow> (Keypress \<times> Keyboard) option" where
  "consume_keypress k =
     (if keypresses k = [] then None
      else Some (last (keypresses k), k\<lparr>keypresses := butlast (keypresses k)\<rparr>))"

definition peek_keypress :: "Keyboard \<Rightarrow> Keypress option" where
  "peek_keypress k =
     (let n = length (keypresses k) in if n > 0 then Some (keypresses k ! (n - 1)) else None)"

definition get_status_register_byte :: "Keyboard \<Rightarrow> u8" where
  "get_status_register_byte k = status_as_u8 (status_register k)"

definition peek_dos_standard_scancode_and_ascii :: "Keyboard \<Rightarrow> u8 \<times> u8 \<times> Keypress option" where
  "peek_dos_standard_scancode_and_ascii k =
     (case peek_keypress k of
        Some kp \<Rightarrow> (let (ah, al) = map_sdl_to_dos_standard_codes kp in (ah, al, Some kp))
      | None \<Rightarrow> (0, 0, None))"

fun find_index_from :: "Keypress list \<Rightarrow> Keypress \<Rightarrow> nat \<Rightarrow> nat option" where
  "find_index_from [] kp idx = None"
| "find_index_from (x # xs) kp idx = (if x = kp then Some idx else find_index_from xs kp (idx + 1))"

definition find_keypress_index :: "Keyboard \<Rightarrow> Keypress \<Rightarrow> nat option" where
  "find_keypress_index k kp = find_index_from (keypresses k) kp 0"

text \<open>\<open>Vec::remove\<close> closes the gap.\<close>

definition consume :: "Keyboard \<Rightarrow> Keypress \<Rightarrow> Keyboard" where
  "consume k kp = (case find_keypress_index k kp of
     Some idx \<Rightarrow> k\<lparr>keypresses := take idx (keypresses k) @ drop (idx + 1) (keypresses k)\<rparr>
   | None \<Rightarrow> k)"

definition consume_dos_standard_scancode_and_ascii :: "Keyboard \<Rightarrow> (u8 \<times> u8) \<times> Keyboard" where
  "consume_dos_standard_scancode_and_ascii k =
     (let (ah, al, kp) = peek_dos_standard_scancode_and_ascii k
      in ((ah, al), case kp of Some kp \<Rightarrow> consume k kp | None \<Rightarrow> k))"

definition keyboard_in_u8 :: "Keyboard port_in" where
  "keyboard_in_u8 k port =
     (if port = 0x0060 then
        (let (scancode, ascii, kp) = peek_dos_standard_scancode_and_ascii k
         in Some (Some scancode, case kp of Some kp \<Rightarrow> consume k kp | None \<Rightarrow> k))
      else if port = 0x0061 then Some (Some 0, k)
      else if port = 0x0064 then Some (Some (get_status_register_byte k), k)
      else Some (None, k))"

definition keyboard_out_u8 :: "Keyboard port_out" where
  "keyboard_out_u8 k port v = (if port = 0x0061 then Some (True, k) else Some (False, k))"

definition keyboard_int :: "Keyboard int_handler" where
  "keyboard_int k n c u =
     (if n \<noteq> 0x16 then Some (False, k, c, u)
      else do {
        fn \<leftarrow> get_r8 c R.AH;
        if fn = 0x00 then
          (let ((ah, al), k') = consume_dos_standard_scancode_and_ascii k
           in do {
             c \<leftarrow> set_r8 c R.AH ah;
             c \<leftarrow> set_r8 c R.AL al;
             Some (True, k', c, u)
           })
        else if fn = 0x01 then
          (let (ah, al, kp) = peek_dos_standard_scancode_and_ascii k
           in do {
             c \<leftarrow> set_r8 c R.AH ah;
             c \<leftarrow> set_r8 c R.AL al;
             u \<leftarrow> mmu_set_flag u FLAG_ZF (ah = 0);
             Some (True, k, c, u)
           })
        else if fn = 0x05 then Some (True, k, c, u)
        else if fn = 0x11 then do {
          u \<leftarrow> mmu_set_flag u FLAG_ZF True;
          Some (True, k, c, u)
        }
        else if fn = 0x92 then do {
          c \<leftarrow> set_r8 c R.AH 0x80;
          Some (True, k, c, u)
        }
        else Some (False, k, c, u)
      })"

interpretation keyboard: device keyboard_in_u8 keyboard_out_u8 keyboard_int
  by unfold_locales
    (auto simp: keyboard_in_u8_def keyboard_out_u8_def keyboard_int_def bind_Some_iff Let_def
      split: if_splits prod.splits)

end
