(* ===== verification/X86_Mouse.thy ===== *)
theory X86_Mouse
  imports Complex_Main X86_Device
begin

text \<open>
  The mouse (\<open>dustbox/src/mouse.rs\<close>): its position and buttons, the range set by the program, and
  INT 33. \<open>scale\<close> computes in \<open>f64\<close>; its arguments here are an \<open>i32\<close> and small constants, where a
  rational result truncates to the same integer, so it is modelled on the rationals.
\<close>

unbundle bit_operations_syntax

datatype MouseButton = LeftButton | RightButton | MiddleButton

record Mouse =
  mouse_x :: i32
  mouse_y :: i32
  left_down :: bool
  right_down :: bool
  middle_down :: bool
  min_x :: u16
  max_x :: u16
  min_y :: u16
  max_y :: u16

definition Mouse_default :: Mouse where
  "Mouse_default = \<lparr>mouse_x = 0, mouse_y = 0, left_down = False, right_down = False, middle_down = False,
     min_x = 0, max_x = 640, min_y = 0, max_y = 200\<rparr>"

definition scale :: "rat \<Rightarrow> rat \<Rightarrow> rat \<Rightarrow> rat \<Rightarrow> rat \<Rightarrow> rat" where
  "scale value_in base_min base_max limit_min limit_max =
     (limit_max - limit_min) * (value_in - base_min) / (base_max - base_min) + limit_min"

text \<open>\<open>f64 as u16\<close>: towards zero, saturating.\<close>

definition f64_as_u16 :: "rat \<Rightarrow> u16" where
  "f64_as_u16 r = (if r \<le> 0 then 0 else if r \<ge> 65535 then 65535 else word_of_int \<lfloor>r\<rfloor>)"

definition set_position :: "Mouse \<Rightarrow> i32 \<Rightarrow> i32 \<Rightarrow> Mouse option" where
  "set_position m x y =
     (if 0 \<le> sint x \<and> 0 \<le> sint y then do {
        let screen_w = 320;
        let screen_h = 200;
        let exact_x = scale (of_int (sint x)) 0 320 0 (of_int (uint screen_w));
        let exact_y = scale (of_int (sint y)) 0 240 0 (of_int (uint screen_h));
        x \<leftarrow> add_chk (min_x m) (f64_as_u16 exact_x);
        kx \<leftarrow> div_chk (max_x m) screen_w;
        x \<leftarrow> mul_chk x kx;
        let m = m\<lparr>mouse_x := ucast x\<rparr>;
        y \<leftarrow> add_chk (min_y m) (f64_as_u16 exact_y);
        ky \<leftarrow> div_chk (max_y m) screen_h;
        y \<leftarrow> mul_chk y ky;
        Some (m\<lparr>mouse_y := ucast y\<rparr>)
      }
      else Some m)"

fun set_button :: "Mouse \<Rightarrow> MouseButton \<Rightarrow> bool \<Rightarrow> Mouse" where
  "set_button m LeftButton pressed = m\<lparr>left_down := pressed\<rparr>"
| "set_button m RightButton pressed = m\<lparr>right_down := pressed\<rparr>"
| "set_button m MiddleButton pressed = m\<lparr>middle_down := pressed\<rparr>"

definition button_status :: "Mouse \<Rightarrow> u16" where
  "button_status m =
     (let v = 0;
          v = (if left_down m then v OR 1 else v AND 6);
          v = (if right_down m then v OR 2 else v AND 5)
      in if middle_down m then v OR 4 else v AND 3)"

definition mouse_int :: "Mouse int_handler" where
  "mouse_int m n c u =
     (if n \<noteq> 0x33 then Some (False, m, c, u)
      else do {
        ax \<leftarrow> get_r16 c R.AX;
        if ax = 0x0000 then
          Some (True, m, set_r16 (set_r16 c R.AX 0xFFFF) R.BX 0x0003, u)
        else if ax = 0x0003 then do {
          let c = set_r16 c R.BX (button_status m);
          let c = set_r16 c R.CX (ucast (mouse_x m));
          let c = set_r16 c R.DX (ucast (mouse_y m));
          Some (True, m, c, u)
        }
        else if ax = 0x0007 then do {
          cx \<leftarrow> get_r16 c R.CX;
          dx \<leftarrow> get_r16 c R.DX;
          Some (True, m\<lparr>min_x := cx, max_x := dx\<rparr>, c, u)
        }
        else if ax = 0x0008 then do {
          cx \<leftarrow> get_r16 c R.CX;
          dx \<leftarrow> get_r16 c R.DX;
          Some (True, m\<lparr>min_y := cx, max_y := dx\<rparr>, c, u)
        }
        else Some (False, m, c, u)
      })"

interpretation mouse: device no_in_u8 no_out_u8 mouse_int
  by unfold_locales
    (auto simp: no_in_u8_def no_out_u8_def mouse_int_def bind_Some_iff Let_def split: if_splits)

section \<open>The scaled position in integers\<close>

lemma scale_floor: "\<lfloor>scale (of_int v) 0 (of_int b) 0 (of_int l)\<rfloor> = l * v div b"
proof -
  have "scale (of_int v) 0 (of_int b) 0 (of_int l) = of_int (l * v) / of_int b"
    by (simp add: scale_def)
  then show ?thesis by (simp only: floor_divide_of_int_eq)
qed

lemma f64_as_u16_eq:
  assumes "0 \<le> r"
  shows "f64_as_u16 r = word_of_int (min 65535 \<lfloor>r\<rfloor>)"
proof -
  have "65535 \<le> \<lfloor>r\<rfloor> \<longleftrightarrow> 65535 \<le> r" using le_floor_iff [of 65535 r] by simp
  moreover have "r = 0 \<Longrightarrow> \<lfloor>r\<rfloor> = 0" by simp
  ultimately show ?thesis using assms by (auto simp: f64_as_u16_def min_def)
qed

end
