(* ===== verification/X86_Bios.thy ===== *)
theory X86_Bios
  imports X86_Device
begin

text \<open>
  The BIOS (\<open>dustbox/src/bios.rs\<close>) and the mass storage (\<open>storage.rs\<close>). \<open>BIOS::init\<close> points the
  interrupt vectors at one IRET each in the ROM segment and writes the configuration table; INT 13
  only answers the reset.
\<close>

text \<open>The BIOS data area and the ROM (the constants of \<open>impl BIOS\<close>).\<close>

definition DATA_SEG :: u16 where "DATA_SEG = 0x0040"
definition DATA_CURRENT_MODE :: u16 where "DATA_CURRENT_MODE = 0x0049"
definition DATA_NB_COLS :: u16 where "DATA_NB_COLS = 0x004A"
definition DATA_PAGE_SIZE :: u16 where "DATA_PAGE_SIZE = 0x004C"
definition DATA_CURRENT_START :: u16 where "DATA_CURRENT_START = 0x004E"
definition DATA_CURSOR_POS :: u16 where "DATA_CURSOR_POS = 0x0050"
definition DATA_CURRENT_PAGE :: u16 where "DATA_CURRENT_PAGE = 0x0062"
definition DATA_CRTC_ADDRESS :: u16 where "DATA_CRTC_ADDRESS = 0x0063"
definition DATA_NB_ROWS :: u16 where "DATA_NB_ROWS = 0x0084"
definition DATA_CHAR_HEIGHT :: u16 where "DATA_CHAR_HEIGHT = 0x0085"
definition DATA_VIDEO_CTL :: u16 where "DATA_VIDEO_CTL = 0x0087"
definition DATA_SWITCHES :: u16 where "DATA_SWITCHES = 0x0088"
definition DATA_MODESET_CTL :: u16 where "DATA_MODESET_CTL = 0x0089"
definition DATA_DCC_INDEX :: u16 where "DATA_DCC_INDEX = 0x008A"
definition DATA_CRTCPU_PAGE :: u16 where "DATA_CRTCPU_PAGE = 0x008A"
definition DATA_VS_POINTER :: u16 where "DATA_VS_POINTER = 0x00A8"
definition ROM_SEG :: u16 where "ROM_SEG = 0xF000"
definition ROM_EQUIPMENT_WORD :: u16 where "ROM_EQUIPMENT_WORD = 0x0410"

definition write_ivt_entry :: "MMU \<Rightarrow> u8 \<Rightarrow> u16 \<Rightarrow> u16 \<Rightarrow> MMU option" where
  "write_ivt_entry u number seg offset = do {
     let sg = 0;
     off \<leftarrow> mul_chk (ucast number) 4;
     u \<leftarrow> mmu_write_u16 u sg off offset;
     off2 \<leftarrow> add_chk off 2;
     mmu_write_u16 u sg off2 seg
   }"

definition init_ivt :: "MMU \<Rightarrow> MMU option" where
  "init_ivt u = for_each (\<lambda>irq u. do {
     u \<leftarrow> write_ivt_entry u irq ROM_SEG (ucast irq);
     mmu_write_u8 u ROM_SEG (ucast irq) 0xCF
   }) (map of_nat [0..<0xFF]) u"

definition write_configuration_data_table :: "MMU \<Rightarrow> MMU option" where
  "write_configuration_data_table u = do {
     let addr = RealSegmentOffset ROM_SEG 0xE6F5;
     (u, addr) \<leftarrow> mmu_write_u16_inc u addr 8;
     (u, addr) \<leftarrow> mmu_write_u8_inc u addr 0xFC;
     (u, addr) \<leftarrow> mmu_write_u8_inc u addr 0;
     (u, addr) \<leftarrow> mmu_write_u8_inc u addr 0;
     (u, addr) \<leftarrow> mmu_write_u8_inc u addr 0;
     (u, addr) \<leftarrow> mmu_write_u8_inc u addr 0;
     (u, addr) \<leftarrow> mmu_write_u8_inc u addr 0;
     (u, addr) \<leftarrow> mmu_write_u8_inc u addr 0;
     (u, addr) \<leftarrow> mmu_write_u8_inc u addr 0;
     mmu_write_u16 u ROM_SEG ROM_EQUIPMENT_WORD 0x0021
   }"

definition bios_init :: "MMU \<Rightarrow> MMU option" where
  "bios_init u = do { u \<leftarrow> init_ivt u; write_configuration_data_table u }"

datatype Storage = Storage

definition storage_int :: "Storage int_handler" where
  "storage_int d n c u =
     (if n \<noteq> 0x13 then Some (False, d, c, u)
      else do {
        ah \<leftarrow> get_r8 c R.AH;
        if ah = 0x00 then do {
          dl \<leftarrow> get_r8 c R.DL;
          Some (True, d, c, u)
        }
        else Some (False, d, c, u)
      })"

interpretation storage: device no_in_u8 no_out_u8 storage_int
  by unfold_locales
    (auto simp: no_in_u8_def no_out_u8_def storage_int_def bind_Some_iff split: if_splits)

end
