(* ===== verification/X86_Video_Modes.thy ===== *)
theory X86_Video_Modes
  imports X86_Device
begin

text \<open>
  The palettes (\<open>gpu/palette.rs\<close>), the video modes (\<open>gpu/modes.rs\<close>) and the kind of card
  (\<open>gpu/graphic_card.rs\<close>). The fields \<open>scale_x\<close> and \<open>scale_y\<close> of a mode (\<open>f32\<close>, read only by the
  window of the front end) are left out.
\<close>

unbundle bit_operations_syntax

section \<open>Palettes\<close>

datatype ColorSpace = RGB u8 u8 u8 | NoColor

definition rgb6 :: "u8 \<Rightarrow> u8 \<Rightarrow> u8 \<Rightarrow> ColorSpace" where
  "rgb6 r b g = RGB (push_bit 2 r) (push_bit 2 b) (push_bit 2 g)"

definition mono_palette :: "ColorSpace list" where
  "mono_palette = concat [
    [rgb6 0x00 0x00 0x00, rgb6 0x3f 0x3f 0x3f]]"

definition text_palette :: "ColorSpace list" where
  "text_palette = concat [
    [rgb6 0x00 0x00 0x00, rgb6 0x00 0x00 0x2a, rgb6 0x00 0x2a 0x00, rgb6 0x00 0x2a 0x2a],
    [rgb6 0x2a 0x00 0x00, rgb6 0x2a 0x00 0x2a, rgb6 0x2a 0x2a 0x00, rgb6 0x2a 0x2a 0x2a],
    [rgb6 0x00 0x00 0x15, rgb6 0x00 0x00 0x3f, rgb6 0x00 0x2a 0x15, rgb6 0x00 0x2a 0x3f],
    [rgb6 0x2a 0x00 0x15, rgb6 0x2a 0x00 0x3f, rgb6 0x2a 0x2a 0x15, rgb6 0x2a 0x2a 0x3f],
    [rgb6 0x00 0x15 0x00, rgb6 0x00 0x15 0x2a, rgb6 0x00 0x3f 0x00, rgb6 0x00 0x3f 0x2a],
    [rgb6 0x2a 0x15 0x00, rgb6 0x2a 0x15 0x2a, rgb6 0x2a 0x3f 0x00, rgb6 0x2a 0x3f 0x2a],
    [rgb6 0x00 0x15 0x15, rgb6 0x00 0x15 0x3f, rgb6 0x00 0x3f 0x15, rgb6 0x00 0x3f 0x3f],
    [rgb6 0x2a 0x15 0x15, rgb6 0x2a 0x15 0x3f, rgb6 0x2a 0x3f 0x15, rgb6 0x2a 0x3f 0x3f],
    [rgb6 0x15 0x00 0x00, rgb6 0x15 0x00 0x2a, rgb6 0x15 0x2a 0x00, rgb6 0x15 0x2a 0x2a],
    [rgb6 0x3f 0x00 0x00, rgb6 0x3f 0x00 0x2a, rgb6 0x3f 0x2a 0x00, rgb6 0x3f 0x2a 0x2a],
    [rgb6 0x15 0x00 0x15, rgb6 0x15 0x00 0x3f, rgb6 0x15 0x2a 0x15, rgb6 0x15 0x2a 0x3f],
    [rgb6 0x3f 0x00 0x15, rgb6 0x3f 0x00 0x3f, rgb6 0x3f 0x2a 0x15, rgb6 0x3f 0x2a 0x3f],
    [rgb6 0x15 0x15 0x00, rgb6 0x15 0x15 0x2a, rgb6 0x15 0x3f 0x00, rgb6 0x15 0x3f 0x2a],
    [rgb6 0x3f 0x15 0x00, rgb6 0x3f 0x15 0x2a, rgb6 0x3f 0x3f 0x00, rgb6 0x3f 0x3f 0x2a],
    [rgb6 0x15 0x15 0x15, rgb6 0x15 0x15 0x3f, rgb6 0x15 0x3f 0x15, rgb6 0x15 0x3f 0x3f],
    [rgb6 0x3f 0x15 0x15, rgb6 0x3f 0x15 0x3f, rgb6 0x3f 0x3f 0x15, rgb6 0x3f 0x3f 0x3f]]"

definition mtext_palette :: "ColorSpace list" where
  "mtext_palette = concat [
    [rgb6 0x00 0x00 0x00, rgb6 0x00 0x00 0x00, rgb6 0x00 0x00 0x00, rgb6 0x00 0x00 0x00],
    [rgb6 0x00 0x00 0x00, rgb6 0x00 0x00 0x00, rgb6 0x00 0x00 0x00, rgb6 0x00 0x00 0x00],
    [rgb6 0x2a 0x2a 0x2a, rgb6 0x2a 0x2a 0x2a, rgb6 0x2a 0x2a 0x2a, rgb6 0x2a 0x2a 0x2a],
    [rgb6 0x2a 0x2a 0x2a, rgb6 0x2a 0x2a 0x2a, rgb6 0x2a 0x2a 0x2a, rgb6 0x2a 0x2a 0x2a],
    [rgb6 0x00 0x00 0x00, rgb6 0x00 0x00 0x00, rgb6 0x00 0x00 0x00, rgb6 0x00 0x00 0x00],
    [rgb6 0x00 0x00 0x00, rgb6 0x00 0x00 0x00, rgb6 0x00 0x00 0x00, rgb6 0x00 0x00 0x00],
    [rgb6 0x3f 0x3f 0x3f, rgb6 0x3f 0x3f 0x3f, rgb6 0x3f 0x3f 0x3f, rgb6 0x3f 0x3f 0x3f],
    [rgb6 0x3f 0x3f 0x3f, rgb6 0x3f 0x3f 0x3f, rgb6 0x3f 0x3f 0x3f, rgb6 0x3f 0x3f 0x3f],
    [rgb6 0x00 0x00 0x00, rgb6 0x00 0x00 0x00, rgb6 0x00 0x00 0x00, rgb6 0x00 0x00 0x00],
    [rgb6 0x00 0x00 0x00, rgb6 0x00 0x00 0x00, rgb6 0x00 0x00 0x00, rgb6 0x00 0x00 0x00],
    [rgb6 0x2a 0x2a 0x2a, rgb6 0x2a 0x2a 0x2a, rgb6 0x2a 0x2a 0x2a, rgb6 0x2a 0x2a 0x2a],
    [rgb6 0x2a 0x2a 0x2a, rgb6 0x2a 0x2a 0x2a, rgb6 0x2a 0x2a 0x2a, rgb6 0x2a 0x2a 0x2a],
    [rgb6 0x00 0x00 0x00, rgb6 0x00 0x00 0x00, rgb6 0x00 0x00 0x00, rgb6 0x00 0x00 0x00],
    [rgb6 0x00 0x00 0x00, rgb6 0x00 0x00 0x00, rgb6 0x00 0x00 0x00, rgb6 0x00 0x00 0x00],
    [rgb6 0x3f 0x3f 0x3f, rgb6 0x3f 0x3f 0x3f, rgb6 0x3f 0x3f 0x3f, rgb6 0x3f 0x3f 0x3f],
    [rgb6 0x3f 0x3f 0x3f, rgb6 0x3f 0x3f 0x3f, rgb6 0x3f 0x3f 0x3f, rgb6 0x3f 0x3f 0x3f]]"

definition mtext_s3_palette :: "ColorSpace list" where
  "mtext_s3_palette = concat [
    [rgb6 0x00 0x00 0x00, rgb6 0x00 0x00 0x00, rgb6 0x00 0x00 0x00, rgb6 0x00 0x00 0x00],
    [rgb6 0x00 0x00 0x00, rgb6 0x00 0x00 0x00, rgb6 0x00 0x00 0x00, rgb6 0x00 0x00 0x00],
    [rgb6 0x2a 0x2a 0x2a, rgb6 0x2a 0x2a 0x2a, rgb6 0x2a 0x2a 0x2a, rgb6 0x2a 0x2a 0x2a],
    [rgb6 0x2a 0x2a 0x2a, rgb6 0x2a 0x2a 0x2a, rgb6 0x2a 0x2a 0x2a, rgb6 0x2a 0x2a 0x2a],
    [rgb6 0x2a 0x2a 0x2a, rgb6 0x2a 0x2a 0x2a, rgb6 0x2a 0x2a 0x2a, rgb6 0x2a 0x2a 0x2a],
    [rgb6 0x2a 0x2a 0x2a, rgb6 0x2a 0x2a 0x2a, rgb6 0x2a 0x2a 0x2a, rgb6 0x2a 0x2a 0x2a],
    [rgb6 0x3f 0x3f 0x3f, rgb6 0x3f 0x3f 0x3f, rgb6 0x3f 0x3f 0x3f, rgb6 0x3f 0x3f 0x3f],
    [rgb6 0x3f 0x3f 0x3f, rgb6 0x3f 0x3f 0x3f, rgb6 0x3f 0x3f 0x3f, rgb6 0x3f 0x3f 0x3f],
    [rgb6 0x00 0x00 0x00, rgb6 0x00 0x00 0x00, rgb6 0x00 0x00 0x00, rgb6 0x00 0x00 0x00],
    [rgb6 0x00 0x00 0x00, rgb6 0x00 0x00 0x00, rgb6 0x00 0x00 0x00, rgb6 0x00 0x00 0x00],
    [rgb6 0x2a 0x2a 0x2a, rgb6 0x2a 0x2a 0x2a, rgb6 0x2a 0x2a 0x2a, rgb6 0x2a 0x2a 0x2a],
    [rgb6 0x2a 0x2a 0x2a, rgb6 0x2a 0x2a 0x2a, rgb6 0x2a 0x2a 0x2a, rgb6 0x2a 0x2a 0x2a],
    [rgb6 0x2a 0x2a 0x2a, rgb6 0x2a 0x2a 0x2a, rgb6 0x2a 0x2a 0x2a, rgb6 0x2a 0x2a 0x2a],
    [rgb6 0x2a 0x2a 0x2a, rgb6 0x2a 0x2a 0x2a, rgb6 0x2a 0x2a 0x2a, rgb6 0x2a 0x2a 0x2a],
    [rgb6 0x3f 0x3f 0x3f, rgb6 0x3f 0x3f 0x3f, rgb6 0x3f 0x3f 0x3f, rgb6 0x3f 0x3f 0x3f],
    [rgb6 0x3f 0x3f 0x3f, rgb6 0x3f 0x3f 0x3f, rgb6 0x3f 0x3f 0x3f, rgb6 0x3f 0x3f 0x3f]]"

definition cga_palette :: "ColorSpace list" where
  "cga_palette = concat [
    [rgb6 0x00 0x00 0x00, rgb6 0x00 0x00 0x2a, rgb6 0x00 0x2a 0x00, rgb6 0x00 0x2a 0x2a],
    [rgb6 0x2a 0x00 0x00, rgb6 0x2a 0x00 0x2a, rgb6 0x2a 0x15 0x00, rgb6 0x2a 0x2a 0x2a],
    [rgb6 0x15 0x15 0x15, rgb6 0x15 0x15 0x3f, rgb6 0x15 0x3f 0x15, rgb6 0x15 0x3f 0x3f],
    [rgb6 0x3f 0x15 0x15, rgb6 0x3f 0x15 0x3f, rgb6 0x3f 0x3f 0x15, rgb6 0x3f 0x3f 0x3f]]"

definition cga_palette_2 :: "ColorSpace list" where
  "cga_palette_2 = concat [
    [rgb6 0x00 0x00 0x00, rgb6 0x00 0x00 0x2a, rgb6 0x00 0x2a 0x00, rgb6 0x00 0x2a 0x2a],
    [rgb6 0x2a 0x00 0x00, rgb6 0x2a 0x00 0x2a, rgb6 0x2a 0x15 0x00, rgb6 0x2a 0x2a 0x2a],
    [rgb6 0x00 0x00 0x00, rgb6 0x00 0x00 0x2a, rgb6 0x00 0x2a 0x00, rgb6 0x00 0x2a 0x2a],
    [rgb6 0x2a 0x00 0x00, rgb6 0x2a 0x00 0x2a, rgb6 0x2a 0x15 0x00, rgb6 0x2a 0x2a 0x2a],
    [rgb6 0x15 0x15 0x15, rgb6 0x15 0x15 0x3f, rgb6 0x15 0x3f 0x15, rgb6 0x15 0x3f 0x3f],
    [rgb6 0x3f 0x15 0x15, rgb6 0x3f 0x15 0x3f, rgb6 0x3f 0x3f 0x15, rgb6 0x3f 0x3f 0x3f],
    [rgb6 0x15 0x15 0x15, rgb6 0x15 0x15 0x3f, rgb6 0x15 0x3f 0x15, rgb6 0x15 0x3f 0x3f],
    [rgb6 0x3f 0x15 0x15, rgb6 0x3f 0x15 0x3f, rgb6 0x3f 0x3f 0x15, rgb6 0x3f 0x3f 0x3f],
    [rgb6 0x00 0x00 0x00, rgb6 0x00 0x00 0x2a, rgb6 0x00 0x2a 0x00, rgb6 0x00 0x2a 0x2a],
    [rgb6 0x2a 0x00 0x00, rgb6 0x2a 0x00 0x2a, rgb6 0x2a 0x15 0x00, rgb6 0x2a 0x2a 0x2a],
    [rgb6 0x00 0x00 0x00, rgb6 0x00 0x00 0x2a, rgb6 0x00 0x2a 0x00, rgb6 0x00 0x2a 0x2a],
    [rgb6 0x2a 0x00 0x00, rgb6 0x2a 0x00 0x2a, rgb6 0x2a 0x15 0x00, rgb6 0x2a 0x2a 0x2a],
    [rgb6 0x15 0x15 0x15, rgb6 0x15 0x15 0x3f, rgb6 0x15 0x3f 0x15, rgb6 0x15 0x3f 0x3f],
    [rgb6 0x3f 0x15 0x15, rgb6 0x3f 0x15 0x3f, rgb6 0x3f 0x3f 0x15, rgb6 0x3f 0x3f 0x3f],
    [rgb6 0x15 0x15 0x15, rgb6 0x15 0x15 0x3f, rgb6 0x15 0x3f 0x15, rgb6 0x15 0x3f 0x3f],
    [rgb6 0x3f 0x15 0x15, rgb6 0x3f 0x15 0x3f, rgb6 0x3f 0x3f 0x15, rgb6 0x3f 0x3f 0x3f]]"

definition ega_palette :: "ColorSpace list" where
  "ega_palette = concat [
    [rgb6 0x00 0x00 0x00, rgb6 0x00 0x00 0x2a, rgb6 0x00 0x2a 0x00, rgb6 0x00 0x2a 0x2a],
    [rgb6 0x2a 0x00 0x00, rgb6 0x2a 0x00 0x2a, rgb6 0x2a 0x15 0x00, rgb6 0x2a 0x2a 0x2a],
    [rgb6 0x00 0x00 0x00, rgb6 0x00 0x00 0x2a, rgb6 0x00 0x2a 0x00, rgb6 0x00 0x2a 0x2a],
    [rgb6 0x2a 0x00 0x00, rgb6 0x2a 0x00 0x2a, rgb6 0x2a 0x15 0x00, rgb6 0x2a 0x2a 0x2a],
    [rgb6 0x15 0x15 0x15, rgb6 0x15 0x15 0x3f, rgb6 0x15 0x3f 0x15, rgb6 0x15 0x3f 0x3f],
    [rgb6 0x3f 0x15 0x15, rgb6 0x3f 0x15 0x3f, rgb6 0x3f 0x3f 0x15, rgb6 0x3f 0x3f 0x3f],
    [rgb6 0x15 0x15 0x15, rgb6 0x15 0x15 0x3f, rgb6 0x15 0x3f 0x15, rgb6 0x15 0x3f 0x3f],
    [rgb6 0x3f 0x15 0x15, rgb6 0x3f 0x15 0x3f, rgb6 0x3f 0x3f 0x15, rgb6 0x3f 0x3f 0x3f],
    [rgb6 0x00 0x00 0x00, rgb6 0x00 0x00 0x2a, rgb6 0x00 0x2a 0x00, rgb6 0x00 0x2a 0x2a],
    [rgb6 0x2a 0x00 0x00, rgb6 0x2a 0x00 0x2a, rgb6 0x2a 0x15 0x00, rgb6 0x2a 0x2a 0x2a],
    [rgb6 0x00 0x00 0x00, rgb6 0x00 0x00 0x2a, rgb6 0x00 0x2a 0x00, rgb6 0x00 0x2a 0x2a],
    [rgb6 0x2a 0x00 0x00, rgb6 0x2a 0x00 0x2a, rgb6 0x2a 0x15 0x00, rgb6 0x2a 0x2a 0x2a],
    [rgb6 0x15 0x15 0x15, rgb6 0x15 0x15 0x3f, rgb6 0x15 0x3f 0x15, rgb6 0x15 0x3f 0x3f],
    [rgb6 0x3f 0x15 0x15, rgb6 0x3f 0x15 0x3f, rgb6 0x3f 0x3f 0x15, rgb6 0x3f 0x3f 0x3f],
    [rgb6 0x15 0x15 0x15, rgb6 0x15 0x15 0x3f, rgb6 0x15 0x3f 0x15, rgb6 0x15 0x3f 0x3f],
    [rgb6 0x3f 0x15 0x15, rgb6 0x3f 0x15 0x3f, rgb6 0x3f 0x3f 0x15, rgb6 0x3f 0x3f 0x3f]]"

definition vga_palette :: "ColorSpace list" where
  "vga_palette = concat [
    [rgb6 0x00 0x00 0x00, rgb6 0x00 0x00 0x2a, rgb6 0x00 0x2a 0x00, rgb6 0x00 0x2a 0x2a],
    [rgb6 0x2a 0x00 0x00, rgb6 0x2a 0x00 0x2a, rgb6 0x2a 0x15 0x00, rgb6 0x2a 0x2a 0x2a],
    [rgb6 0x15 0x15 0x15, rgb6 0x15 0x15 0x3f, rgb6 0x15 0x3f 0x15, rgb6 0x15 0x3f 0x3f],
    [rgb6 0x3f 0x15 0x15, rgb6 0x3f 0x15 0x3f, rgb6 0x3f 0x3f 0x15, rgb6 0x3f 0x3f 0x3f],
    [rgb6 0x00 0x00 0x00, rgb6 0x05 0x05 0x05, rgb6 0x08 0x08 0x08, rgb6 0x0b 0x0b 0x0b],
    [rgb6 0x0e 0x0e 0x0e, rgb6 0x11 0x11 0x11, rgb6 0x14 0x14 0x14, rgb6 0x18 0x18 0x18],
    [rgb6 0x1c 0x1c 0x1c, rgb6 0x20 0x20 0x20, rgb6 0x24 0x24 0x24, rgb6 0x28 0x28 0x28],
    [rgb6 0x2d 0x2d 0x2d, rgb6 0x32 0x32 0x32, rgb6 0x38 0x38 0x38, rgb6 0x3f 0x3f 0x3f],
    [rgb6 0x00 0x00 0x3f, rgb6 0x10 0x00 0x3f, rgb6 0x1f 0x00 0x3f, rgb6 0x2f 0x00 0x3f],
    [rgb6 0x3f 0x00 0x3f, rgb6 0x3f 0x00 0x2f, rgb6 0x3f 0x00 0x1f, rgb6 0x3f 0x00 0x10],
    [rgb6 0x3f 0x00 0x00, rgb6 0x3f 0x10 0x00, rgb6 0x3f 0x1f 0x00, rgb6 0x3f 0x2f 0x00],
    [rgb6 0x3f 0x3f 0x00, rgb6 0x2f 0x3f 0x00, rgb6 0x1f 0x3f 0x00, rgb6 0x10 0x3f 0x00],
    [rgb6 0x00 0x3f 0x00, rgb6 0x00 0x3f 0x10, rgb6 0x00 0x3f 0x1f, rgb6 0x00 0x3f 0x2f],
    [rgb6 0x00 0x3f 0x3f, rgb6 0x00 0x2f 0x3f, rgb6 0x00 0x1f 0x3f, rgb6 0x00 0x10 0x3f],
    [rgb6 0x1f 0x1f 0x3f, rgb6 0x27 0x1f 0x3f, rgb6 0x2f 0x1f 0x3f, rgb6 0x37 0x1f 0x3f],
    [rgb6 0x3f 0x1f 0x3f, rgb6 0x3f 0x1f 0x37, rgb6 0x3f 0x1f 0x2f, rgb6 0x3f 0x1f 0x27],
    [rgb6 0x3f 0x1f 0x1f, rgb6 0x3f 0x27 0x1f, rgb6 0x3f 0x2f 0x1f, rgb6 0x3f 0x37 0x1f],
    [rgb6 0x3f 0x3f 0x1f, rgb6 0x37 0x3f 0x1f, rgb6 0x2f 0x3f 0x1f, rgb6 0x27 0x3f 0x1f],
    [rgb6 0x1f 0x3f 0x1f, rgb6 0x1f 0x3f 0x27, rgb6 0x1f 0x3f 0x2f, rgb6 0x1f 0x3f 0x37],
    [rgb6 0x1f 0x3f 0x3f, rgb6 0x1f 0x37 0x3f, rgb6 0x1f 0x2f 0x3f, rgb6 0x1f 0x27 0x3f],
    [rgb6 0x2d 0x2d 0x3f, rgb6 0x31 0x2d 0x3f, rgb6 0x36 0x2d 0x3f, rgb6 0x3a 0x2d 0x3f],
    [rgb6 0x3f 0x2d 0x3f, rgb6 0x3f 0x2d 0x3a, rgb6 0x3f 0x2d 0x36, rgb6 0x3f 0x2d 0x31],
    [rgb6 0x3f 0x2d 0x2d, rgb6 0x3f 0x31 0x2d, rgb6 0x3f 0x36 0x2d, rgb6 0x3f 0x3a 0x2d],
    [rgb6 0x3f 0x3f 0x2d, rgb6 0x3a 0x3f 0x2d, rgb6 0x36 0x3f 0x2d, rgb6 0x31 0x3f 0x2d],
    [rgb6 0x2d 0x3f 0x2d, rgb6 0x2d 0x3f 0x31, rgb6 0x2d 0x3f 0x36, rgb6 0x2d 0x3f 0x3a],
    [rgb6 0x2d 0x3f 0x3f, rgb6 0x2d 0x3a 0x3f, rgb6 0x2d 0x36 0x3f, rgb6 0x2d 0x31 0x3f],
    [rgb6 0x00 0x00 0x1c, rgb6 0x07 0x00 0x1c, rgb6 0x0e 0x00 0x1c, rgb6 0x15 0x00 0x1c],
    [rgb6 0x1c 0x00 0x1c, rgb6 0x1c 0x00 0x15, rgb6 0x1c 0x00 0x0e, rgb6 0x1c 0x00 0x07],
    [rgb6 0x1c 0x00 0x00, rgb6 0x1c 0x07 0x00, rgb6 0x1c 0x0e 0x00, rgb6 0x1c 0x15 0x00],
    [rgb6 0x1c 0x1c 0x00, rgb6 0x15 0x1c 0x00, rgb6 0x0e 0x1c 0x00, rgb6 0x07 0x1c 0x00],
    [rgb6 0x00 0x1c 0x00, rgb6 0x00 0x1c 0x07, rgb6 0x00 0x1c 0x0e, rgb6 0x00 0x1c 0x15],
    [rgb6 0x00 0x1c 0x1c, rgb6 0x00 0x15 0x1c, rgb6 0x00 0x0e 0x1c, rgb6 0x00 0x07 0x1c],
    [rgb6 0x0e 0x0e 0x1c, rgb6 0x11 0x0e 0x1c, rgb6 0x15 0x0e 0x1c, rgb6 0x18 0x0e 0x1c],
    [rgb6 0x1c 0x0e 0x1c, rgb6 0x1c 0x0e 0x18, rgb6 0x1c 0x0e 0x15, rgb6 0x1c 0x0e 0x11],
    [rgb6 0x1c 0x0e 0x0e, rgb6 0x1c 0x11 0x0e, rgb6 0x1c 0x15 0x0e, rgb6 0x1c 0x18 0x0e],
    [rgb6 0x1c 0x1c 0x0e, rgb6 0x18 0x1c 0x0e, rgb6 0x15 0x1c 0x0e, rgb6 0x11 0x1c 0x0e],
    [rgb6 0x0e 0x1c 0x0e, rgb6 0x0e 0x1c 0x11, rgb6 0x0e 0x1c 0x15, rgb6 0x0e 0x1c 0x18],
    [rgb6 0x0e 0x1c 0x1c, rgb6 0x0e 0x18 0x1c, rgb6 0x0e 0x15 0x1c, rgb6 0x0e 0x11 0x1c],
    [rgb6 0x14 0x14 0x1c, rgb6 0x16 0x14 0x1c, rgb6 0x18 0x14 0x1c, rgb6 0x1a 0x14 0x1c],
    [rgb6 0x1c 0x14 0x1c, rgb6 0x1c 0x14 0x1a, rgb6 0x1c 0x14 0x18, rgb6 0x1c 0x14 0x16],
    [rgb6 0x1c 0x14 0x14, rgb6 0x1c 0x16 0x14, rgb6 0x1c 0x18 0x14, rgb6 0x1c 0x1a 0x14],
    [rgb6 0x1c 0x1c 0x14, rgb6 0x1a 0x1c 0x14, rgb6 0x18 0x1c 0x14, rgb6 0x16 0x1c 0x14],
    [rgb6 0x14 0x1c 0x14, rgb6 0x14 0x1c 0x16, rgb6 0x14 0x1c 0x18, rgb6 0x14 0x1c 0x1a],
    [rgb6 0x14 0x1c 0x1c, rgb6 0x14 0x1a 0x1c, rgb6 0x14 0x18 0x1c, rgb6 0x14 0x16 0x1c],
    [rgb6 0x00 0x00 0x10, rgb6 0x04 0x00 0x10, rgb6 0x08 0x00 0x10, rgb6 0x0c 0x00 0x10],
    [rgb6 0x10 0x00 0x10, rgb6 0x10 0x00 0x0c, rgb6 0x10 0x00 0x08, rgb6 0x10 0x00 0x04],
    [rgb6 0x10 0x00 0x00, rgb6 0x10 0x04 0x00, rgb6 0x10 0x08 0x00, rgb6 0x10 0x0c 0x00],
    [rgb6 0x10 0x10 0x00, rgb6 0x0c 0x10 0x00, rgb6 0x08 0x10 0x00, rgb6 0x04 0x10 0x00],
    [rgb6 0x00 0x10 0x00, rgb6 0x00 0x10 0x04, rgb6 0x00 0x10 0x08, rgb6 0x00 0x10 0x0c],
    [rgb6 0x00 0x10 0x10, rgb6 0x00 0x0c 0x10, rgb6 0x00 0x08 0x10, rgb6 0x00 0x04 0x10],
    [rgb6 0x08 0x08 0x10, rgb6 0x0a 0x08 0x10, rgb6 0x0c 0x08 0x10, rgb6 0x0e 0x08 0x10],
    [rgb6 0x10 0x08 0x10, rgb6 0x10 0x08 0x0e, rgb6 0x10 0x08 0x0c, rgb6 0x10 0x08 0x0a],
    [rgb6 0x10 0x08 0x08, rgb6 0x10 0x0a 0x08, rgb6 0x10 0x0c 0x08, rgb6 0x10 0x0e 0x08],
    [rgb6 0x10 0x10 0x08, rgb6 0x0e 0x10 0x08, rgb6 0x0c 0x10 0x08, rgb6 0x0a 0x10 0x08],
    [rgb6 0x08 0x10 0x08, rgb6 0x08 0x10 0x0a, rgb6 0x08 0x10 0x0c, rgb6 0x08 0x10 0x0e],
    [rgb6 0x08 0x10 0x10, rgb6 0x08 0x0e 0x10, rgb6 0x08 0x0c 0x10, rgb6 0x08 0x0a 0x10],
    [rgb6 0x0b 0x0b 0x10, rgb6 0x0c 0x0b 0x10, rgb6 0x0d 0x0b 0x10, rgb6 0x0f 0x0b 0x10],
    [rgb6 0x10 0x0b 0x10, rgb6 0x10 0x0b 0x0f, rgb6 0x10 0x0b 0x0d, rgb6 0x10 0x0b 0x0c],
    [rgb6 0x10 0x0b 0x0b, rgb6 0x10 0x0c 0x0b, rgb6 0x10 0x0d 0x0b, rgb6 0x10 0x0f 0x0b],
    [rgb6 0x10 0x10 0x0b, rgb6 0x0f 0x10 0x0b, rgb6 0x0d 0x10 0x0b, rgb6 0x0c 0x10 0x0b],
    [rgb6 0x0b 0x10 0x0b, rgb6 0x0b 0x10 0x0c, rgb6 0x0b 0x10 0x0d, rgb6 0x0b 0x10 0x0f],
    [rgb6 0x0b 0x10 0x10, rgb6 0x0b 0x0f 0x10, rgb6 0x0b 0x0d 0x10, rgb6 0x0b 0x0c 0x10],
    [rgb6 0x00 0x00 0x00, rgb6 0x00 0x00 0x00, rgb6 0x00 0x00 0x00, rgb6 0x00 0x00 0x00],
    [rgb6 0x00 0x00 0x00, rgb6 0x00 0x00 0x00, rgb6 0x00 0x00 0x00, rgb6 0x00 0x00 0x00]]"

section \<open>Cards and modes\<close>

datatype GraphicCard = CardCGA | CardEGA | CardVGA | CardTandy | CardPcJr

definition is_ega_vga :: "GraphicCard \<Rightarrow> bool" where "is_ega_vga g \<longleftrightarrow> g = CardEGA \<or> g = CardVGA"
definition is_tandy :: "GraphicCard \<Rightarrow> bool" where "is_tandy g \<longleftrightarrow> g = CardTandy"
definition is_pc_jr :: "GraphicCard \<Rightarrow> bool" where "is_pc_jr g \<longleftrightarrow> g = CardPcJr"
definition is_cga :: "GraphicCard \<Rightarrow> bool" where "is_cga g \<longleftrightarrow> g = CardCGA"
definition is_ega :: "GraphicCard \<Rightarrow> bool" where "is_ega g \<longleftrightarrow> g = CardEGA"
definition is_vga :: "GraphicCard \<Rightarrow> bool" where "is_vga g \<longleftrightarrow> g = CardVGA"

datatype GFXMode = TEXT | CGA2 | CGA4 | EGA | VGA | TANDY16 | LIN4 | LIN8 | LIN15 | LIN16 | LIN24 | LIN32

definition MODE_TEXT_80_25 :: u16 where "MODE_TEXT_80_25 = 0x0003"

record SpecialMode =
  ega_half_clock :: bool
  doublescan :: bool
  vga_pixel_double :: bool
  s3_pixel_double :: bool
  repeat1 :: bool
  cga_syncdouble :: bool

definition SpecialMode_default :: SpecialMode where
  "SpecialMode_default = \<lparr>ega_half_clock = False, doublescan = False, vga_pixel_double = False,
     s3_pixel_double = False, repeat1 = False, cga_syncdouble = False\<rparr>"

record VideoModeBlock =
  vm_mode :: u16
  vm_kind :: GFXMode
  swidth :: u32
  sheight :: u32
  twidth :: usize
  theight :: usize
  cwidth :: usize
  cheight :: usize
  ptotal :: u8
  pstart :: u32
  plength :: usize
  htotal :: u32
  vtotal :: usize
  hdispend :: usize
  vdispend :: usize
  special :: SpecialMode

definition is_text :: "VideoModeBlock \<Rightarrow> bool" where "is_text m \<longleftrightarrow> vm_kind m = TEXT"

definition mono_mode :: "VideoModeBlock \<Rightarrow> bool" where
  "mono_mode m \<longleftrightarrow> vm_mode m = 0x07 \<or> vm_mode m = 0x0F"

definition crtc_address :: "VideoModeBlock \<Rightarrow> u16" where
  "crtc_address m = (if mono_mode m then 0x3B4 else 0x3D4)"

definition ega_mode_block :: "VideoModeBlock list" where
  "ega_mode_block = [
    \<lparr>vm_mode = 0x000, vm_kind = TEXT, swidth = 320, sheight = 350, twidth = 40, theight = 25, cwidth = 8, cheight = 14, ptotal = 8,
     pstart = 0xB8000, plength = 0x0800, htotal = 50, vtotal = 366, hdispend = 40, vdispend = 350,
     special = SpecialMode_default\<lparr>ega_half_clock := True\<rparr>\<rparr>,
    \<lparr>vm_mode = 0x001, vm_kind = TEXT, swidth = 320, sheight = 350, twidth = 40, theight = 25, cwidth = 8, cheight = 14, ptotal = 8,
     pstart = 0xB8000, plength = 0x0800, htotal = 50, vtotal = 366, hdispend = 40, vdispend = 350,
     special = SpecialMode_default\<lparr>ega_half_clock := True\<rparr>\<rparr>,
    \<lparr>vm_mode = 0x002, vm_kind = TEXT, swidth = 640, sheight = 350, twidth = 80, theight = 25, cwidth = 8, cheight = 14, ptotal = 8,
     pstart = 0xB8000, plength = 0x1000, htotal = 96, vtotal = 366, hdispend = 80, vdispend = 350,
     special = SpecialMode_default\<rparr>,
    \<lparr>vm_mode = MODE_TEXT_80_25, vm_kind = TEXT, swidth = 640, sheight = 350, twidth = 80, theight = 25, cwidth = 8, cheight = 14, ptotal = 8,
     pstart = 0xB8000, plength = 0x1000, htotal = 96, vtotal = 366, hdispend = 80, vdispend = 350,
     special = SpecialMode_default\<rparr>,
    \<lparr>vm_mode = 0x004, vm_kind = CGA4, swidth = 320, sheight = 200, twidth = 40, theight = 25, cwidth = 8, cheight = 8, ptotal = 1,
     pstart = 0xB8000, plength = 0x4000, htotal = 60, vtotal = 262, hdispend = 40, vdispend = 200,
     special = SpecialMode_default\<lparr>ega_half_clock := True, repeat1 := True\<rparr>\<rparr>,
    \<lparr>vm_mode = 0x005, vm_kind = CGA4, swidth = 320, sheight = 200, twidth = 40, theight = 25, cwidth = 8, cheight = 8, ptotal = 1,
     pstart = 0xB8000, plength = 0x4000, htotal = 60, vtotal = 262, hdispend = 40, vdispend = 200,
     special = SpecialMode_default\<lparr>ega_half_clock := True, repeat1 := True\<rparr>\<rparr>,
    \<lparr>vm_mode = 0x006, vm_kind = CGA2, swidth = 640, sheight = 200, twidth = 80, theight = 25, cwidth = 8, cheight = 8, ptotal = 1,
     pstart = 0xB8000, plength = 0x4000, htotal = 120, vtotal = 262, hdispend = 80, vdispend = 200,
     special = SpecialMode_default\<lparr>repeat1 := True\<rparr>\<rparr>,
    \<lparr>vm_mode = 0x007, vm_kind = TEXT, swidth = 720, sheight = 350, twidth = 80, theight = 25, cwidth = 9, cheight = 14, ptotal = 8,
     pstart = 0xB0000, plength = 0x1000, htotal = 120, vtotal = 440, hdispend = 80, vdispend = 350,
     special = SpecialMode_default\<rparr>,
    \<lparr>vm_mode = 0x00D, vm_kind = EGA, swidth = 320, sheight = 200, twidth = 40, theight = 25, cwidth = 8, cheight = 8, ptotal = 8,
     pstart = 0xA0000, plength = 0x2000, htotal = 60, vtotal = 262, hdispend = 40, vdispend = 200,
     special = SpecialMode_default\<lparr>ega_half_clock := True\<rparr>\<rparr>,
    \<lparr>vm_mode = 0x00E, vm_kind = EGA, swidth = 640, sheight = 200, twidth = 80, theight = 25, cwidth = 8, cheight = 8, ptotal = 4,
     pstart = 0xA0000, plength = 0x4000, htotal = 120, vtotal = 262, hdispend = 80, vdispend = 200,
     special = SpecialMode_default\<rparr>,
    \<lparr>vm_mode = 0x00F, vm_kind = EGA, swidth = 640, sheight = 350, twidth = 80, theight = 25, cwidth = 8, cheight = 14, ptotal = 2,
     pstart = 0xA0000, plength = 0x8000, htotal = 96, vtotal = 366, hdispend = 80, vdispend = 350,
     special = SpecialMode_default\<rparr>,
    \<lparr>vm_mode = 0x010, vm_kind = EGA, swidth = 640, sheight = 350, twidth = 80, theight = 25, cwidth = 8, cheight = 14, ptotal = 2,
     pstart = 0xA0000, plength = 0x8000, htotal = 96, vtotal = 366, hdispend = 80, vdispend = 350,
     special = SpecialMode_default\<rparr>]"

definition vga_mode_block :: "VideoModeBlock list" where
  "vga_mode_block = [
    \<lparr>vm_mode = 0x000, vm_kind = TEXT, swidth = 360, sheight = 400, twidth = 40, theight = 25, cwidth = 9, cheight = 16, ptotal = 8,
     pstart = 0xB8000, plength = 0x0800, htotal = 50, vtotal = 449, hdispend = 40, vdispend = 400,
     special = SpecialMode_default\<lparr>ega_half_clock := True\<rparr>\<rparr>,
    \<lparr>vm_mode = 0x001, vm_kind = TEXT, swidth = 360, sheight = 400, twidth = 40, theight = 25, cwidth = 9, cheight = 16, ptotal = 8,
     pstart = 0xB8000, plength = 0x0800, htotal = 50, vtotal = 449, hdispend = 40, vdispend = 400,
     special = SpecialMode_default\<lparr>ega_half_clock := True\<rparr>\<rparr>,
    \<lparr>vm_mode = 0x002, vm_kind = TEXT, swidth = 720, sheight = 400, twidth = 80, theight = 25, cwidth = 9, cheight = 16, ptotal = 8,
     pstart = 0xB8000, plength = 0x1000, htotal = 100, vtotal = 449, hdispend = 80, vdispend = 400,
     special = SpecialMode_default\<rparr>,
    \<lparr>vm_mode = MODE_TEXT_80_25, vm_kind = TEXT, swidth = 720, sheight = 400, twidth = 80, theight = 25, cwidth = 9, cheight = 16, ptotal = 8,
     pstart = 0xB8000, plength = 0x1000, htotal = 100, vtotal = 449, hdispend = 80, vdispend = 400,
     special = SpecialMode_default\<rparr>,
    \<lparr>vm_mode = 0x004, vm_kind = CGA4, swidth = 320, sheight = 200, twidth = 40, theight = 25, cwidth = 8, cheight = 8, ptotal = 1,
     pstart = 0xB8000, plength = 0x4000, htotal = 50, vtotal = 449, hdispend = 40, vdispend = 400,
     special = SpecialMode_default\<lparr>ega_half_clock := True, doublescan := True, repeat1 := True\<rparr>\<rparr>,
    \<lparr>vm_mode = 0x005, vm_kind = CGA4, swidth = 320, sheight = 200, twidth = 40, theight = 25, cwidth = 8, cheight = 8, ptotal = 1,
     pstart = 0xB8000, plength = 0x4000, htotal = 50, vtotal = 449, hdispend = 40, vdispend = 400,
     special = SpecialMode_default\<lparr>ega_half_clock := True, doublescan := True, repeat1 := True\<rparr>\<rparr>,
    \<lparr>vm_mode = 0x006, vm_kind = CGA2, swidth = 640, sheight = 200, twidth = 80, theight = 25, cwidth = 8, cheight = 8, ptotal = 1,
     pstart = 0xB8000, plength = 0x4000, htotal = 100, vtotal = 449, hdispend = 80, vdispend = 400,
     special = SpecialMode_default\<lparr>doublescan := True, repeat1 := True\<rparr>\<rparr>,
    \<lparr>vm_mode = 0x007, vm_kind = TEXT, swidth = 720, sheight = 400, twidth = 80, theight = 25, cwidth = 9, cheight = 16, ptotal = 8,
     pstart = 0xB0000, plength = 0x1000, htotal = 100, vtotal = 449, hdispend = 80, vdispend = 400,
     special = SpecialMode_default\<rparr>,
    \<lparr>vm_mode = 0x00D, vm_kind = EGA, swidth = 320, sheight = 200, twidth = 40, theight = 25, cwidth = 8, cheight = 8, ptotal = 8,
     pstart = 0xA0000, plength = 0x2000, htotal = 50, vtotal = 449, hdispend = 40, vdispend = 400,
     special = SpecialMode_default\<lparr>ega_half_clock := True, doublescan := True\<rparr>\<rparr>,
    \<lparr>vm_mode = 0x00E, vm_kind = EGA, swidth = 640, sheight = 200, twidth = 80, theight = 25, cwidth = 8, cheight = 8, ptotal = 4,
     pstart = 0xA0000, plength = 0x4000, htotal = 100, vtotal = 449, hdispend = 80, vdispend = 400,
     special = SpecialMode_default\<lparr>doublescan := True\<rparr>\<rparr>,
    \<lparr>vm_mode = 0x00F, vm_kind = EGA, swidth = 640, sheight = 350, twidth = 80, theight = 25, cwidth = 8, cheight = 14, ptotal = 2,
     pstart = 0xA0000, plength = 0x8000, htotal = 100, vtotal = 449, hdispend = 80, vdispend = 350,
     special = SpecialMode_default\<rparr>,
    \<lparr>vm_mode = 0x010, vm_kind = EGA, swidth = 640, sheight = 350, twidth = 80, theight = 25, cwidth = 8, cheight = 14, ptotal = 2,
     pstart = 0xA0000, plength = 0x8000, htotal = 100, vtotal = 449, hdispend = 80, vdispend = 350,
     special = SpecialMode_default\<rparr>,
    \<lparr>vm_mode = 0x011, vm_kind = EGA, swidth = 640, sheight = 480, twidth = 80, theight = 30, cwidth = 8, cheight = 16, ptotal = 1,
     pstart = 0xA0000, plength = 0xA000, htotal = 100, vtotal = 525, hdispend = 80, vdispend = 480,
     special = SpecialMode_default\<rparr>,
    \<lparr>vm_mode = 0x012, vm_kind = EGA, swidth = 640, sheight = 480, twidth = 80, theight = 30, cwidth = 8, cheight = 16, ptotal = 1,
     pstart = 0xA0000, plength = 0xA000, htotal = 100, vtotal = 525, hdispend = 80, vdispend = 480,
     special = SpecialMode_default\<rparr>,
    \<lparr>vm_mode = 0x013, vm_kind = VGA, swidth = 320, sheight = 200, twidth = 40, theight = 25, cwidth = 8, cheight = 8, ptotal = 1,
     pstart = 0xA0000, plength = 0x2000, htotal = 100, vtotal = 449, hdispend = 80, vdispend = 400,
     special = SpecialMode_default\<lparr>repeat1 := True\<rparr>\<rparr>]"

text \<open>Every card but the VGA is an unhandled card here.\<close>

definition get_mode_block :: "GraphicCard \<Rightarrow> VideoModeBlock list option" where
  "get_mode_block g = (if g = CardVGA then Some vga_mode_block else None)"

lemma palette_lengths:
  "length mono_palette = 2" "length text_palette = 64" "length cga_palette = 16"
  "length cga_palette_2 = 64" "length ega_palette = 64" "length vga_palette = 256"
  by (simp_all add: mono_palette_def text_palette_def cga_palette_def cga_palette_2_def
      ega_palette_def vga_palette_def)

end
