(* ===== verification/X86_Gpu.thy ===== *)
theory X86_Gpu
  imports X86_Video_Modes X86_Gpu_Data X86_Bios
begin

text \<open>
  The registers of the graphics card: the CRT controller (\<open>gpu/crtc.rs\<close>), the colour registers
  (\<open>gpu/dac.rs\<close>), and the card itself with its ports and its scanline counter
  (\<open>gpu/render.rs\<close>).
\<close>

unbundle bit_operations_syntax

section \<open>CRT controller\<close>

record CRTC =
  horizontal_total :: u8
  horizontal_display_end :: u8
  start_horizontal_blanking :: u8
  end_horizontal_blanking :: u8
  start_horizontal_retrace :: u8
  end_horizontal_retrace :: u8
  vertical_total :: u8
  crtc_overflow :: u8
  preset_row_scan :: u8
  maximum_scan_line :: u8
  cursor_start :: u8
  cursor_end :: u8
  start_address_high :: u8
  start_address_low :: u8
  cursor_location_high :: u8
  cursor_location_low :: u8
  vertical_retrace_start :: u8
  vertical_retrace_end :: u8
  vertical_display_end :: u8
  crtc_offset :: u8
  underline_location :: u8
  start_vertical_blanking :: u8
  end_vertical_blanking :: u8
  mode_control :: u8
  line_compare :: u8
  crtc_index :: u8
  read_only :: bool

definition CRTC_default :: CRTC where
  "CRTC_default = \<lparr>horizontal_total = 0, horizontal_display_end = 0, start_horizontal_blanking = 0, end_horizontal_blanking = 0,
     start_horizontal_retrace = 0, end_horizontal_retrace = 0, vertical_total = 0, crtc_overflow = 0,
     preset_row_scan = 0, maximum_scan_line = 0, cursor_start = 0, cursor_end = 0,
     start_address_high = 0, start_address_low = 0, cursor_location_high = 0, cursor_location_low = 0,
     vertical_retrace_start = 0, vertical_retrace_end = 0, vertical_display_end = 0, crtc_offset = 0,
     underline_location = 0, start_vertical_blanking = 0, end_vertical_blanking = 0, mode_control = 0,
     line_compare = 0,
     crtc_index = 0, read_only = False\<rparr>"

definition set_index :: "CRTC \<Rightarrow> u8 \<Rightarrow> CRTC" where
  "set_index c v = c\<lparr>crtc_index := v AND 0x1F\<rparr>"

definition write_current :: "CRTC \<Rightarrow> u8 \<Rightarrow> CRTC option" where
  "write_current c v =
     (let i = crtc_index c in
      if i = 0x00 then Some (c\<lparr>horizontal_total := v\<rparr>)
      else if i = 0x01 then Some (c\<lparr>horizontal_display_end := v\<rparr>)
      else if i = 0x02 then Some (c\<lparr>start_horizontal_blanking := v\<rparr>)
      else if i = 0x03 then Some (c\<lparr>end_horizontal_blanking := v\<rparr>)
      else if i = 0x04 then Some (c\<lparr>start_horizontal_retrace := v\<rparr>)
      else if i = 0x05 then Some (c\<lparr>end_horizontal_retrace := v\<rparr>)
      else if i = 0x06 then Some (c\<lparr>vertical_total := v\<rparr>)
      else if i = 0x07 then Some (c\<lparr>crtc_overflow := v\<rparr>)
      else if i = 0x08 then Some (c\<lparr>preset_row_scan := v\<rparr>)
      else if i = 0x09 then Some (c\<lparr>maximum_scan_line := v\<rparr>)
      else if i = 0x0A then Some (c\<lparr>cursor_start := v\<rparr>)
      else if i = 0x0B then Some (c\<lparr>cursor_end := v\<rparr>)
      else if i = 0x0C then Some (c\<lparr>start_address_high := v\<rparr>)
      else if i = 0x0D then Some (c\<lparr>start_address_low := v\<rparr>)
      else if i = 0x0E then Some (c\<lparr>cursor_location_high := v\<rparr>)
      else if i = 0x0F then Some (c\<lparr>cursor_location_low := v\<rparr>)
      else if i = 0x10 then Some (c\<lparr>vertical_retrace_start := v\<rparr>)
      else if i = 0x11 then Some (c\<lparr>vertical_retrace_end := v\<rparr>)
      else if i = 0x12 then Some (c\<lparr>vertical_display_end := v\<rparr>)
      else if i = 0x13 then Some (c\<lparr>crtc_offset := v\<rparr>)
      else if i = 0x14 then Some (c\<lparr>underline_location := v\<rparr>)
      else if i = 0x15 then Some (c\<lparr>start_vertical_blanking := v\<rparr>)
      else if i = 0x16 then Some (c\<lparr>end_vertical_blanking := v\<rparr>)
      else if i = 0x17 then Some (c\<lparr>mode_control := v\<rparr>)
      else if i = 0x18 then Some (c\<lparr>line_compare := v\<rparr>)
      else None)"

section \<open>Colour registers\<close>

datatype DacState = DacRead | DacWrite

definition state_register :: "DacState \<Rightarrow> u8" where
  "state_register s = (case s of DacRead \<Rightarrow> 0b11 | DacWrite \<Rightarrow> 0b00)"

record DAC =
  dac_bits :: u8
  pel_mask :: u8
  pel_index :: u8
  dac_state :: DacState
  read_index :: u8
  write_index :: u8
  first_changed :: usize
  combine :: "u8 list"
  pal :: "ColorSpace list"
  hidac_counter :: u8
  reg02 :: u8

definition DAC_default :: DAC where
  "DAC_default = \<lparr>dac_bits = 0, pel_mask = 0xFF, pel_index = 0, dac_state = DacRead, read_index = 0,
     write_index = 0, first_changed = 0, combine = replicate 16 0, pal = text_palette, hidac_counter = 0,
     reg02 = 0\<rparr>"

definition get_state :: "DAC \<Rightarrow> u8 \<times> DAC" where
  "get_state d = (let d = d\<lparr>hidac_counter := 0\<rparr> in (state_register (dac_state d), d))"

definition set_pel_mask :: "DAC \<Rightarrow> u8 \<Rightarrow> DAC" where
  "set_pel_mask d v = d\<lparr>pel_mask := v\<rparr>"

definition set_pel_read_index :: "DAC \<Rightarrow> u8 \<Rightarrow> DAC option" where
  "set_pel_read_index d v = do {
     let d = d\<lparr>dac_state := DacRead\<rparr>;
     let d = d\<lparr>read_index := v\<rparr>;
     w \<leftarrow> add_chk v 1;
     let d = d\<lparr>write_index := w\<rparr>;
     Some (d\<lparr>pel_index := 0, hidac_counter := 0\<rparr>)
   }"

definition get_pel_write_index :: "DAC \<Rightarrow> u8 \<times> DAC" where
  "get_pel_write_index d = (let d = d\<lparr>hidac_counter := 0\<rparr> in (write_index d, d))"

definition set_pel_write_index :: "DAC \<Rightarrow> u8 \<Rightarrow> DAC" where
  "set_pel_write_index d v = d\<lparr>dac_state := DacWrite, write_index := v, pel_index := 0, hidac_counter := 0\<rparr>"

text \<open>An index into the palette panics beyond its length.\<close>

definition palette_at :: "ColorSpace list \<Rightarrow> nat \<Rightarrow> ColorSpace option" where
  "palette_at p i = (if i < length p then Some (p ! i) else None)"

definition get_pel_data :: "DAC \<Rightarrow> (u8 \<times> DAC) option" where
  "get_pel_data d = do {
     let d = d\<lparr>hidac_counter := 0\<rparr>;
     col \<leftarrow> palette_at (pal d) (unat (read_index d));
     case col of
       RGB r g b \<Rightarrow>
         (if pel_index d = 0 then Some (drop_bit 2 r, d\<lparr>pel_index := 1\<rparr>)
          else if pel_index d = 1 then Some (drop_bit 2 g, d\<lparr>pel_index := 2\<rparr>)
          else if pel_index d = 2 then do {
            let d = d\<lparr>pel_index := 0\<rparr>;
            i \<leftarrow> add_chk (read_index d) 1;
            Some (drop_bit 2 b, d\<lparr>read_index := i\<rparr>)
          }
          else None)
     | NoColor \<Rightarrow> None
   }"

definition set_pel_data :: "DAC \<Rightarrow> u8 \<Rightarrow> DAC option" where
  "set_pel_data d v = do {
     let v = push_bit 2 (v AND 0x3F);
     let d = d\<lparr>hidac_counter := 0\<rparr>;
     let w = unat (write_index d);
     col \<leftarrow> palette_at (pal d) w;
     d \<leftarrow> (case col of
        RGB r g b \<Rightarrow>
          (if pel_index d = 0 then Some (d\<lparr>pal := (pal d)[w := RGB v g b]\<rparr>)
           else if pel_index d = 1 then Some (d\<lparr>pal := (pal d)[w := RGB r v b]\<rparr>)
           else if pel_index d = 2 then Some (d\<lparr>pal := (pal d)[w := RGB r g v]\<rparr>)
           else None)
      | NoColor \<Rightarrow> Some d);
     p \<leftarrow> add_chk (pel_index d) 1;
     let d = d\<lparr>pel_index := p\<rparr>;
     if p > 2 then do {
       d \<leftarrow> (if unat (write_index d) \<ge> length (pal d) - 1 then Some (d\<lparr>write_index := 0\<rparr>)
         else do { i \<leftarrow> add_chk (write_index d) 1; Some (d\<lparr>write_index := i\<rparr>) });
       Some (d\<lparr>pel_index := 0\<rparr>)
     }
     else Some d
   }"

section \<open>The card\<close>

record GPU =
  scanline :: u32
  crtc :: CRTC
  dac :: DAC
  font_8_first :: MemoryAddress
  font_8_second :: MemoryAddress
  font_14 :: MemoryAddress
  font_14_alternate :: MemoryAddress
  font_16 :: MemoryAddress
  font_16_alternate :: MemoryAddress
  static_config :: MemoryAddress
  video_parameter_table :: MemoryAddress
  video_dcc_table :: MemoryAddress
  graphic_card :: GraphicCard
  gpu_mode :: VideoModeBlock
  modes :: "VideoModeBlock list"

definition GPU_default :: "GPU option" where
  "GPU_default = do {
     let generation = CardVGA;
     modes \<leftarrow> get_mode_block generation;
     Some \<lparr>scanline = 0, crtc = CRTC_default, dac = DAC_default, font_8_first = Unset,
       font_8_second = Unset, font_14 = Unset, font_14_alternate = Unset, font_16 = Unset,
       font_16_alternate = Unset, static_config = Unset, video_parameter_table = Unset,
       video_dcc_table = Unset, graphic_card = generation, gpu_mode = modes ! 3, modes = modes\<rparr>
   }"

definition progress_scanline :: "GPU \<Rightarrow> GPU option" where
  "progress_scanline g = do {
     s \<leftarrow> add_chk (scanline g) 1;
     Some (g\<lparr>scanline := if s > sheight (gpu_mode g) then 0 else s\<rparr>)
   }"

definition read_cga_status_register :: "GPU \<Rightarrow> u8" where
  "read_cga_status_register g =
     (let flags = 0 in
      if scanline g = 0 then flags OR 0b00000001 OR 0b00001000
      else flags AND 0b11111110 AND 0b11110111)"

definition gpu_in_u8 :: "GPU port_in" where
  "gpu_in_u8 g port =
     (if port = 0x03C7 then (let (v, d) = get_state (dac g) in Some (Some v, g\<lparr>dac := d\<rparr>))
      else if port = 0x03C8 then (let (v, d) = get_pel_write_index (dac g) in Some (Some v, g\<lparr>dac := d\<rparr>))
      else if port = 0x03C9 then do { (v, d) \<leftarrow> get_pel_data (dac g); Some (Some v, g\<lparr>dac := d\<rparr>) }
      else if port = 0x03D5 then Some (Some 0, g)
      else if port = 0x03DA then Some (Some (read_cga_status_register g), g)
      else Some (None, g))"

definition gpu_out_u8 :: "GPU port_out" where
  "gpu_out_u8 g port v =
     (if port = 0x02C9 then do { d \<leftarrow> set_pel_data (dac g) v; Some (True, g\<lparr>dac := d\<rparr>) }
      else if port = 0x03B4 then Some (True, g\<lparr>crtc := set_index (crtc g) v\<rparr>)
      else if port = 0x03B5 then do { c \<leftarrow> write_current (crtc g) v; Some (True, g\<lparr>crtc := c\<rparr>) }
      else if port = 0x03C2 then Some (True, g)
      else if port = 0x03C6 then Some (True, g\<lparr>dac := set_pel_mask (dac g) v\<rparr>)
      else if port = 0x03C7 then do { d \<leftarrow> set_pel_read_index (dac g) v; Some (True, g\<lparr>dac := d\<rparr>) }
      else if port = 0x03C8 then Some (True, g\<lparr>dac := set_pel_write_index (dac g) v\<rparr>)
      else if port = 0x03C9 then do { d \<leftarrow> set_pel_data (dac g) v; Some (True, g\<lparr>dac := d\<rparr>) }
      else if port = 0x03D4 then Some (True, g\<lparr>crtc := set_index (crtc g) v\<rparr>)
      else if port = 0x03D5 then do { c \<leftarrow> write_current (crtc g) v; Some (True, g\<lparr>crtc := c\<rparr>) }
      else if port = 0x03D8 \<or> port = 0x03D9 \<or> port = 0x03DA then Some (True, g)
      else Some (False, g))"

end
