(* ===== verification/X86_Gpu_Text.thy ===== *)
theory X86_Gpu_Text
  imports X86_Gpu
begin

text \<open>
  The video services of INT 10 (\<open>gpu/render.rs\<close>): setting the mode, the cursor and the active page,
  writing characters, strings and pixels, and the blocks of colour registers. Services that the
  source only reports on the console leave the state as it is. A \<open>while count > 0\<close> loop runs its
  body \<open>count\<close> times.
\<close>

unbundle bit_operations_syntax

section \<open>Cursor and page\<close>

definition cursor_pos_col :: "MMU \<Rightarrow> u8 \<Rightarrow> u8 option" where
  "cursor_pos_col u page = do {
     ofs \<leftarrow> mul_chk (ucast page) 2;
     a \<leftarrow> add_chk DATA_CURSOR_POS ofs;
     mmu_read_u8 u DATA_SEG a
   }"

definition cursor_pos_row :: "MMU \<Rightarrow> u8 \<Rightarrow> u8 option" where
  "cursor_pos_row u page = do {
     ofs \<leftarrow> mul_chk (ucast page) 2;
     a \<leftarrow> add_chk DATA_CURSOR_POS ofs;
     a \<leftarrow> add_chk a 1;
     mmu_read_u8 u DATA_SEG a
   }"

definition get_active_page :: "MMU \<Rightarrow> u8 option" where
  "get_active_page u = mmu_read_u8 u DATA_SEG DATA_CURRENT_PAGE"

text \<open>A pair of CRT controller registers, high byte first.\<close>

definition write_crtc_pair :: "CRTC \<Rightarrow> u8 \<Rightarrow> u8 \<Rightarrow> u16 \<Rightarrow> CRTC option" where
  "write_crtc_pair c hi lo v = do {
     let c = set_index c hi;
     c \<leftarrow> write_current c (ucast (drop_bit 8 v));
     let c = set_index c lo;
     write_current c (ucast v)
   }"

definition set_cursor_pos :: "GPU \<Rightarrow> MMU \<Rightarrow> u8 \<Rightarrow> u8 \<Rightarrow> u8 \<Rightarrow> (GPU \<times> MMU) option" where
  "set_cursor_pos g u row col page = do {
     cursor_ofs \<leftarrow> mul_chk (ucast page) 2;
     a \<leftarrow> add_chk DATA_CURSOR_POS cursor_ofs;
     u \<leftarrow> mmu_write_u8 u DATA_SEG a col;
     a1 \<leftarrow> add_chk a 1;
     u \<leftarrow> mmu_write_u8 u DATA_SEG a1 row;
     active \<leftarrow> get_active_page u;
     if page = active then do {
       ncols \<leftarrow> mmu_read_u16 u DATA_SEG DATA_NB_COLS;
       line \<leftarrow> mul_chk ncols (ucast row);
       cell \<leftarrow> add_chk line (ucast col);
       start \<leftarrow> mmu_read_u16 u DATA_SEG DATA_CURRENT_START;
       address \<leftarrow> add_chk cell (start div 2);
       c \<leftarrow> write_crtc_pair (crtc g) 0x0E 0x0F address;
       Some (g\<lparr>crtc := c\<rparr>, u)
     }
     else Some (g, u)
   }"

definition set_active_page :: "GPU \<Rightarrow> MMU \<Rightarrow> u8 \<Rightarrow> (GPU \<times> MMU) option" where
  "set_active_page g u page = do {
     size \<leftarrow> mmu_read_u16 u DATA_SEG DATA_PAGE_SIZE;
     mem_address \<leftarrow> mul_chk (ucast page) size;
     u \<leftarrow> mmu_write_u16 u DATA_SEG DATA_CURRENT_START mem_address;
     let mem_address =
       (if is_ega_vga (graphic_card g) then (if vm_mode (gpu_mode g) < 8 then drop_bit 1 mem_address else mem_address)
        else drop_bit 1 mem_address);
     c \<leftarrow> write_crtc_pair (crtc g) 0x0C 0x0D mem_address;
     let g = g\<lparr>crtc := c\<rparr>;
     u \<leftarrow> mmu_write_u8 u DATA_SEG DATA_CURRENT_PAGE page;
     cur_row \<leftarrow> cursor_pos_row u page;
     cur_col \<leftarrow> cursor_pos_col u page;
     set_cursor_pos g u cur_row cur_col page
   }"

section \<open>Video mode\<close>

definition store_mode_in_bios :: "GPU \<Rightarrow> MMU \<Rightarrow> bool \<Rightarrow> MMU option" where
  "store_mode_in_bios g u clear_mem = do {
     let m = gpu_mode g;
     u \<leftarrow> (if vm_mode m < 128 then mmu_write_u8 u DATA_SEG DATA_CURRENT_MODE (ucast (vm_mode m))
       else do {
         v \<leftarrow> sub_chk (vm_mode m) 0x98;
         mmu_write_u8 u DATA_SEG DATA_CURRENT_MODE (ucast v)
       });
     u \<leftarrow> mmu_write_u16 u DATA_SEG DATA_NB_COLS (ucast (twidth m));
     u \<leftarrow> mmu_write_u16 u DATA_SEG DATA_PAGE_SIZE (ucast (plength m));
     u \<leftarrow> mmu_write_u16 u DATA_SEG DATA_CRTC_ADDRESS (crtc_address m);
     rows \<leftarrow> sub_chk (theight m) 1;
     u \<leftarrow> mmu_write_u8 u DATA_SEG DATA_NB_ROWS (ucast rows);
     u \<leftarrow> mmu_write_u16 u DATA_SEG DATA_CHAR_HEIGHT (ucast (cheight m));
     let video_ctl = 0x60 OR (if clear_mem then 0 else 0x80);
     u \<leftarrow> mmu_write_u8 u DATA_SEG DATA_VIDEO_CTL video_ctl;
     u \<leftarrow> mmu_write_u8 u DATA_SEG DATA_SWITCHES 0x09;
     if vm_kind m = VGA then mmu_write_u8 u DATA_SEG DATA_DCC_INDEX 0x0B
     else Some u
   }"

text \<open>The last block of the card's list with the number; the card keeps its mode if there is none.\<close>

fun find_mode :: "VideoModeBlock list \<Rightarrow> u8 \<Rightarrow> VideoModeBlock option \<Rightarrow> VideoModeBlock option" where
  "find_mode [] m found = found"
| "find_mode (b # bs) m found = find_mode bs m (if vm_mode b = ucast m then Some b else found)"

definition mode_palette :: "GFXMode \<Rightarrow> ColorSpace list option" where
  "mode_palette k =
     (if k = TEXT then Some text_palette
      else if k = CGA2 then Some cga_palette_2
      else if k = CGA4 then Some cga_palette
      else if k = EGA then Some ega_palette
      else if k = VGA then Some vga_palette
      else None)"

definition gpu_set_mode :: "GPU \<Rightarrow> MMU \<Rightarrow> u8 \<Rightarrow> (GPU \<times> MMU) option" where
  "gpu_set_mode g u m = (case find_mode (modes g) m None of
     None \<Rightarrow> Some (g, u)
   | Some block \<Rightarrow> do {
       let g = g\<lparr>gpu_mode := block\<rparr>;
       p \<leftarrow> mode_palette (vm_kind block);
       let g = g\<lparr>dac := (dac g)\<lparr>pal := p\<rparr>\<rparr>;
       u \<leftarrow> store_mode_in_bios g u True;
       (g, u) \<leftarrow> for_each (\<lambda>ct (g, u). set_cursor_pos g u 0 0 ct) (map of_nat [0..<8]) (g, u);
       (g, u) \<leftarrow> set_active_page g u 0;
       let h = cheight block;
       u \<leftarrow> (if h \<le> 3 \<or> h = 7 \<or> h = 8 then mmu_write_vec u 0x43 (font_8_first g)
         else if h = 14 then mmu_write_vec u 0x43 (font_14 g)
         else if h = 16 then mmu_write_vec u 0x43 (font_16 g)
         else Some u);
       Some (g, u)
     })"

section \<open>Pixels and characters\<close>

definition CGA_MASKS :: "u8 list" where "CGA_MASKS = [0x3f, 0xcf, 0xf3, 0xfc]"

definition write_pixel_cga_16k :: "MMU \<Rightarrow> u16 \<Rightarrow> u16 \<Rightarrow> u8 \<Rightarrow> MMU option" where
  "write_pixel_cga_16k u x y color = do {
     line \<leftarrow> mul_chk (drop_bit 1 y) 80;
     off \<leftarrow> add_chk line (drop_bit 2 x);
     off \<leftarrow> (if y AND 1 \<noteq> 0 then add_chk off (8 * 1024) else Some off);
     old \<leftarrow> mmu_read_u8 u 0xB800 off;
     let sh = unat (2 * (3 - (x AND 3)));
     let old =
       (if color AND 0x80 \<noteq> 0 then old XOR push_bit sh (color AND 3)
        else (old AND CGA_MASKS ! unat (x AND 3)) OR push_bit sh (color AND 3));
     mmu_write_u8 u 0xB800 off old
   }"

definition write_pixel_cga_32k :: "GPU \<Rightarrow> MMU \<Rightarrow> u16 \<Rightarrow> u16 \<Rightarrow> u8 \<Rightarrow> MMU option" where
  "write_pixel_cga_32k g u x y color = do {
     seg \<leftarrow> (if is_pc_jr (graphic_card g) then do {
         v \<leftarrow> mmu_read_u8 u DATA_SEG DATA_CRTCPU_PAGE;
         let cpupage = drop_bit 3 v AND 0x7;
         Some (push_bit 10 (ucast cpupage))
       }
       else Some 0xB800);
     line \<leftarrow> mul_chk (drop_bit 2 y) 160;
     off \<leftarrow> add_chk line (drop_bit 2 x AND NOT 1);
     bank \<leftarrow> mul_chk (8 * 1024) (y AND 3);
     off \<leftarrow> add_chk off bank;
     old \<leftarrow> mmu_read_u16 u seg off;
     let sh = unat (7 - (x AND 7));
     let c0 = push_bit sh ((ucast color :: u16) AND 1);
     let c1 = push_bit (sh + 8) (drop_bit 1 ((ucast color :: u16) AND 2));
     let old =
       (if color AND 0x80 \<noteq> 0 then old XOR c0 XOR c1
        else (old AND NOT (push_bit sh 0x101)) OR c0 OR c1);
     mmu_write_u16 u seg off old
   }"

definition write_pixel :: "GPU \<Rightarrow> MMU \<Rightarrow> u16 \<Rightarrow> u16 \<Rightarrow> u8 \<Rightarrow> u8 \<Rightarrow> MMU option" where
  "write_pixel g u x y page color =
     (if vm_kind (gpu_mode g) = TEXT then Some u
      else if vm_kind (gpu_mode g) = CGA4 then do {
        m \<leftarrow> mmu_read_u8 u DATA_SEG DATA_CURRENT_MODE;
        if m \<le> 5 then write_pixel_cga_16k u x y color else write_pixel_cga_32k g u x y color
      }
      else if vm_kind (gpu_mode g) = VGA then do {
        line \<leftarrow> mul_chk y 320;
        off \<leftarrow> add_chk line x;
        mmu_write_u8 u 0xA000 off color
      }
      else Some u)"

text \<open>The glyph: one byte of the font per line, most significant bit first.\<close>

definition glyph_line ::
  "GPU \<Rightarrow> u8 \<Rightarrow> u8 \<Rightarrow> u8 \<Rightarrow> u16 \<Rightarrow> u8 \<Rightarrow> u16 \<Rightarrow> MMU \<Rightarrow> MMU option" where
  "glyph_line g page attr xor_mask x bitline y u = do {
     (tx, u) \<leftarrow> for_each (\<lambda>bitsel (tx, u). do {
         u \<leftarrow> (if bitline AND bitsel \<noteq> 0 then write_pixel g u tx y page attr
           else write_pixel g u tx y page (attr AND xor_mask));
         tx \<leftarrow> add_chk tx 1;
         Some (tx, u)
       }) [128, 64, 32, 16, 8, 4, 2, 1] (x, u);
     Some u
   }"

definition write_char_internal ::
  "GPU \<Rightarrow> MMU \<Rightarrow> u16 \<Rightarrow> u16 \<Rightarrow> u8 \<Rightarrow> u16 \<Rightarrow> u8 \<Rightarrow> bool \<Rightarrow> MMU option" where
  "write_char_internal g u col row page chr attr use_attr = do {
     let chr = chr AND 0xFF;
     let m = gpu_mode g;
     cheight \<leftarrow> mmu_read_u8 u DATA_SEG DATA_CHAR_HEIGHT;
     (fontdata_seg, fontdata_off, u) \<leftarrow>
       (if vm_kind m = TEXT then do {
          size \<leftarrow> mmu_read_u16 u DATA_SEG DATA_PAGE_SIZE;
          base \<leftarrow> mul_chk (ucast page) size;
          ncols \<leftarrow> mmu_read_u16 u DATA_SEG DATA_NB_COLS;
          line \<leftarrow> mul_chk row ncols;
          cell \<leftarrow> add_chk line col;
          cell2 \<leftarrow> mul_chk cell 2;
          address \<leftarrow> add_chk (ucast base :: u32) (ucast cell2);
          dst \<leftarrow> add_chk (pstart m) address;
          u \<leftarrow> upd_memory u (mem_write_u8 (memory u) dst (ucast chr));
          u \<leftarrow> (if use_attr then do {
              dst1 \<leftarrow> add_chk dst 1;
              upd_memory u (mem_write_u8 (memory u) dst1 attr)
            }
            else Some u);
          Some (0, 0, u)
        }
        else if vm_kind m = CGA4 \<or> vm_kind m = CGA2 \<or> vm_kind m = TANDY16 then do {
          (seg, off) \<leftarrow> (if chr < 0x80 then mmu_read_vec u 0x43 else mmu_read_vec u 0x1F);
          let chr = (if chr < 0x80 then chr else chr - 0x80);
          k \<leftarrow> mul_chk chr (ucast cheight);
          off \<leftarrow> add_chk off k;
          Some (seg, off, u)
        }
        else do {
          (seg, off) \<leftarrow> mmu_read_vec u 0x43;
          k \<leftarrow> mul_chk chr (ucast cheight);
          off \<leftarrow> add_chk off k;
          Some (seg, off, u)
        });
     let attr =
       (if use_attr then attr
        else if vm_kind m = CGA4 then 0x3 else if vm_kind m = CGA2 then 0x1 else 0x7);
     let attr = (if vm_mode m = 0x6 then (attr AND 0x80) OR 1 else attr);
     x \<leftarrow> mul_chk 8 col;
     y \<leftarrow> mul_chk (ucast cheight) row;
     let xor_mask = (if vm_kind m = VGA then 0 else 0x80);
     (off, y, u) \<leftarrow> for_each (\<lambda>idx (off, y, u). do {
         bitline \<leftarrow> mmu_read_u8 u fontdata_seg off;
         off \<leftarrow> add_chk off 1;
         u \<leftarrow> glyph_line g page attr xor_mask x bitline y u;
         y \<leftarrow> add_chk y 1;
         Some (off, y, u)
       }) [0..<unat cheight] (fontdata_off, y, u);
     Some u
   }"

definition write_char :: "GPU \<Rightarrow> MMU \<Rightarrow> u16 \<Rightarrow> u8 \<Rightarrow> u8 \<Rightarrow> u16 \<Rightarrow> bool \<Rightarrow> MMU option" where
  "write_char g u chr attr page n showattr = do {
     let txt = is_text (gpu_mode g);
     let showattr = (if txt then showattr else True);
     page \<leftarrow> (if txt then Some page
       else if graphic_card g = CardEGA \<or> graphic_card g = CardVGA then rem_chk page (ptotal (gpu_mode g))
       else if graphic_card g = CardCGA then Some 0
       else Some page);
     cur_row \<leftarrow> cursor_pos_row u page;
     cur_col \<leftarrow> cursor_pos_col u page;
     ncols \<leftarrow> mmu_read_u16 u DATA_SEG DATA_NB_COLS;
     (cur_col, cur_row, u) \<leftarrow> for_each (\<lambda>k (cur_col, cur_row, u). do {
         u \<leftarrow> write_char_internal g u (ucast cur_col) (ucast cur_row) page chr attr showattr;
         cur_col \<leftarrow> add_chk cur_col 1;
         if (ucast cur_col :: u16) \<ge> ncols then do {
           cur_row \<leftarrow> add_chk cur_row 1;
           Some (0, cur_row, u)
         }
         else Some (cur_col, cur_row, u)
       }) [0..<unat n] (cur_col, cur_row, u);
     Some u
   }"

definition teletype_output_attr ::
  "GPU \<Rightarrow> MMU \<Rightarrow> u8 \<Rightarrow> u8 \<Rightarrow> u8 \<Rightarrow> bool \<Rightarrow> (GPU \<times> MMU) option" where
  "teletype_output_attr g u chr attr page use_attr = do {
     ncols \<leftarrow> mmu_read_u16 u DATA_SEG DATA_NB_COLS;
     rows \<leftarrow> mmu_read_u16 u DATA_SEG DATA_NB_ROWS;
     nrows \<leftarrow> add_chk rows 1;
     row8 \<leftarrow> cursor_pos_row u page;
     col8 \<leftarrow> cursor_pos_col u page;
     let cur_row = (ucast row8 :: u16);
     let cur_col = (ucast col8 :: u16);
     (cur_row, cur_col, u) \<leftarrow>
       (if chr = 8 then Some (cur_row, (if cur_col > 0 then cur_col - 1 else cur_col), u)
        else if chr = 13 then Some (cur_row, 0, u)
        else if chr = 10 then do { r \<leftarrow> add_chk cur_row 1; Some (r, cur_col, u) }
        else do {
          u \<leftarrow> write_char_internal g u cur_col cur_row page (ucast chr) attr use_attr;
          k \<leftarrow> add_chk cur_col 1;
          Some (cur_row, k, u)
        });
     (cur_row, cur_col) \<leftarrow>
       (if cur_col = ncols then do { r \<leftarrow> add_chk cur_row 1; Some (r, 0) } else Some (cur_row, cur_col));
     cur_row \<leftarrow> (if cur_row = nrows then sub_chk cur_row 1 else Some cur_row);
     set_cursor_pos g u (ucast cur_row) (ucast cur_col) page
   }"

definition teletype_output :: "GPU \<Rightarrow> MMU \<Rightarrow> u8 \<Rightarrow> u8 \<Rightarrow> u8 \<Rightarrow> (GPU \<times> MMU) option" where
  "teletype_output g u chr page attr =
     teletype_output_attr g u chr attr page (vm_kind (gpu_mode g) \<noteq> TEXT)"

definition write_string ::
  "GPU \<Rightarrow> MMU \<Rightarrow> u8 \<Rightarrow> u8 \<Rightarrow> u8 \<Rightarrow> u8 \<Rightarrow> u16 \<Rightarrow> u16 \<Rightarrow> u16 \<Rightarrow> u8 \<Rightarrow> (GPU \<times> MMU) option" where
  "write_string g u row col flag attr str_seg str_off n page = do {
     cur_row \<leftarrow> cursor_pos_row u page;
     cur_col \<leftarrow> cursor_pos_col u page;
     let (row, col) = (if row = 0xFF then (cur_row, cur_col) else (row, col));
     (g, u) \<leftarrow> set_cursor_pos g u row col page;
     (g, u, off, attr) \<leftarrow> for_each (\<lambda>k (g, u, off, attr). do {
         chr \<leftarrow> mmu_read_u8 u str_seg off;
         off \<leftarrow> add_chk off 1;
         (attr, off) \<leftarrow> (if flag AND 2 \<noteq> 0 then do {
             attr \<leftarrow> mmu_read_u8 u str_seg off;
             off \<leftarrow> add_chk off 1;
             Some (attr, off)
           }
           else Some (attr, off));
         (g, u) \<leftarrow> teletype_output_attr g u chr attr page True;
         Some (g, u, off, attr)
       }) [0..<unat n] (g, u, str_off, attr);
     if flag AND 1 = 0 then set_cursor_pos g u cur_row cur_col page else Some (g, u)
   }"

definition load_graphics_chars :: "GPU \<Rightarrow> MMU \<Rightarrow> u8 \<Rightarrow> u8 \<Rightarrow> MMU option" where
  "load_graphics_chars g u row dl =
     (if \<not> is_vga (graphic_card g) then Some u
      else do {
        u \<leftarrow> mmu_write_vec u 0x43 (font_16 g);
        u \<leftarrow> mmu_write_u16 u DATA_SEG DATA_CHAR_HEIGHT 16;
        v \<leftarrow> (if row = 0x00 then sub_chk dl 1
          else if row = 0x01 then Some 13
          else if row = 0x02 then Some 24
          else if row = 0x03 then Some 42
          else None);
        mmu_write_u8 u DATA_SEG DATA_NB_ROWS v
      })"

section \<open>Blocks of colour registers\<close>

text \<open>Three reads, or three writes, make one colour.\<close>

definition get_rgb :: "DAC \<Rightarrow> ((u8 \<times> u8 \<times> u8) \<times> DAC) option" where
  "get_rgb d = do {
     (r, d) \<leftarrow> get_pel_data d;
     (g, d) \<leftarrow> get_pel_data d;
     (b, d) \<leftarrow> get_pel_data d;
     Some ((r, g, b), d)
   }"

definition put_rgb :: "DAC \<Rightarrow> u8 \<Rightarrow> u8 \<Rightarrow> u8 \<Rightarrow> DAC option" where
  "put_rgb d r g b = do {
     d \<leftarrow> set_pel_data d r;
     d \<leftarrow> set_pel_data d g;
     set_pel_data d b
   }"

text \<open>The clamped intensity of a colour.\<close>

definition intensity :: "u8 \<Rightarrow> u8 \<Rightarrow> u8 \<Rightarrow> u8" where
  "intensity r g b =
     (let i = drop_bit 8 ((77 * (ucast r :: u32) + 151 * ucast g + 28 * ucast b) + 0x80)
      in if i > 0x3F then 0x3F else ucast i)"

definition summed :: "MMU \<Rightarrow> bool option" where
  "summed u = map_option (\<lambda>v. v AND 0x06 \<noteq> 0) (mmu_read_u8 u DATA_SEG DATA_MODESET_CTL)"

definition set_individual_dac_register :: "GPU \<Rightarrow> MMU \<Rightarrow> u8 \<Rightarrow> u8 \<Rightarrow> u8 \<Rightarrow> u8 \<Rightarrow> GPU option" where
  "set_individual_dac_register g u index r gr b = do {
     let d = set_pel_write_index (dac g) index;
     sm \<leftarrow> summed u;
     d \<leftarrow> (if \<not> sm then put_rgb d r gr b
       else (let ic = intensity r gr b in put_rgb d ic ic ic));
     Some (g\<lparr>dac := d\<rparr>)
   }"

definition set_dac_block :: "GPU \<Rightarrow> MMU \<Rightarrow> u16 \<Rightarrow> u16 \<Rightarrow> u16 \<Rightarrow> u16 \<Rightarrow> GPU option" where
  "set_dac_block g u index n seg off = do {
     let d = set_pel_write_index (dac g) (ucast index);
     sm \<leftarrow> summed u;
     (d, off) \<leftarrow> (if \<not> sm then for_each (\<lambda>k (d, off). do {
           r \<leftarrow> mmu_read_u8 u seg off; off \<leftarrow> add_chk off 1;
           d \<leftarrow> set_pel_data d r;
           gr \<leftarrow> mmu_read_u8 u seg off; off \<leftarrow> add_chk off 1;
           d \<leftarrow> set_pel_data d gr;
           b \<leftarrow> mmu_read_u8 u seg off; off \<leftarrow> add_chk off 1;
           d \<leftarrow> set_pel_data d b;
           Some (d, off)
         }) [0..<unat n] (d, off)
       else for_each (\<lambda>k (d, off). do {
           r \<leftarrow> mmu_read_u8 u seg off; off \<leftarrow> add_chk off 1;
           gr \<leftarrow> mmu_read_u8 u seg off; off \<leftarrow> add_chk off 1;
           b \<leftarrow> mmu_read_u8 u seg off; off \<leftarrow> add_chk off 1;
           let ic = intensity r gr b;
           d \<leftarrow> put_rgb d ic ic ic;
           Some (d, off)
         }) [0..<unat n] (d, off));
     Some (g\<lparr>dac := d\<rparr>)
   }"

definition read_dac_block :: "GPU \<Rightarrow> MMU \<Rightarrow> u16 \<Rightarrow> u16 \<Rightarrow> u16 \<Rightarrow> u16 \<Rightarrow> (GPU \<times> MMU) option" where
  "read_dac_block g u index n seg off = do {
     d \<leftarrow> set_pel_read_index (dac g) (ucast index);
     (d, u, off) \<leftarrow> for_each (\<lambda>k (d, u, off). do {
         (r, d) \<leftarrow> get_pel_data d;
         u \<leftarrow> mmu_write_u8 u seg off r; off \<leftarrow> add_chk off 1;
         (gr, d) \<leftarrow> get_pel_data d;
         u \<leftarrow> mmu_write_u8 u seg off gr; off \<leftarrow> add_chk off 1;
         (b, d) \<leftarrow> get_pel_data d;
         u \<leftarrow> mmu_write_u8 u seg off b; off \<leftarrow> add_chk off 1;
         Some (d, u, off)
       }) [0..<unat n] (d, u, off);
     Some (g\<lparr>dac := d\<rparr>, u)
   }"

definition get_individual_dac_register :: "GPU \<Rightarrow> u8 \<Rightarrow> ((u8 \<times> u8 \<times> u8) \<times> GPU) option" where
  "get_individual_dac_register g index = do {
     d \<leftarrow> set_pel_read_index (dac g) index;
     (rgb, d) \<leftarrow> get_rgb d;
     Some (rgb, g\<lparr>dac := d\<rparr>)
   }"

end
