(* ===== verification/X86_Gpu_Int.thy ===== *)
theory X86_Gpu_Int
  imports X86_Gpu_Text
begin

text \<open>
  The dispatch of INT 10 and the initialisation of the card's ROM (\<open>GPU::int\<close> and \<open>GPU::init\<close>,
  \<open>gpu/render.rs\<close>).
\<close>

unbundle bit_operations_syntax

section \<open>INT 10\<close>

text \<open>The services of AH = 10 (palette) and AH = 11 (fonts).\<close>

definition gpu_int_palette :: "GPU \<Rightarrow> CPU \<Rightarrow> MMU \<Rightarrow> (bool \<times> GPU \<times> CPU \<times> MMU) option" where
  "gpu_int_palette g c u = do {
     al \<leftarrow> get_r8 c R.AL;
     if al = 0x00 then Some (True, g, c, u)
     else if al = 0x07 then None
     else if al = 0x10 then do {
       index \<leftarrow> get_r8 c R.BL;
       r \<leftarrow> get_r8 c R.DH;
       gr \<leftarrow> get_r8 c R.CH;
       b \<leftarrow> get_r8 c R.CL;
       g \<leftarrow> set_individual_dac_register g u index r gr b;
       Some (True, g, c, u)
     }
     else if al = 0x12 then do {
       start \<leftarrow> get_r16 c R.BX;
       n \<leftarrow> get_r16 c R.CX;
       seg \<leftarrow> get_r16 c R.ES;
       off \<leftarrow> get_r16 c R.DX;
       g \<leftarrow> set_dac_block g u start n seg off;
       Some (True, g, c, u)
     }
     else if al = 0x15 then do {
       index \<leftarrow> get_r8 c R.BL;
       ((r, gr, b), g) \<leftarrow> get_individual_dac_register g index;
       c \<leftarrow> set_r8 c R.DH r;
       c \<leftarrow> set_r8 c R.CH gr;
       c \<leftarrow> set_r8 c R.CL b;
       Some (True, g, c, u)
     }
     else if al = 0x17 then do {
       index \<leftarrow> get_r16 c R.BX;
       n \<leftarrow> get_r16 c R.CX;
       seg \<leftarrow> get_r16 c R.ES;
       off \<leftarrow> get_r16 c R.DX;
       (g, u) \<leftarrow> read_dac_block g u index n seg off;
       Some (True, g, c, u)
     }
     else Some (True, g, c, u)
   }"

definition point_to_font :: "CPU \<Rightarrow> MemoryAddress \<Rightarrow> CPU" where
  "point_to_font c a = (case a of
     RealSegmentOffset seg off \<Rightarrow> set_r16 (set_r16 c R.ES seg) R.BP off
   | _ \<Rightarrow> c)"

definition gpu_int_fonts :: "GPU \<Rightarrow> CPU \<Rightarrow> MMU \<Rightarrow> (bool \<times> GPU \<times> CPU \<times> MMU) option" where
  "gpu_int_fonts g c u = do {
     al \<leftarrow> get_r8 c R.AL;
     if al = 0x24 then do {
       bl \<leftarrow> get_r8 c R.BL;
       dl \<leftarrow> get_r8 c R.DL;
       u \<leftarrow> load_graphics_chars g u bl dl;
       Some (True, g, c, u)
     }
     else if al = 0x30 then do {
       bh \<leftarrow> get_r8 c R.BH;
       if bh = 0x00 then do {
         (seg, off) \<leftarrow> mmu_read_vec u 0x1F;
         Some (True, g, set_r16 (set_r16 c R.ES seg) R.BP off, u)
       }
       else if bh = 0x02 then Some (True, g, point_to_font c (font_14 g), u)
       else if bh = 0x06 then
         Some (True, g, (if is_vga (graphic_card g) then point_to_font c (font_16 g) else c), u)
       else Some (False, g, c, u)
     }
     else Some (False, g, c, u)
   }"

text \<open>The services from AH = 12: adapter information, strings and VESA.\<close>

definition gpu_int_info :: "GPU \<Rightarrow> u8 \<Rightarrow> CPU \<Rightarrow> MMU \<Rightarrow> (bool \<times> GPU \<times> CPU \<times> MMU) option" where
  "gpu_int_info g ah c u =
     (if ah = 0x12 then do {
        bl \<leftarrow> get_r8 c R.BL;
        if bl = 0x10 then do {
          c \<leftarrow> set_r8 c R.BH 0;
          c \<leftarrow> set_r8 c R.BL 3;
          c \<leftarrow> set_r8 c R.CH 0;
          c \<leftarrow> set_r8 c R.CL 9;
          Some (True, g, c, u)
        }
        else Some (False, g, c, u)
      }
      else if ah = 0x13 then do {
        row \<leftarrow> get_r8 c R.DH;
        col \<leftarrow> get_r8 c R.DL;
        flag \<leftarrow> get_r8 c R.AL;
        attr \<leftarrow> get_r8 c R.BL;
        str_seg \<leftarrow> get_r16 c R.ES;
        str_offs \<leftarrow> get_r16 c R.BP;
        n \<leftarrow> get_r16 c R.CX;
        page \<leftarrow> get_r8 c R.BH;
        (g, u) \<leftarrow> write_string g u row col flag attr str_seg str_offs n page;
        Some (True, g, c, u)
      }
      else if ah = 0x1A then do {
        al \<leftarrow> get_r8 c R.AL;
        if al = 0x00 then do {
          c \<leftarrow> set_r8 c R.AL 0x1A;
          c \<leftarrow> set_r8 c R.BL 0x08;
          c \<leftarrow> set_r8 c R.BH 0x00;
          Some (True, g, c, u)
        }
        else Some (False, g, c, u)
      }
      else if ah = 0x4F then do {
        al \<leftarrow> get_r8 c R.AL;
        if al = 0x01 \<or> al = 0x02 \<or> al = 0x05 then Some (True, g, c, u)
        else Some (False, g, c, u)
      }
      else Some (False, g, c, u))"

definition gpu_int :: "GPU int_handler" where
  "gpu_int g n c u =
     (if n \<noteq> 0x10 then Some (False, g, c, u)
      else do {
        ah \<leftarrow> get_r8 c R.AH;
        if ah = 0x00 then do {
          al \<leftarrow> get_r8 c R.AL;
          (g, u) \<leftarrow> gpu_set_mode g u al;
          Some (True, g, c, u)
        }
        else if ah = 0x01 then Some (True, g, c, u)
        else if ah = 0x02 then do {
          page \<leftarrow> get_r8 c R.BH;
          row \<leftarrow> get_r8 c R.DH;
          column \<leftarrow> get_r8 c R.DL;
          (g, u) \<leftarrow> set_cursor_pos g u row column page;
          Some (True, g, c, u)
        }
        else if ah = 0x03 then Some (True, g, c, u)
        else if ah = 0x05 then do {
          al \<leftarrow> get_r8 c R.AL;
          (g, u) \<leftarrow> set_active_page g u al;
          Some (True, g, c, u)
        }
        else if ah = 0x06 \<or> ah = 0x07 \<or> ah = 0x08 then Some (True, g, c, u)
        else if ah = 0x09 then do {
          chr \<leftarrow> get_r8 c R.AL;
          page \<leftarrow> get_r8 c R.BH;
          attrib \<leftarrow> get_r8 c R.BL;
          n \<leftarrow> get_r16 c R.CX;
          m \<leftarrow> mmu_read_u8 u DATA_SEG DATA_CURRENT_MODE;
          let attrib = (if m = 0x11 then (attrib AND 0x80) OR 0x3F else attrib);
          u \<leftarrow> write_char g u (ucast chr) attrib page n True;
          Some (True, g, c, u)
        }
        else if ah = 0x0A then do {
          chr \<leftarrow> get_r8 c R.AL;
          page \<leftarrow> get_r8 c R.BH;
          attrib \<leftarrow> get_r8 c R.BL;
          n \<leftarrow> get_r16 c R.CX;
          u \<leftarrow> write_char g u (ucast chr) attrib page n False;
          Some (True, g, c, u)
        }
        else if ah = 0x0B then Some (True, g, c, u)
        else if ah = 0x0C then do {
          page \<leftarrow> get_r8 c R.BH;
          color \<leftarrow> get_r8 c R.AL;
          col \<leftarrow> get_r16 c R.CX;
          row \<leftarrow> get_r16 c R.DX;
          u \<leftarrow> write_pixel g u col row page color;
          Some (True, g, c, u)
        }
        else if ah = 0x0E then do {
          chr \<leftarrow> get_r8 c R.AL;
          page \<leftarrow> get_r8 c R.BH;
          color \<leftarrow> get_r8 c R.BL;
          (g, u) \<leftarrow> teletype_output g u chr page color;
          Some (True, g, c, u)
        }
        else if ah = 0x0F then do {
          c \<leftarrow> set_r8 c R.AH (ucast (twidth (gpu_mode g)));
          c \<leftarrow> set_r8 c R.AL (ucast (vm_mode (gpu_mode g)));
          page \<leftarrow> get_active_page u;
          c \<leftarrow> set_r8 c R.BH page;
          Some (True, g, c, u)
        }
        else if ah = 0x10 then gpu_int_palette g c u
        else if ah = 0x11 then gpu_int_fonts g c u
        else gpu_int_info g ah c u
      })"

section \<open>The device interface\<close>

lemma gpu_palette_answers: "gpu_int_palette g c u = Some (b, t) \<Longrightarrow> b"
  by (auto simp: gpu_int_palette_def bind_Some_iff split: if_splits prod.splits)

lemma gpu_info_declined:
  "gpu_int_info g ah c u = Some (False, g', c', u') \<Longrightarrow> g' = g \<and> c' = c \<and> u' = u"
  by (auto simp: gpu_int_info_def bind_Some_iff split: if_splits)

lemma gpu_fonts_declined: "gpu_int_fonts g c u = Some (False, g', c', u') \<Longrightarrow> g' = g \<and> c' = c \<and> u' = u"
  by (auto simp: gpu_int_fonts_def bind_Some_iff split: if_splits)

interpretation gpu: device gpu_in_u8 gpu_out_u8 gpu_int
proof unfold_locales
  show "gpu_in_u8 g port = Some (None, g') \<Longrightarrow> g' = g" for g port g'
    by (auto simp: gpu_in_u8_def bind_Some_iff split: if_splits prod.splits)
  show "gpu_out_u8 g port v = Some (False, g') \<Longrightarrow> g' = g" for g port v g'
    by (auto simp: gpu_out_u8_def bind_Some_iff split: if_splits)
  show "gpu_int g n c u = Some (False, g', c', u') \<Longrightarrow> g' = g \<and> c' = c \<and> u' = u"
    for g n c u g' c' u'
    by (auto simp: gpu_int_def bind_Some_iff Let_def split: if_splits
        dest!: gpu_palette_answers gpu_fonts_declined gpu_info_declined)
qed

section \<open>Initialisation\<close>

definition STATIC_FUNCTIONALITY :: "u8 list" where
  "STATIC_FUNCTIONALITY = [0xff, 0xff, 0x0f, 0x00, 0x00, 0x00, 0x00, 0x07, 0x04, 0x02, 0xff, 0x0e,
     0x00, 0x00, 0x00, 0x00]"

text \<open>Writers that carry the address along.\<close>

definition write_bytes_inc :: "u8 list \<Rightarrow> MMU \<times> MemoryAddress \<Rightarrow> (MMU \<times> MemoryAddress) option" where
  "write_bytes_inc bs = for_each (\<lambda>b (u, a). mmu_write_u8_inc u a b) bs"

definition write_words_inc :: "u16 list \<Rightarrow> MMU \<times> MemoryAddress \<Rightarrow> (MMU \<times> MemoryAddress) option" where
  "write_words_inc ws = for_each (\<lambda>w (u, a). mmu_write_u16_inc u a w) ws"

definition write_dwords_inc :: "u32 list \<Rightarrow> MMU \<times> MemoryAddress \<Rightarrow> (MMU \<times> MemoryAddress) option" where
  "write_dwords_inc ws = for_each (\<lambda>w (u, a). mmu_write_u32_inc u a w) ws"

definition video_bios_size :: u16 where "video_bios_size = 0x8000"

definition copyright_vga :: "u8 list" where
  "copyright_vga = map of_char ''IBM compatible VGA BIOS'' @ [0]"

definition copyright_ega :: "u8 list" where
  "copyright_ega = map of_char ''IBM compatible EGA BIOS'' @ [0]"

definition write_table ::
  "u8 list \<Rightarrow> u16 \<Rightarrow> MMU \<times> MemoryAddress \<Rightarrow> (MMU \<times> MemoryAddress) option" where
  "write_table tab base s = for_each (\<lambda>(i, b) (u, a). do {
     o' \<leftarrow> add_chk base (of_nat i);
     a \<leftarrow> set_offset a o';
     seg \<leftarrow> addr_segment a;
     off \<leftarrow> addr_offset a;
     u \<leftarrow> mmu_write_u8 u seg off b;
     Some (u, a)
   }) (enumerate 0 tab) s"

definition setup_video_parameter_table ::
  "GPU \<Rightarrow> MMU \<times> MemoryAddress \<Rightarrow> (MMU \<times> MemoryAddress) option" where
  "setup_video_parameter_table g s = do {
     base \<leftarrow> addr_offset (snd s);
     if is_vga (graphic_card g) then write_table TABLE_VGA base s else write_table TABLE_EGA base s
   }"

definition write_rom_header :: "GPU \<Rightarrow> MMU \<times> MemoryAddress \<Rightarrow> (MMU \<times> MemoryAddress) option" where
  "write_rom_header g s = do {
     s \<leftarrow> write_words_inc [0xAA55] s;
     s \<leftarrow> write_bytes_inc [ucast (drop_bit 9 video_bios_size), 0xFE, 0x38] s;
     s \<leftarrow> write_words_inc [0] s;
     (u, a) \<leftarrow> write_bytes_inc [0xCB] s;
     seg \<leftarrow> addr_segment a;
     u \<leftarrow> mmu_write u seg 0x1E (if is_vga (graphic_card g) then copyright_vga else copyright_ega);
     a \<leftarrow> set_offset a 0x100;
     Some (u, a)
   }"

definition write_fonts :: "GPU \<Rightarrow> MMU \<times> MemoryAddress \<Rightarrow> (GPU \<times> MMU \<times> MemoryAddress) option" where
  "write_fonts g s = do {
     let g = g\<lparr>font_8_first := snd s\<rparr>;
     s \<leftarrow> write_bytes_inc (take 1024 FONT_08) s;
     (g, s) \<leftarrow> (if is_ega_vga (graphic_card g) then do {
         let g = g\<lparr>font_8_second := snd s\<rparr>;
         s \<leftarrow> write_bytes_inc (drop 1024 FONT_08) s;
         let g = g\<lparr>font_14 := snd s\<rparr>;
         s \<leftarrow> write_bytes_inc FONT_14 s;
         Some (g, s)
       }
       else Some (g, s));
     if is_vga (graphic_card g) then do {
       let g = g\<lparr>font_16 := snd s\<rparr>;
       s \<leftarrow> write_bytes_inc FONT_16 s;
       let g = g\<lparr>static_config := snd s\<rparr>;
       s \<leftarrow> write_bytes_inc STATIC_FUNCTIONALITY s;
       Some (g, s)
     }
     else Some (g, s)
   }"

definition write_dcc_table :: "GPU \<Rightarrow> MMU \<times> MemoryAddress \<Rightarrow> (GPU \<times> u32 \<times> MMU \<times> MemoryAddress) option" where
  "write_dcc_table g s = do {
     let g = g\<lparr>video_dcc_table := snd s\<rparr>;
     s \<leftarrow> write_bytes_inc [0x10, 1, 8, 0] s;
     s \<leftarrow> write_words_inc [0x0000, 0x0100, 0x0200, 0x0102, 0x0400, 0x0104, 0x0500, 0x0502, 0x0600,
       0x0601, 0x0605, 0x0800, 0x0801, 0x0700, 0x0702, 0x0706] s;
     pointer_table \<leftarrow> addr_value (snd s);
     s \<leftarrow> write_words_inc [0x1A] s;
     dcc \<leftarrow> addr_value (video_dcc_table g);
     s \<leftarrow> write_dwords_inc [dcc, 0, 0, 0, 0, 0] s;
     Some (g, pointer_table, s)
   }"

definition write_save_pointers :: "GPU \<Rightarrow> u32 \<Rightarrow> MMU \<times> MemoryAddress \<Rightarrow> (MMU \<times> MemoryAddress) option" where
  "write_save_pointers g pointer_table s = do {
     here \<leftarrow> addr_value (snd s);
     u \<leftarrow> mmu_write_u32 (fst s) DATA_SEG DATA_VS_POINTER here;
     params \<leftarrow> addr_value (video_parameter_table g);
     s \<leftarrow> write_dwords_inc [params, 0, 0, 0] (u, snd s);
     (u, a) \<leftarrow> (if is_vga (graphic_card g) then write_dwords_inc [pointer_table] s else Some s);
     a \<leftarrow> inc_u32 a;
     write_dwords_inc [0, 0] (u, a)
   }"

definition gpu_init :: "GPU \<Rightarrow> MMU \<Rightarrow> (GPU \<times> MMU) option" where
  "gpu_init g u = do {
     let addr = RealSegmentOffset 0xC000 3;
     s \<leftarrow> (if is_ega_vga (graphic_card g) then write_rom_header g (u, addr) else Some (u, addr));
     (g, u, a) \<leftarrow> write_fonts g s;
     u \<leftarrow> mmu_write_vec u 0x1F (font_8_second g);
     let g = g\<lparr>font_14_alternate := a, font_16_alternate := a\<rparr>;
     (u, a) \<leftarrow> write_bytes_inc [0x00] (u, a);
     (g, u) \<leftarrow> (if is_ega_vga (graphic_card g) then do {
         let g = g\<lparr>video_parameter_table := a\<rparr>;
         s \<leftarrow> setup_video_parameter_table g (u, a);
         (g, pointer_table, s) \<leftarrow>
           (if is_vga (graphic_card g) then write_dcc_table g s else Some (g, 0, s));
         (u, a) \<leftarrow> write_save_pointers g pointer_table s;
         Some (g, u)
       }
       else Some (g, u));
     if is_tandy (graphic_card g) then do {
       u \<leftarrow> mmu_write_vec u 0x44 (font_8_first g);
       Some (g, u)
     }
     else Some (g, u)
   }"

end
