(* ===== verification/X86_Dos.thy ===== *)
theory X86_Dos
  imports X86_Device
begin

text \<open>
  DOS (\<open>dustbox/src/dos/dos.rs\<close>): the services of INT 20 and INT 21, the table of open file handles,
  and code page 437 (\<open>codepage/cp437.rs\<close>). Console output is left out.

  What belongs to the host is an argument: the local time, the files that exist and what reading
  one returns, and the external disassembler. A Rust \<open>char\<close> is its code point; a path of \<open>std::path\<close>
  is its components, as on a Unix host.
\<close>

unbundle bit_operations_syntax

section \<open>Text\<close>

type_synonym rchar = nat
type_synonym rstring = "rchar list"

definition cp437_lower :: "rchar list" where
  "cp437_lower = concat [
    [0x0000, 0x263A, 0x263B, 0x2665, 0x2666, 0x2663, 0x2660, 0x2022],
    [0x25D8, 0x0009, 0x000A, 0x2642, 0x2640, 0x0020, 0x266B, 0x263C],
    [0x25BA, 0x25C4, 0x2195, 0x203C, 0x00B6, 0x00A7, 0x25AC, 0x21A8],
    [0x2191, 0x2193, 0x2192, 0x001B, 0x221F, 0x2194, 0x25B2, 0x25BC],
    [0x0020, 0x0021, 0x0027, 0x0023, 0x0024, 0x0025, 0x0026, 0x0027],
    [0x0028, 0x0029, 0x002A, 0x002B, 0x002C, 0x002D, 0x002E, 0x002F],
    [0x0030, 0x0031, 0x0032, 0x0033, 0x0034, 0x0035, 0x0036, 0x0037],
    [0x0038, 0x0039, 0x002C, 0x003B, 0x003C, 0x003D, 0x003E, 0x003F],
    [0x0040, 0x0041, 0x0042, 0x0043, 0x0044, 0x0045, 0x0046, 0x0047],
    [0x0048, 0x0049, 0x004A, 0x004B, 0x004C, 0x004D, 0x004E, 0x004F],
    [0x0050, 0x0051, 0x0052, 0x0053, 0x0054, 0x0055, 0x0056, 0x0057],
    [0x0058, 0x0059, 0x005A, 0x005B, 0x005C, 0x005D, 0x005E, 0x005F],
    [0x0060, 0x0061, 0x0062, 0x0063, 0x0064, 0x0065, 0x0066, 0x0067],
    [0x0068, 0x0069, 0x006A, 0x006B, 0x006C, 0x006D, 0x006E, 0x006F],
    [0x0070, 0x0071, 0x0072, 0x0073, 0x0074, 0x0075, 0x0076, 0x0077],
    [0x0078, 0x0079, 0x007A, 0x007B, 0x002D, 0x007D, 0x007E, 0x2302]]"

definition cp437_upper :: "rchar list" where
  "cp437_upper = concat [
    [0x00C7, 0x00FC, 0x00E9, 0x00E2, 0x00E4, 0x00E0, 0x00E5, 0x00E7],
    [0x00EA, 0x00EB, 0x00E8, 0x00EF, 0x00EE, 0x00EC, 0x00C4, 0x00C5],
    [0x00C9, 0x00E6, 0x00C6, 0x00F4, 0x00F6, 0x00F2, 0x00FB, 0x00F9],
    [0x00FF, 0x00D6, 0x00DC, 0x00A2, 0x00A3, 0x00A5, 0x20A7, 0x0192],
    [0x00E1, 0x00ED, 0x00F3, 0x00FA, 0x00F1, 0x00D1, 0x00AA, 0x00BA],
    [0x00BF, 0x2310, 0x00AC, 0x00BD, 0x00BC, 0x00A1, 0x00AB, 0x00BB],
    [0x2591, 0x2592, 0x2593, 0x2502, 0x2524, 0x2561, 0x2562, 0x2556],
    [0x2555, 0x2563, 0x2551, 0x2557, 0x255D, 0x255C, 0x255B, 0x2510],
    [0x2514, 0x2534, 0x252C, 0x251C, 0x2500, 0x253C, 0x255E, 0x255F],
    [0x255A, 0x2554, 0x2569, 0x2566, 0x2560, 0x2550, 0x256C, 0x2576],
    [0x2578, 0x2564, 0x2565, 0x2559, 0x2558, 0x2552, 0x2553, 0x256B],
    [0x256A, 0x2518, 0x250C, 0x2588, 0x2584, 0x258C, 0x2590, 0x2580],
    [0x02B1, 0x00DF, 0x03B3, 0x03C0, 0x03A3, 0x03C3, 0x00B5, 0x03C4],
    [0x03A6, 0x0398, 0x03A9, 0x03B4, 0x221E, 0x03C6, 0x03B5, 0x2229],
    [0x2261, 0x00B1, 0x2265, 0x2264, 0x2320, 0x2321, 0x00F7, 0x2248],
    [0x00B0, 0x2219, 0x00B7, 0x221A, 0x207F, 0x00B2, 0x25A0, 0x0020]]"

definition cp437_table :: "rchar list" where "cp437_table = cp437_lower @ cp437_upper"

definition u8_as_char :: "u8 \<Rightarrow> rchar" where "u8_as_char b = cp437_table ! unat b"

definition to_utf8 :: "u8 list \<Rightarrow> rstring" where "to_utf8 v = map u8_as_char v"

definition mmu_read_asciiz :: "MMU \<Rightarrow> u16 \<Rightarrow> u16 \<Rightarrow> rstring option" where
  "mmu_read_asciiz u seg off = map_option to_utf8 (readz_loop u seg off)"

section \<open>Paths\<close>

record Path =
  path_root :: bool
  path_parts :: "rstring list"

fun split_slash :: "rstring \<Rightarrow> rstring \<Rightarrow> rstring list" where
  "split_slash cur [] = [rev cur]"
| "split_slash cur (x # xs) = (if x = 0x2F then rev cur # split_slash [] xs else split_slash (x # cur) xs)"

text \<open>Empty components and all but a leading \<open>.\<close> of a relative path vanish.\<close>

definition path_new :: "rstring \<Rightarrow> Path" where
  "path_new s =
     (let root = (s \<noteq> [] \<and> hd s = 0x2F);
          cs = split_slash [] s;
          keep = filter (\<lambda>p. p \<noteq> [] \<and> p \<noteq> [0x2E])
      in \<lparr>path_root = root,
          path_parts = (if \<not> root \<and> hd cs = [0x2E] then [0x2E] # keep (tl cs) else keep cs)\<rparr>)"

definition path_parent :: "Path \<Rightarrow> Path option" where
  "path_parent p = (if path_parts p = [] then None else Some (p\<lparr>path_parts := butlast (path_parts p)\<rparr>))"

definition path_join :: "Path \<Rightarrow> Path \<Rightarrow> Path" where
  "path_join p f =
     (if path_root f then f
      else if \<not> path_root p \<and> path_parts p = [] then f
      else p\<lparr>path_parts := path_parts p @ filter (\<lambda>c. c \<noteq> [0x2E]) (path_parts f)\<rparr>)"

section \<open>The host\<close>

datatype ReadResult = OpenFailed | ReadFailed | ReadBytes "u8 list"

record Time =
  t_hour :: u32
  t_minute :: u32
  t_second :: u32
  t_nanosecond :: u32

text \<open>\<open>None\<close> of the disassembler is the panic of the call.\<close>

record Host =
  host_now :: Time
  host_exists :: "Path \<Rightarrow> bool"
  host_read :: "Path \<Rightarrow> nat \<Rightarrow> ReadResult"
  host_ndisasm :: "u8 list \<Rightarrow> string option"

section \<open>DOS\<close>

record DOS =
  program_path :: rstring
  file_handles :: "u16 \<rightharpoonup> Path"
  psp_segment :: u16

definition DOS_default :: DOS where
  "DOS_default = \<lparr>program_path = [], file_handles = Map.empty, psp_segment = 0\<rparr>"

fun free_handle :: "(u16 \<rightharpoonup> Path) \<Rightarrow> u16 list \<Rightarrow> u16 option" where
  "free_handle hs [] = None"
| "free_handle hs (n # ns) = (case hs n of None \<Rightarrow> Some n | Some p \<Rightarrow> free_handle hs ns)"

text \<open>The handles 0x05 to 0xFF; when all are taken, \<open>unreachable!\<close> panics.\<close>

definition open_existing_file :: "DOS \<Rightarrow> Path \<Rightarrow> (u16 \<times> DOS) option" where
  "open_existing_file d path = do {
     n \<leftarrow> free_handle (file_handles d) (map of_nat [0x05..<0x100]);
     Some (n, d\<lparr>file_handles := (file_handles d)(n \<mapsto> path)\<rparr>)
   }"

definition get_path_from_handle :: "DOS \<Rightarrow> u16 \<Rightarrow> Path option" where
  "get_path_from_handle d handle = file_handles d handle"

text \<open>
  The loop of \<open>WRITE STRING\<close>: the bytes up to a dollar sign. The offset and the counter are added
  with the overflow check, so it ends by offset 0xFFFF at the latest.
\<close>

function dollar_loop :: "MMU \<Rightarrow> u16 \<Rightarrow> u16 \<Rightarrow> u16 \<Rightarrow> rstring option" where
  "dollar_loop u ds dx n = do {
     off \<leftarrow> add_chk dx n;
     b \<leftarrow> mmu_read_u8 u ds off;
     n' \<leftarrow> add_chk n 1;
     if b = 0x24 then Some []
     else do { rest \<leftarrow> dollar_loop u ds dx n'; Some (u8_as_char b # rest) }
   }"
  by pat_completeness auto
termination
proof (relation "measure (\<lambda>(u, ds, dx, n). 0xFFFF - unat n)")
  fix u :: MMU and ds dx n n' :: u16
  assume "add_chk n 1 = Some n'"
  from add_chk_unat [OF this] have "unat n' = unat n + 1" "unat n < 0xFFFF" by simp_all
  then show "((u, ds, dx, n'), (u, ds, dx, n)) \<in> measure (\<lambda>(u, ds, dx, n). 0xFFFF - unat n)"
    by simp
qed simp

text \<open>FLUSH BUFFER: the input function in AL runs through the interrupt vector, with AH set around it.\<close>

definition dos_flush :: "CPU \<Rightarrow> MMU \<Rightarrow> (CPU \<times> MMU) option" where
  "dos_flush c u = do {
     al \<leftarrow> get_r8 c R.AL;
     if al \<in> {0x01, 0x06, 0x07, 0x08, 0x0A} then do {
       old_ah \<leftarrow> get_r8 c R.AH;
       c \<leftarrow> set_r8 c R.AH al;
       (c, u) \<leftarrow> execute_interrupt c u 0x21;
       c \<leftarrow> set_r8 c R.AH old_ah;
       Some (c, u)
     }
     else Some (c, u)
   }"

definition dos_time :: "Time \<Rightarrow> CPU \<Rightarrow> CPU option" where
  "dos_time now c =
     (if deterministic c then Some (set_r16 (set_r16 c R.CX 0) R.DX 0)
      else do {
        let centi_sec = t_nanosecond now div 10000000;
        c \<leftarrow> set_r8 c R.CH (ucast (t_hour now));
        c \<leftarrow> set_r8 c R.CL (ucast (t_minute now));
        c \<leftarrow> set_r8 c R.DH (ucast (t_second now));
        set_r8 c R.DL (ucast centi_sec)
      })"

definition dos_open :: "Host \<Rightarrow> DOS \<Rightarrow> CPU \<Rightarrow> MMU \<Rightarrow> (DOS \<times> CPU) option" where
  "dos_open h d c u = do {
     ds \<leftarrow> get_r16 c R.DS;
     dx \<leftarrow> get_r16 c R.DX;
     name \<leftarrow> mmu_readz u ds dx;
     parent \<leftarrow> path_parent (path_new (program_path d));
     let to_load = path_join parent (path_new (to_utf8 name));
     if host_exists h to_load then do {
       (handle, d) \<leftarrow> open_existing_file d to_load;
       let c = with_flags c ((cpu_flags c)\<lparr>carry := False\<rparr>);
       Some (d, set_r16 c R.AX handle)
     }
     else do {
       let c = with_flags c ((cpu_flags c)\<lparr>carry := True\<rparr>);
       Some (d, set_r16 c R.AX 0x0002)
     }
   }"

definition dos_close :: "DOS \<Rightarrow> CPU \<Rightarrow> (DOS \<times> CPU) option" where
  "dos_close d c = do {
     handle \<leftarrow> get_r16 c R.BX;
     case get_path_from_handle d handle of
       Some path \<Rightarrow> Some (d\<lparr>file_handles := (file_handles d)(handle := None)\<rparr>,
         with_flags c ((cpu_flags c)\<lparr>carry := False\<rparr>))
     | None \<Rightarrow> Some (d, with_flags c ((cpu_flags c)\<lparr>carry := True\<rparr>))
   }"

definition dos_read :: "Host \<Rightarrow> DOS \<Rightarrow> CPU \<Rightarrow> MMU \<Rightarrow> (CPU \<times> MMU) option" where
  "dos_read h d c u = do {
     handle \<leftarrow> get_r16 c R.BX;
     cx \<leftarrow> get_r16 c R.CX;
     let len = unat cx;
     ds \<leftarrow> get_r16 c R.DS;
     dx \<leftarrow> get_r16 c R.DX;
     case get_path_from_handle d handle of
       None \<Rightarrow> Some (c, u)
     | Some path \<Rightarrow>
         (case host_read h path len of
            OpenFailed \<Rightarrow> Some (c, u)
          | ReadFailed \<Rightarrow> None
          | ReadBytes bs \<Rightarrow> do {
              let buf = take len (bs @ replicate len 0);
              u \<leftarrow> mmu_write u ds dx buf;
              let c = with_flags c ((cpu_flags c)\<lparr>carry := False\<rparr>);
              Some (set_r16 c R.AX (of_nat (length bs)), u)
            })
   }"

text \<open>The services from AH = 40: writing, memory and processes.\<close>

definition dos_int21_memory :: "DOS \<Rightarrow> u8 \<Rightarrow> CPU \<Rightarrow> MMU \<Rightarrow> (bool \<times> DOS \<times> CPU \<times> MMU) option" where
  "dos_int21_memory d ah c u =
     (if ah = 0x40 then do {
        ds \<leftarrow> get_r16 c R.DS;
        dx \<leftarrow> get_r16 c R.DX;
        n \<leftarrow> get_r16 c R.CX;
        bytes \<leftarrow> mmu_read u ds dx (unat n);
        Some (True, d, c, u)
      }
      else if ah = 0x43 then do {
        al \<leftarrow> get_r8 c R.AL;
        c \<leftarrow> (if al = 0x00 then set_r8 c R.AL 0 else Some c);
        Some (True, d, c, u)
      }
      else if ah = 0x44 \<or> ah = 0x47 then Some (True, d, c, u)
      else if ah = 0x48 then do {
        let c = set_r16 c R.AX 0x0008;
        let c = set_r16 c R.BX 0x0000;
        Some (True, d, with_flags c ((cpu_flags c)\<lparr>carry := True\<rparr>), u)
      }
      else if ah = 0x49 \<or> ah = 0x4A then
        Some (True, d, with_flags c ((cpu_flags c)\<lparr>carry := False\<rparr>), u)
      else if ah = 0x4B then do {
        ds \<leftarrow> get_r16 c R.DS;
        dx \<leftarrow> get_r16 c R.DX;
        name \<leftarrow> mmu_read_asciiz u ds dx;
        Some (True, d, c, u)
      }
      else if ah = 0x4C then Some (True, d, c\<lparr>fatal_error := True\<rparr>, u)
      else if ah = 0x4D \<or> ah = 0x50 \<or> ah = 0x51 \<or> ah = 0x59 then Some (True, d, c, u)
      else Some (False, d, c, u))"

definition dos_int21 :: "Host \<Rightarrow> DOS int_handler" where
  "dos_int21 h d n c u = do {
     ah \<leftarrow> get_r8 c R.AH;
     if ah = 0x00 then Some (True, d, c\<lparr>fatal_error := True\<rparr>, u)
     else if ah = 0x02 \<or> ah = 0x06 then do {
       dl \<leftarrow> get_r8 c R.DL;
       c \<leftarrow> set_r8 c R.AL dl;
       Some (True, d, c, u)
     }
     else if ah = 0x07 then Some (True, d, c, u)
     else if ah = 0x09 then do {
       ds \<leftarrow> get_r16 c R.DS;
       dx \<leftarrow> get_r16 c R.DX;
       text \<leftarrow> dollar_loop u ds dx 0;
       Some (True, d, c, u)
     }
     else if ah = 0x0B then Some (True, d, c, u)
     else if ah = 0x0C then do { (c, u) \<leftarrow> dos_flush c u; Some (True, d, c, u) }
     else if ah = 0x19 then do { c \<leftarrow> set_r8 c R.AL 0; Some (True, d, c, u) }
     else if ah = 0x1A then Some (True, d, c, u)
     else if ah = 0x25 then do {
       seg \<leftarrow> get_r16 c R.DS;
       off \<leftarrow> get_r16 c R.DX;
       int \<leftarrow> get_r8 c R.AL;
       u \<leftarrow> mmu_write_vec u (ucast int) (LongSegmentOffset seg off);
       Some (True, d, c, u)
     }
     else if ah = 0x2C then do { c \<leftarrow> dos_time (host_now h) c; Some (True, d, c, u) }
     else if ah = 0x2F then Some (True, d, c, u)
     else if ah = 0x30 then do {
       c \<leftarrow> set_r8 c R.AL 5;
       c \<leftarrow> set_r8 c R.AH 0;
       c \<leftarrow> set_r8 c R.BH 0xFF;
       Some (True, d, c, u)
     }
     else if ah = 0x31 then Some (True, d, c\<lparr>fatal_error := True\<rparr>, u)
     else if ah = 0x33 then Some (True, d, c, u)
     else if ah = 0x35 then do {
       int \<leftarrow> get_r8 c R.AL;
       (seg, off) \<leftarrow> mmu_read_vec u (ucast int);
       let c = set_r16 c R.ES seg;
       Some (True, d, set_r16 c R.BX off, u)
     }
     else if ah = 0x3D then do { (d, c) \<leftarrow> dos_open h d c u; Some (True, d, c, u) }
     else if ah = 0x3E then do { (d, c) \<leftarrow> dos_close d c; Some (True, d, c, u) }
     else if ah = 0x3F then do { (c, u) \<leftarrow> dos_read h d c u; Some (True, d, c, u) }
     else dos_int21_memory d ah c u
   }"

definition dos_int :: "Host \<Rightarrow> DOS int_handler" where
  "dos_int h d n c u =
     (if n = 0x20 then Some (True, d, c\<lparr>fatal_error := True\<rparr>, u)
      else if n \<noteq> 0x21 then Some (False, d, c, u)
      else dos_int21 h d n c u)"

lemma dos_memory_declined:
  "dos_int21_memory d ah c u = Some (False, d', c', u') \<Longrightarrow> d' = d \<and> c' = c \<and> u' = u"
  by (auto simp: dos_int21_memory_def bind_Some_iff Let_def split: if_splits)

lemma dos_int21_declined: "dos_int21 h d n c u = Some (False, d', c', u') \<Longrightarrow> d' = d \<and> c' = c \<and> u' = u"
  by (auto simp: dos_int21_def bind_Some_iff Let_def split: if_splits dest!: dos_memory_declined)

interpretation dos: device no_in_u8 no_out_u8 "dos_int h" for h
  by unfold_locales
    (auto simp: no_in_u8_def no_out_u8_def dos_int_def split: if_splits dest: dos_int21_declined)

end
