(* ===== verification/X86_Exe.thy ===== *)
theory X86_Exe
  imports X86_Memory
begin

text \<open>
  The .EXE format (\<open>dustbox/src/format/exe.rs\<close>): the header, the relocation table and the program
  data of a file. The \<open>bincode\<close> crate that reads the two structs from bytes is an argument; what it
  documents for them, little-endian fields in the order of the declaration with the rest of the
  input ignored, is \<open>bincode_law\<close>.
\<close>

unbundle bit_operations_syntax

section \<open>Data\<close>

record ExeHeader =
  signature :: "u8 \<times> u8"
  bytes_in_last_page :: u16
  pages :: u16
  relocations :: u16
  header_paragraphs :: u16
  min_extra_paragraphs :: u16
  max_extra_paragraphs :: u16
  exe_ss :: i16
  exe_sp :: u16
  checksum :: u16
  exe_ip :: u16
  exe_cs :: i16
  reloc_table_offset :: u16
  overlay_number :: u16

record ExeRelocation =
  reloc_offset :: u16
  reloc_segment :: u16

record ExeFile =
  header :: ExeHeader
  relocs :: "ExeRelocation list"
  program_data :: "u8 list"
  exe_size :: usize

record Bincode =
  de_header :: "u8 list \<Rightarrow> ExeHeader option"
  de_reloc :: "u8 list \<Rightarrow> ExeRelocation option"

section \<open>Parsing\<close>

text \<open>\<open>ExeHeader::from_data\<close>: a deserialisation error panics, and so does its caller on a wrong magic.\<close>

definition header_from_data :: "Bincode \<Rightarrow> u8 list \<Rightarrow> ExeHeader option" where
  "header_from_data bc bytes = do {
     h \<leftarrow> de_header bc bytes;
     if fst (signature h) \<noteq> 0x4D \<or> snd (signature h) \<noteq> 0x5A then None else Some h
   }"

definition header_size :: "ExeHeader \<Rightarrow> usize" where
  "header_size h = ucast (header_paragraphs h) * 16"

definition exe_data_start_offset :: "ExeHeader \<Rightarrow> usize" where
  "exe_data_start_offset h = header_size h"

definition exe_data_end_offset :: "ExeHeader \<Rightarrow> usize option" where
  "exe_data_end_offset h = do {
     let code_end = ucast (pages h) * 512;
     if bytes_in_last_page h > 0 then do {
       rest \<leftarrow> sub_chk 512 (ucast (bytes_in_last_page h));
       sub_chk code_end rest
     }
     else Some code_end
   }"

text \<open>The slice \<open>data[a..b]\<close> panics unless \<open>a \<le> b \<le> data.len()\<close>.\<close>

definition slice :: "'a list \<Rightarrow> nat \<Rightarrow> nat \<Rightarrow> 'a list option" where
  "slice xs a b = (if a \<le> b \<and> b \<le> length xs then Some (take (b - a) (drop a xs)) else None)"

fun reloc_loop :: "Bincode \<Rightarrow> u8 list \<Rightarrow> nat \<Rightarrow> nat \<Rightarrow> ExeRelocation list option" where
  "reloc_loop bc bytes 0 offset = Some []"
| "reloc_loop bc bytes (Suc n) offset = do {
     s \<leftarrow> slice bytes offset (offset + 4);
     r \<leftarrow> de_reloc bc s;
     rs \<leftarrow> reloc_loop bc bytes n (offset + 4);
     Some (r # rs)
   }"

definition parse_relocations :: "Bincode \<Rightarrow> ExeHeader \<Rightarrow> u8 list \<Rightarrow> ExeRelocation list option" where
  "parse_relocations bc h bytes =
     (if relocations h > 0 then reloc_loop bc bytes (unat (relocations h)) (unat (reloc_table_offset h))
      else Some [])"

definition exe_from_data :: "Bincode \<Rightarrow> u8 list \<Rightarrow> ExeFile option" where
  "exe_from_data bc bytes = do {
     h \<leftarrow> header_from_data bc bytes;
     data_end \<leftarrow> exe_data_end_offset h;
     prog \<leftarrow> slice bytes (unat (exe_data_start_offset h)) (length bytes);
     rs \<leftarrow> parse_relocations bc h bytes;
     Some \<lparr>header = h, relocs = rs, program_data = prog, exe_size = of_nat (length bytes)\<rparr>
   }"

section \<open>What is relied on of bincode\<close>

definition le_u16 :: "u8 list \<Rightarrow> nat \<Rightarrow> u16" where
  "le_u16 bs i = push_bit 8 (ucast (bs ! (i + 1))) OR ucast (bs ! i)"

definition le_header :: "u8 list \<Rightarrow> ExeHeader option" where
  "le_header bs =
     (if length bs < 28 then None
      else Some \<lparr>signature = (bs ! 0, bs ! 1), bytes_in_last_page = le_u16 bs 2, pages = le_u16 bs 4,
        relocations = le_u16 bs 6, header_paragraphs = le_u16 bs 8, min_extra_paragraphs = le_u16 bs 10,
        max_extra_paragraphs = le_u16 bs 12, exe_ss = le_u16 bs 14, exe_sp = le_u16 bs 16,
        checksum = le_u16 bs 18, exe_ip = le_u16 bs 20, exe_cs = le_u16 bs 22,
        reloc_table_offset = le_u16 bs 24, overlay_number = le_u16 bs 26\<rparr>)"

definition le_reloc :: "u8 list \<Rightarrow> ExeRelocation option" where
  "le_reloc bs =
     (if length bs < 4 then None
      else Some \<lparr>reloc_offset = le_u16 bs 0, reloc_segment = le_u16 bs 2\<rparr>)"

definition bincode_law :: "Bincode \<Rightarrow> bool" where
  "bincode_law bc \<longleftrightarrow> de_header bc = le_header \<and> de_reloc bc = le_reloc"

lemma slice_Some: "slice xs a b = Some ys \<longleftrightarrow> a \<le> b \<and> b \<le> length xs \<and> ys = take (b - a) (drop a xs)"
  by (auto simp: slice_def)

end
