(* ===== verification/X86_Machine.thy ===== *)
theory X86_Machine
  imports X86_Exec_Logic X86_Exec_Shift X86_Exec_Move X86_Exec_Flow X86_Decoder_Ops
    X86_Pic X86_Pit X86_Keyboard X86_Mouse X86_Bios X86_Gpu_Int X86_Dos X86_Exe
begin

text \<open>
  The machine (\<open>dustbox/src/machine.rs\<close>): the list of devices that I/O and interrupts are offered to,
  in order; the execution of one instruction, of a number of them and of a video frame; and the
  loading of programs. The trace file is output only and left out. The host (\<open>X86_Dos\<close>) is an
  argument of every step that asks it something.
\<close>

unbundle bit_operations_syntax

section \<open>Devices\<close>

datatype MachineComponent =
    StorageC Storage | KeyboardC Keyboard | MouseC Mouse | PicC PIC | PitC PIT | GpuC GPU

definition lift_in :: "('d \<Rightarrow> 'm) \<Rightarrow> 'd port_in \<Rightarrow> 'd \<Rightarrow> u16 \<Rightarrow> (u8 option \<times> 'm) option" where
  "lift_in wrap f d port = map_option (\<lambda>(r, d). (r, wrap d)) (f d port)"

definition lift_out :: "('d \<Rightarrow> 'm) \<Rightarrow> 'd port_out \<Rightarrow> 'd \<Rightarrow> u16 \<Rightarrow> u8 \<Rightarrow> (bool \<times> 'm) option" where
  "lift_out wrap f d port v = map_option (\<lambda>(b, d). (b, wrap d)) (f d port v)"

definition lift_int ::
  "('d \<Rightarrow> 'm) \<Rightarrow> 'd int_handler \<Rightarrow> 'd \<Rightarrow> u8 \<Rightarrow> CPU \<Rightarrow> MMU \<Rightarrow> (bool \<times> 'm \<times> CPU \<times> MMU) option" where
  "lift_int wrap f d n c u = map_option (\<lambda>(b, d, c, u). (b, wrap d, c, u)) (f d n c u)"

definition component_in :: "MachineComponent port_in" where
  "component_in m port = (case m of
     PicC d \<Rightarrow> lift_in PicC pic_in_u8 d port
   | PitC d \<Rightarrow> lift_in PitC pit_in_u8 d port
   | KeyboardC d \<Rightarrow> lift_in KeyboardC keyboard_in_u8 d port
   | MouseC d \<Rightarrow> lift_in MouseC no_in_u8 d port
   | StorageC d \<Rightarrow> lift_in StorageC no_in_u8 d port
   | GpuC d \<Rightarrow> lift_in GpuC gpu_in_u8 d port)"

definition component_out :: "MachineComponent port_out" where
  "component_out m port v = (case m of
     PicC d \<Rightarrow> lift_out PicC pic_out_u8 d port v
   | PitC d \<Rightarrow> lift_out PitC pit_out_u8 d port v
   | KeyboardC d \<Rightarrow> lift_out KeyboardC keyboard_out_u8 d port v
   | MouseC d \<Rightarrow> lift_out MouseC no_out_u8 d port v
   | StorageC d \<Rightarrow> lift_out StorageC no_out_u8 d port v
   | GpuC d \<Rightarrow> lift_out GpuC gpu_out_u8 d port v)"

definition component_int :: "MachineComponent int_handler" where
  "component_int m n c u = (case m of
     PicC d \<Rightarrow> lift_int PicC no_int d n c u
   | PitC d \<Rightarrow> lift_int PitC pit_int d n c u
   | KeyboardC d \<Rightarrow> lift_int KeyboardC keyboard_int d n c u
   | MouseC d \<Rightarrow> lift_int MouseC mouse_int d n c u
   | StorageC d \<Rightarrow> lift_int StorageC storage_int d n c u
   | GpuC d \<Rightarrow> lift_int GpuC gpu_int d n c u)"

text \<open>The loops over the components: the first one that handles the request ends them.\<close>

fun bus_in :: "MachineComponent list port_in" where
  "bus_in [] port = Some (None, [])"
| "bus_in (m # ms) port = do {
     (r, m) \<leftarrow> component_in m port;
     case r of
       Some v \<Rightarrow> Some (Some v, m # ms)
     | None \<Rightarrow> do { (r, ms) \<leftarrow> bus_in ms port; Some (r, m # ms) }
   }"

fun bus_out :: "MachineComponent list port_out" where
  "bus_out [] port v = Some (False, [])"
| "bus_out (m # ms) port v = do {
     (b, m) \<leftarrow> component_out m port v;
     if b then Some (True, m # ms)
     else do { (b, ms) \<leftarrow> bus_out ms port v; Some (b, m # ms) }
   }"

fun bus_int :: "MachineComponent list int_handler" where
  "bus_int [] n c u = Some (False, [], c, u)"
| "bus_int (m # ms) n c u = do {
     (b, m, c, u) \<leftarrow> component_int m n c u;
     if b then Some (True, m # ms, c, u)
     else do { (b, ms, c, u) \<leftarrow> bus_int ms n c u; Some (b, m # ms, c, u) }
   }"

text \<open>A wrapped device is a device, one that is asked in turn is one, and so is the whole list.\<close>

lemma lift_declined:
  assumes "device i q h"
  shows "lift_in w i d port = Some (None, m) \<Longrightarrow> m = w d"
    and "lift_out w q d port v = Some (False, m) \<Longrightarrow> m = w d"
    and "lift_int w h d n c u = Some (False, m, c', u') \<Longrightarrow> m = w d \<and> c' = c \<and> u' = u"
  by (auto simp: lift_in_def lift_out_def lift_int_def dest: device.in_declined [OF assms]
      device.out_declined [OF assms] device.intr_declined [OF assms])

lemmas component_declined =
  lift_declined [OF pic.device_axioms] lift_declined [OF pit.device_axioms]
  lift_declined [OF keyboard.device_axioms] lift_declined [OF mouse.device_axioms]
  lift_declined [OF storage.device_axioms] lift_declined [OF gpu.device_axioms]

interpretation component: device component_in component_out component_int
  by unfold_locales
    (auto simp: component_in_def component_out_def component_int_def
      split: MachineComponent.splits dest: component_declined)

interpretation bus: device bus_in bus_out bus_int
proof unfold_locales
  show "bus_in ms port = Some (None, ms') \<Longrightarrow> ms' = ms" for ms port ms'
    by (induction ms arbitrary: ms')
      (auto simp: bind_Some_iff split: option.splits dest: component.in_declined)
  show "bus_out ms port v = Some (False, ms') \<Longrightarrow> ms' = ms" for ms port v ms'
    by (induction ms arbitrary: ms')
      (auto simp: bind_Some_iff split: if_splits dest: component.out_declined)
  show "bus_int ms n c u = Some (False, ms', c', u') \<Longrightarrow> ms' = ms \<and> c' = c \<and> u' = u"
    for ms n c u ms' c' u'
    by (induction ms arbitrary: ms' c u)
      (auto simp: bind_Some_iff split: if_splits dest!: component.intr_declined)
qed

section \<open>State\<close>

record Machine =
  mmu :: MMU
  cpu :: CPU
  dos :: DOS
  rom_base :: MemoryAddress
  rom_length :: usize
  components :: "MachineComponent list"
  trace_count :: "usize option"

text \<open>\<open>register_components\<close>: the devices in the order they are asked.\<close>

definition register_components :: "Machine \<Rightarrow> Machine option" where
  "register_components m = do {
     gpu \<leftarrow> GPU_default;
     (gpu, u) \<leftarrow> gpu_init gpu (mmu m);
     (gpu, u) \<leftarrow> gpu_set_mode gpu u (ucast MODE_TEXT_80_25);
     Some (m\<lparr>mmu := u, components := components m @
       [PicC (PIC_new 0x0020), PicC (PIC_new 0x00A0), PitC PIT_default, KeyboardC Keyboard_default,
        MouseC Mouse_default, StorageC Storage, GpuC gpu]\<rparr>)
   }"

definition Machine_deterministic :: "Machine option" where
  "Machine_deterministic = do {
     u \<leftarrow> bios_init MMU_default;
     register_components \<lparr>mmu = u, cpu = CPU_deterministic, dos = DOS_default, rom_base = default_real,
       rom_length = 0, components = [], trace_count = None\<rparr>
   }"

text \<open>The first device of a kind; without one, \<open>unreachable!\<close> panics.\<close>

fun pit_mut :: "(PIT \<Rightarrow> PIT option) \<Rightarrow> MachineComponent list \<Rightarrow> MachineComponent list option" where
  "pit_mut f [] = None"
| "pit_mut f (PitC p # ms) = map_option (\<lambda>p. PitC p # ms) (f p)"
| "pit_mut f (m # ms) = map_option (\<lambda>ms. m # ms) (pit_mut f ms)"

fun keyboard_mut :: "(Keyboard \<Rightarrow> Keyboard option) \<Rightarrow> MachineComponent list \<Rightarrow> MachineComponent list option" where
  "keyboard_mut f [] = None"
| "keyboard_mut f (KeyboardC k # ms) = map_option (\<lambda>k. KeyboardC k # ms) (f k)"
| "keyboard_mut f (m # ms) = map_option (\<lambda>ms. m # ms) (keyboard_mut f ms)"

fun mouse_mut :: "(Mouse \<Rightarrow> Mouse option) \<Rightarrow> MachineComponent list \<Rightarrow> MachineComponent list option" where
  "mouse_mut f [] = None"
| "mouse_mut f (MouseC k # ms) = map_option (\<lambda>k. MouseC k # ms) (f k)"
| "mouse_mut f (m # ms) = map_option (\<lambda>ms. m # ms) (mouse_mut f ms)"

fun gpu_mut :: "(GPU \<Rightarrow> GPU option) \<Rightarrow> MachineComponent list \<Rightarrow> MachineComponent list option" where
  "gpu_mut f [] = None"
| "gpu_mut f (GpuC g # ms) = map_option (\<lambda>g. GpuC g # ms) (f g)"
| "gpu_mut f (m # ms) = map_option (\<lambda>ms. m # ms) (gpu_mut f ms)"

text \<open>\<open>Machine::default\<close> also sets the timer from the host's clock.\<close>

definition Machine_default :: "u32 \<Rightarrow> Machine option" where
  "Machine_default ticks = do {
     m \<leftarrow> Machine_deterministic;
     ms \<leftarrow> pit_mut (\<lambda>p. Some (pit_init ticks p)) (components m);
     Some (m\<lparr>components := ms\<rparr>)
   }"

definition hard_reset :: "Machine \<Rightarrow> Machine" where
  "hard_reset m = m\<lparr>cpu := CPU_default\<rparr>"

definition set_trace_count :: "Machine \<Rightarrow> usize \<Rightarrow> Machine" where
  "set_trace_count m n = m\<lparr>trace_count := Some n\<rparr>"

section \<open>Input and output\<close>

text \<open>A port that nothing handles reads 0.\<close>

definition machine_in_u8 :: "Machine \<Rightarrow> u16 \<Rightarrow> (u8 \<times> Machine) option" where
  "machine_in_u8 m port = do {
     (r, ms) \<leftarrow> bus_in (components m) port;
     Some ((case r of Some v \<Rightarrow> v | None \<Rightarrow> 0), m\<lparr>components := ms\<rparr>)
   }"

definition machine_in_u16 :: "Machine \<Rightarrow> u16 \<Rightarrow> (u16 \<times> Machine) option" where
  "machine_in_u16 m port = Some (0, m)"

definition machine_out_u8 :: "Machine \<Rightarrow> u16 \<Rightarrow> u8 \<Rightarrow> Machine option" where
  "machine_out_u8 m port v = do {
     (b, ms) \<leftarrow> bus_out (components m) port v;
     Some (m\<lparr>components := ms\<rparr>)
   }"

definition machine_out_u16 :: "Machine \<Rightarrow> u16 \<Rightarrow> u16 \<Rightarrow> Machine option" where
  "machine_out_u16 m port v = do {
     m \<leftarrow> machine_out_u8 m port (ucast v);
     port1 \<leftarrow> add_chk port 1;
     machine_out_u8 m port1 (ucast (drop_bit 8 v))
   }"

section \<open>Execution of an instruction\<close>

definition put_state :: "Machine \<Rightarrow> CPU \<times> MMU \<Rightarrow> Machine" where
  "put_state m s = m\<lparr>cpu := fst s, mmu := snd s\<rparr>"

text \<open>The arms that only touch the processor and the memory.\<close>

definition on_state :: "Machine \<Rightarrow> exec_result \<Rightarrow> (Exit \<times> Machine) option" where
  "on_state m r = map_option (\<lambda>(e, s). (e, put_state m s)) r"

definition exec_In8 :: "Instruction \<Rightarrow> Machine \<Rightarrow> Machine option" where
  "exec_In8 op m = do {
     src \<leftarrow> read_parameter_value (cpu m) (mmu m) (op_src op);
     (v, m) \<leftarrow> machine_in_u8 m (ucast src);
     s \<leftarrow> write_parameter_u8 (cpu m) (mmu m) (op_dst op) v;
     Some (put_state m s)
   }"

definition exec_In16 :: "Instruction \<Rightarrow> Machine \<Rightarrow> Machine option" where
  "exec_In16 op m = do {
     src \<leftarrow> read_parameter_value (cpu m) (mmu m) (op_src op);
     (v, m) \<leftarrow> machine_in_u16 m (ucast src);
     s \<leftarrow> write_parameter_u16 (cpu m) (mmu m) (segment_prefix op) (op_dst op) v;
     Some (put_state m s)
   }"

definition exec_Insb :: "Instruction \<Rightarrow> Machine \<Rightarrow> Machine option" where
  "exec_Insb op m = do {
     dx \<leftarrow> get_r16 (cpu m) R.DX;
     (v, m) \<leftarrow> machine_in_u8 m dx;
     es \<leftarrow> get_r16 (cpu m) R.ES;
     di \<leftarrow> get_r16 (cpu m) R.DI;
     u \<leftarrow> mmu_write_u8 (mmu m) es di v;
     c \<leftarrow> advance (cpu m) R.DI 1;
     Some (put_state m (c, u))
   }"

definition exec_Out8 :: "Instruction \<Rightarrow> Machine \<Rightarrow> Machine option" where
  "exec_Out8 op m = do {
     addr \<leftarrow> read_parameter_value (cpu m) (mmu m) (op_dst op);
     v \<leftarrow> read_parameter_value (cpu m) (mmu m) (op_src op);
     machine_out_u8 m (ucast addr) (ucast v)
   }"

definition exec_Out16 :: "Instruction \<Rightarrow> Machine \<Rightarrow> Machine option" where
  "exec_Out16 op m = do {
     addr \<leftarrow> read_parameter_value (cpu m) (mmu m) (op_dst op);
     v \<leftarrow> read_parameter_value (cpu m) (mmu m) (op_src op);
     machine_out_u16 m (ucast addr) (ucast v)
   }"

definition exec_Outsb :: "Instruction \<Rightarrow> Machine \<Rightarrow> Machine option" where
  "exec_Outsb op m = do {
     seg \<leftarrow> segment (cpu m) (segment_prefix op);
     si \<leftarrow> get_r16 (cpu m) R.SI;
     v \<leftarrow> mmu_read_u8 (mmu m) seg si;
     port \<leftarrow> get_r16 (cpu m) R.DX;
     m \<leftarrow> machine_out_u8 m port v;
     c \<leftarrow> advance (cpu m) R.SI 1;
     Some (m\<lparr>cpu := c\<rparr>)
   }"

definition exec_Outsw :: "Instruction \<Rightarrow> Machine \<Rightarrow> Machine option" where
  "exec_Outsw op m = do {
     seg \<leftarrow> segment (cpu m) (segment_prefix op);
     si \<leftarrow> get_r16 (cpu m) R.SI;
     v \<leftarrow> mmu_read_u16 (mmu m) seg si;
     port \<leftarrow> get_r16 (cpu m) R.DX;
     m \<leftarrow> machine_out_u16 m port v;
     c \<leftarrow> advance (cpu m) R.SI 2;
     Some (m\<lparr>cpu := c\<rparr>)
   }"

definition exec_string :: "StringOp \<Rightarrow> Instruction \<Rightarrow> CPU \<Rightarrow> MMU \<Rightarrow> (CPU \<times> MMU) option" where
  "exec_string k op c u = (case k of
     Cmpsb \<Rightarrow> exec_Cmpsb op c u | Cmpsw \<Rightarrow> exec_Cmpsw op c u
   | Lodsb \<Rightarrow> exec_Lodsb op c u | Lodsw \<Rightarrow> exec_Lodsw op c u | Lodsd \<Rightarrow> exec_Lodsd op c u
   | Movsb \<Rightarrow> exec_Movsb op c u | Movsw \<Rightarrow> exec_Movsw op c u | Movsd \<Rightarrow> exec_Movsd op c u
   | Scasb \<Rightarrow> exec_Scasb op c u | Scasw \<Rightarrow> exec_Scasw op c u
   | Stosb \<Rightarrow> exec_Stosb op c u | Stosw \<Rightarrow> exec_Stosw op c u | Stosd \<Rightarrow> exec_Stosd op c u
   | _ \<Rightarrow> unhandled c u)"

definition exec_io :: "StringOp \<Rightarrow> Instruction \<Rightarrow> Machine \<Rightarrow> (Exit \<times> Machine) option" where
  "exec_io k op m = (case k of
     In8 \<Rightarrow> map_option (Pair Fall) (exec_In8 op m)
   | In16 \<Rightarrow> map_option (Pair Fall) (exec_In16 op m)
   | Insb \<Rightarrow> map_option (Pair Fall) (exec_Insb op m)
   | Out8 \<Rightarrow> map_option (Pair Fall) (exec_Out8 op m)
   | Out16 \<Rightarrow> map_option (Pair Fall) (exec_Out16 op m)
   | Outsb \<Rightarrow> map_option (Pair Fall) (exec_Outsb op m)
   | Outsw \<Rightarrow> map_option (Pair Fall) (exec_Outsw op m)
   | _ \<Rightarrow> on_state m (falls (exec_string k op (cpu m) (mmu m))))"

definition exec_op :: "Instruction \<Rightarrow> Machine \<Rightarrow> (Exit \<times> Machine) option" where
  "exec_op op m = (let c = cpu m; u = mmu m in case command op of
     Arith k \<Rightarrow> on_state m (exec_arith k op c u)
   | Mul k \<Rightarrow> on_state m (exec_mul k op c u)
   | Logic k \<Rightarrow> on_state m (exec_logic k op c u)
   | Shift k \<Rightarrow> on_state m (exec_shift k op c u)
   | Move k \<Rightarrow> on_state m (falls (exec_move k op c u))
   | Str k \<Rightarrow> exec_io k op m
   | Flow k \<Rightarrow> on_state m (falls (exec_flow k op c u))
   | Flag k \<Rightarrow> on_state m (falls (Some (exec_flag k c, u)))
   | _ \<Rightarrow> on_state m (falls (unhandled c u)))"

definition execute :: "Instruction \<Rightarrow> Machine \<Rightarrow> Machine option" where
  "execute op m = do {
     let c = cpu m;
     let start_ip = cpu_ip c;
     let c = set_ip c (start_ip + ucast (ilength op));
     n \<leftarrow> add_chk (instruction_count c) 1;
     let c = c\<lparr>instruction_count := n\<rparr>;
     k \<leftarrow> add_chk (cycle_count c) 1;
     let c = c\<lparr>cycle_count := k\<rparr>;
     (e, m) \<leftarrow> exec_op op (m\<lparr>cpu := c\<rparr>);
     (case e of
        Return \<Rightarrow> Some m
      | Fall \<Rightarrow> do { c \<leftarrow> repeat_suffix (repeat op) start_ip (cpu m); Some (m\<lparr>cpu := c\<rparr>) })
   }"

section \<open>Interrupts\<close>

definition handle_interrupt :: "Host \<Rightarrow> u8 \<Rightarrow> Machine \<Rightarrow> Machine option" where
  "handle_interrupt h n m = do {
     (handled, ms, c, u) \<leftarrow> bus_int (components m) n (cpu m) (mmu m);
     let m = m\<lparr>components := ms, cpu := c, mmu := u\<rparr>;
     if handled then Some m
     else if n = 0x20 \<or> n = 0x21 then do {
       (b, d, c, u) \<leftarrow> dos_int h (dos m) n (cpu m) (mmu m);
       Some (m\<lparr>dos := d, cpu := c, mmu := u\<rparr>)
     }
     else if n = 0x27 then Some (m\<lparr>cpu := (cpu m)\<lparr>fatal_error := True\<rparr>\<rparr>)
     else Some m
   }"

section \<open>The instruction cycle\<close>

definition external_disasm_of_bytes :: "Host \<Rightarrow> Machine \<Rightarrow> u16 \<Rightarrow> u16 \<Rightarrow> string option" where
  "external_disasm_of_bytes h m cs pc = do {
     bytes \<leftarrow> mmu_read (mmu m) cs pc 16;
     host_ndisasm h bytes
   }"

definition fatal :: "Machine \<Rightarrow> Machine" where
  "fatal m = m\<lparr>cpu := (cpu m)\<lparr>fatal_error := True\<rparr>\<rparr>"

text \<open>Every timer in the list is updated.\<close>

fun update_pits :: "MachineComponent list \<Rightarrow> MMU \<Rightarrow> (MachineComponent list \<times> MMU) option" where
  "update_pits [] u = Some ([], u)"
| "update_pits (PitC p # ms) u = do {
     (p, u) \<leftarrow> pit_update p u;
     (ms, u) \<leftarrow> update_pits ms u;
     Some (PitC p # ms, u)
   }"
| "update_pits (m # ms) u = do { (ms, u) \<leftarrow> update_pits ms u; Some (m # ms, u) }"

text \<open>Every hundred cycles the scanline moves and the timer ticks.\<close>

definition periodic :: "Machine \<Rightarrow> Machine option" where
  "periodic m = do {
     m \<leftarrow> (if cycle_count (cpu m) mod 100 = 0 then do {
         ms \<leftarrow> gpu_mut progress_scanline (components m);
         Some (m\<lparr>components := ms\<rparr>)
       }
       else Some m);
     if cycle_count (cpu m) mod 100 = 0 then do {
       (ms, u) \<leftarrow> update_pits (components m) (mmu m);
       Some (m\<lparr>components := ms, mmu := u\<rparr>)
     }
     else Some m
   }"

definition run_decoded :: "Host \<Rightarrow> u16 \<Rightarrow> u16 \<Rightarrow> Instruction \<Rightarrow> Machine \<Rightarrow> Machine option" where
  "run_decoded h cs pc op m = (case command op of
     Uninitialized \<Rightarrow> Some (fatal m)
   | Invalid bytes reason \<Rightarrow> do {
       let m = fatal m;
       text \<leftarrow> external_disasm_of_bytes h m cs pc;
       Some m
     }
   | _ \<Rightarrow> execute op m)"

definition execute_instruction :: "Host \<Rightarrow> Machine \<Rightarrow> Machine option" where
  "execute_instruction h m = do {
     cs \<leftarrow> get_r16 (cpu m) R.CS;
     let ip = cpu_ip (cpu m);
     m \<leftarrow> (if cs = 0xF000 then handle_interrupt h (ucast ip) m else Some m);
     (op, d) \<leftarrow> get_instruction (decoder (cpu m)) (mmu m) cs ip;
     let m = m\<lparr>cpu := (cpu m)\<lparr>decoder := d\<rparr>\<rparr>;
     let stop = (case trace_count m of Some limit \<Rightarrow> instruction_count (cpu m) \<ge> limit | None \<Rightarrow> False);
     if stop then Some (fatal m)
     else do {
       m \<leftarrow> run_decoded h cs ip op m;
       periodic m
     }
   }"

fun execute_instructions :: "Host \<Rightarrow> nat \<Rightarrow> Machine \<Rightarrow> Machine option" where
  "execute_instructions h 0 m = Some m"
| "execute_instructions h (Suc n) m = do {
     m \<leftarrow> execute_instruction h m;
     if fatal_error (cpu m) then Some m else execute_instructions h n m
   }"

text \<open>
  \<open>execute_frame\<close> loops until an error or until the cycles of a frame have passed. The outer
  option is the fuel of the loop (\<open>None\<close>: it ran out), the inner one the panic of a step.
\<close>

fun frame_loop :: "nat \<Rightarrow> Host \<Rightarrow> usize \<Rightarrow> Machine \<Rightarrow> Machine option option" where
  "frame_loop 0 h cycles m = None"
| "frame_loop (Suc n) h cycles m = (case execute_instruction h m of
     None \<Rightarrow> Some None
   | Some m \<Rightarrow>
       if fatal_error (cpu m) then Some (Some m)
       else if cycle_count (cpu m) > cycles then Some (Some (m\<lparr>cpu := (cpu m)\<lparr>cycle_count := 0\<rparr>\<rparr>))
       else frame_loop n h cycles m)"

definition execute_frame :: "nat \<Rightarrow> Host \<Rightarrow> Machine \<Rightarrow> Machine option option" where
  "execute_frame fuel h m = (let fps = 60; cycles = clock_hz (cpu m) div fps in frame_loop fuel h cycles m)"

section \<open>Loading programs\<close>

definition psp_bytes :: "u8 list" where
  "psp_bytes = concat [
    [0xCD, 0x20], [0xFF, 0x9F], [0x00], [0x9A], [0xF0, 0xFE], [0x1D, 0xF0],
    [0x34, 0xF5, 0x00, 0xF0], [0x00, 0x00, 0x48, 0x02], [0x10, 0x01, 0x48, 0x02], [0x48, 0x02],
    [0x01, 0x01, 0x01, 0x00, 0x02, 0xFF, 0xFF, 0xFF], [0xFF, 0xFF, 0xFF, 0xFF, 0xFF, 0xFF, 0xFF, 0xFF],
    [0xFF, 0xFF, 0xFF, 0xFF],
    [0xE3, 0x02], [0xDE, 0xFF, 0x29, 0x03], [0x14, 0x00], [0x18, 0x00, 0x29, 0x03],
    [0xFF, 0xFF, 0xFF, 0xFF], [0x00], [0x00], [0x00], [0x00], [0x05, 0x00],
    replicate 14 0x00,
    [0xCD, 0x21, 0xCB],
    replicate 9 0x00,
    [0x00, 0x20, 0x20, 0x20, 0x20, 0x20, 0x20, 0x20], [0x20, 0x20, 0x20, 0x20, 0x00, 0x00, 0x00, 0x00],
    [0x00, 0x20, 0x20, 0x20, 0x20, 0x20, 0x20, 0x20], [0x20, 0x20, 0x20, 0x20, 0x00, 0x00, 0x00, 0x00],
    [0x00, 0x00, 0x00, 0x00],
    [0x00, 0x0D]]"

definition init_psp :: "u16 \<Rightarrow> Machine \<Rightarrow> Machine option" where
  "init_psp seg m = do {
     u \<leftarrow> mmu_write (mmu m) seg 0 psp_bytes;
     Some (m\<lparr>mmu := u, dos := (dos m)\<lparr>psp_segment := seg\<rparr>\<rparr>)
   }"

definition with_interrupts :: "CPU \<Rightarrow> CPU" where
  "with_interrupts c = with_flags c ((cpu_flags c)\<lparr>interrupt := True\<rparr>)"

definition load_exe :: "Bincode \<Rightarrow> u8 list \<Rightarrow> u16 \<Rightarrow> Machine \<Rightarrow> Machine option" where
  "load_exe bc bytes seg m = do {
     exe \<leftarrow> exe_from_data bc bytes;
     let c = cpu m;
     let ss = word_of_int (uint seg + sint (exe_ss (header exe)));
     let c = set_r16 c R.SS ss;
     let c = set_r16 c R.SP (exe_sp (header exe));
     let cs = word_of_int (uint seg + sint (exe_cs (header exe)));
     let c = set_r16 c R.CS cs;
     let c = set_ip c (exe_ip (header exe));
     u \<leftarrow> mmu_write (mmu m) seg 0 (program_data exe);
     let some_segment = 0x0329;
     let c = set_r16 c R.DS (psp_segment (dos m));
     let c = set_r16 c R.ES some_segment;
     let c = set_r16 c R.BP 0x091C;
     let c = set_r16 c R.CX 0x00FF;
     let c = set_r16 c R.DX some_segment;
     let c = set_r16 c R.SI 0x0100;
     let c = set_r16 c R.DI 0xFFFE;
     let c = with_interrupts c;
     base \<leftarrow> get_memory_address c;
     Some (m\<lparr>cpu := c, mmu := u, rom_base := base, rom_length := of_nat (length bytes)\<rparr>)
   }"

definition load_com :: "u8 list \<Rightarrow> u16 \<Rightarrow> Machine \<Rightarrow> Machine option" where
  "load_com bytes seg m = do {
     let c = cpu m;
     let c = set_r16 c R.CS seg;
     let c = set_r16 c R.DS seg;
     let c = set_r16 c R.ES seg;
     let c = set_r16 c R.SS seg;
     let c = set_r16 c R.SP 0xFFFE;
     let c = set_r16 c R.BP 0x091C;
     let c = set_r16 c R.CX 0x00FF;
     let c = set_r16 c R.DX seg;
     let c = set_r16 c R.SI 0x0100;
     let c = set_r16 c R.DI 0xFFFE;
     let c = with_interrupts c;
     let c = set_ip c 0x0100;
     base \<leftarrow> get_memory_address c;
     cs \<leftarrow> get_r16 c R.CS;
     u \<leftarrow> mmu_write (mmu m) cs (cpu_ip c) bytes;
     Some (m\<lparr>cpu := c, mmu := u, rom_base := base, rom_length := of_nat (length bytes)\<rparr>)
   }"

text \<open>The first two bytes decide the format; a shorter file panics.\<close>

definition load_executable :: "Bincode \<Rightarrow> u8 list \<Rightarrow> u16 \<Rightarrow> Machine \<Rightarrow> Machine option" where
  "load_executable bc bytes psp m = do {
     m \<leftarrow> init_psp psp m;
     if bytes = [] then None
     else if bytes ! 0 = 0x4D \<and> length bytes < 2 then None
     else if bytes ! 0 = 0x4D \<and> bytes ! 1 = 0x5A then do {
       seg \<leftarrow> add_chk psp 0x10;
       load_exe bc bytes seg m
     }
     else load_com bytes psp m
   }"

text \<open>\<open>load_executable_file\<close>: the host's file, or its error; then DOS knows the path.\<close>

definition load_executable_file ::
  "Bincode \<Rightarrow> (rstring \<Rightarrow> u8 list option) \<Rightarrow> rstring \<Rightarrow> Machine \<Rightarrow> (bool \<times> Machine) option" where
  "load_executable_file bc read_binary filename m = (case read_binary filename of
     None \<Rightarrow> Some (False, m)
   | Some bytes \<Rightarrow> do {
       m \<leftarrow> load_executable bc bytes 0x0329 m;
       Some (True, m\<lparr>dos := (dos m)\<lparr>program_path := filename\<rparr>\<rparr>)
     })"

end
