(* ===== verification/X86_Laws_Devices.thy ===== *)
theory X86_Laws_Devices
  imports X86_Machine "HOL-Library.Multiset"
begin

text \<open>
  Properties of the devices: the timer counts the day and publishes its count, the keyboard hands out
  every press once, the registers of the graphics card, and the vectors that the BIOS sets up.
\<close>

unbundle bit_operations_syntax

section \<open>Timer\<close>

definition DAY :: nat where "DAY = 0x1800B0"

lemma timer_inc_day:
  assumes "unat (tm_count t) < DAY"
  shows "\<exists>t'. timer_inc t = Some t' \<and> unat (tm_count t') = (unat (tm_count t) + 1) mod DAY"
proof -
  let ?c = "tm_count t"
  have lt: "unat ?c < 0x1800B0" using assms by (simp add: DAY_def)
  have s: "add_chk ?c 1 = Some (?c + 1)" using lt by (intro add_chk_less) simp
  have u: "unat (?c + 1) = unat ?c + 1" using add_chk_unat(1) [OF s] by simp
  have "(?c + 1 \<ge> 0x1800B0) = (unat ?c + 1 \<ge> 0x1800B0)" by (simp add: word_le_nat_alt u)
  then show ?thesis using s u lt
    by (cases "unat ?c + 1 = 0x1800B0") (auto simp: timer_inc_def DAY_def)
qed

definition pit_updates :: "nat \<Rightarrow> PIT \<times> MMU \<Rightarrow> (PIT \<times> MMU) option" where
  "pit_updates n = for_each (\<lambda>_ (p, u). pit_update p u) [0..<n]"

lemma for_each_snoc: "for_each body (xs @ [x]) s = do { s \<leftarrow> for_each body xs s; body x s }"
  by (induction xs arbitrary: s) (auto simp: bind_Some_iff split: bind_splits)

lemma pit_updates_Suc:
  "pit_updates (Suc n) s = do { (p, u) \<leftarrow> pit_updates n s; pit_update p u }"
  by (simp add: pit_updates_def for_each_snoc)

lemma pit_update_ok:
  assumes "mmu_ok u" "timer_inc (timer0 p) = Some t"
  shows "pit_update p u = Some (p\<lparr>timer0 := t\<rparr>, poke32 u 0x40 0x6C (tm_count t))"
  using assms by (simp add: pit_update_def)

text \<open>From a count past the day, which a guest can set, one update starts the day again; the largest stops it.\<close>

lemma timer_inc_past_day:
  assumes "DAY \<le> unat (tm_count t)"
  shows "timer_inc t = (if tm_count t = 0xFFFFFFFF then None else Some (t\<lparr>tm_count := 0\<rparr>))"
proof -
  let ?c = "tm_count t"
  have m: "uint (0xFFFFFFFF :: u32) = 2 ^ 32 - 1" by simp
  show ?thesis
  proof (cases "?c = 0xFFFFFFFF")
    case True
    then show ?thesis by (simp add: timer_inc_def add_chk_def)
  next
    case False
    then have "uint ?c \<noteq> 2 ^ 32 - 1" unfolding m [symmetric] by (simp only: word_uint_eq_iff simp_thms)
    then have "uint ?c + 1 < 2 ^ 32" using unsigned_less [where 'a = int, of ?c] by simp
    then have s: "add_chk ?c 1 = Some (?c + 1)" by (simp add: add_chk_def)
    have "unat (?c + 1) = unat ?c + 1" using add_chk_unat(1) [OF s] by simp
    then have "?c + 1 \<ge> 0x1800B0" using assms by (simp add: word_le_nat_alt DAY_def)
    then show ?thesis using s False by (simp add: timer_inc_def)
  qed
qed

lemma timer_inc_any:
  "if tm_count t = 0xFFFFFFFF then timer_inc t = None
   else \<exists>t'. timer_inc t = Some t' \<and>
     unat (tm_count t') = (if unat (tm_count t) < DAY then (unat (tm_count t) + 1) mod DAY else 0)"
proof (cases "unat (tm_count t) < DAY")
  case True
  then have "tm_count t \<noteq> 0xFFFFFFFF" by (auto simp: DAY_def)
  then show ?thesis using timer_inc_day [OF True] True by simp
next
  case False
  then show ?thesis using timer_inc_past_day [of t] by simp
qed

text \<open>
  C18. The timer counts ticks of a day (0x1800B0 of them). After one or more updates the count is the
  old one plus their number, modulo a day, when the old one was below a day; a larger one, which INT 1A can
  set, is replaced by 0 at the first update and counted up from there; and the
  largest of all, FFFFFFFF, makes the update panic. The double word at 0040:006C holds the count and
  the two other counters are as before.
\<close>

theorem timer_counts_the_day:
  assumes "mmu_ok u"
  shows "if tm_count (timer0 p) = 0xFFFFFFFF then pit_updates (Suc n) (p, u) = None
    else \<exists>p' u'. pit_updates (Suc n) (p, u) = Some (p', u') \<and>
      unat (tm_count (timer0 p')) =
        (if unat (tm_count (timer0 p)) < 0x1800B0 then (unat (tm_count (timer0 p)) + Suc n) mod 0x1800B0
         else n mod 0x1800B0) \<and>
      timer1 p' = timer1 p \<and> timer2 p' = timer2 p \<and>
      mmu_read_u32 u' 0x0040 0x006C = Some (tm_count (timer0 p'))"
proof -
  have "if tm_count (timer0 p) = 0xFFFFFFFF then pit_updates (Suc n) (p, u) = None
    else \<exists>p' u'. pit_updates (Suc n) (p, u) = Some (p', u') \<and> mmu_ok u' \<and>
      unat (tm_count (timer0 p')) =
        (if unat (tm_count (timer0 p)) < DAY then (unat (tm_count (timer0 p)) + Suc n) mod DAY else n mod DAY) \<and>
      timer1 p' = timer1 p \<and> timer2 p' = timer2 p \<and>
      mmu_read_u32 u' 0x0040 0x006C = Some (tm_count (timer0 p'))"
  proof (induction n)
    case 0
    have "pit_updates (Suc 0) (p, u) = pit_update p u"
      by (cases "pit_update p u") (auto simp: pit_updates_def)
    then show ?case
      using timer_inc_any [of "timer0 p"] pit_update_ok [OF assms, of p] assms
      by (auto simp: pit_update_def split: if_splits)
  next
    case (Suc n)
    show ?case
    proof (cases "tm_count (timer0 p) = 0xFFFFFFFF")
      case True
      then show ?thesis using Suc by (simp add: pit_updates_Suc [of "Suc n"])
    next
      case False
      then obtain p' u' where *: "pit_updates (Suc n) (p, u) = Some (p', u')" "mmu_ok u'"
        "unat (tm_count (timer0 p')) =
          (if unat (tm_count (timer0 p)) < DAY then (unat (tm_count (timer0 p)) + Suc n) mod DAY else n mod DAY)"
        "timer1 p' = timer1 p" "timer2 p' = timer2 p" using Suc by auto
      have "unat (tm_count (timer0 p')) < DAY" using *(3) by (simp add: DAY_def)
      from timer_inc_day [OF this] obtain t where t: "timer_inc (timer0 p') = Some t"
        "unat (tm_count t) = (unat (tm_count (timer0 p')) + 1) mod DAY" by blast
      show ?thesis using * t pit_update_ok [OF *(2) t(1)] False
        by (simp add: pit_updates_Suc [of "Suc n"] mod_simps)
    qed
  qed
  then show ?thesis unfolding DAY_def by (auto split: if_splits)
qed

theorem timer_counts_the_day_witness:
  "(\<exists>p' u'. pit_updates 3 (PIT_default\<lparr>timer0 := (Timer_new 0)\<lparr>tm_count := 0x1800AE\<rparr>\<rparr>, MMU_default) =
     Some (p', u') \<and> unat (tm_count (timer0 p')) = 1 \<and>
     mmu_read_u32 u' 0x0040 0x006C = Some (tm_count (timer0 p'))) \<and>
   pit_updates 1 (pit_init 0xFFFFFFFF PIT_default, MMU_default) = None"
  using timer_counts_the_day [OF mmu_default_ok, where n = 2
      and p = "PIT_default\<lparr>timer0 := (Timer_new 0)\<lparr>tm_count := 0x1800AE\<rparr>\<rparr>"]
    timer_counts_the_day [OF mmu_default_ok, where n = 0 and p = "pit_init 0xFFFFFFFF PIT_default"]
  by (simp_all add: pit_init_def flip: One_nat_def) auto

section \<open>Keyboard\<close>

lemma find_index_from_Some:
  assumes "kp \<in> set ks"
  shows "\<exists>i<length ks. find_index_from ks kp n = Some (n + i) \<and>
    take i ks @ drop (i + 1) ks = remove1 kp ks"
  using assms
proof (induction ks arbitrary: n)
  case (Cons x xs)
  show ?case
  proof (cases "x = kp")
    case True
    then show ?thesis by (intro exI [of _ 0]) simp
  next
    case False
    then obtain i where "i < length xs" "find_index_from xs kp (n + 1) = Some (n + 1 + i)"
      "take i xs @ drop (i + 1) xs = remove1 kp xs"
      using Cons by (auto dest!: Cons.IH [of "n + 1"])
    then show ?thesis using False by (intro exI [of _ "Suc i"]) simp
  qed
qed simp

lemma consume_remove1:
  assumes "kp \<in> set (keypresses k)"
  shows "consume k kp = k\<lparr>keypresses := remove1 kp (keypresses k)\<rparr>"
  using find_index_from_Some [OF assms, of 0] by (auto simp: consume_def find_keypress_index_def)

definition scancode :: "Keypress \<Rightarrow> u8" where
  "scancode kp = fst (map_sdl_to_dos_standard_codes kp)"

text \<open>Reading the data port.\<close>

lemma keyboard_read:
  "keyboard_in_u8 k 0x60 = (if keypresses k = [] then Some (Some 0, k)
     else let kp = last (keypresses k) in
       Some (Some (scancode kp), k\<lparr>keypresses := remove1 kp (keypresses k)\<rparr>))"
  by (cases "keypresses k = []")
    (auto simp: keyboard_in_u8_def peek_dos_standard_scancode_and_ascii_def peek_keypress_def Let_def
      scancode_def last_conv_nth consume_remove1 last_in_set split: prod.splits)

fun read_keys :: "nat \<Rightarrow> Keyboard \<Rightarrow> (u8 option list \<times> Keyboard) option" where
  "read_keys 0 k = Some ([], k)"
| "read_keys (Suc n) k = do {
     (v, k) \<leftarrow> keyboard_in_u8 k 0x60;
     (vs, k) \<leftarrow> read_keys n k;
     Some (v # vs, k)
   }"

text \<open>
  The order in which the queue is read. The last press is reported, but the first one equal to it is
  removed, so equal presses are read together: newest first, each as often as it is queued.
\<close>

definition newest_first :: "'a list \<Rightarrow> 'a list" where
  "newest_first ks = concat (map (\<lambda>k. replicate (count_list ks k) k) (rev (remdups ks)))"

lemma rev_remdups_snoc: "rev (remdups (xs @ [x])) = x # filter (\<lambda>y. y \<noteq> x) (rev (remdups xs))"
  by (induction xs) auto

lemma newest_first_snoc:
  "newest_first (xs @ [x]) = replicate (Suc (count_list xs x)) x @ newest_first (filter (\<lambda>y. y \<noteq> x) xs)"
proof -
  have "count_list (xs @ [x]) y = count_list (filter (\<lambda>y. y \<noteq> x) xs) y" if "y \<noteq> x" for y
    using that by (induction xs) auto
  moreover have "filter (\<lambda>y. y \<noteq> x) (rev (remdups xs)) = rev (remdups (filter (\<lambda>y. y \<noteq> x) xs))"
    by (simp add: remdups_filter rev_filter)
  moreover have "count_list (xs @ [x]) x = Suc (count_list xs x)" by simp
  ultimately show ?thesis
    unfolding newest_first_def rev_remdups_snoc
    by (auto intro!: arg_cong [where f = concat] map_cong)
qed

lemma newest_first_remove:
  assumes "ks \<noteq> []"
  shows "newest_first ks = last ks # newest_first (remove1 (last ks) ks)"
proof -
  obtain xs x where ks: "ks = xs @ [x]" using assms by (metis rev_exhaust)
  show ?thesis
  proof (cases "x \<in> set xs")
    case True
    then have "filter (\<lambda>y. y \<noteq> x) (remove1 x xs) = filter (\<lambda>y. y \<noteq> x) xs" by (simp add: filter_remove1 remove1_idem)
    moreover have "count_list xs x = Suc (count_list (remove1 x xs) x)"
      using True by (induction xs) auto
    ultimately show ?thesis using True by (simp add: ks newest_first_snoc remove1_append)
  next
    case False
    then have "filter (\<lambda>y. y \<noteq> x) xs = xs" by (auto simp: filter_id_conv)
    then show ?thesis using False by (simp add: ks newest_first_snoc remove1_append)
  qed
qed

lemma newest_first_distinct: "distinct ks \<Longrightarrow> newest_first ks = rev ks"
proof (induction ks rule: rev_induct)
  case (snoc x xs)
  then have "filter (\<lambda>y. y \<noteq> x) xs = xs" by (auto simp: filter_id_conv)
  then show ?case using snoc by (simp add: newest_first_snoc)
qed (simp add: newest_first_def)

lemma newest_first_mset: "mset (newest_first ks) = mset ks"
proof (induction "length ks" arbitrary: ks)
  case (Suc n)
  then have ne: "ks \<noteq> []" by auto
  then have "length (remove1 (last ks) ks) = n" using Suc(2) by (simp add: length_remove1)
  then show ?case using Suc(1) [of "remove1 (last ks) ks"] newest_first_remove [OF ne] ne by simp
qed (simp add: newest_first_def)

lemma read_keys_queue:
  "read_keys (length (keypresses k)) k =
     Some (map (Some \<circ> scancode) (newest_first (keypresses k)), k\<lparr>keypresses := []\<rparr>)"
proof (induction "length (keypresses k)" arbitrary: k)
  case (Suc n)
  let ?ks = "keypresses k" let ?k = "k\<lparr>keypresses := remove1 (last ?ks) ?ks\<rparr>"
  from Suc(2) have ne: "?ks \<noteq> []" by auto
  then have "n = length (keypresses ?k)" using Suc(2) by (simp add: length_remove1)
  from Suc(1) [OF this] this
  have "read_keys n ?k = Some (map (Some \<circ> scancode) (newest_first (remove1 (last ?ks) ?ks)), k\<lparr>keypresses := []\<rparr>)"
    by simp
  then show ?case
    using ne Suc(2) [symmetric] newest_first_remove [OF ne] by (simp add: keyboard_read Let_def)
qed (simp add: newest_first_def)

text \<open>
  C19. Reading the data port as often as there are queued presses answers with the scan code of every
  press exactly once and empties the queue; one more read answers 0. The codes come newest press first
  (a keyboard buffer would hand out the oldest first), with the repeats of a press together: A, B, A
  is read A, A, B, and presses without repeats in reverse. Reading never changes the status
  byte, so the output-buffer bit that every press sets stays set when nothing is left to read.
\<close>

theorem keyboard_hands_out_each_press:
  "\<exists>vs k'. read_keys (length (keypresses k)) k = Some (vs, k') \<and>
     vs = map (Some \<circ> scancode) (newest_first (keypresses k)) \<and>
     mset vs = mset (map (Some \<circ> scancode) (keypresses k)) \<and>
     keypresses k' = [] \<and> keyboard_in_u8 k' 0x60 = Some (Some 0, k') \<and>
     (distinct (keypresses k) \<longrightarrow> vs = rev (map (Some \<circ> scancode) (keypresses k))) \<and>
     get_status_register_byte k' = get_status_register_byte k \<and>
     (\<forall>k0 kc m. k = add_keypress k0 kc m \<longrightarrow> bit (get_status_register_byte k') 0)"
proof (intro exI conjI allI impI)
  show "read_keys (length (keypresses k)) k =
      Some (map (Some \<circ> scancode) (newest_first (keypresses k)), k\<lparr>keypresses := []\<rparr>)"
    by (rule read_keys_queue)
  show "mset (map (Some \<circ> scancode) (newest_first (keypresses k))) = mset (map (Some \<circ> scancode) (keypresses k))"
    by (simp only: mset_map newest_first_mset)
  show "map (Some \<circ> scancode) (newest_first (keypresses k)) = rev (map (Some \<circ> scancode) (keypresses k))"
    if "distinct (keypresses k)"
    using newest_first_distinct [OF that] by (simp add: rev_map)
  show "bit (get_status_register_byte (k\<lparr>keypresses := []\<rparr>)) 0" if "k = add_keypress k0 kc m" for k0 kc m
    using that by (simp add: get_status_register_byte_def add_keypress_def status_as_u8_def Let_def bit_simps)
qed (simp_all add: keyboard_read get_status_register_byte_def)

theorem keyboard_hands_out_each_press_witness:
  "\<exists>vs k'. read_keys 3 (add_keypress (add_keypress (add_keypress Keyboard_default (Keycode ''A'') (OtherMod 0))
       (Keycode ''Escape'') (OtherMod 0)) (Keycode ''A'') (OtherMod 0)) = Some (vs, k') \<and>
     vs = [Some 0x1E, Some 0x1E, Some 0x01] \<and> bit (get_status_register_byte k') 0"
proof -
  let ?k = "add_keypress (add_keypress (add_keypress Keyboard_default (Keycode ''A'') (OtherMod 0))
       (Keycode ''Escape'') (OtherMod 0)) (Keycode ''A'') (OtherMod 0)"
  have "length (keypresses ?k) = 3"
    "map (Some \<circ> scancode) (newest_first (keypresses ?k)) = [Some 0x1E, Some 0x1E, Some 0x01]" by code_simp+
  then show ?thesis using keyboard_hands_out_each_press [of ?k] by metis
qed

section \<open>Video registers\<close>

text \<open>The register file behind the index and data ports of the CRT controller.\<close>

definition crtc_registers :: "CRTC \<Rightarrow> u8 list" where
  "crtc_registers c = [horizontal_total c, horizontal_display_end c, start_horizontal_blanking c,
     end_horizontal_blanking c, start_horizontal_retrace c, end_horizontal_retrace c, vertical_total c,
     crtc_overflow c, preset_row_scan c, maximum_scan_line c, cursor_start c, cursor_end c,
     start_address_high c, start_address_low c, cursor_location_high c, cursor_location_low c,
     vertical_retrace_start c, vertical_retrace_end c, vertical_display_end c, crtc_offset c,
     underline_location c, start_vertical_blanking c, end_vertical_blanking c, mode_control c,
     line_compare c]"

lemma write_current_registers:
  "write_current c v = None \<longleftrightarrow> crtc_index c > 0x18"
  "write_current c v = Some c' \<Longrightarrow>
     crtc_registers c' = (crtc_registers c)[unat (crtc_index c) := v] \<and> crtc_index c' = crtc_index c"
proof -
  have "crtc_index c \<in> set (map of_nat [0..<25])" if "crtc_index c \<le> 0x18"
  proof -
    have "unat (crtc_index c) < 25" using that by (simp add: word_le_nat_alt)
    moreover have "crtc_index c = of_nat (unat (crtc_index c))" by simp
    ultimately show ?thesis by (metis atLeastLessThan_iff imageI le0 set_map set_upt)
  qed
  moreover have "map of_nat [0..<25] = [0x0, 0x1, 0x2, 0x3, 0x4, 0x5, 0x6, 0x7, 0x8, 0x9, 0xA, 0xB, 0xC,
    0xD, 0xE, 0xF, 0x10, 0x11, 0x12, 0x13, 0x14, 0x15, 0x16, 0x17, 0x18 :: u8]"
    by (simp add: upt_rec)
  ultimately have cases: "crtc_index c \<le> 0x18 \<Longrightarrow> crtc_index c \<in> set [0x0, 0x1, 0x2, 0x3, 0x4, 0x5,
    0x6, 0x7, 0x8, 0x9, 0xA, 0xB, 0xC, 0xD, 0xE, 0xF, 0x10, 0x11, 0x12, 0x13, 0x14, 0x15, 0x16, 0x17, 0x18]"
    by simp
  show "write_current c v = None \<longleftrightarrow> crtc_index c > 0x18"
    using cases by (auto simp: write_current_def Let_def not_le[symmetric] split: if_splits)
  show "write_current c v = Some c' \<Longrightarrow>
     crtc_registers c' = (crtc_registers c)[unat (crtc_index c) := v] \<and> crtc_index c' = crtc_index c"
    by (simp add: write_current_def Let_def crtc_registers_def split: if_splits; hypsubst; simp)
qed

end
