(* ===== verification/X86_Gpu_Render.thy ===== *)
theory X86_Gpu_Render
  imports X86_Gpu_Text
begin

text \<open>
  Rendering the video memory into a frame (\<open>GPU::render_frame\<close>, \<open>gpu/render.rs\<close>): the CGA mode 04,
  the monochrome mode 11 and the linear mode 13. A read beyond the memory or beyond the palette
  panics. The conversion of a frame into an image of the \<open>image\<close> crate is not modelled.
\<close>

unbundle bit_operations_syntax

record VideoFrame =
  frame_data :: "ColorSpace list"
  frame_mode :: VideoModeBlock

text \<open>The pixels of the screen in the order of the two loops, as pairs (x, y).\<close>

definition screen :: "VideoModeBlock \<Rightarrow> (u32 \<times> u32) list" where
  "screen m = concat (map (\<lambda>y. map (\<lambda>x. (of_nat x, of_nat y)) [0..<unat (swidth m)])
     [0..<unat (sheight m)])"

definition memory_at :: "FlatMemory \<Rightarrow> usize \<Rightarrow> u8 option" where
  "memory_at m a = (if unat a < data_len m then Some (data m (ucast a)) else None)"

definition pixel04 :: "GPU \<Rightarrow> FlatMemory \<Rightarrow> u32 \<times> u32 \<Rightarrow> ColorSpace option" where
  "pixel04 g m = (\<lambda>(x, y). do {
     bank \<leftarrow> mul_chk (y mod 2) 0x2000;
     o1 \<leftarrow> add_chk 0xB8000 bank;
     line \<leftarrow> mul_chk 80 (drop_bit 1 y);
     o2 \<leftarrow> add_chk o1 line;
     offset \<leftarrow> add_chk o2 (drop_bit 2 x);
     b \<leftarrow> memory_at m (ucast offset);
     let bits = drop_bit (unat ((3 - (x AND 3)) * 2)) b AND 3;
     palette_at (pal (dac g)) ([0, 3, 5, 7] ! unat bits)
   })"

definition pixel11 :: "GPU \<Rightarrow> FlatMemory \<Rightarrow> u32 \<times> u32 \<Rightarrow> ColorSpace option" where
  "pixel11 g m = (\<lambda>(x, y). do {
     line \<leftarrow> mul_chk y (drop_bit 3 (swidth (gpu_mode g)));
     base_y \<leftarrow> add_chk 0xA0000 line;
     let bt = (x mod 8) AND 7;
     offset \<leftarrow> add_chk base_y (drop_bit 3 x);
     b \<leftarrow> memory_at m (ucast offset);
     let v = drop_bit (unat (7 - bt)) (b AND push_bit (unat (7 - bt)) 1) AND 1;
     palette_at mono_palette (unat v)
   })"

definition pixel13 :: "GPU \<Rightarrow> FlatMemory \<Rightarrow> u32 \<times> u32 \<Rightarrow> ColorSpace option" where
  "pixel13 g m = (\<lambda>(x, y). do {
     line \<leftarrow> mul_chk y (swidth (gpu_mode g));
     cell \<leftarrow> add_chk line x;
     offset \<leftarrow> add_chk 0xA0000 (ucast cell);
     b \<leftarrow> memory_at m offset;
     palette_at (pal (dac g)) (unat b)
   })"

definition render_frame :: "GPU \<Rightarrow> MMU \<Rightarrow> VideoFrame option" where
  "render_frame g u = do {
     let m = gpu_mode g;
     buf \<leftarrow> (if vm_mode m = 0x04 then collect (pixel04 g (memory u)) (screen m)
       else if vm_mode m = 0x11 then collect (pixel11 g (memory u)) (screen m)
       else if vm_mode m = 0x13 then collect (pixel13 g (memory u)) (screen m)
       else Some []);
     Some \<lparr>frame_data = buf, frame_mode = m\<rparr>
   }"

section \<open>Collecting\<close>

text \<open>The pixel (x, y) is element y * width + x of the screen.\<close>

lemma concat_rows_nth:
  assumes "y < h" "x < w"
  shows "concat (map (\<lambda>y. map (\<lambda>x. f x y) [0..<w]) [0..<h]) ! (y * w + x) = f x y"
    and "length (concat (map (\<lambda>y. map (\<lambda>x. f x y) [0..<w]) [0..<h])) = h * w"
proof -
  show "length (concat (map (\<lambda>y. map (\<lambda>x. f x y) [0..<w]) [0..<h])) = h * w" for h
    by (induction h) (simp_all add: length_concat)
  have len: "length (concat (map (\<lambda>y. map (\<lambda>x. f x y) [0..<w]) [0..<h])) = h * w" for h
    by (induction h) (simp_all add: length_concat)
  show "concat (map (\<lambda>y. map (\<lambda>x. f x y) [0..<w]) [0..<h]) ! (y * w + x) = f x y"
    using assms(1)
  proof (induction h)
    case (Suc h)
    show ?case
    proof (cases "y < h")
      case True
      then have "y * w + x < h * w"
        using assms(2) mult_le_mono1 [of "Suc y" h w] by simp
      then show ?thesis using Suc True len [of h] by (simp add: nth_append)
    next
      case False
      then show ?thesis using Suc.prems assms(2) len [of h] by (simp add: nth_append less_Suc_eq)
    qed
  qed simp
qed

lemma screen_length: "length (screen m) = unat (sheight m) * unat (swidth m)"
  by (simp add: screen_def length_concat sum_list_triv comp_def)

lemma screen_nth:
  assumes "y < unat (sheight m)" "x < unat (swidth m)"
  shows "screen m ! (y * unat (swidth m) + x) = (of_nat x, of_nat y)"
  unfolding screen_def using concat_rows_nth(1) [OF assms, of "\<lambda>x y. (of_nat x, of_nat y)"] by simp

end
