(* ===== verification/X86_Laws_Video.thy ===== *)
theory X86_Laws_Video
  imports X86_Laws_Devices X86_Gpu_Render
begin

text \<open>
  Properties of the graphics card: the CRT controller behind its two ports is a register file, a
  colour written to the colour registers is read back, and a pixel of mode 13 appears on the screen.
\<close>

unbundle bit_operations_syntax

section \<open>CRT controller\<close>

definition crtc_write :: "GPU \<Rightarrow> u8 \<Rightarrow> u8 \<Rightarrow> GPU option" where
  "crtc_write g i v = do {
     (b, g) \<leftarrow> gpu_out_u8 g 0x03D4 i;
     (b, g) \<leftarrow> gpu_out_u8 g 0x03D5 v;
     Some g
   }"

lemma crtc_write_eq:
  "crtc_write g i v = map_option (\<lambda>c. g\<lparr>crtc := c\<rparr>) (write_current (set_index (crtc g) i) v)"
  by (cases "write_current (set_index (crtc g) i) v") (simp_all add: crtc_write_def gpu_out_u8_def)

text \<open>
  C20. The index port 3D4 and the data port 3D5 make a register file of 25 bytes: after an index i the
  data port replaces exactly the register i mod 32 and nothing else of the card, and it panics
  exactly when i mod 32 is above 0x18, an index that the hardware would ignore.
\<close>

theorem crtc_register_file:
  "(case crtc_write g i v of
      None \<Rightarrow> i AND 0x1F > 0x18
    | Some g' \<Rightarrow> i AND 0x1F \<le> 0x18 \<and> g' = g\<lparr>crtc := crtc g'\<rparr> \<and>
        crtc_registers (crtc g') = (crtc_registers (crtc g))[unat (i AND 0x1F) := v])"
proof -
  let ?c = "set_index (crtc g) i"
  have "crtc_index ?c = i AND 0x1F" "crtc_registers ?c = crtc_registers (crtc g)"
    by (simp_all add: set_index_def crtc_registers_def)
  then show ?thesis using write_current_registers [of ?c v]
    by (cases "write_current ?c v") (auto simp: crtc_write_eq not_le[symmetric])
qed

lemma word8_lt: "unat (v :: u8) < 256"
  by (rule order_less_le_trans [OF unsigned_less]) simp

section \<open>Colour registers\<close>

lemma six_bits: "drop_bit 2 (push_bit 2 (v AND 0x3F)) = v AND 0x3F" for v :: u8
proof -
  have m: "0x3F = (mask 6 :: u8)" by (simp add: mask_eq_exp_minus_1)
  show ?thesis unfolding m by (rule bit_word_eqI) (auto simp: bit_simps)
qed

definition dac_store :: "GPU \<Rightarrow> u8 \<Rightarrow> u8 \<Rightarrow> u8 \<Rightarrow> u8 \<Rightarrow> GPU option" where
  "dac_store g i r gr b = do {
     (h, g) \<leftarrow> gpu_out_u8 g 0x03C8 i;
     (h, g) \<leftarrow> gpu_out_u8 g 0x03C9 r;
     (h, g) \<leftarrow> gpu_out_u8 g 0x03C9 gr;
     (h, g) \<leftarrow> gpu_out_u8 g 0x03C9 b;
     Some g
   }"

definition dac_fetch :: "GPU \<Rightarrow> u8 \<Rightarrow> (u8 option list \<times> GPU) option" where
  "dac_fetch g i = do {
     (h, g) \<leftarrow> gpu_out_u8 g 0x03C7 i;
     (r, g) \<leftarrow> gpu_in_u8 g 0x03C9;
     (gr, g) \<leftarrow> gpu_in_u8 g 0x03C9;
     (b, g) \<leftarrow> gpu_in_u8 g 0x03C9;
     Some ([r, gr, b], g)
   }"

lemma dac_store_pal:
  assumes "unat i < length (pal (dac g))" "length (pal (dac g)) \<le> 256"
    "pal (dac g) ! unat i = RGB x y z"
  shows "\<exists>g'. dac_store g i r gr b = Some g' \<and> pal (dac g') = (pal (dac g))[unat i :=
    RGB (push_bit 2 (r AND 0x3F)) (push_bit 2 (gr AND 0x3F)) (push_bit 2 (b AND 0x3F))]"
proof -
  have "unat i < 255" if "\<not> length (pal (dac g)) - 1 \<le> unat i" using that assms(2) by simp
  then have "add_chk i 1 = Some (i + 1)" if "\<not> length (pal (dac g)) - 1 \<le> unat i"
    using that by (intro add_chk_less) simp
  then show ?thesis using assms
    by (simp add: dac_store_def gpu_out_u8_def set_pel_write_index_def set_pel_data_def palette_at_def
        Let_def add_chk_def)
qed

lemma dac_fetch_pal:
  assumes "i \<noteq> 0xFF" "unat i < length (pal (dac g))" "pal (dac g) ! unat i = RGB x y z"
  shows "\<exists>g'. dac_fetch g i = Some ([Some (drop_bit 2 x), Some (drop_bit 2 y), Some (drop_bit 2 z)], g') \<and>
    pal (dac g') = pal (dac g)"
proof -
  have "unat i \<noteq> unat (0xFF :: u8)" using assms(1) by (simp only: word_unat_eq_iff [symmetric] not_False_eq_True)
  then have "unat i \<noteq> 255" by simp
  then have "unat i < 255" using word8_lt [of i] by simp
  then have "add_chk i 1 = Some (i + 1)" by (intro add_chk_less) simp
  then show ?thesis using assms
    by (simp add: dac_fetch_def gpu_out_u8_def gpu_in_u8_def set_pel_read_index_def get_pel_data_def
        palette_at_def Let_def)
qed

text \<open>
  C21. A colour written through the ports 3C8 and 3C9 is read back through 3C7 and 3C9, cut to six bits
  per component, and no other entry of the palette changes. Entry 255 is the exception: selecting
  it for reading panics, since the next write index is computed as 255 + 1 in eight bits.
\<close>

theorem dac_colour_round_trip:
  assumes "unat i < length (pal (dac g))" "length (pal (dac g)) \<le> 256"
    "pal (dac g) ! unat i = RGB x y z"
  shows "\<exists>g'. dac_store g i r gr b = Some g' \<and>
    (\<forall>j. j \<noteq> unat i \<longrightarrow> pal (dac g') ! j = pal (dac g) ! j) \<and>
    (if i = 0xFF then dac_fetch g' i = None
     else \<exists>g''. dac_fetch g' i = Some ([Some (r AND 0x3F), Some (gr AND 0x3F), Some (b AND 0x3F)], g'') \<and>
       pal (dac g'') = pal (dac g'))"
proof -
  from dac_store_pal [OF assms] obtain g' where g': "dac_store g i r gr b = Some g'"
    "pal (dac g') = (pal (dac g))[unat i :=
      RGB (push_bit 2 (r AND 0x3F)) (push_bit 2 (gr AND 0x3F)) (push_bit 2 (b AND 0x3F))]" by blast
  have "dac_fetch g' 0xFF = None"
    by (simp add: dac_fetch_def gpu_out_u8_def set_pel_read_index_def add_chk_def)
  moreover have "pal (dac g') ! unat i =
      RGB (push_bit 2 (r AND 0x3F)) (push_bit 2 (gr AND 0x3F)) (push_bit 2 (b AND 0x3F))"
    "unat i < length (pal (dac g'))" using g'(2) assms(1) by simp_all
  note fetched = dac_fetch_pal [OF _ this(2,1), unfolded six_bits]
  ultimately show ?thesis using g' fetched by (intro exI [of _ g']) auto
qed

theorem dac_colour_round_trip_witness:
  "\<exists>g. GPU_default = Some g \<and> (\<exists>g' g''. dac_store g 7 0xFF 0x40 0x21 = Some g' \<and>
     dac_fetch g' 7 = Some ([Some 0x3F, Some 0, Some 0x21], g''))"
proof -
  obtain g where g: "GPU_default = Some g" "pal (dac g) = text_palette"
    by (simp add: GPU_default_def get_mode_block_def DAC_default_def)
  have "text_palette ! 7 = RGB 0xA8 0xA8 0xA8" "length text_palette = 64" by code_simp+
  then show ?thesis using dac_colour_round_trip [of 7 g "0xA8" "0xA8" "0xA8" "0xFF" "0x40" "0x21"] g by auto
qed

section \<open>Mode 13\<close>

lemma mul_chk_less: "unat a * unat b < 2 ^ LENGTH('a) \<Longrightarrow> mul_chk a b = Some (a * b)"
  for a b :: "'a::len word"
proof -
  assume "unat a * unat b < 2 ^ LENGTH('a)"
  then have "int (unat a * unat b) < int (2 ^ LENGTH('a))" by (simp only: of_nat_less_iff)
  then show ?thesis unfolding mul_chk_def uint_nat by simp
qed

definition mode13 :: "GPU \<Rightarrow> bool" where
  "mode13 g \<longleftrightarrow> vm_mode (gpu_mode g) = 0x13 \<and> vm_kind (gpu_mode g) = VGA \<and> swidth (gpu_mode g) = 320 \<and>
     sheight (gpu_mode g) = 200 \<and> length (pal (dac g)) = 256"

lemma ucast_of_nat_unat: "(ucast w :: 'b::len word) = of_nat (unat w)" for w :: "'a::len word"
  by (rule of_nat_unat [symmetric])

lemma unat_small_u32: "n < 0x100000000 \<Longrightarrow> unat (of_nat n :: u32) = n"
  by (simp only: unat_of_nat) simp

lemma linear13:
  assumes "k < 64000"
  shows "\<exists>a. add_chk (0xA0000 :: usize) (ucast (of_nat k :: u32)) = Some a \<and>
    unat a = 0xA0000 + k \<and> (ucast a :: u32) = 0xA0000 + of_nat k"
proof -
  let ?k = "of_nat k :: usize"
  have k: "(ucast (of_nat k :: u32) :: usize) = ?k"
    using unat_small_u32 [of k] assms by (simp only: ucast_of_nat_unat)
  have u: "unat ?k = k" using assms by (simp add: unat_of_nat take_bit_nat_eq_self)
  have s: "add_chk 0xA0000 ?k = Some (0xA0000 + ?k)" using assms by (intro add_chk_less) (simp add: u)
  then have a: "unat (0xA0000 + ?k) = 0xA0000 + k" using add_chk_unat(1) [OF s] u by simp
  have "(ucast (0xA0000 + ?k) :: u32) = of_nat (0xA0000 + k)" by (simp only: ucast_of_nat_unat a)
  then show ?thesis using s a by (auto simp: k)
qed

lemma cell13:
  assumes "x < 320" "y < 200"
  shows "do { line \<leftarrow> mul_chk (of_nat y :: u32) 320; add_chk line (of_nat x) } = Some (of_nat (y * 320 + x))"
proof -
  have y: "unat (of_nat y :: u32) = y" and x: "unat (of_nat x :: u32) = x"
    using assms by (simp_all add: unat_small_u32)
  have m: "mul_chk (of_nat y :: u32) 320 = Some (of_nat y * 320)"
    using assms by (intro mul_chk_less) (simp add: y)
  have l: "(of_nat y * 320 :: u32) = of_nat (y * 320)" by simp
  have "unat (of_nat (y * 320) :: u32) = y * 320"
    using assms by (intro unat_small_u32) simp
  then have "add_chk (of_nat (y * 320) :: u32) (of_nat x) = Some (of_nat (y * 320) + of_nat x)"
    using assms by (intro add_chk_less) (simp add: x del: of_nat_mult)
  then show ?thesis by (simp only: m l Option.bind.bind_lunit of_nat_add)
qed

lemma pixel13_value:
  assumes "mode13 g" "x < 320" "y < 200" "0xB0000 \<le> data_len m"
  shows "pixel13 g m (of_nat x, of_nat y) = Some (pal (dac g) ! unat (data m (0xA0000 + of_nat (y * 320 + x))))"
proof -
  let ?k = "y * 320 + x"
  have "?k < 64000" using assms by simp
  from linear13 [OF this] obtain a where a: "add_chk (0xA0000 :: usize) (ucast (of_nat ?k :: u32)) = Some a"
    "unat a = 0xA0000 + ?k" "(ucast a :: u32) = 0xA0000 + of_nat ?k" by blast
  have "memory_at m a = Some (data m (0xA0000 + of_nat ?k))"
    using assms a \<open>?k < 64000\<close> by (simp add: memory_at_def del: of_nat_mult of_nat_add)
  moreover have "pixel13 g m (of_nat x, of_nat y) =
    do { cell \<leftarrow> do { line \<leftarrow> mul_chk (of_nat y :: u32) 320; add_chk line (of_nat x) };
         a \<leftarrow> add_chk 0xA0000 (ucast cell);
         b \<leftarrow> memory_at m a;
         palette_at (pal (dac g)) (unat b) }"
    using assms(1) by (simp add: pixel13_def mode13_def)
  ultimately show ?thesis using assms(1) word8_lt
    by (simp only: cell13 [OF assms(2,3)] a(1) Option.bind.bind_lunit palette_at_def mode13_def if_True)
qed

definition frame13 :: "GPU \<Rightarrow> MMU \<Rightarrow> ColorSpace list" where
  "frame13 g u = map (\<lambda>k. pal (dac g) ! unat (data (memory u) (0xA0000 + of_nat k))) [0..<64000]"

lemma render13:
  assumes "mode13 g" "mmu_ok u"
  shows "render_frame g u = Some \<lparr>frame_data = frame13 g u, frame_mode = gpu_mode g\<rparr>"
proof -
  let ?m = "gpu_mode g" let ?f = "pixel13 g (memory u)"
  have dims: "unat (swidth ?m) = 320" "unat (sheight ?m) = 200" using assms(1) by (simp_all add: mode13_def)
  have big: "0xB0000 \<le> data_len (memory u)" using assms(2) by (simp add: mmu_ok_def)
  have "collect ?f (screen ?m) = Some (frame13 g u)"
    unfolding collect_Some
  proof (intro conjI allI impI)
    show "length (frame13 g u) = length (screen ?m)" by (simp add: frame13_def screen_length dims)
    fix k assume "k < length (screen ?m)"
    then have k: "k < 64000" by (simp add: screen_length dims)
    then have xy: "k mod 320 < 320" "k div 320 < 200" by simp_all
    have "screen ?m ! (k div 320 * 320 + k mod 320) = (of_nat (k mod 320), of_nat (k div 320))"
      using screen_nth [of "k div 320" ?m "k mod 320"] xy by (simp only: dims)
    then have "screen ?m ! k = (of_nat (k mod 320), of_nat (k div 320))" by (simp only: div_mult_mod_eq)
    then show "?f (screen ?m ! k) = Some (frame13 g u ! k)"
      using pixel13_value [OF assms(1) xy big] k by (simp only: div_mult_mod_eq frame13_def) simp
  qed
  then show ?thesis using assms(1) by (simp add: render_frame_def mode13_def)
qed

lemma poke8_data:
  assumes "mmu_ok u"
  shows "data (memory (poke8 u s o' v)) = (data (memory u))(lin s o' := v)"
  using poke_memory(1) [OF assms, of s o' v]
  by (simp add: mem_write_u8_def split: if_splits) (metis FlatMemory.ext_inject FlatMemory.surjective FlatMemory.update_convs(1))

lemma write_pixel13:
  assumes "mode13 g" "mmu_ok u" "unat x < 320" "unat y < 200"
  shows "write_pixel g u x y page color = Some (poke8 u 0xA000 (of_nat (unat y * 320 + unat x)) color)"
proof -
  have m: "mul_chk y 320 = Some (y * 320)" using assms by (intro mul_chk_less) simp
  have uy: "unat (y * 320) = unat y * 320" using assms by (simp add: unat_word_ariths)
  have "add_chk (y * 320) x = Some (y * 320 + x)" using assms by (intro add_chk_less) (simp add: uy)
  moreover have k: "of_nat (unat y * 320 + unat x) = y * 320 + x"
    by (simp only: of_nat_add of_nat_mult of_nat_unat of_nat_numeral ucast_id)
  ultimately show ?thesis unfolding k using assms(1) m mmu_write8 [OF assms(2)]
    by (simp add: write_pixel_def mode13_def)
qed

lemma frame13_poke:
  assumes "mmu_ok u" "k < 64000"
  shows "frame13 g (poke8 u 0xA000 (of_nat k) color) = (frame13 g u)[k := pal (dac g) ! unat color]"
proof -
  have "unat (of_nat k :: u16) = k" using assms by (simp only: unat_of_nat) simp
  then have l: "lin 0xA000 (of_nat k) = 0xA0000 + of_nat k"
    by (simp only: lin_def ucast_of_nat_unat) simp
  have inj: "(of_nat i :: u32) = of_nat k \<longleftrightarrow> i = k" if "i < 64000" for i
  proof
    assume "(of_nat i :: u32) = of_nat k"
    then have "unat (of_nat i :: u32) = unat (of_nat k :: u32)" by (rule arg_cong)
    then show "i = k" using that assms(2) unat_small_u32 [of i] unat_small_u32 [of k] by linarith
  qed simp
  have e: "(0xA0000 + of_nat i :: u32) = 0xA0000 + of_nat k \<longleftrightarrow> i = k" if "i < 64000" for i
    by (simp only: add_left_cancel inj [OF that])
  show ?thesis
  proof (rule nth_equalityI)
    show "length (frame13 g (poke8 u 0xA000 (of_nat k) color)) =
        length ((frame13 g u)[k := pal (dac g) ! unat color])" by (simp add: frame13_def)
    fix i assume "i < length (frame13 g (poke8 u 0xA000 (of_nat k) color))"
    then have i: "i < 64000" by (simp add: frame13_def)
    have cell: "data (memory (poke8 u 0xA000 (of_nat k) color)) (0xA0000 + of_nat i) =
        (if i = k then color else data (memory u) (0xA0000 + of_nat i))"
      by (simp only: poke8_data [OF assms(1)] l fun_upd_apply e [OF i])
    have at: "frame13 g v ! i = pal (dac g) ! unat (data (memory v) (0xA0000 + of_nat i))" for v
      using i by (simp add: frame13_def)
    have len: "length (frame13 g u) = 64000" by (simp add: frame13_def)
    show "frame13 g (poke8 u 0xA000 (of_nat k) color) ! i =
        (frame13 g u)[k := pal (dac g) ! unat color] ! i"
      using i by (simp only: at cell nth_list_update len split: if_split)
        (simp add: at cell nth_list_update len)
  qed
qed

text \<open>
  C22. In the 256-colour mode 13 the screen shows what the pixel service writes: after a pixel of the
  320 by 200 screen has been written, both frames render, and they differ in that pixel alone,
  which now has the palette entry of the colour.
\<close>

theorem mode13_pixel_visible:
  assumes "mmu_ok u" "mode13 g" "unat x < 320" "unat y < 200"
  shows "\<exists>u' f f'. write_pixel g u x y page color = Some u' \<and>
    render_frame g u = Some f \<and> render_frame g u' = Some f' \<and>
    frame_data f' = (frame_data f)[unat y * 320 + unat x := pal (dac g) ! unat color]"
proof -
  let ?k = "unat y * 320 + unat x" let ?u = "poke8 u 0xA000 (of_nat ?k) color"
  have k: "?k < 64000" using assms by simp
  have "frame13 g ?u = (frame13 g u)[?k := pal (dac g) ! unat color]"
    using frame13_poke [OF assms(1) k] .
  then show ?thesis
    using render13 [OF assms(2,1)] render13 [OF assms(2) poke_ok(1) [OF assms(1)]]
      write_pixel13 [OF assms(2,1,3,4)] by simp
qed

theorem mode13_pixel_visible_witness:
  "\<exists>g u' f f'. mode13 g \<and> write_pixel g MMU_default 5 2 0 7 = Some u' \<and>
    render_frame g MMU_default = Some f \<and> render_frame g u' = Some f' \<and>
    frame_data f' = (frame_data f)[645 := pal (dac g) ! 7]"
proof -
  obtain g where g: "GPU_default = Some g" by (simp add: GPU_default_def get_mode_block_def)
  let ?g = "g\<lparr>gpu_mode := (gpu_mode g)\<lparr>vm_mode := 0x13, vm_kind := VGA, swidth := 320, sheight := 200\<rparr>,
    dac := (dac g)\<lparr>pal := replicate 256 (RGB 0 0 0)\<rparr>\<rparr>"
  have "mode13 ?g" by (simp add: mode13_def)
  then show ?thesis
    using mode13_pixel_visible [OF mmu_default_ok, where g = ?g and x = 5 and y = 2 and page = 0 and color = 7]
    by (intro exI [of _ ?g]) simp
qed

end
