(* ===== verification/X86_Encoder.thy ===== *)
theory X86_Encoder
  imports X86_Decoder_Ops
begin

text \<open>
  The encoder (\<open>dustbox/src/cpu/encoder.rs\<close>): one definition for each arm of \<open>Encoder::encode\<close> that
  does more than push its opcode, the helpers of the instruction groups, the mod-reg-rm operand.

  A result is \<^term>\<open>None\<close> for a panic, else an error value or the bytes. The bytes pushed before an
  error are dropped with the local vector, so an arm returns the bytes it adds and
  \<open>encode\<close> puts the prefixes before them.
\<close>

unbundle bit_operations_syntax

datatype EncodeError =
    UnhandledOp Op | UnhandledParameter Parameter | UnexpectedDstType Parameter | ErrorText string

type_synonym enc_result = "(EncodeError + u8 list) option"

definition enc_ok :: "u8 list \<Rightarrow> enc_result" where "enc_ok bs = Some (Inr bs)"
definition enc_err :: "EncodeError \<Rightarrow> enc_result" where "enc_err e = Some (Inl e)"

text \<open>Bytes followed by those of a helper that may panic.\<close>

definition enc_cons :: "u8 list \<Rightarrow> u8 list option \<Rightarrow> enc_result" where
  "enc_cons bs r = map_option (\<lambda>cs. Inr (bs @ cs)) r"

definition bytes16 :: "u16 \<Rightarrow> u8 list" where
  "bytes16 v = [ucast v, ucast (drop_bit 8 v)]"

definition bytes32 :: "u32 \<Rightarrow> u8 list" where
  "bytes32 v = [ucast v, ucast (drop_bit 8 v), ucast (drop_bit 16 v), ucast (drop_bit 24 v)]"

section \<open>Register names as numbers\<close>

text \<open>The cast \<open>r as u8\<close> is the position of the name in the declaration of \<open>R\<close>, not its index.\<close>

definition R_as_u8 :: "R \<Rightarrow> u8" where
  "R_as_u8 r = (case r of
     R.AL \<Rightarrow> 0 | R.CL \<Rightarrow> 1 | R.DL \<Rightarrow> 2 | R.BL \<Rightarrow> 3 | R.AH \<Rightarrow> 4 | R.CH \<Rightarrow> 5 | R.DH \<Rightarrow> 6 | R.BH \<Rightarrow> 7
   | R.AX \<Rightarrow> 8 | R.CX \<Rightarrow> 9 | R.DX \<Rightarrow> 10 | R.BX \<Rightarrow> 11 | R.SP \<Rightarrow> 12 | R.BP \<Rightarrow> 13 | R.SI \<Rightarrow> 14 | R.DI \<Rightarrow> 15
   | R.ES \<Rightarrow> 16 | R.CS \<Rightarrow> 17 | R.SS \<Rightarrow> 18 | R.DS \<Rightarrow> 19 | R.FS \<Rightarrow> 20 | R.GS \<Rightarrow> 21 | R.IP \<Rightarrow> 22
   | R.EAX \<Rightarrow> 23 | R.ECX \<Rightarrow> 24 | R.EDX \<Rightarrow> 25 | R.EBX \<Rightarrow> 26 | R.ESP \<Rightarrow> 27 | R.EBP \<Rightarrow> 28 | R.ESI \<Rightarrow> 29
   | R.EDI \<Rightarrow> 30 | R.ST0 \<Rightarrow> 31 | R.ST1 \<Rightarrow> 32 | R.ST2 \<Rightarrow> 33 | R.ST3 \<Rightarrow> 34 | R.ST4 \<Rightarrow> 35 | R.ST5 \<Rightarrow> 36
   | R.ST6 \<Rightarrow> 37 | R.ST7 \<Rightarrow> 38)"

section \<open>Operands\<close>

definition modrm_of :: "u8 \<Rightarrow> u8 \<Rightarrow> u8 \<Rightarrow> u8" where
  "modrm_of md' rm' reg' = modrm_u8 \<lparr>md = md', reg = reg', rm = rm'\<rparr>"

definition encode_rm :: "Parameter \<Rightarrow> u8 \<Rightarrow> u8 list option" where
  "encode_rm dst reg' = (case dst of
     Ptr8 _ imm \<Rightarrow> Some (modrm_of 0 6 reg' # bytes16 imm)
   | Ptr16 _ imm \<Rightarrow> Some (modrm_of 0 6 reg' # bytes16 imm)
   | Ptr8Amode _ a \<Rightarrow> Some [modrm_of 0 (ucast (AMode_index a)) reg']
   | Ptr16Amode _ a \<Rightarrow> Some [modrm_of 0 (ucast (AMode_index a)) reg']
   | Ptr8AmodeS8 _ a imm \<Rightarrow> Some [modrm_of 1 (ucast (AMode_index a)) reg', imm]
   | Ptr16AmodeS8 _ a imm \<Rightarrow> Some [modrm_of 1 (ucast (AMode_index a)) reg', imm]
   | Ptr8AmodeS16 _ a imm \<Rightarrow> Some (modrm_of 2 (ucast (AMode_index a)) reg' # bytes16 imm)
   | Ptr16AmodeS16 _ a imm \<Rightarrow> Some (modrm_of 2 (ucast (AMode_index a)) reg' # bytes16 imm)
   | Reg8 r \<Rightarrow> do { i \<leftarrow> R_u8 r; Some [modrm_of 3 i reg'] }
   | Reg16 r \<Rightarrow> do { i \<leftarrow> R_u8 r; Some [modrm_of 3 i reg'] }
   | Reg32 r \<Rightarrow> do { i \<leftarrow> R_u8 r; Some [modrm_of 3 i reg'] }
   | _ \<Rightarrow> None)"

definition encode_r_rm :: "ParameterSet \<Rightarrow> u8 list option" where
  "encode_r_rm ps = (case p_dst ps of
     Reg8 r \<Rightarrow> do { i \<leftarrow> R_u8 r; encode_rm (p_src ps) i }
   | Reg16 r \<Rightarrow> do { i \<leftarrow> R_u8 r; encode_rm (p_src ps) i }
   | _ \<Rightarrow> None)"

definition encode_rm_r :: "ParameterSet \<Rightarrow> u8 list option" where
  "encode_rm_r ps = (case p_src ps of
     Reg8 r \<Rightarrow> do { i \<leftarrow> R_u8 r; encode_rm (p_dst ps) i }
   | Reg16 r \<Rightarrow> do { i \<leftarrow> R_u8 r; encode_rm (p_dst ps) i }
   | Reg32 r \<Rightarrow> do { i \<leftarrow> R_u8 r; encode_rm (p_dst ps) i }
   | _ \<Rightarrow> None)"

definition encode_rm_r_imm :: "ParameterSet \<Rightarrow> u8 list option" where
  "encode_rm_r_imm ps = do {
     out \<leftarrow> (case p_src ps of
         Reg8 r \<Rightarrow> do { i \<leftarrow> R_u8 r; encode_rm (p_dst ps) i }
       | Reg16 r \<Rightarrow> do { i \<leftarrow> R_u8 r; encode_rm (p_dst ps) i }
       | _ \<Rightarrow> None);
     (case p_src2 ps of Imm8 imm \<Rightarrow> Some (out @ [imm]) | _ \<Rightarrow> None)
   }"

definition encode_imm8 :: "Parameter \<Rightarrow> u8 list option" where
  "encode_imm8 p = (case p of Imm8 imm \<Rightarrow> Some [imm] | _ \<Rightarrow> None)"

section \<open>Numbers of the operations in their groups\<close>

definition f6_index :: "Op \<Rightarrow> u8 option" where
  "f6_index op = (case op of
     Logic Test8 \<Rightarrow> Some 0 | Logic Not8 \<Rightarrow> Some 2 | Arith Neg8 \<Rightarrow> Some 3 | Mul Mul8 \<Rightarrow> Some 4
   | Mul Imul8 \<Rightarrow> Some 5 | Mul Div8 \<Rightarrow> Some 6 | Mul Idiv8 \<Rightarrow> Some 7 | _ \<Rightarrow> None)"

definition feff_index :: "Op \<Rightarrow> u8 option" where
  "feff_index op = (case op of
     Arith Inc8 \<Rightarrow> Some 0 | Arith Inc16 \<Rightarrow> Some 0 | Arith Inc32 \<Rightarrow> Some 0
   | Arith Dec8 \<Rightarrow> Some 1 | Arith Dec16 \<Rightarrow> Some 1 | Arith Dec32 \<Rightarrow> Some 1
   | Flow CallNear \<Rightarrow> Some 2 | Flow JmpNear \<Rightarrow> Some 4 | Move Push16 \<Rightarrow> Some 6 | _ \<Rightarrow> None)"

definition bitshift_index :: "Op \<Rightarrow> u8 option" where
  "bitshift_index op = (case op of
     Shift Rol8 \<Rightarrow> Some 0 | Shift Rol16 \<Rightarrow> Some 0 | Shift Rol32 \<Rightarrow> Some 0
   | Shift Ror8 \<Rightarrow> Some 1 | Shift Ror16 \<Rightarrow> Some 1 | Shift Ror32 \<Rightarrow> Some 1
   | Shift Rcl8 \<Rightarrow> Some 2 | Shift Rcl16 \<Rightarrow> Some 2 | Shift Rcl32 \<Rightarrow> Some 2
   | Shift Rcr8 \<Rightarrow> Some 3 | Shift Rcr16 \<Rightarrow> Some 3 | Shift Rcr32 \<Rightarrow> Some 3
   | Shift Shl8 \<Rightarrow> Some 4 | Shift Shl16 \<Rightarrow> Some 4 | Shift Shl32 \<Rightarrow> Some 4
   | Shift Shr8 \<Rightarrow> Some 5 | Shift Shr16 \<Rightarrow> Some 5 | Shift Shr32 \<Rightarrow> Some 5
   | Shift Sar8 \<Rightarrow> Some 7 | Shift Sar16 \<Rightarrow> Some 7 | Shift Sar32 \<Rightarrow> Some 7
   | _ \<Rightarrow> None)"

definition arith_index :: "Op \<Rightarrow> u8 option" where
  "arith_index op = (case op of
     Arith Add8 \<Rightarrow> Some 0 | Arith Add16 \<Rightarrow> Some 0 | Arith Add32 \<Rightarrow> Some 0
   | Logic Or8 \<Rightarrow> Some 1 | Logic Or16 \<Rightarrow> Some 1 | Logic Or32 \<Rightarrow> Some 1
   | Arith Adc8 \<Rightarrow> Some 2 | Arith Adc16 \<Rightarrow> Some 2 | Arith Adc32 \<Rightarrow> Some 2
   | Arith Sbb8 \<Rightarrow> Some 3 | Arith Sbb16 \<Rightarrow> Some 3 | Arith Sbb32 \<Rightarrow> Some 3
   | Logic And8 \<Rightarrow> Some 4 | Logic And16 \<Rightarrow> Some 4 | Logic And32 \<Rightarrow> Some 4
   | Arith Sub8 \<Rightarrow> Some 5 | Arith Sub16 \<Rightarrow> Some 5 | Arith Sub32 \<Rightarrow> Some 5
   | Logic Xor8 \<Rightarrow> Some 6 | Logic Xor16 \<Rightarrow> Some 6 | Logic Xor32 \<Rightarrow> Some 6
   | Arith Cmp8 \<Rightarrow> Some 7 | Arith Cmp16 \<Rightarrow> Some 7 | Arith Cmp32 \<Rightarrow> Some 7
   | _ \<Rightarrow> None)"

definition math_index :: "Op \<Rightarrow> u8 option" where
  "math_index op = (case op of
     Logic Test8 \<Rightarrow> Some 0 | Logic Test16 \<Rightarrow> Some 0 | Logic Test32 \<Rightarrow> Some 0
   | Logic Not8 \<Rightarrow> Some 2 | Logic Not16 \<Rightarrow> Some 2 | Logic Not32 \<Rightarrow> Some 2
   | Arith Neg8 \<Rightarrow> Some 3 | Arith Neg16 \<Rightarrow> Some 3 | Arith Neg32 \<Rightarrow> Some 3
   | Mul Mul8 \<Rightarrow> Some 4 | Mul Mul16 \<Rightarrow> Some 4 | Mul Mul32 \<Rightarrow> Some 4
   | Mul Imul8 \<Rightarrow> Some 5 | Mul Imul16 \<Rightarrow> Some 5 | Mul Imul32 \<Rightarrow> Some 5
   | Mul Div8 \<Rightarrow> Some 6 | Mul Div16 \<Rightarrow> Some 6 | Mul Div32 \<Rightarrow> Some 6
   | Mul Idiv8 \<Rightarrow> Some 7 | Mul Idiv16 \<Rightarrow> Some 7 | Mul Idiv32 \<Rightarrow> Some 7
   | _ \<Rightarrow> None)"

section \<open>Arithmetic and logic\<close>

text \<open>The first opcode of each operation; other operations panic.\<close>

definition arith_base8 :: "Op \<Rightarrow> u8 option" where
  "arith_base8 op = (case op of
     Arith Add8 \<Rightarrow> Some 0x00 | Logic Or8 \<Rightarrow> Some 0x08 | Arith Adc8 \<Rightarrow> Some 0x10
   | Arith Sbb8 \<Rightarrow> Some 0x18 | Logic And8 \<Rightarrow> Some 0x20 | Arith Sub8 \<Rightarrow> Some 0x28
   | Logic Xor8 \<Rightarrow> Some 0x30 | Arith Cmp8 \<Rightarrow> Some 0x38 | _ \<Rightarrow> None)"

definition arith_base16 :: "Op \<Rightarrow> u8 option" where
  "arith_base16 op = (case op of
     Arith Add16 \<Rightarrow> Some 0x01 | Logic Or16 \<Rightarrow> Some 0x09 | Arith Adc16 \<Rightarrow> Some 0x11
   | Arith Sbb16 \<Rightarrow> Some 0x19 | Logic And16 \<Rightarrow> Some 0x21 | Arith Sub16 \<Rightarrow> Some 0x29
   | Logic Xor16 \<Rightarrow> Some 0x31 | Arith Cmp16 \<Rightarrow> Some 0x39 | _ \<Rightarrow> None)"

definition arith_base32 :: "Op \<Rightarrow> u8 option" where
  "arith_base32 op = (case op of
     Arith Add32 \<Rightarrow> Some 0x01 | Logic Or32 \<Rightarrow> Some 0x09 | Arith Adc32 \<Rightarrow> Some 0x11
   | Arith Sbb32 \<Rightarrow> Some 0x19 | Logic And32 \<Rightarrow> Some 0x21 | Arith Sub32 \<Rightarrow> Some 0x29
   | Logic Xor32 \<Rightarrow> Some 0x31 | Arith Cmp32 \<Rightarrow> Some 0x39 | _ \<Rightarrow> None)"

definition arith_instr8 :: "Instruction \<Rightarrow> enc_result" where
  "arith_instr8 ins = do {
     idx \<leftarrow> arith_base8 (command ins);
     (case (op_dst ins, op_src ins) of
        (Reg8 r, Imm8 i) \<Rightarrow>
          if r = R.AL then do { b \<leftarrow> add_chk idx 4; enc_ok [b, i] }
          else do {
            k \<leftarrow> R_u8 r;
            n \<leftarrow> arith_index (command ins);
            enc_ok [0x80, modrm_of 3 k n, i]
          }
      | (Reg8 r, s) \<Rightarrow>
          if is_ptr s then do { b \<leftarrow> add_chk idx 2; enc_cons [b] (encode_r_rm (params ins)) }
          else enc_cons [idx] (encode_rm_r (params ins))
      | (Ptr8 _ _, s) \<Rightarrow> enc_cons [idx] (encode_rm_r (params ins))
      | (Ptr8Amode _ _, s) \<Rightarrow> enc_cons [idx] (encode_rm_r (params ins))
      | (Ptr8AmodeS8 _ _ _, s) \<Rightarrow> enc_cons [idx] (encode_rm_r (params ins))
      | (Ptr8AmodeS16 _ _ _, s) \<Rightarrow> enc_cons [idx] (encode_rm_r (params ins))
      | (dst, s) \<Rightarrow> enc_err (UnhandledParameter dst))
   }"

definition arith_instr16 :: "Instruction \<Rightarrow> enc_result" where
  "arith_instr16 ins = do {
     idx \<leftarrow> arith_base16 (command ins);
     (case (op_dst ins, op_src ins) of
        (Reg16 r, Imm16 i) \<Rightarrow>
          if r = R.AX then do { b \<leftarrow> add_chk idx 4; enc_ok (b # bytes16 i) }
          else do {
            k \<leftarrow> R_u8 r;
            n \<leftarrow> arith_index (command ins);
            enc_ok ([0x81, modrm_of 3 k n] @ bytes16 i)
          }
      | (Reg16 r, s) \<Rightarrow>
          if is_ptr s then do { b \<leftarrow> add_chk idx 2; enc_cons [b] (encode_r_rm (params ins)) }
          else enc_cons [idx] (encode_rm_r (params ins))
      | (Ptr16 _ _, s) \<Rightarrow> enc_cons [idx] (encode_rm_r (params ins))
      | (Ptr16Amode _ _, s) \<Rightarrow> enc_cons [idx] (encode_rm_r (params ins))
      | (Ptr16AmodeS8 _ _ _, s) \<Rightarrow> enc_cons [idx] (encode_rm_r (params ins))
      | (Ptr16AmodeS16 _ _ _, s) \<Rightarrow> enc_cons [idx] (encode_rm_r (params ins))
      | (dst, s) \<Rightarrow> enc_err (UnhandledParameter dst))
   }"

definition arith_instr32 :: "Instruction \<Rightarrow> enc_result" where
  "arith_instr32 ins = do {
     idx \<leftarrow> arith_base32 (command ins);
     (case (op_dst ins, op_src ins) of
        (Reg32 r, Imm32 i) \<Rightarrow>
          if r = R.EAX then do { b \<leftarrow> add_chk idx 4; enc_ok ([0x66, b] @ bytes32 i) }
          else do {
            k \<leftarrow> R_u8 r;
            n \<leftarrow> arith_index (command ins);
            enc_ok ([0x66, 0x81, modrm_of 3 k n] @ bytes32 i)
          }
      | (Reg32 r, s) \<Rightarrow>
          if is_ptr s then do { b \<leftarrow> add_chk idx 2; enc_cons [0x66, b] (encode_r_rm (params ins)) }
          else enc_cons [0x66, idx] (encode_rm_r (params ins))
      | (dst, s) \<Rightarrow> enc_err (UnhandledParameter dst))
   }"

section \<open>Unary operations, tests, multiplication and division\<close>

definition math_instr8 :: "Instruction \<Rightarrow> enc_result" where
  "math_instr8 ins = (let dst = op_dst ins;
       ptr = (if command ins = Logic Test8 then enc_cons [0x84] (encode_rm_r (params ins))
          else do { n \<leftarrow> f6_index (command ins); enc_cons [0xF6] (encode_rm dst n) }) in
     case dst of
       Reg8 r \<Rightarrow>
         if command ins = Logic Test8 then
           (case op_src ins of
              Imm8 i \<Rightarrow>
                if r = R.AL then enc_ok [0xA8, i]
                else do { k \<leftarrow> R_u8 r; n \<leftarrow> math_index (command ins); enc_ok [0xF6, rm_reg k n, i] }
            | _ \<Rightarrow> enc_cons [0x84] (encode_rm_r (params ins)))
         else do { k \<leftarrow> R_u8 r; n \<leftarrow> math_index (command ins); enc_ok [0xF6, rm_reg k n] }
     | Ptr8 _ _ \<Rightarrow> ptr
     | Ptr8Amode _ _ \<Rightarrow> ptr
     | Ptr8AmodeS8 _ _ _ \<Rightarrow> ptr
     | Ptr8AmodeS16 _ _ _ \<Rightarrow> ptr
     | _ \<Rightarrow> enc_err (UnexpectedDstType dst))"

definition math_instr16 :: "Instruction \<Rightarrow> enc_result" where
  "math_instr16 ins =
     (case op_src2 ins of
        ImmS8 v \<Rightarrow> do { bs \<leftarrow> encode_r_rm (params ins); enc_ok ([0x6B] @ bs @ [v]) }
      | _ \<Rightarrow>
        if command ins \<noteq> Logic Test16 \<and> (case op_src ins of Reg16 _ \<Rightarrow> True | _ \<Rightarrow> False)
        then enc_cons [0x0F, 0xAF] (encode_r_rm (params ins))
        else (case op_dst ins of
          Reg16 r \<Rightarrow>
            if command ins = Logic Test16 then
              (case op_src ins of
                 Imm16 i \<Rightarrow>
                   if r = R.AX then enc_ok (0xA9 # bytes16 i)
                   else do { k \<leftarrow> R_u8 r; n \<leftarrow> math_index (command ins);
                     enc_ok ([0xF7, rm_reg k n] @ bytes16 i) }
               | _ \<Rightarrow> enc_cons [0x85] (encode_rm_r (params ins)))
            else do { k \<leftarrow> R_u8 r; n \<leftarrow> math_index (command ins); enc_ok [0xF7, rm_reg k n] }
        | dst \<Rightarrow> enc_err (UnexpectedDstType dst)))"

definition math_instr32 :: "Instruction \<Rightarrow> enc_result" where
  "math_instr32 ins =
     (case op_src2 ins of
        ImmS8 v \<Rightarrow> do { bs \<leftarrow> encode_r_rm (params ins); enc_ok ([0x66, 0x6B] @ bs @ [v]) }
      | _ \<Rightarrow>
        if command ins \<noteq> Logic Test32 \<and> (case op_src ins of Reg32 _ \<Rightarrow> True | _ \<Rightarrow> False)
        then enc_cons [0x66, 0x0F, 0xAF] (encode_r_rm (params ins))
        else (case op_dst ins of
          Reg32 r \<Rightarrow>
            if command ins = Logic Test32 then
              (case op_src ins of
                 Imm32 i \<Rightarrow>
                   if r = R.EAX then enc_ok ([0x66, 0xA9] @ bytes32 i)
                   else do { k \<leftarrow> R_u8 r; n \<leftarrow> math_index (command ins);
                     enc_ok ([0x66, 0xF7, rm_reg k n] @ bytes32 i) }
               | _ \<Rightarrow> enc_cons [0x66, 0x85] (encode_rm_r (params ins)))
            else do { k \<leftarrow> R_u8 r; n \<leftarrow> math_index (command ins); enc_ok [0x66, 0xF7, rm_reg k n] }
        | dst \<Rightarrow> enc_err (UnexpectedDstType dst)))"

section \<open>Shifts and rotates\<close>

definition bitshift_instr8 :: "Instruction \<Rightarrow> enc_result" where
  "bitshift_instr8 ins = (case op_dst ins of
     Reg8 r \<Rightarrow>
       (case op_src ins of
          Imm8 i \<Rightarrow> do {
            k \<leftarrow> R_u8 r;
            n \<leftarrow> bitshift_index (command ins);
            enc_ok (if i = 1 then [0xD0, modrm_of 3 k n] else [0xC0, modrm_of 3 k n, i])
          }
        | _ \<Rightarrow> None)
   | dst \<Rightarrow> enc_err (UnexpectedDstType dst))"

definition bitshift_instr16 :: "Instruction \<Rightarrow> enc_result" where
  "bitshift_instr16 ins = (case op_dst ins of
     Reg16 r \<Rightarrow>
       (case op_src ins of
          Imm8 i \<Rightarrow> do {
            k \<leftarrow> R_u8 r;
            n \<leftarrow> bitshift_index (command ins);
            enc_ok (if i = 1 then [0xD1, modrm_of 3 k n] else [0xC1, modrm_of 3 k n, i])
          }
        | _ \<Rightarrow> None)
   | dst \<Rightarrow> enc_err (UnexpectedDstType dst))"

definition bitshift_instr32 :: "Instruction \<Rightarrow> enc_result" where
  "bitshift_instr32 ins = (case op_dst ins of
     Reg32 r \<Rightarrow>
       (case op_src ins of
          Imm8 i \<Rightarrow> do {
            k \<leftarrow> R_u8 r;
            n \<leftarrow> bitshift_index (command ins);
            enc_ok (if i = 1 then [0x66, 0xD1, modrm_of 3 k n] else [0x66, 0xC1, modrm_of 3 k n, i])
          }
        | _ \<Rightarrow> None)
   | dst \<Rightarrow> enc_err (UnexpectedDstType dst))"

section \<open>Arms of the encoder\<close>

definition enc_Bsf :: "Instruction \<Rightarrow> enc_result" where
  "enc_Bsf op = enc_cons [0x0F, 0xBC] (encode_r_rm (params op))"

definition enc_Bt :: "Instruction \<Rightarrow> enc_result" where
  "enc_Bt op = enc_cons [0x0F, 0xA3] (encode_rm_r (params op))"

definition enc_Aad :: "Instruction \<Rightarrow> enc_result" where
  "enc_Aad op = (case op_dst op of Imm8 imm \<Rightarrow> enc_ok [0xD5, imm] | _ \<Rightarrow> None)"

definition enc_Aam :: "Instruction \<Rightarrow> enc_result" where
  "enc_Aam op = (case op_dst op of Imm8 imm \<Rightarrow> enc_ok [0xD4, imm] | _ \<Rightarrow> None)"

definition enc_IncDec8 :: "Instruction \<Rightarrow> enc_result" where
  "enc_IncDec8 op = do { n \<leftarrow> feff_index (command op); enc_cons [0xFE] (encode_rm (op_dst op) n) }"

definition enc_IncDec16 :: "Instruction \<Rightarrow> enc_result" where
  "enc_IncDec16 op = (case op_dst op of
     Reg16 r \<Rightarrow> do {
       k \<leftarrow> R_u8 r;
       (case command op of
          Arith Inc16 \<Rightarrow> enc_ok [0x40 OR k]
        | Arith Dec16 \<Rightarrow> enc_ok [0x48 OR k]
        | _ \<Rightarrow> None)
     }
   | dst \<Rightarrow> do { n \<leftarrow> feff_index (command op); enc_cons [0xFF] (encode_rm dst n) })"

definition enc_IncDec32 :: "Instruction \<Rightarrow> enc_result" where
  "enc_IncDec32 op = (case op_dst op of
     Reg32 r \<Rightarrow> do {
       k \<leftarrow> R_u8 r;
       (case command op of
          Arith Inc32 \<Rightarrow> enc_ok [0x66, 0x40 OR k]
        | Arith Dec32 \<Rightarrow> enc_ok [0x66, 0x48 OR k]
        | _ \<Rightarrow> None)
     }
   | dst \<Rightarrow> do { n \<leftarrow> feff_index (command op); enc_cons [0x66, 0xFF] (encode_rm dst n) })"

definition enc_Int :: "Instruction \<Rightarrow> enc_result" where
  "enc_Int op = (case op_dst op of
     Imm8 imm \<Rightarrow>
       if imm = 1 then enc_ok [0xF1] else if imm = 3 then enc_ok [0xCC] else enc_ok [0xCD, imm]
   | dst \<Rightarrow> enc_err (UnhandledParameter dst))"

definition enc_Xchg8 :: "Instruction \<Rightarrow> enc_result" where
  "enc_Xchg8 op = enc_cons [0x86] (encode_rm_r (params op))"

definition enc_Xchg16 :: "Instruction \<Rightarrow> enc_result" where
  "enc_Xchg16 op = (let general = enc_cons [0x87] (encode_rm_r (params op)) in
     case (op_dst op, op_src op) of
       (Reg16 q, Reg16 s) \<Rightarrow>
         if q = R.AX then do { k \<leftarrow> R_u8 s; b \<leftarrow> add_chk 0x90 k; enc_ok [b] }
         else if s = R.AX then do { k \<leftarrow> R_u8 q; b \<leftarrow> add_chk 0x90 k; enc_ok [b] }
         else general
     | _ \<Rightarrow> general)"

definition enc_Lea16 :: "Instruction \<Rightarrow> enc_result" where
  "enc_Lea16 op = enc_cons [0x8D] (encode_r_rm (params op))"

definition enc_Shld :: "Instruction \<Rightarrow> enc_result" where
  "enc_Shld op = enc_cons [0x0F, 0xA4] (encode_rm_r_imm (params op))"

definition enc_Shrd :: "Instruction \<Rightarrow> enc_result" where
  "enc_Shrd op = enc_cons [0x0F, 0xAC] (encode_rm_r_imm (params op))"

definition enc_Movsx16 :: "Instruction \<Rightarrow> enc_result" where
  "enc_Movsx16 op = (case op_dst op of
     Reg16 r \<Rightarrow> do { k \<leftarrow> R_u8 r; enc_cons [0x0F, 0xBE] (encode_rm (op_src op) k) }
   | dst \<Rightarrow> enc_err (UnhandledParameter dst))"

definition enc_Movsx32 :: "Instruction \<Rightarrow> enc_result" where
  "enc_Movsx32 op = (case op_dst op of
     Reg32 r \<Rightarrow>
       (case op_src op of
          Reg8 _ \<Rightarrow> do { k \<leftarrow> R_u8 r; enc_cons [0x66, 0x0F, 0xBE] (encode_rm (op_src op) k) }
        | Reg16 _ \<Rightarrow> do { k \<leftarrow> R_u8 r; enc_cons [0x66, 0x0F, 0xBF] (encode_rm (op_src op) k) }
        | s \<Rightarrow> enc_err (UnhandledParameter s))
   | dst \<Rightarrow> enc_err (UnhandledParameter dst))"

definition enc_Movzx16 :: "Instruction \<Rightarrow> enc_result" where
  "enc_Movzx16 op = (case op_dst op of
     Reg16 r \<Rightarrow> do { k \<leftarrow> R_u8 r; enc_cons [0x0F, 0xB6] (encode_rm (op_src op) k) }
   | dst \<Rightarrow> enc_err (UnhandledParameter dst))"

definition enc_Movzx32 :: "Instruction \<Rightarrow> enc_result" where
  "enc_Movzx32 op = (case op_dst op of
     Reg32 r \<Rightarrow>
       (case op_src op of
          Reg8 _ \<Rightarrow> do { k \<leftarrow> R_u8 r; enc_cons [0x66, 0x0F, 0xB6] (encode_rm (op_src op) k) }
        | Reg16 _ \<Rightarrow> do { k \<leftarrow> R_u8 r; enc_cons [0x66, 0x0F, 0xB7] (encode_rm (op_src op) k) }
        | s \<Rightarrow> enc_err (UnhandledParameter s))
   | dst \<Rightarrow> enc_err (UnhandledParameter dst))"

definition enc_Mov8 :: "Instruction \<Rightarrow> enc_result" where
  "enc_Mov8 op = (let store = enc_cons [0x88] (encode_rm_r (params op)) in
     case op_dst op of
       Reg8 r \<Rightarrow>
         (case op_src op of
            Imm8 i \<Rightarrow> enc_ok [0xB0 OR R_as_u8 r, i]
          | Ptr8 _ disp \<Rightarrow>
              if r = R.AL then enc_ok (0xA0 # bytes16 disp)
              else enc_cons [0x8A] (encode_r_rm (params op))
          | s \<Rightarrow> if is_ptr s then enc_cons [0x8A] (encode_r_rm (params op)) else store)
     | Ptr8 _ disp \<Rightarrow>
         (case op_src op of
            Reg8 r \<Rightarrow> if r = R.AL then enc_ok (0xA2 # bytes16 disp) else store
          | _ \<Rightarrow> store)
     | Ptr8Amode _ _ \<Rightarrow> store
     | Ptr8AmodeS8 _ _ _ \<Rightarrow> store
     | Ptr8AmodeS16 _ _ _ \<Rightarrow> store
     | dst \<Rightarrow> enc_err (UnhandledParameter dst))"

definition enc_Mov16 :: "Instruction \<Rightarrow> enc_result" where
  "enc_Mov16 op =
     (if is_imm (op_src op) then
        (case op_dst op of
           Reg16 r \<Rightarrow> do {
             k \<leftarrow> R_u8 r;
             (case op_src op of
                Imm16 i \<Rightarrow> enc_ok ((0xB8 OR k) # bytes16 i)
              | s \<Rightarrow> enc_err (UnhandledParameter s))
           }
         | dst \<Rightarrow> enc_err (UnhandledParameter dst))
      else enc_err (UnhandledParameter (op_dst op)))"

definition enc_Mov32 :: "Instruction \<Rightarrow> enc_result" where
  "enc_Mov32 op =
     (if is_imm (op_src op) then
        (case op_dst op of
           Reg32 r \<Rightarrow> do {
             k \<leftarrow> R_u8 r;
             (case op_src op of
                Imm32 i \<Rightarrow> enc_ok ([0x66, 0xB8 OR k] @ bytes32 i)
              | s \<Rightarrow> enc_err (UnhandledParameter s))
           }
         | dst \<Rightarrow> enc_err (UnhandledParameter dst))
      else enc_err (UnhandledParameter (op_dst op)))"

definition enc_Push16 :: "Instruction \<Rightarrow> enc_result" where
  "enc_Push16 op = (case op_dst op of
     Imm16 imm \<Rightarrow> enc_ok (0x68 # bytes16 imm)
   | dst \<Rightarrow> enc_err (UnhandledParameter dst))"

definition enc_Pop16 :: "Instruction \<Rightarrow> enc_result" where
  "enc_Pop16 op = (case op_dst op of
     Reg16 r \<Rightarrow> do { k \<leftarrow> R_u8 r; b \<leftarrow> add_chk 0x58 k; enc_ok [b] }
   | dst \<Rightarrow> enc_err (UnhandledParameter dst))"

definition enc_Loop :: "Instruction \<Rightarrow> enc_result" where
  "enc_Loop op = (case op_dst op of Imm16 _ \<Rightarrow> None | dst \<Rightarrow> enc_err (UnhandledParameter dst))"

section \<open>The encoder\<close>

text \<open>Operations whose encoding is a single opcode.\<close>

definition enc_simple :: "Op \<Rightarrow> u8 option" where
  "enc_simple op = (case op of
     Arith Daa \<Rightarrow> Some 0x27 | Arith Das \<Rightarrow> Some 0x2F | Arith Aaa \<Rightarrow> Some 0x37 | Arith Aas \<Rightarrow> Some 0x3F
   | Flag Cmc \<Rightarrow> Some 0xF5 | Flag Clc \<Rightarrow> Some 0xF8 | Flag Stc \<Rightarrow> Some 0xF9 | Flag Cli \<Rightarrow> Some 0xFA
   | Flag Sti \<Rightarrow> Some 0xFB | Flag Cld \<Rightarrow> Some 0xFC | Flag Std \<Rightarrow> Some 0xFD
   | Arith Cbw \<Rightarrow> Some 0x98 | Arith Cwd16 \<Rightarrow> Some 0x99 | Move Sahf \<Rightarrow> Some 0x9E | Move Lahf \<Rightarrow> Some 0x9F
   | Move Nop \<Rightarrow> Some 0x90 | Move Salc \<Rightarrow> Some 0xD6 | Move Xlatb \<Rightarrow> Some 0xD7
   | Str Cmpsb \<Rightarrow> Some 0xA6 | Str Cmpsw \<Rightarrow> Some 0xA7 | Move Popf \<Rightarrow> Some 0x9D
   | _ \<Rightarrow> None)"

definition enc_groups :: "Instruction \<Rightarrow> enc_result" where
  "enc_groups op = (let o' = command op in
     if o' \<in> set [Logic And8, Logic Or8, Arith Add8, Arith Adc8, Arith Sub8, Arith Sbb8, Arith Cmp8, Logic Xor8]
     then arith_instr8 op
     else if o' \<in> set [Logic Test8, Logic Not8, Arith Neg8, Mul Mul8, Mul Imul8, Mul Div8, Mul Idiv8]
     then math_instr8 op
     else if o' \<in> set [Shift Rol8, Shift Ror8, Shift Rcl8, Shift Rcr8, Shift Shl8, Shift Shr8, Shift Sar8]
     then bitshift_instr8 op
     else if o' \<in> set [Shift Rol16, Shift Ror16, Shift Rcl16, Shift Rcr16, Shift Shl16, Shift Shr16, Shift Sar16]
     then bitshift_instr16 op
     else if o' \<in> set [Shift Rol32, Shift Ror32, Shift Rcl32, Shift Rcr32, Shift Shl32, Shift Shr32, Shift Sar32]
     then bitshift_instr32 op
     else if o' \<in> set [Logic And16, Logic Or16, Arith Add16, Arith Adc16, Arith Sub16, Arith Sbb16, Arith Cmp16, Logic Xor16]
     then arith_instr16 op
     else if o' \<in> set [Logic And32, Logic Or32, Arith Add32, Arith Adc32, Arith Sub32, Arith Sbb32, Arith Cmp32, Logic Xor32]
     then arith_instr32 op
     else if o' \<in> set [Logic Test16, Logic Not16, Arith Neg16, Mul Div16, Mul Idiv16, Mul Mul16, Mul Imul16]
     then math_instr16 op
     else if o' \<in> set [Logic Test32, Logic Not32, Arith Neg32, Mul Div32, Mul Idiv32, Mul Mul32, Mul Imul32]
     then math_instr32 op
     else enc_err (UnhandledOp o'))"

definition encode_command :: "Instruction \<Rightarrow> enc_result" where
  "encode_command op = (case enc_simple (command op) of
     Some b \<Rightarrow> enc_ok [b]
   | None \<Rightarrow>
     (case command op of
        Logic Bsf \<Rightarrow> enc_Bsf op
      | Logic Bt \<Rightarrow> enc_Bt op
      | Arith Aad \<Rightarrow> enc_Aad op
      | Arith Aam \<Rightarrow> enc_Aam op
      | Arith Dec8 \<Rightarrow> enc_IncDec8 op
      | Arith Inc8 \<Rightarrow> enc_IncDec8 op
      | Arith Dec16 \<Rightarrow> enc_IncDec16 op
      | Arith Inc16 \<Rightarrow> enc_IncDec16 op
      | Arith Dec32 \<Rightarrow> enc_IncDec32 op
      | Arith Inc32 \<Rightarrow> enc_IncDec32 op
      | Flow IntN \<Rightarrow> enc_Int op
      | Move Xchg8 \<Rightarrow> enc_Xchg8 op
      | Move Xchg16 \<Rightarrow> enc_Xchg16 op
      | Move Lea16 \<Rightarrow> enc_Lea16 op
      | Shift Shld \<Rightarrow> enc_Shld op
      | Shift Shrd \<Rightarrow> enc_Shrd op
      | Move Movsx16 \<Rightarrow> enc_Movsx16 op
      | Move Movsx32 \<Rightarrow> enc_Movsx32 op
      | Move Movzx16 \<Rightarrow> enc_Movzx16 op
      | Move Movzx32 \<Rightarrow> enc_Movzx32 op
      | Move Mov8 \<Rightarrow> enc_Mov8 op
      | Move Mov16 \<Rightarrow> enc_Mov16 op
      | Move Mov32 \<Rightarrow> enc_Mov32 op
      | Move Push16 \<Rightarrow> enc_Push16 op
      | Move Pop16 \<Rightarrow> enc_Pop16 op
      | Flow Loop \<Rightarrow> enc_Loop op
      | _ \<Rightarrow> enc_groups op))"

definition enc_prefix :: "Instruction \<Rightarrow> u8 list" where
  "enc_prefix op = (if lock op then [0xF0] else []) @
     (case segment_prefix op of
        Segment.Default \<Rightarrow> [] | Segment.ES \<Rightarrow> [0x26] | Segment.CS \<Rightarrow> [0x2E] | Segment.SS \<Rightarrow> [0x36]
      | Segment.DS \<Rightarrow> [0x3E] | Segment.FS \<Rightarrow> [0x64] | Segment.GS \<Rightarrow> [0x65])"

definition encode :: "Instruction \<Rightarrow> enc_result" where
  "encode op = map_option (map_sum id (\<lambda>bs. enc_prefix op @ bs)) (encode_command op)"

fun encode_vec :: "Instruction list \<Rightarrow> enc_result" where
  "encode_vec [] = enc_ok []"
| "encode_vec (op # ops) = do {
     enc \<leftarrow> encode op;
     (case enc of
        Inl e \<Rightarrow> enc_err e
      | Inr bs \<Rightarrow> do { rest \<leftarrow> encode_vec ops; Some (map_sum id (\<lambda>cs. bs @ cs) rest) })
   }"

end
