(* ===== verification/X86_Encoder_Alu.thy ===== *)
theory X86_Encoder_Alu
  imports X86_Encoder
begin

text \<open>
  The encoder and the decoder together, part one: the bytes at the position of the decoder, operands that
  are encoded and decoded again, and the arithmetic, shift and one-byte instructions.
\<close>

unbundle bit_operations_syntax

section \<open>Bytes at the position of the decoder\<close>

definition skip :: "nat \<Rightarrow> Decoder \<Rightarrow> Decoder" where
  "skip n d = d\<lparr>current_offset := current_offset d + of_nat n\<rparr>"

lemma skip_simps [simp]:
  "current_seg (skip n d) = current_seg d"
  "current_offset (skip n d) = current_offset d + of_nat n"
  "skip m (skip n d) = skip (m + n) d"
  "skip 0 d = d"
  by (simp_all add: skip_def)

fun stored :: "Decoder \<Rightarrow> MMU \<Rightarrow> u8 list \<Rightarrow> bool" where
  "stored d u [] \<longleftrightarrow> True"
| "stored d u (b # bs) \<longleftrightarrow> mmu_read_u8 u (current_seg d) (current_offset d) = Some b \<and> stored (skip 1 d) u bs"

lemma stored_append [simp]:
  "stored d u (bs @ cs) \<longleftrightarrow> stored d u bs \<and> stored (skip (length bs) d) u cs"
  by (induction bs arbitrary: d) (simp_all add: add.commute)

lemma read_u8 [simp]:
  "mmu_read_u8 u (current_seg d) (current_offset d) = Some b \<Longrightarrow> dec_read_u8 d u = Some (b, skip (Suc 0) d)"
  by (simp add: dec_read_u8_def skip_def)

lemma halves16: "push_bit 8 (ucast (ucast (drop_bit 8 v) :: u8)) OR ucast (ucast v :: u8) = v" for v :: u16
  by (rule bit_word_eqI) (auto simp: bit_simps)

lemma halves32: "push_bit 16 (ucast (ucast (drop_bit 16 v) :: u16)) OR ucast (ucast v :: u16) = v" for v :: u32
  by (rule bit_word_eqI) (auto simp: bit_simps)

lemma read_u16: "stored d u (bytes16 v) \<Longrightarrow> dec_read_u16 d u = Some (v, skip 2 d)"
  by (simp add: dec_read_u16_def bytes16_def halves16)

lemma bytes32_split: "bytes32 v = bytes16 (ucast v) @ bytes16 (ucast (drop_bit 16 v))"
  by (simp add: bytes32_def bytes16_def) (auto intro!: bit_word_eqI simp: bit_simps)

lemma length_bytes [simp]: "length (bytes16 v) = 2" "length (bytes32 w) = 4"
  by (simp_all add: bytes16_def bytes32_def)

lemma read_u32: "stored d u (bytes32 v) \<Longrightarrow> dec_read_u32 d u = Some (v, skip 4 d)"
proof -
  assume "stored d u (bytes32 v)"
  then have "stored d u (bytes16 (ucast v))" "stored (skip 2 d) u (bytes16 (ucast (drop_bit 16 v)))"
    by (simp_all only: bytes32_split stored_append length_bytes)
  then show ?thesis by (simp add: dec_read_u32_def read_u16 halves32)
qed

section \<open>Operands\<close>

lemma small_word: "unat v < 2 ^ n \<Longrightarrow> take_bit n v = v" for v :: u8
  by (simp add: word_unat_eq_iff unsigned_take_bit_eq take_bit_nat_eq_self)

lemma modrm_fields:
  assumes "md' < 4" "reg' < 8" "rm' < 8"
  shows "drop_bit 6 (modrm_of md' rm' reg') = md'" "drop_bit 3 (modrm_of md' rm' reg') AND 7 = reg'"
    "modrm_of md' rm' reg' AND 7 = rm'"
proof -
  have bits: "take_bit 2 md' = md'" "take_bit 3 reg' = reg'" "take_bit 3 rm' = rm'"
    using assms by (auto intro!: small_word simp: word_less_nat_alt)
  have seven: "(7 :: u8) = mask 3" by (simp add: mask_eq_exp_minus_1)
  have b: "bit md' k \<Longrightarrow> k < 2" "bit reg' k \<Longrightarrow> k < 3" "bit rm' k \<Longrightarrow> k < 3" for k
    using bits by (metis bit_take_bit_iff)+
  show "drop_bit 6 (modrm_of md' rm' reg') = md'"
    by (rule bit_word_eqI) (auto simp: modrm_of_def modrm_u8_def bit_simps dest: b)
  show "drop_bit 3 (modrm_of md' rm' reg') AND 7 = reg'"
    unfolding seven by (rule bit_word_eqI) (auto simp: modrm_of_def modrm_u8_def bit_simps dest: b)
  show "modrm_of md' rm' reg' AND 7 = rm'"
    unfolding seven by (rule bit_word_eqI) (auto simp: modrm_of_def modrm_u8_def bit_simps dest: b)
qed

lemma read_modrm:
  assumes "mmu_read_u8 u (current_seg d) (current_offset d) = Some (modrm_of md' rm' reg')" "md' < 4" "reg' < 8" "rm' < 8"
  shows "read_mod_reg_rm d u = Some (\<lparr>md = md', reg = reg', rm = rm'\<rparr>, skip 1 d)"
  using assms by (simp add: read_mod_reg_rm_def modrm_fields skip_def)

definition amode16 :: "AMode \<Rightarrow> bool" where
  "amode16 a \<longleftrightarrow> (case a of AMode.BXSI \<Rightarrow> True | AMode.BXDI \<Rightarrow> True | AMode.BPSI \<Rightarrow> True
     | AMode.BPDI \<Rightarrow> True | AMode.SI \<Rightarrow> True | AMode.DI \<Rightarrow> True | AMode.BP \<Rightarrow> True | AMode.BX \<Rightarrow> True | _ \<Rightarrow> False)"

text \<open>
  Operands of a width that have a mod-reg-rm form under 16-bit addressing. A plain [bp] has none: its
  code is the direct address.
\<close>

definition rm8_ok :: "Segment \<Rightarrow> Parameter \<Rightarrow> bool" where
  "rm8_ok seg p \<longleftrightarrow> (case p of
     Reg8 r \<Rightarrow> R_is_8bit r
   | Ptr8 s _ \<Rightarrow> s = seg
   | Ptr8Amode s a \<Rightarrow> s = seg \<and> amode16 a \<and> a \<noteq> AMode.BP
   | Ptr8AmodeS8 s a _ \<Rightarrow> s = seg \<and> amode16 a
   | Ptr8AmodeS16 s a _ \<Rightarrow> s = seg \<and> amode16 a
   | _ \<Rightarrow> False)"

definition R_is_16bit :: "R \<Rightarrow> bool" where
  "R_is_16bit r \<longleftrightarrow> r \<in> set [R.AX, R.CX, R.DX, R.BX, R.SP, R.BP, R.SI, R.DI]"

definition R_is_32bit :: "R \<Rightarrow> bool" where
  "R_is_32bit r \<longleftrightarrow> r \<in> set [R.EAX, R.ECX, R.EDX, R.EBX, R.ESP, R.EBP, R.ESI, R.EDI]"

definition rm16_ok :: "Segment \<Rightarrow> Parameter \<Rightarrow> bool" where
  "rm16_ok seg p \<longleftrightarrow> (case p of
     Reg16 r \<Rightarrow> R_is_16bit r
   | Ptr16 s _ \<Rightarrow> s = seg
   | Ptr16Amode s a \<Rightarrow> s = seg \<and> amode16 a \<and> a \<noteq> AMode.BP
   | Ptr16AmodeS8 s a _ \<Rightarrow> s = seg \<and> amode16 a
   | Ptr16AmodeS16 s a _ \<Rightarrow> s = seg \<and> amode16 a
   | _ \<Rightarrow> False)"

lemma amode16_index:
  "amode16 a \<Longrightarrow> amode_from A16bit (ucast (AMode_index a)) = Some a \<and>
     (ucast (AMode_index a) :: u8) < 8 \<and> (a \<noteq> AMode.BP \<longrightarrow> (ucast (AMode_index a) :: u8) \<noteq> 6)"
  by (cases a) (simp_all add: amode16_def AMode_index_def amode_from_def)

lemma reg8_index: "R_is_8bit r \<Longrightarrow> \<exists>k. R_u8 r = Some k \<and> k < 8 \<and> r8 k = Some r"
  by (cases r) (simp_all add: R_is_8bit_def R_u8_def R_index_def r8_def)

lemma reg16_index: "R_is_16bit r \<Longrightarrow> \<exists>k. R_u8 r = Some k \<and> k < 8 \<and> r16 k = Some r"
  by (cases r) (simp_all add: R_is_16bit_def R_u8_def R_index_def r16_def)

lemma reg32_index: "R_is_32bit r \<Longrightarrow> \<exists>k. R_u8 r = Some k \<and> k < 8 \<and> r32 k = Some r"
  by (cases r) (simp_all add: R_is_32bit_def R_u8_def R_index_def r32_def)

text \<open>The md and rm fields of an operand and the bytes behind the mod-reg-rm byte.\<close>

definition operand_code :: "Parameter \<Rightarrow> (u8 \<times> u8 \<times> u8 list) option" where
  "operand_code p = (case p of
     Ptr8 _ imm \<Rightarrow> Some (0, 6, bytes16 imm)
   | Ptr16 _ imm \<Rightarrow> Some (0, 6, bytes16 imm)
   | Ptr8Amode _ a \<Rightarrow> Some (0, ucast (AMode_index a), [])
   | Ptr16Amode _ a \<Rightarrow> Some (0, ucast (AMode_index a), [])
   | Ptr8AmodeS8 _ a imm \<Rightarrow> Some (1, ucast (AMode_index a), [imm])
   | Ptr16AmodeS8 _ a imm \<Rightarrow> Some (1, ucast (AMode_index a), [imm])
   | Ptr8AmodeS16 _ a imm \<Rightarrow> Some (2, ucast (AMode_index a), bytes16 imm)
   | Ptr16AmodeS16 _ a imm \<Rightarrow> Some (2, ucast (AMode_index a), bytes16 imm)
   | Reg8 r \<Rightarrow> map_option (\<lambda>i. (3, i, [])) (R_u8 r)
   | Reg16 r \<Rightarrow> map_option (\<lambda>i. (3, i, [])) (R_u8 r)
   | Reg32 r \<Rightarrow> map_option (\<lambda>i. (3, i, [])) (R_u8 r)
   | _ \<Rightarrow> None)"

lemma encode_rm_code: "encode_rm p n = map_option (\<lambda>(m, r, ds). modrm_of m r n # ds) (operand_code p)"
  by (cases p) (auto simp: encode_rm_def operand_code_def bind_map_option map_conv_bind_option)

lemma operand8:
  assumes "rm8_ok seg p"
  shows "\<exists>m r ds. operand_code p = Some (m, r, ds) \<and> m < 4 \<and> r < 8 \<and>
    (\<forall>d u. stored d u ds \<longrightarrow> dec_rm8 d u seg r m = Some (p, skip (length ds) d))"
  using assms by (cases p) (auto simp: rm8_ok_def operand_code_def dec_rm8_def read_u16 dec_read_s8_def
      dec_read_s16_def dest!: amode16_index reg8_index)

lemma operand16:
  assumes "rm16_ok seg p"
  shows "\<exists>m r ds. operand_code p = Some (m, r, ds) \<and> m < 4 \<and> r < 8 \<and>
    (\<forall>d u op. stored d u ds \<and> segment_prefix op = seg \<and> address_size op = A16bit \<longrightarrow>
      dec_rm16 d u op r m = Some (p, skip (length ds) d))"
  using assms by (cases p) (auto simp: rm16_ok_def operand_code_def dec_rm16_def read_u16 dec_read_s8_def
      dec_read_s16_def dest!: amode16_index reg16_index)

lemma operand32:
  assumes "R_is_32bit q"
  shows "\<exists>r. operand_code (Reg32 q) = Some (3, r, []) \<and> r < 8 \<and>
    (\<forall>d u op. dec_rm32 d u op r 3 = Some (Reg32 q, d))"
  using assms by (auto simp: operand_code_def dec_rm32_def dest!: reg32_index)

text \<open>Operand pairs.\<close>

lemma pair_rm8_r8:
  assumes "rm8_ok seg p" "R_is_8bit r'"
  shows "\<exists>bs. encode_rm_r \<lparr>p_dst = p, p_src = Reg8 r', p_src2 = s2\<rparr> = Some bs \<and>
    (\<forall>d u. stored d u bs \<longrightarrow> dec_rm8_r8 d u seg =
      Some (\<lparr>p_dst = p, p_src = Reg8 r', p_src2 = NoParam\<rparr>, skip (length bs) d))"
proof -
  from operand8 [OF assms(1)] reg8_index [OF assms(2)] show ?thesis
    by (auto simp: encode_rm_r_def encode_rm_code dec_rm8_r8_def read_modrm)
qed

lemma pair_r8_rm8:
  assumes "rm8_ok seg p" "R_is_8bit r'"
  shows "\<exists>bs. encode_r_rm \<lparr>p_dst = Reg8 r', p_src = p, p_src2 = s2\<rparr> = Some bs \<and>
    (\<forall>d u. stored d u bs \<longrightarrow> dec_r8_rm8 d u seg =
      Some (\<lparr>p_dst = Reg8 r', p_src = p, p_src2 = NoParam\<rparr>, skip (length bs) d))"
  using operand8 [OF assms(1)] reg8_index [OF assms(2)]
  by (auto simp: encode_r_rm_def encode_rm_code dec_r8_rm8_def read_modrm)

lemma pair_rm16_r16:
  assumes "rm16_ok seg p" "R_is_16bit r'"
  shows "\<exists>bs. encode_rm_r \<lparr>p_dst = p, p_src = Reg16 r', p_src2 = s2\<rparr> = Some bs \<and>
    (\<forall>d u op. stored d u bs \<and> segment_prefix op = seg \<and> address_size op = A16bit \<longrightarrow> dec_rm16_r16 d u op =
      Some (\<lparr>p_dst = p, p_src = Reg16 r', p_src2 = NoParam\<rparr>, skip (length bs) d))"
  using operand16 [OF assms(1)] reg16_index [OF assms(2)]
  by (auto simp: encode_rm_r_def encode_rm_code dec_rm16_r16_def read_modrm)

lemma pair_r16_rm16:
  assumes "rm16_ok seg p" "R_is_16bit r'"
  shows "\<exists>bs. encode_r_rm \<lparr>p_dst = Reg16 r', p_src = p, p_src2 = s2\<rparr> = Some bs \<and>
    (\<forall>d u op. stored d u bs \<and> segment_prefix op = seg \<and> address_size op = A16bit \<longrightarrow> dec_r16_rm16 d u op =
      Some (\<lparr>p_dst = Reg16 r', p_src = p, p_src2 = NoParam\<rparr>, skip (length bs) d))"
  using operand16 [OF assms(1)] reg16_index [OF assms(2)]
  by (auto simp: encode_r_rm_def encode_rm_code dec_r16_rm16_def read_modrm)

lemma pair_rm32_r32:
  assumes "R_is_32bit r" "R_is_32bit r'"
  shows "\<exists>bs. encode_rm_r \<lparr>p_dst = Reg32 r, p_src = Reg32 r', p_src2 = s2\<rparr> = Some bs \<and>
    (\<forall>d u op. stored d u bs \<longrightarrow> dec_rm32_r32 d u op =
      Some (\<lparr>p_dst = Reg32 r, p_src = Reg32 r', p_src2 = NoParam\<rparr>, skip (length bs) d))"
  using operand32 [OF assms(1)] reg32_index [OF assms(2)]
  by (auto simp: encode_rm_r_def encode_rm_code dec_rm32_r32_def read_modrm)

section \<open>Opcodes\<close>

definition no_params :: ParameterSet where
  "no_params = \<lparr>p_dst = NoParam, p_src = NoParam, p_src2 = NoParam\<rparr>"

text \<open>The bytes bs are an opcode with its operands that decodes to the command and the operands.\<close>

definition decodes :: "OperandSize \<Rightarrow> Segment \<Rightarrow> u8 list \<Rightarrow> Op \<Rightarrow> ParameterSet \<Rightarrow> bool" where
  "decodes sz seg bs c ps \<longleftrightarrow> (\<exists>b rest. bs = b # rest \<and> (\<forall>op. apply_prefix b op = None) \<and>
     (\<forall>d u op. stored d u rest \<and> op_size op = sz \<and> segment_prefix op = seg \<and> address_size op = A16bit \<and>
        params op = no_params \<longrightarrow>
        dec_opcode b d u op = Some (op\<lparr>command := c, params := ps\<rparr>, skip (length rest) d)))"

lemma decodesI:
  assumes "\<And>op. apply_prefix b op = None"
    "\<And>d u op. \<lbrakk>stored d u rest; op_size op = sz; segment_prefix op = seg; address_size op = A16bit;
      params op = no_params\<rbrakk> \<Longrightarrow>
      dec_opcode b d u op = Some (op\<lparr>command := c, params := ps\<rparr>, skip (length rest) d)"
  shows "decodes sz seg (b # rest) c ps"
  using assms by (auto simp: decodes_def)

lemmas opcode_map = dec_opcode_def dec_0x_def dec_1x_def dec_2x_def dec_3x_def dec_4x_6x_def dec_8x_def
  dec_9x_def dec_Ax_def dec_Bx_def dec_C0_C7_def dec_C8_CF_def dec_D0_D7_def dec_Fx_def

lemma arith8_cases:
  assumes "arith_base8 c = Some b"
  obtains "c = Arith Add8" "b = 0x0"
  | "c = Logic Or8" "b = 0x8"
  | "c = Arith Adc8" "b = 0x10"
  | "c = Arith Sbb8" "b = 0x18"
  | "c = Logic And8" "b = 0x20"
  | "c = Arith Sub8" "b = 0x28"
  | "c = Logic Xor8" "b = 0x30"
  | "c = Arith Cmp8" "b = 0x38"
  using assms by (simp add: arith_base8_def split: Op.splits ArithOp.splits LogicOp.splits)

lemma arith8_opcodes:
  assumes "arith_base8 c = Some b"
  shows "apply_prefix b op = None" "apply_prefix (b + 2) op = None" "apply_prefix (b + 4) op = None"
    "dec_opcode b d u op = op_params c op (dec_rm8_r8 d u (segment_prefix op))"
    "dec_opcode (b + 2) d u op = op_params c op (dec_r8_rm8 d u (segment_prefix op))"
    "dec_opcode (b + 4) d u op = op_dst_src c op (Reg8 R.AL) (imm8 d u)"
    "add_chk b 2 = Some (b + 2)" "add_chk b 4 = Some (b + 4)"
    "\<exists>n. arith_index c = Some n \<and> n < 8 \<and> alu_op8 n = Some c"
  using assms by (elim arith8_cases; hypsubst;
    simp add: apply_prefix_def opcode_map add_chk_def arith_index_def alu_op8_def)+

lemma arith16_cases:
  assumes "arith_base16 c = Some b"
  obtains "c = Arith Add16" "b = 0x1"
  | "c = Logic Or16" "b = 0x9"
  | "c = Arith Adc16" "b = 0x11"
  | "c = Arith Sbb16" "b = 0x19"
  | "c = Logic And16" "b = 0x21"
  | "c = Arith Sub16" "b = 0x29"
  | "c = Logic Xor16" "b = 0x31"
  | "c = Arith Cmp16" "b = 0x39"
  using assms by (simp add: arith_base16_def split: Op.splits ArithOp.splits LogicOp.splits)

text \<open>The opcode base + 2 ignores the operand size for OR, ADC, SBB and AND.\<close>

lemma arith16_opcodes:
  assumes "arith_base16 c = Some b"
  shows "apply_prefix b op = None" "apply_prefix (b + 2) op = None" "apply_prefix (b + 4) op = None"
    "op_size op = Op16bit \<Longrightarrow>
      dec_opcode b d u op = op_params c op (dec_rm16_r16 d u (op\<lparr>command := c\<rparr>))"
    "op_size op = Op16bit \<Longrightarrow>
      dec_opcode (b + 2) d u op = op_params c op (dec_r16_rm16 d u (op\<lparr>command := c\<rparr>))"
    "op_size op = Op16bit \<Longrightarrow>
      dec_opcode (b + 4) d u op = op_dst_src c op (Reg16 R.AX) (imm16 d u)"
    "add_chk b 2 = Some (b + 2)" "add_chk b 4 = Some (b + 4)"
    "\<exists>n. arith_index c = Some n \<and> n < 8 \<and> alu_op16 n = Some c"
  using assms by (elim arith16_cases; hypsubst; simp add: apply_prefix_def opcode_map add_chk_def
    arith_index_def alu_op16_def sized_def prefixed_16_32_rm_r_def prefixed_16_32_r_rm_def)+

lemma arith32_cases:
  assumes "arith_base32 c = Some b"
  obtains "c = Arith Add32" "b = 0x1"
  | "c = Logic Or32" "b = 0x9"
  | "c = Arith Adc32" "b = 0x11"
  | "c = Arith Sbb32" "b = 0x19"
  | "c = Logic And32" "b = 0x21"
  | "c = Arith Sub32" "b = 0x29"
  | "c = Logic Xor32" "b = 0x31"
  | "c = Arith Cmp32" "b = 0x39"
  using assms by (simp add: arith_base32_def split: Op.splits ArithOp.splits LogicOp.splits)

lemma arith32_opcodes:
  assumes "arith_base32 c = Some b"
  shows "apply_prefix b op = None" "apply_prefix (b + 4) op = None"
    "op_size op = Op32bit \<Longrightarrow>
      dec_opcode b d u op = op_params c op (dec_rm32_r32 d u (op\<lparr>command := c\<rparr>))"
    "op_size op = Op32bit \<Longrightarrow>
      dec_opcode (b + 4) d u op = op_dst_src c op (Reg32 R.EAX) (imm32 d u)"
    "add_chk b 4 = Some (b + 4)"
    "\<exists>n. arith_index c = Some n \<and> n < 8 \<and> alu_op32 n = Some c"
  using assms by (elim arith32_cases; hypsubst; simp add: apply_prefix_def opcode_map add_chk_def
    arith_index_def alu_op32_def sized_def prefixed_16_32_rm_r_def)+

section \<open>Encodable instructions\<close>

definition byte_reg :: "Parameter \<Rightarrow> bool" where
  "byte_reg p \<longleftrightarrow> (case p of Reg8 r \<Rightarrow> R_is_8bit r | _ \<Rightarrow> False)"

definition word_reg :: "Parameter \<Rightarrow> bool" where
  "word_reg p \<longleftrightarrow> (case p of Reg16 r \<Rightarrow> R_is_16bit r | _ \<Rightarrow> False)"

definition dword_reg :: "Parameter \<Rightarrow> bool" where
  "dword_reg p \<longleftrightarrow> (case p of Reg32 r \<Rightarrow> R_is_32bit r | _ \<Rightarrow> False)"

definition byte_imm :: "Parameter \<Rightarrow> bool" where
  "byte_imm p \<longleftrightarrow> (case p of Imm8 _ \<Rightarrow> True | _ \<Rightarrow> False)"

definition word_imm :: "Parameter \<Rightarrow> bool" where
  "word_imm p \<longleftrightarrow> (case p of Imm16 _ \<Rightarrow> True | _ \<Rightarrow> False)"

definition dword_imm :: "Parameter \<Rightarrow> bool" where
  "dword_imm p \<longleftrightarrow> (case p of Imm32 _ \<Rightarrow> True | _ \<Rightarrow> False)"

lemma kindE:
  "byte_reg p \<Longrightarrow> \<exists>r. p = Reg8 r \<and> R_is_8bit r" "word_reg p \<Longrightarrow> \<exists>r. p = Reg16 r \<and> R_is_16bit r"
  "dword_reg p \<Longrightarrow> \<exists>r. p = Reg32 r \<and> R_is_32bit r" "byte_imm p \<Longrightarrow> \<exists>i. p = Imm8 i"
  "word_imm p \<Longrightarrow> \<exists>i. p = Imm16 i" "dword_imm p \<Longrightarrow> \<exists>i. p = Imm32 i"
  by (cases p; simp add: byte_reg_def word_reg_def dword_reg_def byte_imm_def word_imm_def dword_imm_def)+

lemma rm8_shape: "rm8_ok seg p \<Longrightarrow> (byte_reg p \<or> is_ptr p) \<and> \<not> byte_imm p \<and> (is_ptr p \<longrightarrow> \<not> byte_reg p)"
  by (cases p) (simp_all add: rm8_ok_def byte_reg_def is_ptr_def byte_imm_def)

definition encodes :: "Instruction \<Rightarrow> OperandSize \<Rightarrow> u8 list \<Rightarrow> bool" where
  "encodes i sz bs \<longleftrightarrow> decodes sz (segment_prefix i) bs (command i) (params i) \<and>
     encode_command i = enc_ok ((case sz of Op16bit \<Rightarrow> [] | Op32bit \<Rightarrow> [0x66]) @ bs)"

text \<open>Operands of the arithmetic group.\<close>

definition operands8 :: "Segment \<Rightarrow> ParameterSet \<Rightarrow> bool" where
  "operands8 seg ps \<longleftrightarrow> p_src2 ps = NoParam \<and>
     (byte_reg (p_dst ps) \<and> (byte_imm (p_src ps) \<or> rm8_ok seg (p_src ps)) \<or>
      rm8_ok seg (p_dst ps) \<and> byte_reg (p_src ps))"

lemma arith8_al:
  assumes "arith_base8 c = Some b"
  shows "decodes sz seg [b + 4, i] c \<lparr>p_dst = Reg8 R.AL, p_src = Imm8 i, p_src2 = NoParam\<rparr>"
  by (rule decodesI) (simp_all add: arith8_opcodes [OF assms] op_dst_src_def imm8_def set_src_def
      set_dst_def no_params_def)

lemma arith8_imm:
  assumes "arith_base8 c = Some b" "R_is_8bit r" "R_u8 r = Some k" "arith_index c = Some n"
  shows "decodes sz seg [0x80, modrm_of 3 k n, i] c \<lparr>p_dst = Reg8 r, p_src = Imm8 i, p_src2 = NoParam\<rparr>"
proof -
  from reg8_index [OF assms(2)] assms(3) have k: "k < 8" "r8 k = Some r" by auto
  from arith8_opcodes(9) [OF assms(1)] assms(4) have n: "n < 8" "alu_op8 n = Some c" by auto
  show ?thesis
    by (rule decodesI) (simp_all add: apply_prefix_def dec_opcode_def dec_8x_def read_modrm k n dec_rm8_def
        imm8_def set_src_def set_dst_def no_params_def)
qed

lemma arith8_command: "arith_base8 (command i) = Some b \<Longrightarrow> encode_command i = arith_instr8 i"
  by (elim arith8_cases; simp add: encode_command_def enc_simple_def enc_groups_def Let_def)

lemma arith16_command: "arith_base16 (command i) = Some b \<Longrightarrow> encode_command i = arith_instr16 i"
  by (elim arith16_cases; simp add: encode_command_def enc_simple_def enc_groups_def Let_def)

lemma arith32_command: "arith_base32 (command i) = Some b \<Longrightarrow> encode_command i = arith_instr32 i"
  by (elim arith32_cases; simp add: encode_command_def enc_simple_def enc_groups_def Let_def)

lemma decodes_params8:
  assumes "\<And>op. apply_prefix b op = None"
    "\<And>d u op. dec_opcode b d u op = op_params c op (f d u (segment_prefix op))"
    "\<forall>d u. stored d u bs \<longrightarrow> f d u seg = Some (ps, skip (length bs) d)"
  shows "decodes sz seg (b # bs) c ps"
  using assms by (intro decodesI) (auto simp: op_params_def)

text \<open>The pair of operands r/m8, r8 behind an opcode, and r8, r/m8.\<close>

lemma round_rm8_r8:
  assumes "rm8_ok seg (p_dst ps)" "byte_reg (p_src ps)" "p_src2 ps = NoParam"
    "\<And>op. apply_prefix b op = None"
    "\<And>d u op. dec_opcode b d u op = op_params c op (dec_rm8_r8 d u (segment_prefix op))"
  shows "\<exists>bs. enc_cons [b] (encode_rm_r ps) = enc_ok (b # bs) \<and> decodes sz seg (b # bs) c ps"
proof -
  from kindE(1) [OF assms(2)] obtain r where r: "p_src ps = Reg8 r" "R_is_8bit r" by blast
  have ps: "ps = \<lparr>p_dst = p_dst ps, p_src = Reg8 r, p_src2 = NoParam\<rparr>" using r(1) assms(3) by simp
  from pair_rm8_r8 [OF assms(1) r(2), of NoParam] obtain bs where
    "encode_rm_r ps = Some bs" "\<forall>d u. stored d u bs \<longrightarrow> dec_rm8_r8 d u seg = Some (ps, skip (length bs) d)"
    by (metis ps)
  then show ?thesis using decodes_params8 [OF assms(4,5)] by (auto simp: enc_cons_def enc_ok_def)
qed

lemma round_r8_rm8:
  assumes "byte_reg (p_dst ps)" "rm8_ok seg (p_src ps)" "p_src2 ps = NoParam"
    "\<And>op. apply_prefix b op = None"
    "\<And>d u op. dec_opcode b d u op = op_params c op (dec_r8_rm8 d u (segment_prefix op))"
  shows "\<exists>bs. enc_cons [b] (encode_r_rm ps) = enc_ok (b # bs) \<and> decodes sz seg (b # bs) c ps"
proof -
  from kindE(1) [OF assms(1)] obtain r where r: "p_dst ps = Reg8 r" "R_is_8bit r" by blast
  have ps: "ps = \<lparr>p_dst = Reg8 r, p_src = p_src ps, p_src2 = NoParam\<rparr>" using r(1) assms(3) by simp
  from pair_r8_rm8 [OF assms(2) r(2), of NoParam] obtain bs where
    "encode_r_rm ps = Some bs" "\<forall>d u. stored d u bs \<longrightarrow> dec_r8_rm8 d u seg = Some (ps, skip (length bs) d)"
    by (metis ps)
  then show ?thesis using decodes_params8 [OF assms(4,5)] by (auto simp: enc_cons_def enc_ok_def)
qed

lemma arith8_round:
  assumes "arith_base8 (command i) = Some b" "operands8 (segment_prefix i) (params i)"
  shows "\<exists>bs. encodes i Op16bit bs"
proof -
  let ?ps = "params i" let ?seg = "segment_prefix i"
  note ops = arith8_opcodes [OF assms(1)]
  have no2: "p_src2 ?ps = NoParam" using assms(2) by (simp add: operands8_def)
  have enc: "encode_command i = arith_instr8 i" by (rule arith8_command [OF assms(1)])
  consider (imm) "byte_reg (p_dst ?ps)" "byte_imm (p_src ?ps)"
    | (load) "byte_reg (p_dst ?ps)" "rm8_ok ?seg (p_src ?ps)" "is_ptr (p_src ?ps)"
    | (store) "rm8_ok ?seg (p_dst ?ps)" "byte_reg (p_src ?ps)"
  proof -
    have "byte_reg p \<Longrightarrow> rm8_ok ?seg p" for p by (auto simp: rm8_ok_def dest!: kindE(1))
    then show ?thesis using that assms(2) rm8_shape [of ?seg "p_src ?ps"] unfolding operands8_def by blast
  qed
  then show ?thesis
  proof cases
    case imm
    then obtain r v where p: "p_dst ?ps = Reg8 r" "R_is_8bit r" "p_src ?ps = Imm8 v" using kindE(1,4) by blast
    obtain k where k: "R_u8 r = Some k" using reg8_index [OF p(2)] by blast
    obtain n where n: "arith_index (command i) = Some n" using ops(9) by blast
    have ps: "?ps = \<lparr>p_dst = Reg8 r, p_src = Imm8 v, p_src2 = NoParam\<rparr>" using p no2 by simp
    show ?thesis
    proof (cases "r = R.AL")
      case True
      then show ?thesis using arith8_al [OF assms(1)] ops(8) p
        by (intro exI [of _ "[b + 4, v]"]) (simp add: encodes_def enc arith_instr8_def assms(1) ps)
    next
      case False
      then show ?thesis using arith8_imm [OF assms(1) p(2) k n] p
        by (intro exI [of _ "[0x80, modrm_of 3 k n, v]"])
          (simp add: encodes_def enc arith_instr8_def assms(1) ps k n)
    qed
  next
    case load
    then obtain r where "p_dst ?ps = Reg8 r" using kindE(1) by blast
    then have "arith_instr8 i = enc_cons [b + 2] (encode_r_rm ?ps)"
      using assms(1) ops(7) load(3) by (cases "p_src ?ps") (simp_all add: arith_instr8_def is_ptr_def)
    then show ?thesis using round_r8_rm8 [OF load(1,2) no2 ops(2) ops(5)] by (auto simp: encodes_def enc)
  next
    case store
    then obtain r where "p_src ?ps = Reg8 r" using kindE(1) by blast
    then have "arith_instr8 i = enc_cons [b] (encode_rm_r ?ps)"
      using assms(1) store(1) by (cases "p_dst ?ps") (simp_all add: arith_instr8_def is_ptr_def rm8_ok_def)
    then show ?thesis using round_rm8_r8 [OF store no2 ops(1) ops(4)] by (auto simp: encodes_def enc)
  qed
qed

text \<open>The same for words and double words.\<close>

lemma decodes_params16:
  assumes "\<And>op. apply_prefix b op = None"
    "\<And>d u op. op_size op = sz \<Longrightarrow> dec_opcode b d u op = op_params c op (f d u (op\<lparr>command := c\<rparr>))"
    "\<forall>d u op. stored d u bs \<and> segment_prefix op = seg \<and> address_size op = A16bit \<longrightarrow>
       f d u op = Some (ps, skip (length bs) d)"
  shows "decodes sz seg (b # bs) c ps"
  using assms by (intro decodesI) (auto simp: op_params_def)

lemma round_rm16_r16:
  assumes "rm16_ok seg (p_dst ps)" "word_reg (p_src ps)" "p_src2 ps = NoParam"
    "\<And>op. apply_prefix b op = None"
    "\<And>d u op. op_size op = sz \<Longrightarrow> dec_opcode b d u op = op_params c op (dec_rm16_r16 d u (op\<lparr>command := c\<rparr>))"
  shows "\<exists>bs. enc_cons [b] (encode_rm_r ps) = enc_ok (b # bs) \<and> decodes sz seg (b # bs) c ps"
proof -
  from kindE(2) [OF assms(2)] obtain r where r: "p_src ps = Reg16 r" "R_is_16bit r" by blast
  have ps: "ps = \<lparr>p_dst = p_dst ps, p_src = Reg16 r, p_src2 = NoParam\<rparr>" using r(1) assms(3) by simp
  from pair_rm16_r16 [OF assms(1) r(2), of NoParam] obtain bs where "encode_rm_r ps = Some bs"
    "\<forall>d u op. stored d u bs \<and> segment_prefix op = seg \<and> address_size op = A16bit \<longrightarrow>
       dec_rm16_r16 d u op = Some (ps, skip (length bs) d)"
    by (metis ps)
  then show ?thesis using decodes_params16 [OF assms(4,5)] by (auto simp: enc_cons_def enc_ok_def)
qed

lemma round_r16_rm16:
  assumes "word_reg (p_dst ps)" "rm16_ok seg (p_src ps)" "p_src2 ps = NoParam"
    "\<And>op. apply_prefix b op = None"
    "\<And>d u op. op_size op = sz \<Longrightarrow> dec_opcode b d u op = op_params c op (dec_r16_rm16 d u (op\<lparr>command := c\<rparr>))"
  shows "\<exists>bs. enc_cons [b] (encode_r_rm ps) = enc_ok (b # bs) \<and> decodes sz seg (b # bs) c ps"
proof -
  from kindE(2) [OF assms(1)] obtain r where r: "p_dst ps = Reg16 r" "R_is_16bit r" by blast
  have ps: "ps = \<lparr>p_dst = Reg16 r, p_src = p_src ps, p_src2 = NoParam\<rparr>" using r(1) assms(3) by simp
  from pair_r16_rm16 [OF assms(2) r(2), of NoParam] obtain bs where "encode_r_rm ps = Some bs"
    "\<forall>d u op. stored d u bs \<and> segment_prefix op = seg \<and> address_size op = A16bit \<longrightarrow>
       dec_r16_rm16 d u op = Some (ps, skip (length bs) d)"
    by (metis ps)
  then show ?thesis using decodes_params16 [OF assms(4,5)] by (auto simp: enc_cons_def enc_ok_def)
qed

lemma round_rm32_r32:
  assumes "dword_reg (p_dst ps)" "dword_reg (p_src ps)" "p_src2 ps = NoParam"
    "\<And>op. apply_prefix b op = None"
    "\<And>d u op. op_size op = sz \<Longrightarrow> dec_opcode b d u op = op_params c op (dec_rm32_r32 d u (op\<lparr>command := c\<rparr>))"
  shows "\<exists>bs. enc_cons [0x66, b] (encode_rm_r ps) = enc_ok (0x66 # b # bs) \<and> decodes sz seg (b # bs) c ps"
proof -
  from kindE(3) [OF assms(1)] kindE(3) [OF assms(2)] obtain r q where
    r: "p_dst ps = Reg32 r" "R_is_32bit r" "p_src ps = Reg32 q" "R_is_32bit q" by blast
  have ps: "ps = \<lparr>p_dst = Reg32 r, p_src = Reg32 q, p_src2 = NoParam\<rparr>" using r assms(3) by simp
  from pair_rm32_r32 [OF r(2,4), of NoParam] obtain bs where "encode_rm_r ps = Some bs"
    "\<forall>d u op. stored d u bs \<longrightarrow> dec_rm32_r32 d u op = Some (ps, skip (length bs) d)"
    by (metis ps)
  then show ?thesis using decodes_params16 [OF assms(4,5)] by (auto simp: enc_cons_def enc_ok_def)
qed

definition operands16 :: "Segment \<Rightarrow> ParameterSet \<Rightarrow> bool" where
  "operands16 seg ps \<longleftrightarrow> p_src2 ps = NoParam \<and>
     (word_reg (p_dst ps) \<and> (word_imm (p_src ps) \<or> rm16_ok seg (p_src ps)) \<or>
      rm16_ok seg (p_dst ps) \<and> word_reg (p_src ps))"

definition operands32 :: "ParameterSet \<Rightarrow> bool" where
  "operands32 ps \<longleftrightarrow> p_src2 ps = NoParam \<and>
     dword_reg (p_dst ps) \<and> (dword_imm (p_src ps) \<or> dword_reg (p_src ps))"

lemma arith16_ax:
  assumes "arith_base16 c = Some b"
  shows "decodes Op16bit seg ((b + 4) # bytes16 i) c \<lparr>p_dst = Reg16 R.AX, p_src = Imm16 i, p_src2 = NoParam\<rparr>"
  by (rule decodesI) (simp_all add: arith16_opcodes [OF assms] op_dst_src_def imm16_def set_src_def
      set_dst_def no_params_def read_u16)

lemma arith32_eax:
  assumes "arith_base32 c = Some b"
  shows "decodes Op32bit seg ((b + 4) # bytes32 i) c \<lparr>p_dst = Reg32 R.EAX, p_src = Imm32 i, p_src2 = NoParam\<rparr>"
  by (rule decodesI) (simp_all add: arith32_opcodes [OF assms] op_dst_src_def imm32_def set_src_def
      set_dst_def no_params_def read_u32)

lemma arith16_imm:
  assumes "arith_base16 c = Some b" "R_is_16bit r" "R_u8 r = Some k" "arith_index c = Some n"
  shows "decodes Op16bit seg ([0x81, modrm_of 3 k n] @ bytes16 i) c
    \<lparr>p_dst = Reg16 r, p_src = Imm16 i, p_src2 = NoParam\<rparr>"
proof -
  from reg16_index [OF assms(2)] assms(3) have k: "k < 8" "r16 k = Some r" by auto
  from arith16_opcodes(9) [OF assms(1)] assms(4) have n: "n < 8" "alu_op16 n = Some c" by auto
  show ?thesis unfolding append.simps
    by (rule decodesI) (auto simp: apply_prefix_def dec_opcode_def dec_8x_def read_modrm k n dec_rm16_def
        imm16_def set_src_def set_dst_def no_params_def sized_def read_u16)
qed

lemma arith32_imm:
  assumes "arith_base32 c = Some b" "R_is_32bit r" "R_u8 r = Some k" "arith_index c = Some n"
  shows "decodes Op32bit seg ([0x81, modrm_of 3 k n] @ bytes32 i) c
    \<lparr>p_dst = Reg32 r, p_src = Imm32 i, p_src2 = NoParam\<rparr>"
proof -
  from reg32_index [OF assms(2)] assms(3) have k: "k < 8" "r32 k = Some r" by auto
  from arith32_opcodes(6) [OF assms(1)] assms(4) have n: "n < 8" "alu_op32 n = Some c" by auto
  show ?thesis unfolding append.simps
    by (rule decodesI) (auto simp: apply_prefix_def dec_opcode_def dec_8x_def read_modrm k n dec_rm32_def
        imm32_def set_src_def set_dst_def no_params_def sized_def read_u32)
qed

lemma rm16_shape: "rm16_ok seg p \<Longrightarrow> word_reg p \<or> is_ptr p"
  by (cases p) (simp_all add: rm16_ok_def word_reg_def is_ptr_def)

lemma arith16_round:
  assumes "arith_base16 (command i) = Some b" "operands16 (segment_prefix i) (params i)"
  shows "\<exists>bs. encodes i Op16bit bs"
proof -
  let ?ps = "params i" let ?seg = "segment_prefix i"
  note ops = arith16_opcodes [OF assms(1)]
  have no2: "p_src2 ?ps = NoParam" using assms(2) by (simp add: operands16_def)
  have enc: "encode_command i = arith_instr16 i" by (rule arith16_command [OF assms(1)])
  consider (imm) "word_reg (p_dst ?ps)" "word_imm (p_src ?ps)"
    | (load) "word_reg (p_dst ?ps)" "rm16_ok ?seg (p_src ?ps)" "is_ptr (p_src ?ps)"
    | (store) "rm16_ok ?seg (p_dst ?ps)" "word_reg (p_src ?ps)"
  proof -
    have "word_reg p \<Longrightarrow> rm16_ok ?seg p" for p by (auto simp: rm16_ok_def dest!: kindE(2))
    then show ?thesis using that assms(2) rm16_shape [of ?seg "p_src ?ps"] unfolding operands16_def by blast
  qed
  then show ?thesis
  proof cases
    case imm
    then obtain r v where p: "p_dst ?ps = Reg16 r" "R_is_16bit r" "p_src ?ps = Imm16 v" using kindE(2,5) by blast
    obtain k where k: "R_u8 r = Some k" using reg16_index [OF p(2)] by blast
    obtain n where n: "arith_index (command i) = Some n" using ops(9) by blast
    have ps: "?ps = \<lparr>p_dst = Reg16 r, p_src = Imm16 v, p_src2 = NoParam\<rparr>" using p no2 by simp
    show ?thesis
    proof (cases "r = R.AX")
      case True
      then show ?thesis using arith16_ax [OF assms(1)] ops(8) p
        by (intro exI [of _ "(b + 4) # bytes16 v"]) (simp add: encodes_def enc arith_instr16_def assms(1) ps)
    next
      case False
      then show ?thesis using arith16_imm [OF assms(1) p(2) k n] p
        by (intro exI [of _ "[0x81, modrm_of 3 k n] @ bytes16 v"])
          (simp add: encodes_def enc arith_instr16_def assms(1) ps k n)
    qed
  next
    case load
    then obtain r where "p_dst ?ps = Reg16 r" using kindE(2) by blast
    then have "arith_instr16 i = enc_cons [b + 2] (encode_r_rm ?ps)"
      using assms(1) ops(7) load(3) by (cases "p_src ?ps") (simp_all add: arith_instr16_def is_ptr_def)
    then show ?thesis using round_r16_rm16 [OF load(1,2) no2 ops(2) ops(5)] by (auto simp: encodes_def enc)
  next
    case store
    then obtain r where "p_src ?ps = Reg16 r" using kindE(2) by blast
    then have "arith_instr16 i = enc_cons [b] (encode_rm_r ?ps)"
      using assms(1) store(1) by (cases "p_dst ?ps") (simp_all add: arith_instr16_def is_ptr_def rm16_ok_def)
    then show ?thesis using round_rm16_r16 [OF store no2 ops(1) ops(4)] by (auto simp: encodes_def enc)
  qed
qed

lemma arith32_round:
  assumes "arith_base32 (command i) = Some b" "operands32 (params i)"
  shows "\<exists>bs. encodes i Op32bit bs"
proof -
  let ?ps = "params i"
  note ops = arith32_opcodes [OF assms(1)]
  have no2: "p_src2 ?ps = NoParam" and dst: "dword_reg (p_dst ?ps)" using assms(2) by (simp_all add: operands32_def)
  have enc: "encode_command i = arith_instr32 i" by (rule arith32_command [OF assms(1)])
  from dst obtain r where r: "p_dst ?ps = Reg32 r" "R_is_32bit r" using kindE(3) by blast
  consider (imm) "dword_imm (p_src ?ps)" | (reg) "dword_reg (p_src ?ps)" using assms(2) by (auto simp: operands32_def)
  then show ?thesis
  proof cases
    case imm
    then obtain v where v: "p_src ?ps = Imm32 v" using kindE(6) by blast
    obtain k where k: "R_u8 r = Some k" using reg32_index [OF r(2)] by blast
    obtain n where n: "arith_index (command i) = Some n" using ops(6) by blast
    have ps: "?ps = \<lparr>p_dst = Reg32 r, p_src = Imm32 v, p_src2 = NoParam\<rparr>" using r v no2 by simp
    show ?thesis
    proof (cases "r = R.EAX")
      case True
      then show ?thesis using arith32_eax [OF assms(1)] ops(5)
        by (intro exI [of _ "(b + 4) # bytes32 v"]) (simp add: encodes_def enc arith_instr32_def assms(1) ps)
    next
      case False
      then show ?thesis using arith32_imm [OF assms(1) r(2) k n]
        by (intro exI [of _ "[0x81, modrm_of 3 k n] @ bytes32 v"])
          (simp add: encodes_def enc arith_instr32_def assms(1) ps k n)
    qed
  next
    case reg
    then obtain q where "p_src ?ps = Reg32 q" using kindE(3) by blast
    then have "arith_instr32 i = enc_cons [0x66, b] (encode_rm_r ?ps)"
      using assms(1) r by (simp add: arith_instr32_def is_ptr_def)
    then show ?thesis using round_rm32_r32 [OF dst reg no2 ops(1) ops(3)] by (auto simp: encodes_def enc)
  qed
qed

section \<open>The other groups\<close>

lemma simple_cases:
  assumes "enc_simple c = Some b"
  obtains "c = Arith Daa" "b = 0x27"
  | "c = Arith Das" "b = 0x2F"
  | "c = Arith Aaa" "b = 0x37"
  | "c = Arith Aas" "b = 0x3F"
  | "c = Flag Cmc" "b = 0xF5"
  | "c = Flag Clc" "b = 0xF8"
  | "c = Flag Stc" "b = 0xF9"
  | "c = Flag Cli" "b = 0xFA"
  | "c = Flag Sti" "b = 0xFB"
  | "c = Flag Cld" "b = 0xFC"
  | "c = Flag Std" "b = 0xFD"
  | "c = Arith Cbw" "b = 0x98"
  | "c = Arith Cwd16" "b = 0x99"
  | "c = Move Sahf" "b = 0x9E"
  | "c = Move Lahf" "b = 0x9F"
  | "c = Move Nop" "b = 0x90"
  | "c = Move Salc" "b = 0xD6"
  | "c = Move Xlatb" "b = 0xD7"
  | "c = Str Cmpsb" "b = 0xA6"
  | "c = Str Cmpsw" "b = 0xA7"
  | "c = Move Popf" "b = 0x9D"
  using assms
  by (simp add: enc_simple_def split: Op.splits ArithOp.splits MoveOp.splits StringOp.splits FlagOp.splits)

lemma simple_opcodes:
  assumes "enc_simple c = Some b"
  shows "apply_prefix b op = None"
    "op_size op = Op16bit \<Longrightarrow> dec_opcode b d u op = Some (op\<lparr>command := c\<rparr>, d)"
  using assms by (elim simple_cases; hypsubst; simp add: apply_prefix_def opcode_map op_only_def sized_def)+

lemma simple_round:
  assumes "enc_simple (command i) = Some b" "params i = no_params"
  shows "encodes i Op16bit [b]"
proof -
  have "decodes Op16bit (segment_prefix i) [b] (command i) no_params"
    by (rule decodesI) (simp_all add: simple_opcodes [OF assms(1)])
  then show ?thesis using assms by (simp add: encodes_def encode_command_def)
qed

text \<open>Shifts by an immediate count.\<close>

definition shift_no8 :: "Op \<Rightarrow> u8 option" where
  "shift_no8 c = (if c \<in> set [Shift Rol8, Shift Ror8, Shift Rcl8, Shift Rcr8, Shift Shl8, Shift Shr8, Shift Sar8]
     then bitshift_index c else None)"

definition shift_no16 :: "Op \<Rightarrow> u8 option" where
  "shift_no16 c = (if c \<in> set [Shift Rol16, Shift Ror16, Shift Rcl16, Shift Rcr16, Shift Shl16, Shift Shr16, Shift Sar16]
     then bitshift_index c else None)"

definition shift_no32 :: "Op \<Rightarrow> u8 option" where
  "shift_no32 c = (if c \<in> set [Shift Rol32, Shift Ror32, Shift Rcl32, Shift Rcr32, Shift Shl32, Shift Shr32, Shift Sar32]
     then bitshift_index c else None)"

lemma shift_no8:
  assumes "shift_no8 c = Some n"
  shows "bitshift_index c = Some n" "n < 8" "shift_op8 n bad = c" "command i = c \<Longrightarrow> encode_command i = bitshift_instr8 i"
  using assms by (auto simp: shift_no8_def bitshift_index_def shift_op8_def encode_command_def enc_simple_def
      enc_groups_def Let_def split: if_splits)

lemma shift_no16:
  assumes "shift_no16 c = Some n"
  shows "bitshift_index c = Some n" "n < 8" "shift_op16 n bad = c" "command i = c \<Longrightarrow> encode_command i = bitshift_instr16 i"
  using assms by (auto simp: shift_no16_def bitshift_index_def shift_op16_def encode_command_def enc_simple_def
      enc_groups_def Let_def split: if_splits)

lemma shift_no32:
  assumes "shift_no32 c = Some n"
  shows "bitshift_index c = Some n" "n < 8" "shift_op32 n bad = c" "command i = c \<Longrightarrow> encode_command i = bitshift_instr32 i"
  using assms by (auto simp: shift_no32_def bitshift_index_def shift_op32_def encode_command_def enc_simple_def
      enc_groups_def Let_def split: if_splits)

lemma shift8_round:
  assumes "shift_no8 (command i) = Some n" "byte_reg (op_dst i)" "byte_imm (op_src i)" "op_src2 i = NoParam"
  shows "\<exists>bs. encodes i Op16bit bs"
proof -
  from kindE(1) [OF assms(2)] kindE(4) [OF assms(3)] obtain r v where
    p: "op_dst i = Reg8 r" "R_is_8bit r" "op_src i = Imm8 v" by blast
  from reg8_index [OF p(2)] obtain k where k: "R_u8 r = Some k" "k < 8" "r8 k = Some r" by blast
  have ps: "params i = \<lparr>p_dst = Reg8 r, p_src = Imm8 v, p_src2 = NoParam\<rparr>" using p assms(4) by simp
  note n = shift_no8 [OF assms(1)]
  have once: "decodes Op16bit seg [0xD0, modrm_of 3 k n] (command i)
      \<lparr>p_dst = Reg8 r, p_src = Imm8 1, p_src2 = NoParam\<rparr>" for seg
    by (rule decodesI) (auto simp: apply_prefix_def dec_opcode_def dec_D0_D7_def read_modrm k n dec_rm8_def
        op_dst1_def set_src_def set_dst_def no_params_def)
  have more: "decodes Op16bit seg [0xC0, modrm_of 3 k n, v] (command i)
      \<lparr>p_dst = Reg8 r, p_src = Imm8 v, p_src2 = NoParam\<rparr>" for seg
    by (rule decodesI) (auto simp: apply_prefix_def dec_opcode_def dec_C0_C7_def read_modrm k n dec_rm8_def
        op_dst1_def imm8_def set_src_def set_dst_def no_params_def)
  have "bitshift_instr8 i = enc_ok (if v = 1 then [0xD0, modrm_of 3 k n] else [0xC0, modrm_of 3 k n, v])"
    using p k(1) n(1) by (simp add: bitshift_instr8_def)
  then show ?thesis using n(4) [OF refl] once more ps
    by (intro exI [of _ "if v = 1 then [0xD0, modrm_of 3 k n] else [0xC0, modrm_of 3 k n, v]"])
      (simp add: encodes_def)
qed

lemma shift16_round:
  assumes "shift_no16 (command i) = Some n" "word_reg (op_dst i)" "op_src i = Imm8 v" "v \<noteq> 1" "op_src2 i = NoParam"
  shows "\<exists>bs. encodes i Op16bit bs"
proof -
  from kindE(2) [OF assms(2)] obtain r where p: "op_dst i = Reg16 r" "R_is_16bit r" by blast
  from reg16_index [OF p(2)] obtain k where k: "R_u8 r = Some k" "k < 8" "r16 k = Some r" by blast
  have ps: "params i = \<lparr>p_dst = Reg16 r, p_src = Imm8 v, p_src2 = NoParam\<rparr>" using p assms by simp
  note n = shift_no16 [OF assms(1)]
  have "decodes Op16bit seg [0xC1, modrm_of 3 k n, v] (command i)
      \<lparr>p_dst = Reg16 r, p_src = Imm8 v, p_src2 = NoParam\<rparr>" for seg
    by (rule decodesI) (auto simp: apply_prefix_def dec_opcode_def dec_C0_C7_def read_modrm k n dec_rm16_def
        op_dst1_def imm8_def set_src_def set_dst_def no_params_def sized_def)
  then show ?thesis using n(4) [OF refl] ps assms k(1) n(1)
    by (intro exI [of _ "[0xC1, modrm_of 3 k n, v]"]) (simp add: encodes_def bitshift_instr16_def)
qed

lemma shift32_round:
  assumes "shift_no32 (command i) = Some n" "dword_reg (op_dst i)" "op_src i = Imm8 v" "v \<noteq> 1" "op_src2 i = NoParam"
  shows "\<exists>bs. encodes i Op32bit bs"
proof -
  from kindE(3) [OF assms(2)] obtain r where p: "op_dst i = Reg32 r" "R_is_32bit r" by blast
  from reg32_index [OF p(2)] obtain k where k: "R_u8 r = Some k" "k < 8" "r32 k = Some r" by blast
  have ps: "params i = \<lparr>p_dst = Reg32 r, p_src = Imm8 v, p_src2 = NoParam\<rparr>" using p assms by simp
  note n = shift_no32 [OF assms(1)]
  have "decodes Op32bit seg [0xC1, modrm_of 3 k n, v] (command i)
      \<lparr>p_dst = Reg32 r, p_src = Imm8 v, p_src2 = NoParam\<rparr>" for seg
    by (rule decodesI) (auto simp: apply_prefix_def dec_opcode_def dec_C0_C7_def read_modrm k n dec_rm32_def
        op_dst1_def imm8_def set_src_def set_dst_def no_params_def sized_def)
  then show ?thesis using n(4) [OF refl] ps assms k(1) n(1)
    by (intro exI [of _ "[0xC1, modrm_of 3 k n, v]"]) (simp add: encodes_def bitshift_instr32_def)
qed

end
