(* ===== verification/X86_Encoder_Rest.thy ===== *)
theory X86_Encoder_Rest
  imports X86_Encoder_Alu
begin

text \<open>
  The encoder and the decoder together, part two: tests, unary operations, moves, exchanges and the
  opcodes behind 0F.
\<close>

unbundle bit_operations_syntax

lemma rm_reg_modrm: "rm_reg k n = modrm_of 3 k n"
  by (simp add: rm_reg_def modrm_of_def)

section \<open>Unary operations\<close>

definition unary_no8 :: "Op \<Rightarrow> u8 option" where
  "unary_no8 c = (if c \<in> set [Logic Not8, Arith Neg8, Mul Mul8, Mul Imul8, Mul Div8, Mul Idiv8]
     then math_index c else None)"

definition unary_no16 :: "Op \<Rightarrow> u8 option" where
  "unary_no16 c = (if c \<in> set [Logic Not16, Arith Neg16, Mul Mul16, Mul Imul16, Mul Div16, Mul Idiv16]
     then math_index c else None)"

definition unary_no32 :: "Op \<Rightarrow> u8 option" where
  "unary_no32 c = (if c \<in> set [Logic Not32, Arith Neg32, Mul Mul32, Mul Imul32, Mul Div32, Mul Idiv32]
     then math_index c else None)"

lemma unary8_cases:
  assumes "unary_no8 c = Some n"
  obtains "c = Logic Not8" "n = 2" | "c = Arith Neg8" "n = 3" | "c = Mul Mul8" "n = 4" | "c = Mul Imul8" "n = 5"
  | "c = Mul Div8" "n = 6" | "c = Mul Idiv8" "n = 7"
  using assms by (auto simp: unary_no8_def math_index_def split: if_splits)

lemma unary16_cases:
  assumes "unary_no16 c = Some n"
  obtains "c = Logic Not16" "n = 2" | "c = Arith Neg16" "n = 3" | "c = Mul Mul16" "n = 4" | "c = Mul Imul16" "n = 5"
  | "c = Mul Div16" "n = 6" | "c = Mul Idiv16" "n = 7"
  using assms by (auto simp: unary_no16_def math_index_def split: if_splits)

lemma unary32_cases:
  assumes "unary_no32 c = Some n"
  obtains "c = Logic Not32" "n = 2" | "c = Arith Neg32" "n = 3" | "c = Mul Mul32" "n = 4" | "c = Mul Imul32" "n = 5"
  | "c = Mul Div32" "n = 6" | "c = Mul Idiv32" "n = 7"
  using assms by (auto simp: unary_no32_def math_index_def split: if_splits)

lemma unary8_opcode:
  assumes "unary_no8 c = Some n" "read_mod_reg_rm d u = Some (x, d')" "reg x = n"
    "dec_rm8 d' u (segment_prefix op) (rm x) (md x) = Some (p, d'')" "params op = no_params"
  shows "dec_opcode 0xF6 d u op = Some (op\<lparr>command := c, params := no_params\<lparr>p_dst := p\<rparr>\<rparr>, d'')"
  using assms by (elim unary8_cases; hypsubst) (simp_all add: dec_opcode_def dec_Fx_def set_dst_def op_only_def)

lemma unary16_opcode:
  assumes "unary_no16 c = Some n" "op_size op = Op16bit" "read_mod_reg_rm d u = Some (x, d')" "reg x = n"
    "dec_rm16 d' u op (rm x) (md x) = Some (p, d'')" "params op = no_params"
  shows "dec_opcode 0xF7 d u op = Some (op\<lparr>command := c, params := no_params\<lparr>p_dst := p\<rparr>\<rparr>, d'')"
  using assms by (elim unary16_cases; hypsubst) (simp_all add: dec_opcode_def dec_Fx_def set_dst_def op_only_def sized_def)

lemma unary32_opcode:
  assumes "unary_no32 c = Some n" "op_size op = Op32bit" "read_mod_reg_rm d u = Some (x, d')" "reg x = n"
    "dec_rm32 d' u op (rm x) (md x) = Some (p, d'')" "params op = no_params"
  shows "dec_opcode 0xF7 d u op = Some (op\<lparr>command := c, params := no_params\<lparr>p_dst := p\<rparr>\<rparr>, d'')"
  using assms by (elim unary32_cases; hypsubst) (simp_all add: dec_opcode_def dec_Fx_def set_dst_def op_only_def sized_def)

text \<open>One operand: r/m8, r16 or r32.\<close>

definition only_dst :: "ParameterSet \<Rightarrow> bool" where
  "only_dst ps \<longleftrightarrow> p_src ps = NoParam \<and> p_src2 ps = NoParam"

lemma only_dst: "only_dst ps \<Longrightarrow> no_params\<lparr>p_dst := p_dst ps\<rparr> = ps"
  by (simp add: only_dst_def no_params_def)

lemma unary8_round:
  assumes "unary_no8 (command i) = Some n" "rm8_ok (segment_prefix i) (op_dst i)" "only_dst (params i)"
  shows "\<exists>bs. encodes i Op16bit bs"
proof -
  let ?seg = "segment_prefix i"
  have n: "n < 8" "math_index (command i) = Some n" "f6_index (command i) = Some n" "command i \<noteq> Logic Test8"
    "encode_command i = math_instr8 i"
    using assms(1) by (elim unary8_cases; simp add: math_index_def f6_index_def encode_command_def
        enc_simple_def enc_groups_def Let_def)+
  from operand8 [OF assms(2)] obtain m r ds where c: "operand_code (op_dst i) = Some (m, r, ds)" "m < 4" "r < 8"
    "\<forall>d u. stored d u ds \<longrightarrow> dec_rm8 d u ?seg r m = Some (op_dst i, skip (length ds) d)" by blast
  have "decodes Op16bit ?seg (0xF6 # modrm_of m r n # ds) (command i) (params i)"
    by (rule decodesI) (use c n(1) only_dst [OF assms(3)] in \<open>auto simp: apply_prefix_def read_modrm
        intro!: trans [OF unary8_opcode [OF assms(1)]]\<close>)
  moreover have "math_instr8 i = enc_ok (0xF6 # modrm_of m r n # ds)"
    using assms(2) c(1) n by (cases "op_dst i") (auto simp: math_instr8_def rm8_ok_def operand_code_def
        encode_rm_code enc_cons_def enc_ok_def rm_reg_def modrm_of_def)
  ultimately show ?thesis using n(5) by (auto simp: encodes_def)
qed

lemma unary16_round:
  assumes "unary_no16 (command i) = Some n" "word_reg (op_dst i)" "only_dst (params i)"
  shows "\<exists>bs. encodes i Op16bit bs"
proof -
  have n: "n < 8" "math_index (command i) = Some n" "command i \<noteq> Logic Test16" "encode_command i = math_instr16 i"
    using assms(1) by (elim unary16_cases; simp add: math_index_def encode_command_def enc_simple_def
        enc_groups_def Let_def)+
  from kindE(2) [OF assms(2)] obtain r where r: "op_dst i = Reg16 r" "R_is_16bit r" by blast
  from reg16_index [OF r(2)] obtain k where k: "R_u8 r = Some k" "k < 8" "r16 k = Some r" by blast
  have "decodes Op16bit (segment_prefix i) [0xF7, modrm_of 3 k n] (command i) (params i)"
    by (rule decodesI) (use n(1) k r(1) only_dst [OF assms(3)] in \<open>auto simp: apply_prefix_def read_modrm
        dec_rm16_def intro!: trans [OF unary16_opcode [OF assms(1)]]\<close>)
  moreover have "math_instr16 i = enc_ok [0xF7, modrm_of 3 k n]"
    using assms(3) r k(1) n by (simp add: math_instr16_def only_dst_def rm_reg_def modrm_of_def)
  ultimately show ?thesis using n(4) by (auto simp: encodes_def)
qed

lemma unary32_round:
  assumes "unary_no32 (command i) = Some n" "dword_reg (op_dst i)" "only_dst (params i)"
  shows "\<exists>bs. encodes i Op32bit bs"
proof -
  have n: "n < 8" "math_index (command i) = Some n" "command i \<noteq> Logic Test32" "encode_command i = math_instr32 i"
    using assms(1) by (elim unary32_cases; simp add: math_index_def encode_command_def enc_simple_def
        enc_groups_def Let_def)+
  from kindE(3) [OF assms(2)] obtain r where r: "op_dst i = Reg32 r" "R_is_32bit r" by blast
  from reg32_index [OF r(2)] obtain k where k: "R_u8 r = Some k" "k < 8" "r32 k = Some r" by blast
  have "decodes Op32bit (segment_prefix i) [0xF7, modrm_of 3 k n] (command i) (params i)"
    by (rule decodesI) (use n(1) k r(1) only_dst [OF assms(3)] in \<open>auto simp: apply_prefix_def read_modrm
        dec_rm32_def intro!: trans [OF unary32_opcode [OF assms(1)]]\<close>)
  moreover have "math_instr32 i = enc_ok [0x66, 0xF7, modrm_of 3 k n]"
    using assms(3) r k(1) n by (simp add: math_instr32_def only_dst_def rm_reg_def modrm_of_def)
  ultimately show ?thesis using n(4)
    by (intro exI [of _ "[0xF7, modrm_of 3 k n]"]) (simp add: encodes_def)
qed

section \<open>Tests\<close>

lemma test8_round:
  assumes "command i = Logic Test8" "op_src2 i = NoParam"
    "byte_reg (op_dst i) \<and> byte_imm (op_src i) \<or> rm8_ok (segment_prefix i) (op_dst i) \<and> byte_reg (op_src i)"
  shows "\<exists>bs. encodes i Op16bit bs"
proof -
  let ?ps = "params i" let ?seg = "segment_prefix i"
  have enc: "encode_command i = math_instr8 i"
    using assms(1) by (simp add: encode_command_def enc_simple_def enc_groups_def Let_def)
  show ?thesis
  proof (cases "byte_reg (op_dst i) \<and> byte_imm (op_src i)")
    case True
    then obtain r v where p: "p_dst ?ps = Reg8 r" "R_is_8bit r" "p_src ?ps = Imm8 v" using kindE(1,4) by blast
    obtain k where k: "R_u8 r = Some k" "k < 8" "r8 k = Some r" using reg8_index [OF p(2)] by blast
    let ?bs = "if r = R.AL then [0xA8, v] else [0xF6, modrm_of 3 k 0, v]"
    have "decodes Op16bit ?seg ?bs (Logic Test8) \<lparr>p_dst = Reg8 r, p_src = Imm8 v, p_src2 = NoParam\<rparr>"
      by (auto intro!: decodesI simp: apply_prefix_def dec_opcode_def dec_Ax_def dec_Fx_def op_dst_src_def
          imm8_def set_src_def set_dst_def no_params_def read_modrm k dec_rm8_def)
    moreover have "?ps = \<lparr>p_dst = Reg8 r, p_src = Imm8 v, p_src2 = NoParam\<rparr>" using p assms(2) by simp
    ultimately show ?thesis using assms(1) p k(1)
      by (intro exI [of _ ?bs]) (simp add: encodes_def enc math_instr8_def math_index_def rm_reg_modrm)
  next
    case False
    then have o: "rm8_ok ?seg (p_dst ?ps)" "byte_reg (p_src ?ps)" using assms(3) by blast+
    then obtain r where "p_src ?ps = Reg8 r" using kindE(1) by blast
    then have "math_instr8 i = enc_cons [0x84] (encode_rm_r ?ps)"
      using assms(1) o(1) by (cases "p_dst ?ps") (simp_all add: math_instr8_def rm8_ok_def)
    moreover have "\<exists>bs. enc_cons [0x84] (encode_rm_r ?ps) = enc_ok (0x84 # bs) \<and>
        decodes Op16bit ?seg (0x84 # bs) (Logic Test8) ?ps"
      by (rule round_rm8_r8 [OF o assms(2)]) (simp_all add: apply_prefix_def dec_opcode_def dec_8x_def)
    ultimately show ?thesis using assms(1) by (auto simp: encodes_def enc)
  qed
qed

section \<open>Increment and decrement\<close>

lemma incdec8_round:
  assumes "command i \<in> set [Arith Inc8, Arith Dec8]" "rm8_ok (segment_prefix i) (op_dst i)" "only_dst (params i)"
  shows "\<exists>bs. encodes i Op16bit bs"
proof -
  let ?seg = "segment_prefix i"
  let ?n = "if command i = Arith Inc8 then 0 else 1 :: u8"
  have enc: "encode_command i = enc_cons [0xFE] (encode_rm (op_dst i) ?n)"
    using assms(1) by (auto simp: encode_command_def enc_simple_def enc_IncDec8_def feff_index_def)
  from operand8 [OF assms(2)] obtain m r ds where c: "operand_code (op_dst i) = Some (m, r, ds)" "m < 4" "r < 8"
    "\<forall>d u. stored d u ds \<longrightarrow> dec_rm8 d u ?seg r m = Some (op_dst i, skip (length ds) d)" by blast
  have "decodes Op16bit ?seg (0xFE # modrm_of m r ?n # ds) (command i) (params i)"
    using assms(1) by (intro decodesI) (use c only_dst [OF assms(3)] in \<open>auto simp: apply_prefix_def read_modrm
        dec_opcode_def dec_Fx_def op_dst1_def set_dst_def split: if_splits\<close>)
  then show ?thesis using c(1) by (auto simp: encodes_def enc encode_rm_code enc_cons_def enc_ok_def)
qed

text \<open>Opcodes with a register in their low three bits.\<close>

lemma less8_cases:
  assumes "k < 8"
  obtains "k = 0" | "k = 1" | "k = 2" | "k = 3" | "k = 4" | "k = 5" | "k = 6" | "k = (7 :: u8)"
proof -
  have "unat k < 8" using assms by (simp add: word_less_nat_alt)
  moreover have "k = of_nat (unat k)" by simp
  ultimately have "k \<in> of_nat ` {..<8}" by blast
  also have "\<dots> = {0, 1, 2, 3, 4, 5, 6, 7}" by (simp add: lessThan_nat_numeral lessThan_Suc insert_commute)
  finally show thesis using that by blast
qed

lemma low_register_opcodes:
  assumes "k < 8"
  shows "apply_prefix (0x40 OR k) op = None" "apply_prefix (0x48 OR k) op = None" "apply_prefix (0x58 + k) op = None"
    "apply_prefix (0xB0 OR k) op = None" "apply_prefix (0xB8 OR k) op = None"
    "dec_opcode (0x40 OR k) d u op = sized op
       (op_dst1 (Arith Inc16) op (map_option (\<lambda>r. (Reg16 r, d)) (r16 k)))
       (op_dst1 (Arith Inc32) op (map_option (\<lambda>r. (Reg32 r, d)) (r32 k)))"
    "dec_opcode (0x48 OR k) d u op = sized op
       (op_dst1 (Arith Dec16) op (map_option (\<lambda>r. (Reg16 r, d)) (r16 k)))
       (op_dst1 (Arith Dec32) op (map_option (\<lambda>r. (Reg32 r, d)) (r32 k)))"
    "dec_opcode (0x58 + k) d u op = sized op
       (op_dst1 (Move Pop16) op (map_option (\<lambda>r. (Reg16 r, d)) (r16 k)))
       (op_dst1 (Move Pop32) op (map_option (\<lambda>r. (Reg32 r, d)) (r32 k)))"
    "dec_opcode (0xB0 OR k) d u op = do { r \<leftarrow> r8 k; op_dst_src (Move Mov8) op (Reg8 r) (imm8 d u) }"
    "dec_opcode (0xB8 OR k) d u op = sized op
       (do { r \<leftarrow> r16 k; op_dst_src (Move Mov16) op (Reg16 r) (imm16 d u) })
       (do { r \<leftarrow> r32 k; op_dst_src (Move Mov32) op (Reg32 r) (imm32 d u) })"
    "add_chk 0x58 k = Some (0x58 + k)"
  using assms by (elim less8_cases; hypsubst; simp add: apply_prefix_def dec_opcode_def dec_4x_6x_def
    dec_Bx_def add_chk_def)+

lemma incdec16_round:
  assumes "command i \<in> set [Arith Inc16, Arith Dec16]" "rm16_ok (segment_prefix i) (op_dst i)" "only_dst (params i)"
  shows "\<exists>bs. encodes i Op16bit bs"
proof -
  let ?seg = "segment_prefix i"
  let ?n = "if command i = Arith Inc16 then 0 else 1 :: u8"
  let ?b = "if command i = Arith Inc16 then 0x40 else 0x48 :: u8"
  have enc: "encode_command i = enc_IncDec16 i"
    using assms(1) by (auto simp: encode_command_def enc_simple_def)
  show ?thesis
  proof (cases "word_reg (op_dst i)")
    case True
    then obtain r where r: "op_dst i = Reg16 r" "R_is_16bit r" using kindE(2) by blast
    from reg16_index [OF r(2)] obtain k where k: "R_u8 r = Some k" "k < 8" "r16 k = Some r" by blast
    have "decodes Op16bit ?seg [?b OR k] (command i) (params i)"
      using assms(1) by (intro decodesI) (use k(3) r(1) low_register_opcodes [OF k(2)] only_dst [OF assms(3)]
        in \<open>auto simp: sized_def op_dst1_def set_dst_def\<close>)
    then show ?thesis using assms(1) r k(1)
      by (intro exI [of _ "[?b OR k]"]) (auto simp: encodes_def enc enc_IncDec16_def)
  next
    case False
    have "enc_IncDec16 i = enc_cons [0xFF] (encode_rm (op_dst i) ?n)"
      using False assms(1,2) by (cases "op_dst i") (auto simp: rm16_ok_def enc_IncDec16_def feff_index_def word_reg_def)
    moreover from operand16 [OF assms(2)] obtain m r ds where c: "operand_code (op_dst i) = Some (m, r, ds)"
      "m < 4" "r < 8" "\<forall>d u op. stored d u ds \<and> segment_prefix op = ?seg \<and> address_size op = A16bit \<longrightarrow>
        dec_rm16 d u op r m = Some (op_dst i, skip (length ds) d)" by blast
    have "decodes Op16bit ?seg (0xFF # modrm_of m r ?n # ds) (command i) (params i)"
      using assms(1) by (intro decodesI) (use c only_dst [OF assms(3)] in \<open>auto simp: apply_prefix_def read_modrm
          dec_opcode_def dec_Fx_def op_dst1_def set_dst_def sized_def split: if_splits\<close>)
    ultimately show ?thesis using c(1) by (auto simp: encodes_def enc encode_rm_code enc_cons_def enc_ok_def)
  qed
qed

lemma incdec32_round:
  assumes "command i \<in> set [Arith Inc32, Arith Dec32]" "dword_reg (op_dst i)" "only_dst (params i)"
  shows "\<exists>bs. encodes i Op32bit bs"
proof -
  let ?b = "if command i = Arith Inc32 then 0x40 else 0x48 :: u8"
  from assms(2) obtain r where r: "op_dst i = Reg32 r" "R_is_32bit r" using kindE(3) by blast
  from reg32_index [OF r(2)] obtain k where k: "R_u8 r = Some k" "k < 8" "r32 k = Some r" by blast
  have "decodes Op32bit (segment_prefix i) [?b OR k] (command i) (params i)"
    using assms(1) by (intro decodesI) (use k(3) r(1) low_register_opcodes [OF k(2)] only_dst [OF assms(3)]
      in \<open>auto simp: sized_def op_dst1_def set_dst_def\<close>)
  then show ?thesis using assms(1) r k(1)
    by (intro exI [of _ "[?b OR k]"])
      (auto simp: encodes_def encode_command_def enc_simple_def enc_IncDec32_def)
qed

section \<open>Moves and the stack\<close>

lemma pop16_round:
  assumes "command i = Move Pop16" "word_reg (op_dst i)" "only_dst (params i)"
  shows "\<exists>bs. encodes i Op16bit bs"
proof -
  from assms(2) obtain r where r: "op_dst i = Reg16 r" "R_is_16bit r" using kindE(2) by blast
  from reg16_index [OF r(2)] obtain k where k: "R_u8 r = Some k" "k < 8" "r16 k = Some r" by blast
  note ops = low_register_opcodes [OF k(2)]
  have "decodes Op16bit (segment_prefix i) [0x58 + k] (Move Pop16) (params i)"
    by (rule decodesI) (use k(3) r(1) ops only_dst [OF assms(3)] in \<open>auto simp: sized_def op_dst1_def set_dst_def\<close>)
  then show ?thesis using assms(1) r k(1) ops(11)
    by (intro exI [of _ "[0x58 + k]"]) (simp add: encodes_def encode_command_def enc_simple_def enc_Pop16_def)
qed

lemma push16_round:
  assumes "command i = Move Push16" "word_imm (op_dst i)" "only_dst (params i)"
  shows "\<exists>bs. encodes i Op16bit bs"
proof -
  from assms(2) obtain v where v: "op_dst i = Imm16 v" using kindE(5) by blast
  have "decodes Op16bit (segment_prefix i) (0x68 # bytes16 v) (Move Push16) (params i)"
    by (rule decodesI) (use v only_dst [OF assms(3)] in \<open>auto simp: apply_prefix_def dec_opcode_def
        dec_4x_6x_def op_dst1_def set_dst_def imm16_def read_u16\<close>)
  then show ?thesis using assms(1) v
    by (intro exI [of _ "0x68 # bytes16 v"]) (simp add: encodes_def encode_command_def enc_simple_def enc_Push16_def)
qed

lemma mov16_round:
  assumes "command i = Move Mov16" "word_reg (op_dst i)" "word_imm (op_src i)" "op_src2 i = NoParam"
  shows "\<exists>bs. encodes i Op16bit bs"
proof -
  from assms(2,3) obtain r v where r: "op_dst i = Reg16 r" "R_is_16bit r" "op_src i = Imm16 v" using kindE(2,5) by blast
  from reg16_index [OF r(2)] obtain k where k: "R_u8 r = Some k" "k < 8" "r16 k = Some r" by blast
  have ps: "params i = \<lparr>p_dst = Reg16 r, p_src = Imm16 v, p_src2 = NoParam\<rparr>" using r assms(4) by simp
  have "decodes Op16bit (segment_prefix i) ((0xB8 OR k) # bytes16 v) (Move Mov16) (params i)" unfolding ps
    by (rule decodesI) (use k(3) low_register_opcodes [OF k(2)] in \<open>auto simp: sized_def op_dst_src_def
        set_dst_def set_src_def imm16_def read_u16 no_params_def\<close>)
  then show ?thesis using assms(1) r k(1)
    by (intro exI [of _ "(0xB8 OR k) # bytes16 v"])
      (simp add: encodes_def encode_command_def enc_simple_def enc_Mov16_def is_imm_def)
qed

lemma mov32_round:
  assumes "command i = Move Mov32" "dword_reg (op_dst i)" "dword_imm (op_src i)" "op_src2 i = NoParam"
  shows "\<exists>bs. encodes i Op32bit bs"
proof -
  from assms(2,3) obtain r v where r: "op_dst i = Reg32 r" "R_is_32bit r" "op_src i = Imm32 v" using kindE(3,6) by blast
  from reg32_index [OF r(2)] obtain k where k: "R_u8 r = Some k" "k < 8" "r32 k = Some r" by blast
  have ps: "params i = \<lparr>p_dst = Reg32 r, p_src = Imm32 v, p_src2 = NoParam\<rparr>" using r assms(4) by simp
  have "decodes Op32bit (segment_prefix i) ((0xB8 OR k) # bytes32 v) (Move Mov32) (params i)" unfolding ps
    by (rule decodesI) (use k(3) low_register_opcodes [OF k(2)] in \<open>auto simp: sized_def op_dst_src_def
        set_dst_def set_src_def imm32_def read_u32 no_params_def\<close>)
  then show ?thesis using assms(1) r k(1)
    by (intro exI [of _ "(0xB8 OR k) # bytes32 v"])
      (simp add: encodes_def encode_command_def enc_simple_def enc_Mov32_def is_imm_def)
qed

lemma R_as_u8_index: "R_is_8bit r \<Longrightarrow> R_u8 r = Some k \<Longrightarrow> R_as_u8 r = k"
  by (cases r) (simp_all add: R_is_8bit_def R_as_u8_def R_u8_def R_index_def)

lemma mov8_round:
  assumes "command i = Move Mov8" "operands8 (segment_prefix i) (params i)"
  shows "\<exists>bs. encodes i Op16bit bs"
proof -
  let ?ps = "params i" let ?seg = "segment_prefix i"
  have enc: "encode_command i = enc_Mov8 i" using assms(1) by (simp add: encode_command_def enc_simple_def)
  have no2: "p_src2 ?ps = NoParam" using assms(2) by (simp add: operands8_def)
  consider (imm) "byte_reg (p_dst ?ps)" "byte_imm (p_src ?ps)"
    | (al_from) v where "p_dst ?ps = Reg8 R.AL" "p_src ?ps = Ptr8 ?seg v"
    | (load) "byte_reg (p_dst ?ps)" "rm8_ok ?seg (p_src ?ps)" "is_ptr (p_src ?ps)"
        "\<not> (p_dst ?ps = Reg8 R.AL \<and> (\<exists>v. p_src ?ps = Ptr8 ?seg v))"
    | (al_to) v where "p_dst ?ps = Ptr8 ?seg v" "p_src ?ps = Reg8 R.AL"
    | (store) "rm8_ok ?seg (p_dst ?ps)" "byte_reg (p_src ?ps)"
        "\<not> (p_src ?ps = Reg8 R.AL \<and> (\<exists>v. p_dst ?ps = Ptr8 ?seg v))"
  proof -
    have "byte_reg p \<Longrightarrow> rm8_ok ?seg p" for p by (auto simp: rm8_ok_def dest!: kindE(1))
    then show ?thesis using that assms(2) rm8_shape [of ?seg "p_src ?ps"] unfolding operands8_def by blast
  qed
  then show ?thesis
  proof cases
    case imm
    then obtain r v where p: "p_dst ?ps = Reg8 r" "R_is_8bit r" "p_src ?ps = Imm8 v" using kindE(1,4) by blast
    obtain k where k: "R_u8 r = Some k" "k < 8" "r8 k = Some r" using reg8_index [OF p(2)] by blast
    have ps: "?ps = \<lparr>p_dst = Reg8 r, p_src = Imm8 v, p_src2 = NoParam\<rparr>" using p no2 by simp
    have "decodes Op16bit ?seg [0xB0 OR k, v] (Move Mov8) ?ps" unfolding ps
      by (rule decodesI) (use k(3) low_register_opcodes [OF k(2)] in \<open>auto simp: op_dst_src_def
          set_dst_def set_src_def imm8_def no_params_def\<close>)
    then show ?thesis using assms(1) p R_as_u8_index [OF p(2) k(1)]
      by (intro exI [of _ "[0xB0 OR k, v]"]) (simp add: encodes_def enc enc_Mov8_def)
  next
    case al_from
    have ps: "?ps = \<lparr>p_dst = Reg8 R.AL, p_src = Ptr8 ?seg v, p_src2 = NoParam\<rparr>" using al_from no2 by simp
    have "decodes Op16bit ?seg (0xA0 # bytes16 v) (Move Mov8) ?ps"
      by (subst ps, rule decodesI) (auto simp: apply_prefix_def dec_opcode_def dec_Ax_def op_dst_src_def moffs_def
          set_dst_def set_src_def read_u16 no_params_def)
    then show ?thesis using assms(1) al_from
      by (intro exI [of _ "0xA0 # bytes16 v"]) (simp add: encodes_def enc enc_Mov8_def)
  next
    case load
    then obtain r where "p_dst ?ps = Reg8 r" using kindE(1) by blast
    then have "enc_Mov8 i = enc_cons [0x8A] (encode_r_rm ?ps)"
      using load(2,3,4) by (cases "p_src ?ps") (auto simp: enc_Mov8_def is_ptr_def rm8_ok_def)
    moreover have "\<exists>bs. enc_cons [0x8A] (encode_r_rm ?ps) = enc_ok (0x8A # bs) \<and>
        decodes Op16bit ?seg (0x8A # bs) (Move Mov8) ?ps"
      by (rule round_r8_rm8 [OF load(1,2) no2]) (simp_all add: apply_prefix_def dec_opcode_def dec_8x_def)
    ultimately show ?thesis using assms(1) by (auto simp: encodes_def enc)
  next
    case al_to
    have ps: "?ps = \<lparr>p_dst = Ptr8 ?seg v, p_src = Reg8 R.AL, p_src2 = NoParam\<rparr>" using al_to no2 by simp
    have "decodes Op16bit ?seg (0xA2 # bytes16 v) (Move Mov8) ?ps"
      by (subst ps, rule decodesI) (auto simp: apply_prefix_def dec_opcode_def dec_Ax_def op_dst1_def moffs_def
          set_dst_def set_src_def read_u16 no_params_def)
    then show ?thesis using assms(1) al_to
      by (intro exI [of _ "0xA2 # bytes16 v"]) (simp add: encodes_def enc enc_Mov8_def)
  next
    case store
    then obtain r where "p_src ?ps = Reg8 r" using kindE(1) by blast
    then have "enc_Mov8 i = enc_cons [0x88] (encode_rm_r ?ps)"
      using store(1,3) by (cases "p_dst ?ps") (auto simp: enc_Mov8_def is_ptr_def rm8_ok_def)
    moreover have "\<exists>bs. enc_cons [0x88] (encode_rm_r ?ps) = enc_ok (0x88 # bs) \<and>
        decodes Op16bit ?seg (0x88 # bs) (Move Mov8) ?ps"
      by (rule round_rm8_r8 [OF store(1,2) no2]) (simp_all add: apply_prefix_def dec_opcode_def dec_8x_def)
    ultimately show ?thesis using assms(1) by (auto simp: encodes_def enc)
  qed
qed

text \<open>A byte operand alone.\<close>

lemma byte_operand_round:
  assumes "command i \<in> set [Flow IntN, Arith Aad, Arith Aam]" "byte_imm (op_dst i)" "only_dst (params i)"
  shows "\<exists>bs. encodes i Op16bit bs"
proof -
  from assms(2) obtain v where v: "op_dst i = Imm8 v" using kindE(4) by blast
  let ?bs = "if command i = Arith Aad then [0xD5, v] else if command i = Arith Aam then [0xD4, v]
    else if v = 1 then [0xF1] else if v = 3 then [0xCC] else [0xCD, v]"
  have "decodes Op16bit (segment_prefix i) ?bs (command i) (params i)"
    using assms(1) v only_dst [OF assms(3)] by (auto intro!: decodesI simp: apply_prefix_def dec_opcode_def
        dec_Fx_def dec_C8_CF_def dec_D0_D7_def op_dst1_def set_dst_def imm8_def)
  then show ?thesis using assms(1) v
    by (intro exI [of _ ?bs]) (auto simp: encodes_def encode_command_def enc_simple_def enc_Int_def enc_Aad_def enc_Aam_def)
qed

section \<open>Exchanges and the opcodes behind 0F\<close>

lemma xchg8_round:
  assumes "command i = Move Xchg8" "rm8_ok (segment_prefix i) (op_dst i)" "byte_reg (op_src i)" "op_src2 i = NoParam"
  shows "\<exists>bs. encodes i Op16bit bs"
proof -
  have "\<exists>bs. enc_cons [0x86] (encode_rm_r (params i)) = enc_ok (0x86 # bs) \<and>
      decodes Op16bit (segment_prefix i) (0x86 # bs) (Move Xchg8) (params i)"
    by (rule round_rm8_r8 [OF assms(2,3,4)]) (simp_all add: apply_prefix_def dec_opcode_def dec_8x_def)
  then show ?thesis using assms(1) by (auto simp: encodes_def encode_command_def enc_simple_def enc_Xchg8_def)
qed

text \<open>The word exchange: an accumulator destination takes the short form, an accumulator source does not survive.\<close>

lemma xchg16_round:
  assumes "command i = Move Xchg16" "word_reg (op_dst i)" "word_reg (op_src i)" "op_src2 i = NoParam"
    "op_src i \<noteq> Reg16 R.AX"
  shows "\<exists>bs. encodes i Op16bit bs"
proof -
  let ?seg = "segment_prefix i"
  from kindE(2) [OF assms(2)] kindE(2) [OF assms(3)] obtain q r where
    p: "op_dst i = Reg16 q" "R_is_16bit q" "op_src i = Reg16 r" "R_is_16bit r" by blast
  have ps: "params i = \<lparr>p_dst = Reg16 q, p_src = Reg16 r, p_src2 = NoParam\<rparr>" using p assms(4) by simp
  from reg16_index [OF p(4)] obtain k where k: "R_u8 r = Some k" "k < 8" "r16 k = Some r" by blast
  have enc: "encode_command i = enc_Xchg16 i" using assms(1) by (simp add: encode_command_def enc_simple_def)
  show ?thesis
  proof (cases "q = R.AX")
    case True
    have "k \<noteq> 0" using k(3) assms(5) p(3) by (auto simp: r16_def)
    with k(2) have "apply_prefix (0x90 + k) op = None" "add_chk 0x90 k = Some (0x90 + k)"
      "dec_opcode (0x90 + k) d u op = sized op
        (op_dst_src (Move Xchg16) op (Reg16 R.AX) (map_option (\<lambda>r. (Reg16 r, d)) (r16 k)))
        (op_dst_src (Move Xchg32) op (Reg32 R.EAX) (map_option (\<lambda>r. (Reg32 r, d)) (r32 k)))" for d u op
      by (elim less8_cases; hypsubst; simp add: apply_prefix_def dec_opcode_def dec_9x_def add_chk_def)+
    note ops = this
    have "decodes Op16bit ?seg [0x90 + k] (Move Xchg16) (params i)"
      by (subst ps, rule decodesI) (use k(3) True ops in \<open>auto simp: sized_def op_dst_src_def set_dst_def
          set_src_def no_params_def\<close>)
    then show ?thesis using assms(1) p True k(1) ops(2)
      by (intro exI [of _ "[0x90 + k]"]) (simp add: encodes_def enc enc_Xchg16_def)
  next
    case False
    have "enc_Xchg16 i = enc_cons [0x87] (encode_rm_r (params i))"
      using False p assms(5) by (simp add: enc_Xchg16_def)
    moreover from pair_rm16_r16 [of ?seg "Reg16 q" r NoParam] p obtain bs where
      bs: "encode_rm_r (params i) = Some bs" "\<forall>d u op. stored d u bs \<and> segment_prefix op = ?seg \<and>
        address_size op = A16bit \<longrightarrow> dec_rm16_r16 d u op = Some (params i, skip (length bs) d)"
      by (auto simp: ps rm16_ok_def)
    have "decodes Op16bit ?seg (0x87 # bs) (Move Xchg16) (params i)"
      by (rule decodesI) (use bs(2) in \<open>auto simp: apply_prefix_def dec_opcode_def dec_8x_def op_params_def\<close>)
    ultimately show ?thesis using assms(1) bs(1) by (auto simp: encodes_def enc enc_cons_def enc_ok_def)
  qed
qed

lemma decodes_0F:
  assumes "\<And>d u op. \<lbrakk>stored d u (b2 # rest); op_size op = sz; segment_prefix op = seg; address_size op = A16bit;
      params op = no_params\<rbrakk> \<Longrightarrow>
      dec_0F 0x0F d u op = Some (op\<lparr>command := c, params := ps\<rparr>, skip (Suc (length rest)) d)"
  shows "decodes sz seg (0x0F # b2 # rest) c ps"
  by (rule decodesI) (use assms in \<open>simp_all add: apply_prefix_def dec_opcode_def\<close>)

text \<open>The pairs r/m16, r16 and r16, r/m16.\<close>

lemma rm16_pair_round:
  assumes "command i = Logic Bt" "rm16_ok (segment_prefix i) (op_dst i)" "word_reg (op_src i)" "op_src2 i = NoParam"
  shows "\<exists>bs. encodes i Op16bit bs"
proof -
  from kindE(2) [OF assms(3)] obtain r where r: "op_src i = Reg16 r" "R_is_16bit r" by blast
  have ps: "params i = \<lparr>p_dst = op_dst i, p_src = Reg16 r, p_src2 = NoParam\<rparr>" using r assms(4) by simp
  from pair_rm16_r16 [OF assms(2) r(2), of NoParam] obtain bs where
    bs: "encode_rm_r (params i) = Some bs" "\<forall>d u op. stored d u bs \<and> segment_prefix op = segment_prefix i \<and>
      address_size op = A16bit \<longrightarrow> dec_rm16_r16 d u op = Some (params i, skip (length bs) d)"
    by (metis ps)
  have "decodes Op16bit (segment_prefix i) (0x0F # 0xA3 # bs) (Logic Bt) (params i)"
    by (rule decodes_0F) (use bs(2) in \<open>auto simp: dec_0F_def op_params_def\<close>)
  then show ?thesis using assms(1) bs(1)
    by (auto simp: encodes_def encode_command_def enc_simple_def enc_Bt_def enc_cons_def enc_ok_def)
qed

lemma double_shift_round:
  assumes "command i \<in> set [Shift Shld, Shift Shrd]" "rm16_ok (segment_prefix i) (op_dst i)" "word_reg (op_src i)"
    "byte_imm (op_src2 i)"
  shows "\<exists>bs. encodes i Op16bit bs"
proof -
  let ?ps = "params i"
  from kindE(2) [OF assms(3)] kindE(4) [OF assms(4)] obtain r v where
    r: "op_src i = Reg16 r" "R_is_16bit r" "op_src2 i = Imm8 v" by blast
  from pair_rm16_r16 [OF assms(2) r(2), of NoParam] obtain bs where
    bs: "encode_rm_r \<lparr>p_dst = op_dst i, p_src = Reg16 r, p_src2 = NoParam\<rparr> = Some bs"
    "\<forall>d u op. stored d u bs \<and> segment_prefix op = segment_prefix i \<and> address_size op = A16bit \<longrightarrow>
      dec_rm16_r16 d u op = Some (\<lparr>p_dst = op_dst i, p_src = Reg16 r, p_src2 = NoParam\<rparr>, skip (length bs) d)"
    by blast
  let ?b = "if command i = Shift Shld then 0xA4 else 0xAC :: u8"
  have ps: "?ps = \<lparr>p_dst = op_dst i, p_src = Reg16 r, p_src2 = Imm8 v\<rparr>" using r by simp
  have "decodes Op16bit (segment_prefix i) (0x0F # ?b # bs @ [v]) (command i) ?ps"
    by (rule decodes_0F)
      (use bs(2) assms(1) in \<open>auto simp: dec_0F_def op_params_def imm8_def set_src2_def ps [symmetric]\<close>)
  moreover have "encode_rm_r_imm ?ps = Some (bs @ [v])" using bs(1) r by (simp add: encode_rm_r_imm_def encode_rm_r_def)
  ultimately show ?thesis using assms(1)
    by (intro exI [of _ "0x0F # ?b # bs @ [v]"])
      (auto simp: encodes_def encode_command_def enc_simple_def enc_Shld_def enc_Shrd_def enc_cons_def enc_ok_def)
qed

lemma r16_rm16_round:
  assumes "command i \<in> set [Logic Bsf, Move Lea16, Mul Imul16]" "word_reg (op_dst i)"
    "rm16_ok (segment_prefix i) (op_src i)" "op_src2 i = NoParam" "command i = Mul Imul16 \<Longrightarrow> word_reg (op_src i)"
  shows "\<exists>bs. encodes i Op16bit bs"
proof -
  let ?seg = "segment_prefix i"
  from kindE(2) [OF assms(2)] obtain r where r: "op_dst i = Reg16 r" "R_is_16bit r" by blast
  have ps: "params i = \<lparr>p_dst = Reg16 r, p_src = op_src i, p_src2 = NoParam\<rparr>" using r assms(4) by simp
  from pair_r16_rm16 [OF assms(3) r(2), of NoParam] obtain bs where
    bs: "encode_r_rm (params i) = Some bs" "\<forall>d u op. stored d u bs \<and> segment_prefix op = ?seg \<and>
      address_size op = A16bit \<longrightarrow> dec_r16_rm16 d u op = Some (params i, skip (length bs) d)"
    by (metis ps)
  have lea: "dec_r16_m16 d u op = dec_r16_rm16 d u op" for d u op by (simp add: dec_r16_m16_def dec_r16_rm16_def)
  have "decodes Op16bit ?seg (0x0F # 0xBC # bs) (Logic Bsf) (params i)"
    by (rule decodes_0F) (use bs(2) in \<open>auto simp: dec_0F_def op_params_def\<close>)
  moreover have "decodes Op16bit ?seg (0x8D # bs) (Move Lea16) (params i)"
    by (rule decodesI) (use bs(2) in \<open>auto simp: apply_prefix_def dec_opcode_def dec_8x_def op_params_def lea\<close>)
  moreover have "decodes Op16bit ?seg (0x0F # 0xAF # bs) (Mul Imul16) (params i)"
    by (rule decodes_0F) (use bs(2) in \<open>auto simp: dec_0F_def op_params_def prefixed_16_32_r_rm_def sized_def\<close>)
  moreover have "encode_command i = enc_ok (0x0F # 0xAF # bs)" if "command i = Mul Imul16"
    using that bs(1) kindE(2) [OF assms(5) [OF that]] assms(4)
    by (auto simp: encode_command_def enc_simple_def enc_groups_def Let_def math_instr16_def enc_cons_def enc_ok_def)
  ultimately show ?thesis using assms(1) bs(1)
    by (auto simp: encodes_def encode_command_def enc_simple_def enc_Bsf_def enc_Lea16_def enc_cons_def enc_ok_def)
qed

lemma extend16_round:
  assumes "command i \<in> set [Move Movsx16, Move Movzx16]" "word_reg (op_dst i)"
    "rm8_ok (segment_prefix i) (op_src i)" "op_src2 i = NoParam"
  shows "\<exists>bs. encodes i Op16bit bs"
proof -
  from kindE(2) [OF assms(2)] obtain q where q: "op_dst i = Reg16 q" "R_is_16bit q" by blast
  from reg16_index [OF q(2)] obtain n where n: "R_u8 q = Some n" "n < 8" "r16 n = Some q" by blast
  from operand8 [OF assms(3)] obtain m r ds where c: "operand_code (op_src i) = Some (m, r, ds)" "m < 4" "r < 8"
    "\<forall>d u. stored d u ds \<longrightarrow> dec_rm8 d u (segment_prefix i) r m = Some (op_src i, skip (length ds) d)" by blast
  let ?b = "if command i = Move Movsx16 then 0xBE else 0xB6 :: u8"
  have ps: "\<lparr>p_dst = Reg16 q, p_src = op_src i, p_src2 = NoParam\<rparr> = params i" using q assms(4) by simp
  have "decodes Op16bit (segment_prefix i) (0x0F # ?b # modrm_of m r n # ds) (command i) (params i)"
    by (rule decodes_0F) (use assms(1) c n in \<open>auto simp: dec_0F_def op_params_def sized_def dec_r16_rm8_def
        read_modrm ps\<close>)
  then show ?thesis using assms(1) q(1) c(1) n(1)
    by (intro exI [of _ "0x0F # ?b # modrm_of m r n # ds"])
      (auto simp: encodes_def encode_command_def enc_simple_def enc_Movsx16_def enc_Movzx16_def encode_rm_code
        enc_cons_def enc_ok_def)
qed

lemma register_operand:
  assumes "byte_reg p \<or> word_reg p"
  shows "\<exists>k. k < 8 \<and> operand_code p = Some (3, k, []) \<and>
    (\<forall>d u seg. byte_reg p \<longrightarrow> dec_rm8 d u seg k 3 = Some (p, d)) \<and>
    (\<forall>d u op. word_reg p \<longrightarrow> dec_rm16 d u op k 3 = Some (p, d))"
proof (cases p)
  case (Reg8 r)
  with assms reg8_index [of r] show ?thesis by (auto simp: byte_reg_def word_reg_def operand_code_def dec_rm8_def)
next
  case (Reg16 r)
  with assms reg16_index [of r] show ?thesis by (auto simp: byte_reg_def word_reg_def operand_code_def dec_rm16_def)
qed (use assms in \<open>simp_all add: byte_reg_def word_reg_def\<close>)

lemma extend32_round:
  assumes "command i \<in> set [Move Movsx32, Move Movzx32]" "dword_reg (op_dst i)"
    "byte_reg (op_src i) \<or> word_reg (op_src i)" "op_src2 i = NoParam"
  shows "\<exists>bs. encodes i Op32bit bs"
proof -
  from kindE(3) [OF assms(2)] obtain q where q: "op_dst i = Reg32 q" "R_is_32bit q" by blast
  from reg32_index [OF q(2)] obtain n where n: "R_u8 q = Some n" "n < 8" "r32 n = Some q" by blast
  from register_operand [OF assms(3)] obtain k where k: "k < 8" "operand_code (op_src i) = Some (3, k, [])"
    "\<And>d u seg. byte_reg (op_src i) \<Longrightarrow> dec_rm8 d u seg k 3 = Some (op_src i, d)"
    "\<And>d u op. word_reg (op_src i) \<Longrightarrow> dec_rm16 d u op k 3 = Some (op_src i, d)" by blast
  let ?b = "(if command i = Move Movsx32 then 0xBE else 0xB6) + (if byte_reg (op_src i) then 0 else 1) :: u8"
  have ps: "\<lparr>p_dst = Reg32 q, p_src = op_src i, p_src2 = NoParam\<rparr> = params i" using q assms(4) by simp
  have "decodes Op32bit (segment_prefix i) [0x0F, ?b, modrm_of 3 k n] (command i) (params i)"
    by (rule decodes_0F) (use assms(1,3) k n in \<open>auto simp: dec_0F_def op_params_def sized_def dec_r32_rm8_def
        dec_r32_rm16_def read_modrm ps\<close>)
  moreover have "encode_command i = enc_ok [0x66, 0x0F, ?b, modrm_of 3 k n]"
    using assms(1,3) q(1) k(2) n(1)
    by (cases "op_src i") (auto simp: encode_command_def enc_simple_def enc_Movsx32_def enc_Movzx32_def
        encode_rm_code enc_cons_def enc_ok_def byte_reg_def word_reg_def)
  ultimately show ?thesis by (intro exI [of _ "[0x0F, ?b, modrm_of 3 k n]"]) (simp add: encodes_def)
qed

end
