(* ===== verification/X86_Laws_Encoder.thy ===== *)
theory X86_Laws_Encoder
  imports X86_Encoder_Rest
begin

text \<open>
  Properties of the encoder: an encodable instruction is decoded back, a list of them disassembles to
  itself, and the instructions for which the encoder and the decoder disagree.
\<close>

unbundle bit_operations_syntax

section \<open>Lengths\<close>

definition short :: "enc_result \<Rightarrow> bool" where
  "short r \<longleftrightarrow> (case r of Some (Inr bs) \<Rightarrow> length bs \<le> 7 | _ \<Rightarrow> True)"

lemma short_simps [simp]:
  "short None" "short (enc_err e)" "short (enc_ok bs) \<longleftrightarrow> length bs \<le> 7"
  by (simp_all add: short_def enc_err_def enc_ok_def)

lemma short_bind: "(\<And>x. r = Some x \<Longrightarrow> short (f x)) \<Longrightarrow> short (r \<bind> f)"
  by (cases r) simp_all

lemma encode_rm_length: "encode_rm p n = Some bs \<Longrightarrow> length bs \<le> 3"
  by (cases p) (auto simp: encode_rm_def bind_eq_Some_conv)

lemma pair_length:
  "encode_r_rm ps = Some bs \<Longrightarrow> length bs \<le> 3" "encode_rm_r ps = Some bs \<Longrightarrow> length bs \<le> 3"
  by (cases "p_dst ps"; cases "p_src ps"; auto simp: encode_r_rm_def encode_rm_r_def bind_eq_Some_conv
      dest!: encode_rm_length)+

lemma triple_length: "encode_rm_r_imm ps = Some bs \<Longrightarrow> length bs \<le> 4"
  by (cases "p_src ps"; cases "p_src2 ps"; auto simp: encode_rm_r_imm_def bind_eq_Some_conv
      dest!: encode_rm_length)

lemma short_cons:
  "length p \<le> 4 \<Longrightarrow> short (enc_cons p (encode_rm q n))" "length p \<le> 4 \<Longrightarrow> short (enc_cons p (encode_r_rm ps))"
  "length p \<le> 4 \<Longrightarrow> short (enc_cons p (encode_rm_r ps))" "length p \<le> 3 \<Longrightarrow> short (enc_cons p (encode_rm_r_imm ps))"
  by (auto simp: short_def enc_cons_def split: option.split dest!: encode_rm_length pair_length triple_length)

lemma short_pair_imm:
  "short (do { bs \<leftarrow> encode_r_rm ps; enc_ok ([b] @ bs @ [v]) })"
  "short (do { bs \<leftarrow> encode_r_rm ps; enc_ok ([b, b'] @ bs @ [v]) })"
  by (auto intro!: short_bind dest!: pair_length)

lemma short_arith: "short (arith_instr8 i)" "short (arith_instr16 i)" "short (arith_instr32 i)"
  unfolding arith_instr8_def arith_instr16_def arith_instr32_def
  by (intro short_bind; cases "op_dst i"; simp add: short_cons short_bind split: Parameter.split)+

lemma short_math8: "short (math_instr8 i)"
  unfolding math_instr8_def Let_def
  by (cases "op_dst i"; simp add: short_cons short_bind split: Parameter.split)

lemma short_imms8:
  "(\<And>v. short (f v)) \<Longrightarrow> short r \<Longrightarrow> short (case p of ImmS8 v \<Rightarrow> f v | _ \<Rightarrow> r)"
  by (cases p) simp_all

lemma short_math16: "short (math_instr16 i)"
  unfolding math_instr16_def
  by (rule short_imms8 [OF short_pair_imm(1)], cases "op_dst i";
    simp add: short_cons short_bind split: Parameter.split)

lemma short_math32: "short (math_instr32 i)"
  unfolding math_instr32_def
  by (rule short_imms8 [OF short_pair_imm(2)], cases "op_dst i";
    simp add: short_cons short_bind split: Parameter.split)

lemma short_shift: "short (bitshift_instr8 i)" "short (bitshift_instr16 i)" "short (bitshift_instr32 i)"
  unfolding bitshift_instr8_def bitshift_instr16_def bitshift_instr32_def
  by (cases "op_dst i"; simp add: short_cons short_bind split: Parameter.split)+

lemma short_arms:
  "short (enc_IncDec8 i)" "short (enc_Int i)" "short (enc_Aad i)" "short (enc_Aam i)" "short (enc_Movsx16 i)"
  "short (enc_Movzx16 i)" "short (enc_Push16 i)" "short (enc_Pop16 i)" "short (enc_Loop i)" "short (enc_Bsf i)"
  "short (enc_Bt i)" "short (enc_Xchg8 i)" "short (enc_Lea16 i)" "short (enc_Shld i)" "short (enc_Shrd i)"
  unfolding enc_IncDec8_def enc_Int_def enc_Aad_def enc_Aam_def enc_Movsx16_def enc_Movzx16_def enc_Push16_def
    enc_Pop16_def enc_Loop_def enc_Bsf_def enc_Bt_def enc_Xchg8_def enc_Lea16_def enc_Shld_def enc_Shrd_def
  by (cases "op_dst i"; simp add: short_cons short_bind)+

lemma short_moves:
  "short (enc_Movsx32 i)" "short (enc_Movzx32 i)" "short (enc_Xchg16 i)" "short (enc_Mov8 i)" "short (enc_Mov16 i)"
  "short (enc_Mov32 i)"
  unfolding enc_Movsx32_def enc_Movzx32_def enc_Xchg16_def enc_Mov8_def enc_Mov16_def enc_Mov32_def Let_def
  by (cases "op_dst i"; simp add: short_cons short_bind split: Parameter.split)+

lemma short_incdec: "short (enc_IncDec16 i)" "short (enc_IncDec32 i)"
proof -
  have "short (case c of Arith Inc16 \<Rightarrow> enc_ok [b1] | Arith Dec16 \<Rightarrow> enc_ok [b2] | _ \<Rightarrow> None)"
    "short (case c of Arith Inc32 \<Rightarrow> enc_ok [b, b1] | Arith Dec32 \<Rightarrow> enc_ok [b, b2] | _ \<Rightarrow> None)" for c b b1 b2
    by (simp_all split: Op.split ArithOp.split)
  then show "short (enc_IncDec16 i)" "short (enc_IncDec32 i)"
    unfolding enc_IncDec16_def enc_IncDec32_def
    by (cases "op_dst i"; simp add: short_cons short_bind)+
qed

lemma encode_command_short: "short (encode_command i)"
proof -
  have "short (enc_groups i)" unfolding enc_groups_def Let_def
    by (simp add: short_arith short_math8 short_math16 short_math32 short_shift)
  then show ?thesis unfolding encode_command_def
    by (auto split: option.split Op.split ArithOp.split LogicOp.split ShiftOp.split MoveOp.split FlowOp.split
      intro: short_arms short_moves short_incdec)
qed

section \<open>Encodable instructions\<close>

text \<open>
  The forms that survive encoding and decoding. Left out are those that cannot: a plain [bp], a 16- or
  32-bit shift by 1, an exchange with the accumulator as its source, word tests and 32-bit tests,
  multiplications with an immediate.
\<close>

definition encodable :: "Instruction \<Rightarrow> bool" where
  "encodable i \<longleftrightarrow> (let c = command i; ps = params i; seg = segment_prefix i; d = op_dst i; s = op_src i in
     enc_simple c \<noteq> None \<and> ps = no_params \<or>
     arith_base8 c \<noteq> None \<and> operands8 seg ps \<or>
     arith_base16 c \<noteq> None \<and> operands16 seg ps \<or>
     arith_base32 c \<noteq> None \<and> operands32 ps \<or>
     unary_no8 c \<noteq> None \<and> rm8_ok seg d \<and> only_dst ps \<or>
     unary_no16 c \<noteq> None \<and> word_reg d \<and> only_dst ps \<or>
     unary_no32 c \<noteq> None \<and> dword_reg d \<and> only_dst ps \<or>
     shift_no8 c \<noteq> None \<and> byte_reg d \<and> byte_imm s \<and> op_src2 i = NoParam \<or>
     shift_no16 c \<noteq> None \<and> word_reg d \<and> byte_imm s \<and> s \<noteq> Imm8 1 \<and> op_src2 i = NoParam \<or>
     shift_no32 c \<noteq> None \<and> dword_reg d \<and> byte_imm s \<and> s \<noteq> Imm8 1 \<and> op_src2 i = NoParam \<or>
     c = Logic Test8 \<and> op_src2 i = NoParam \<and> (byte_reg d \<and> byte_imm s \<or> rm8_ok seg d \<and> byte_reg s) \<or>
     c \<in> set [Arith Inc8, Arith Dec8] \<and> rm8_ok seg d \<and> only_dst ps \<or>
     c \<in> set [Arith Inc16, Arith Dec16] \<and> rm16_ok seg d \<and> only_dst ps \<or>
     c \<in> set [Arith Inc32, Arith Dec32] \<and> dword_reg d \<and> only_dst ps \<or>
     c = Move Pop16 \<and> word_reg d \<and> only_dst ps \<or>
     c = Move Push16 \<and> word_imm d \<and> only_dst ps \<or>
     c = Move Mov8 \<and> operands8 seg ps \<or>
     c = Move Mov16 \<and> word_reg d \<and> word_imm s \<and> op_src2 i = NoParam \<or>
     c = Move Mov32 \<and> dword_reg d \<and> dword_imm s \<and> op_src2 i = NoParam \<or>
     c \<in> set [Flow IntN, Arith Aad, Arith Aam] \<and> byte_imm d \<and> only_dst ps \<or>
     c = Move Xchg8 \<and> rm8_ok seg d \<and> byte_reg s \<and> op_src2 i = NoParam \<or>
     c = Move Xchg16 \<and> word_reg d \<and> word_reg s \<and> op_src2 i = NoParam \<and> s \<noteq> Reg16 R.AX \<or>
     c = Logic Bt \<and> rm16_ok seg d \<and> word_reg s \<and> op_src2 i = NoParam \<or>
     c \<in> set [Shift Shld, Shift Shrd] \<and> rm16_ok seg d \<and> word_reg s \<and> byte_imm (op_src2 i) \<or>
     c \<in> set [Logic Bsf, Move Lea16, Mul Imul16] \<and> word_reg d \<and> rm16_ok seg s \<and> op_src2 i = NoParam \<and>
       (c = Mul Imul16 \<longrightarrow> word_reg s) \<or>
     c \<in> set [Move Movsx16, Move Movzx16] \<and> word_reg d \<and> rm8_ok seg s \<and> op_src2 i = NoParam \<or>
     c \<in> set [Move Movsx32, Move Movzx32] \<and> dword_reg d \<and> (byte_reg s \<or> word_reg s) \<and> op_src2 i = NoParam)"

lemma encodable_encodes:
  assumes "encodable i"
  shows "\<exists>sz bs. encodes i sz bs"
proof -
  have e: "\<exists>v. s = Imm8 v \<and> v \<noteq> 1" if "byte_imm s" "s \<noteq> Imm8 1" for s
    using kindE(4) [OF that(1)] that(2) by auto
  show ?thesis
    using assms unfolding encodable_def Let_def
    by (elim disjE conjE; (drule option.exhaust_sel)?)
      (blast dest: e intro: simple_round arith8_round arith16_round arith32_round unary8_round unary16_round
        unary32_round shift8_round shift16_round shift32_round test8_round incdec8_round incdec16_round
        incdec32_round pop16_round push16_round mov8_round mov16_round mov32_round byte_operand_round
        xchg8_round xchg16_round rm16_pair_round double_shift_round r16_rm16_round extend16_round
        extend32_round)+
qed

lemma encode_split:
  assumes "encode i = Some (Inr bs)"
  shows "\<exists>cs. encode_command i = Some (Inr cs) \<and> bs = enc_prefix i @ cs \<and> length cs \<le> 7 \<and> length bs \<le> 9"
proof -
  from assms obtain r where "encode_command i = Some r" "map_sum id (\<lambda>bs. enc_prefix i @ bs) r = Inr bs"
    by (auto simp: encode_def)
  then obtain cs where cs: "encode_command i = Some (Inr cs)" "bs = enc_prefix i @ cs" by (cases r) auto
  moreover have "length cs \<le> 7" using encode_command_short [of i] cs(1) by (simp add: short_def)
  moreover have "length (enc_prefix i) \<le> 2" by (cases "segment_prefix i") (simp_all add: enc_prefix_def)
  ultimately show ?thesis by auto
qed

text \<open>
  C24. Whatever instruction is encoded, its bytes are at most nine: a lock prefix, a segment prefix, and
  seven bytes of operand size, opcode, mod-reg-rm and operands, so every encoding fits the fifteen
  bytes of the processor.
\<close>

theorem encoding_length_bound:
  assumes "encode i = Some (Inr bs)"
  shows "\<exists>cs. encode_command i = enc_ok cs \<and> bs = enc_prefix i @ cs \<and> length cs \<le> 7 \<and> length bs \<le> 9"
  using encode_split [OF assms] by (simp add: enc_ok_def)

theorem encoding_length_bound_witness:
  "encode ((instr_new2 (Arith Add32) (Reg32 R.EBX) (Imm32 0x12345678))\<lparr>segment_prefix := Segment.ES, lock := True\<rparr>) =
     Some (Inr [0xF0, 0x26, 0x66, 0x81, 0xC3, 0x78, 0x56, 0x34, 0x12]) \<and>
   length [0xF0, 0x26, 0x66, 0x81, 0xC3, 0x78, 0x56, 0x34, 0x12 :: u8] \<le> 9"
proof -
  let ?i = "(instr_new2 (Arith Add32) (Reg32 R.EBX) (Imm32 0x12345678))\<lparr>segment_prefix := Segment.ES, lock := True\<rparr>"
  have "encode ?i = Some (Inr [0xF0, 0x26, 0x66, 0x81, 0xC3, 0x78, 0x56, 0x34, 0x12])" by code_simp
  with encoding_length_bound [OF this] show ?thesis by blast
qed

section \<open>Prefixes\<close>

declare decode.simps [simp del]

lemma decode_opcode:
  assumes "decodes sz seg bs c ps" "stored d u bs" "op_size op = sz" "segment_prefix op = seg"
    "address_size op = A16bit" "params op = no_params" "ilength op = 0"
  shows "decode (Suc n) d u op =
    Some (op\<lparr>command := c, params := ps, ilength := of_nat (length bs)\<rparr>, skip (length bs) d)"
proof -
  from assms(1) obtain b rest where b: "bs = b # rest" "apply_prefix b op = None"
    "\<And>d. stored d u rest \<Longrightarrow> dec_opcode b d u op = Some (op\<lparr>command := c, params := ps\<rparr>, skip (length rest) d)"
    using assms(3-6) unfolding decodes_def by blast
  have "(ucast (of_nat k :: u16) :: u8) = of_nat k" for k
    by (simp add: word_unat_eq_iff unsigned_ucast_eq unat_of_nat take_bit_eq_mod mod_mod_cancel)
  from this [of "Suc k" for k] have "(ucast (1 + of_nat k :: u16) :: u8) = 1 + of_nat k" for k by simp
  then show ?thesis using assms(2,7) b(2,3) unfolding b(1) by (simp add: decode.simps)
qed

lemma decode_prefix:
  assumes "apply_prefix b op = Some op'" "b \<noteq> 0xF3" "stored d u (b # bs)"
    "decode n (skip 1 d) u op' = Some (i, skip m (skip 1 d))" "ilength i = of_nat m" "m < 255"
  shows "decode (Suc n) d u op = Some (i\<lparr>ilength := of_nat (Suc m)\<rparr>, skip (Suc m) d)"
proof -
  have "unat (of_nat m :: u8) = m" using assms(6) by (simp add: unat_of_nat)
  then have "add_chk (of_nat m :: u8) 1 = Some (of_nat (Suc m))"
    using assms(6) by (subst add_chk_less) (simp_all add: add.commute)
  then show ?thesis using assms by (simp add: finish_prefix_def decode.simps)
qed

lemma decode_core:
  assumes "encodes i sz bs" "encode_command i = enc_ok cs" "stored d u cs" "segment_prefix op = segment_prefix i"
    "address_size op = A16bit" "op_size op = Op16bit" "params op = no_params" "ilength op = 0"
  shows "\<exists>j. decode (Suc (Suc n)) d u op = Some (j, skip (length cs) d) \<and> command j = command i \<and>
    params j = params i \<and> segment_prefix j = segment_prefix i \<and> lock j = lock op \<and> repeat j = repeat op \<and>
    op_size j = sz \<and> ilength j = of_nat (length cs) \<and> length cs \<le> 7"
proof -
  have len: "length cs \<le> 7" using encode_command_short [of i] assms(2) by simp
  have dec: "decodes sz (segment_prefix i) bs (command i) (params i)" using assms(1) by (simp add: encodes_def)
  show ?thesis
  proof (cases sz)
    case Op16bit
    then have "cs = bs" using assms(1,2) by (simp add: encodes_def enc_ok_def)
    then show ?thesis using decode_opcode [OF dec, where d = d and u = u and op = op] assms Op16bit len by simp
  next
    case Op32bit
    then have cs: "cs = 0x66 # bs" using assms(1,2) by (simp add: encodes_def enc_ok_def)
    let ?op = "op\<lparr>op_size := Op32bit\<rparr>"
    have "decode (Suc n) (skip 1 d) u ?op =
        Some (?op\<lparr>command := command i, params := params i, ilength := of_nat (length bs)\<rparr>, skip (length bs) (skip 1 d))"
      using decode_opcode [OF dec, where d = "skip 1 d" and u = u and op = ?op] assms Op32bit cs by simp
    then show ?thesis using decode_prefix [where b = "0x66" and op = op and op' = ?op and d = d and u = u and bs = bs] assms Op32bit len cs
      by (simp add: apply_prefix_def)
  qed
qed

text \<open>The prefix bytes of lock and segment in front.\<close>

lemma decode_prefixes:
  assumes "encodes i sz bs" "encode i = Some (Inr cs)" "stored d u cs"
  shows "\<exists>j. decode (Suc (Suc (Suc (Suc n)))) d u (instr_new Uninitialized) = Some (j, skip (length cs) d) \<and>
    command j = command i \<and> params j = params i \<and> segment_prefix j = segment_prefix i \<and> lock j = lock i \<and>
    repeat j = RepNone \<and> op_size j = sz \<and> ilength j = of_nat (length cs) \<and> length cs \<le> 9"
proof -
  from assms(1) obtain bs' where enc: "encode_command i = enc_ok bs'" by (auto simp: encodes_def)
  then have cs: "cs = enc_prefix i @ bs'" using assms(2) by (simp add: encode_def enc_ok_def)
  let ?seg = "segment_prefix i"
  have step: "\<exists>j. decode (Suc (Suc (Suc m))) d u op = Some (j, skip (length ps) d) \<and>
      command j = command i \<and> params j = params i \<and> segment_prefix j = ?seg \<and> lock j = lock op \<and>
      repeat j = RepNone \<and> op_size j = sz \<and> ilength j = of_nat (length ps) \<and> length ps \<le> 8"
    if p: "stored d u ps" "ps = enc_prefix (i\<lparr>lock := False\<rparr>) @ bs'" and
      op: "segment_prefix op = Segment.Default" "address_size op = A16bit" "op_size op = Op16bit"
        "params op = no_params" "ilength op = 0" "repeat op = RepNone" for d op m ps
  proof (cases "?seg = Segment.Default")
    case True
    then show ?thesis using decode_core [OF assms(1) enc, where d = d and u = u and op = op and n = "Suc m"] p op
      by (force simp: enc_prefix_def)
  next
    case False
    then obtain b where b: "ps = b # bs'" "apply_prefix b op = Some (op\<lparr>segment_prefix := ?seg\<rparr>)" "b \<noteq> 0xF3"
      using p(2) by (cases ?seg) (auto simp: enc_prefix_def apply_prefix_def)
    let ?op = "op\<lparr>segment_prefix := ?seg\<rparr>"
    from decode_core [OF assms(1) enc, where d = "skip 1 d" and u = u and op = ?op and n = m] p(1) op
    obtain j where "decode (Suc (Suc m)) (skip 1 d) u ?op = Some (j, skip (length bs') (skip 1 d))"
      "command j = command i" "params j = params i" "segment_prefix j = ?seg" "lock j = lock op"
      "repeat j = repeat op" "op_size j = sz" "ilength j = of_nat (length bs')" "length bs' \<le> 7"
      unfolding b(1) by auto
    then show ?thesis using decode_prefix [OF b(2,3), where d = d and u = u and bs = bs' and i = j and
        m = "length bs'" and n = "Suc (Suc m)"] p(1) op unfolding b(1) by auto
  qed
  let ?op = "instr_new Uninitialized"
  have new: "segment_prefix ?op = Segment.Default" "address_size ?op = A16bit" "op_size ?op = Op16bit"
    "params ?op = no_params" "ilength ?op = 0" "repeat ?op = RepNone" "lock ?op = False"
    by (simp_all add: instr_new_def instr_new3_def no_params_def op_size_from_op_def)
  show ?thesis
  proof (cases "lock i")
    case False
    then have "cs = enc_prefix (i\<lparr>lock := False\<rparr>) @ bs'" by (simp add: cs enc_prefix_def)
    from step [OF assms(3) this new(1-6), of "Suc n"] new(7) False show ?thesis by auto
  next
    case True
    let ?ps = "enc_prefix (i\<lparr>lock := False\<rparr>) @ bs'"
    have c: "cs = 0xF0 # ?ps" using True by (simp add: cs enc_prefix_def)
    let ?op' = "?op\<lparr>lock := True\<rparr>"
    have st: "stored (skip 1 d) u ?ps" using assms(3) by (simp add: c)
    from step [OF st refl, of ?op' n] new obtain j where
      j: "decode (Suc (Suc (Suc n))) (skip 1 d) u ?op' = Some (j, skip (length ?ps) (skip 1 d))"
      "command j = command i" "params j = params i" "segment_prefix j = ?seg" "lock j = True"
      "repeat j = RepNone" "op_size j = sz" "ilength j = of_nat (length ?ps)" "length ?ps \<le> 8" by auto
    show ?thesis using decode_prefix [OF _ _ _ j(1) j(8), of "0xF0" ?op] assms(3) j True
      unfolding c by (auto simp: apply_prefix_def)
  qed
qed

lemma round_trip:
  assumes "encodable i"
  shows "\<exists>bs. encode i = Some (Inr bs) \<and> length bs \<le> 9 \<and>
    (\<forall>d u s o'. stored (d\<lparr>current_seg := s, current_offset := o'\<rparr>) u bs \<longrightarrow>
      (\<exists>j d'. get_instruction d u s o' = Some (j, d') \<and> command j = command i \<and> params j = params i \<and>
        segment_prefix j = segment_prefix i \<and> lock j = lock i \<and> repeat j = RepNone \<and>
        ilength j = of_nat (length bs) \<and> current_offset d' = o' + of_nat (length bs)))"
proof -
  from encodable_encodes [OF assms] obtain sz bs' where e: "encodes i sz bs'" by blast
  then obtain bs where bs: "encode i = Some (Inr bs)" by (auto simp: encodes_def encode_def enc_ok_def)
  have fuel: "DECODE_FUEL = Suc (Suc (Suc (Suc 253)))" by (simp add: DECODE_FUEL_def)
  from encode_split [OF bs] have len: "length bs \<le> 9" by auto
  show ?thesis
  proof (intro exI [of _ bs] conjI allI impI)
    fix d u s o'
    assume "stored (d\<lparr>current_seg := s, current_offset := o'\<rparr>) u bs"
    from decode_prefixes [OF e bs this, of 253]
    show "\<exists>j d'. get_instruction d u s o' = Some (j, d') \<and> command j = command i \<and> params j = params i \<and>
        segment_prefix j = segment_prefix i \<and> lock j = lock i \<and> repeat j = RepNone \<and>
        ilength j = of_nat (length bs) \<and> current_offset d' = o' + of_nat (length bs)"
      unfolding get_instruction_def fuel by auto
  qed (use bs len in simp_all)
qed

text \<open>
  C23. An encodable instruction with any segment override and lock prefix has an encoding of at most
  nine bytes, and wherever these bytes stand in memory, the decoder reads back the same operation,
  operands, segment and lock, stops behind them and reports their number as the length.
\<close>

theorem encode_decode_round_trip:
  assumes "encodable i"
  shows "\<exists>bs. encode i = Some (Inr bs) \<and> length bs \<le> 9 \<and>
    (\<forall>d u s o'. stored (d\<lparr>current_seg := s, current_offset := o'\<rparr>) u bs \<longrightarrow>
      (\<exists>j d'. get_instruction d u s o' = Some (j, d') \<and> command j = command i \<and> params j = params i \<and>
        segment_prefix j = segment_prefix i \<and> lock j = lock i \<and> repeat j = RepNone \<and>
        ilength j = of_nat (length bs) \<and> current_offset d' = o' + of_nat (length bs)))"
  by (rule round_trip [OF assms])

theorem encode_decode_round_trip_witness:
  "\<exists>bs. encode ((instr_new2 (Arith Add8) (Ptr8AmodeS8 Segment.ES AMode.BX 5) (Reg8 R.CL))\<lparr>segment_prefix := Segment.ES\<rparr>) =
     Some (Inr bs) \<and> length bs \<le> 9"
proof -
  let ?i = "(instr_new2 (Arith Add8) (Ptr8AmodeS8 Segment.ES AMode.BX 5) (Reg8 R.CL))\<lparr>segment_prefix := Segment.ES\<rparr>"
  have "encodable ?i" by code_simp
  from encode_decode_round_trip [OF this] show ?thesis by blast
qed

section \<open>Programs\<close>

lemma lin_add:
  assumes "unat o' + n < 65536"
  shows "lin s (o' + of_nat n) = lin s o' + of_nat n"
proof -
  have n: "unat (of_nat n :: u16) = n" using assms by (simp add: unat_of_nat take_bit_nat_eq_self)
  then have u: "unat (o' + of_nat n) = unat o' + n" using assms by (simp add: unat_word_ariths)
  have "n < 65536" using assms by simp
  then have "unat (of_nat n :: u32) = n" by (simp add: unat_of_nat take_bit_nat_eq_self)
  then have "unat (lin s o' + of_nat n) = 16 * unat s + unat o' + n"
    using assms unat_lin [of s o'] word16_lt [of s] by (simp add: unat_word_ariths)
  then show ?thesis using u unat_lin [of s "o' + of_nat n"] by (simp add: word_unat_eq_iff)
qed

lemma stored_nth:
  assumes "stored d u bs" "k < length bs"
  shows "mmu_read_u8 u (current_seg d) (current_offset d + of_nat k) = Some (bs ! k)"
  using assms
proof (induction bs arbitrary: d k)
  case (Cons b bs)
  then show ?case by (cases k) (fastforce simp: add.assoc)+
qed simp

lemma stored_read:
  assumes "stored (d\<lparr>current_seg := s, current_offset := o'\<rparr>) u bs" "mmu_ok u" "unat o' + length bs \<le> 65536"
  shows "mmu_read u s o' (length bs) = Some bs"
proof -
  have "data (memory u) (lin s o' + of_nat k) = bs ! k" if k: "k < length bs" for k
  proof -
    have "mmu_read_u8 u s (o' + of_nat k) = Some (bs ! k)" using stored_nth [OF assms(1) k] by simp
    moreover have "lin s (o' + of_nat k) = lin s o' + of_nat k" using assms(3) k by (intro lin_add) simp
    ultimately show ?thesis by (simp add: mmu_read_u8_def addr_value_real mem_read_u8_def split: if_splits)
  qed
  then have "map (\<lambda>k. data (memory u) (lin s o' + of_nat k)) [0..<length bs] = bs"
    by (intro nth_equalityI) simp_all
  moreover have "unat (lin s o') + length bs \<le> data_len (memory u)"
    using assms(2,3) unat_lin [of s o'] word16_lt [of s] by (simp add: mmu_ok_def)
  ultimately show ?thesis by (simp add: mmu_read_def addr_value_real mem_read_def)
qed

lemma encode_vec_split:
  assumes "encode_vec (i # is) = Some (Inr cs)"
  shows "\<exists>bs rest. encode i = Some (Inr bs) \<and> encode_vec is = Some (Inr rest) \<and> cs = bs @ rest"
proof -
  from assms obtain r where r: "encode i = Some r" by (cases "encode i") simp_all
  show ?thesis
  proof (cases r)
    case (Inr bs)
    then obtain r' where "encode_vec is = Some r'" "map_sum id (\<lambda>cs. bs @ cs) r' = Inr cs"
      using assms r by (cases "encode_vec is") simp_all
    then show ?thesis using r Inr by (cases r') simp_all
  qed (use assms r in \<open>simp add: enc_err_def\<close>)
qed

definition same_instruction :: "Instruction \<Rightarrow> InstructionInfo \<Rightarrow> bool" where
  "same_instruction i info \<longleftrightarrow> command (info_instruction info) = command i \<and>
     params (info_instruction info) = params i \<and> segment_prefix (info_instruction info) = segment_prefix i \<and>
     lock (info_instruction info) = lock i"

lemma block_decodes:
  assumes "list_all encodable is" "encode_vec is = Some (Inr bs)" "mmu_ok u"
    "stored (d\<lparr>current_seg := seg, current_offset := off + pos\<rparr>) u bs"
    "unat off + unat pos + length bs < 65536"
  shows "\<exists>infos d'. block_loop (length is) d u seg off pos = Some (infos, d') \<and>
    list_all2 same_instruction is infos \<and> concat (map info_bytes infos) = bs"
  using assms
proof (induction "is" arbitrary: d pos bs)
  case Nil
  then show ?case by (simp add: enc_ok_def)
next
  case (Cons i "is")
  from Cons.prems(2) obtain b rest where b: "encode i = Some (Inr b)" "encode_vec is = Some (Inr rest)" "bs = b @ rest"
    using encode_vec_split [OF Cons.prems(2)] by blast
  have i: "encodable i" "list_all encodable is" using Cons.prems(1) by simp_all
  have at: "add_chk off pos = Some (off + pos)" "unat (off + pos) = unat off + unat pos"
    using Cons.prems(5) by (simp_all add: add_chk_less unat_word_ariths)
  have st: "stored (d\<lparr>current_seg := seg, current_offset := off + pos\<rparr>) u b" using Cons.prems(4) b(3) by simp
  with round_trip [OF i(1)] b(1) obtain j d' where
    j: "get_instruction d u seg (off + pos) = Some (j, d')" "command j = command i" "params j = params i"
      "segment_prefix j = segment_prefix i" "lock j = lock i" "ilength j = of_nat (length b)" "length b \<le> 9"
    by fastforce
  have ulen: "unat (ilength j) = length b" using j(6,7) by (simp add: unat_of_nat take_bit_nat_eq_self)
  have bytes: "mmu_read u seg (off + pos) (length b) = Some b"
    using Cons.prems(5) b(3) at by (intro stored_read [OF st Cons.prems(3)]) simp
  let ?pos = "pos + of_nat (length b)"
  have len: "unat (of_nat (length b) :: u16) = length b" using j(7) by (simp add: unat_of_nat take_bit_nat_eq_self)
  then have pos: "add_chk pos (of_nat (length b)) = Some ?pos" "unat ?pos = unat pos + length b"
    using Cons.prems(5) b(3) by (simp_all add: add_chk_less unat_word_ariths)
  have moved: "skip (length b) (d\<lparr>current_seg := seg, current_offset := off + pos\<rparr>) =
      d'\<lparr>current_seg := seg, current_offset := off + ?pos\<rparr>"
    by (cases d; cases d') (simp add: skip_def add.assoc)
  have "stored (skip (length b) (d\<lparr>current_seg := seg, current_offset := off + pos\<rparr>)) u rest"
    using Cons.prems(4) b(3) by simp
  then have "stored (d'\<lparr>current_seg := seg, current_offset := off + ?pos\<rparr>) u rest" by (simp only: moved)
  from Cons.IH [OF i(2) b(2) Cons.prems(3) this] Cons.prems(5) b(3) pos(2) obtain infos d'' where
    "block_loop (length is) d' u seg off ?pos = Some (infos, d'')" "list_all2 same_instruction is infos"
    "concat (map info_bytes infos) = rest" by auto
  moreover have "same_instruction i \<lparr>info_segment = ucast seg, info_offset = ucast (off + pos), info_bytes = b,
      info_instruction = j\<rparr>" using j by (simp add: same_instruction_def)
  ultimately show ?case using at(1) j(1) ulen bytes pos(1) b(3) by (simp add: get_instruction_info_def)
qed

text \<open>
  C25. A program that has been assembled and placed in memory disassembles to itself: if the encoder
  turns a list of encodable instructions into bytes and these stand at a segment and offset without
  passing the end of the segment, the decoder's block of as many instructions has the same
  operations, operands and prefixes in order, and the bytes it reports are the bytes placed.
\<close>

theorem assembled_program_disassembles:
  assumes "list_all encodable is" "encode_vec is = Some (Inr bs)" "mmu_ok u"
    "stored (d\<lparr>current_seg := seg, current_offset := off\<rparr>) u bs" "unat off + length bs < 65536"
  shows "\<exists>infos d'. decode_to_block d u seg off (length is) = Some (infos, d') \<and>
    list_all2 same_instruction is infos \<and> concat (map info_bytes infos) = bs"
  using block_decodes [OF assms(1-3), where d = d and seg = seg and off = off and pos = 0] assms(4,5) by (simp add: decode_to_block_def)

theorem assembled_program_disassembles_witness:
  "\<exists>infos d'. decode_to_block Decoder_default MMU_default 0 0x100 2 = Some (infos, d') \<and>
     list_all2 same_instruction (replicate 2 (instr_new2 (Arith Add8) (Ptr8Amode Segment.Default AMode.BXSI) (Reg8 R.AL))) infos \<and>
     concat (map info_bytes infos) = [0, 0, 0, 0]"
proof -
  let ?is = "replicate 2 (instr_new2 (Arith Add8) (Ptr8Amode Segment.Default AMode.BXSI) (Reg8 R.AL))"
  have "list_all encodable ?is" "encode_vec ?is = Some (Inr [0, 0, 0, 0])" by code_simp+
  note facts = this mmu_default_ok
  have "stored (Decoder_default\<lparr>current_seg := 0, current_offset := 0x100\<rparr>) MMU_default [0, 0, 0, 0]"
    by (simp add: mmu_read_u8_def MMU_default_def addr_value_real mem_read_u8_def FlatMemory_new_def unat_lin)
  from assembled_program_disassembles [OF facts this] show ?thesis by simp
qed

section \<open>Where the encoder and the decoder disagree\<close>

text \<open>
  C26. A 32-bit shift or rotate by one does not survive: it is encoded with the operand-size prefix and
  the opcode D1, and the decoder, which ignores the prefix there, reads the 16-bit operation with the
  same number on the low half of the register. The operand [bp] without a displacement shares its
  mod-reg-rm byte with the direct addresses, so the decoder would take the next two bytes of the
  program as an address.
\<close>

theorem narrowed_shift_by_one:
  assumes "shift_no32 c = Some n" "R_u8 q = Some k" "R_is_32bit q"
    "stored (d\<lparr>current_seg := s, current_offset := o'\<rparr>) u [0x66, 0xD1, modrm_of 3 k n]"
  shows "encode (instr_new2 c (Reg32 q) (Imm8 1)) = Some (Inr [0x66, 0xD1, modrm_of 3 k n]) \<and>
    (\<exists>j d' c' r. get_instruction d u s o' = Some (j, d') \<and> command j = c' \<and> shift_no16 c' = Some n \<and>
       R_u8 r = Some k \<and> params j = \<lparr>p_dst = Reg16 r, p_src = Imm16 1, p_src2 = NoParam\<rparr>) \<and>
    encode_rm (Ptr8Amode seg AMode.BP) n = Some [modrm_of 0 6 n] \<and>
    encode_rm (Ptr8 seg v) n = Some (modrm_of 0 6 n # bytes16 v)"
proof -
  let ?op = "instr_new Uninitialized"
  from reg32_index [OF assms(3)] assms(2) have k: "k < 8" by auto
  note n = shift_no32 [OF assms(1)]
  from assms(1) have "n \<in> set [0, 1, 2, 3, 4, 5, 7]"
    by (auto simp: shift_no32_def bitshift_index_def split: if_splits)
  then have "shift_op16 n bad = shift_op16 n Uninitialized"
    "shift_no16 (shift_op16 n Uninitialized) = Some n" for bad
    unfolding list.set insert_iff empty_iff
    by (elim disjE; simp add: shift_no16_def bitshift_index_def shift_op16_def)+
  then obtain c' where c': "\<And>bad. shift_op16 n bad = c'" "shift_no16 c' = Some n" by metis
  from k obtain r where r: "r16 k = Some r" "R_u8 r = Some k"
    by (elim less8_cases; force simp: r16_def R_u8_def R_index_def)
  let ?ps = "\<lparr>p_dst = Reg16 r, p_src = Imm16 1, p_src2 = NoParam\<rparr>"
  have dec: "decodes Op32bit Segment.Default [0xD1, modrm_of 3 k n] c' ?ps"
    by (rule decodesI) (auto simp: apply_prefix_def dec_opcode_def dec_D0_D7_def read_modrm k n(2) c'(1) r(1)
        dec_rm16_def op_dst1_def set_src_def set_dst_def no_params_def)
  let ?d = "d\<lparr>current_seg := s, current_offset := o'\<rparr>"
  let ?op = "instr_new Uninitialized" let ?op' = "?op\<lparr>op_size := Op32bit\<rparr>"
  have fuel: "DECODE_FUEL = Suc (Suc 255)" by (simp add: DECODE_FUEL_def)
  have new: "segment_prefix ?op' = Segment.Default" "address_size ?op' = A16bit" "op_size ?op' = Op32bit"
    "params ?op' = no_params" "ilength ?op' = 0"
    by (simp_all add: instr_new_def instr_new3_def no_params_def)
  from assms(4) have st: "stored (skip 1 ?d) u [0xD1, modrm_of 3 k n]" by simp
  have "apply_prefix 0x66 ?op = Some ?op'" by (simp add: apply_prefix_def)
  from decode_prefix [OF this _ assms(4) decode_opcode [OF dec st new(3,1,2,4,5), of 255]]
  have "\<exists>j d'. get_instruction d u s o' = Some (j, d') \<and> command j = c' \<and> params j = ?ps"
    unfolding get_instruction_def fuel by simp
  then have "\<exists>j d' c' r. get_instruction d u s o' = Some (j, d') \<and> command j = c' \<and> shift_no16 c' = Some n \<and>
      R_u8 r = Some k \<and> params j = \<lparr>p_dst = Reg16 r, p_src = Imm16 1, p_src2 = NoParam\<rparr>"
    using c'(2) r(2) by blast
  moreover have "encode (instr_new2 c (Reg32 q) (Imm8 1)) = Some (Inr [0x66, 0xD1, modrm_of 3 k n])"
    using n(1) n(4) [of "instr_new2 c (Reg32 q) (Imm8 1)"] assms(2)
    by (simp add: encode_def instr_new2_def instr_new3_def bitshift_instr32_def enc_prefix_def enc_ok_def)
  ultimately show ?thesis by (simp add: encode_rm_def AMode_index_def)
qed

theorem narrowed_shift_by_one_witness:
  "\<exists>u j d'. get_instruction Decoder_default u 0 0 = Some (j, d') \<and> shift_no16 (command j) = Some 4 \<and>
     encode (instr_new2 (Shift Shl32) (Reg32 R.EAX) (Imm8 1)) = Some (Inr [0x66, 0xD1, 0xE0])"
proof -
  let ?u = "MMU_default\<lparr>memory := FlatMemory_new\<lparr>data := (\<lambda>_. 0)(0 := 0x66, 1 := 0xD1, 2 := 0xE0)\<rparr>\<rparr>"
  have "shift_no32 (Shift Shl32) = Some 4" "R_u8 R.EAX = Some 0" "R_is_32bit R.EAX" "modrm_of 3 0 4 = 0xE0" by code_simp+
  moreover have "stored (Decoder_default\<lparr>current_seg := 0, current_offset := 0\<rparr>) ?u [0x66, 0xD1, 0xE0]"
    by (simp add: mmu_read_u8_def MMU_default_def addr_value_real mem_read_u8_def FlatMemory_new_def unat_lin) (simp add: lin_def)
  ultimately show ?thesis
    using narrowed_shift_by_one [where c = "Shift Shl32" and n = 4 and q = R.EAX and k = 0 and d = Decoder_default
      and s = 0 and o' = 0 and u = ?u and seg = Segment.Default and v = 0]
    by (intro exI [of _ ?u]) auto
qed

end
