(* ===== verification/X86_Frame.thy ===== *)
theory X86_Frame
  imports X86_Machine
begin

text \<open>
  What no instruction changes: the counters and the clock rate of the processor and the size of the
  memory. A calculus of results (\<open>every\<close>) in the style of weakest preconditions carries the proof
  through the arms.
\<close>

unbundle bit_operations_syntax

named_theorems every_intro

section \<open>Every result\<close>

definition every :: "'a option \<Rightarrow> ('a \<Rightarrow> bool) \<Rightarrow> bool" where
  "every r Q \<longleftrightarrow> (case r of Some x \<Rightarrow> Q x | None \<Rightarrow> True)"

lemma every_simps [simp]:
  "every (Some x) Q \<longleftrightarrow> Q x" "every None Q"
  "every (r \<bind> f) Q \<longleftrightarrow> every r (\<lambda>x. every (f x) Q)"
  "every (map_option g r) Q \<longleftrightarrow> every r (\<lambda>x. Q (g x))"
  "every (if b then s else s') P \<longleftrightarrow> (if b then every s P else every s' P)"
  by (cases r; simp add: every_def)+

lemma every_any: "(\<And>x. Q x) \<Longrightarrow> every r Q"
  by (cases r) (simp_all add: every_def)

lemma every_mono: "every r P \<Longrightarrow> (\<And>x. P x \<Longrightarrow> Q x) \<Longrightarrow> every r Q"
  by (cases r) (simp_all add: every_def)

lemma everyD: "every r Q \<Longrightarrow> r = Some x \<Longrightarrow> Q x"
  by (simp add: every_def)

text \<open>Results without a processor or a memory in them.\<close>

lemma every_word [every_intro]: "(\<And>x. Q x) \<Longrightarrow> every r Q" for r :: "'a::len word option"
  by (rule every_any)

lemma every_pair [every_intro]: "(\<And>x y. Q (x, y)) \<Longrightarrow> every r Q" for r :: "('a::len word \<times> 'b::len word) option"
  by (rule every_any) auto

lemma every_flags [every_intro]: "(\<And>x y. Q (x, y)) \<Longrightarrow> every r Q" for r :: "('a::len word \<times> Flags) option"
  by (rule every_any) auto

lemma every_flag [every_intro]: "(\<And>x. Q x) \<Longrightarrow> every r Q" for r :: "Flags option"
  by (rule every_any)

lemma every_bool [every_intro]: "(\<And>x. Q x) \<Longrightarrow> every r Q" for r :: "bool option"
  by (rule every_any)

section \<open>Processor and memory\<close>

type_synonym clock = "usize \<times> usize \<times> usize"

definition clk :: "clock \<Rightarrow> CPU \<Rightarrow> bool" where
  "clk k c \<longleftrightarrow> (instruction_count c, cycle_count c, clock_hz c) = k"

definition size_is :: "nat \<Rightarrow> MMU \<Rightarrow> bool" where
  "size_is n u \<longleftrightarrow> data_len (memory u) = n"

definition both :: "clock \<Rightarrow> nat \<Rightarrow> CPU \<times> MMU \<Rightarrow> bool" where
  "both k n s \<longleftrightarrow> clk k (fst s) \<and> size_is n (snd s)"

lemma both_pair [simp]: "both k n (c, u) \<longleftrightarrow> clk k c \<and> size_is n u"
  by (simp add: both_def)

lemma clk_simps [simp]:
  "clk k (set_r16 c r v) = clk k c" "clk k (set_ip c w) = clk k c" "clk k (with_flags c f) = clk k c"
  "clk k (cpu_exception c e x) = clk k c" "clk k (cmp8 c a b) = clk k c" "clk k (cmp16 c a b) = clk k c"
  "clk k (cmp32 c a b) = clk k c" "clk k (c\<lparr>decoder := d\<rparr>) = clk k c" "clk k (c\<lparr>fatal_error := t\<rparr>) = clk k c"
  "clk k (c\<lparr>regs := rs\<rparr>) = clk k c"
  by (simp_all add: clk_def set_r16_def set_ip_def with_flags_def cpu_exception_def cmp8_def cmp16_def cmp32_def Let_def)

lemma clk_named [simp]:
  "r \<in> names8 \<Longrightarrow> clk k (w8 c r v8) = clk k c" "r' \<in> names32 \<Longrightarrow> clk k (w32 c r' v32) = clk k c"
  by (simp_all add: regs_set clk_def)

lemma size_simps [simp]: "size_is n (u\<lparr>flags_address := a\<rparr>) = size_is n u"
  by (simp add: size_is_def)

lemma every_set [every_intro]:
  "clk k c \<Longrightarrow> (\<And>c'. clk k c' \<Longrightarrow> Q c') \<Longrightarrow> every (set_r8 c r v8) Q"
  "clk k c \<Longrightarrow> (\<And>c'. clk k c' \<Longrightarrow> Q c') \<Longrightarrow> every (set_r32 c r v32) Q"
  by (auto simp: set_r8_def set_r32_def intro!: every_any)

lemma write_sizes:
  "mem_write_u8 m a v8 = Some m' \<Longrightarrow> data_len m' = data_len m"
  "mem_write_u16 m a v16 = Some m' \<Longrightarrow> data_len m' = data_len m"
  "mem_write_u32 m a v32 = Some m' \<Longrightarrow> data_len m' = data_len m"
  "mem_write m a bs = Some m' \<Longrightarrow> data_len m' = data_len m"
  by (auto simp: mem_write_u8_def mem_write_u16_def mem_write_u32_def mem_write_def bind_eq_Some_conv split: if_splits)

lemma every_memory:
  "(\<And>m'. data_len m' = data_len m \<Longrightarrow> Q m') \<Longrightarrow> every (mem_write_u8 m a v8) Q"
  "(\<And>m'. data_len m' = data_len m \<Longrightarrow> Q m') \<Longrightarrow> every (mem_write_u16 m a v16) Q"
  "(\<And>m'. data_len m' = data_len m \<Longrightarrow> Q m') \<Longrightarrow> every (mem_write_u32 m a v32) Q"
  "(\<And>m'. data_len m' = data_len m \<Longrightarrow> Q m') \<Longrightarrow> every (mem_write m a bs) Q"
  by (auto simp: every_def split: option.split dest!: write_sizes)

lemma every_write [every_intro]:
  "size_is n u \<Longrightarrow> (\<And>u'. size_is n u' \<Longrightarrow> Q u') \<Longrightarrow> every (mmu_write_u8 u s o' v8) Q"
  "size_is n u \<Longrightarrow> (\<And>u'. size_is n u' \<Longrightarrow> Q u') \<Longrightarrow> every (mmu_write_u16 u s o' v16) Q"
  "size_is n u \<Longrightarrow> (\<And>u'. size_is n u' \<Longrightarrow> Q u') \<Longrightarrow> every (mmu_write_u32 u s o' v32) Q"
  "size_is n u \<Longrightarrow> (\<And>u'. size_is n u' \<Longrightarrow> Q u') \<Longrightarrow> every (mmu_write u s o' bs) Q"
  by (auto simp: mmu_write_u8_def mmu_write_u16_def mmu_write_u32_def mmu_write_def upd_memory_def size_is_def
      simp del: addr_value.simps intro!: every_intro every_memory)

lemma every_push [every_intro]:
  "clk k c \<Longrightarrow> size_is n u \<Longrightarrow> (\<And>c' u'. clk k c' \<Longrightarrow> size_is n u' \<Longrightarrow> Q (c', u')) \<Longrightarrow> every (push16 c u v16) Q"
  "clk k c \<Longrightarrow> size_is n u \<Longrightarrow> (\<And>c' u'. clk k c' \<Longrightarrow> size_is n u' \<Longrightarrow> Q (c', u')) \<Longrightarrow> every (push32 c u v32) Q"
  by (auto simp: push16_def push32_def Let_def intro!: every_intro)

lemma every_pop [every_intro]:
  "clk k c \<Longrightarrow> (\<And>v c'. clk k c' \<Longrightarrow> Q (v, c')) \<Longrightarrow> every (pop16 c u) Q"
  "clk k c \<Longrightarrow> (\<And>v c'. clk k c' \<Longrightarrow> Q' (v, c')) \<Longrightarrow> every (pop32 c u) Q'"
  by (auto simp: pop16_def pop32_def Let_def intro!: every_intro)

lemma every_interrupt [every_intro]:
  "clk k c \<Longrightarrow> size_is n u \<Longrightarrow> (\<And>c' u'. clk k c' \<Longrightarrow> size_is n u' \<Longrightarrow> Q (c', u')) \<Longrightarrow> every (execute_interrupt c u vec) Q"
  by (auto simp: execute_interrupt_def Let_def split: prod.split intro!: every_intro)

lemma every_write_parameter [every_intro]:
  "clk k c \<Longrightarrow> size_is n u \<Longrightarrow> (\<And>c' u'. clk k c' \<Longrightarrow> size_is n u' \<Longrightarrow> Q (c', u')) \<Longrightarrow> every (write_parameter_u8 c u p v8) Q"
  "clk k c \<Longrightarrow> size_is n u \<Longrightarrow> (\<And>c' u'. clk k c' \<Longrightarrow> size_is n u' \<Longrightarrow> Q (c', u')) \<Longrightarrow> every (write_parameter_u16 c u g p v16) Q"
  "clk k c \<Longrightarrow> size_is n u \<Longrightarrow> (\<And>c' u'. clk k c' \<Longrightarrow> size_is n u' \<Longrightarrow> Q (c', u')) \<Longrightarrow> every (write_parameter_u32 c u g p v32) Q"
  by (cases p; auto simp: write_parameter_u8_def write_parameter_u16_def write_parameter_u32_def keep_cpu_def
      intro!: every_intro)+

section \<open>The arms\<close>

definition keeps :: "(CPU \<Rightarrow> MMU \<Rightarrow> (CPU \<times> MMU) option) \<Rightarrow> bool" where
  "keeps f \<longleftrightarrow> (\<forall>k n c u. clk k c \<longrightarrow> size_is n u \<longrightarrow> every (f c u) (both k n))"

definition keeps_exit :: "(CPU \<Rightarrow> MMU \<Rightarrow> exec_result) \<Rightarrow> bool" where
  "keeps_exit f \<longleftrightarrow> (\<forall>k n c u. clk k c \<longrightarrow> size_is n u \<longrightarrow> every (f c u) (\<lambda>r. both k n (snd r)))"

lemma keepsI: "(\<And>k n c u. clk k c \<Longrightarrow> size_is n u \<Longrightarrow> every (f c u) (both k n)) \<Longrightarrow> keeps f"
  by (simp add: keeps_def)

lemma keeps_exitI:
  "(\<And>k n c u. clk k c \<Longrightarrow> size_is n u \<Longrightarrow> every (f c u) (\<lambda>r. both k n (snd r))) \<Longrightarrow> keeps_exit f"
  by (simp add: keeps_exit_def)

lemma every_adjust [every_intro]:
  "clk k c \<Longrightarrow> (\<And>c'. clk k c' \<Longrightarrow> Q c') \<Longrightarrow> every (adjb c x y) Q"
  "clk k c \<Longrightarrow> (\<And>c'. clk k c' \<Longrightarrow> Q c') \<Longrightarrow> every (adj4 c x2 y2) Q"
  "clk k c \<Longrightarrow> (\<And>c'. clk k c' \<Longrightarrow> Q c') \<Longrightarrow> every (advance c r w) Q"
  by (auto simp: adjb_def adj4_def advance_def Let_def intro!: every_intro)

named_theorems keeps

lemma arith_keep1 [keeps]:
  "keeps (exec_Aaa op)"
  "keeps (exec_Aad op)"
  "keeps (exec_Aas op)"
  "keeps (exec_Cbw op)"
  "keeps (exec_Cwd16 op)"
  "keeps (exec_Cwde32 op)"
  "keeps (exec_Daa op)"
  "keeps (exec_Das op)"
  by (rule keepsI; auto simp: Let_def split: prod.split intro!: every_intro simp:
    exec_Aaa_def exec_Aad_def exec_Aas_def exec_Cbw_def exec_Cwd16_def exec_Cwde32_def
    exec_Daa_def exec_Das_def)+

lemma arith_keep2 [keeps]:
  "keeps (exec_Adc8 op)"
  "keeps (exec_Adc16 op)"
  "keeps (exec_Add8 op)"
  "keeps (exec_Add16 op)"
  "keeps (exec_Add32 op)"
  "keeps (exec_Cmp8 op)"
  "keeps (exec_Cmp16 op)"
  "keeps (exec_Cmp32 op)"
  by (rule keepsI; auto simp: Let_def split: prod.split intro!: every_intro simp:
    exec_Adc8_def exec_Adc16_def exec_Add8_def exec_Add16_def exec_Add32_def exec_Cmp8_def
    exec_Cmp16_def exec_Cmp32_def)+

lemma arith_keep3 [keeps]:
  "keeps (exec_Dec8 op)"
  "keeps (exec_Dec16 op)"
  "keeps (exec_Dec32 op)"
  "keeps (exec_Inc8 op)"
  "keeps (exec_Inc16 op)"
  "keeps (exec_Inc32 op)"
  "keeps (exec_Neg8 op)"
  "keeps (exec_Neg16 op)"
  by (rule keepsI; auto simp: Let_def split: prod.split intro!: every_intro simp:
    exec_Dec8_def exec_Dec16_def exec_Dec32_def exec_Inc8_def exec_Inc16_def exec_Inc32_def
    exec_Neg8_def exec_Neg16_def)+

lemma arith_keep4 [keeps]:
  "keeps (exec_Neg32 op)"
  "keeps (exec_Sbb8 op)"
  "keeps (exec_Sbb16 op)"
  "keeps (exec_Sub8 op)"
  "keeps (exec_Sub16 op)"
  "keeps (exec_Sub32 op)"
  "keeps (exec_Mul8 op)"
  "keeps (exec_Mul16 op)"
  by (rule keepsI; auto simp: Let_def split: prod.split intro!: every_intro simp:
    exec_Neg32_def exec_Sbb8_def exec_Sbb16_def exec_Sub8_def exec_Sub16_def exec_Sub32_def
    exec_Mul8_def exec_Mul16_def)+

lemma arith_keep5 [keeps]:
  "keeps (exec_Mul32 op)"
  "keeps (exec_Imul8 op)"
  "keeps (exec_Imul16 op)"
  "keeps (exec_Imul32 op)"
  by (rule keepsI; auto simp: Let_def split: prod.split intro!: every_intro simp:
    exec_Mul32_def exec_Imul8_def imul16_flags_def exec_Imul16_def exec_Imul32_def)+

lemma arith_exit [keeps]:
  "keeps_exit (exec_Aam op)"
  "keeps_exit (exec_Div8 op)"
  "keeps_exit (exec_Div16 op)"
  "keeps_exit (exec_Div32 op)"
  "keeps_exit (exec_Idiv8 op)"
  "keeps_exit (exec_Idiv16 op)"
  "keeps_exit (exec_Idiv32 op)"
  by (rule keeps_exitI; auto simp: Let_def split: prod.split intro!: every_intro simp:
    exec_Aam_def exec_Div8_def exec_Div16_def exec_Div32_def exec_Idiv8_def exec_Idiv16_def
    exec_Idiv32_def)+

lemma logic_keep1 [keeps]:
  "keeps (exec_And8 op)"
  "keeps (exec_And16 op)"
  "keeps (exec_Or8 op)"
  "keeps (exec_Or16 op)"
  "keeps (exec_Xor8 op)"
  "keeps (exec_Xor16 op)"
  "keeps (exec_Xor32 op)"
  "keeps (exec_Test8 op)"
  by (rule keepsI; auto simp: Let_def split: prod.split intro!: every_intro simp:
    exec_And8_def exec_And16_def exec_Or8_def exec_Or16_def exec_Xor8_def exec_Xor16_def
    exec_Xor32_def exec_Test8_def)+

lemma logic_keep2 [keeps]:
  "keeps (exec_Test16 op)"
  "keeps (exec_Not8 op)"
  "keeps (exec_Not16 op)"
  "keeps (exec_Bsf op)"
  "keeps (exec_Bt op)"
  "keeps (exec_Setc op)"
  "keeps (exec_Setnz op)"
  by (rule keepsI; auto simp: Let_def split: prod.split intro!: every_intro simp:
    exec_Test16_def exec_Not8_def exec_Not16_def exec_Bsf_def exec_Bt_def exec_Setc_def
    exec_Setnz_def)+

lemma shift_keep1 [keeps]:
  "keeps (exec_Rcl8 op)"
  "keeps (exec_Rcl16 op)"
  "keeps (exec_Rcr8 op)"
  "keeps (exec_Rcr16 op)"
  "keeps (exec_Rcr32 op)"
  "keeps (exec_Rol16 op)"
  "keeps (exec_Ror16 op)"
  "keeps (exec_Ror32 op)"
  by (rule keepsI; auto simp: Let_def split: prod.split intro!: every_intro simp:
    exec_Rcl8_def exec_Rcl16_def exec_Rcr8_def exec_Rcr16_def exec_Rcr32_def exec_Rol16_def
    exec_Ror16_def exec_Ror32_def)+

lemma shift_keep2 [keeps]:
  "keeps (exec_Sar8 op)"
  "keeps (exec_Sar16 op)"
  "keeps (exec_Sar32 op)"
  "keeps (exec_Shl8 op)"
  "keeps (exec_Shl16 op)"
  "keeps (exec_Shl32 op)"
  "keeps (exec_Shld op)"
  "keeps (exec_Shr8 op)"
  by (rule keepsI; auto simp: Let_def split: prod.split intro!: every_intro simp:
    exec_Sar8_def exec_Sar16_def exec_Sar32_def exec_Shl8_def exec_Shl16_def exec_Shl32_def
    exec_Shld_def exec_Shr8_def)+

lemma shift_keep3 [keeps]:
  "keeps (exec_Shr16 op)"
  "keeps (exec_Shr32 op)"
  by (rule keepsI; auto simp: Let_def split: prod.split intro!: every_intro simp:
    exec_Shr16_def exec_Shr32_def)+

lemma shift_exit [keeps]:
  "keeps_exit (exec_Rol8 op)"
  "keeps_exit (exec_Ror8 op)"
  "keeps_exit (exec_Shrd op)"
  by (rule keeps_exitI; auto simp: Let_def split: prod.split intro!: every_intro simp:
    exec_Rol8_def exec_Ror8_def exec_Shrd_def)+

lemma every_enter [every_intro]:
  "clk k c \<Longrightarrow> size_is n u \<Longrightarrow> (\<And>c' u'. clk k c' \<Longrightarrow> size_is n u' \<Longrightarrow> Q (c', u')) \<Longrightarrow> every (enter_loop j c u) Q"
  by (induction j arbitrary: c u) (auto simp: Let_def intro!: every_intro)

lemma move_keep1 [keeps]:
  "keeps (exec_Lahf op)"
  "keeps (exec_Sahf op)"
  "keeps (exec_Salc op)"
  "keeps (exec_Lds op)"
  "keeps (exec_Les op)"
  "keeps (exec_Lea16 op)"
  "keeps (exec_Mov8 op)"
  "keeps (exec_Mov16 op)"
  by (rule keepsI; auto simp: Let_def split: prod.split intro!: every_intro simp:
    exec_Lahf_def exec_Sahf_def exec_Salc_def exec_Lds_def exec_Les_def exec_Lea16_def
    exec_Mov8_def exec_Mov16_def)+

lemma move_keep2 [keeps]:
  "keeps (exec_Mov32 op)"
  "keeps (exec_Movsx16 op)"
  "keeps (exec_Movsx32 op)"
  "keeps (exec_Movzx16 op)"
  "keeps (exec_Movzx32 op)"
  "keeps (exec_Xchg8 op)"
  "keeps (exec_Xchg16 op)"
  "keeps (exec_Xchg32 op)"
  by (rule keepsI; auto simp: Let_def split: prod.split intro!: every_intro simp:
    exec_Mov32_def exec_Movsx16_def exec_Movsx32_def exec_Movzx16_def exec_Movzx32_def
    exec_Xchg8_def exec_Xchg16_def exec_Xchg32_def)+

lemma move_keep3 [keeps]:
  "keeps (exec_Xlatb op)"
  "keeps (exec_Push16 op)"
  "keeps (exec_Push32 op)"
  "keeps (exec_Pop16 op)"
  "keeps (exec_Pop32 op)"
  "keeps (exec_Pusha16 op)"
  "keeps (exec_Pushad32 op)"
  "keeps (exec_Popa16 op)"
  by (rule keepsI; auto simp: Let_def split: prod.split intro!: every_intro simp:
    exec_Xlatb_def exec_Push16_def exec_Push32_def exec_Pop16_def exec_Pop32_def
    exec_Pusha16_def exec_Pushad32_def exec_Popa16_def)+

lemma move_keep4 [keeps]:
  "keeps (exec_Popad32 op)"
  "keeps (exec_Pushf op)"
  "keeps (exec_Popf op)"
  "keeps (exec_Enter op)"
  "keeps (exec_Leave op)"
  by (rule keepsI; auto simp: Let_def split: prod.split intro!: every_intro simp:
    exec_Popad32_def exec_Pushf_def exec_Popf_def exec_Enter_def exec_Leave_def)+

lemma flow_keep1 [keeps]:
  "keeps (exec_Jcc x op)"
  "keeps (exec_Jmp op)"
  "keeps (exec_JmpFar op)"
  "keeps (exec_CallNear op)"
  "keeps (exec_CallFar op)"
  "keeps (exec_Retn op)"
  "keeps (exec_Retf op)"
  "keeps (exec_Int op)"
  by (rule keepsI; auto simp: Let_def split: prod.split intro!: every_intro simp:
    exec_Jcc_def exec_Jmp_def exec_JmpFar_def exec_CallNear_def exec_CallFar_def exec_Retn_def
    exec_Retf_def exec_Int_def)+

lemma flow_keep2 [keeps]:
  "keeps (exec_Iret op)"
  "keeps (exec_Loop x op)"
  "keeps (exec_Cmpsb op)"
  "keeps (exec_Cmpsw op)"
  "keeps (exec_Lodsb op)"
  "keeps (exec_Lodsw op)"
  "keeps (exec_Lodsd op)"
  "keeps (exec_Movsb op)"
  by (rule keepsI; auto simp: Let_def split: prod.split intro!: every_intro simp:
    exec_Iret_def exec_Loop_def exec_Cmpsb_def exec_Cmpsw_def exec_Lodsb_def exec_Lodsw_def
    exec_Lodsd_def exec_Movsb_def)+

lemma flow_keep3 [keeps]:
  "keeps (exec_Movsw op)"
  "keeps (exec_Movsd op)"
  "keeps (exec_Scasb op)"
  "keeps (exec_Scasw op)"
  "keeps (exec_Stosb op)"
  "keeps (exec_Stosw op)"
  "keeps (exec_Stosd op)"
  by (rule keepsI; auto simp: Let_def split: prod.split intro!: every_intro simp:
    exec_Movsw_def exec_Movsd_def exec_Scasb_def exec_Scasw_def exec_Stosb_def exec_Stosw_def
    exec_Stosd_def)+

section \<open>The groups of instructions\<close>

lemma keepsD: "keeps f \<Longrightarrow> clk k c \<Longrightarrow> size_is n u \<Longrightarrow> every (f c u) (both k n)"
  unfolding keeps_def by blast

lemma keeps_falls: "keeps f \<Longrightarrow> keeps_exit (\<lambda>c u. falls (f c u))"
  by (auto simp: keeps_def keeps_exit_def falls_def case_prod_beta)

lemma keeps_unhandled: "keeps unhandled" "keeps (\<lambda>c u. Some (c, u))" "keeps_exit (\<lambda>c u. falls (Some (c, u)))"
  by (simp_all add: keeps_def keeps_exit_def unhandled_def falls_def)

lemma keeps_arith: "keeps_exit (exec_arith x op)"
  by (cases x; simp add: exec_arith_def [abs_def] keeps keeps_falls keeps_unhandled)

lemma keeps_mul: "keeps_exit (exec_mul x op)"
  by (cases x; simp add: exec_mul_def [abs_def] keeps keeps_falls keeps_unhandled)

lemma keeps_logic: "keeps_exit (exec_logic x op)"
  by (cases x; simp add: exec_logic_def [abs_def] keeps keeps_falls keeps_unhandled)

lemma keeps_shift: "keeps_exit (exec_shift x op)"
  by (cases x; simp add: exec_shift_def [abs_def] keeps keeps_falls keeps_unhandled)

lemma keeps_move: "keeps (exec_move x op)"
  by (cases x; simp add: exec_move_def [abs_def] keeps keeps_unhandled)

lemma keeps_flow: "keeps (exec_flow x op)"
  by (cases x; simp add: exec_flow_def [abs_def] keeps keeps_unhandled)

lemma keeps_string: "keeps (exec_string x op)"
  by (cases x; simp add: exec_string_def [abs_def] keeps keeps_unhandled)

lemma clk_flag: "clk k (exec_flag g c) = clk k c"
  by (cases g) (simp_all add: exec_flag_def Let_def)

lemma keeps_flag: "keeps (\<lambda>c u. Some (exec_flag g c, u))"
  by (simp add: keeps_def clk_flag)

section \<open>One instruction\<close>

definition steady :: "clock \<Rightarrow> nat \<Rightarrow> Machine \<Rightarrow> bool" where
  "steady k n m \<longleftrightarrow> clk k (cpu m) \<and> size_is n (mmu m)"

lemma steady_put [simp]:
  "steady k n (put_state m s) = both k n s" "steady k n (m\<lparr>cpu := c\<rparr>) \<longleftrightarrow> clk k c \<and> size_is n (mmu m)"
  "steady k n (m\<lparr>components := ms\<rparr>) = steady k n m"
  "clk k (cpu (put_state m s)) = clk k (fst s)" "size_is n (mmu (put_state m s)) = size_is n (snd s)"
  by (simp_all add: steady_def both_def put_state_def)

lemma every_components [every_intro]:
  "(\<And>r ms. Q (r, ms)) \<Longrightarrow> every (bus_in ds port) Q"
  "(\<And>b ms. Q' (b, ms)) \<Longrightarrow> every (bus_out ds port v) Q'"
  by (rule every_any; auto)+

lemma every_port [every_intro]:
  "steady k n m \<Longrightarrow> (\<And>v m'. steady k n m' \<Longrightarrow> Q (v, m')) \<Longrightarrow> every (machine_in_u8 m port) Q"
  "steady k n m \<Longrightarrow> (\<And>v m'. steady k n m' \<Longrightarrow> Q' (v, m')) \<Longrightarrow> every (machine_in_u16 m port) Q'"
  "steady k n m \<Longrightarrow> (\<And>m'. steady k n m' \<Longrightarrow> R m') \<Longrightarrow> every (machine_out_u8 m port b) R"
  "steady k n m \<Longrightarrow> (\<And>m'. steady k n m' \<Longrightarrow> R m') \<Longrightarrow> every (machine_out_u16 m port w) R"
  by (auto simp: machine_in_u8_def machine_in_u16_def machine_out_u8_def machine_out_u16_def
      split: option.splits intro!: every_intro)

lemma every_io:
  assumes "steady k n m"
  shows "every (exec_In8 op m) (steady k n)" "every (exec_In16 op m) (steady k n)"
    "every (exec_Insb op m) (steady k n)" "every (exec_Out8 op m) (steady k n)"
    "every (exec_Out16 op m) (steady k n)" "every (exec_Outsb op m) (steady k n)"
    "every (exec_Outsw op m) (steady k n)"
  using assms
  by (auto simp: exec_In8_def exec_In16_def exec_Insb_def exec_Out8_def exec_Out16_def exec_Outsb_def
      exec_Outsw_def steady_def intro!: every_intro)

lemma every_on_state [every_intro]:
  assumes "steady k n m" "keeps_exit f"
  shows "every (on_state m (f (cpu m) (mmu m))) (\<lambda>r. steady k n (snd r))"
proof -
  have "every (f (cpu m) (mmu m)) (\<lambda>r. both k n (snd r))"
    using assms unfolding steady_def keeps_exit_def by blast
  then show ?thesis
    by (simp add: on_state_def case_prod_beta)
qed

lemma every_op: "steady k n m \<Longrightarrow> every (exec_op op m) (\<lambda>r. steady k n (snd r))"
  by (auto simp: exec_op_def exec_io_def Let_def split: Op.split StringOp.split
      intro!: every_on_state keeps_arith keeps_mul keeps_logic keeps_shift keeps_falls keeps_move keeps_flow
        keeps_string keeps_flag keeps_unhandled every_io every_intro)

definition ticked :: "clock \<Rightarrow> clock option" where
  "ticked k = (case k of (i, y, hz) \<Rightarrow> do { i \<leftarrow> add_chk i 1; y \<leftarrow> add_chk y 1; Some (i, y, hz) })"

lemma every_repeat: "clk k c \<Longrightarrow> every (repeat_suffix r start c) (clk k)"
  by (cases r) (simp_all add: repeat_suffix_def Let_def)

lemma every_exit:
  "every (exec_op op m) (\<lambda>r. steady k n (snd r)) \<Longrightarrow>
   every (exec_op op m) (\<lambda>r. every (case fst r of
      Return \<Rightarrow> Some (snd r)
    | Fall \<Rightarrow> do { c \<leftarrow> repeat_suffix rep start (cpu (snd r)); Some (snd r\<lparr>cpu := c\<rparr>) }) (steady k n))"
  by (erule every_mono) (auto simp: steady_def split: Exit.split intro: every_repeat)

lemma execute_steady:
  assumes "steady k n m"
  shows "every (execute op m) (\<lambda>m'. \<exists>k'. ticked k = Some k' \<and> steady k' n m')"
proof -
  let ?c = "\<lambda>i y. set_ip (cpu m) (cpu_ip (cpu m) + ucast (ilength op))\<lparr>instruction_count := i, cycle_count := y\<rparr>"
  have "every (execute op m) (\<lambda>m'. \<exists>k'. ticked k = Some k' \<and> steady k' n m')"
    if "add_chk (instruction_count (cpu m)) 1 = Some i" "add_chk (cycle_count (cpu m)) 1 = Some y" for i y
  proof -
    let ?k = "(i, y, clock_hz (cpu m))"
    have k: "ticked k = Some ?k"
      using assms that by (auto simp: ticked_def steady_def clk_def)
    have "steady ?k n (m\<lparr>cpu := ?c i y\<rparr>)"
      using assms by (simp add: steady_def clk_def set_ip_def)
    from every_exit [OF every_op [OF this], where op = op and rep = "repeat op" and start = "cpu_ip (cpu m)"]
    show ?thesis
      using that k by (simp add: execute_def Let_def set_ip_def case_prod_beta)
  qed
  then show ?thesis
    by (cases "add_chk (instruction_count (cpu m)) 1"; cases "add_chk (cycle_count (cpu m)) 1")
      (simp_all add: execute_def Let_def set_ip_def)
qed

end
