(* ===== verification/X86_Frame_Devices.thy ===== *)
theory X86_Frame_Devices
  imports X86_Frame
begin

text \<open>
  The interrupt handlers of the devices and of DOS keep the counters and the clock rate of the
  processor and the size of the memory. The locale \<open>steady_device\<close> extends the device interface by
  this law; the bus of devices satisfies it when its devices do.
\<close>

unbundle bit_operations_syntax

section \<open>Results of the devices\<close>

lemma every_device_state [every_intro]:
  "(\<And>x. A x) \<Longrightarrow> every (a :: GPU option) A" "(\<And>x. B x) \<Longrightarrow> every (b :: DAC option) B"
  "(\<And>x. C x) \<Longrightarrow> every (d :: CRTC option) C" "(\<And>x. D x) \<Longrightarrow> every (e :: MemoryAddress option) D"
  "(\<And>x. E x) \<Longrightarrow> every (f :: rstring option) E" "(\<And>x. F x) \<Longrightarrow> every (g :: u8 list option) F"
  "(\<And>x. G x) \<Longrightarrow> every (h :: Path option) G" "(\<And>x. H x) \<Longrightarrow> every (i :: Timer option) H"
  "(\<And>x. I x) \<Longrightarrow> every (j :: ColorSpace list option) I"
  "(\<And>x y. J (x, y)) \<Longrightarrow> every (k :: (u16 \<times> DOS) option) J"
  "(\<And>x y. K (x, y)) \<Longrightarrow> every (l :: (u8 \<times> DAC) option) K"
  "(\<And>x y z w. L ((x, y, z), w)) \<Longrightarrow> every (m :: ((u8 \<times> u8 \<times> u8) \<times> GPU) option) L"
  "(\<And>x y. N (x, y)) \<Longrightarrow> every (n :: (nat \<times> nat) option) N"
  by (rule every_any; auto)+

lemma every_for_each:
  assumes "P s" and "\<And>x s. P s \<Longrightarrow> every (f x s) P" and "\<And>s. P s \<Longrightarrow> Q s"
  shows "every (for_each f xs s) Q"
proof -
  have "every (for_each f xs s) P"
    using assms(1)
  proof (induction xs arbitrary: s)
    case (Cons x xs)
    then show ?case
      using assms(2) [of s x] by (auto intro: every_mono)
  qed simp
  then show ?thesis
    using assms(3) by (rule every_mono)
qed

lemma every_upd [every_intro]:
  "size_is n u \<Longrightarrow> (\<And>u'. size_is n u' \<Longrightarrow> Q u') \<Longrightarrow> every (upd_memory u (mem_write_u8 (memory u) a v8)) Q"
  "size_is n u \<Longrightarrow> (\<And>u'. size_is n u' \<Longrightarrow> Q u') \<Longrightarrow> every (upd_memory u (mem_write_u16 (memory u) a v16)) Q"
  by (auto simp: upd_memory_def size_is_def intro!: every_memory)

lemma every_mmu_store [every_intro]:
  "size_is n u \<Longrightarrow> (\<And>u'. size_is n u' \<Longrightarrow> Q u') \<Longrightarrow> every (mmu_set_flag u fm b) Q"
  "size_is n u \<Longrightarrow> (\<And>u'. size_is n u' \<Longrightarrow> Q u') \<Longrightarrow> every (mmu_write_vec u v ad) Q"
  by (auto simp: mmu_set_flag_def mmu_write_vec_def Let_def simp del: addr_value.simps intro!: every_intro)

section \<open>The display adapter\<close>

declare for_each.simps [simp del]

lemma every_text [every_intro]:
  "size_is n u \<Longrightarrow> (\<And>g' u'. size_is n u' \<Longrightarrow> Q (g', u')) \<Longrightarrow> every (set_cursor_pos g u row col page) Q"
  by (auto simp: set_cursor_pos_def Let_def intro!: every_intro)

lemma every_page [every_intro]:
  "size_is n u \<Longrightarrow> (\<And>g' u'. size_is n u' \<Longrightarrow> Q (g', u')) \<Longrightarrow> every (set_active_page g u page) Q"
  by (auto simp: set_active_page_def Let_def intro!: every_intro)

lemma every_store_mode [every_intro]:
  "size_is n u \<Longrightarrow> (\<And>u'. size_is n u' \<Longrightarrow> Q u') \<Longrightarrow> every (store_mode_in_bios g u b) Q"
  by (auto simp: store_mode_in_bios_def Let_def intro!: every_intro)

lemma every_set_mode [every_intro]:
  "size_is n u \<Longrightarrow> (\<And>g' u'. size_is n u' \<Longrightarrow> Q (g', u')) \<Longrightarrow> every (gpu_set_mode g u mode) Q"
  by (auto simp: gpu_set_mode_def Let_def split: option.split
      intro!: every_intro every_for_each [where P = "\<lambda>(g, u). size_is n u"])

lemma every_pixel [every_intro]:
  "size_is n u \<Longrightarrow> (\<And>u'. size_is n u' \<Longrightarrow> Q u') \<Longrightarrow> every (write_pixel g u x y page color) Q"
  by (auto simp: write_pixel_def write_pixel_cga_16k_def write_pixel_cga_32k_def Let_def intro!: every_intro)

lemma every_glyph_line [every_intro]:
  "size_is n u \<Longrightarrow> (\<And>u'. size_is n u' \<Longrightarrow> Q u') \<Longrightarrow> every (glyph_line g page attr xm x bl y u) Q"
  by (auto simp: glyph_line_def Let_def
      intro!: every_intro every_for_each [where P = "\<lambda>(tx, u). size_is n u"])

lemma every_char [every_intro]:
  "size_is n u \<Longrightarrow> (\<And>u'. size_is n u' \<Longrightarrow> Q u') \<Longrightarrow> every (write_char_internal g u col row page chr attr ua) Q"
  by (auto simp: write_char_internal_def Let_def
      intro!: every_intro every_for_each [where P = "\<lambda>(w, y, u). size_is n u"])

lemma every_chars [every_intro]:
  "size_is n u \<Longrightarrow> (\<And>u'. size_is n u' \<Longrightarrow> Q u') \<Longrightarrow> every (write_char g u chr attr page k sa) Q"
  by (auto simp: write_char_def Let_def
      intro!: every_intro every_for_each [where P = "\<lambda>(c, r, u). size_is n u"])

lemma every_teletype_attr [every_intro]:
  "size_is n u \<Longrightarrow> (\<And>g' u'. size_is n u' \<Longrightarrow> Q (g', u')) \<Longrightarrow> every (teletype_output_attr g u chr attr page ua) Q"
  by (auto simp: teletype_output_attr_def Let_def intro!: every_intro)

lemma every_teletype [every_intro]:
  "size_is n u \<Longrightarrow> (\<And>g' u'. size_is n u' \<Longrightarrow> Q (g', u')) \<Longrightarrow> every (teletype_output g u chr page attr) Q"
  by (auto simp: teletype_output_def intro!: every_intro)

lemma every_string [every_intro]:
  "size_is n u \<Longrightarrow> (\<And>g' u'. size_is n u' \<Longrightarrow> Q (g', u')) \<Longrightarrow>
   every (write_string g u row col flag attr sseg soff k page) Q"
  by (auto simp: write_string_def Let_def split: prod.split
      intro!: every_intro every_for_each [where P = "\<lambda>(g, u, r). size_is n u"])

lemma every_graphics_chars [every_intro]:
  "size_is n u \<Longrightarrow> (\<And>u'. size_is n u' \<Longrightarrow> Q u') \<Longrightarrow> every (load_graphics_chars g u row dl) Q"
  by (auto simp: load_graphics_chars_def intro!: every_intro)

lemma every_dac_block [every_intro]:
  "size_is n u \<Longrightarrow> (\<And>g' u'. size_is n u' \<Longrightarrow> Q (g', u')) \<Longrightarrow> every (read_dac_block g u idx k seg off) Q"
  by (auto simp: read_dac_block_def
      intro!: every_intro every_for_each [where P = "\<lambda>(d, u, w). size_is n u"])

section \<open>Handlers\<close>

definition keeps_int :: "'d int_handler \<Rightarrow> bool" where
  "keeps_int h \<longleftrightarrow> (\<forall>k n d v c u. clk k c \<longrightarrow> size_is n u \<longrightarrow> every (h d v c u) (\<lambda>(b, d, c, u). clk k c \<and> size_is n u))"

lemma keeps_intI:
  "(\<And>k n d v c u. clk k c \<Longrightarrow> size_is n u \<Longrightarrow> every (h d v c u) (\<lambda>(b, d, c, u). clk k c \<and> size_is n u)) \<Longrightarrow> keeps_int h"
  by (simp add: keeps_int_def)

lemma keeps_int_simple:
  "keeps_int no_int" "keeps_int storage_int" "keeps_int pit_int" "keeps_int mouse_int"
  by (rule keeps_intI; auto simp: no_int_def storage_int_def pit_int_def mouse_int_def Let_def intro!: every_intro)+

lemma keeps_int_keyboard: "keeps_int keyboard_int"
  by (rule keeps_intI) (auto simp: keyboard_int_def Let_def split: prod.split intro!: every_intro)

lemma clk_point [simp]: "clk k (point_to_font c a) = clk k c"
  by (cases a) (simp_all add: point_to_font_def)

lemma every_gpu_parts:
  assumes "clk k c" "size_is n u"
  shows "every (gpu_int_palette g c u) (\<lambda>(b, d, c, u). clk k c \<and> size_is n u)"
    and "every (gpu_int_fonts g c u) (\<lambda>(b, d, c, u). clk k c \<and> size_is n u)"
    and "every (gpu_int_info g ah c u) (\<lambda>(b, d, c, u). clk k c \<and> size_is n u)"
  using assms by (auto simp: gpu_int_palette_def gpu_int_fonts_def gpu_int_info_def intro!: every_intro)

lemma keeps_int_gpu: "keeps_int gpu_int"
  by (rule keeps_intI) (auto simp: gpu_int_def Let_def intro!: every_gpu_parts every_intro)

section \<open>DOS\<close>

lemma every_dos_parts [every_intro]:
  "clk k c \<Longrightarrow> size_is n u \<Longrightarrow> (\<And>c' u'. clk k c' \<Longrightarrow> size_is n u' \<Longrightarrow> P (c', u')) \<Longrightarrow> every (dos_flush c u) P"
  "clk k c \<Longrightarrow> size_is n u \<Longrightarrow> (\<And>c' u'. clk k c' \<Longrightarrow> size_is n u' \<Longrightarrow> P (c', u')) \<Longrightarrow> every (dos_read h d c u) P"
  "clk k c \<Longrightarrow> (\<And>c'. clk k c' \<Longrightarrow> Q c') \<Longrightarrow> every (dos_time now c) Q"
  "clk k c \<Longrightarrow> (\<And>d' c'. clk k c' \<Longrightarrow> R (d', c')) \<Longrightarrow> every (dos_open h d c u) R"
  "clk k c \<Longrightarrow> (\<And>d' c'. clk k c' \<Longrightarrow> R (d', c')) \<Longrightarrow> every (dos_close d c) R"
  by (auto simp: dos_flush_def dos_time_def dos_open_def dos_close_def dos_read_def Let_def
      split: option.split ReadResult.split intro!: every_intro)

lemma every_dos_memory:
  "clk k c \<Longrightarrow> size_is n u \<Longrightarrow> every (dos_int21_memory d ah c u) (\<lambda>(b, d, c, u). clk k c \<and> size_is n u)"
  by (auto simp: dos_int21_memory_def Let_def intro!: every_intro)

lemma keeps_int_dos: "keeps_int (dos_int h)"
  by (rule keeps_intI)
    (auto simp: dos_int_def dos_int21_def Let_def simp del: dollar_loop.simps intro!: every_dos_memory every_intro)

section \<open>The interface and the bus\<close>

locale steady_device = device +
  assumes intr_steady: "keeps_int intr"
begin

lemma handler_keeps:
  assumes "clk k c" "size_is n u" "intr d v c u = Some (b, d', c', u')"
  shows "clk k c' \<and> size_is n u'"
proof -
  have "every (intr d v c u) (\<lambda>(b, d, c, u). clk k c \<and> size_is n u)"
    using intr_steady assms(1,2) unfolding keeps_int_def by blast
  from everyD [OF this assms(3)] show ?thesis
    by simp
qed

end

lemma keeps_intD:
  "keeps_int h \<Longrightarrow> clk k c \<Longrightarrow> size_is n u \<Longrightarrow> every (h d v c u) (\<lambda>(b, d, c, u). clk k c \<and> size_is n u)"
  unfolding keeps_int_def by blast

lemma keeps_lift:
  "keeps_int h \<Longrightarrow> clk k c \<Longrightarrow> size_is n u \<Longrightarrow>
   every (lift_int w h d v c u) (\<lambda>(b, d, c, u). clk k c \<and> size_is n u)"
  by (drule (2) keeps_intD) (simp add: lift_int_def, erule every_mono, auto)

lemma keeps_int_component: "keeps_int component_int"
  by (rule keeps_intI)
    (auto simp: component_int_def split: MachineComponent.split
      intro: keeps_lift keeps_int_simple keeps_int_keyboard keeps_int_gpu)

lemma keeps_int_bus: "keeps_int bus_int"
proof (rule keeps_intI)
  fix k :: clock and n ms v c u
  assume "clk k c" "size_is n u"
  then show "every (bus_int ms v c u) (\<lambda>(b, d, c, u). clk k c \<and> size_is n u)"
  proof (induction ms arbitrary: c u)
    case (Cons m ms)
    show ?case
      by simp (rule every_mono [OF keeps_intD [OF keeps_int_component Cons.prems]],
        auto intro!: every_mono [OF Cons.IH])
  qed simp
qed

interpretation steady_pit: steady_device pit_in_u8 pit_out_u8 pit_int
  by unfold_locales (rule keeps_int_simple)

interpretation steady_keyboard: steady_device keyboard_in_u8 keyboard_out_u8 keyboard_int
  by unfold_locales (rule keeps_int_keyboard)

interpretation steady_gpu: steady_device gpu_in_u8 gpu_out_u8 gpu_int
  by unfold_locales (rule keeps_int_gpu)

interpretation steady_dos: steady_device no_in_u8 no_out_u8 "dos_int h" for h
  by unfold_locales (rule keeps_int_dos)

interpretation steady_bus: steady_device bus_in bus_out bus_int
  by unfold_locales (rule keeps_int_bus)

section \<open>The instruction cycle\<close>

lemma handle_interrupt_steady:
  assumes "steady k n m"
  shows "every (handle_interrupt h v m) (steady k n)"
proof -
  have "clk k (cpu m)" "size_is n (mmu m)"
    using assms by (simp_all add: steady_def)
  from keeps_intD [OF keeps_int_bus this] show ?thesis
    unfolding handle_interrupt_def every_simps
    by (rule every_mono)
      (auto simp: steady_def Let_def clk_def [where c = "c\<lparr>fatal_error := True\<rparr>" for c]
        intro!: every_mono [OF keeps_intD [OF keeps_int_dos]])
qed

lemma update_pits_size: "size_is n u \<Longrightarrow> every (update_pits ms u) (\<lambda>r. size_is n (snd r))"
proof (induction ms arbitrary: u)
  case (Cons m ms)
  have "every (update_pits ms u') (\<lambda>x. every (case x of (ms, u) \<Rightarrow> Some (m' # ms, u)) (\<lambda>r. size_is n (snd r)))"
    if "size_is n u'" for u' m'
    using Cons.IH [OF that] by (rule every_mono) auto
  then show ?case
    using Cons.prems by (cases m) (auto simp: pit_update_def intro!: every_intro)
qed simp

lemma periodic_steady: "steady k n m \<Longrightarrow> every (periodic m) (steady k n)"
  by (auto simp: periodic_def steady_def case_prod_beta
      intro!: every_any [where r = "gpu_mut f ms" for f ms] every_mono [OF update_pits_size])

definition stepped :: "clock \<Rightarrow> nat \<Rightarrow> Machine \<Rightarrow> bool" where
  "stepped k n m \<longleftrightarrow> fatal_error (cpu m) \<and> steady k n m \<or> (\<exists>k'. ticked k = Some k' \<and> steady k' n m)"

lemma periodic_fatal: "fatal_error (cpu m) \<Longrightarrow> every (periodic m) (\<lambda>m'. fatal_error (cpu m'))"
  by (auto simp: periodic_def case_prod_beta intro!: every_any)

lemma every_conj: "every r P \<Longrightarrow> every r Q \<Longrightarrow> every r (\<lambda>x. P x \<and> Q x)"
  by (cases r) simp_all

lemma periodic_stepped:
  assumes "stepped k n m"
  shows "every (periodic m) (stepped k n)"
  using assms unfolding stepped_def
proof (elim disjE conjE exE)
  assume "fatal_error (cpu m)" "steady k n m"
  then show "every (periodic m) (\<lambda>m. fatal_error (cpu m) \<and> steady k n m \<or> (\<exists>k'. ticked k = Some k' \<and> steady k' n m))"
    by (intro every_mono [OF every_conj [OF periodic_fatal periodic_steady]]) auto
next
  fix k' assume "ticked k = Some k'" "steady k' n m"
  then show "every (periodic m) (\<lambda>m. fatal_error (cpu m) \<and> steady k n m \<or> (\<exists>k'. ticked k = Some k' \<and> steady k' n m))"
    by (intro every_mono [OF periodic_steady]) auto
qed

lemma fatal_stepped: "steady k n m \<Longrightarrow> stepped k n (fatal m)"
  by (simp add: stepped_def fatal_def steady_def)

lemma run_decoded_stepped:
  assumes "steady k n m"
  shows "every (run_decoded h cs pc op m) (stepped k n)"
proof -
  have "every (execute op m) (stepped k n)"
    using execute_steady [OF assms] by (rule every_mono) (auto simp: stepped_def)
  then show ?thesis
    using fatal_stepped [OF assms]
    by (auto simp: run_decoded_def Let_def intro: every_any split: Op.split)
qed

lemma execute_instruction_stepped:
  assumes "steady k n m"
  shows "every (execute_instruction h m) (stepped k n)"
proof -
  have decode: "every (do {
      (op, d) \<leftarrow> get_instruction (decoder (cpu m)) (mmu m) cs pc;
      let m = m\<lparr>cpu := (cpu m)\<lparr>decoder := d\<rparr>\<rparr>;
      let stop = (case trace_count m of Some limit \<Rightarrow> instruction_count (cpu m) \<ge> limit | None \<Rightarrow> False);
      if stop then Some (fatal m)
      else do {
        m \<leftarrow> run_decoded h cs' pc op m;
        periodic m
      }
    }) (stepped k n)" if "steady k n m" for m cs cs' pc
  proof -
    have "steady k n (m\<lparr>cpu := cpu m\<lparr>decoder := d\<rparr>\<rparr>)" for d
      using that by (simp add: steady_def)
    note d = fatal_stepped [OF this] every_mono [OF run_decoded_stepped [OF this] periodic_stepped]
    show ?thesis
      by (auto simp: Let_def intro!: every_any [where r = "get_instruction a b c d" for a b c d] d)
  qed
  show ?thesis
    using decode assms
    by (auto simp: execute_instruction_def Let_def intro!: every_mono [OF handle_interrupt_steady [OF assms]])
qed

end
