(* ===== verification/X86_Laws_Machine.thy ===== *)
theory X86_Laws_Machine
  imports X86_Frame_Devices
begin

text \<open>
  The laws of the machine as a whole: what an instruction counts and keeps, and that the loop of a
  video frame ends.
\<close>

unbundle bit_operations_syntax

section \<open>Counting\<close>

lemma steady_here: "steady (instruction_count (cpu m), cycle_count (cpu m), clock_hz (cpu m)) (data_len (memory (mmu m))) m"
  by (simp add: steady_def clk_def size_is_def)

lemma tickedD:
  assumes "ticked (i, y, hz) = Some k'"
  obtains i' y' where "k' = (i', y', hz)" "unat i' = unat i + 1" "unat y' = unat y + 1"
  using assms add_chk_unat [of i 1] add_chk_unat [of y 1] by (auto simp: ticked_def bind_eq_Some_conv)

text \<open>C27. Every instruction that returns, whatever its operation and operands, has counted itself
  once as an instruction and once as a cycle, and has changed neither the clock rate nor the size of
  the memory.\<close>

theorem execute_counts:
  "case execute op m of
     None \<Rightarrow> True
   | Some m' \<Rightarrow>
       unat (instruction_count (cpu m')) = unat (instruction_count (cpu m)) + 1
     \<and> unat (cycle_count (cpu m')) = unat (cycle_count (cpu m)) + 1
     \<and> clock_hz (cpu m') = clock_hz (cpu m)
     \<and> data_len (memory (mmu m')) = data_len (memory (mmu m))"
  using execute_steady [OF steady_here, of op m]
  by (auto simp: every_def steady_def clk_def size_is_def elim!: tickedD split: option.split)

section \<open>Frames\<close>

lemma frame_loop_step:
  assumes "execute_instruction h m = Some m'" "\<not> fatal_error (cpu m')"
  shows "unat (cycle_count (cpu m')) = unat (cycle_count (cpu m)) + 1"
    "clock_hz (cpu m') = clock_hz (cpu m)" "data_len (memory (mmu m')) = data_len (memory (mmu m))"
  using everyD [OF execute_instruction_stepped [OF steady_here] assms(1)] assms(2)
  by (auto simp: stepped_def steady_def clk_def size_is_def elim!: tickedD)

text \<open>What the loop may end with.\<close>

definition frame_end :: "Machine \<Rightarrow> Machine option \<Rightarrow> bool" where
  "frame_end m r \<longleftrightarrow> (case r of
     None \<Rightarrow> True
   | Some m' \<Rightarrow> (fatal_error (cpu m') \<or> cycle_count (cpu m') = 0)
       \<and> clock_hz (cpu m') = clock_hz (cpu m) \<and> data_len (memory (mmu m')) = data_len (memory (mmu m)))"

lemma frame_fatal:
  assumes "execute_instruction h m = Some m'"
  shows "clock_hz (cpu m') = clock_hz (cpu m)" "data_len (memory (mmu m')) = data_len (memory (mmu m))"
  using everyD [OF execute_instruction_stepped [OF steady_here] assms]
  by (auto simp: stepped_def steady_def clk_def size_is_def elim!: tickedD)

lemma frame_loop_ends:
  assumes "0 < n" "unat limit < n + unat (cycle_count (cpu m))"
  shows "\<exists>r. frame_loop (n + extra) h limit m = Some r \<and> frame_end m r"
  using assms
proof (induction n arbitrary: m)
  case (Suc n)
  show ?case
  proof (cases "execute_instruction h m")
    case (Some m')
    note keep = frame_fatal [OF Some]
    show ?thesis
    proof (cases "fatal_error (cpu m') \<or> cycle_count (cpu m') > limit")
      case False
      then have "unat (cycle_count (cpu m')) = unat (cycle_count (cpu m)) + 1"
        "unat (cycle_count (cpu m')) \<le> unat limit"
        using frame_loop_step [OF Some] by (auto simp: word_le_nat_alt not_less)
      with Suc.prems have "0 < n" "unat limit < n + unat (cycle_count (cpu m'))"
        by auto
      from Suc.IH [OF this] False Some keep show ?thesis
        by (auto simp: frame_end_def split: option.splits)
    qed (use Some keep in \<open>auto simp: frame_end_def\<close>)
  qed (simp add: frame_end_def)
qed simp

lemma frame_loop_more: "frame_loop n h limit m = Some r \<Longrightarrow> frame_loop (n + extra) h limit m = Some r"
  by (induction n arbitrary: m) (auto split: option.splits if_splits)

text \<open>C28. The loop of a video frame ends: one step more than the cycles of a frame are enough,
  more fuel gives the same result, and the result is a panic or a machine with an error or with the
  cycle counter reset, at the same clock rate and with a memory of the same size.\<close>

theorem frame_terminates:
  "\<exists>r. (\<forall>extra. execute_frame (Suc (unat (clock_hz (cpu m) div 60)) + extra) h m = Some r) \<and> frame_end m r"
proof -
  let ?n = "Suc (unat (clock_hz (cpu m) div 60))"
  obtain r where "frame_loop ?n h (clock_hz (cpu m) div 60) m = Some r" "frame_end m r"
    using frame_loop_ends [of ?n "clock_hz (cpu m) div 60" m 0 h] by auto
  from this(2) frame_loop_more [OF this(1)] show ?thesis
    unfolding execute_frame_def Let_def by blast
qed

end
