(* ===== verification/X86_Laws_Interrupts.thy ===== *)
theory X86_Laws_Interrupts
  imports X86_Laws_Machine X86_Laws_Core
begin

text \<open>
  The laws of interrupts: the return from one, the vectors that the BIOS and DOS install, and the
  order in which the devices are asked.
\<close>

unbundle bit_operations_syntax

section \<open>The way back\<close>

lemma set_r16_twice [simp]: "r \<in> names16 \<Longrightarrow> set_r16 (set_r16 c r v) r w = set_r16 c r w"
  by (simp add: set_r16_def bank16.put_put)

lemma set_r16_here: "r \<in> names16 \<Longrightarrow> set_r16 c r (r16v c r) = c"
  by (simp add: set_r16_def r16v_def bank16.put_get)

lemma set_r16_ip: "set_r16 (set_ip c i) r v = set_ip (set_r16 c r v) i"
  "set_r16 (with_flags c f) r v = with_flags (set_r16 c r v) f"
  "set_ip (with_flags c f) i = with_flags (set_ip c i) f"
  by (auto simp: set_r16_def set_ip_def with_flags_def rs_set_r16_def upd_gpr_def upd_sreg_def split: R.split)

lemma set_ip_twice [simp]: "set_ip (set_ip c i) j = set_ip c j" "set_ip c (cpu_ip c) = c"
  by (simp_all add: set_ip_def cpu_ip_def)

lemma set_r16_swap: "set_r16 (set_r16 c R.CS v) R.SP w = set_r16 (set_r16 c R.SP w) R.CS v"
  by (simp add: set_r16_def bank16.put_swap)

lemma execute_interrupt_result:
  fixes c :: CPU and u :: MMU and n :: u8
  defines "s \<equiv> r16v c R.SS" and "p \<equiv> r16v c R.SP"
  defines "u1 \<equiv> poke16 u s (p - 2) (flags_u16 (cpu_flags c))"
  defines "u2 \<equiv> poke16 u1 s (p - 2 - 2) (r16v c R.CS)"
  defines "u3 \<equiv> poke16 u2 s (p - 2 - 2 - 2) (cpu_ip c)"
  assumes ok: "mmu_ok u"
  shows "execute_interrupt c u n = Some
    (with_flags (set_ip (set_r16 (set_r16 c R.SP (p - 2 - 2 - 2)) R.CS (peek16 u3 0 (4 * ucast n + 2)))
       (peek16 u3 0 (4 * ucast n))) ((cpu_flags c)\<lparr>interrupt := False, trap := False\<rparr>),
     u3\<lparr>flags_address := RealSegmentOffset s (p - 2)\<rparr>)"
proof -
  have idx: "push_bit 2 (ucast n :: u16) = 4 * ucast n" by (simp add: push_bit_eq_mult mult.commute)
  have n: "unat n < 256" using unsigned_less [where 'a = nat, of n] by simp
  then have "unat (4 * ucast n :: u16) = 4 * unat n"
    by (simp add: unat_word_ariths unsigned_ucast_eq take_bit_nat_eq_self)
  then have chk: "add_chk (4 * ucast n :: u16) 2 = Some (4 * ucast n + 2)"
    using n by (intro add_chk_less) simp
  show ?thesis
    using ok by (simp add: execute_interrupt_def push16_eq get_address_pair_def Let_def idx chk
        poke16_flags_address u1_def u2_def u3_def s_def p_def set_r16_ip)
qed

lemma iret_undoes:
  assumes "mmu_ok u" "execute_interrupt c u n = Some (c', u')"
  shows "exec_Iret op c' u' =
    Some (with_flags c ((cpu_flags c)\<lparr>interrupt := False\<rparr>), u'\<lparr>flags_address := Unset\<rparr>)"
proof -
  have ok: "mmu_ok u'"
    using assms execute_interrupt_result [OF assms(1), of c n] by auto
  have slots: "peek16 u' (r16v c R.SS) (r16v c R.SP - 6) = cpu_ip c"
    "peek16 u' (r16v c R.SS) (r16v c R.SP - 4) = r16v c R.CS"
    "peek16 u' (r16v c R.SS) (r16v c R.SP - 2) = flags_u16 (cpu_flags c)"
    using interrupt_frame [OF assms] assms(2) execute_interrupt_result [OF assms(1), of c n]
    by (auto simp: slot16_def algebra_simps numeral_2_eq_2)
  obtain x y where c': "c' = with_flags (set_ip (set_r16 (set_r16 c R.SP (r16v c R.SP - 6)) R.CS x) y)
      ((cpu_flags c)\<lparr>interrupt := False, trap := False\<rparr>)"
    using assms(2) execute_interrupt_result [OF assms(1), of c n] by (auto simp: algebra_simps)
  have "set_r16 (set_r16 c R.SP (r16v c R.SP)) R.CS (r16v c R.CS) = c"
    by (simp add: set_r16_here)
  with ok slots show ?thesis
    by (simp add: c' exec_Iret_def pop16_eq Let_def set_r16_ip set_r16_swap flags_pack_unpack)
qed

text \<open>C29. IRET undoes INT: after the entry into an interrupt handler, IRET brings back every
  register and flag as they were before the interrupt, except that the interrupt flag, which the
  entry cleared, stays off. The words pushed on the stack stay in memory.\<close>

theorem iret_undoes_int:
  assumes "mmu_ok u" "execute_interrupt c u n = Some (c', u')"
  shows "exec_Iret op c' u' =
    Some (with_flags c ((cpu_flags c)\<lparr>interrupt := False\<rparr>), u'\<lparr>flags_address := Unset\<rparr>)"
  by (rule iret_undoes [OF assms])

theorem iret_undoes_int_witness:
  "\<exists>c' u'. execute_interrupt CPU_default MMU_default 0x10 = Some (c', u') \<and>
     exec_Iret (instr_new (Flow Iret)) c' u' =
       Some (with_flags CPU_default ((cpu_flags CPU_default)\<lparr>interrupt := False\<rparr>), u'\<lparr>flags_address := Unset\<rparr>)"
  using execute_interrupt_result [OF mmu_default_ok, of CPU_default "0x10"]
    iret_undoes_int [OF mmu_default_ok, of CPU_default "0x10"] by blast

section \<open>The vectors of the BIOS\<close>

text \<open>Two accesses at different places.\<close>

lemma peek_poke8_other:
  assumes "mmu_ok u"
  shows "seg_apart s p 1 t q 2 \<Longrightarrow> peek16 (poke8 u s p v) t q = peek16 u t q"
    and "seg_apart s p 1 t q 1 \<Longrightarrow> peek8 (poke8 u s p v) t q = peek8 u t q"
proof -
  assume a: "seg_apart s p 1 t q 2"
  have "le_read16 mem_read_u8 (memory (poke8 u s p v)) (lin t q) = le_read16 mem_read_u8 (memory u) (lin t q)"
    using a flat.rd_wr [OF poke_memory(1) [OF assms, of s p v]]
    by (intro flat.read16_cong) (auto simp: seg_apart_def apart_def)
  then show "peek16 (poke8 u s p v) t q = peek16 u t q"
    using peek_memory(2) [OF poke_ok(1) [OF assms], of s p v t q] peek_memory(2) [OF assms, of t q]
    by (simp add: mem_word_le)
qed (rule peek8_poke8_other [OF assms])

lemmas pokes_apart = peek_poke8_other peek16_poke16_other peek8_poke16_other

lemma for_each_upto:
  assumes "P 0 s" and "\<And>i s. i < n \<Longrightarrow> P i s \<Longrightarrow> \<exists>t. body (f i) s = Some t \<and> P (Suc i) t"
  shows "\<exists>t. for_each body (map f [0..<n]) s = Some t \<and> P n t"
  using assms(2)
proof (induction n)
  case (Suc n)
  then obtain t where "for_each body (map f [0..<n]) s = Some t" "P n t"
    using less_Suc_eq by auto
  moreover from Suc.prems [of n, OF _ this(2)] obtain t' where "body (f n) t = Some t'" "P (Suc n) t'"
    by auto
  ultimately show ?case
    by (simp add: for_each_append)
qed (simp add: assms(1))

definition vector_installed :: "nat \<Rightarrow> MMU \<Rightarrow> bool" where
  "vector_installed j u \<longleftrightarrow> peek16 u 0 (of_nat (4 * j)) = of_nat j \<and>
     peek16 u 0 (of_nat (4 * j + 2)) = ROM_SEG \<and> peek8 u ROM_SEG (of_nat j) = 0xCF"

lemma unat_of_small: "k < 65536 \<Longrightarrow> unat (of_nat k :: u16) = k"
  by (simp add: unsigned_of_nat take_bit_nat_eq_self)

lemma low_apart:
  "a < 1024 \<Longrightarrow> b < 1024 \<Longrightarrow> a + 2 \<le> b \<or> b + 2 \<le> a \<Longrightarrow> seg_apart 0 (of_nat a) 2 0 (of_nat b) 2"
  "a < 1024 \<Longrightarrow> seg_apart ROM_SEG q 1 0 (of_nat a) 2" "a < 1024 \<Longrightarrow> seg_apart 0 (of_nat a) 2 ROM_SEG q 1"
  "a < 1024 \<Longrightarrow> seg_apart ROM_SEG q 2 0 (of_nat a) 2"
  "a < 65536 \<Longrightarrow> b < 65536 \<Longrightarrow> a \<noteq> b \<Longrightarrow> seg_apart ROM_SEG (of_nat a) 1 ROM_SEG (of_nat b) 1"
  by (auto simp: seg_apart_def apart_def unat_lin unat_of_small ROM_SEG_def)

lemma install_vector:
  assumes "mmu_ok u" "i < 0xFF" "\<And>j. j < i \<Longrightarrow> vector_installed j u"
  shows "\<exists>t. do { u \<leftarrow> write_ivt_entry u (of_nat i) ROM_SEG (ucast (of_nat i :: u8));
       mmu_write_u8 u ROM_SEG (ucast (of_nat i :: u8)) 0xCF } = Some t \<and>
     mmu_ok t \<and> (\<forall>j < Suc i. vector_installed j t)"
proof -
  have i: "ucast (of_nat i :: u8) = (of_nat i :: u16)"
    using assms(2) by (simp add: word_eq_iff_unsigned unsigned_ucast_eq unsigned_of_nat take_bit_nat_eq_self)
  have m: "mul_chk (of_nat i :: u16) 4 = Some (of_nat (4 * i))"
    using assms(2) by (simp add: mul_chk_def uint_nat unat_of_small)
  have a: "add_chk (of_nat (4 * i) :: u16) 2 = Some (of_nat (4 * i + 2))"
    using assms(2) add_chk_less [of "of_nat (4 * i) :: u16" 2] unat_of_small [of "4 * i"] by simp
  let ?u1 = "poke16 u 0 (of_nat (4 * i)) (of_nat i)"
  let ?u2 = "poke16 ?u1 0 (of_nat (4 * i + 2)) ROM_SEG"
  let ?t = "poke8 ?u2 ROM_SEG (of_nat i) 0xCF"
  have ok: "mmu_ok ?u1" "mmu_ok ?u2"
    using assms(1) by simp_all
  have self: "vector_installed i ?t"
    using assms(1,2) ok low_apart(2) [of "4 * i"] low_apart(2) [of "4 * i + 2"] low_apart(1) [of "4 * i + 2" "4 * i"]
    by (simp add: vector_installed_def pokes_apart)
  have "vector_installed j ?t" if "j < i" for j
    using assms(3) [OF that] assms(1,2) ok that low_apart(2) [of "4 * j"] low_apart(2) [of "4 * j + 2"]
      low_apart(1) [of "4 * i" "4 * j"] low_apart(1) [of "4 * i + 2" "4 * j"]
      low_apart(1) [of "4 * i" "4 * j + 2"] low_apart(1) [of "4 * i + 2" "4 * j + 2"]
      low_apart(3) [of "4 * i"] low_apart(3) [of "4 * i + 2"] low_apart(5) [of i j]
    by (simp add: vector_installed_def pokes_apart)
  with self have "\<forall>j < Suc i. vector_installed j ?t"
    by (simp add: less_Suc_eq)
  then show ?thesis
    using assms(1) by (simp add: write_ivt_entry_def i m a [simplified])
qed

lemma rom_inc:
  assumes "mmu_ok u"
  shows "unat p < 0xFFFF \<Longrightarrow> mmu_write_u8_inc u (RealSegmentOffset s p) v8 =
      Some (poke8 u s p v8, RealSegmentOffset s (p + 1))"
    and "unat p < 0xFFFE \<Longrightarrow> mmu_write_u16_inc u (RealSegmentOffset s p) v16 =
      Some (poke16 u s p v16, RealSegmentOffset s (p + 2))"
proof -
  have poke: "upd_memory u (mem_write_u8 (memory u) (lin s p) v8) = Some (poke8 u s p v8)"
    "upd_memory u (mem_write_u16 (memory u) (lin s p) v16) = Some (poke16 u s p v16)"
    using mmu_write8 [OF assms, of s p v8] mmu_write16 [OF assms, of s p v16]
    by (simp_all add: mmu_write_u8_def mmu_write_u16_def addr_value_real)
  then show "unat p < 0xFFFF \<Longrightarrow> mmu_write_u8_inc u (RealSegmentOffset s p) v8 =
      Some (poke8 u s p v8, RealSegmentOffset s (p + 1))"
    and "unat p < 0xFFFE \<Longrightarrow> mmu_write_u16_inc u (RealSegmentOffset s p) v16 =
      Some (poke16 u s p v16, RealSegmentOffset s (p + 2))"
    by (simp_all add: mmu_write_u8_inc_def mmu_write_u16_inc_def addr_value_real inc_u8_def inc_u16_def add_chk_less)
qed

lemma rom_apart: "j < 0xFF \<Longrightarrow> 0xFF \<le> unat p \<Longrightarrow> unat p < 0xFFFF \<Longrightarrow> seg_apart ROM_SEG p k ROM_SEG (of_nat j) 1"
  by (simp add: seg_apart_def apart_def unat_lin unat_of_small)

lemma vector_rom:
  assumes "mmu_ok u" "j < 0xFF" "0xFF \<le> unat p" "unat p < 0xFFFF"
  shows "vector_installed j (poke8 u ROM_SEG p v8) = vector_installed j u"
    and "vector_installed j (poke16 u ROM_SEG p v16) = vector_installed j u"
  using assms low_apart(2) [of "4 * j" p] low_apart(2) [of "4 * j + 2" p]
    low_apart(4) [of "4 * j" p] low_apart(4) [of "4 * j + 2" p] rom_apart [OF assms(2-4)]
  by (simp_all add: vector_installed_def pokes_apart)

lemma table_keeps:
  assumes "mmu_ok u"
  shows "\<exists>t. write_configuration_data_table u = Some t \<and> mmu_ok t \<and>
    (\<forall>j < 0xFF. vector_installed j t = vector_installed j u)"
  using assms by (simp add: write_configuration_data_table_def rom_inc vector_rom ROM_EQUIPMENT_WORD_def)

lemma bios_vectors:
  assumes "mmu_ok u"
  shows "\<exists>t. bios_init u = Some t \<and> mmu_ok t \<and> (\<forall>j < 0xFF. vector_installed j t)"
proof -
  obtain t where t: "init_ivt u = Some t" "mmu_ok t" "\<forall>j < 0xFF. vector_installed j t"
    using for_each_upto [where P = "\<lambda>i u. mmu_ok u \<and> (\<forall>j < i. vector_installed j u)" and n = "0xFF" and s = u
        and f = of_nat and body = "\<lambda>irq u. do { u \<leftarrow> write_ivt_entry u irq ROM_SEG (ucast irq);
          mmu_write_u8 u ROM_SEG (ucast irq) 0xCF }"] assms install_vector
    unfolding init_ivt_def by auto
  then show ?thesis
    using table_keeps [OF t(2)] by (auto simp: bios_init_def)
qed

text \<open>A stack that lies between the interrupt table and the ROM.\<close>

definition stack_clear :: "CPU \<Rightarrow> bool" where
  "stack_clear c \<longleftrightarrow> 0x40 \<le> unat (r16v c R.SS) \<and> unat (r16v c R.SS) < 0xE000"

lemma stack_apart:
  assumes "stack_clear c"
  shows "a + 2 \<le> 1024 \<Longrightarrow> seg_apart (r16v c R.SS) p 2 0 (of_nat a) 2" "seg_apart (r16v c R.SS) p 2 ROM_SEG q 1"
  using assms unsigned_less [where 'a = nat, of p] by (auto simp: seg_apart_def apart_def unat_lin unat_of_small stack_clear_def ROM_SEG_def)

lemma interrupt_slot:
  fixes n :: u8
  obtains a where "a < 256" "4 * ucast n = (of_nat (4 * a) :: u16)" "4 * ucast n + 2 = (of_nat (4 * a + 2) :: u16)"
    "(of_nat a :: u16) = ucast n" "a = unat n"
  using that [of "unat n"] unsigned_less [where 'a = nat, of n] by (simp add: of_nat_unat)

lemma stack_vectors:
  fixes n :: u8
  assumes "stack_clear c"
  shows "seg_apart (r16v c R.SS) p 2 0 (4 * ucast n) 2" "seg_apart (r16v c R.SS) p 2 0 (4 * ucast n + 2) 2"
proof -
  obtain a where a: "a < 256" "4 * ucast n = (of_nat (4 * a) :: u16)" "4 * ucast n + 2 = (of_nat (4 * a + 2) :: u16)"
    using interrupt_slot .
  show "seg_apart (r16v c R.SS) p 2 0 (4 * ucast n) 2"
    unfolding a(2) using a(1) by (intro stack_apart(1) [OF assms]) simp
  show "seg_apart (r16v c R.SS) p 2 0 (4 * ucast n + 2) 2"
    unfolding a(3) using a(1) by (intro stack_apart(1) [OF assms]) simp
qed

lemma interrupt_jumps:
  assumes "mmu_ok u" "stack_clear c" "execute_interrupt c u n = Some (c', u')"
  shows "cpu_ip c' = peek16 u 0 (4 * ucast n)" "r16v c' R.CS = peek16 u 0 (4 * ucast n + 2)"
    "peek8 u' ROM_SEG q = peek8 u ROM_SEG q" "mmu_ok u'"
  using assms(1,3) stack_apart(2) [OF assms(2)] stack_vectors [OF assms(2)] execute_interrupt_result [OF assms(1), of c n]
  by (auto simp: pokes_apart)

lemma decode_iret:
  assumes "mmu_ok u" "peek8 u seg p = 0xCF"
  obtains op d' where "get_instruction d u seg p = Some (op, d')" "command op = Flow Iret" "ilength op = 1"
proof -
  obtain m where fuel: "DECODE_FUEL = Suc m"
    by (metis DECODE_FUEL_def numeral_eq_Suc)
  show thesis
    using that assms by (simp add: get_instruction_def fuel dec_read_u8_def apply_prefix_def dec_opcode_def
        dec_C8_CF_def op_only_def instr_new_def instr_new3_def)
qed

text \<open>C30. After the BIOS has installed its vectors, every interrupt but number FF continues at
  F000:number, where the decoder finds a one-byte IRET, and that IRET returns to the interrupted
  program, for every stack between the vector table and the ROM.\<close>

theorem bios_interrupt_returns:
  assumes "mmu_ok u" "stack_clear c" "n < 0xFF"
  shows "\<exists>t c' u' op d'. bios_init u = Some t \<and> execute_interrupt c t n = Some (c', u') \<and>
    r16v c' R.CS = 0xF000 \<and> cpu_ip c' = ucast n \<and>
    get_instruction d u' 0xF000 (ucast n) = Some (op, d') \<and> command op = Flow Iret \<and> ilength op = 1 \<and>
    exec_Iret op c' u' = Some (with_flags c ((cpu_flags c)\<lparr>interrupt := False\<rparr>), u'\<lparr>flags_address := Unset\<rparr>)"
proof -
  obtain t where t: "bios_init u = Some t" "mmu_ok t" "\<forall>j < 0xFF. vector_installed j t"
    using bios_vectors [OF assms(1)] by blast
  obtain a where a: "4 * ucast n = (of_nat (4 * a) :: u16)" "4 * ucast n + 2 = (of_nat (4 * a + 2) :: u16)"
    "(of_nat a :: u16) = ucast n" "a = unat n"
    using interrupt_slot .
  have "vector_installed a t"
    using t(3) assms(3) by (simp add: a(4) word_less_nat_alt)
  then have v: "peek16 t 0 (4 * ucast n) = ucast n" "peek16 t 0 (4 * ucast n + 2) = 0xF000" "peek8 t 0xF000 (ucast n) = 0xCF"
    unfolding vector_installed_def a(3) ROM_SEG_def a(1,2) [symmetric] by simp_all
  obtain c' u' where i: "execute_interrupt c t n = Some (c', u')"
    using execute_interrupt_result [OF t(2), of c n] by blast
  have j: "cpu_ip c' = ucast n" "r16v c' R.CS = 0xF000" "peek8 u' 0xF000 (ucast n) = 0xCF" "mmu_ok u'"
    using interrupt_jumps [OF t(2) assms(2) i] v by (simp_all add: ROM_SEG_def)
  from decode_iret [OF j(4,3)] obtain op d'
    where op: "get_instruction d u' 0xF000 (ucast n) = Some (op, d')" "command op = Flow Iret" "ilength op = 1" .
  from iret_undoes [OF t(2) i, of op] t(1) i j op show ?thesis by blast
qed

theorem bios_interrupt_returns_witness:
  "\<exists>t c' u' op d'. bios_init MMU_default = Some t \<and>
    execute_interrupt (set_r16 CPU_default R.SS 0x1000) t 0x21 = Some (c', u') \<and> cpu_ip c' = 0x21 \<and>
    get_instruction Decoder_default u' 0xF000 0x21 = Some (op, d')"
  using bios_interrupt_returns [OF mmu_default_ok, of "set_r16 CPU_default R.SS 0x1000" "0x21" Decoder_default]
  by (fastforce simp: stack_clear_def)

section \<open>The vectors of DOS\<close>

lemma write_vec_eq:
  fixes n :: u8
  assumes "mmu_ok u"
  shows "mmu_write_vec u (ucast n) (LongSegmentOffset seg off) =
      Some (poke16 (poke16 u 0 (4 * ucast n) seg) 0 (4 * ucast n + 2) off)"
    and "mmu_read_vec u (ucast n) = Some (peek16 u 0 (4 * ucast n), peek16 u 0 (4 * ucast n + 2))"
proof -
  have n: "unat n < 256" using unsigned_less [where 'a = nat, of n] by simp
  then have n4: "unat (4 * ucast n :: u16) = 4 * unat n" "unat (4 * ucast n + 2 :: u16) = 4 * unat n + 2"
    by (simp_all add: unat_word_ariths unsigned_ucast_eq take_bit_nat_eq_self)
  have "unat (push_bit 2 (ucast (ucast n :: u16) :: u32)) = 4 * unat n"
    using n by (simp only: unsigned_push_bit_eq unsigned_ucast_eq)
      (simp add: take_bit_nat_eq_self push_bit_eq_mult unsigned_take_bit_eq unsigned_ucast_eq)
  then have l: "push_bit 2 (ucast (ucast n :: u16) :: u32) = lin 0 (4 * ucast n)"
    using n4 by (simp add: word_unat_eq_iff unat_lin)
  have l2: "add_chk (lin 0 (4 * ucast n)) 2 = Some (lin 0 (4 * ucast n + 2))"
    using n n4 by (subst add_chk_less) (simp_all add: unat_lin word_unat_eq_iff unat_word_ariths(1))
  have poke: "upd_memory t (mem_write_u16 (memory t) (lin 0 p) w) = Some (poke16 t 0 p w)" if "mmu_ok t" for t p w
    using mmu_write16 [OF that, of 0 p w] by (simp add: mmu_write_u16_def addr_value_real)
  show "mmu_write_vec u (ucast n) (LongSegmentOffset seg off) =
      Some (poke16 (poke16 u 0 (4 * ucast n) seg) 0 (4 * ucast n + 2) off)"
    using assms by (simp add: mmu_write_vec_def l l2 poke)
  show "mmu_read_vec u (ucast n) = Some (peek16 u 0 (4 * ucast n), peek16 u 0 (4 * ucast n + 2))"
    using assms peek_memory(2) [OF assms] by (simp add: mmu_read_vec_def l l2)
qed

lemma set_vector:
  assumes "mmu_ok u" "r8v c R.AH = 0x25"
  shows "dos_int h d 0x21 c u = Some (True, d, c,
    poke16 (poke16 u 0 (4 * ucast (r8v c R.AL)) (r16v c R.DS)) 0 (4 * ucast (r8v c R.AL) + 2) (r16v c R.DX))"
  using assms by (simp add: dos_int_def dos_int21_def write_vec_eq Let_def del: dollar_loop.simps)

lemma vector_pair_apart:
  fixes n :: u8
  shows "seg_apart 0 (4 * ucast n + 2) 2 0 (4 * ucast n) 2"
proof -
  obtain a where a: "a < 256" "4 * ucast n = (of_nat (4 * a) :: u16)" "4 * ucast n + 2 = (of_nat (4 * a + 2) :: u16)"
    using interrupt_slot .
  show ?thesis
    unfolding a(3) unfolding a(2) using a(1) by (intro low_apart(1)) simp_all
qed

text \<open>C31. A vector set through INT 21/25 is handed out unchanged by INT 21/35, but the interrupt
  itself goes astray: \<open>write_vec\<close> stores the segment in the low word, where the processor reads the
  offset, so that it continues at the offset as segment and the segment as offset.\<close>

theorem dos_vector:
  assumes "mmu_ok u" "stack_clear c" "r8v c R.AH = 0x25" "r8v c2 R.AH = 0x35" "r8v c2 R.AL = r8v c R.AL"
  shows "\<exists>t c3. dos_int h d 0x21 c u = Some (True, d, c, t) \<and> dos_int h d' 0x21 c2 t = Some (True, d', c3, t) \<and>
    r16v c3 R.ES = r16v c R.DS \<and> r16v c3 R.BX = r16v c R.DX \<and>
    (\<exists>c' u'. execute_interrupt c t (r8v c R.AL) = Some (c', u') \<and>
      cpu_ip c' = r16v c R.DS \<and> r16v c' R.CS = r16v c R.DX)"
proof -
  let ?n = "r8v c R.AL"
  let ?t = "poke16 (poke16 u 0 (4 * ucast ?n) (r16v c R.DS)) 0 (4 * ucast ?n + 2) (r16v c R.DX)"
  have ok: "mmu_ok ?t"
    using assms(1) by simp
  have p: "peek16 ?t 0 (4 * ucast ?n) = r16v c R.DS" "peek16 ?t 0 (4 * ucast ?n + 2) = r16v c R.DX"
    using assms(1) vector_pair_apart [of ?n] by (simp_all add: pokes_apart)
  have "\<exists>c3. dos_int h d' 0x21 c2 ?t = Some (True, d', c3, ?t) \<and> r16v c3 R.ES = r16v c R.DS \<and> r16v c3 R.BX = r16v c R.DX"
    using ok p assms(4,5) by (simp add: dos_int_def dos_int21_def write_vec_eq Let_def del: dollar_loop.simps)
  moreover obtain c' u' where i: "execute_interrupt c ?t ?n = Some (c', u')"
    using execute_interrupt_result [OF ok, of c ?n] by blast
  ultimately show ?thesis
    using set_vector [OF assms(1,3), of h d] interrupt_jumps(1,2) [OF ok assms(2) i] p by auto
qed

theorem dos_vector_witness:
  "\<forall>h. \<exists>t c' u'. dos_int h DOS_default 0x21 (set_r16 (set_r16 (set_r16 CPU_default R.SS 0x1000) R.AX 0x2560) R.DS 0x1234) MMU_default =
      Some (True, DOS_default, set_r16 (set_r16 (set_r16 CPU_default R.SS 0x1000) R.AX 0x2560) R.DS 0x1234, t) \<and>
    execute_interrupt (set_r16 (set_r16 (set_r16 CPU_default R.SS 0x1000) R.AX 0x2560) R.DS 0x1234) t 0x60 = Some (c', u') \<and>
    cpu_ip c' = 0x1234"
proof -
  let ?c = "set_r16 (set_r16 (set_r16 CPU_default R.SS 0x1000) R.AX 0x2560) R.DS 0x1234"
  have "r8v ?c R.AH = 0x25" "r8v ?c R.AL = 0x60" "r8v (set_r16 ?c R.AX 0x3560) R.AH = 0x35"
    "r8v (set_r16 ?c R.AX 0x3560) R.AL = 0x60" "stack_clear ?c"
    by (simp_all add: r8v_def r16v_def set_r16_def rs_defs gpr_parts stack_clear_def)
  then show ?thesis
    using dos_vector [OF mmu_default_ok, of ?c "set_r16 ?c R.AX 0x3560" _ DOS_default DOS_default] by fastforce
qed

section \<open>The order of the devices\<close>

definition declines :: "u8 \<Rightarrow> CPU \<Rightarrow> MMU \<Rightarrow> MachineComponent \<Rightarrow> bool" where
  "declines n c u m \<longleftrightarrow> component_int m n c u = Some (False, m, c, u)"

lemma bus_first:
  "bus_int ms n c u = Some (b, ms', c', u') \<Longrightarrow>
   if b then \<exists>i d. i < length ms \<and> list_all (declines n c u) (take i ms) \<and>
       component_int (ms ! i) n c u = Some (True, d, c', u') \<and> ms' = ms[i := d]
   else list_all (declines n c u) ms \<and> ms' = ms \<and> c' = c \<and> u' = u"
proof (induction ms arbitrary: ms')
  case (Cons m ms)
  from Cons.prems obtain b1 m1 c1 u1 where m: "component_int m n c u = Some (b1, m1, c1, u1)"
    by (auto simp: bind_Some_iff)
  show ?case
  proof (cases b1)
    case True
    with m Cons.prems show ?thesis by (auto intro!: exI [of _ 0])
  next
    case False
    with m have same: "m1 = m" "c1 = c" "u1 = u"
      using component.intr_declined by auto
    with m False have d: "declines n c u m" by (simp add: declines_def)
    from Cons.prems m False same obtain ms1 where ms1: "bus_int ms n c u = Some (b, ms1, c', u')" "ms' = m # ms1"
      by (auto simp: bind_Some_iff)
    show ?thesis
    proof (cases b)
      case True
      with Cons.IH [OF ms1(1)] obtain i x where "i < length ms" "list_all (declines n c u) (take i ms)"
        "component_int (ms ! i) n c u = Some (True, x, c', u')" "ms1 = ms[i := x]" by auto
      with True d ms1(2) show ?thesis by (auto intro!: exI [of _ "Suc i"])
    qed (use Cons.IH [OF ms1(1)] d ms1(2) in auto)
  qed
qed simp

text \<open>C32. An interrupt in the BIOS segment goes to the devices in their order: the first one that
  accepts it changes its own state, the processor and the memory, all others and DOS stay as they are.
  When none accepts it the devices stay as they are; then the DOS interrupts 20 and 21 do to DOS, the
  processor and the memory what \<open>DOS::int\<close> does, accepted by it or not, and any other interrupt does nothing but set the
  error flag, for INT 27 alone.\<close>

theorem interrupt_goes_to_first_device:
  assumes "handle_interrupt h n m = Some m'"
  shows "trace_count m' = trace_count m \<and>
    ((\<exists>i d. i < length (components m) \<and> list_all (declines n (cpu m) (mmu m)) (take i (components m)) \<and>
        component_int (components m ! i) n (cpu m) (mmu m) = Some (True, d, cpu m', mmu m') \<and>
        components m' = (components m)[i := d] \<and> dos m' = dos m)
     \<or> (list_all (declines n (cpu m) (mmu m)) (components m) \<and> components m' = components m \<and>
        (if n = 0x20 \<or> n = 0x21
         then \<exists>b. dos_int h (dos m) n (cpu m) (mmu m) = Some (b, dos m', cpu m', mmu m')
         else dos m' = dos m \<and> mmu m' = mmu m \<and>
           cpu m' = (if n = 0x27 then (cpu m)\<lparr>fatal_error := True\<rparr> else cpu m))))"
proof -
  obtain b ms c u where b: "bus_int (components m) n (cpu m) (mmu m) = Some (b, ms, c, u)"
    using assms by (auto simp: handle_interrupt_def bind_Some_iff)
  show ?thesis
  proof (cases b)
    case True
    then show ?thesis using assms b bus_first [OF b] by (auto simp: handle_interrupt_def)
  next
    case False
    then have "list_all (declines n (cpu m) (mmu m)) (components m)" "ms = components m" "c = cpu m" "u = mmu m"
      using bus_first [OF b] by simp_all
    then show ?thesis
      using assms b False by (auto simp: handle_interrupt_def Let_def bind_Some_iff split: if_splits)
  qed
qed

theorem interrupt_goes_to_first_device_witness:
  "\<forall>h. \<exists>m m'. components m = [PitC PIT_default, MouseC Mouse_default] \<and> handle_interrupt h 0x33 m = Some m' \<and>
     list_all (declines 0x33 (cpu m) (mmu m)) [PitC PIT_default] \<and> r16v (cpu m') R.AX = 0xFFFF"
proof -
  let ?m = "\<lparr>mmu = MMU_default, cpu = CPU_default, dos = DOS_default, rom_base = default_real, rom_length = 0,
    components = [PitC PIT_default, MouseC Mouse_default], trace_count = None\<rparr>"
  have pit: "component_int (PitC PIT_default) 0x33 c u = Some (False, PitC PIT_default, c, u)" for c u
    by (simp add: component_int_def lift_int_def pit_int_def)
  have ax: "r16v CPU_default R.AX = 0"
    by code_simp
  have mouse: "component_int (MouseC Mouse_default) 0x33 CPU_default u =
      Some (True, MouseC Mouse_default, set_r16 (set_r16 CPU_default R.AX 0xFFFF) R.BX 3, u)" for u
    by (simp add: component_int_def lift_int_def mouse_int_def ax)
  let ?m' = "?m\<lparr>cpu := set_r16 (set_r16 CPU_default R.AX 0xFFFF) R.BX 3\<rparr>"
  have run: "handle_interrupt h 0x33 ?m = Some ?m'" for h
    by (simp add: handle_interrupt_def pit mouse)
  have no: "\<not> declines 0x33 CPU_default MMU_default (MouseC Mouse_default)"
    by (simp add: declines_def mouse)
  from interrupt_goes_to_first_device [OF run] no have
    "list_all (declines 0x33 (cpu ?m) (mmu ?m)) [PitC PIT_default]"
    by (auto simp: declines_def pit)
  with run show ?thesis
    by (intro allI exI [of _ ?m] exI [of _ ?m']) simp
qed

end
