(* ===== verification/X86_Text.thy ===== *)
theory X86_Text
  imports X86_Decoder_Ops
begin

text \<open>
  Texts: hexadecimal bytes (\<open>dustbox/src/hex.rs\<close>), padding and the parsing of numbers (\<open>string.rs\<close>),
  the text form of operations, operands and instructions (the \<open>Display\<close> implementations of
  cpu/op.rs, cpu/parameter.rs, cpu/instruction.rs, memory_address.rs) and of disassembled blocks
  (cpu/decoder.rs).

  A string is a list of ASCII characters. The standard library's formatting \<open>{:0wX}\<close> is \<open>hex_pad w\<close>,
  \<open>from_str_radix\<close> is \<open>parse_radix\<close>; the kinds of its error, which the code only prints, are one.
\<close>

section \<open>Formatting\<close>

definition hex_digit :: "nat \<Rightarrow> char" where
  "hex_digit n = ''0123456789ABCDEF'' ! n"

fun hex_digits :: "nat \<Rightarrow> string" where
  "hex_digits n = (if n < 16 then [hex_digit n] else hex_digits (n div 16) @ [hex_digit (n mod 16)])"

fun dec_digits :: "nat \<Rightarrow> string" where
  "dec_digits n = (if n < 10 then [hex_digit n] else dec_digits (n div 10) @ [hex_digit (n mod 10)])"

declare hex_digits.simps [simp del] dec_digits.simps [simp del]

definition hex_pad :: "nat \<Rightarrow> nat \<Rightarrow> string" where
  "hex_pad w n = replicate (w - length (hex_digits n)) (CHR ''0'') @ hex_digits n"

definition hex_word :: "nat \<Rightarrow> 'a::len word \<Rightarrow> string" where
  "hex_word w v = hex_pad w (unat v)"

text \<open>\<open>Vec<String>::join\<close>.\<close>

fun join :: "string \<Rightarrow> string list \<Rightarrow> string" where
  "join sep [] = []"
| "join sep [s] = s"
| "join sep (s # ss) = s @ sep @ join sep ss"

definition hex_bytes :: "u8 list \<Rightarrow> string" where
  "hex_bytes bs = join [] (map (hex_word 2) bs)"

definition hex_bytes_separated :: "u8 list \<Rightarrow> char \<Rightarrow> string" where
  "hex_bytes_separated bs sep = join [] (map (\<lambda>b. hex_word 2 b @ [sep]) bs)"

definition right_pad :: "string \<Rightarrow> nat \<Rightarrow> string" where
  "right_pad s len = (if length s < len then s @ replicate (len - length s) (CHR '' '') else s)"

definition bytes_to_ascii :: "u8 list \<Rightarrow> string" where
  "bytes_to_ascii bs = map (\<lambda>b. if b < 128 \<and> b > 30 then char_of (unat b) else CHR ''.'') bs"

section \<open>Parsing of numbers\<close>

datatype ParseIntError = ParseIntError

definition digit_value :: "nat \<Rightarrow> char \<Rightarrow> nat option" where
  "digit_value radix c =
     (let n = (of_char c :: nat);
          d = (if 0x30 \<le> n \<and> n \<le> 0x39 then n - 0x30
            else if 0x61 \<le> n \<and> n \<le> 0x7A then n - 0x57
            else if 0x41 \<le> n \<and> n \<le> 0x5A then n - 0x37
            else radix)
      in if d < radix then Some d else None)"

fun parse_digits :: "nat \<Rightarrow> nat \<Rightarrow> string \<Rightarrow> nat \<Rightarrow> ParseIntError + nat" where
  "parse_digits lim radix [] acc = Inr acc"
| "parse_digits lim radix (c # cs) acc = (case digit_value radix c of
     None \<Rightarrow> Inl ParseIntError
   | Some d \<Rightarrow>
       if acc * radix + d < lim then parse_digits lim radix cs (acc * radix + d) else Inl ParseIntError)"

definition parse_radix :: "nat \<Rightarrow> nat \<Rightarrow> string \<Rightarrow> ParseIntError + nat" where
  "parse_radix lim radix s =
     (let ds = (if s \<noteq> [] \<and> hd s = CHR ''+'' then tl s else s)
      in if ds = [] then Inl ParseIntError else parse_digits lim radix ds 0)"

definition strip_underscores :: "string \<Rightarrow> string" where
  "strip_underscores s = filter (\<lambda>c. c \<noteq> CHR ''_'') s"

definition parse_number_string :: "string \<Rightarrow> ParseIntError + u32" where
  "parse_number_string s =
     (let x = strip_underscores s
      in map_sum id of_nat
           (if length x \<ge> 2 \<and> take 2 x = ''0x'' then parse_radix (2 ^ 32) 16 (drop 2 x)
            else parse_radix (2 ^ 32) 10 x))"

section \<open>Operations\<close>

text \<open>The names that the derived \<open>Debug\<close> implementation prints.\<close>

definition ArithOp_name :: "ArithOp \<Rightarrow> string" where
  "ArithOp_name k = (case k of
     Aaa \<Rightarrow> ''Aaa'' | Aad \<Rightarrow> ''Aad'' | Aam \<Rightarrow> ''Aam''
   | Aas \<Rightarrow> ''Aas'' | Adc8 \<Rightarrow> ''Adc8'' | Adc16 \<Rightarrow> ''Adc16''
   | Adc32 \<Rightarrow> ''Adc32'' | Add8 \<Rightarrow> ''Add8'' | Add16 \<Rightarrow> ''Add16''
   | Add32 \<Rightarrow> ''Add32'' | Cbw \<Rightarrow> ''Cbw'' | Cmp8 \<Rightarrow> ''Cmp8''
   | Cmp16 \<Rightarrow> ''Cmp16'' | Cmp32 \<Rightarrow> ''Cmp32'' | Cwd16 \<Rightarrow> ''Cwd16''
   | Cwde32 \<Rightarrow> ''Cwde32'' | Daa \<Rightarrow> ''Daa'' | Das \<Rightarrow> ''Das''
   | Dec8 \<Rightarrow> ''Dec8'' | Dec16 \<Rightarrow> ''Dec16'' | Dec32 \<Rightarrow> ''Dec32''
   | Inc8 \<Rightarrow> ''Inc8'' | Inc16 \<Rightarrow> ''Inc16'' | Inc32 \<Rightarrow> ''Inc32''
   | Neg8 \<Rightarrow> ''Neg8'' | Neg16 \<Rightarrow> ''Neg16'' | Neg32 \<Rightarrow> ''Neg32''
   | Sbb8 \<Rightarrow> ''Sbb8'' | Sbb16 \<Rightarrow> ''Sbb16'' | Sbb32 \<Rightarrow> ''Sbb32''
   | Sub8 \<Rightarrow> ''Sub8'' | Sub16 \<Rightarrow> ''Sub16'' | Sub32 \<Rightarrow> ''Sub32'')"

definition MulOp_name :: "MulOp \<Rightarrow> string" where
  "MulOp_name k = (case k of
     Div8 \<Rightarrow> ''Div8'' | Div16 \<Rightarrow> ''Div16'' | Div32 \<Rightarrow> ''Div32''
   | Idiv8 \<Rightarrow> ''Idiv8'' | Idiv16 \<Rightarrow> ''Idiv16''
   | Idiv32 \<Rightarrow> ''Idiv32'' | Imul8 \<Rightarrow> ''Imul8''
   | Imul16 \<Rightarrow> ''Imul16'' | Imul32 \<Rightarrow> ''Imul32'' | Mul8 \<Rightarrow> ''Mul8''
     | Mul16 \<Rightarrow> ''Mul16'' | Mul32 \<Rightarrow> ''Mul32'')"

definition LogicOp_name :: "LogicOp \<Rightarrow> string" where
  "LogicOp_name k = (case k of
     And8 \<Rightarrow> ''And8'' | And16 \<Rightarrow> ''And16'' | And32 \<Rightarrow> ''And32''
   | Arpl \<Rightarrow> ''Arpl'' | Bound \<Rightarrow> ''Bound'' | Bsf \<Rightarrow> ''Bsf''
   | Bt \<Rightarrow> ''Bt'' | Bts \<Rightarrow> ''Bts'' | Not8 \<Rightarrow> ''Not8''
   | Not16 \<Rightarrow> ''Not16'' | Not32 \<Rightarrow> ''Not32'' | Or8 \<Rightarrow> ''Or8''
   | Or16 \<Rightarrow> ''Or16'' | Or32 \<Rightarrow> ''Or32'' | Setc \<Rightarrow> ''Setc''
   | Setg \<Rightarrow> ''Setg'' | Setnz \<Rightarrow> ''Setnz'' | Test8 \<Rightarrow> ''Test8''
   | Test16 \<Rightarrow> ''Test16'' | Test32 \<Rightarrow> ''Test32'' | Xor8 \<Rightarrow> ''Xor8''
     | Xor16 \<Rightarrow> ''Xor16'' | Xor32 \<Rightarrow> ''Xor32'')"

definition ShiftOp_name :: "ShiftOp \<Rightarrow> string" where
  "ShiftOp_name k = (case k of
     Rcl8 \<Rightarrow> ''Rcl8'' | Rcl16 \<Rightarrow> ''Rcl16'' | Rcl32 \<Rightarrow> ''Rcl32''
   | Rcr8 \<Rightarrow> ''Rcr8'' | Rcr16 \<Rightarrow> ''Rcr16'' | Rcr32 \<Rightarrow> ''Rcr32''
   | Rol8 \<Rightarrow> ''Rol8'' | Rol16 \<Rightarrow> ''Rol16'' | Rol32 \<Rightarrow> ''Rol32''
   | Ror8 \<Rightarrow> ''Ror8'' | Ror16 \<Rightarrow> ''Ror16'' | Ror32 \<Rightarrow> ''Ror32''
   | Sar8 \<Rightarrow> ''Sar8'' | Sar16 \<Rightarrow> ''Sar16'' | Sar32 \<Rightarrow> ''Sar32''
   | Shl8 \<Rightarrow> ''Shl8'' | Shl16 \<Rightarrow> ''Shl16'' | Shl32 \<Rightarrow> ''Shl32''
   | Shld \<Rightarrow> ''Shld'' | Shr8 \<Rightarrow> ''Shr8'' | Shr16 \<Rightarrow> ''Shr16''
   | Shr32 \<Rightarrow> ''Shr32'' | Shrd \<Rightarrow> ''Shrd'')"

definition MoveOp_name :: "MoveOp \<Rightarrow> string" where
  "MoveOp_name k = (case k of
     Enter \<Rightarrow> ''Enter'' | Lahf \<Rightarrow> ''Lahf'' | Lar16 \<Rightarrow> ''Lar16''
   | Lds \<Rightarrow> ''Lds'' | Lea16 \<Rightarrow> ''Lea16'' | Leave \<Rightarrow> ''Leave''
   | Les \<Rightarrow> ''Les'' | Mov8 \<Rightarrow> ''Mov8'' | Mov16 \<Rightarrow> ''Mov16''
   | Mov32 \<Rightarrow> ''Mov32'' | Movsx16 \<Rightarrow> ''Movsx16''
   | Movsx32 \<Rightarrow> ''Movsx32'' | Movzx16 \<Rightarrow> ''Movzx16''
   | Movzx32 \<Rightarrow> ''Movzx32'' | Nop \<Rightarrow> ''Nop'' | Pop16 \<Rightarrow> ''Pop16''
   | Pop32 \<Rightarrow> ''Pop32'' | Popa16 \<Rightarrow> ''Popa16''
   | Popad32 \<Rightarrow> ''Popad32'' | Popf \<Rightarrow> ''Popf''
   | Push16 \<Rightarrow> ''Push16'' | Push32 \<Rightarrow> ''Push32''
   | Pusha16 \<Rightarrow> ''Pusha16'' | Pushad32 \<Rightarrow> ''Pushad32''
   | Pushf \<Rightarrow> ''Pushf'' | Sahf \<Rightarrow> ''Sahf'' | Salc \<Rightarrow> ''Salc''
   | Sldt \<Rightarrow> ''Sldt'' | Xchg8 \<Rightarrow> ''Xchg8'' | Xchg16 \<Rightarrow> ''Xchg16''
   | Xchg32 \<Rightarrow> ''Xchg32'' | Xlatb \<Rightarrow> ''Xlatb'')"

definition StringOp_name :: "StringOp \<Rightarrow> string" where
  "StringOp_name k = (case k of
     Cmpsb \<Rightarrow> ''Cmpsb'' | Cmpsw \<Rightarrow> ''Cmpsw'' | In8 \<Rightarrow> ''In8''
   | In16 \<Rightarrow> ''In16'' | Insb \<Rightarrow> ''Insb'' | Insw \<Rightarrow> ''Insw''
   | Lodsb \<Rightarrow> ''Lodsb'' | Lodsw \<Rightarrow> ''Lodsw'' | Lodsd \<Rightarrow> ''Lodsd''
   | Movsb \<Rightarrow> ''Movsb'' | Movsw \<Rightarrow> ''Movsw'' | Movsd \<Rightarrow> ''Movsd''
   | Out8 \<Rightarrow> ''Out8'' | Out16 \<Rightarrow> ''Out16'' | Outsb \<Rightarrow> ''Outsb''
   | Outsw \<Rightarrow> ''Outsw'' | Scasb \<Rightarrow> ''Scasb'' | Scasw \<Rightarrow> ''Scasw''
   | Stosb \<Rightarrow> ''Stosb'' | Stosw \<Rightarrow> ''Stosw'' | Stosd \<Rightarrow> ''Stosd'')"

definition JumpCond_name :: "JumpCond \<Rightarrow> string" where
  "JumpCond_name k = (case k of
     Ja \<Rightarrow> ''Ja'' | Jc \<Rightarrow> ''Jc'' | Jcxz \<Rightarrow> ''Jcxz''
   | Jg \<Rightarrow> ''Jg'' | Jl \<Rightarrow> ''Jl'' | Jna \<Rightarrow> ''Jna''
   | Jnc \<Rightarrow> ''Jnc'' | Jng \<Rightarrow> ''Jng'' | Jnl \<Rightarrow> ''Jnl''
   | Jno \<Rightarrow> ''Jno'' | Jns \<Rightarrow> ''Jns'' | Jnz \<Rightarrow> ''Jnz''
   | Jo \<Rightarrow> ''Jo'' | Jpe \<Rightarrow> ''Jpe'' | Jpo \<Rightarrow> ''Jpo''
   | Js \<Rightarrow> ''Js'' | Jz \<Rightarrow> ''Jz'')"

definition FlowOp_name :: "FlowOp \<Rightarrow> string" where
  "FlowOp_name k = (case k of
     CallNear \<Rightarrow> ''CallNear'' | CallFar \<Rightarrow> ''CallFar''
   | Hlt \<Rightarrow> ''Hlt'' | IntN \<Rightarrow> ''Int'' | Into \<Rightarrow> ''Into''
   | Iret \<Rightarrow> ''Iret'' | Jcc c \<Rightarrow> JumpCond_name c
   | JmpShort \<Rightarrow> ''JmpShort'' | JmpNear \<Rightarrow> ''JmpNear''
   | JmpFar \<Rightarrow> ''JmpFar'' | Loop \<Rightarrow> ''Loop'' | Loope \<Rightarrow> ''Loope''
   | Loopne \<Rightarrow> ''Loopne'' | Retn \<Rightarrow> ''Retn'' | Retf \<Rightarrow> ''Retf''
   | RetImm16 \<Rightarrow> ''RetImm16'')"

definition FlagOp_name :: "FlagOp \<Rightarrow> string" where
  "FlagOp_name k = (case k of
     Clc \<Rightarrow> ''Clc'' | Cld \<Rightarrow> ''Cld'' | Cli \<Rightarrow> ''Cli''
   | Cmc \<Rightarrow> ''Cmc'' | Stc \<Rightarrow> ''Stc'' | Std \<Rightarrow> ''Std''
   | Sti \<Rightarrow> ''Sti'')"

definition FpuOp_name :: "FpuOp \<Rightarrow> string" where
  "FpuOp_name k = (case k of
     Fabs \<Rightarrow> ''Fabs'' | Fadd \<Rightarrow> ''Fadd'' | Faddp \<Rightarrow> ''Faddp''
   | Fchs \<Rightarrow> ''Fchs'' | Fcom \<Rightarrow> ''Fcom'' | Fcomp \<Rightarrow> ''Fcomp''
   | Fcos \<Rightarrow> ''Fcos'' | Fdiv \<Rightarrow> ''Fdiv'' | Fdivp \<Rightarrow> ''Fdivp''
   | Fidiv \<Rightarrow> ''Fidiv'' | Fdivr \<Rightarrow> ''Fdivr'' | Ffree \<Rightarrow> ''Ffree''
   | Ficom \<Rightarrow> ''Ficom'' | Ficomp \<Rightarrow> ''Ficomp'' | Fild \<Rightarrow> ''Fild''
   | Finit \<Rightarrow> ''Finit'' | Fist \<Rightarrow> ''Fist'' | Fistp \<Rightarrow> ''Fistp''
   | Fisttp \<Rightarrow> ''Fisttp'' | Fld \<Rightarrow> ''Fld'' | Fld1 \<Rightarrow> ''Fld1''
   | Fldl2t \<Rightarrow> ''Fldl2t'' | Fldl2e \<Rightarrow> ''Fldl2e'' | Fldz \<Rightarrow> ''Fldz''
     | Fldpi \<Rightarrow> ''Fldpi'' | Fldcw \<Rightarrow> ''Fldcw'' | Fmul \<Rightarrow> ''Fmul''
   | Fimul \<Rightarrow> ''Fimul'' | Fpatan \<Rightarrow> ''Fpatan''
   | Frndint \<Rightarrow> ''Frndint'' | Fsin \<Rightarrow> ''Fsin''
   | Fsincos \<Rightarrow> ''Fsincos'' | Fsqrt \<Rightarrow> ''Fsqrt'' | Fst \<Rightarrow> ''Fst''
   | Fstp \<Rightarrow> ''Fstp'' | Fstsw \<Rightarrow> ''Fstsw'' | Fnstcw \<Rightarrow> ''Fnstcw''
   | Fsub \<Rightarrow> ''Fsub'' | Fsubp \<Rightarrow> ''Fsubp'' | Fsubr \<Rightarrow> ''Fsubr''
   | Fsubrp \<Rightarrow> ''Fsubrp'' | Ftst \<Rightarrow> ''Ftst'' | Fwait \<Rightarrow> ''Fwait''
   | Fxch \<Rightarrow> ''Fxch'')"

definition Op_fmt :: "Op \<Rightarrow> string" where
  "Op_fmt op = (case op of
     Arith k \<Rightarrow> ArithOp_name k | Mul k \<Rightarrow> MulOp_name k | Logic k \<Rightarrow> LogicOp_name k
   | Shift k \<Rightarrow> ShiftOp_name k | Move k \<Rightarrow> MoveOp_name k | Str k \<Rightarrow> StringOp_name k
   | Flow k \<Rightarrow> FlowOp_name k | Flag k \<Rightarrow> FlagOp_name k | Fpu k \<Rightarrow> FpuOp_name k
   | Uninitialized \<Rightarrow> ''Uninitialized''
   | Invalid bytes _ \<Rightarrow> ''INVALID '' @ join '', '' (map (hex_word 2) bytes))"

section \<open>Operands\<close>

text \<open>A displacement: the sign and the magnitude, where the most negative value stays as it is.\<close>

definition disp_fmt :: "nat \<Rightarrow> 'a::len word \<Rightarrow> string" where
  "disp_fmt w v = (if v <s 0 then ''-0x'' @ hex_word w (- v) else ''+0x'' @ hex_word w v)"

definition Parameter_fmt :: "Parameter \<Rightarrow> string" where
  "Parameter_fmt p =
     (let seg = (\<lambda>k s. k @ '' ['' @ Segment_as_str s @ '':'');
          direct = (\<lambda>k s v. seg k s @ ''0x'' @ hex_word 4 v @ '']'');
          based = (\<lambda>k s a d. seg k s @ AMode_fmt a @ d @ '']'')
      in case p of
        Reg8 r \<Rightarrow> R_fmt r | Reg16 r \<Rightarrow> R_fmt r | Reg32 r \<Rightarrow> R_fmt r | SReg16 r \<Rightarrow> R_fmt r
      | FPR80 r \<Rightarrow> R_fmt r
      | Imm8 v \<Rightarrow> ''0x'' @ hex_word 2 v | Imm16 v \<Rightarrow> ''0x'' @ hex_word 4 v
      | Imm32 v \<Rightarrow> ''0x'' @ hex_word 8 v
      | ImmS8 v \<Rightarrow> ''byte '' @ disp_fmt 2 v
      | Ptr16Imm s v \<Rightarrow> hex_word 4 s @ '':'' @ hex_word 4 v
      | Ptr8 s v \<Rightarrow> direct ''byte'' s v
      | Ptr8Amode s a \<Rightarrow> based ''byte'' s a []
      | Ptr8AmodeS8 s a d \<Rightarrow> based ''byte'' s a (disp_fmt 2 d)
      | Ptr8AmodeS16 s a d \<Rightarrow> based ''byte'' s a (disp_fmt 4 d)
      | Ptr16 s v \<Rightarrow> direct ''word'' s v
      | Ptr16Amode s a \<Rightarrow> based ''word'' s a []
      | Ptr16AmodeS8 s a d \<Rightarrow> based ''word'' s a (disp_fmt 2 d)
      | Ptr16AmodeS16 s a d \<Rightarrow> based ''word'' s a (disp_fmt 4 d)
      | Ptr32 s v \<Rightarrow> direct ''dword'' s v
      | Ptr32Amode s a \<Rightarrow> based ''dword'' s a []
      | Ptr32AmodeS8 s a d \<Rightarrow> based ''dword'' s a (disp_fmt 2 d)
      | Ptr32AmodeS16 s a d \<Rightarrow> based ''dword'' s a (disp_fmt 4 d)
      | NoParam \<Rightarrow> [])"

text \<open>An unset address has no text (\<open>unreachable!\<close>).\<close>

definition MemoryAddress_fmt :: "MemoryAddress \<Rightarrow> string option" where
  "MemoryAddress_fmt a = (case a of
     RealSegmentOffset s p \<Rightarrow> Some (hex_word 4 s @ '':'' @ hex_word 4 p)
   | LongSegmentOffset s p \<Rightarrow> Some (hex_word 8 s @ '':'' @ hex_word 8 p)
   | Unset \<Rightarrow> None)"

section \<open>Instructions\<close>

definition hide_segment_prefix :: "Instruction \<Rightarrow> bool" where
  "hide_segment_prefix i \<longleftrightarrow> command i \<in> set (
     map Arith [Add8, Add16, Add32, Adc8, Adc16, Adc32, Sub8, Sub16, Sub32, Sbb8, Sbb16, Sbb32,
       Inc8, Inc16, Inc32, Dec8, Dec16, Dec32, Cmp8, Cmp16, Cmp32] @
     map Mul [Mul8, Mul16, Mul32, Div8, Div16, Div32, Imul8, Imul16, Imul32, Idiv8, Idiv16, Idiv32] @
     map Logic [And8, And16, And32, Or8, Or16, Or32, Xor8, Xor16, Xor32, Test8, Test16, Test32] @
     map Move [Xchg8, Xchg16, Xchg32, Mov8, Mov16, Mov32, Movsx16, Movsx32, Movzx16])"

definition describe_instruction :: "Instruction \<Rightarrow> string" where
  "describe_instruction i =
     (let op_space = 9;
          prefix = RepeatMode_as_str (repeat i);
          prefix = (if prefix \<noteq> [] then right_pad prefix op_space else prefix);
          text = prefix @ Op_fmt (command i);
          cmd = right_pad text op_space
      in case op_dst i of
        NoParam \<Rightarrow> text
      | _ \<Rightarrow> (case op_src2 i of
           NoParam \<Rightarrow> (case op_src i of
              NoParam \<Rightarrow> cmd @ Parameter_fmt (op_dst i)
            | _ \<Rightarrow> cmd @ Parameter_fmt (op_dst i) @ '', '' @ Parameter_fmt (op_src i))
         | _ \<Rightarrow> cmd @ Parameter_fmt (op_dst i) @ '', '' @ Parameter_fmt (op_src i) @ '', ''
                @ Parameter_fmt (op_src2 i)))"

definition Instruction_fmt :: "Instruction \<Rightarrow> string" where
  "Instruction_fmt i =
     (if segment_prefix i = Segment.Default \<or> hide_segment_prefix i then describe_instruction i
      else Segment_as_str (segment_prefix i) @ '' '' @ describe_instruction i)"

definition InstructionInfo_fmt :: "InstructionInfo \<Rightarrow> string" where
  "InstructionInfo_fmt ii =
     ''['' @ hex_word 4 (info_segment ii) @ '':'' @ hex_word 4 (info_offset ii) @ ''] ''
       @ right_pad (hex_bytes (info_bytes ii)) 16 @ '' '' @ Instruction_fmt (info_instruction ii)"

definition newline :: string where "newline = [CHR 0x0A]"

definition instruction_info_to_str :: "InstructionInfo list \<Rightarrow> string" where
  "instruction_info_to_str ops = join newline (map InstructionInfo_fmt ops)"

definition instructions_to_str :: "Instruction list \<Rightarrow> string" where
  "instructions_to_str ops = join newline (map Instruction_fmt ops)"

definition disassemble_block_to_str ::
  "Decoder \<Rightarrow> MMU \<Rightarrow> u16 \<Rightarrow> u16 \<Rightarrow> nat \<Rightarrow> (string \<times> Decoder) option" where
  "disassemble_block_to_str d u seg off n =
     map_option (\<lambda>(ops, d). (instruction_info_to_str ops, d)) (decode_to_block d u seg off n)"

section \<open>What is printed is parsed\<close>

lemma digit_value_hex:
  assumes "n < 16"
  shows "digit_value 16 (hex_digit n) = Some n"
proof -
  have "\<forall>k \<in> set [0..<16]. digit_value 16 (hex_digit k) = Some k"
    by (simp add: digit_value_def hex_digit_def upt_rec)
  with assms show ?thesis by simp
qed

lemma parse_digits_append:
  "parse_digits lim radix (xs @ ys) acc =
     (case parse_digits lim radix xs acc of Inl e \<Rightarrow> Inl e | Inr a \<Rightarrow> parse_digits lim radix ys a)"
  by (induction xs arbitrary: acc) (auto split: option.split)

lemma parse_hex_digits: "n < lim \<Longrightarrow> parse_digits lim 16 (hex_digits n) 0 = Inr n"
proof (induction n rule: hex_digits.induct)
  case (1 n)
  show ?case
  proof (cases "n < 16")
    case False
    then have "parse_digits lim 16 (hex_digits (n div 16)) 0 = Inr (n div 16)"
      using 1 by simp
    then show ?thesis
      using False "1.prems" by (subst hex_digits.simps) (simp add: parse_digits_append digit_value_hex)
  qed (use "1.prems" in \<open>simp add: hex_digits.simps digit_value_hex\<close>)
qed

lemma parse_zeros: "0 < lim \<Longrightarrow> parse_digits lim 16 (replicate k (CHR ''0'') @ ds) 0 = parse_digits lim 16 ds 0"
  by (induction k) (simp_all add: digit_value_def)

lemma hex_digits_nonempty [simp]: "hex_digits n \<noteq> []"
  by (simp add: hex_digits.simps)

lemma hex_digit_set: "n < 16 \<Longrightarrow> hex_digit n \<in> set ''0123456789ABCDEF''"
  unfolding hex_digit_def by (rule nth_mem) simp

lemma hex_digits_set: "set (hex_digits n) \<subseteq> set ''0123456789ABCDEF''"
proof (induction n rule: hex_digits.induct)
  case (1 n)
  show ?case
  proof (cases "n < 16")
    case False
    with 1 hex_digit_set [of "n mod 16"] show ?thesis by (subst hex_digits.simps) auto
  qed (use hex_digit_set [of n] in \<open>simp add: hex_digits.simps\<close>)
qed

lemma hex_pad_set: "set (hex_pad w n) \<subseteq> set ''0123456789ABCDEF''"
  using hex_digits_set [of n] by (auto simp: hex_pad_def set_replicate_conv_if)

lemma parse_hex_pad:
  assumes "n < lim"
  shows "parse_radix lim 16 (hex_pad w n) = Inr n"
proof -
  have "hex_pad w n \<noteq> []" "hd (hex_pad w n) \<noteq> CHR ''+''"
    using hex_pad_set [of w n] hd_in_set [of "hex_pad w n"] by (auto simp: hex_pad_def)
  then show ?thesis
    using assms parse_hex_digits [OF assms] by (simp add: parse_radix_def hex_pad_def parse_zeros)
qed

end
