(* ===== verification/X86_Debugger.thy ===== *)
theory X86_Debugger
  imports X86_Text X86_Machine
begin

text \<open>
  The debugger (\<open>dustbox/src/debug/\<close>): breakpoints on addresses (\<open>breakpoints.rs\<close>) and on the content
  of memory (\<open>memory_breakpoints.rs\<close>), single steps and the command language (\<open>debugger.rs\<close>). What is
  only printed is left out.

  The host's file system is an argument: what reading a file returns, whether a file can be created.
  \<open>exit\<close> ends the process: the command says whether the debugger goes on. Stepping over a call and
  running a frame are loops with fuel; the outer option of their results says whether it was enough.
\<close>

section \<open>Breakpoints\<close>

definition remove_at :: "nat \<Rightarrow> 'a list \<Rightarrow> 'a list" where
  "remove_at i xs = take i xs @ drop (Suc i) xs"

record Breakpoints =
  breakpoints :: "u32 list"

definition bp_add :: "u32 \<Rightarrow> Breakpoints \<Rightarrow> u32 option \<times> Breakpoints" where
  "bp_add bp b =
     (if bp \<notin> set (breakpoints b) then (Some bp, b\<lparr>breakpoints := breakpoints b @ [bp]\<rparr>)
      else (None, b))"

definition bp_remove :: "u32 \<Rightarrow> Breakpoints \<Rightarrow> u32 option \<times> Breakpoints" where
  "bp_remove bp b = (case position bp (breakpoints b) of
     Some pos \<Rightarrow> (Some bp, b\<lparr>breakpoints := remove_at pos (breakpoints b)\<rparr>)
   | None \<Rightarrow> (None, b))"

definition bp_get :: "Breakpoints \<Rightarrow> u32 list" where
  "bp_get b = sort (breakpoints b)"

definition bp_clear :: "Breakpoints \<Rightarrow> Breakpoints" where
  "bp_clear b = b\<lparr>breakpoints := []\<rparr>"

definition bp_hit :: "u32 \<Rightarrow> Breakpoints \<Rightarrow> bool" where
  "bp_hit address b = list_ex (\<lambda>x. x = address) (breakpoints b)"

text \<open>The breakpoints on memory also remember the last value seen at each address.\<close>

record MemoryBreakpoints =
  mem_breakpoints :: "u32 list"
  mem_map :: "u32 \<rightharpoonup> u8"

definition MemoryBreakpoints_default :: MemoryBreakpoints where
  "MemoryBreakpoints_default = \<lparr>mem_breakpoints = [], mem_map = Map.empty\<rparr>"

definition membp_add :: "u32 \<Rightarrow> MemoryBreakpoints \<Rightarrow> u32 option \<times> MemoryBreakpoints" where
  "membp_add bp b =
     (if bp \<notin> set (mem_breakpoints b) then (Some bp, b\<lparr>mem_breakpoints := mem_breakpoints b @ [bp]\<rparr>)
      else (None, b))"

definition membp_remove :: "u32 \<Rightarrow> MemoryBreakpoints \<Rightarrow> u32 option \<times> MemoryBreakpoints" where
  "membp_remove bp b = (case position bp (mem_breakpoints b) of
     Some pos \<Rightarrow> (Some bp, b\<lparr>mem_breakpoints := remove_at pos (mem_breakpoints b)\<rparr>)
   | None \<Rightarrow> (None, b))"

definition membp_get :: "MemoryBreakpoints \<Rightarrow> u32 list" where
  "membp_get b = sort (mem_breakpoints b)"

definition membp_clear :: "MemoryBreakpoints \<Rightarrow> MemoryBreakpoints" where
  "membp_clear b = b\<lparr>mem_breakpoints := []\<rparr>"

definition has_changed :: "u32 \<Rightarrow> u8 \<Rightarrow> MemoryBreakpoints \<Rightarrow> bool \<times> MemoryBreakpoints" where
  "has_changed address val b =
     (let old = (case mem_map b address of Some old \<Rightarrow> old | None \<Rightarrow> val)
      in (old \<noteq> val, b\<lparr>mem_map := (mem_map b)(address \<mapsto> val)\<rparr>))"

section \<open>Stepping\<close>

record Debugger =
  machine :: Machine
  prev_regs :: RegisterState
  last_program :: "string option"
  ip_breakpoints :: Breakpoints
  memory_breakpoints :: MemoryBreakpoints

definition Debugger_default :: "u32 \<Rightarrow> Debugger option" where
  "Debugger_default ticks = do {
     m \<leftarrow> Machine_default ticks;
     Some \<lparr>machine = m, prev_regs = regs (cpu m), last_program = None,
       ip_breakpoints = \<lparr>breakpoints = []\<rparr>, memory_breakpoints = MemoryBreakpoints_default\<rparr>
   }"

definition is_ip_at_breakpoint :: "Debugger \<Rightarrow> bool option" where
  "is_ip_at_breakpoint d = do {
     offset \<leftarrow> get_address (cpu (machine d));
     Some (bp_hit offset (ip_breakpoints d))
   }"

fun any_changed :: "FlatMemory \<Rightarrow> u32 list \<Rightarrow> MemoryBreakpoints \<Rightarrow> (bool \<times> MemoryBreakpoints) option" where
  "any_changed m [] b = Some (False, b)"
| "any_changed m (addr # addrs) b = do {
     val \<leftarrow> mem_read_u8 m addr;
     let (changed, b) = has_changed addr val b;
     if changed then Some (True, b) else any_changed m addrs b
   }"

definition should_break :: "Debugger \<Rightarrow> (bool \<times> Debugger) option" where
  "should_break d =
     (if fatal_error (cpu (machine d)) then Some (True, d)
      else do {
        stop \<leftarrow> is_ip_at_breakpoint d;
        if stop then Some (True, d)
        else do {
          (b, mb) \<leftarrow> any_changed (memory (mmu (machine d))) (membp_get (memory_breakpoints d)) (memory_breakpoints d);
          Some (b, d\<lparr>memory_breakpoints := mb\<rparr>)
        }
      })"

text \<open>The number of steps done is the number after which the debugger did not break.\<close>

fun step_loop :: "Host \<Rightarrow> nat \<Rightarrow> nat \<Rightarrow> Debugger \<Rightarrow> (nat \<times> Debugger) option" where
  "step_loop h 0 k d = Some (k, d)"
| "step_loop h (Suc n) k d = do {
     m \<leftarrow> execute_instruction h (machine d);
     (b, d) \<leftarrow> should_break (d\<lparr>machine := m\<rparr>);
     if b then Some (k, d) else step_loop h n (Suc k) d
   }"

definition step_into :: "Host \<Rightarrow> usize \<Rightarrow> Debugger \<Rightarrow> Debugger option" where
  "step_into h cnt d = map_option snd (step_loop h (unat cnt) 0 d)"

fun step_over_loop :: "nat \<Rightarrow> Host \<Rightarrow> u32 \<Rightarrow> i32 \<Rightarrow> Debugger \<Rightarrow> Debugger option option" where
  "step_over_loop 0 h dst cnt d = None"
| "step_over_loop (Suc n) h dst cnt d = (case
     (do {
        cnt \<leftarrow> sadd_chk cnt 1;
        m \<leftarrow> execute_instruction h (machine d);
        (b, d) \<leftarrow> should_break (d\<lparr>machine := m\<rparr>);
        if b then Some (True, cnt, d)
        else do {
          here \<leftarrow> get_address (cpu (machine d));
          Some (here = dst, cnt, d)
        }
      }) of
     None \<Rightarrow> Some None
   | Some (stop, cnt, d) \<Rightarrow> if stop then Some (Some d) else step_over_loop n h dst cnt d)"

definition step_over_target :: "Debugger \<Rightarrow> u32 option" where
  "step_over_target d = do {
     let c = cpu (machine d);
     cs \<leftarrow> get_r16 c R.CS;
     (op, _) \<leftarrow> get_instruction_info Decoder_default (mmu (machine d)) cs (cpu_ip c);
     off \<leftarrow> add_chk (cpu_ip c) (of_nat (length (info_bytes op)));
     addr_value (RealSegmentOffset cs off)
   }"

definition step_over :: "nat \<Rightarrow> Host \<Rightarrow> Debugger \<Rightarrow> Debugger option option" where
  "step_over fuel h d = (case step_over_target d of
     None \<Rightarrow> Some None
   | Some dst \<Rightarrow> step_over_loop fuel h dst 0 d)"

definition disasm_n_instructions_to_text :: "nat \<Rightarrow> Debugger \<Rightarrow> string option" where
  "disasm_n_instructions_to_text n d = do {
     cs \<leftarrow> get_r16 (cpu (machine d)) R.CS;
     map_option fst (disassemble_block_to_str Decoder_default (mmu (machine d)) cs (cpu_ip (cpu (machine d))) n)
   }"

text \<open>The bytes for the file, when it can be created.\<close>

definition dump_memory :: "(string \<Rightarrow> bool) \<Rightarrow> string \<Rightarrow> u32 \<Rightarrow> u32 \<Rightarrow> Debugger \<Rightarrow> u8 list option option" where
  "dump_memory create filename base len d =
     (if \<not> create filename then Some None
      else (let m = memory (mmu (machine d)); b = unat base; n = unat len
        in if b + n \<le> data_len m then Some (Some (map (\<lambda>i. data m (of_nat i)) [b..<b + n])) else None))"

section \<open>Addresses and registers as text\<close>

definition to_lower :: "string \<Rightarrow> string" where
  "to_lower = map (\<lambda>c. let n = (of_char c :: nat) in if 0x41 \<le> n \<and> n \<le> 0x5A then char_of (n + 0x20) else c)"

definition register_by_name :: "string \<Rightarrow> R option" where
  "register_by_name = map_of [(''ax'', R.AX), (''bx'', R.BX), (''cx'', R.CX), (''dx'', R.DX),
     (''sp'', R.SP), (''bp'', R.BP), (''si'', R.SI), (''di'', R.DI), (''es'', R.ES), (''cs'', R.CS),
     (''ss'', R.SS), (''ds'', R.DS), (''fs'', R.FS), (''gs'', R.GS)]"

definition parse_usize_hex :: "string \<Rightarrow> ParseIntError + usize" where
  "parse_usize_hex s = map_sum id of_nat (parse_radix (2 ^ 64) 16 s)"

text \<open>The value of a register never panics for the names above; the option is that of \<open>get_r16\<close>.\<close>

definition parse_register_hex_string :: "Debugger \<Rightarrow> string \<Rightarrow> (ParseIntError + usize) option" where
  "parse_register_hex_string d s =
     (let x = to_lower (strip_underscores s)
      in if length x \<ge> 2 \<and> take 2 x = ''0x'' then Some (parse_usize_hex (drop 2 x))
         else (case register_by_name x of
           Some r \<Rightarrow> map_option (\<lambda>v. Inr (ucast v)) (get_r16 (cpu (machine d)) r)
         | None \<Rightarrow> Some (parse_usize_hex x)))"

definition parse_segment_offset_pair :: "Debugger \<Rightarrow> string \<Rightarrow> (ParseIntError + u32) option" where
  "parse_segment_offset_pair d s =
     (let x = strip_underscores s
      in case position (CHR '':'') x of
        Some pos \<Rightarrow> do {
          seg \<leftarrow> parse_register_hex_string d (take pos x);
          case seg of
            Inl e \<Rightarrow> Some (Inl e)
          | Inr seg \<Rightarrow> do {
              off \<leftarrow> parse_register_hex_string d (drop (pos + 1) x);
              case off of
                Inl e \<Rightarrow> Some (Inl e)
              | Inr off \<Rightarrow> map_option Inr (addr_value (RealSegmentOffset (ucast seg) (ucast off)))
            }
        }
      | None \<Rightarrow> map_option (map_sum id ucast) (parse_register_hex_string d x))"

text \<open>The address relative to the start of the program: \<open>show_flat_address\<close> prints both.\<close>

definition show_flat_address :: "Debugger \<Rightarrow> (u32 \<times> u32) option" where
  "show_flat_address d = do {
     offset \<leftarrow> get_address (cpu (machine d));
     base \<leftarrow> addr_offset (rom_base (machine d));
     rel \<leftarrow> sub_chk offset (ucast base);
     rom_offset \<leftarrow> add_chk rel 0x100;
     Some (offset, rom_offset)
   }"

definition print_registers :: "Debugger \<Rightarrow> string option" where
  "print_registers d = do {
     let c = cpu (machine d);
     let f = cpu_flags c;
     let r = (\<lambda>name reg. map_option (\<lambda>v. name @ '':'' @ hex_word 4 v) (get_r16 c reg));
     ax \<leftarrow> r ''AX'' R.AX;
     si \<leftarrow> r ''SI'' R.SI;
     ds \<leftarrow> r ''DS'' R.DS;
     let row1 = join ''  '' [ax, si, ds, ''IP:'' @ hex_word 4 (cpu_ip c),
       ''cnt:'' @ dec_digits (unat (instruction_count c))];
     bx \<leftarrow> r ''BX'' R.BX;
     di \<leftarrow> r ''DI'' R.DI;
     cs \<leftarrow> r ''CS'' R.CS;
     let row2 = join ''  '' [bx, di, cs, ''fl:'' @ hex_word 4 (flags_u16 f)];
     cx \<leftarrow> r ''CX'' R.CX;
     bp \<leftarrow> r ''BP'' R.BP;
     es \<leftarrow> r ''ES'' R.ES;
     gs \<leftarrow> r ''GS'' R.GS;
     let row3 = join ''  '' [cx, bp, es, gs];
     dx \<leftarrow> r ''DX'' R.DX;
     sp \<leftarrow> r ''SP'' R.SP;
     fs \<leftarrow> r ''FS'' R.FS;
     ss \<leftarrow> r ''SS'' R.SS;
     let row4 = join ''  '' [dx, sp, fs, ss];
     let row5 = join '' '' [''C'' @ carry_numeric f, ''Z'' @ zero_numeric f,
       ''S'' @ sign_numeric f, ''O'' @ overflow_numeric f, ''A'' @ adjust_numeric f,
       ''P'' @ parity_numeric f, ''D'' @ direction_numeric f, ''I'' @ interrupt_numeric f];
     Some (join newline [row1, row2, row3, row4, row5])
   }"

section \<open>Commands\<close>

definition is_blank :: "char \<Rightarrow> bool" where
  "is_blank c \<longleftrightarrow> (let n = (of_char c :: nat) in n = 0x20 \<or> (0x09 \<le> n \<and> n \<le> 0x0D))"

definition trim :: "string \<Rightarrow> string" where
  "trim s = rev (dropWhile is_blank (rev (dropWhile is_blank s)))"

fun split_on :: "char \<Rightarrow> string \<Rightarrow> string list" where
  "split_on c [] = [[]]"
| "split_on c (x # xs) =
     (if x = c then [] # split_on c xs
      else (case split_on c xs of [] \<Rightarrow> [[x]] | y # ys \<Rightarrow> (x # y) # ys))"

text \<open>\<open>parts[i]\<close> panics out of range.\<close>

definition part :: "string list \<Rightarrow> nat \<Rightarrow> string option" where
  "part parts i = (if i < length parts then Some (parts ! i) else None)"

record Environment =
  env_host :: Host
  env_bincode :: Bincode
  env_read :: "rstring \<Rightarrow> u8 list option"
  env_create :: "string \<Rightarrow> bool"

datatype Outcome = Running Debugger | Exited

text \<open>A command that ends, one way or with a panic.\<close>

definition ends :: "Debugger option \<Rightarrow> Outcome option option" where
  "ends r = Some (map_option Running r)"

definition as_rstring :: "string \<Rightarrow> rstring" where
  "as_rstring s = map (\<lambda>c. of_nat (of_char c)) s"

definition debugger_load :: "Environment \<Rightarrow> string \<Rightarrow> Debugger \<Rightarrow> Debugger option" where
  "debugger_load env filename d = do {
     (ok, m) \<leftarrow> load_executable_file (env_bincode env) (env_read env) (as_rstring filename) (hard_reset (machine d));
     if ok then Some (d\<lparr>machine := m\<rparr>) else None
   }"

definition cmd_step :: "nat \<Rightarrow> Environment \<Rightarrow> string list \<Rightarrow> Debugger \<Rightarrow> Outcome option option" where
  "cmd_step fuel env parts d = (case part parts 1 of
     None \<Rightarrow> Some None
   | Some sub \<Rightarrow>
       if sub = ''into'' then
         (if length parts > 2 then (case parse_number_string (parts ! 2) of
            Inl e \<Rightarrow> ends (Some d)
          | Inr n \<Rightarrow> ends (step_into (env_host env) (ucast n) d))
          else ends (step_into (env_host env) 1 d))
       else if sub = ''over'' then map_option (map_option Running) (step_over fuel (env_host env) d)
       else ends (Some d))"

definition cmd_bp :: "string list \<Rightarrow> Debugger \<Rightarrow> Debugger option" where
  "cmd_bp parts d =
     (if length parts < 2 then Some d
      else (let sub = parts ! 1 in
        if sub \<in> {''add'', ''set''} then do {
          s \<leftarrow> part parts 2;
          r \<leftarrow> parse_segment_offset_pair d s;
          case r of
            Inr bp \<Rightarrow> Some (d\<lparr>ip_breakpoints := snd (bp_add bp (ip_breakpoints d))\<rparr>)
          | Inl e \<Rightarrow> Some d
        }
        else if sub \<in> {''del'', ''delete'', ''remove''} then do {
          s \<leftarrow> part parts 2;
          r \<leftarrow> parse_segment_offset_pair d s;
          case r of
            Inr bp \<Rightarrow> Some (d\<lparr>ip_breakpoints := snd (bp_remove bp (ip_breakpoints d))\<rparr>)
          | Inl e \<Rightarrow> Some d
        }
        else if sub = ''clear'' then Some (d\<lparr>ip_breakpoints := bp_clear (ip_breakpoints d)\<rparr>)
        else Some d))"

definition cmd_membp :: "string list \<Rightarrow> Debugger \<Rightarrow> Debugger option" where
  "cmd_membp parts d =
     (if length parts < 2 then Some d
      else (let sub = parts ! 1 in
        if sub \<in> {''add'', ''set''} then do {
          s \<leftarrow> part parts 2;
          r \<leftarrow> parse_segment_offset_pair d s;
          case r of
            Inr bp \<Rightarrow> Some (d\<lparr>memory_breakpoints := snd (membp_add bp (memory_breakpoints d))\<rparr>)
          | Inl e \<Rightarrow> Some d
        }
        else if sub \<in> {''del'', ''delete'', ''remove''} then do {
          s \<leftarrow> part parts 2;
          r \<leftarrow> parse_segment_offset_pair d s;
          case r of
            Inr bp \<Rightarrow> Some (d\<lparr>memory_breakpoints := snd (membp_remove bp (memory_breakpoints d))\<rparr>)
          | Inl e \<Rightarrow> Some d
        }
        else if sub = ''clear'' then Some (d\<lparr>memory_breakpoints := membp_clear (memory_breakpoints d)\<rparr>)
        else Some d))"

definition cmd_disasm :: "Debugger \<Rightarrow> Debugger option" where
  "cmd_disasm d = do {
     cs \<leftarrow> get_r16 (cpu (machine d)) R.CS;
     op \<leftarrow> get_instruction_info Decoder_default (mmu (machine d)) cs (cpu_ip (cpu (machine d)));
     Some d
   }"

definition cmd_load :: "Environment \<Rightarrow> string list \<Rightarrow> Debugger \<Rightarrow> Debugger option" where
  "cmd_load env parts d =
     (if length parts < 2 then (case last_program d of
        None \<Rightarrow> Some d
      | Some path \<Rightarrow> debugger_load env path d)
      else do {
        let path = trim (join '' '' (tl parts));
        d \<leftarrow> debugger_load env path d;
        Some (d\<lparr>last_program := Some path\<rparr>)
      })"

text \<open>The text of \<open>hexdump\<close>: rows of sixteen bytes, each with its address.\<close>

fun hexdump_rows :: "FlatMemory \<Rightarrow> u32 list \<Rightarrow> nat \<Rightarrow> string option" where
  "hexdump_rows m [] row_cnt = Some newline"
| "hexdump_rows m (i # is) row_cnt = do {
     let head = (if row_cnt = 0 then ''['' @ hex_word 6 i @ ''] '' else []);
     v \<leftarrow> mem_read_u8 m i;
     let row_cnt = row_cnt + 1;
     rest \<leftarrow> hexdump_rows m is (if row_cnt = 16 then 0 else row_cnt);
     Some (head @ hex_word 2 v @ '' '' @ (if row_cnt = 16 then newline else []) @ rest)
   }"

definition cmd_hexdump :: "string list \<Rightarrow> Debugger \<Rightarrow> string option option" where
  "cmd_hexdump parts d =
     (if length parts < 3 then Some None
      else do {
        pos \<leftarrow> parse_segment_offset_pair d (parts ! 1);
        case pos of
          Inl e \<Rightarrow> Some None
        | Inr pos \<Rightarrow> (case parse_number_string (parts ! 2) of
            Inl e \<Rightarrow> Some None
          | Inr len \<Rightarrow> do {
              last \<leftarrow> add_chk pos len;
              map_option Some (hexdump_rows (memory (mmu (machine d))) (map of_nat [unat pos..<unat last]) 0)
            })
      })"

definition cmd_bindump :: "Environment \<Rightarrow> string list \<Rightarrow> Debugger \<Rightarrow> u8 list option option" where
  "cmd_bindump env parts d =
     (if length parts < 4 then Some None
      else do {
        pos \<leftarrow> parse_segment_offset_pair d (parts ! 1);
        case pos of
          Inl e \<Rightarrow> Some None
        | Inr pos \<Rightarrow> (case parse_number_string (parts ! 2) of
            Inl e \<Rightarrow> Some None
          | Inr len \<Rightarrow> dump_memory (env_create env) (trim (parts ! 3)) pos len d)
      })"

definition exec_command :: "nat \<Rightarrow> Environment \<Rightarrow> string \<Rightarrow> Debugger \<Rightarrow> Outcome option option" where
  "exec_command fuel env cmd d =
     (let parts = split_on (CHR '' '') (trim cmd); name = hd parts in
      if name = ''step'' then cmd_step fuel env parts d
      else if name = ''reset'' then ends (Some (d\<lparr>machine := hard_reset (machine d)\<rparr>))
      else if name \<in> {''exit'', ''quit'', ''q''} then Some (Some Exited)
      else if name \<in> {''reg'', ''regs'', ''registers''} then ends (map_option (\<lambda>_. d) (print_registers d))
      else if name \<in> {''bp'', ''breakpoint''} then ends (cmd_bp parts d)
      else if name = ''membp'' then ends (cmd_membp parts d)
      else if name = ''flat'' then ends (map_option (\<lambda>_. d) (show_flat_address d))
      else if name \<in> {''d'', ''disasm''} then ends (cmd_disasm d)
      else if name = ''load'' then ends (cmd_load env parts d)
      else if name = ''hexdump'' then ends (map_option (\<lambda>_. d) (cmd_hexdump parts d))
      else if name = ''bindump'' then ends (map_option (\<lambda>_. d) (cmd_bindump env parts d))
      else if name \<in> {''r'', ''run''} then
        map_option (map_option (\<lambda>m. Running (d\<lparr>machine := m\<rparr>))) (execute_frame fuel (env_host env) (machine d))
      else ends (Some d))"

end
