(* ===== verification/X86_Laws_Debugger.thy ===== *)
theory X86_Laws_Debugger
  imports X86_Debugger X86_Laws_Machine
begin

text \<open>
  The laws of the debugger: an address parses as it was printed, both lists of breakpoints
  are finite sets with a sorted listing (stated once, as a locale), every command keeps the
  debugger's state well formed, and stepping stops at the first break.
\<close>

unbundle bit_operations_syntax

section \<open>Addresses as text\<close>

lemma hex_letter:
  assumes "c \<in> set ''0123456789ABCDEF''"
  shows "c \<noteq> CHR ''_''" "c \<noteq> CHR '':''" "c \<noteq> CHR ''x''" "c \<noteq> CHR ''+''"
    "digit_value 16 (char_of (let n = (of_char c :: nat) in if 0x41 \<le> n \<and> n \<le> 0x5A then n + 0x20 else n)) =
      digit_value 16 c"
  using assms by (auto simp: digit_value_def)

lemma hex_text:
  assumes "set s \<subseteq> set ''0123456789ABCDEF''"
  shows "strip_underscores s = s" "position (CHR '':'') (s @ CHR '':'' # t) = Some (length s)"
    "CHR '':'' \<notin> set s"
  using assms by (induction s) (auto simp: strip_underscores_def)

lemma parse_lower:
  "set s \<subseteq> set ''0123456789ABCDEF'' \<Longrightarrow> parse_digits bnd 16 (to_lower s) acc = parse_digits bnd 16 s acc"
proof (induction s arbitrary: acc)
  case (Cons c s)
  then have "digit_value 16 (hd (to_lower [c])) = digit_value 16 c"
    using hex_letter(5) [of c] by (auto simp: to_lower_def Let_def split: if_splits)
  with Cons show ?case by (simp add: to_lower_def split: option.split)
qed (simp add: to_lower_def)

lemma to_lower_length: "length (to_lower s) = length s"
  by (simp add: to_lower_def)

lemma register_names: "register_by_name s = Some r \<Longrightarrow> length s = 2"
  by (auto simp: register_by_name_def split: if_splits dest!: map_of_SomeD)

lemma to_lower_second:
  assumes "set s \<subseteq> set ''0123456789ABCDEF''"
  shows "take 2 (to_lower s) \<noteq> ''0x''" "hd (to_lower s) = CHR ''+'' \<Longrightarrow> to_lower s = []"
proof -
  have "CHR ''x'' \<notin> set (to_lower s) \<and> CHR ''+'' \<notin> set (to_lower s)"
    using assms by (induction s) (auto simp: to_lower_def char_of_def)
  then show "take 2 (to_lower s) \<noteq> ''0x''" "hd (to_lower s) = CHR ''+'' \<Longrightarrow> to_lower s = []"
    using in_set_takeD [of "CHR ''x''" 2 "to_lower s"] hd_in_set [of "to_lower s"] by force+
qed

lemma parse_printed_hex:
  assumes "2 < length (hex_pad w n)" "n < 2 ^ 64"
  shows "parse_register_hex_string d (hex_pad w n) = Some (Inr (of_nat n))"
proof -
  let ?s = "hex_pad w n"
  note s = hex_pad_set [of w n]
  have "register_by_name (to_lower ?s) = None"
    using register_names [of "to_lower ?s"] assms(1)
    by (cases "register_by_name (to_lower ?s)") (auto simp: to_lower_length)
  moreover have "parse_radix (2 ^ 64) 16 (to_lower ?s) = parse_radix (2 ^ 64) 16 ?s"
  proof -
    have "?s \<noteq> []" "to_lower ?s \<noteq> []"
      using assms(1) to_lower_length [of ?s] by auto
    with to_lower_second(2) [OF s] hex_letter(4) [OF subsetD [OF s hd_in_set]]
    have "hd ?s \<noteq> CHR ''+''" "hd (to_lower ?s) \<noteq> CHR ''+''" by auto
    with \<open>?s \<noteq> []\<close> \<open>to_lower ?s \<noteq> []\<close> show ?thesis
      by (simp add: parse_radix_def parse_lower [OF s])
  qed
  ultimately show ?thesis
    using assms(1) parse_hex_pad [OF assms(2), of w] to_lower_second(1) [OF s]
    by (simp add: parse_register_hex_string_def Let_def hex_text(1) [OF s] parse_usize_hex_def)
qed


lemma hex_word_length: "w \<le> length (hex_word w v)"
  by (simp add: hex_word_def hex_pad_def)

lemma u16_below: "unat (v :: u16) < 2 ^ 64" "unat (a :: u32) < 2 ^ 64"
  using unsigned_less [of v, where ?'a = nat] unsigned_less [of a, where ?'a = nat] by simp_all

text \<open>C33. An address parses as it was printed: \<open>seg:off\<close>, as the debugger prints it, is parsed
  to the linear address of the pair, the six hexadecimal digits of the breakpoint list to the address
  itself, and a number in the \<open>0x\<close> form to the number.\<close>

theorem printed_address_parses:
  "parse_segment_offset_pair d (hex_word 4 seg @ '':'' @ hex_word 4 off) =
     map_option Inr (addr_value (RealSegmentOffset seg off))
   \<and> MemoryAddress_fmt (RealSegmentOffset seg off) = Some (hex_word 4 seg @ '':'' @ hex_word 4 off)
   \<and> parse_segment_offset_pair d (hex_word 6 a) = Some (Inr a)
   \<and> parse_number_string (''0x'' @ hex_word w a) = Inr a"
proof -
  note pad = hex_pad_set
  have 4: "2 < length (hex_word 4 (v :: u16))" for v
    using hex_word_length [of 4 v] by simp
  have 6: "2 < length (hex_word 6 a)"
    using hex_word_length [of 6 a] by simp
  have strip: "strip_underscores (hex_word k v @ t) = hex_word k v @ strip_underscores t" for k t and v :: "'x::len word"
    using hex_text(1) [OF pad] by (simp add: strip_underscores_def hex_word_def)
  have pair: "parse_register_hex_string d (hex_word 4 v) = Some (Inr (ucast v))" for v :: u16
    using parse_printed_hex [OF 4 [unfolded hex_word_def] u16_below(1)] by (simp add: hex_word_def of_nat_unat)
  have flat: "parse_register_hex_string d (hex_word 6 a) = Some (Inr (ucast a))"
    using parse_printed_hex [OF 6 [unfolded hex_word_def] u16_below(2)] by (simp add: hex_word_def of_nat_unat)
  have same: "ucast (ucast v :: usize) = v" "ucast (ucast b :: usize) = b" for v :: u16 and b :: u32
    by (rule bit_word_eqI, simp add: bit_simps)+
  have one: "strip_underscores (hex_word 4 seg @ '':'' @ hex_word 4 off) = hex_word 4 seg @ '':'' @ hex_word 4 off"
    using strip [of 4 seg] strip [of 4 off "[]"] by (simp add: strip_underscores_def)
  have two: "parse_segment_offset_pair d (hex_word 4 seg @ '':'' @ hex_word 4 off) =
     map_option Inr (addr_value (RealSegmentOffset seg off))"
    using hex_text(2) [OF pad, of 4 "unat seg" "hex_word 4 off", folded hex_word_def] one
    by (simp add: parse_segment_offset_pair_def Let_def pair same)
  have three: "parse_segment_offset_pair d (hex_word 6 a) = Some (Inr a)"
    using strip [of 6 a "[]"] flat position_none [of "CHR '':''" "hex_word 6 a"]
      hex_text(3) [OF pad, of 6 "unat a", folded hex_word_def]
    by (simp add: parse_segment_offset_pair_def Let_def same strip_underscores_def)
  have "parse_number_string (''0x'' @ hex_word w a) = Inr a"
    using strip [of w a "[]"] parse_hex_pad [of "unat a" "2 ^ 32" w] unsigned_less [of a, where ?'a = nat]
    by (simp add: parse_number_string_def strip_underscores_def hex_word_def)
  with two three show ?thesis
    by (simp add: MemoryAddress_fmt_def)
qed


section \<open>Breakpoints\<close>

text \<open>What both lists promise: they are finite sets of addresses, listed in order.\<close>

datatype Watch = Add u32 | Remove u32 | Clear

fun watch_set :: "Watch \<Rightarrow> u32 set \<Rightarrow> u32 set" where
  "watch_set (Add a) S = insert a S"
| "watch_set (Remove a) S = S - {a}"
| "watch_set Clear S = {}"

locale address_set =
  fixes content :: "'b \<Rightarrow> u32 list"
    and add :: "u32 \<Rightarrow> 'b \<Rightarrow> u32 option \<times> 'b"
    and remove :: "u32 \<Rightarrow> 'b \<Rightarrow> u32 option \<times> 'b"
    and clear :: "'b \<Rightarrow> 'b"
    and listing :: "'b \<Rightarrow> u32 list"
  assumes add_eq: "content (snd (add a b)) = (if a \<in> set (content b) then content b else content b @ [a])"
      "fst (add a b) = (if a \<in> set (content b) then None else Some a)"
    and remove_eq: "content (snd (remove a b)) = remove1 a (content b)"
      "fst (remove a b) = (if a \<in> set (content b) then Some a else None)"
    and clear_eq: "content (clear b) = []"
    and listing_eq: "listing b = sort (content b)"
begin

definition watch :: "Watch \<Rightarrow> 'b \<Rightarrow> 'b" where
  "watch w b = (case w of Add a \<Rightarrow> snd (add a b) | Remove a \<Rightarrow> snd (remove a b) | Clear \<Rightarrow> clear b)"

lemma watch_refines:
  assumes "distinct (content b)"
  shows "distinct (content (watch w b))" "set (content (watch w b)) = watch_set w (set (content b))"
  using assms by (auto simp: watch_def add_eq remove_eq clear_eq split: Watch.split)

lemma history_refines:
  assumes "distinct (content b)"
  shows "distinct (content (fold watch ws b)) \<and> set (content (fold watch ws b)) = fold watch_set ws (set (content b))"
  using assms by (induction ws arbitrary: b) (simp_all add: watch_refines)

lemma sorted_listing: "distinct (content b) \<Longrightarrow> listing b = sorted_list_of_set (set (content b))"
  by (simp add: listing_eq sorted_list_of_set_sort_remdups distinct_remdups_id)

lemma answers: "fst (add a b) = None \<longleftrightarrow> a \<in> set (content b)" "fst (remove a b) = None \<longleftrightarrow> a \<notin> set (content b)"
  by (simp_all add: add_eq remove_eq)

end

lemma remove_at_position:
  "position x xs = Some i \<Longrightarrow> remove_at i xs = remove1 x xs \<and> x \<in> set xs"
proof (induction xs arbitrary: i)
  case (Cons y xs)
  then show ?case by (cases i) (auto simp: remove_at_def split: if_splits)
qed simp

lemma position_missing: "position x xs = None \<Longrightarrow> remove1 x xs = xs \<and> x \<notin> set xs"
  by (simp add: position_none remove1_idem)

interpretation ip_bps: address_set breakpoints bp_add bp_remove bp_clear bp_get
  by unfold_locales (auto simp: bp_add_def bp_remove_def bp_clear_def bp_get_def
      dest: remove_at_position position_missing split: option.split)

interpretation mem_bps: address_set mem_breakpoints membp_add membp_remove membp_clear membp_get
  by unfold_locales (auto simp: membp_add_def membp_remove_def membp_clear_def membp_get_def
      dest: remove_at_position position_missing split: option.split)

definition bp_watch :: "Watch \<Rightarrow> Breakpoints \<Rightarrow> Breakpoints" where
  "bp_watch w b = (case w of Add a \<Rightarrow> snd (bp_add a b) | Remove a \<Rightarrow> snd (bp_remove a b) | Clear \<Rightarrow> bp_clear b)"

definition membp_watch :: "Watch \<Rightarrow> MemoryBreakpoints \<Rightarrow> MemoryBreakpoints" where
  "membp_watch w b = (case w of
     Add a \<Rightarrow> snd (membp_add a b) | Remove a \<Rightarrow> snd (membp_remove a b) | Clear \<Rightarrow> membp_clear b)"

lemma watch_folds: "fold ip_bps.watch = fold bp_watch" "fold mem_bps.watch = fold membp_watch"
proof -
  have "ip_bps.watch = bp_watch" "mem_bps.watch = membp_watch"
    by (simp_all add: fun_eq_iff ip_bps.watch_def mem_bps.watch_def bp_watch_def membp_watch_def)
  then show "fold ip_bps.watch = fold bp_watch" "fold mem_bps.watch = fold membp_watch"
    by simp_all
qed

text \<open>C34. After any history of additions, removals and clearings the list of breakpoints holds the
  abstract set of that history: \<open>get\<close> lists it in ascending order without repetition, \<open>hit\<close> tests
  membership, and adding or removing reports nothing exactly when there was nothing to do. The
  memory breakpoints satisfy the same.\<close>

theorem breakpoints_are_sets:
  "let b = fold bp_watch ws \<lparr>breakpoints = []\<rparr>; mb = fold membp_watch ws MemoryBreakpoints_default; S = fold watch_set ws {}
   in bp_get b = sorted_list_of_set S \<and> membp_get mb = sorted_list_of_set S
      \<and> (bp_hit a b \<longleftrightarrow> a \<in> S)
      \<and> (fst (bp_add a b) = None \<longleftrightarrow> a \<in> S) \<and> (fst (membp_add a mb) = None \<longleftrightarrow> a \<in> S)
      \<and> (fst (bp_remove a b) = None \<longleftrightarrow> a \<notin> S) \<and> (fst (membp_remove a mb) = None \<longleftrightarrow> a \<notin> S)"
  using ip_bps.history_refines [of "\<lparr>breakpoints = []\<rparr>" ws] mem_bps.history_refines [of MemoryBreakpoints_default ws]
  by (auto simp: Let_def watch_folds MemoryBreakpoints_default_def bp_hit_def list_ex_iff
      ip_bps.sorted_listing mem_bps.sorted_listing ip_bps.answers mem_bps.answers)


section \<open>What every command keeps\<close>

definition full_size :: "Machine \<Rightarrow> bool" where
  "full_size m \<longleftrightarrow> data_len (memory (mmu m)) = 0x400000 \<and> clock_hz (cpu m) = 5000000"

definition sound :: "Debugger \<Rightarrow> bool" where
  "sound d \<longleftrightarrow> distinct (breakpoints (ip_breakpoints d)) \<and> distinct (mem_breakpoints (memory_breakpoints d))
     \<and> full_size (machine d)"

lemma sized_step: "full_size m \<Longrightarrow> every (execute_instruction h m) full_size"
  using frame_fatal [of h m] by (auto simp: full_size_def every_def split: option.split)

lemma watched_kept: "every (any_changed m as b) (\<lambda>x. mem_breakpoints (snd x) = mem_breakpoints b)"
proof (induction "as" arbitrary: b)
  case (Cons a "as")
  have "mem_breakpoints (snd (has_changed a v b)) = mem_breakpoints b" for v
    by (simp add: has_changed_def Let_def)
  with Cons [of "snd (has_changed a _ b)"] show ?case
    by (auto simp: case_prod_beta intro!: every_intro)
qed simp

lemma every_break:
  "every (should_break d) (\<lambda>x. machine (snd x) = machine d \<and> ip_breakpoints (snd x) = ip_breakpoints d
     \<and> mem_breakpoints (memory_breakpoints (snd x)) = mem_breakpoints (memory_breakpoints d))"
  by (auto simp: should_break_def case_prod_beta intro!: every_any [of _ "is_ip_at_breakpoint d"]
      every_mono [OF watched_kept])

text \<open>One instruction of the debugger and the test after it.\<close>

definition tick :: "Host \<Rightarrow> Debugger \<Rightarrow> (bool \<times> Debugger) option" where
  "tick h d = do { m \<leftarrow> execute_instruction h (machine d); should_break (d\<lparr>machine := m\<rparr>) }"

lemma every_tick:
  assumes "sound d"
  shows "every (tick h d) (\<lambda>x. sound (snd x))"
proof -
  have "every (should_break (d\<lparr>machine := m\<rparr>)) (\<lambda>x. sound (snd x))" if "full_size m" for m
    using every_break [of "d\<lparr>machine := m\<rparr>"] by (rule every_mono) (use assms that in \<open>auto simp: sound_def\<close>)
  then show ?thesis
    using sized_step [of "machine d" h] assms by (auto simp: tick_def sound_def intro: every_mono)
qed

lemma step_loop_tick:
  "step_loop h (Suc n) k d = do { (b, d) \<leftarrow> tick h d; if b then Some (k, d) else step_loop h n (Suc k) d }"
  by (simp add: tick_def)

lemma step_loop_sound: "sound d \<Longrightarrow> every (step_loop h n k d) (\<lambda>x. sound (snd x))"
proof (induction n arbitrary: k d)
  case (Suc n)
  show ?case
    unfolding step_loop_tick using every_tick [OF Suc.prems, of h]
    by (auto simp: case_prod_beta intro!: Suc.IH elim!: every_mono)
qed simp

lemma step_over_sound:
  "sound d \<Longrightarrow> step_over_loop n h dst cnt d = Some (Some d') \<Longrightarrow> sound d'"
proof (induction n arbitrary: cnt d)
  case (Suc n)
  let ?r = "do {
        cnt \<leftarrow> sadd_chk cnt 1;
        m \<leftarrow> execute_instruction h (machine d);
        (b, d) \<leftarrow> should_break (d\<lparr>machine := m\<rparr>);
        if b then Some (True, cnt, d)
        else do {
          here \<leftarrow> get_address (cpu (machine d));
          Some (here = dst, cnt, d)
        }
      }"
  have "?r = do {
        cnt \<leftarrow> sadd_chk cnt 1;
        (b, d) \<leftarrow> tick h d;
        if b then Some (True, cnt, d)
        else do {
          here \<leftarrow> get_address (cpu (machine d));
          Some (here = dst, cnt, d)
        }
      }"
    by (simp add: tick_def)
  then have "every ?r (\<lambda>x. sound (snd (snd x)))"
    using every_tick [OF Suc.prems(1), of h] by (auto simp: case_prod_beta intro!: every_any [of _ "get_address _"] every_any [of _ "sadd_chk _ _"] elim!: every_mono)
  with Suc show ?case
    by (auto split: option.splits if_splits simp: every_def)
qed simp


lemma load_sized:
  assumes "full_size m"
  shows "every (load_executable bc bs psp m) full_size"
proof -
  have com: "every (load_com bs seg m) full_size" if "full_size m" for seg m
    using that by (auto simp: load_com_def Let_def full_size_def with_interrupts_def with_flags_def set_r16_def set_ip_def
        size_is_def intro!: every_any [of _ "get_memory_address _"] every_any [of _ "get_r16 _ _"] every_write(4) [unfolded size_is_def])
  have exe: "every (load_exe bc bs seg m) full_size" if "full_size m" for seg m
    using that by (auto simp: load_exe_def Let_def full_size_def with_interrupts_def with_flags_def set_r16_def set_ip_def
        size_is_def intro!: every_any [of _ "get_memory_address _"] every_any [of _ "exe_from_data _ _"] every_write(4) [unfolded size_is_def])
  have "every (init_psp psp m) full_size"
    using assms by (auto simp: init_psp_def full_size_def intro!: every_write(4) [unfolded size_is_def])
  then show ?thesis
    using com exe by (auto simp: load_executable_def intro!: every_any [of _ "add_chk _ _"] elim!: every_mono)
qed

lemma debugger_load_sound:
  assumes "sound d"
  shows "every (debugger_load env path d) sound"
proof -
  have "full_size (hard_reset (machine d))"
    using assms by (simp add: sound_def full_size_def hard_reset_def CPU_default_def)
  note load = load_sized [OF this]
  have "every (load_executable_file (env_bincode env) (env_read env) (as_rstring path) (hard_reset (machine d)))
      (\<lambda>x. full_size (snd x))"
    using \<open>full_size (hard_reset (machine d))\<close>
    by (auto simp: load_executable_file_def full_size_def split: option.split intro!: every_mono [OF load])
  then show ?thesis
    using assms by (auto simp: debugger_load_def sound_def case_prod_beta elim!: every_mono)
qed

lemma cmd_bp_sound: "sound d \<Longrightarrow> every (cmd_bp parts d) sound"
  using ip_bps.watch_refines(1) [of "ip_breakpoints d"]
  by (auto simp: cmd_bp_def sound_def Let_def bp_add_def ip_bps.add_eq ip_bps.remove_eq ip_bps.clear_eq
      intro!: every_any [of _ "part _ _"] every_any [of _ "parse_segment_offset_pair _ _"] split: sum.split)

lemma cmd_membp_sound: "sound d \<Longrightarrow> every (cmd_membp parts d) sound"
  by (auto simp: cmd_membp_def sound_def Let_def mem_bps.add_eq mem_bps.remove_eq mem_bps.clear_eq
      intro!: every_any [of _ "part _ _"] every_any [of _ "parse_segment_offset_pair _ _"] split: sum.split)

lemma cmd_load_sound:
  assumes "sound d"
  shows "every (cmd_load env parts d) sound"
proof -
  have "sound d \<Longrightarrow> sound (d\<lparr>last_program := p\<rparr>)" for d p
    by (simp add: sound_def)
  then show ?thesis
    using debugger_load_sound [OF assms] assms
    by (auto simp: cmd_load_def Let_def split: option.split intro!: every_mono [OF debugger_load_sound [OF assms]])
qed

text \<open>The outcomes a command may have.\<close>

definition good :: "Outcome option option \<Rightarrow> bool" where
  "good r \<longleftrightarrow> (case r of Some (Some (Running d')) \<Rightarrow> sound d' | _ \<Rightarrow> True)"

lemma good_ends: "every r sound \<Longrightarrow> good (ends r)"
  by (auto simp: good_def ends_def every_def split: option.splits)

lemma same_sound: "sound d \<Longrightarrow> every (map_option (\<lambda>_. d) r) sound"
  by (auto intro: every_any)

lemma step_into_sound: "sound d \<Longrightarrow> every (step_into h n d) sound"
  using step_loop_sound [of d h "unat n" 0] by (simp add: step_into_def)

lemma cmd_step_good: "sound d \<Longrightarrow> good (cmd_step fuel env parts d)"
  using step_over_sound [of d fuel "env_host env"]
  by (auto simp: cmd_step_def step_over_def good_def[of None] intro!: good_ends step_into_sound split: option.splits sum.splits)
    (auto simp: good_def split: option.splits)

lemma frame_sized:
  assumes "full_size m" "execute_frame fuel h m = Some (Some m')"
  shows "full_size m'"
proof -
  have "frame_loop n h limit m = Some (Some m') \<Longrightarrow> full_size m \<Longrightarrow> full_size m'" for n limit m
  proof (induction n arbitrary: m)
    case (Suc n)
    then show ?case
      using sized_step [OF Suc.prems(2), of h]
      by (auto split: option.splits if_splits simp: full_size_def every_def)
  qed simp
  with assms show ?thesis by (auto simp: execute_frame_def Let_def)
qed

lemma run_good:
  assumes "sound d"
  shows "good (map_option (map_option (\<lambda>m. Running (d\<lparr>machine := m\<rparr>))) (execute_frame fuel h (machine d)))"
  using frame_sized [of "machine d" fuel h] assms
  by (auto simp: good_def sound_def split: option.split)

text \<open>A command that runs without a bound of its own.\<close>

definition steps_over :: "string \<Rightarrow> bool" where
  "steps_over cmd \<longleftrightarrow> take 2 (split_on (CHR '' '') (trim cmd)) = [''step'', ''over'']"

lemma run_ends: 
  assumes "full_size m" "83334 \<le> fuel"
  shows "execute_frame fuel h m \<noteq> None"
proof -
  obtain extra where "fuel = 83334 + extra"
    using assms(2) le_Suc_ex by blast
  moreover have "\<exists>r. frame_loop (83334 + extra) h (5000000 div 60) m = Some r \<and> frame_end m r"
    by (rule frame_loop_ends) simp_all
  ultimately show ?thesis
    using assms(1) by (auto simp: execute_frame_def Let_def full_size_def)
qed

lemma cmd_step_ends: "take 2 parts \<noteq> [''step'', ''over''] \<Longrightarrow> hd parts = ''step'' \<Longrightarrow> cmd_step fuel env parts d \<noteq> None"
  by (cases parts; cases "tl parts") (auto simp: cmd_step_def part_def ends_def split: sum.splits)

text \<open>C35. Every command leaves a debugger with two lists of distinct breakpoints, a memory of
  4 MB and the same clock rate; and every command but stepping over an instruction ends, with the
  fuel of one video frame.\<close>

theorem commands_keep_sound:
  assumes "sound d"
  shows "case exec_command fuel env cmd d of
      None \<Rightarrow> fuel < 83334 \<or> steps_over cmd
    | Some None \<Rightarrow> True
    | Some (Some Exited) \<Rightarrow> True
    | Some (Some (Running d')) \<Rightarrow> sound d'"
proof -
  let ?p = "split_on (CHR '' '') (trim cmd)"
  have reset: "sound (d\<lparr>machine := hard_reset (machine d)\<rparr>)"
    using assms by (simp add: sound_def full_size_def hard_reset_def CPU_default_def)
  have "every (cmd_disasm d) sound"
    using assms by (auto simp: cmd_disasm_def intro!: every_any)
  then have "good (exec_command fuel env cmd d)"
    using assms reset
    by (auto simp: exec_command_def Let_def intro!: cmd_step_good run_good good_ends cmd_bp_sound cmd_membp_sound
        cmd_load_sound same_sound simp del: every_simps(4)) (auto simp: good_def)
  moreover have "exec_command fuel env cmd d \<noteq> None" if "83334 \<le> fuel" "\<not> steps_over cmd"
    using that run_ends [of "machine d" fuel "env_host env"] assms cmd_step_ends [of ?p fuel env d]
    by (auto simp: exec_command_def Let_def ends_def sound_def steps_over_def)
  ultimately show ?thesis
    by (cases "83334 \<le> fuel"; cases "steps_over cmd") (auto simp: good_def split: option.split Outcome.split)
qed

theorem commands_keep_sound_witness:
  "\<forall>h bc rd cr. \<exists>d d'. sound d \<and> sound d' \<and> bp_get (ip_breakpoints d') = [0x10] \<and>
     exec_command 0 \<lparr>env_host = h, env_bincode = bc, env_read = rd, env_create = cr\<rparr> ''bp add 0x10'' d = Some (Some (Running d'))"
proof (intro allI)
  fix h bc rd cr
  let ?e = "\<lparr>env_host = h, env_bincode = bc, env_read = rd, env_create = cr\<rparr>"
  let ?d = "\<lparr>machine = \<lparr>mmu = MMU_default, cpu = CPU_default, dos = DOS_default, rom_base = default_real, rom_length = 0,
      components = [], trace_count = None\<rparr>, prev_regs = regs CPU_default, last_program = None,
      ip_breakpoints = \<lparr>breakpoints = []\<rparr>, memory_breakpoints = MemoryBreakpoints_default\<rparr>"
  let ?d' = "?d\<lparr>ip_breakpoints := \<lparr>breakpoints = [0x10]\<rparr>\<rparr>"
  have d: "sound ?d"
    by (simp add: sound_def full_size_def MemoryBreakpoints_default_def MMU_default_def FlatMemory_new_def CPU_default_def)
  have words: "split_on (CHR '' '') (trim ''bp add 0x10'') = [''bp'', ''add'', ''0x10'']"
    by code_simp
  have "parse_usize_hex ''10'' = Inr 0x10"
    by (simp add: parse_usize_hex_def parse_radix_def digit_value_def)
  then have "parse_segment_offset_pair ?d ''0x10'' = Some (Inr 0x10)"
    by (simp add: parse_segment_offset_pair_def parse_register_hex_string_def strip_underscores_def to_lower_def)
  then have run: "exec_command 0 ?e ''bp add 0x10'' ?d = Some (Some (Running ?d'))"
    by (simp add: exec_command_def words cmd_bp_def part_def ends_def bp_add_def)
  with commands_keep_sound [OF d, where fuel = 0 and env = ?e and cmd = "''bp add 0x10''"] d
  show "\<exists>d d'. sound d \<and> sound d' \<and> bp_get (ip_breakpoints d') = [0x10] \<and>
      exec_command 0 ?e ''bp add 0x10'' d = Some (Some (Running d'))"
    by (intro exI [of _ ?d] exI [of _ ?d']) (simp add: bp_get_def)
qed

section \<open>Stepping\<close>







section \<open>Reasons to break\<close>

text \<open>An address whose byte is not the one remembered for it.\<close>

definition differs :: "FlatMemory \<Rightarrow> MemoryBreakpoints \<Rightarrow> u32 \<Rightarrow> bool" where
  "differs m b a \<longleftrightarrow> mem_map b a \<notin> {None, Some (data m a)}"

text \<open>
  The watched bytes are tested one by one. A byte is quiet when it can be read and is the one remembered
  for its address, or nothing is remembered for it; each test remembers the byte it reads.
\<close>

definition unchanged :: "FlatMemory \<Rightarrow> MemoryBreakpoints \<Rightarrow> u32 \<Rightarrow> bool" where
  "unchanged m b a \<longleftrightarrow> unat a < data_len m \<and> \<not> differs m b a"

definition remember :: "FlatMemory \<Rightarrow> u32 list \<Rightarrow> MemoryBreakpoints \<Rightarrow> MemoryBreakpoints" where
  "remember m as b = b\<lparr>mem_map := (\<lambda>a. if a \<in> set as then Some (data m a) else mem_map b a)\<rparr>"

lemma remember_Nil [simp]: "remember m [] b = b"
  by (simp add: remember_def)

lemma remember_Cons: "remember m as (b\<lparr>mem_map := (mem_map b)(a \<mapsto> data m a)\<rparr>) = remember m (a # as) b"
  by (auto simp: remember_def fun_eq_iff)

lemma any_changed_eq:
  "any_changed m as b = (case dropWhile (unchanged m b) as of
      [] \<Rightarrow> Some (False, remember m as b)
    | a # _ \<Rightarrow> if unat a < data_len m then Some (True, remember m (takeWhile (unchanged m b) as @ [a]) b) else None)"
proof (induction "as" arbitrary: b)
  case (Cons a "as")
  let ?b = "b\<lparr>mem_map := (mem_map b)(a \<mapsto> data m a)\<rparr>"
  show ?case
  proof (cases "unat a < data_len m")
    case True
    then have check: "mem_read_u8 m a = Some (data m a)" "has_changed a (data m a) b = (differs m b a, ?b)"
      by (auto simp: mem_read_u8_def has_changed_def Let_def differs_def split: option.split)
    show ?thesis
    proof (cases "differs m b a")
      case False
      then have "unchanged m ?b = unchanged m b"
        by (auto simp: unchanged_def differs_def fun_eq_iff)
      then show ?thesis
        using check False True Cons.IH [of ?b]
        by (cases "dropWhile (unchanged m b) as")
          (simp_all add: unchanged_def [of m b a] remember_Cons del: dropWhile_eq_Nil_conv)
    qed (use check True remember_Cons [of m "[]" b a] in \<open>simp add: unchanged_def\<close>)
  qed (simp add: mem_read_u8_def unchanged_def)
qed simp

lemma get_address_total: "\<exists>here. get_address c = Some here"
  by (auto simp: get_address_def get_memory_address_def getters addr_value_real)

text \<open>C37. The test after an instruction, for every list of breakpoints and every memory. It breaks, with nothing
  else done, on an error of the processor and at an instruction breakpoint. Otherwise the watched
  addresses are tested in ascending order up to the first that is past the memory (a panic) or whose
  byte differs from the one remembered for its address (a break); it does not break when there is none.
  The bytes of the addresses tested are remembered. The addresses after a break are not, so what is
  remembered can be older than the last test, and outlives the breakpoint.\<close>

theorem break_reasons:
  "should_break d =
    (if fatal_error (cpu (machine d)) \<or> get_address (cpu (machine d)) \<in> Some ` set (breakpoints (ip_breakpoints d))
     then Some (True, d)
     else let m = memory (mmu (machine d)); b = memory_breakpoints d; as = membp_get b in
       case dropWhile (unchanged m b) as of
         [] \<Rightarrow> Some (False, d\<lparr>memory_breakpoints := remember m as b\<rparr>)
       | a # _ \<Rightarrow>
           if unat a < data_len m
           then Some (True, d\<lparr>memory_breakpoints := remember m (takeWhile (unchanged m b) as @ [a]) b\<rparr>)
           else None)"
proof -
  obtain here where here: "get_address (cpu (machine d)) = Some here" using get_address_total by blast
  then have "is_ip_at_breakpoint d = Some (here \<in> set (breakpoints (ip_breakpoints d)))"
    by (auto simp: is_ip_at_breakpoint_def bp_hit_def list_ex_iff)
  then show ?thesis
    using here by (auto simp: should_break_def any_changed_eq Let_def split: list.split simp del: dropWhile_eq_Nil_conv)
qed

theorem break_reasons_witness:
  "\<exists>d d'. should_break d = Some (True, d') \<and> mem_breakpoints (memory_breakpoints d) = [0x500] \<and>
     breakpoints (ip_breakpoints d) = [] \<and> \<not> fatal_error (cpu (machine d)) \<and>
     mem_map (memory_breakpoints d') 0x500 = Some 0"
proof -
  let ?d = "\<lparr>machine = \<lparr>mmu = MMU_default, cpu = CPU_default, dos = DOS_default, rom_base = default_real, rom_length = 0,
      components = [], trace_count = None\<rparr>, prev_regs = regs CPU_default, last_program = None,
      ip_breakpoints = \<lparr>breakpoints = []\<rparr>, memory_breakpoints = \<lparr>mem_breakpoints = [0x500], mem_map = [0x500 \<mapsto> 7]\<rparr>\<rparr>"
  show ?thesis
    using break_reasons [of ?d]
    by - (rule exI [of _ ?d], simp add: MMU_default_def FlatMemory_new_def differs_def unchanged_def
        remember_def membp_get_def CPU_default_def Let_def)
qed

end
