(* ===== verification/X86_Tracer.thy ===== *)
theory X86_Tracer
  imports X86_Text X86_Machine
begin

text \<open>
  The tracer (\<open>dustbox/src/debug/tracer.rs\<close>): a static analysis that follows the instructions of a
  program from its entry point, learns the addresses that branches and accesses name, keeps what it
  knows of the registers, and accounts for every byte of the program in a listing.

  The comparisons \<open>Ord\<close> and \<open>PartialOrd\<close> of the sorted records reverse the order twice, so that
  \<open>sort\<close> is ascending by linear address and stable: \<open>sort_key\<close>. The debug switches are off and what
  is only printed is left out. The loops that follow the program have fuel, in an outer option.
\<close>

unbundle bit_operations_syntax

section \<open>State\<close>

record DirtyRegisters =
  gpr_dirty :: "usize \<Rightarrow> bool"
  sreg_dirty :: "usize \<Rightarrow> bool"

definition DirtyRegisters_default :: DirtyRegisters where
  "DirtyRegisters_default = \<lparr>gpr_dirty = (\<lambda>_. False), sreg_dirty = (\<lambda>_. False)\<rparr>"

definition all_dirty :: "DirtyRegisters \<Rightarrow> DirtyRegisters" where
  "all_dirty d = d\<lparr>gpr_dirty := (\<lambda>i. i \<le> 14 \<or> gpr_dirty d i), sreg_dirty := (\<lambda>i. i < 6 \<or> sreg_dirty d i)\<rparr>"

text \<open>The index of \<open>IP\<close> and of the floating point registers panics; the others are in range.\<close>

definition is_dirty :: "R \<Rightarrow> DirtyRegisters \<Rightarrow> bool option" where
  "is_dirty r d = do {
     i \<leftarrow> R_index r;
     Some (if R_is_gpr r then gpr_dirty d i else sreg_dirty d i)
   }"

definition mark_r :: "bool \<Rightarrow> R \<Rightarrow> DirtyRegisters \<Rightarrow> DirtyRegisters option" where
  "mark_r b r d = do {
     i \<leftarrow> R_index r;
     Some (if R_is_gpr r then d\<lparr>gpr_dirty := (gpr_dirty d)(i := b)\<rparr>
           else d\<lparr>sreg_dirty := (sreg_dirty d)(i := b)\<rparr>)
   }"

definition clean_r :: "R \<Rightarrow> DirtyRegisters \<Rightarrow> DirtyRegisters option" where
  "clean_r r d = mark_r False r d"

definition dirty_r :: "R \<Rightarrow> DirtyRegisters \<Rightarrow> DirtyRegisters option" where
  "dirty_r r d = mark_r True r d"

datatype AddressUsageKind = Branch | Call | Jump | MemoryByte | MemoryWord | DollarString

definition is_memory_kind :: "AddressUsageKind \<Rightarrow> bool" where
  "is_memory_kind k \<longleftrightarrow> k = MemoryByte \<or> k = MemoryWord \<or> k = DollarString"

definition is_code :: "AddressUsageKind \<Rightarrow> bool" where
  "is_code k \<longleftrightarrow> k = Branch \<or> k = Call \<or> k = Jump"

record SeenSource =
  src_address :: MemoryAddress
  src_kind :: AddressUsageKind

type_synonym SeenSources = "SeenSource list"

definition has_code :: "SeenSources \<Rightarrow> bool" where
  "has_code ss = list_all (\<lambda>s. is_code (src_kind s)) ss"

definition only_memory_access :: "SeenSources \<Rightarrow> bool" where
  "only_memory_access ss = list_all (\<lambda>s. is_memory_kind (src_kind s)) ss"

record SeenAddress =
  seen_ma :: MemoryAddress
  sources :: SeenSources
  visited :: bool

datatype GuessedDataType =
    InstrStart | InstrContinuation | MemoryByteUnset | MemoryWordUnset
  | UnknownBytes "u8 list" | DollarStringStart "u8 list" string | DollarStringContinuation

definition guess_data_type :: "SeenSources \<Rightarrow> GuessedDataType" where
  "guess_data_type ss =
     (if list_ex (\<lambda>s. src_kind s = MemoryWord) ss then MemoryWordUnset else MemoryByteUnset)"

record GuessedDataAddress =
  guess_kind :: GuessedDataType
  guess_address :: MemoryAddress

record TraceAnnotation =
  note_ma :: MemoryAddress
  note_text :: string

record ProgramTracer =
  seen_addresses :: "SeenAddress list"
  visited_addresses :: "MemoryAddress list"
  accounted_bytes :: "GuessedDataAddress list"
  traced_regs :: RegisterState
  dirty_regs :: DirtyRegisters
  annotations :: "TraceAnnotation list"
  dollar_strings :: "MemoryAddress list"

definition ProgramTracer_default :: ProgramTracer where
  "ProgramTracer_default = \<lparr>seen_addresses = [], visited_addresses = [], accounted_bytes = [],
     traced_regs = RegisterState_default, dirty_regs = DirtyRegisters_default, annotations = [],
     dollar_strings = []\<rparr>"

section \<open>Addresses\<close>

text \<open>Every address the tracer compares is a segment:offset pair; \<open>value\<close> of an unset one panics.\<close>

fun learn_seen :: "MemoryAddress \<Rightarrow> SeenSource \<Rightarrow> SeenAddress list \<Rightarrow> SeenAddress list option" where
  "learn_seen ma s [] = Some [\<lparr>seen_ma = ma, sources = [s], visited = False\<rparr>]"
| "learn_seen ma s (x # xs) = do {
     v \<leftarrow> addr_value (seen_ma x);
     w \<leftarrow> addr_value ma;
     if v = w then Some (x\<lparr>sources := sources x @ [s]\<rparr> # xs)
     else map_option (\<lambda>xs. x # xs) (learn_seen ma s xs)
   }"

definition learn_address :: "u16 \<Rightarrow> u16 \<Rightarrow> MemoryAddress \<Rightarrow> AddressUsageKind \<Rightarrow> ProgramTracer \<Rightarrow> ProgramTracer option" where
  "learn_address seg off src kind t = do {
     xs \<leftarrow> learn_seen (RealSegmentOffset seg off) \<lparr>src_address = src, src_kind = kind\<rparr> (seen_addresses t);
     Some (t\<lparr>seen_addresses := xs\<rparr>)
   }"

fun find_sources :: "MemoryAddress \<Rightarrow> SeenAddress list \<Rightarrow> SeenSources option option" where
  "find_sources ma [] = Some None"
| "find_sources ma (x # xs) = do {
     v \<leftarrow> addr_value (seen_ma x);
     w \<leftarrow> addr_value ma;
     if v = w then Some (if sources x = [] then None else Some (sources x))
     else find_sources ma xs
   }"

definition get_sources_for_address :: "MemoryAddress \<Rightarrow> ProgramTracer \<Rightarrow> SeenSources option option" where
  "get_sources_for_address ma t = find_sources ma (seen_addresses t)"

definition unvisited_code :: "SeenAddress \<Rightarrow> bool" where
  "unvisited_code x \<longleftrightarrow> has_code (sources x) \<and> \<not> visited x"

definition has_unvisited_code_addresses :: "ProgramTracer \<Rightarrow> bool" where
  "has_unvisited_code_addresses t = list_ex unvisited_code (seen_addresses t)"

definition get_unvisited_code_address :: "ProgramTracer \<Rightarrow> MemoryAddress option" where
  "get_unvisited_code_address t = map_option seen_ma (find unvisited_code (seen_addresses t))"

text \<open>The first entry of the address, compared as a pair; without one the tracer panics.\<close>

fun mark_seen :: "MemoryAddress \<Rightarrow> SeenAddress list \<Rightarrow> SeenAddress list option" where
  "mark_seen ma [] = None"
| "mark_seen ma (x # xs) =
     (if seen_ma x = ma then Some (x\<lparr>visited := True\<rparr> # xs) else map_option (\<lambda>xs. x # xs) (mark_seen ma xs))"

definition mark_address_visited :: "MemoryAddress \<Rightarrow> ProgramTracer \<Rightarrow> ProgramTracer option" where
  "mark_address_visited ma t = do {
     xs \<leftarrow> mark_seen ma (seen_addresses t);
     Some (t\<lparr>seen_addresses := xs\<rparr>)
   }"

fun value_among :: "MemoryAddress \<Rightarrow> MemoryAddress list \<Rightarrow> bool option" where
  "value_among ma [] = Some False"
| "value_among ma (x # xs) = do {
     v \<leftarrow> addr_value x;
     w \<leftarrow> addr_value ma;
     if v = w then Some True else value_among ma xs
   }"

definition has_visited_address :: "MemoryAddress \<Rightarrow> ProgramTracer \<Rightarrow> bool option" where
  "has_visited_address ma t = value_among ma (visited_addresses t)"

definition did_account_for :: "MemoryAddress \<Rightarrow> ProgramTracer \<Rightarrow> bool" where
  "did_account_for ma t = list_ex (\<lambda>ab. guess_address ab = ma) (accounted_bytes t)"

section \<open>Registers\<close>

definition trace_r8 :: "R \<Rightarrow> u8 \<Rightarrow> ProgramTracer \<Rightarrow> ProgramTracer option" where
  "trace_r8 r v t = do {
     d \<leftarrow> clean_r r (dirty_regs t);
     rs \<leftarrow> rs_set_r8 (traced_regs t) r v;
     Some (t\<lparr>dirty_regs := d, traced_regs := rs\<rparr>)
   }"

definition trace_r16 :: "R \<Rightarrow> u16 \<Rightarrow> ProgramTracer \<Rightarrow> ProgramTracer option" where
  "trace_r16 r v t = do {
     d \<leftarrow> clean_r r (dirty_regs t);
     Some (t\<lparr>dirty_regs := d, traced_regs := rs_set_r16 (traced_regs t) r v\<rparr>)
   }"

text \<open>\<open>ProgramTracer::clean_r\<close>: the value of a register that is not dirty.\<close>

definition clean_value :: "R \<Rightarrow> ProgramTracer \<Rightarrow> u16 option option" where
  "clean_value r t = do {
     dirty \<leftarrow> is_dirty r (dirty_regs t);
     if dirty then Some None
     else if R_is_gpr r \<and> R_is_8bit r then map_option (\<lambda>v. Some (ucast v)) (rs_get_r8 (traced_regs t) r)
     else map_option Some (rs_get_r16 (traced_regs t) r)
   }"

definition traced_r_desc :: "R \<Rightarrow> ProgramTracer \<Rightarrow> string option" where
  "traced_r_desc r t = map_option (\<lambda>v. case v of Some v \<Rightarrow> hex_word 4 v | None \<Rightarrow> ''dirty'') (clean_value r t)"

definition annotate :: "MemoryAddress \<Rightarrow> string \<Rightarrow> ProgramTracer \<Rightarrow> ProgramTracer" where
  "annotate ma s t = t\<lparr>annotations := annotations t @ [\<lparr>note_ma = ma, note_text = s\<rparr>]\<rparr>"

section \<open>Descriptions\<close>

definition video_mode_desc :: "u8 \<Rightarrow> string" where
  "video_mode_desc v =
     (if v = 0x03 then ''80x25x16 text'' else if v = 0x11 then ''640x480x2''
      else if v = 0x13 then ''320x200x256'' else ''unrecognized'')"

definition out_desc :: "u16 \<Rightarrow> string" where
  "out_desc port = (case map_of [
     (0x0040, ''pit: counter 0, counter divisor''),
     (0x0041, ''pit: counter 1, RAM refresh counter''),
     (0x0042, ''pit: counter 2, cassette & speaker''),
     (0x0060, ''keyboard: controller data port''),
     (0x0061, ''keyboard: controller port B''),
     (0x0201, ''joystick: fire four one-shots''),
     (0x03C4, ''vga: sequencer index register''),
     (0x03C6, ''vga: PEL mask register''),
     (0x03C7, ''vga: PEL address read mode''),
     (0x03C8, ''vga: PEL address write mode''),
     (0x03C9, ''vga: PEL data register''),
     (0x03D4, ''ega/vga: CRT (6845) index register''),
     (0x03DA, ''ega/vga: feature control register'')] port of Some s \<Rightarrow> s | None \<Rightarrow> ''unrecognized'')"

definition in_desc :: "u16 \<Rightarrow> string" where
  "in_desc port = (case map_of [
     (0x0040, ''pit: counter 0, counter divisor''),
     (0x0041, ''pit: counter 1, RAM refresh counter''),
     (0x0042, ''pit: counter 2, cassette & speaker''),
     (0x0060, ''keyboard: input buffer''),
     (0x0061, ''keyboard: controller port B control register''),
     (0x0201, ''joystick: read position and status''),
     (0x03C4, ''vga: sequencer index register''),
     (0x03C6, ''vga: PEL mask register''),
     (0x03C7, ''vga: PEL address read mode / vga: DAC state register''),
     (0x03C8, ''vga: PEL address write mode''),
     (0x03C9, ''vga: PEL data register''),
     (0x03DA, ''ega/vga: input status 1 register'')] port of Some s \<Rightarrow> s | None \<Rightarrow> ''unrecognized'')"

definition int_desc :: "u8 \<Rightarrow> ProgramTracer \<Rightarrow> string option" where
  "int_desc n t = do {
     al \<leftarrow> rs_get_r8 (traced_regs t) R.AL;
     ah \<leftarrow> rs_get_r8 (traced_regs t) R.AH;
     Some (
       if n = 0x10 then
         (if ah = 0x00 then ''video: set '' @ video_mode_desc al @ '' mode (0x'' @ hex_word 2 al @ '')''
          else if ah = 0x02 then ''video: set cursor position''
          else if ah = 0x06 then ''video: scroll up''
          else if ah = 0x07 then ''video: scroll down''
          else if ah = 0x10 then
            (if al = 0x12 then ''video: VIDEO - SET BLOCK OF DAC REGISTERS (VGA/MCGA)''
             else ''video: unrecognized AH = 10, AL = '' @ hex_word 2 al)
          else if ah = 0x13 then ''video: write string (row=DH, col=DL)''
          else ''video: unrecognized AH = '' @ hex_word 2 ah)
       else if n = 0x16 then
         (if ah = 0x00 then ''keyboard: read scancode (blocking)''
          else if ah = 0x01 then ''keyboard: read scancode (non-blocking)''
          else ''keyboard: unrecognized AH = '' @ hex_word 2 ah)
       else if n = 0x1A then
         (if ah = 0x00 then ''pit: get system time'' else ''pit: unrecognized AH = '' @ hex_word 2 ah)
       else if n = 0x20 then ''dos: terminate program with return code 0''
       else if n = 0x21 then
         (if ah = 0x02 then ''dos: write character in DL to stdout''
          else if ah = 0x06 then ''dos: write character in DL to DIRECT CONSOLE OUTPUT''
          else if ah = 0x09 then ''dos: write $-terminated string at DS:DX to stdout''
          else if ah = 0x4C then ''dos: terminate program with return code in AL''
          else ''dos: unrecognized AH = '' @ hex_word 2 ah)
       else if n = 0x33 then
         (if al = 0x03 then ''mouse: get position and button status''
          else ''mouse: unrecognized AL = '' @ hex_word 2 al)
       else ''XXX int_desc unrecognized '' @ hex_word 2 n)
   }"


section \<open>One instruction\<close>

text \<open>The arms of \<open>trace_unvisited_address\<close> for the instruction \<open>i\<close> at the address \<open>ma\<close>.\<close>

definition trace_target :: "AddressUsageKind \<Rightarrow> MemoryAddress \<Rightarrow> Instruction \<Rightarrow> ProgramTracer \<Rightarrow> ProgramTracer option" where
  "trace_target kind ma i t = (case op_dst i of
     Imm16 imm \<Rightarrow> do { seg \<leftarrow> addr_segment ma; learn_address seg imm ma kind t }
   | _ \<Rightarrow> Some t)"

definition trace_int :: "MemoryAddress \<Rightarrow> Instruction \<Rightarrow> ProgramTracer \<Rightarrow> (bool \<times> ProgramTracer) option" where
  "trace_int ma i t = (case op_dst i of
     Imm8 v \<Rightarrow> do {
       ah \<leftarrow> rs_get_r8 (traced_regs t) R.AH;
       s \<leftarrow> int_desc v t;
       let t = annotate ma ''dirty all regs'' (annotate ma s t);
       if v = 0x20 then Some (True, t)
       else if v = 0x21 \<and> ah = 0x4C then Some (True, t)
       else do {
         t \<leftarrow> (if v = 0x21 \<and> ah = 0x09 then do {
             ds \<leftarrow> clean_value R.DS t;
             dx \<leftarrow> clean_value R.DX t;
             case (ds, dx) of
               (Some ds, Some dx) \<Rightarrow> do {
                 t \<leftarrow> learn_address ds dx ma DollarString t;
                 Some (t\<lparr>dollar_strings := dollar_strings t @ [RealSegmentOffset ds dx]\<rparr>)
               }
             | _ \<Rightarrow> Some t
           }
           else Some t);
         Some (False, t\<lparr>dirty_regs := all_dirty (dirty_regs t)\<rparr>)
       }
     }
   | _ \<Rightarrow> Some (False, t))"

text \<open>The port of an instruction for input or output.\<close>

definition port_of :: "Parameter \<Rightarrow> ProgramTracer \<Rightarrow> u16 option option" where
  "port_of p t = (case p of
     Imm8 v \<Rightarrow> Some (Some (ucast v))
   | Reg16 r \<Rightarrow> map_option Some (rs_get_r16 (traced_regs t) r)
   | _ \<Rightarrow> Some None)"

definition trace_out :: "MemoryAddress \<Rightarrow> Instruction \<Rightarrow> ProgramTracer \<Rightarrow> ProgramTracer option" where
  "trace_out ma i t = do {
     dst \<leftarrow> port_of (op_dst i) t;
     case dst of
       None \<Rightarrow> Some t
     | Some dst \<Rightarrow> (let head = out_desc dst @ '' (0x'' @ hex_word 4 dst @ '') = '' in case op_src i of
         Reg8 r \<Rightarrow> do { v \<leftarrow> rs_get_r8 (traced_regs t) r; Some (annotate ma (head @ hex_word 2 v) t) }
       | Reg16 r \<Rightarrow> do { v \<leftarrow> rs_get_r16 (traced_regs t) r; Some (annotate ma (head @ hex_word 4 v) t) }
       | _ \<Rightarrow> Some t)
   }"

definition trace_in :: "MemoryAddress \<Rightarrow> Instruction \<Rightarrow> ProgramTracer \<Rightarrow> ProgramTracer option" where
  "trace_in ma i t = do {
     src \<leftarrow> port_of (op_src i) t;
     case src of
       None \<Rightarrow> Some t
     | Some src \<Rightarrow> (let s = in_desc src @ '' (0x'' @ hex_word 4 src @ '')'' in case op_dst i of
         Reg8 _ \<Rightarrow> Some (annotate ma s t)
       | Reg16 _ \<Rightarrow> Some (annotate ma s t)
       | _ \<Rightarrow> Some t)
   }"

text \<open>A register that gets a known value.\<close>

definition assign8 :: "MemoryAddress \<Rightarrow> R \<Rightarrow> u8 \<Rightarrow> ProgramTracer \<Rightarrow> ProgramTracer option" where
  "assign8 ma r v t = map_option (annotate ma (R_fmt r @ '' = 0x'' @ hex_word 2 v)) (trace_r8 r v t)"

definition assign16 :: "MemoryAddress \<Rightarrow> R \<Rightarrow> u16 \<Rightarrow> ProgramTracer \<Rightarrow> ProgramTracer option" where
  "assign16 ma r v t = map_option (annotate ma (R_fmt r @ '' = 0x'' @ hex_word 4 v)) (trace_r16 r v t)"

definition now_dirty :: "MemoryAddress \<Rightarrow> R \<Rightarrow> ProgramTracer \<Rightarrow> ProgramTracer option" where
  "now_dirty ma r t = do {
     d \<leftarrow> dirty_r r (dirty_regs t);
     Some (annotate ma (R_fmt r @ '' is dirty'') (t\<lparr>dirty_regs := d\<rparr>))
   }"

definition trace_xor8 :: "MemoryAddress \<Rightarrow> Instruction \<Rightarrow> ProgramTracer \<Rightarrow> ProgramTracer option" where
  "trace_xor8 ma i t = (case (op_dst i, op_src i) of
     (Reg8 dr, Reg8 sq) \<Rightarrow> if dr = sq then assign8 ma dr 0 t else Some t
   | _ \<Rightarrow> Some t)"

definition trace_xor16 :: "MemoryAddress \<Rightarrow> Instruction \<Rightarrow> ProgramTracer \<Rightarrow> ProgramTracer option" where
  "trace_xor16 ma i t = (case (op_dst i, op_src i) of
     (Reg16 dr, Reg16 sq) \<Rightarrow> if dr = sq then assign16 ma dr 0 t else Some t
   | _ \<Rightarrow> Some t)"

definition trace_step8 :: "(u8 \<Rightarrow> u8) \<Rightarrow> MemoryAddress \<Rightarrow> Instruction \<Rightarrow> ProgramTracer \<Rightarrow> ProgramTracer option" where
  "trace_step8 f ma i t = (case op_dst i of
     Reg8 dr \<Rightarrow> do { v \<leftarrow> rs_get_r8 (traced_regs t) dr; assign8 ma dr (f v) t }
   | _ \<Rightarrow> Some t)"

definition trace_step16 :: "(u16 \<Rightarrow> u16) \<Rightarrow> MemoryAddress \<Rightarrow> Instruction \<Rightarrow> ProgramTracer \<Rightarrow> ProgramTracer option" where
  "trace_step16 f ma i t = (case op_dst i of
     Reg16 dr \<Rightarrow> do { v \<leftarrow> rs_get_r16 (traced_regs t) dr; assign16 ma dr (f v) t }
   | _ \<Rightarrow> Some t)"

definition trace_add8 :: "MemoryAddress \<Rightarrow> Instruction \<Rightarrow> ProgramTracer \<Rightarrow> ProgramTracer option" where
  "trace_add8 ma i t = (case op_dst i of
     Reg8 dr \<Rightarrow> do {
       v \<leftarrow> (case op_src i of
          Imm8 i \<Rightarrow> Some (Some (ucast i)) | Reg8 sq \<Rightarrow> clean_value sq t | _ \<Rightarrow> Some None);
       case v of
         Some v \<Rightarrow> do { w \<leftarrow> rs_get_r8 (traced_regs t) dr; assign8 ma dr (w + ucast v) t }
       | None \<Rightarrow> Some t
     }
   | _ \<Rightarrow> Some t)"

definition trace_add16 :: "MemoryAddress \<Rightarrow> Instruction \<Rightarrow> ProgramTracer \<Rightarrow> ProgramTracer option" where
  "trace_add16 ma i t = (case op_dst i of
     Reg16 dr \<Rightarrow> do {
       v \<leftarrow> (case op_src i of
          ImmS8 i \<Rightarrow> Some (Some (scast i)) | Imm16 i \<Rightarrow> Some (Some i)
        | Reg16 sq \<Rightarrow> clean_value sq t | _ \<Rightarrow> Some None);
       case v of
         Some v \<Rightarrow> do { w \<leftarrow> rs_get_r16 (traced_regs t) dr; assign16 ma dr (w + v) t }
       | None \<Rightarrow> Some t
     }
   | _ \<Rightarrow> Some t)"

definition trace_sub8 :: "MemoryAddress \<Rightarrow> Instruction \<Rightarrow> ProgramTracer \<Rightarrow> ProgramTracer option" where
  "trace_sub8 ma i t = (case op_dst i of
     Reg8 dr \<Rightarrow> do {
       v \<leftarrow> (case op_src i of
          Imm8 v \<Rightarrow> Some (Some v) | Reg8 sq \<Rightarrow> map_option Some (rs_get_r8 (traced_regs t) sq) | _ \<Rightarrow> Some None);
       case v of
         Some v \<Rightarrow> do { w \<leftarrow> rs_get_r8 (traced_regs t) dr; assign8 ma dr (w - v) t }
       | None \<Rightarrow> Some t
     }
   | _ \<Rightarrow> Some t)"

definition trace_sub16 :: "MemoryAddress \<Rightarrow> Instruction \<Rightarrow> ProgramTracer \<Rightarrow> ProgramTracer option" where
  "trace_sub16 ma i t = (case op_dst i of
     Reg16 dr \<Rightarrow> do {
       v \<leftarrow> (case op_src i of
          ImmS8 v \<Rightarrow> Some (Some (scast v)) | Imm16 v \<Rightarrow> Some (Some v)
        | Reg16 sq \<Rightarrow> map_option Some (rs_get_r16 (traced_regs t) sq) | _ \<Rightarrow> Some None);
       case v of
         Some v \<Rightarrow> do { w \<leftarrow> rs_get_r16 (traced_regs t) dr; assign16 ma dr (w - v) t }
       | None \<Rightarrow> Some t
     }
   | _ \<Rightarrow> Some t)"

text \<open>A move to or from memory through CS is an access to a byte or a word of the program.\<close>

definition trace_access :: "Machine \<Rightarrow> MemoryAddress \<Rightarrow> Parameter \<Rightarrow> ProgramTracer \<Rightarrow> ProgramTracer option" where
  "trace_access m ma p t =
     (let learn = (\<lambda>seg off kind. if seg = Segment.CS
        then do { cs \<leftarrow> rs_get_r16 (regs (cpu m)) R.CS; learn_address cs off ma kind t }
        else Some t)
      in case p of Ptr8 seg off \<Rightarrow> learn seg off MemoryByte | Ptr16 seg off \<Rightarrow> learn seg off MemoryWord | _ \<Rightarrow> Some t)"

definition move_to_r8 :: "MemoryAddress \<Rightarrow> R \<Rightarrow> Parameter \<Rightarrow> ProgramTracer \<Rightarrow> ProgramTracer option" where
  "move_to_r8 ma r src t = (case src of
     Reg8 sq \<Rightarrow> do { v \<leftarrow> rs_get_r8 (traced_regs t) sq; assign8 ma r v t }
   | Imm8 i \<Rightarrow> assign8 ma r i t
   | _ \<Rightarrow> Some t)"

definition move_to_r16 :: "MemoryAddress \<Rightarrow> R \<Rightarrow> Parameter \<Rightarrow> ProgramTracer \<Rightarrow> ProgramTracer option" where
  "move_to_r16 ma r src t = (case src of
     Reg16 sq \<Rightarrow> do {
       v \<leftarrow> clean_value sq t;
       case v of
         Some v \<Rightarrow> assign16 ma r v t
       | None \<Rightarrow> do {
           dirty \<leftarrow> is_dirty sq (dirty_regs t);
           if dirty then now_dirty ma r t else Some t
         }
     }
   | Imm16 i \<Rightarrow> assign16 ma r i t
   | _ \<Rightarrow> Some t)"

definition trace_mov :: "Machine \<Rightarrow> MemoryAddress \<Rightarrow> Instruction \<Rightarrow> ProgramTracer \<Rightarrow> ProgramTracer option" where
  "trace_mov m ma i t = do {
     t \<leftarrow> (case op_dst i of
        Reg8 r \<Rightarrow> move_to_r8 ma r (op_src i) t
      | Reg16 r \<Rightarrow> move_to_r16 ma r (op_src i) t
      | SReg16 r \<Rightarrow> move_to_r16 ma r (op_src i) t
      | p \<Rightarrow> trace_access m ma p t);
     trace_access m ma (op_src i) t
   }"

definition trace_dirty :: "MemoryAddress \<Rightarrow> Instruction \<Rightarrow> ProgramTracer \<Rightarrow> ProgramTracer option" where
  "trace_dirty ma i t = (case op_dst i of
     Reg8 r \<Rightarrow> now_dirty ma r t | Reg16 r \<Rightarrow> now_dirty ma r t | SReg16 r \<Rightarrow> now_dirty ma r t
   | _ \<Rightarrow> Some t)"

definition dirties :: "Op \<Rightarrow> bool" where
  "dirties op \<longleftrightarrow> op \<in> set (
     [Move Xchg8, Move Xchg16, Logic And8, Logic And16, Arith Adc8, Arith Adc16, Logic Or8, Logic Or16,
      Move Pop16, Move Pop32, Mul Mul8, Mul Mul16, Mul Div8, Mul Div16, Mul Imul8, Mul Imul16,
      Mul Idiv8, Mul Idiv16, Shift Shl8, Shift Shl16, Shift Shld, Shift Shr8, Shift Shr16, Shift Shrd])"

text \<open>The result says whether the path ends here; \<open>RetImm16\<close> panics.\<close>

definition trace_op :: "Machine \<Rightarrow> MemoryAddress \<Rightarrow> Instruction \<Rightarrow> ProgramTracer \<Rightarrow> (bool \<times> ProgramTracer) option" where
  "trace_op m ma i t = (let go = map_option (Pair False) in case command i of
     Flow RetImm16 \<Rightarrow> None
   | Flow Retn \<Rightarrow> Some (True, t)
   | Flow Retf \<Rightarrow> Some (True, t)
   | Flow JmpNear \<Rightarrow> map_option (Pair True) (trace_target Jump ma i t)
   | Flow JmpFar \<Rightarrow> map_option (Pair True) (trace_target Jump ma i t)
   | Flow JmpShort \<Rightarrow> map_option (Pair True) (trace_target Jump ma i t)
   | Flow Loop \<Rightarrow> go (trace_target Branch ma i t)
   | Flow Loope \<Rightarrow> go (trace_target Branch ma i t)
   | Flow Loopne \<Rightarrow> go (trace_target Branch ma i t)
   | Flow (Jcc _) \<Rightarrow> go (trace_target Branch ma i t)
   | Flow CallNear \<Rightarrow> go (trace_target Call ma i t)
   | Flow CallFar \<Rightarrow> go (trace_target Call ma i t)
   | Flow IntN \<Rightarrow> trace_int ma i t
   | Str Out8 \<Rightarrow> go (trace_out ma i t)
   | Str Out16 \<Rightarrow> go (trace_out ma i t)
   | Str In8 \<Rightarrow> go (trace_in ma i t)
   | Str In16 \<Rightarrow> go (trace_in ma i t)
   | Logic Xor8 \<Rightarrow> go (trace_xor8 ma i t)
   | Logic Xor16 \<Rightarrow> go (trace_xor16 ma i t)
   | Arith Dec8 \<Rightarrow> go (trace_step8 (\<lambda>v. v - 1) ma i t)
   | Arith Dec16 \<Rightarrow> go (trace_step16 (\<lambda>v. v - 1) ma i t)
   | Arith Inc8 \<Rightarrow> go (trace_step8 (\<lambda>v. v + 1) ma i t)
   | Arith Inc16 \<Rightarrow> go (trace_step16 (\<lambda>v. v + 1) ma i t)
   | Arith Add8 \<Rightarrow> go (trace_add8 ma i t)
   | Arith Add16 \<Rightarrow> go (trace_add16 ma i t)
   | Arith Sub8 \<Rightarrow> go (trace_sub8 ma i t)
   | Arith Sub16 \<Rightarrow> go (trace_sub16 ma i t)
   | Move Mov8 \<Rightarrow> go (trace_mov m ma i t)
   | Move Mov16 \<Rightarrow> go (trace_mov m ma i t)
   | op \<Rightarrow> if dirties op then go (trace_dirty ma i t) else Some (False, t))"


section \<open>Following the program\<close>

text \<open>An instruction of a path: whether the path ends there, and where it goes on.\<close>

definition path_step ::
  "Machine \<Rightarrow> Decoder \<Rightarrow> MemoryAddress \<Rightarrow> ProgramTracer \<Rightarrow> (bool \<times> Decoder \<times> MemoryAddress \<times> ProgramTracer) option" where
  "path_step m d ma t = do {
     seg \<leftarrow> addr_segment ma;
     off \<leftarrow> addr_offset ma;
     (ii, d) \<leftarrow> get_instruction_info d (mmu m) seg off;
     seen \<leftarrow> has_visited_address ma t;
     if seen then Some (True, d, ma, t)
     else do {
       let t = t\<lparr>visited_addresses := visited_addresses t @ [ma]\<rparr>;
       (stop, t) \<leftarrow> trace_op m ma (info_instruction ii) t;
       if stop then Some (True, d, ma, t)
       else do {
         ma \<leftarrow> inc_n ma (ucast (ilength (info_instruction ii)));
         off \<leftarrow> addr_offset ma;
         base \<leftarrow> addr_offset (rom_base m);
         Some (uint off - uint base \<ge> sint (rom_length m), d, ma, t)
       }
     }
   }"

fun trace_path :: "nat \<Rightarrow> Machine \<Rightarrow> Decoder \<Rightarrow> MemoryAddress \<Rightarrow> ProgramTracer \<Rightarrow> ProgramTracer option option" where
  "trace_path 0 m d ma t = None"
| "trace_path (Suc n) m d ma t = (case path_step m d ma t of
     None \<Rightarrow> Some None
   | Some (stop, d, ma, t) \<Rightarrow> if stop then Some (Some t) else trace_path n m d ma t)"

definition trace_unvisited_address :: "nat \<Rightarrow> Machine \<Rightarrow> ProgramTracer \<Rightarrow> ProgramTracer option option" where
  "trace_unvisited_address fuel m t = (case get_unvisited_code_address t of
     None \<Rightarrow> Some (Some t)
   | Some start \<Rightarrow> (case has_visited_address start t of
       None \<Rightarrow> Some None
     | Some True \<Rightarrow> Some (mark_address_visited start t)
     | Some False \<Rightarrow> (case trace_path fuel m Decoder_default start t of
         None \<Rightarrow> None
       | Some None \<Rightarrow> Some None
       | Some (Some t) \<Rightarrow> Some (mark_address_visited start t))))"

fun trace_rounds :: "nat \<Rightarrow> nat \<Rightarrow> Machine \<Rightarrow> ProgramTracer \<Rightarrow> ProgramTracer option option" where
  "trace_rounds 0 fuel m t = None"
| "trace_rounds (Suc n) fuel m t = (case trace_unvisited_address fuel m t of
     None \<Rightarrow> None
   | Some None \<Rightarrow> Some None
   | Some (Some t) \<Rightarrow> if has_unvisited_code_addresses t then trace_rounds n fuel m t else Some (Some t))"

definition trace_start :: "Machine \<Rightarrow> ProgramTracer \<Rightarrow> ProgramTracer option" where
  "trace_start m t = do {
     let c = cpu m;
     let t = t\<lparr>dirty_regs := all_dirty (dirty_regs t)\<rparr>;
     cs \<leftarrow> get_r16 c R.CS;
     t \<leftarrow> trace_r16 R.CS cs t;
     ds \<leftarrow> get_r16 c R.DS;
     t \<leftarrow> trace_r16 R.DS ds t;
     es \<leftarrow> get_r16 c R.ES;
     t \<leftarrow> trace_r16 R.ES es t;
     ss \<leftarrow> get_r16 c R.SS;
     t \<leftarrow> trace_r16 R.SS ss t;
     Some (t\<lparr>seen_addresses := seen_addresses t @
       [\<lparr>seen_ma = RealSegmentOffset cs (cpu_ip c), sources = [], visited = False\<rparr>]\<rparr>)
   }"

section \<open>Accounting for the bytes\<close>

definition account :: "GuessedDataType \<Rightarrow> MemoryAddress \<Rightarrow> ProgramTracer \<Rightarrow> ProgramTracer" where
  "account k a t = t\<lparr>accounted_bytes := accounted_bytes t @ [\<lparr>guess_kind = k, guess_address = a\<rparr>]\<rparr>"

text \<open>The bytes of a string up to its dollar sign, a hundred at most; the first one gets no entry of
  its own.\<close>

fun dollar_bytes :: "nat \<Rightarrow> MMU \<Rightarrow> bool \<Rightarrow> MemoryAddress \<Rightarrow> ProgramTracer \<Rightarrow> (u8 list \<times> ProgramTracer) option" where
  "dollar_bytes 0 u inner adr t = Some ([], t)"
| "dollar_bytes (Suc n) u inner adr t = do {
     val \<leftarrow> mmu_read_u8_addr u adr;
     let t = (if inner then account DollarStringContinuation adr t else t);
     adr \<leftarrow> inc_n adr 1;
     if val = 0x24 then Some ([val], t)
     else do {
       (vals, t) \<leftarrow> dollar_bytes n u True adr t;
       Some (val # vals, t)
     }
   }"

definition account_dollar :: "MMU \<Rightarrow> MemoryAddress \<Rightarrow> ProgramTracer \<Rightarrow> ProgramTracer option" where
  "account_dollar u adr t = do {
     (vals, t) \<leftarrow> dollar_bytes 100 u False adr t;
     Some (account (DollarStringStart vals (map (\<lambda>b. char_of (unat b)) vals)) adr t)
   }"

fun continuations :: "nat \<Rightarrow> MemoryAddress \<Rightarrow> ProgramTracer \<Rightarrow> ProgramTracer option" where
  "continuations 0 adr t = Some t"
| "continuations (Suc n) adr t = do {
     adr \<leftarrow> inc_u8 adr;
     continuations n adr (account InstrContinuation adr t)
   }"

definition account_instruction :: "Machine \<Rightarrow> MemoryAddress \<Rightarrow> Decoder \<times> ProgramTracer \<Rightarrow> (Decoder \<times> ProgramTracer) option" where
  "account_instruction m ma = (\<lambda>(d, t). do {
     v \<leftarrow> addr_value ma;
     base \<leftarrow> addr_offset (rom_base m);
     start \<leftarrow> sub_chk v (ucast base);
     seg \<leftarrow> addr_segment ma;
     off \<leftarrow> addr_offset ma;
     (ii, d) \<leftarrow> get_instruction_info d (mmu m) seg off;
     t \<leftarrow> continuations (unat (ilength (info_instruction ii)) - 1) ma (account InstrStart ma t);
     Some (d, t)
   })"

text \<open>The bytes of the program that nothing accounts for, in blocks of four at most.\<close>

record Unaccounted =
  un_blocks :: "GuessedDataAddress list"
  un_block :: "u8 list"
  un_start :: MemoryAddress
  un_last :: MemoryAddress

definition flush :: "Unaccounted \<Rightarrow> Unaccounted" where
  "flush b = b\<lparr>un_blocks := un_blocks b @ [\<lparr>guess_kind = UnknownBytes (un_block b), guess_address = un_start b\<rparr>],
     un_block := []\<rparr>"

definition unaccounted_byte :: "MMU \<Rightarrow> ProgramTracer \<Rightarrow> u16 \<Rightarrow> u16 \<Rightarrow> Unaccounted \<Rightarrow> Unaccounted option" where
  "unaccounted_byte u t seg ofs b =
     (let adr = RealSegmentOffset seg ofs in
      if did_account_for adr t then Some b
      else do {
        let b = (case un_last b of
            RealSegmentOffset _ off \<Rightarrow> if off \<noteq> ofs - 1 \<and> un_block b \<noteq> [] then flush b else b
          | _ \<Rightarrow> b);
        let b = (if un_block b = [] then b\<lparr>un_start := adr\<rparr> else b);
        let b = b\<lparr>un_last := adr\<rparr>;
        val \<leftarrow> mmu_read_u8 u seg ofs;
        let b = b\<lparr>un_block := un_block b @ [val]\<rparr>;
        Some (if length (un_block b) \<ge> 4 then flush b else b)
      })"

definition account_rest :: "Machine \<Rightarrow> ProgramTracer \<Rightarrow> ProgramTracer option" where
  "account_rest m t = do {
     first \<leftarrow> addr_offset (rom_base m);
     last \<leftarrow> add_chk (ucast first) (rom_length m);
     seg \<leftarrow> addr_segment (rom_base m);
     b \<leftarrow> for_each (\<lambda>ofs. unaccounted_byte (mmu m) t seg (of_nat ofs)) [unat first..<unat last]
       \<lparr>un_blocks = [], un_block = [], un_start = Unset, un_last = Unset\<rparr>;
     let b = (if un_block b \<noteq> [] then flush b else b);
     Some (t\<lparr>accounted_bytes := accounted_bytes t @ un_blocks b\<rparr>)
   }"

definition account_memory :: "SeenAddress \<Rightarrow> ProgramTracer \<Rightarrow> ProgramTracer" where
  "account_memory x t =
     (if \<not> visited x \<and> \<not> has_code (sources x) \<and> \<not> did_account_for (seen_ma x) t
      then account (guess_data_type (sources x)) (seen_ma x) t else t)"

definition addr_key :: "MemoryAddress \<Rightarrow> u32" where
  "addr_key a = (case addr_value a of Some v \<Rightarrow> v | None \<Rightarrow> 0)"

definition post_process_execution :: "Machine \<Rightarrow> ProgramTracer \<Rightarrow> ProgramTracer option" where
  "post_process_execution m t = do {
     t \<leftarrow> for_each (account_dollar (mmu m)) (dollar_strings t) t;
     (d, t) \<leftarrow> for_each (account_instruction m) (visited_addresses t) (Decoder_default, t);
     t \<leftarrow> account_rest m t;
     let t = fold account_memory (seen_addresses t) t;
     Some (t\<lparr>accounted_bytes := sort_key (\<lambda>g. addr_key (guess_address g)) (accounted_bytes t)\<rparr>)
   }"

definition trace_execution :: "nat \<Rightarrow> nat \<Rightarrow> Machine \<Rightarrow> ProgramTracer \<Rightarrow> ProgramTracer option option" where
  "trace_execution rounds fuel m t = (case trace_start m t of
     None \<Rightarrow> Some None
   | Some t \<Rightarrow> (case trace_rounds rounds fuel m t of
       None \<Rightarrow> None
     | Some None \<Rightarrow> Some None
     | Some (Some t) \<Rightarrow> Some (post_process_execution m t)))"

section \<open>The listing\<close>

definition annotate_instruction :: "InstructionInfo \<Rightarrow> ProgramTracer \<Rightarrow> string" where
  "annotate_instruction ii t =
     (let rep = repeat (info_instruction ii) in case command (info_instruction ii) of
        Str Lodsb \<Rightarrow> if rep = RepNone then ''al = [ds:si]'' else ''xxx Lodsb''
      | Str Lodsw \<Rightarrow> if rep = RepNone then ''ax = [ds:si]'' else ''xxx Lodsw''
      | Str Stosb \<Rightarrow> if rep = Rep then ''while cx-- > 0 { [es:di] = al }''
          else if rep = RepNone then ''[es:di] = al'' else ''xxx Stosb''
      | Str Stosw \<Rightarrow> if rep = Rep then ''while cx-- > 0 { [es:di] = ax }''
          else if rep = RepNone then ''[es:di] = ax'' else ''xxx Stosw''
      | _ \<Rightarrow> join '' | '' (map note_text (filter (\<lambda>a. note_ma a =
          RealSegmentOffset (ucast (info_segment ii)) (ucast (info_offset ii))) (annotations t))))"

definition is_call_dst :: "MemoryAddress \<Rightarrow> ProgramTracer \<Rightarrow> bool option" where
  "is_call_dst ma t = map_option (\<lambda>r. case r of
     Some ss \<Rightarrow> has_code ss \<and> list_ex (\<lambda>s. src_kind s = Call) ss
   | None \<Rightarrow> False) (get_sources_for_address ma t)"

definition usage_label :: "AddressUsageKind \<Rightarrow> string" where
  "usage_label k = (case k of Branch \<Rightarrow> ''branch'' | Jump \<Rightarrow> ''jump'' | Call \<Rightarrow> ''call''
     | MemoryByte \<Rightarrow> ''byte'' | MemoryWord \<Rightarrow> ''word'' | DollarString \<Rightarrow> ''str$'')"

definition render_xref :: "MemoryAddress \<Rightarrow> ProgramTracer \<Rightarrow> string option" where
  "render_xref ma t = do {
     r \<leftarrow> get_sources_for_address ma t;
     case r of
       None \<Rightarrow> Some []
     | Some ss \<Rightarrow> do {
         texts \<leftarrow> collect (\<lambda>s. map_option (\<lambda>a. usage_label (src_kind s) @ ''@'' @ a) (MemoryAddress_fmt (src_address s)))
           (sort_key (\<lambda>s. addr_key (src_address s)) ss);
         Some (''; xref: '' @ join '', '' texts)
       }
   }"

definition spaces :: "nat \<Rightarrow> string" where "spaces n = replicate n (CHR '' '')"

definition present_instruction ::
  "Machine \<Rightarrow> MemoryAddress \<Rightarrow> ProgramTracer \<Rightarrow> Decoder \<Rightarrow> (string \<times> Decoder) option" where
  "present_instruction m a t d = do {
     seg \<leftarrow> addr_segment a;
     off \<leftarrow> addr_offset a;
     (ii, d) \<leftarrow> get_instruction_info d (mmu m) seg off;
     tail \<leftarrow> render_xref a t;
     let decor = annotate_instruction ii t;
     let tail = (if decor \<noteq> [] then tail @ ''; '' @ decor else tail);
     let line = InstructionInfo_fmt ii;
     let line = (if tail \<noteq> [] then right_pad line 68 @ tail else line) @ newline;
     next_ma \<leftarrow> inc_n a (ucast (ilength (info_instruction ii)));
     called \<leftarrow> is_call_dst next_ma t;
     let i = info_instruction ii;
     Some (line @ (if called \<or> is_ret i \<or> is_unconditional_jmp i \<or> is_loop i then newline else []), d)
   }"

definition present_bytes :: "GuessedDataAddress \<Rightarrow> ProgramTracer \<Rightarrow> string option" where
  "present_bytes ab t = do {
     let a = guess_address ab;
     case guess_kind ab of
       MemoryByteUnset \<Rightarrow> do {
         xref \<leftarrow> render_xref a t;
         s \<leftarrow> MemoryAddress_fmt a;
         Some (''['' @ s @ ''] ??'' @ spaces 15 @ ''db'' @ spaces 7 @ ''??'' @ spaces 28 @ xref @ newline)
       }
     | MemoryWordUnset \<Rightarrow> do {
         xref \<leftarrow> render_xref a t;
         s \<leftarrow> MemoryAddress_fmt a;
         Some (''['' @ s @ ''] ????'' @ spaces 13 @ ''dw'' @ spaces 7 @ ''????'' @ spaces 26 @ xref @ newline)
       }
     | UnknownBytes v \<Rightarrow> do {
         tail \<leftarrow> render_xref a t;
         s \<leftarrow> MemoryAddress_fmt a;
         Some (''['' @ s @ ''] '' @ right_pad (join [] (map (hex_word 2) v)) 11 @ spaces 6 @ ''db'' @ spaces 7
           @ join '', '' (map (\<lambda>b. ''0x'' @ hex_word 2 b) v)
           @ (if tail \<noteq> [] then spaces 26 @ tail else []) @ newline)
       }
     | DollarStringStart v txt \<Rightarrow> do {
         xref \<leftarrow> render_xref a t;
         s \<leftarrow> MemoryAddress_fmt a;
         Some (''['' @ s @ ''] '' @ right_pad (join [] (map (hex_word 2) v)) 11 @ spaces 6 @ ''db'' @ spaces 7
           @ [CHR 0x27] @ txt @ [CHR 0x27] @ spaces 25 @ xref @ newline)
       }
     | _ \<Rightarrow> Some []
   }"

fun present_rows :: "Machine \<Rightarrow> GuessedDataAddress list \<Rightarrow> ProgramTracer \<Rightarrow> Decoder \<Rightarrow> string option" where
  "present_rows m [] t d = Some []"
| "present_rows m (ab # xs) t d = do {
     (s, d) \<leftarrow> (if guess_kind ab = InstrStart then present_instruction m (guess_address ab) t d
        else map_option (\<lambda>s. (s, d)) (present_bytes ab t));
     rest \<leftarrow> present_rows m xs t d;
     Some (s @ rest)
   }"

definition present_trace :: "Machine \<Rightarrow> ProgramTracer \<Rightarrow> string option" where
  "present_trace m t = present_rows m (accounted_bytes t) t Decoder_default"

end
