(* ===== verification/X86_Laws_Tracer.thy ===== *)
theory X86_Laws_Tracer
  imports X86_Tracer X86_Frame_Devices
begin

text \<open>
  The laws of the tracer: the analysis ends on every program, follows every address of code it learns
  of exactly once, and its listing accounts for every byte of the program.
\<close>

unbundle bit_operations_syntax

section \<open>Addresses\<close>

definition pair_address :: "MemoryAddress \<Rightarrow> bool" where
  "pair_address a \<longleftrightarrow> (\<exists>seg off. a = RealSegmentOffset seg off)"

text \<open>The number of linear addresses that a pair can name.\<close>

abbreviation reach :: nat where "reach \<equiv> 0x10FFF0"

lemma pair_value:
  assumes "pair_address a"
  shows "addr_value a = Some (addr_key a)" "unat (addr_key a) < reach"
proof -
  obtain seg off where a: "a = RealSegmentOffset seg off"
    using assms by (auto simp: pair_address_def)
  show "addr_value a = Some (addr_key a)"
    by (simp add: a addr_key_def addr_value_real del: addr_value.simps)
  then show "unat (addr_key a) < reach"
    using lin_bound [of seg off] by (simp add: a addr_key_def addr_value_real del: addr_value.simps)
qed

lemma keys_bounded:
  assumes "distinct (map addr_key as)" "\<forall>a \<in> set as. pair_address a"
  shows "length as \<le> reach"
proof -
  have "distinct (map (\<lambda>a. unat (addr_key a)) as)"
    using assms(1) by (auto simp: distinct_map inj_on_def simp flip: word_unat_eq_iff)
  moreover have "set (map (\<lambda>a. unat (addr_key a)) as) \<subseteq> {..<reach}"
    using assms(2) pair_value(2) by auto
  ultimately have "length (map (\<lambda>a. unat (addr_key a)) as) \<le> card {..<reach}"
    by (metis card_mono distinct_card finite_lessThan)
  then show ?thesis by simp
qed

section \<open>What the tracer keeps\<close>

definition flags_of :: "ProgramTracer \<Rightarrow> (MemoryAddress \<times> bool) list" where
  "flags_of t = map (\<lambda>x. (seen_ma x, visited x)) (seen_addresses t)"

definition tracer_ok :: "ProgramTracer \<Rightarrow> bool" where
  "tracer_ok t \<longleftrightarrow>
     (\<forall>(a, b) \<in> set (flags_of t). pair_address a \<and> (b \<longrightarrow> addr_key a \<in> addr_key ` set (visited_addresses t)))
   \<and> distinct (map (addr_key \<circ> fst) (flags_of t))
   \<and> (\<forall>a \<in> set (visited_addresses t). pair_address a) \<and> distinct (map addr_key (visited_addresses t))"

text \<open>An instruction only adds addresses to be visited.\<close>

definition learned :: "ProgramTracer \<Rightarrow> ProgramTracer \<Rightarrow> bool" where
  "learned t t' \<longleftrightarrow> (tracer_ok t \<longrightarrow> tracer_ok t' \<and> visited_addresses t' = visited_addresses t
     \<and> (\<exists>new. flags_of t' = flags_of t @ map (\<lambda>a. (a, False)) new))"

lemma learned_refl [simp]: "learned t t"
  by (simp add: learned_def)

lemma learned_trans:
  assumes "learned t t'" "learned t' t''"
  shows "learned t t''"
proof -
  have "\<exists>new. f @ map (\<lambda>a. (a, False)) n1 @ map (\<lambda>a. (a, False)) n2 = f @ map (\<lambda>a. (a, False)) new"
    for f :: "(MemoryAddress \<times> bool) list" and n1 n2
    by (intro exI [of _ "n1 @ n2"]) simp
  with assms show ?thesis by (auto simp: learned_def)
qed

lemma learned_same:
  assumes "learned t t'" "seen_addresses u = seen_addresses t'" "visited_addresses u = visited_addresses t'"
  shows "learned t u"
proof -
  have f: "flags_of u = flags_of t'"
    by (simp add: flags_of_def assms(2))
  then have "tracer_ok u = tracer_ok t'"
    by (simp add: tracer_ok_def assms(3))
  with assms(1) f assms(3) show ?thesis
    unfolding learned_def by metis
qed

lemma learned_updates [simp]:
  "learned t u \<Longrightarrow> learned t (u\<lparr>dirty_regs := d\<rparr>)" "learned t u \<Longrightarrow> learned t (u\<lparr>traced_regs := rs\<rparr>)"
  "learned t u \<Longrightarrow> learned t (u\<lparr>dollar_strings := ds\<rparr>)" "learned t u \<Longrightarrow> learned t (annotate ma s u)"
  by (erule learned_same; simp add: annotate_def)+

lemma learn_seen_adds:
  assumes "pair_address ma" "\<forall>x \<in> set xs. pair_address (seen_ma x)"
  shows "\<exists>xs'. learn_seen ma s xs = Some xs' \<and>
    map (\<lambda>x. (seen_ma x, visited x)) xs' = map (\<lambda>x. (seen_ma x, visited x)) xs @
      (if addr_key ma \<in> (\<lambda>x. addr_key (seen_ma x)) ` set xs then [] else [(ma, False)])"
  using assms(2)
proof (induction xs)
  case (Cons x xs)
  then show ?case
    using pair_value(1) [OF assms(1)] pair_value(1) [of "seen_ma x"] by auto
qed simp

lemma learn_learned:
  assumes "pair_address src"
  shows "every (learn_address seg off src kind t) (learned t)"
proof (cases "\<forall>x \<in> set (seen_addresses t). pair_address (seen_ma x)")
  case True
  let ?ma = "RealSegmentOffset seg off"
  have ma: "pair_address ?ma" by (simp add: pair_address_def)
  obtain xs' where xs: "learn_seen ?ma \<lparr>src_address = src, src_kind = kind\<rparr> (seen_addresses t) = Some xs'"
    "map (\<lambda>x. (seen_ma x, visited x)) xs' = flags_of t @
      (if addr_key ?ma \<in> (\<lambda>x. addr_key (seen_ma x)) ` set (seen_addresses t) then [] else [(?ma, False)])"
    using learn_seen_adds [OF ma True] unfolding flags_of_def by blast
  have "learned t (t\<lparr>seen_addresses := xs'\<rparr>)"
    using xs(2) ma unfolding learned_def tracer_ok_def
    by (auto simp: flags_of_def image_iff split: if_splits intro: exI [of _ "[]"] exI [of _ "[?ma]"])
  then show ?thesis by (simp add: learn_address_def xs(1))
next
  case False
  then have "\<not> tracer_ok t" by (auto simp: tracer_ok_def flags_of_def)
  then show ?thesis
    by (auto simp: learned_def intro: every_any)
qed


named_theorems learned_intro

lemma learned_registers [learned_intro]:
  assumes "learned t0 t"
  shows "every (assign8 ma r v8 t) (learned t0)" "every (assign16 ma r v16 t) (learned t0)"
    "every (now_dirty ma r t) (learned t0)"
proof -
  have d: "learned t0 (annotate ma s (t\<lparr>dirty_regs := d, traced_regs := rs\<rparr>))" "learned t0 (annotate ma s (t\<lparr>dirty_regs := d\<rparr>))" for s d rs
    using assms by simp_all
  then show "every (assign8 ma r v8 t) (learned t0)" "every (assign16 ma r v16 t) (learned t0)"
    "every (now_dirty ma r t) (learned t0)"
    by (auto simp: assign8_def assign16_def trace_r8_def trace_r16_def now_dirty_def intro!: every_any)
qed

lemma learned_learn [learned_intro]:
  "pair_address src \<Longrightarrow> learned t0 t \<Longrightarrow> every (learn_address seg off src kind t) (learned t0)"
  using learn_learned [of src seg off kind t] by (auto elim!: every_mono intro: learned_trans)

lemma learned_values [learned_intro]:
  "(\<And>x. Q x) \<Longrightarrow> every (clean_value r t) Q" "(\<And>x. Q8 x) \<Longrightarrow> every (rs_get_r8 rs r) Q8"
  "(\<And>x. Q16 x) \<Longrightarrow> every (rs_get_r16 rs r) Q16" "(\<And>x. Qb x) \<Longrightarrow> every (is_dirty r d) Qb"
  "(\<And>x. Q x) \<Longrightarrow> every (port_of p t) Q" "(\<And>x. Q16 x) \<Longrightarrow> every (addr_segment ma) Q16"
  "(\<And>x. Qs x) \<Longrightarrow> every (int_desc n t) Qs"
  by (auto intro: every_any)

lemma learned_access [learned_intro]:
  "pair_address ma \<Longrightarrow> learned t0 t \<Longrightarrow> every (trace_access m ma p t) (learned t0)"
  by (cases p) (auto simp: trace_access_def Let_def intro!: learned_intro)

lemma learned_arms:
  assumes "pair_address ma" "learned t0 t"
  shows "every (trace_target kind ma i t) (learned t0)" "every (trace_out ma i t) (learned t0)"
    "every (trace_in ma i t) (learned t0)" "every (trace_xor8 ma i t) (learned t0)" "every (trace_xor16 ma i t) (learned t0)"
    "every (trace_step8 f8 ma i t) (learned t0)" "every (trace_step16 f16 ma i t) (learned t0)"
    "every (trace_dirty ma i t) (learned t0)"
  using assms
  by (auto simp: trace_target_def trace_out_def trace_in_def trace_xor8_def trace_xor16_def trace_step8_def
      trace_step16_def trace_dirty_def Let_def split: Parameter.split option.split intro!: learned_intro)

lemma learned_sums:
  assumes "pair_address ma" "learned t0 t"
  shows "every (trace_add8 ma i t) (learned t0)" "every (trace_add16 ma i t) (learned t0)"
    "every (trace_sub8 ma i t) (learned t0)" "every (trace_sub16 ma i t) (learned t0)"
proof -
  have src: "every (s \<bind> (\<lambda>v. case v of None \<Rightarrow> Some t | Some v \<Rightarrow> f v)) (learned t0)"
    if "\<And>v. every (f v) (learned t0)" for s :: "'x option option" and f
  proof (cases s)
    case (Some v)
    then show ?thesis using that assms(2) by (cases v) simp_all
  qed simp
  have a8: "every (do { w \<leftarrow> rs_get_r8 (traced_regs t) r; assign8 ma r (g w) t }) (learned t0)" for r g
    using assms by (auto intro!: learned_intro)
  have a16: "every (do { w \<leftarrow> rs_get_r16 (traced_regs t) r; assign16 ma r (g w) t }) (learned t0)" for r g
    using assms by (auto intro!: learned_intro)
  show "every (trace_add8 ma i t) (learned t0)" "every (trace_add16 ma i t) (learned t0)"
    "every (trace_sub8 ma i t) (learned t0)" "every (trace_sub16 ma i t) (learned t0)"
    unfolding trace_add8_def trace_add16_def trace_sub8_def trace_sub16_def
    by (cases "op_dst i"; simp only: Parameter.case every_simps(1) assms(2); rule src [OF a8] src [OF a16])+
qed

lemma learned_mov:
  assumes "pair_address ma" "learned t0 t"
  shows "every (trace_mov m ma i t) (learned t0)"
proof -
  have r8: "every (move_to_r8 ma r p t) (learned t0)" for r p
    using assms by (cases p) (auto simp: move_to_r8_def intro!: learned_intro)
  have r16: "every (move_to_r16 ma r p t) (learned t0)" for r p
    using assms by (cases p) (auto simp: move_to_r16_def split: option.split intro!: learned_intro)
  have acc: "every (trace_access m ma p t) (learned t0)" for p
    using assms by (rule learned_access)
  have all: "every (case op_dst i of
        Reg8 r \<Rightarrow> move_to_r8 ma r (op_src i) t
      | Reg16 r \<Rightarrow> move_to_r16 ma r (op_src i) t
      | SReg16 r \<Rightarrow> move_to_r16 ma r (op_src i) t
      | p \<Rightarrow> trace_access m ma p t) (learned t0)"
    by (cases "op_dst i"; simp only: Parameter.case r8 r16 acc)
  show ?thesis
    unfolding trace_mov_def every_simps
    by (rule every_mono [OF all]) (rule learned_access [OF assms(1)])
qed

lemma learned_int:
  assumes "pair_address ma"
  shows "every (trace_int ma i t) (\<lambda>x. learned t (snd x))"
proof -
  have "every (learn_address ds dx ma DollarString u) (\<lambda>u. learned t (f u))"
    if "learned t u" "\<And>u. learned t u \<Longrightarrow> learned t (f u)" for ds dx u f
    using learned_learn [OF assms that(1)] by (rule every_mono) (rule that(2))
  then show ?thesis
    by (auto simp: trace_int_def Let_def split: Parameter.split option.split intro!: learned_intro)
qed

lemma learned_op:
  assumes "pair_address ma"
  shows "every (trace_op m ma i t) (\<lambda>x. learned t (snd x))"
proof -
  note arms = learned_arms [OF assms learned_refl] learned_sums [OF assms learned_refl] learned_mov [OF assms learned_refl]
  have go: "every (map_option (Pair b) r) (\<lambda>x. learned t (snd x))" if "every r (learned t)" for b r
    using that by simp
  have dirty: "every (if dirties op then map_option (Pair False) (trace_dirty ma i t) else Some (False, t))
      (\<lambda>x. learned t (snd x))" for op
    by (simp add: arms)
  note rules = arms [THEN go] learned_int [OF assms] dirty
  have "every (trace_op m ma i t) (\<lambda>x. learned t (snd x))" if "command i = Flow k" for k
  proof (cases k)
    case IntN
    with that show ?thesis by (simp only: trace_op_def Let_def Op.case FlowOp.case rules)
  qed (simp only: trace_op_def Let_def that Op.case FlowOp.case rules every_simps(1,2) snd_conv learned_refl)+
  moreover have "every (trace_op m ma i t) (\<lambda>x. learned t (snd x))" if "command i = Arith k" for k
    by (cases k; simp only: trace_op_def Let_def that Op.case ArithOp.case rules)
  moreover have "every (trace_op m ma i t) (\<lambda>x. learned t (snd x))" if "command i = Logic k" for k
    by (cases k; simp only: trace_op_def Let_def that Op.case LogicOp.case rules)
  moreover have "every (trace_op m ma i t) (\<lambda>x. learned t (snd x))" if "command i = Move k" for k
    by (cases k; simp only: trace_op_def Let_def that Op.case MoveOp.case rules)
  moreover have "every (trace_op m ma i t) (\<lambda>x. learned t (snd x))" if "command i = Str k" for k
    by (cases k; simp only: trace_op_def Let_def that Op.case StringOp.case rules)
  ultimately show ?thesis
    by (cases "command i") (simp_all only: trace_op_def Let_def Op.case rules)
qed


section \<open>Paths\<close>

lemma value_among_iff:
  assumes "pair_address ma" "\<forall>a \<in> set as. pair_address a"
  shows "value_among ma as = Some (addr_key ma \<in> addr_key ` set as)"
  using assms(2)
proof (induction "as")
  case (Cons a "as")
  then show ?case
    using pair_value(1) [OF assms(1)] pair_value(1) [of a] by auto
qed simp

text \<open>Along a path the visited addresses grow, the seen ones get new entries, and the tracer stays well
  formed.\<close>

definition walked :: "ProgramTracer \<Rightarrow> ProgramTracer \<Rightarrow> bool" where
  "walked t t' \<longleftrightarrow> tracer_ok t' \<and> (\<exists>vs. visited_addresses t' = visited_addresses t @ vs)
     \<and> (\<exists>new. flags_of t' = flags_of t @ map (\<lambda>a. (a, False)) new)"

lemma walked_trans:
  assumes "walked t t'" "walked t' t''"
  shows "walked t t''"
proof -
  have "\<exists>new. f @ map (\<lambda>a. (a, False)) n1 @ map (\<lambda>a. (a, False)) n2 = f @ map (\<lambda>a. (a, False)) new"
    for f :: "(MemoryAddress \<times> bool) list" and n1 n2
    by (intro exI [of _ "n1 @ n2"]) simp
  with assms show ?thesis by (auto simp: walked_def)
qed

lemma walked_visited:
  "walked t u \<Longrightarrow> k \<in> addr_key ` set (visited_addresses t) \<Longrightarrow> k \<in> addr_key ` set (visited_addresses u)"
  by (auto simp: walked_def)

lemma visit_ok:
  assumes "tracer_ok t" "pair_address ma" "addr_key ma \<notin> addr_key ` set (visited_addresses t)"
  shows "tracer_ok (t\<lparr>visited_addresses := visited_addresses t @ [ma]\<rparr>)"
  using assms by (auto simp: tracer_ok_def flags_of_def)

lemma inc_pair: "pair_address ma \<Longrightarrow> inc_n ma n = Some ma' \<Longrightarrow> pair_address ma'"
  by (auto simp: pair_address_def inc_n_def bind_eq_Some_conv)

lemma path_step_walks:
  assumes "tracer_ok t" "pair_address ma" "path_step m d ma t = Some (stop, d', ma', t')"
  shows "walked t t' \<and> addr_key ma \<in> addr_key ` set (visited_addresses t') \<and>
    (stop \<or> pair_address ma' \<and> length (visited_addresses t') = Suc (length (visited_addresses t)))"
proof -
  have seen: "has_visited_address ma t = Some (addr_key ma \<in> addr_key ` set (visited_addresses t))"
    using value_among_iff [OF assms(2)] assms(1) by (simp add: has_visited_address_def tracer_ok_def)
  show ?thesis
  proof (cases "addr_key ma \<in> addr_key ` set (visited_addresses t)")
    case True
    then have "stop \<and> t' = t"
      using assms(3) seen by (auto simp: path_step_def bind_eq_Some_conv)
    with True assms(1) show ?thesis by (simp add: walked_def)
  next
    case False
    let ?t = "t\<lparr>visited_addresses := visited_addresses t @ [ma]\<rparr>"
    from assms(3) False seen obtain i x where op: "trace_op m ma i ?t = Some (x, t')"
      and rest: "stop \<or> pair_address ma'"
      by (auto simp: path_step_def bind_eq_Some_conv Let_def split: if_splits dest: inc_pair [OF assms(2)])
    have "learned ?t t'"
      using everyD [OF learned_op [OF assms(2)] op] by simp
    with visit_ok [OF assms(1,2) False] rest show ?thesis
      by (auto simp: learned_def walked_def flags_of_def)
  qed
qed

lemma trace_path_walks:
  assumes "tracer_ok t" "pair_address ma" "reach < n + length (visited_addresses t)"
  shows "\<exists>r. trace_path n m d ma t = Some r \<and>
    every r (\<lambda>t'. walked t t' \<and> addr_key ma \<in> addr_key ` set (visited_addresses t'))"
  using assms
proof (induction n arbitrary: d ma t)
  case 0
  then show ?case
    using keys_bounded [of "visited_addresses t"] by (simp add: tracer_ok_def)
next
  case (Suc n)
  show ?case
  proof (cases "path_step m d ma t")
    case (Some x)
    obtain stop d' ma' t' where x: "x = (stop, d', ma', t')" by (cases x)
    note step = path_step_walks [OF Suc.prems(1,2) Some [unfolded x]]
    show ?thesis
    proof (cases stop)
      case False
      with step have "tracer_ok t'" "pair_address ma'" "reach < n + length (visited_addresses t')"
        using Suc.prems(3) by (auto simp: walked_def)
      from Suc.IH [OF this, of d'] obtain r where r: "trace_path n m d' ma' t' = Some r"
        "every r (\<lambda>u. walked t' u \<and> addr_key ma' \<in> addr_key ` set (visited_addresses u))"
        by blast
      have "every r (\<lambda>u. walked t u \<and> addr_key ma \<in> addr_key ` set (visited_addresses u))"
        using r(2) by (rule every_mono) (use step in \<open>blast intro: walked_trans walked_visited\<close>)
      with r(1) Some x False show ?thesis by simp
    qed (use Some x step in simp)
  qed simp
qed

section \<open>Rounds\<close>

definition progress :: "ProgramTracer \<Rightarrow> nat" where
  "progress t = length (filter snd (flags_of t))"

lemma seen_pairs: "tracer_ok t \<Longrightarrow> x \<in> set (flags_of t) \<Longrightarrow> pair_address (fst x)"
  by (auto simp: tracer_ok_def)

lemma progress_bound:
  assumes "tracer_ok t"
  shows "progress t \<le> reach"
proof -
  have "distinct (map addr_key (map fst (flags_of t)))"
    using assms by (simp add: tracer_ok_def)
  from keys_bounded [OF this] have "length (flags_of t) \<le> reach"
    using seen_pairs [OF assms] by simp
  then show ?thesis
    unfolding progress_def by (rule le_trans [OF length_filter_le])
qed

lemma mark_seen_marks:
  assumes "(ma, False) \<in> set (map (\<lambda>x. (seen_ma x, visited x)) xs)"
    and "distinct (map (\<lambda>x. addr_key (seen_ma x)) xs)"
  shows "\<exists>xs' k. mark_seen ma xs = Some xs' \<and> k < length xs \<and>
    map (\<lambda>x. (seen_ma x, visited x)) xs ! k = (ma, False) \<and>
    map (\<lambda>x. (seen_ma x, visited x)) xs' = (map (\<lambda>x. (seen_ma x, visited x)) xs)[k := (ma, True)]"
  using assms
proof (induction xs)
  case (Cons x xs)
  show ?case
  proof (cases "seen_ma x = ma")
    case True
    with Cons.prems have "\<not> visited x" by auto
    with True show ?thesis by (intro exI [of _ "x\<lparr>visited := True\<rparr> # xs"] exI [of _ 0]) simp
  next
    case False
    with Cons.prems have "(ma, False) \<in> set (map (\<lambda>x. (seen_ma x, visited x)) xs)" by auto
    then obtain xs' k where "mark_seen ma xs = Some xs'" "k < length xs"
      "map (\<lambda>x. (seen_ma x, visited x)) xs ! k = (ma, False)"
      "map (\<lambda>x. (seen_ma x, visited x)) xs' = (map (\<lambda>x. (seen_ma x, visited x)) xs)[k := (ma, True)]"
      using Cons.IH Cons.prems(2) by auto
    with False show ?thesis by (intro exI [of _ "x # xs'"] exI [of _ "Suc k"]) simp
  qed
qed simp

lemma filter_mark:
  "k < length f \<Longrightarrow> f ! k = (a, False) \<Longrightarrow> length (filter snd (f[k := (a, True)])) = Suc (length (filter snd f))"
proof (induction f arbitrary: k)
  case (Cons x f)
  then show ?case by (cases k) auto
qed simp

lemma mark_ok:
  assumes "tracer_ok t" "(ma, False) \<in> set (flags_of t)" "addr_key ma \<in> addr_key ` set (visited_addresses t)"
  shows "\<exists>t'. mark_address_visited ma t = Some t' \<and> tracer_ok t' \<and> progress t' = Suc (progress t)"
proof -
  have "distinct (map (\<lambda>x. addr_key (seen_ma x)) (seen_addresses t))"
    using assms(1) by (simp add: tracer_ok_def flags_of_def comp_def)
  from mark_seen_marks [OF assms(2) [unfolded flags_of_def] this] obtain xs' k where
    xs: "mark_seen ma (seen_addresses t) = Some xs'"
    and k: "k < length (flags_of t)" "flags_of t ! k = (ma, False)"
    and f: "flags_of (t\<lparr>seen_addresses := xs'\<rparr>) = (flags_of t)[k := (ma, True)]"
    unfolding flags_of_def by auto
  let ?t = "t\<lparr>seen_addresses := xs'\<rparr>"
  have flags: "map fst (flags_of ?t) = map fst (flags_of t)" "set (flags_of ?t) \<subseteq> insert (ma, True) (set (flags_of t))"
    "progress ?t = Suc (progress t)" "visited_addresses ?t = visited_addresses t"
    using k f list_update_id [of "map fst (flags_of t)" k] set_update_subset_insert [of "flags_of t" k "(ma, True)"]
    by (simp_all add: map_update progress_def filter_mark)
  have "map (addr_key \<circ> fst) (flags_of ?t) = map (addr_key \<circ> fst) (flags_of t)"
    using arg_cong [OF flags(1), of "map addr_key"] by simp
  moreover have "pair_address (fst x) \<and> (snd x \<longrightarrow> addr_key (fst x) \<in> addr_key ` set (visited_addresses t))"
    if "x \<in> set (flags_of ?t)" for x
  proof (cases "x = (ma, True)")
    case True
    with assms show ?thesis by (auto simp: tracer_ok_def)
  next
    case False
    with that flags(2) have "x \<in> set (flags_of t)" by blast
    with assms(1) show ?thesis by (auto simp: tracer_ok_def)
  qed
  ultimately have "tracer_ok ?t"
    using assms(1) unfolding tracer_ok_def flags(4) case_prod_beta by metis
  with xs flags(3) show ?thesis by (simp add: mark_address_visited_def)
qed

lemma walked_keeps: "walked t t' \<Longrightarrow> (ma, False) \<in> set (flags_of t) \<Longrightarrow> (ma, False) \<in> set (flags_of t') \<and> progress t' = progress t"
  by (auto simp: walked_def progress_def filter_empty_conv)

lemma round_marks:
  assumes "tracer_ok t" "reach < fuel"
  shows "\<exists>r. trace_unvisited_address fuel m t = Some r \<and>
    every r (\<lambda>t'. tracer_ok t' \<and> (if has_unvisited_code_addresses t then progress t' = Suc (progress t) else t' = t))"
proof (cases "find unvisited_code (seen_addresses t)")
  case None
  then have "\<not> has_unvisited_code_addresses t"
    by (simp add: has_unvisited_code_addresses_def find_None_iff list_ex_iff)
  with None assms(1) show ?thesis
    by (simp add: trace_unvisited_address_def get_unvisited_code_address_def)
next
  case (Some x)
  let ?ma = "seen_ma x"
  from Some have x: "x \<in> set (seen_addresses t)" "unvisited_code x"
    by (auto simp: find_Some_iff)
  then have un: "has_unvisited_code_addresses t" "(?ma, False) \<in> set (flags_of t)"
    by (auto simp: has_unvisited_code_addresses_def list_ex_iff flags_of_def unvisited_code_def image_iff)
  then have ma: "pair_address ?ma"
    using assms(1) by (auto simp: tracer_ok_def)
  have seen: "has_visited_address ?ma t = Some (addr_key ?ma \<in> addr_key ` set (visited_addresses t))"
    using value_among_iff [OF ma] assms(1) by (simp add: has_visited_address_def tracer_ok_def)
  show ?thesis
  proof (cases "addr_key ?ma \<in> addr_key ` set (visited_addresses t)")
    case True
    with mark_ok [OF assms(1) un(2)] un(1) seen Some show ?thesis
      by (auto simp: trace_unvisited_address_def get_unvisited_code_address_def)
  next
    case False
    obtain r where r: "trace_path fuel m Decoder_default ?ma t = Some r"
      "every r (\<lambda>t'. walked t t' \<and> addr_key ?ma \<in> addr_key ` set (visited_addresses t'))"
      using trace_path_walks [OF assms(1) ma, of fuel] assms(2) by fastforce
    show ?thesis
    proof (cases r)
      case (Some u)
      with r(2) have u: "walked t u" "addr_key ?ma \<in> addr_key ` set (visited_addresses u)" by simp_all
      with walked_keeps [OF u(1) un(2)] obtain t' where "mark_address_visited ?ma u = Some t'" "tracer_ok t'"
        "progress t' = Suc (progress t)"
        using mark_ok [of u ?ma] by (auto simp: walked_def)
      with un(1) seen False \<open>find _ _ = Some x\<close> r(1) Some show ?thesis
        by (simp add: trace_unvisited_address_def get_unvisited_code_address_def)
    qed (use seen False \<open>find _ _ = Some x\<close> r(1) in
        \<open>simp add: trace_unvisited_address_def get_unvisited_code_address_def\<close>)
  qed
qed

lemma rounds_end:
  assumes "tracer_ok t" "reach < fuel" "reach < n + progress t"
  shows "\<exists>r. trace_rounds n fuel m t = Some r \<and> every r (\<lambda>t'. tracer_ok t' \<and> \<not> has_unvisited_code_addresses t')"
  using assms
proof (induction n arbitrary: t)
  case 0
  then show ?case using progress_bound [of t] by simp
next
  case (Suc n)
  obtain r where r: "trace_unvisited_address fuel m t = Some r"
    "every r (\<lambda>t'. tracer_ok t' \<and> (if has_unvisited_code_addresses t then progress t' = Suc (progress t) else t' = t))"
    using round_marks [OF Suc.prems(1,2)] by blast
  show ?case
  proof (cases r)
    case (Some t')
    then show ?thesis
      using r Suc.IH [of t'] Suc.prems(2,3) by (auto split: if_splits)
  qed (use r(1) in simp)
qed


lemma trace_r16_keeps: "every (trace_r16 r v t) (\<lambda>t'. seen_addresses t' = seen_addresses t \<and> visited_addresses t' = visited_addresses t)"
  by (auto simp: trace_r16_def intro: every_any)

lemma start_ok: "every (trace_start m ProgramTracer_default) (\<lambda>t. tracer_ok t \<and> progress t = 0)"
proof -
  have "every (do { v \<leftarrow> get_r16 c r; t \<leftarrow> trace_r16 r v t; f v t }) Q"
    if "\<And>v t'. seen_addresses t' = seen_addresses t \<Longrightarrow> visited_addresses t' = visited_addresses t \<Longrightarrow> every (f v t') Q"
    for c r t f and Q :: "ProgramTracer \<Rightarrow> bool"
    using that by (auto intro!: every_word every_mono [OF trace_r16_keeps])
  note step = this
  show ?thesis
    unfolding trace_start_def Let_def
    by (intro step) (simp add: ProgramTracer_default_def tracer_ok_def progress_def flags_of_def pair_address_def)
qed

lemma analysis_ends:
  assumes "reach < rounds" "reach < fuel"
  shows "\<exists>r. (case trace_start m ProgramTracer_default of None \<Rightarrow> Some None | Some t \<Rightarrow> trace_rounds rounds fuel m t) = Some r \<and>
    every r (\<lambda>t. tracer_ok t \<and> \<not> has_unvisited_code_addresses t)"
proof (cases "trace_start m ProgramTracer_default")
  case (Some t)
  with start_ok [of m] have t: "tracer_ok t" "progress t = 0" by simp_all
  from rounds_end [OF t(1) assms(2), of rounds m] t(2) assms(1) Some show ?thesis by simp
qed simp

text \<open>C38. The static analysis ends on every machine: at most 10FFF0h rounds, one for each linear
  address that a segment:offset pair can name, with paths of at most as many instructions, whatever
  the program's bytes are. (The result may be a panic: the inner option.)\<close>

theorem trace_execution_ends:
  "\<exists>r. trace_execution (0x10FFF1 + a) (0x10FFF1 + b) m ProgramTracer_default = Some r"
  using analysis_ends [of "0x10FFF1 + a" "0x10FFF1 + b" m]
  by (auto simp: trace_execution_def split: option.splits)

section \<open>The listing accounts for every byte\<close>

text \<open>An entry accounts for a byte: it starts there, or it is a block of bytes that holds the byte.\<close>

definition covers :: "MMU \<Rightarrow> u16 \<Rightarrow> u16 \<Rightarrow> GuessedDataAddress \<Rightarrow> bool" where
  "covers u seg ofs g \<longleftrightarrow> guess_address g = RealSegmentOffset seg ofs \<or>
     (\<exists>bs k. guess_kind g = UnknownBytes bs \<and> k < length bs \<and>
        guess_address g = RealSegmentOffset seg (ofs - of_nat k) \<and> mmu_read_u8 u seg ofs = Some (bs ! k))"

lemma covers_start: "guess_address g = RealSegmentOffset seg ofs \<Longrightarrow> covers u seg ofs g"
  by (simp add: covers_def)

definition blocks :: "Unaccounted \<Rightarrow> GuessedDataAddress list" where
  "blocks b = un_blocks b @ (if un_block b = [] then []
     else [\<lparr>guess_kind = UnknownBytes (un_block b), guess_address = un_start b\<rparr>])"

definition contiguous :: "u16 \<Rightarrow> Unaccounted \<Rightarrow> bool" where
  "contiguous seg b \<longleftrightarrow> un_block b \<noteq> [] \<longrightarrow> (\<exists>s. un_start b = RealSegmentOffset seg s \<and>
     un_last b = RealSegmentOffset seg (s + of_nat (length (un_block b)) - 1))"

definition block_covers :: "MMU \<Rightarrow> ProgramTracer \<Rightarrow> u16 \<Rightarrow> Unaccounted \<Rightarrow> u16 \<Rightarrow> bool" where
  "block_covers u t seg b ofs \<longleftrightarrow> did_account_for (RealSegmentOffset seg ofs) t \<or> (\<exists>g \<in> set (blocks b). covers u seg ofs g)"

lemma flush_blocks: "un_block b \<noteq> [] \<Longrightarrow> blocks (flush b) = blocks b" "contiguous seg (flush b)" "un_block (flush b) = []"
  by (simp_all add: blocks_def flush_def contiguous_def)

text \<open>One more byte for the block that is being collected.\<close>

definition extend_block :: "u16 \<Rightarrow> u16 \<Rightarrow> u8 \<Rightarrow> Unaccounted \<Rightarrow> Unaccounted" where
  "extend_block seg ofs v b = (if un_block b = [] then b\<lparr>un_start := RealSegmentOffset seg ofs\<rparr> else b)
     \<lparr>un_last := RealSegmentOffset seg ofs, un_block := un_block b @ [v]\<rparr>"

lemma extend_covers:
  assumes "contiguous seg b" "un_block b \<noteq> [] \<longrightarrow> un_last b = RealSegmentOffset seg (ofs - 1)"
    and "mmu_read_u8 u seg ofs = Some v"
  shows "contiguous seg (extend_block seg ofs v b)" "\<exists>g \<in> set (blocks (extend_block seg ofs v b)). covers u seg ofs g"
    "g \<in> set (blocks b) \<Longrightarrow> covers u seg x g \<Longrightarrow> \<exists>g \<in> set (blocks (extend_block seg ofs v b)). covers u seg x g"
proof -
  show "contiguous seg (extend_block seg ofs v b)"
    using assms(1,2) by (auto simp: contiguous_def extend_block_def algebra_simps)
  have here: "un_block b \<noteq> [] \<Longrightarrow> un_start b = RealSegmentOffset seg (ofs - of_nat (length (un_block b)))"
    using assms(1,2) by (auto simp: contiguous_def algebra_simps)
  show "\<exists>g \<in> set (blocks (extend_block seg ofs v b)). covers u seg ofs g"
    using assms(3) here
    by (cases "un_block b = []")
      (auto simp: blocks_def extend_block_def covers_def intro!: exI [of _ "length (un_block b)"])
  show "\<exists>g \<in> set (blocks (extend_block seg ofs v b)). covers u seg x g" if "g \<in> set (blocks b)" "covers u seg x g"
  proof (cases "g \<in> set (un_blocks b)")
    case True
    with that(2) show ?thesis by (auto simp: blocks_def extend_block_def)
  next
    case False
    with that have b: "un_block b \<noteq> []" "g = \<lparr>guess_kind = UnknownBytes (un_block b), guess_address = un_start b\<rparr>"
      by (auto simp: blocks_def split: if_splits)
    with that(2) have "covers u seg x \<lparr>guess_kind = UnknownBytes (un_block b @ [v]), guess_address = un_start b\<rparr>"
      by (auto simp: covers_def nth_append)
    with b(1) show ?thesis by (simp add: blocks_def extend_block_def)
  qed
qed

lemma unaccounted_covers:
  assumes "contiguous seg b"
  shows "every (unaccounted_byte u t seg ofs b) (\<lambda>b'. contiguous seg b' \<and> block_covers u t seg b' ofs \<and>
    (\<forall>x. block_covers u t seg b x \<longrightarrow> block_covers u t seg b' x))"
proof (cases "did_account_for (RealSegmentOffset seg ofs) t")
  case True
  with assms show ?thesis by (simp add: unaccounted_byte_def block_covers_def)
next
  case False
  define c where "c = (case un_last b of
      RealSegmentOffset _ off \<Rightarrow> if off \<noteq> ofs - 1 \<and> un_block b \<noteq> [] then flush b else b | _ \<Rightarrow> b)"
  have c: "contiguous seg c" "set (blocks c) = set (blocks b)" "un_block c \<noteq> [] \<longrightarrow> un_last c = RealSegmentOffset seg (ofs - 1)"
    using assms flush_blocks(1) [of b] flush_blocks(2) [of seg b] flush_blocks(3) [of b]
    by (auto simp: c_def contiguous_def split: MemoryAddress.split if_splits)
  have step: "unaccounted_byte u t seg ofs b = do {
      v \<leftarrow> mmu_read_u8 u seg ofs;
      let b = extend_block seg ofs v c;
      Some (if length (un_block b) \<ge> 4 then flush b else b) }"
    using False by (cases "mmu_read_u8 u seg ofs"; cases "un_block c = []")
      (simp_all add: unaccounted_byte_def c_def [symmetric] extend_block_def Let_def)
  show ?thesis
  proof (cases "mmu_read_u8 u seg ofs")
    case (Some v)
    let ?e = "extend_block seg ofs v c"
    note e = extend_covers [OF c(1,3) Some]
    have "un_block ?e \<noteq> []" by (simp add: extend_block_def)
    with e c(2) show ?thesis
      by (auto simp: step Some Let_def block_covers_def flush_blocks)
  qed (simp add: step)
qed

lemma all_covered:
  assumes "contiguous seg b"
  shows "every (for_each (\<lambda>ofs. unaccounted_byte u t seg (of_nat ofs)) ns b) (\<lambda>b'.
    (\<forall>n \<in> set ns. block_covers u t seg b' (of_nat n)) \<and> (\<forall>x. block_covers u t seg b x \<longrightarrow> block_covers u t seg b' x))"
  using assms
proof (induction ns arbitrary: b)
  case (Cons n ns)
  have "every (for_each (\<lambda>ofs. unaccounted_byte u t seg (of_nat ofs)) ns b') (\<lambda>b''.
      (\<forall>k \<in> set (n # ns). block_covers u t seg b'' (of_nat k)) \<and> (\<forall>x. block_covers u t seg b x \<longrightarrow> block_covers u t seg b'' x))"
    if "contiguous seg b'" "block_covers u t seg b' (of_nat n)" "\<forall>x. block_covers u t seg b x \<longrightarrow> block_covers u t seg b' x" for b'
    using Cons.IH [OF that(1)] by (rule every_mono) (use that(2,3) in auto)
  with unaccounted_covers [OF Cons.prems, of u t "of_nat n"] show ?case
    by (auto elim!: every_mono)
qed simp


text \<open>Accounting only adds entries.\<close>

definition kept :: "ProgramTracer \<Rightarrow> ProgramTracer \<Rightarrow> bool" where
  "kept t t' \<longleftrightarrow> seen_addresses t' = seen_addresses t \<and> visited_addresses t' = visited_addresses t
     \<and> set (accounted_bytes t) \<subseteq> set (accounted_bytes t')"

lemma kept_refl [simp]: "kept t t"
  by (simp add: kept_def)

lemma kept_trans: "kept t t' \<Longrightarrow> kept t' t'' \<Longrightarrow> kept t t''"
  by (auto simp: kept_def)

lemma kept_account [simp]: "kept t u \<Longrightarrow> kept t (account k a u)"
  by (auto simp: kept_def account_def)

lemma kept_dollar_bytes: "kept t0 t \<Longrightarrow> every (dollar_bytes n u inner adr t) (\<lambda>x. kept t0 (snd x))"
proof (induction n arbitrary: inner adr t)
  case (Suc n)
  have "every (inc_n adr 1) (\<lambda>adr. every (if val = 0x24 then Some ([val], s)
      else dollar_bytes n u True adr s \<bind> (\<lambda>(vals, t). Some (val # vals, t))) (\<lambda>x. kept t0 (snd x)))"
    if "kept t0 s" for val s
    using that Suc.IH [OF that] by (auto simp: case_prod_beta intro!: every_any)
  then show ?case
    using Suc.prems by (auto simp: Let_def intro!: every_word)
qed simp

lemma kept_dollar: "kept t0 t \<Longrightarrow> every (account_dollar u adr t) (kept t0)"
  using kept_dollar_bytes [of t0 t 100 u False adr] by (auto simp: account_dollar_def case_prod_beta elim!: every_mono)

lemma kept_continuations: "kept t0 t \<Longrightarrow> every (continuations n adr t) (kept t0)"
proof (induction n arbitrary: adr t)
  case (Suc n)
  then show ?case by (auto intro!: every_any [of _ "inc_u8 adr"])
qed simp

lemma instruction_accounted:
  "every (account_instruction m ma (d, t)) (\<lambda>x. kept t (snd x) \<and>
     \<lparr>guess_kind = InstrStart, guess_address = ma\<rparr> \<in> set (accounted_bytes (snd x)))"
proof -
  have "every (continuations n ma (account InstrStart ma t)) (\<lambda>t'. kept t t' \<and>
     \<lparr>guess_kind = InstrStart, guess_address = ma\<rparr> \<in> set (accounted_bytes t'))" for n
    using kept_continuations [OF kept_refl, of n ma "account InstrStart ma t"]
    by (rule every_mono) (auto simp: kept_def account_def)
  then show ?thesis
    by (auto simp: account_instruction_def intro!: every_word every_any [of _ "get_instruction_info _ _ _ _"])
qed

lemma instructions_accounted:
  "every (for_each (account_instruction m) mas (d, t)) (\<lambda>x. kept t (snd x) \<and>
     (\<forall>ma \<in> set mas. \<lparr>guess_kind = InstrStart, guess_address = ma\<rparr> \<in> set (accounted_bytes (snd x))))"
proof (induction mas arbitrary: d t)
  case (Cons ma mas)
  have "every (for_each (account_instruction m) mas x) (\<lambda>y. kept t (snd y) \<and>
      (\<forall>a \<in> set (ma # mas). \<lparr>guess_kind = InstrStart, guess_address = a\<rparr> \<in> set (accounted_bytes (snd y))))"
    if "kept t (snd x)" "\<lparr>guess_kind = InstrStart, guess_address = ma\<rparr> \<in> set (accounted_bytes (snd x))" for x
  proof -
    have "every (for_each (account_instruction m) mas (fst x, snd x)) (\<lambda>y. kept t (snd y) \<and>
      (\<forall>a \<in> set (ma # mas). \<lparr>guess_kind = InstrStart, guess_address = a\<rparr> \<in> set (accounted_bytes (snd y))))"
      using Cons.IH [of "fst x" "snd x"]
      by (rule every_mono) (use that in \<open>auto simp: kept_def\<close>)
    then show ?thesis by simp
  qed
  with instruction_accounted [of m ma d t] show ?case
    by (auto simp: for_each.simps elim!: every_mono)
qed (simp add: for_each.simps)

definition rom_covered :: "Machine \<Rightarrow> ProgramTracer \<Rightarrow> bool" where
  "rom_covered m t \<longleftrightarrow> (case rom_base m of
     RealSegmentOffset seg off \<Rightarrow> \<forall>n < unat (rom_length m).
       \<exists>g \<in> set (accounted_bytes t). covers (mmu m) seg (of_nat (unat off + n)) g
   | _ \<Rightarrow> True)"

lemma rest_covered: "every (account_rest m t) (\<lambda>t'. kept t t' \<and> rom_covered m t')"
proof (cases "rom_base m")
  case (RealSegmentOffset seg off)
  let ?b = "\<lparr>un_blocks = [], un_block = [], un_start = Unset, un_last = Unset\<rparr>"
  have fin: "kept t (t\<lparr>accounted_bytes := accounted_bytes t @ un_blocks (if un_block b \<noteq> [] then flush b else b)\<rparr>) \<and>
      rom_covered m (t\<lparr>accounted_bytes := accounted_bytes t @ un_blocks (if un_block b \<noteq> [] then flush b else b)\<rparr>)"
    if "add_chk (ucast off) (rom_length m) = Some last"
      "\<forall>n \<in> set [unat off..<unat last]. block_covers (mmu m) t seg b (of_nat n)" for last b
  proof -
    let ?f = "if un_block b \<noteq> [] then flush b else b"
    note each = bspec [OF that(2)]
    have bs: "blocks b = un_blocks ?f"
      by (auto simp: blocks_def flush_def)
    have last: "unat last = unat off + unat (rom_length m)"
      using add_chk_unat [OF that(1)] word16_lt [of off]
      by (simp add: unsigned_ucast_eq take_bit_nat_eq_self)
    have "\<exists>g \<in> set (accounted_bytes t @ un_blocks ?f). covers (mmu m) seg (of_nat (unat off + n)) g"
      if n: "n < unat (rom_length m)" for n
    proof -
      have "block_covers (mmu m) t seg b (of_nat (unat off + n))"
        using each [of "unat off + n"] last n by simp
      then show ?thesis
        using bs by (auto simp: block_covers_def did_account_for_def list_ex_iff dest!: covers_start [where u = "mmu m"])
    qed
    then show ?thesis
      using RealSegmentOffset by (auto simp: kept_def rom_covered_def)
  qed
  have loop: "every (for_each (\<lambda>ofs. unaccounted_byte (mmu m) t seg (of_nat ofs)) ns ?b)
      (\<lambda>b. \<forall>n \<in> set ns. block_covers (mmu m) t seg b (of_nat n))" for ns
    using all_covered [of seg ?b "mmu m" t ns] by (auto simp: contiguous_def elim!: every_mono)
  show ?thesis
  proof (cases "add_chk (ucast off) (rom_length m)")
    case (Some last)
    show ?thesis
      unfolding account_rest_def RealSegmentOffset addr_offset.simps addr_segment.simps Some bind.bind_lunit Let_def every_simps
      by (rule every_mono [OF loop]) (rule fin [OF Some])
  qed (simp add: account_rest_def RealSegmentOffset)
next
  case (LongSegmentOffset seg off)
  then show ?thesis
    by (auto simp: account_rest_def rom_covered_def kept_def Let_def intro!: every_any)
qed (simp add: account_rest_def)

lemma memory_kept: "kept t (fold account_memory xs t)"
proof (induction xs arbitrary: t)
  case (Cons x xs)
  have "kept t (account_memory x t)"
    by (simp add: account_memory_def)
  with Cons show ?case by (auto intro: kept_trans)
qed simp

definition listing_ok :: "Machine \<Rightarrow> ProgramTracer \<Rightarrow> bool" where
  "listing_ok m t \<longleftrightarrow> sorted (map (\<lambda>g. addr_key (guess_address g)) (accounted_bytes t)) \<and> rom_covered m t
     \<and> (\<forall>ma \<in> set (visited_addresses t). \<lparr>guess_kind = InstrStart, guess_address = ma\<rparr> \<in> set (accounted_bytes t))"

lemma post_process_lists:
  "every (post_process_execution m t) (\<lambda>t'. seen_addresses t' = seen_addresses t \<and>
     visited_addresses t' = visited_addresses t \<and> listing_ok m t')"
proof -
  let ?s = "\<lambda>t. t\<lparr>accounted_bytes := sort_key (\<lambda>g. addr_key (guess_address g)) (accounted_bytes t)\<rparr>"
  have one: "every (for_each (account_dollar (mmu m)) ads t) (kept t)" for ads
    by (rule every_for_each [where P = "kept t"]) (simp_all add: kept_dollar)
  have last: "seen_addresses (fold account_memory xs w) = seen_addresses t \<and>
      visited_addresses (fold account_memory xs w) = visited_addresses t \<and> listing_ok m (?s (fold account_memory xs w))"
    if "kept t u" "kept u v" "\<forall>ma \<in> set (visited_addresses u). \<lparr>guess_kind = InstrStart, guess_address = ma\<rparr> \<in> set (accounted_bytes v)"
      "kept v w" "rom_covered m w" for u v w xs
    using that memory_kept [of w xs]
    by (auto simp: listing_ok_def kept_def rom_covered_def split: MemoryAddress.split) blast+
  show ?thesis
    unfolding post_process_execution_def
    by (auto simp: Let_def case_prod_beta last intro!: every_mono [OF one] every_mono [OF instructions_accounted] every_mono [OF rest_covered])
qed

text \<open>C39. What the analysis returns: no linear address was followed twice; every address known to
  hold code has been visited and is the start of a followed instruction; the listing is in ascending
  order, starts an instruction at every followed address, and accounts for every byte of the program,
  a block of unknown bytes holding the bytes that are in the memory.\<close>

theorem trace_execution_accounts:
  assumes "trace_execution (0x10FFF1 + a) (0x10FFF1 + b) m ProgramTracer_default = Some (Some t)"
  shows "distinct (map addr_key (visited_addresses t)) \<and>
    (\<forall>x \<in> set (seen_addresses t). has_code (sources x) \<longrightarrow>
       visited x \<and> addr_key (seen_ma x) \<in> addr_key ` set (visited_addresses t)) \<and>
    listing_ok m t"
proof -
  obtain u where u: "tracer_ok u" "\<not> has_unvisited_code_addresses u" "post_process_execution m u = Some t"
    using analysis_ends [of "0x10FFF1 + a" "0x10FFF1 + b" m] assms
    by (auto simp: trace_execution_def split: option.splits)
  note t = everyD [OF post_process_lists u(3)]
  have "visited x" if "x \<in> set (seen_addresses t)" "has_code (sources x)" for x
    using that u(2) t by (auto simp: has_unvisited_code_addresses_def unvisited_code_def list_ex_iff)
  moreover have "addr_key (seen_ma x) \<in> addr_key ` set (visited_addresses t)" if "x \<in> set (seen_addresses t)" "visited x" for x
    using that u(1) t by (auto simp: tracer_ok_def flags_of_def)
  ultimately show ?thesis
    using u(1) t by (simp add: tracer_ok_def)
qed


lemma decode_retn:
  assumes "mmu_ok u" "peek8 u seg p = 0xC3"
  obtains ii d' where "get_instruction_info d u seg p = Some (ii, d')" "command (info_instruction ii) = Flow Retn"
    "ilength (info_instruction ii) = 1"
proof -
  obtain n where fuel: "DECODE_FUEL = Suc n"
    by (metis DECODE_FUEL_def numeral_eq_Suc)
  show thesis
    using that assms lin_bound [of seg p]
    by (simp add: get_instruction_info_def get_instruction_def fuel dec_read_u8_def apply_prefix_def dec_opcode_def
        dec_C0_C7_def op_only_def instr_new_def instr_new3_def mmu_read_def mem_read_def mmu_ok_def addr_value_real
        del: addr_value.simps)
qed


theorem trace_execution_accounts_witness:
  "\<exists>m t. trace_execution (0x10FFF1 + 0) (0x10FFF1 + 0) m ProgramTracer_default = Some (Some t) \<and>
     accounted_bytes t = [\<lparr>guess_kind = InstrStart, guess_address = RealSegmentOffset 0 0\<rparr>] \<and> listing_ok m t"
proof -
  let ?u = "poke8 MMU_default 0 0 0xC3"
  let ?m = "\<lparr>mmu = ?u, cpu = CPU_default, dos = DOS_default, rom_base = default_real, rom_length = 1,
      components = [], trace_count = None\<rparr>"
  have u: "mmu_ok ?u" "peek8 ?u 0 0 = 0xC3"
    using mmu_default_ok by (simp_all add: peek_poke_same)
  obtain ii d where ii: "get_instruction_info Decoder_default ?u 0 0 = Some (ii, d)"
    "command (info_instruction ii) = Flow Retn" "ilength (info_instruction ii) = 1"
    using decode_retn [OF u] .
  obtain t0 where t0: "trace_start ?m ProgramTracer_default = Some t0"
    "seen_addresses t0 = [\<lparr>seen_ma = RealSegmentOffset 0 0, sources = [], visited = False\<rparr>]"
    "visited_addresses t0 = []" "accounted_bytes t0 = []" "dollar_strings t0 = []"
    by (simp add: trace_start_def ProgramTracer_default_def trace_r16_def clean_r_def mark_r_def R_index_def
        getters r16v_def CPU_default_def RegisterState_default_def Let_def reg16_def rs_get_r16_def cpu_ip_def)
  obtain k where k: "(0x10FFF1 + 0 :: nat) = Suc k"
    by (metis numeral_eq_Suc add_0_right)
  have evals: "addr_value (RealSegmentOffset 0 0) = Some 0" "sub_chk (0 :: u32) 0 = Some 0"
    "add_chk (0 :: usize) 1 = Some 1" "[0..<unat (1 :: usize)] = [0]"
    by (simp_all add: addr_value.simps add_chk_def sub_chk_def)
  have run: "trace_execution (0x10FFF1 + 0) (0x10FFF1 + 0) ?m ProgramTracer_default =
      Some (Some (t0\<lparr>visited_addresses := [RealSegmentOffset 0 0],
        seen_addresses := [\<lparr>seen_ma = RealSegmentOffset 0 0, sources = [], visited = True\<rparr>],
        accounted_bytes := [\<lparr>guess_kind = InstrStart, guess_address = RealSegmentOffset 0 0\<rparr>]\<rparr>))"
    unfolding k
    by (simp add: evals trace_execution_def t0 [unfolded default_real_def] trace_unvisited_address_def get_unvisited_code_address_def unvisited_code_def
        has_code_def has_visited_address_def path_step_def ii trace_op_def mark_address_visited_def
        has_unvisited_code_addresses_def post_process_execution_def account_instruction_def default_real_def
        account_rest_def unaccounted_byte_def account_def did_account_for_def account_memory_def for_each.simps Let_def)
  from run trace_execution_accounts [OF run] show ?thesis
    by (intro exI [of _ ?m] exI conjI) auto
qed

end
