(* ===== verification/X86_Fuzzer.thy ===== *)
theory X86_Fuzzer
  imports X86_Text X86_Machine X86_Encoder
begin

text \<open>
  The fuzzer (\<open>fuzzer/src/fuzzer.rs\<close>): it assembles a random program for an operation, runs it in the
  emulator and in another machine, and compares registers and the flags the operation affects.

  The random numbers and the other machine are not part of the repository: the k-th number drawn for a
  program of each width is an argument (\<open>Rng\<close>), and so is the text that the other machine prints for
  the bytes of a program. Running commands, files and coloured output are left out.
\<close>

unbundle bit_operations_syntax

section \<open>Flags that an operation affects\<close>

record AffectedFlags =
  af_c :: bool
  af_p :: bool
  af_a :: bool
  af_z :: bool
  af_s :: bool
  af_i :: bool
  af_d :: bool
  af_o :: bool

definition no_affected :: AffectedFlags where
  "no_affected = \<lparr>af_c = False, af_p = False, af_a = False, af_z = False, af_s = False, af_i = False,
     af_d = False, af_o = False\<rparr>"

definition affected_mask :: "AffectedFlags \<Rightarrow> u16" where
  "affected_mask f =
     (let out = 0;
          out = (if af_c f then out OR 0x0001 else out);
          out = (if af_p f then out OR 0x0004 else out);
          out = (if af_a f then out OR 0x0010 else out);
          out = (if af_z f then out OR 0x0040 else out);
          out = (if af_s f then out OR 0x0080 else out);
          out = (if af_i f then out OR 0x0200 else out);
          out = (if af_d f then out OR 0x0400 else out)
      in if af_o f then out OR 0x0800 else out)"

definition unaffecting_ops :: "Op list" where
  "unaffecting_ops =
     map Move [Nop, Mov8, Mov16, Mov32, Movzx16, Movzx32, Movsx16, Movsx32, Push16, Pop16] @
     map Logic [Not8, Not16, Not32] @
     map Mul [Div8, Div16, Div32, Idiv8, Idiv16, Idiv32] @
     map Move [Xchg8, Xchg16, Salc] @ map Arith [Cbw, Cwd16] @ map Move [Lahf, Lea16, Xlatb] @
     map Flow [Loop, Loope, Loopne]"

definition carry_ops :: "Op list" where
  "carry_ops = [Logic Bt, Flag Clc, Flag Cmc, Flag Stc]"

definition rotate_ops :: "Op list" where
  "rotate_ops =
     map Shift [Rol8, Rol16, Rol32, Rcl8, Rcl16, Rcl32, Ror8, Ror16, Ror32, Rcr8, Rcr16, Rcr32] @
     map Mul [Mul8, Mul16, Mul32, Imul8, Imul16, Imul32]"

definition sum_ops :: "Op list" where
  "sum_ops =
     map Arith [Add8, Add16, Add32, Adc8, Adc16, Adc32, Sub8, Sub16, Sub32, Sbb8, Sbb16, Sbb32,
       Cmp8, Cmp16, Cmp32, Neg8, Neg16, Neg32] @ [Shift Shrd, Str Cmpsw]"

definition logic_ops :: "Op list" where
  "logic_ops =
     map Logic [Xor8, Xor16, Xor32, Test8, Test16, Test32, And8, And16, And32, Or8, Or16, Or32] @
     map Shift [Shl8, Shl16, Shl32, Shr8, Shr16, Shr32, Sar8, Sar16, Sar32]"

definition count_ops :: "Op list" where
  "count_ops = map Arith [Inc8, Inc16, Inc32, Dec8, Dec16, Dec32] @ [Shift Shld]"

definition for_op :: "Op \<Rightarrow> u16 option" where
  "for_op op =
     (if op \<in> set unaffecting_ops then Some (affected_mask no_affected)
      else if op \<in> set carry_ops then Some (affected_mask (no_affected\<lparr>af_c := True\<rparr>))
      else if op \<in> set [Flag Cld, Flag Std] then Some (affected_mask (no_affected\<lparr>af_d := True\<rparr>))
      else if op \<in> set [Flag Cli, Flag Sti] then Some (affected_mask (no_affected\<lparr>af_i := True\<rparr>))
      else if op = Logic Bsf then Some (affected_mask (no_affected\<lparr>af_z := True\<rparr>))
      else if op \<in> set [Arith Aaa, Arith Aas] then Some (affected_mask (no_affected\<lparr>af_c := True, af_a := True\<rparr>))
      else if op \<in> set rotate_ops then Some (affected_mask (no_affected\<lparr>af_c := True, af_o := True\<rparr>))
      else if op \<in> set [Arith Aad, Arith Aam] then
        Some (affected_mask (no_affected\<lparr>af_s := True, af_z := True, af_p := True\<rparr>))
      else if op \<in> set sum_ops then
        Some (affected_mask (no_affected\<lparr>af_c := True, af_s := True, af_z := True, af_a := True, af_p := True, af_o := True\<rparr>))
      else if op \<in> set logic_ops then
        Some (affected_mask (no_affected\<lparr>af_c := True, af_o := True, af_s := True, af_z := True, af_p := True\<rparr>))
      else if op \<in> set [Arith Daa, Arith Das, Move Sahf] then
        Some (affected_mask (no_affected\<lparr>af_c := True, af_s := True, af_z := True, af_a := True, af_p := True\<rparr>))
      else if op \<in> set count_ops then
        Some (affected_mask (no_affected\<lparr>af_s := True, af_z := True, af_a := True, af_p := True, af_o := True\<rparr>))
      else None)"

definition bitflags_str :: "u16 \<Rightarrow> string" where
  "bitflags_str f =
     (let letter = (\<lambda>m c. if f AND m \<noteq> 0 then [c] else '' '')
      in letter 0x0001 (CHR ''C'') @ letter 0x0004 (CHR ''P'') @ letter 0x0010 (CHR ''A'') @ letter 0x0040 (CHR ''Z'')
         @ letter 0x0080 (CHR ''S'') @ letter 0x0200 (CHR ''I'') @ letter 0x0400 (CHR ''D'') @ letter 0x0800 (CHR ''O''))"

section \<open>The registers of the other machine\<close>

definition reg_str_to_index :: "string \<Rightarrow> usize option" where
  "reg_str_to_index s =
     (if s \<in> {''al'', ''ax'', ''eax''} then Some 0
      else if s \<in> {''cl'', ''cx'', ''ecx''} then Some 1
      else if s \<in> {''dl'', ''dx'', ''edx''} then Some 2
      else if s \<in> {''bl'', ''bx'', ''ebx''} then Some 3
      else if s \<in> {''ah'', ''sp'', ''esp''} then Some 4
      else if s \<in> {''ch'', ''bp'', ''ebp''} then Some 5
      else if s \<in> {''dh'', ''si'', ''esi''} then Some 6
      else if s \<in> {''bh'', ''di'', ''edi''} then Some 7
      else None)"

definition reg_differ :: "string \<Rightarrow> CPU \<Rightarrow> u32 \<Rightarrow> bool option" where
  "reg_differ reg_name c runner_val = do {
     idx \<leftarrow> reg_str_to_index reg_name;
     r \<leftarrow> r32 (ucast idx);
     v \<leftarrow> get_r32 c r;
     Some (v \<noteq> runner_val)
   }"

text \<open>Every name is looked up, and a missing one panics.\<close>

fun regs_differ :: "CPU \<Rightarrow> (string \<rightharpoonup> u32) \<Rightarrow> string list \<Rightarrow> bool option" where
  "regs_differ c runner_regs [] = Some False"
| "regs_differ c runner_regs (s # ss) = do {
     v \<leftarrow> runner_regs s;
     b \<leftarrow> reg_differ s c v;
     rest \<leftarrow> regs_differ c runner_regs ss;
     Some (b \<or> rest)
   }"

fun split_crlf :: "string \<Rightarrow> string list" where
  "split_crlf [] = [[]]"
| "split_crlf [x] = [[x]]"
| "split_crlf (x # y # xs) =
     (if x = CHR 0x0D \<and> y = CHR 0x0A then [] # split_crlf xs
      else (case split_crlf (y # xs) of [] \<Rightarrow> [[x]] | l # ls \<Rightarrow> (x # l) # ls))"

text \<open>Lines without an equals sign are skipped; a value that does not parse panics.\<close>

fun reg_lines :: "string list \<Rightarrow> (string \<rightharpoonup> u32) \<Rightarrow> (string \<rightharpoonup> u32) option" where
  "reg_lines [] rs = Some rs"
| "reg_lines (line # lines) rs = (case position (CHR ''='') line of
     None \<Rightarrow> reg_lines lines rs
   | Some pos \<Rightarrow> (case parse_radix (2 ^ 32) 16 (drop (pos + 1) line) of
       Inl e \<Rightarrow> None
     | Inr val \<Rightarrow> reg_lines lines (rs(take pos line \<mapsto> of_nat val))))"

definition prober_reg_map :: "string \<Rightarrow> (string \<rightharpoonup> u32) option" where
  "prober_reg_map stdout = reg_lines (split_crlf stdout) Map.empty"

definition vec_as_db_bytes :: "u8 list \<Rightarrow> string" where
  "vec_as_db_bytes bs = ''db '' @ join '','' (map (\<lambda>c. ''0x'' @ hex_word 2 c) bs)"

section \<open>Test programs\<close>

record Rng =
  gen_u8 :: "nat \<Rightarrow> u8"
  gen_u16 :: "nat \<Rightarrow> u16"
  gen_u32 :: "nat \<Rightarrow> u32"
  gen_range :: "nat \<Rightarrow> nat \<Rightarrow> nat"

definition prober_setupcode :: "Instruction list" where
  "prober_setupcode =
     [instr_new2 (Logic Xor32) (Reg32 R.EAX) (Reg32 R.EAX),
      instr_new2 (Logic Xor32) (Reg32 R.EBX) (Reg32 R.EBX),
      instr_new2 (Logic Xor32) (Reg32 R.ECX) (Reg32 R.ECX),
      instr_new2 (Logic Xor32) (Reg32 R.EDX) (Reg32 R.EDX),
      instr_new1 (Move Push16) (Imm16 0),
      instr_new (Move Popf)]"

definition load8 :: "R \<Rightarrow> u8 \<Rightarrow> Instruction" where
  "load8 r v = instr_new2 (Move Mov8) (Reg8 r) (Imm8 v)"

definition load16 :: "R \<Rightarrow> u16 \<Rightarrow> Instruction" where
  "load16 r v = instr_new2 (Move Mov16) (Reg16 r) (Imm16 v)"

definition load32 :: "R \<Rightarrow> u32 \<Rightarrow> Instruction" where
  "load32 r v = instr_new2 (Move Mov32) (Reg32 r) (Imm32 v)"

definition load_flags :: "u16 \<Rightarrow> Instruction list" where
  "load_flags v = [instr_new1 (Move Push16) (Imm16 v), instr_new (Move Popf)]"

definition alu8_ops :: "Op list" where
  "alu8_ops = map Shift [Shl8, Shr8, Sar8, Rol8, Ror8, Rcl8, Rcr8] @ [Arith Cmp8] @
     map Logic [And8, Xor8, Or8] @ map Arith [Add8, Adc8, Sub8, Sbb8] @ [Logic Test8]"

definition shift16_ops :: "Op list" where
  "shift16_ops = map Shift [Shl16, Shr16, Sar16, Ror16, Rol16, Rcl16, Rcr16]"

definition shift32_ops :: "Op list" where
  "shift32_ops = map Shift [Shl32, Shr32, Sar32, Ror32, Rol32, Rcl32, Rcr32]"

definition flag_test_ops :: "Op list" where
  "flag_test_ops = [Move Lahf, Move Salc] @ map Flag [Clc, Cld, Cli, Cmc, Stc, Std, Sti]"

definition alu16_ops :: "Op list" where
  "alu16_ops = [Arith Add16, Arith Adc16, Logic And16, Arith Cmp16, Arith Sub16, Logic Or16, Arith Sbb16,
     Logic Test16, Logic Xor16]"

definition alu32_ops :: "Op list" where
  "alu32_ops = [Arith Add32, Arith Adc32, Logic And32, Arith Cmp32, Arith Sub32, Logic Or32, Arith Sbb32,
     Logic Test32, Logic Xor32]"

definition imul32_form :: "Rng \<Rightarrow> Instruction option" where
  "imul32_form g = (let n = gen_range g 2 3 in
     if n = 0 then Some (instr_new1 (Mul Imul32) (Reg32 R.EBX))
     else if n = 1 then Some (instr_new2 (Mul Imul32) (Reg32 R.EAX) (Reg32 R.EBX))
     else if n = 2 then Some (instr_new3 (Mul Imul32) (Reg32 R.EAX) (Reg32 R.EBX) (ImmS8 (gen_u8 g 3)))
     else None)"

definition extend32_snippet :: "Op \<Rightarrow> Rng \<Rightarrow> Instruction list option" where
  "extend32_snippet op g = (let n = gen_range g 0 2 in
     if n = 0 then Some [load8 R.DL (gen_u8 g 1), instr_new2 op (Reg32 R.EAX) (Reg8 R.DL)]
     else if n = 1 then Some [load16 R.DX (gen_u16 g 1), instr_new2 op (Reg32 R.EAX) (Reg16 R.DX)]
     else None)"

text \<open>The k-th number drawn for a snippet, at the width of its operand.\<close>

definition get_mutator_snippet :: "Op \<Rightarrow> Rng \<Rightarrow> Instruction list option" where
  "get_mutator_snippet op g =
     (if op = Flow Loop then Some
        [load16 R.CX (gen_u16 g 0), load16 R.DX (gen_u16 g 1), instr_new1 (Arith Inc16) (Reg16 R.DX),
         instr_new1 (Flow Loop) (Imm16 8)]
      else if op = Move Push16 then Some
        [instr_new1 op (Imm16 (gen_u16 g 0)), instr_new1 (Move Pop16) (Reg16 R.BX)]
      else if op = Move Mov8 then Some [instr_new2 op (Reg8 R.AL) (Imm8 (gen_u8 g 0))]
      else if op = Move Mov16 then Some [instr_new2 op (Reg16 R.AX) (Imm16 (gen_u16 g 0))]
      else if op = Move Mov32 then Some [instr_new2 op (Reg32 R.EAX) (Imm32 (gen_u32 g 0))]
      else if op = Str Cmpsw then Some
        [load16 R.SI 0x3030, instr_new2 (Move Mov16) (Ptr16Amode Segment.Default AMode.SI) (Imm16 (gen_u16 g 0)),
         load16 R.DI 0x3040, instr_new2 (Move Mov16) (Ptr16Amode Segment.Default AMode.DI) (Imm16 (gen_u16 g 1)),
         instr_new op]
      else if op \<in> set [Shift Shld, Shift Shrd] then Some
        [load16 R.AX (gen_u16 g 0), load16 R.DX (gen_u16 g 1),
         instr_new3 op (Reg16 R.AX) (Reg16 R.DX) (Imm8 (gen_u8 g 2))]
      else if op \<in> set alu8_ops then Some
        (load_flags (gen_u16 g 0) @ [load8 R.AL (gen_u8 g 1), instr_new2 op (Reg8 R.AL) (Imm8 (gen_u8 g 2))])
      else if op \<in> set shift16_ops then Some
        (load_flags (gen_u16 g 0) @ [load16 R.AX (gen_u16 g 1), instr_new2 op (Reg16 R.AX) (Imm8 (gen_u8 g 2))])
      else if op \<in> set shift32_ops then Some
        (load_flags (gen_u16 g 0) @ [load32 R.EAX (gen_u32 g 1), instr_new2 op (Reg32 R.EAX) (Imm8 (gen_u8 g 2))])
      else if op \<in> set [Logic Bt, Logic Bsf, Move Xchg16] then Some
        [load16 R.AX (gen_u16 g 0), load16 R.BX (gen_u16 g 1), instr_new2 op (Reg16 R.AX) (Reg16 R.BX)]
      else if op \<in> set [Mul Mul8, Mul Imul8] then Some
        [load8 R.AL (gen_u8 g 0), load8 R.DL (gen_u8 g 1), instr_new1 op (Reg8 R.DL)]
      else if op \<in> set [Mul Div8, Mul Idiv8] then Some
        [load16 R.AX (gen_u16 g 0), load8 R.DL (gen_u8 g 1), instr_new1 op (Reg8 R.DL)]
      else if op \<in> set [Mul Div16, Mul Idiv16] then Some
        [load16 R.DX (gen_u16 g 0), load16 R.AX (gen_u16 g 1), load16 R.BX (gen_u16 g 2), instr_new1 op (Reg16 R.BX)]
      else if op \<in> set [Mul Div32, Mul Idiv32] then Some
        [load32 R.EDX (gen_u32 g 0), load32 R.EAX (gen_u32 g 1), load32 R.EBX (gen_u32 g 2), instr_new1 op (Reg32 R.EBX)]
      else if op = Mul Mul16 then Some
        [load16 R.AX (gen_u16 g 0), load16 R.BX (gen_u16 g 1), instr_new1 op (Reg16 R.BX)]
      else if op = Mul Imul16 then Some
        [load16 R.AX (gen_u16 g 0), load16 R.BX (gen_u16 g 1),
         instr_new3 op (Reg16 R.AX) (Reg16 R.BX) (ImmS8 (gen_u8 g 2))]
      else if op = Mul Mul32 then Some
        [load32 R.EAX (gen_u32 g 0), load32 R.EBX (gen_u32 g 1), instr_new1 op (Reg32 R.EBX)]
      else if op = Mul Imul32 then
        map_option (\<lambda>i. [load32 R.EAX (gen_u32 g 0), load32 R.EBX (gen_u32 g 1), i]) (imul32_form g)
      else if op = Move Xchg8 then Some
        [load8 R.AL (gen_u8 g 0), load8 R.DL (gen_u8 g 1), instr_new2 op (Reg8 R.AL) (Reg8 R.DL)]
      else if op \<in> set flag_test_ops then Some (load_flags (gen_u16 g 0) @ [instr_new op])
      else if op \<in> set (map Arith [Aas, Aaa, Daa, Das, Cbw]) then Some [load8 R.AL (gen_u8 g 0), instr_new op]
      else if op \<in> set [Logic Not8, Arith Neg8, Arith Inc8, Arith Dec8] then Some
        [load8 R.AL (gen_u8 g 0), instr_new1 op (Reg8 R.AL)]
      else if op = Move Sahf then Some [load8 R.AH (gen_u8 g 0), instr_new op]
      else if op = Arith Cwd16 then Some [load16 R.AX (gen_u16 g 0), instr_new op]
      else if op \<in> set alu16_ops then Some
        [load16 R.AX (gen_u16 g 0), instr_new2 op (Reg16 R.AX) (Imm16 (gen_u16 g 1))]
      else if op \<in> set alu32_ops then Some
        [load32 R.EAX (gen_u32 g 0), instr_new2 op (Reg32 R.EAX) (Imm32 (gen_u32 g 1))]
      else if op \<in> set [Move Movzx16, Move Movsx16] then Some
        [load8 R.DL (gen_u8 g 0), instr_new2 op (Reg16 R.AX) (Reg8 R.DL)]
      else if op \<in> set [Move Movzx32, Move Movsx32] then extend32_snippet op g
      else if op \<in> set [Arith Inc16, Arith Dec16, Logic Not16, Arith Neg16] then Some
        [load16 R.AX (gen_u16 g 0), instr_new1 op (Reg16 R.AX)]
      else if op \<in> set [Arith Aad, Arith Aam] then Some
        [load16 R.AX (gen_u16 g 0), instr_new1 op (Imm8 (gen_u8 g 1))]
      else if op = Move Lea16 then Some
        [load16 R.BX (gen_u16 g 0), instr_new2 op (Reg16 R.AX) (Ptr16Amode Segment.Default AMode.BX)]
      else if op \<in> set [Arith Inc32, Arith Dec32, Logic Not32, Arith Neg32] then Some
        [load32 R.EAX (gen_u32 g 0), instr_new1 op (Reg32 R.EAX)]
      else if op = Move Nop then Some [instr_new op]
      else None)"

section \<open>A run\<close>

definition counter_width :: "usize \<Rightarrow> usize" where
  "counter_width n =
     (if n \<le> 9 then 1 else if n \<le> 99 then 2 else if n \<le> 999 then 3 else if n \<le> 9999 then 4 else 5)"

text \<open>Runs the bytes here and in the other machine: whether registers and affected flags agree.\<close>

definition fuzz :: "Host \<Rightarrow> Bincode \<Rightarrow> (u8 list \<Rightarrow> string) \<Rightarrow> u8 list \<Rightarrow> nat \<Rightarrow> u16 \<Rightarrow> bool option" where
  "fuzz h bc runner bytes op_count affected_flag_mask = do {
     m \<leftarrow> Machine_deterministic;
     m \<leftarrow> load_executable bc bytes 0x085F m;
     m \<leftarrow> execute_instructions h op_count m;
     runner_regs \<leftarrow> prober_reg_map (runner bytes);
     if runner_regs = Map.empty then Some False
     else do {
       differ \<leftarrow> regs_differ (cpu m) runner_regs [''eax'', ''ebx'', ''ecx'', ''edx''];
       if differ then Some False
       else do {
         runner_flags \<leftarrow> runner_regs ''flag'';
         Some ((ucast runner_flags) AND affected_flag_mask = flags_u16 (cpu_flags (cpu m)) AND affected_flag_mask)
       }
     }
   }"

definition test_program :: "Op \<Rightarrow> Rng \<Rightarrow> Instruction list option" where
  "test_program op g = map_option (\<lambda>snippet. prober_setupcode @ snippet) (get_mutator_snippet op g)"

text \<open>The failures of the programs made for an operation; an encoding error panics.\<close>

fun fuzz_op :: "Host \<Rightarrow> Bincode \<Rightarrow> (u8 list \<Rightarrow> string) \<Rightarrow> Op \<Rightarrow> Rng list \<Rightarrow> nat option" where
  "fuzz_op h bc runner op [] = Some 0"
| "fuzz_op h bc runner op (g # gs) = do {
     ops \<leftarrow> test_program op g;
     r \<leftarrow> encode_vec ops;
     bytes \<leftarrow> (case r of Inl why \<Rightarrow> None | Inr bytes \<Rightarrow> Some bytes);
     mask \<leftarrow> for_op op;
     ok \<leftarrow> fuzz h bc runner bytes (length ops) mask;
     failures \<leftarrow> fuzz_op h bc runner op gs;
     Some (if ok then failures else failures + 1)
   }"

fun fuzz_ops :: "Host \<Rightarrow> Bincode \<Rightarrow> (u8 list \<Rightarrow> string) \<Rightarrow> (Op \<times> Rng list) list \<Rightarrow> nat list option" where
  "fuzz_ops h bc runner [] = Some []"
| "fuzz_ops h bc runner ((op, gs) # rest) = do {
     n \<leftarrow> fuzz_op h bc runner op gs;
     ns \<leftarrow> fuzz_ops h bc runner rest;
     Some (n # ns)
   }"

end
