(* ===== verification/X86_Laws_Fuzzer.thy ===== *)
theory X86_Laws_Fuzzer
  imports X86_Fuzzer X86_Laws_Encoder
begin

text \<open>
  The law of the fuzzer: the programs it makes are assembled, and what the decoder finds in the bytes
  is the program that was made; and the operations for which no program can be assembled.
\<close>

unbundle bit_operations_syntax

section \<open>Programs that assemble\<close>

text \<open>What the fuzzer relies on of the random numbers: a number below a bound is below it.\<close>

definition rng_law :: "Rng \<Rightarrow> bool" where
  "rng_law g \<longleftrightarrow> (\<forall>k n. 0 < n \<longrightarrow> gen_range g k n < n)"

definition faithful_ops :: "Op list" where
  "faithful_ops =
     [Move Push16, Move Mov8, Move Mov16, Move Mov32, Shift Shld, Shift Shrd] @ alu8_ops @
     [Logic Bt, Logic Bsf, Move Xchg16, Move Xchg8] @
     map Mul [Mul8, Imul8, Div8, Idiv8, Div16, Idiv16, Div32, Idiv32, Mul16, Mul32] @ flag_test_ops @
     map Arith [Aas, Aaa, Daa, Das, Cbw, Cwd16, Aad, Aam] @ [Move Sahf, Move Nop, Move Lea16] @
     [Logic Not8, Arith Neg8, Arith Inc8, Arith Dec8] @
     [Arith Inc16, Arith Dec16, Logic Not16, Arith Neg16] @
     [Arith Inc32, Arith Dec32, Logic Not32, Arith Neg32] @
     filter (\<lambda>op. op \<noteq> Logic Test16) alu16_ops @ filter (\<lambda>op. op \<noteq> Logic Test32) alu32_ops @
     map Move [Movzx16, Movsx16, Movzx32, Movsx32]"

lemma setup_encodable: "list_all encodable prober_setupcode"
  by code_simp

lemma plain_snippets:
  "list_all (\<lambda>op. op \<in> set [Move Movzx32, Move Movsx32] \<or>
     (case get_mutator_snippet op g of Some p \<Rightarrow> list_all encodable p | None \<Rightarrow> False)) faithful_ops"
  by code_simp


lemma snippet_encodable:
  assumes "rng_law g" "op \<in> set faithful_ops"
  obtains p where "test_program op g = Some p" "list_all encodable p"
proof (cases "op \<in> set [Move Movzx32, Move Movsx32]")
  case True
  have "gen_range g 0 2 < 2"
    using assms(1) by (simp add: rng_law_def)
  then consider "gen_range g 0 2 = 0" | "gen_range g 0 2 = 1"
    by linarith
  then obtain p where "extend32_snippet op g = Some p" "list_all encodable p"
  proof cases
    case 1
    have "list_all encodable [load8 R.DL v, instr_new2 (Move Movzx32) (Reg32 R.EAX) (Reg8 R.DL)]"
      "list_all encodable [load8 R.DL v, instr_new2 (Move Movsx32) (Reg32 R.EAX) (Reg8 R.DL)]" for v
      by code_simp+
    with True that show thesis by (auto simp: extend32_snippet_def 1)
  next
    case 2
    have "list_all encodable [load16 R.DX v, instr_new2 (Move Movzx32) (Reg32 R.EAX) (Reg16 R.DX)]"
      "list_all encodable [load16 R.DX v, instr_new2 (Move Movsx32) (Reg32 R.EAX) (Reg16 R.DX)]" for v
      by code_simp+
    with True that show thesis by (auto simp: extend32_snippet_def 2)
  qed
  moreover have "get_mutator_snippet op g = extend32_snippet op g"
    using True by (auto simp: get_mutator_snippet_def alu8_ops_def shift16_ops_def shift32_ops_def flag_test_ops_def
        alu16_ops_def alu32_ops_def)
  ultimately show thesis
    using that setup_encodable by (simp add: test_program_def)
next
  case False
  with plain_snippets [of g] assms(2) obtain p where "get_mutator_snippet op g = Some p" "list_all encodable p"
    by (auto simp: list_all_iff split: option.splits)
  then show thesis
    using that setup_encodable by (simp add: test_program_def)
qed

lemma encodable_program:
  "list_all encodable is \<Longrightarrow> \<exists>bs. encode_vec is = Some (Inr bs) \<and> length bs \<le> 9 * length is"
proof (induction "is")
  case (Cons i "is")
  then obtain rest where rest: "encode_vec is = Some (Inr rest)" "length rest \<le> 9 * length is" by auto
  obtain bs where "encode i = Some (Inr bs)" "length bs \<le> 9"
    using round_trip [of i] Cons.prems by auto
  with rest show ?case by simp
qed (simp add: enc_ok_def)

text \<open>Programs that make the fuzzer panic.\<close>

definition unencodable :: "Instruction \<Rightarrow> bool" where
  "unencodable i \<longleftrightarrow> \<not> (\<exists>bs. encode i = Some (Inr bs))"

lemma no_program:
  "unencodable (instr_new1 (Flow Loop) (Imm16 8))"
  "unencodable (instr_new2 (Mul Imul32) (Reg32 R.EAX) (Reg32 R.EBX))"
  "unencodable (instr_new3 (Mul Imul32) (Reg32 R.EAX) (Reg32 R.EBX) (ImmS8 v))"
  "unencodable (instr_new2 (Move Mov16) (Ptr16Amode Segment.Default AMode.SI) (Imm16 w))"
proof -
  have "encode (instr_new1 (Flow Loop) (Imm16 8)) = None"
    "encode (instr_new2 (Mul Imul32) (Reg32 R.EAX) (Reg32 R.EBX)) = None"
    "encode (instr_new3 (Mul Imul32) (Reg32 R.EAX) (Reg32 R.EBX) (ImmS8 v)) = None"
    "encode (instr_new2 (Move Mov16) (Ptr16Amode Segment.Default AMode.SI) (Imm16 w)) =
      Some (Inl (UnhandledParameter (Ptr16Amode Segment.Default AMode.SI)))"
    by code_simp+
  then show "unencodable (instr_new1 (Flow Loop) (Imm16 8))"
    "unencodable (instr_new2 (Mul Imul32) (Reg32 R.EAX) (Reg32 R.EBX))"
    "unencodable (instr_new3 (Mul Imul32) (Reg32 R.EAX) (Reg32 R.EBX) (ImmS8 v))"
    "unencodable (instr_new2 (Move Mov16) (Ptr16Amode Segment.Default AMode.SI) (Imm16 w))"
    by (simp_all add: unencodable_def)
qed

lemma encode_vec_fails:
  assumes "\<exists>i \<in> set is. unencodable i"
  shows "\<not> (\<exists>bs. encode_vec is = Some (Inr bs))"
  using assms
proof (induction "is")
  case (Cons j "is")
  then show ?case
    using encode_vec_split [of j "is"] by (auto simp: unencodable_def)
qed simp

lemma fuzz_op_panics:
  assumes "test_program op g = Some p" "\<not> (\<exists>bs. encode_vec p = Some (Inr bs))"
  shows "fuzz_op h bc runner op (g # gs) = None"
  using assms by (auto simp: bind_eq_None_conv split: sum.split)

text \<open>C40. For the operations of \<open>faithful_ops\<close> and all random numbers the fuzzer's test program is
  assembled, in nine bytes an instruction at most, and wherever these bytes stand in memory as many
  instructions are decoded from them as were made, the same ones. Fuzzing \<open>loop\<close>, \<open>cmpsw\<close> or the forms
  of \<open>imul\<close> with two and three double word operands panics, because the encoder cannot assemble the
  program.\<close>

theorem test_programs_assemble:
  assumes "rng_law g"
  shows "(op \<in> set faithful_ops \<longrightarrow> (\<exists>p bs. test_program op g = Some p \<and> encode_vec p = Some (Inr bs) \<and>
      length bs \<le> 9 * length p \<and>
      (\<forall>u d seg off. mmu_ok u \<and> stored (d\<lparr>current_seg := seg, current_offset := off\<rparr>) u bs \<and> unat off + length bs < 65536 \<longrightarrow>
        (\<exists>infos d'. decode_to_block d u seg off (length p) = Some (infos, d') \<and> list_all2 same_instruction p infos))))
    \<and> (op \<in> {Flow Loop, Str Cmpsw} \<or> op = Mul Imul32 \<and> gen_range g 2 3 \<noteq> 0 \<longrightarrow> fuzz_op h bc runner op (g # gs) = None)"
proof (intro conjI impI)
  assume "op \<in> set faithful_ops"
  then obtain p where p: "test_program op g = Some p" "list_all encodable p"
    using snippet_encodable [OF assms] by blast
  obtain bs where bs: "encode_vec p = Some (Inr bs)" "length bs \<le> 9 * length p"
    using encodable_program [OF p(2)] by blast
  have "\<exists>infos d'. decode_to_block d u seg off (length p) = Some (infos, d') \<and> list_all2 same_instruction p infos"
    if "mmu_ok u" "stored (d\<lparr>current_seg := seg, current_offset := off\<rparr>) u bs" "unat off + length bs < 65536" for u d seg off
    using block_decodes [OF p(2) bs(1) that(1), where d = d and seg = seg and off = off and pos = 0] that(2,3)
    by (auto simp: decode_to_block_def)
  with p(1) bs show "\<exists>p bs. test_program op g = Some p \<and> encode_vec p = Some (Inr bs) \<and> length bs \<le> 9 * length p \<and>
      (\<forall>u d seg off. mmu_ok u \<and> stored (d\<lparr>current_seg := seg, current_offset := off\<rparr>) u bs \<and> unat off + length bs < 65536 \<longrightarrow>
        (\<exists>infos d'. decode_to_block d u seg off (length p) = Some (infos, d') \<and> list_all2 same_instruction p infos))"
    by blast
next
  assume op: "op \<in> {Flow Loop, Str Cmpsw} \<or> op = Mul Imul32 \<and> gen_range g 2 3 \<noteq> 0"
  have "gen_range g 2 3 < 3"
    using assms by (simp add: rng_law_def)
  then have "gen_range g 2 3 \<noteq> 0 \<Longrightarrow> gen_range g 2 3 = 1 \<or> gen_range g 2 3 = 2"
    by linarith
  then have forms: "gen_range g 2 3 \<noteq> 0 \<Longrightarrow> \<exists>i. imul32_form g = Some i \<and> unencodable i"
    using no_program(2) no_program(3) [of "gen_u8 g 3"] by (auto simp: imul32_form_def)
  from op consider "op = Flow Loop" | "op = Str Cmpsw" | "op = Mul Imul32" "gen_range g 2 3 \<noteq> 0"
    by blast
  then have "\<exists>p. test_program op g = Some p \<and> (\<exists>i \<in> set p. unencodable i)"
  proof cases
    case 1
    then show ?thesis
      using no_program(1) by (simp add: test_program_def get_mutator_snippet_def)
  next
    case 2
    then show ?thesis
      using no_program(4) [of "gen_u16 g 0"]
      by (simp add: test_program_def get_mutator_snippet_def)
  next
    case 3
    from forms [OF 3(2)] obtain i where i: "imul32_form g = Some i" "unencodable i" by blast
    have "get_mutator_snippet (Mul Imul32) g = Some [load32 R.EAX (gen_u32 g 0), load32 R.EBX (gen_u32 g 1), i]"
      by (simp add: get_mutator_snippet_def i(1) alu8_ops_def shift16_ops_def shift32_ops_def)
    with 3(1) i(2) show ?thesis
      by (simp add: test_program_def)
  qed
  then show "fuzz_op h bc runner op (g # gs) = None"
    using fuzz_op_panics encode_vec_fails by blast
qed

theorem test_programs_assemble_witness:
  "\<exists>g p bs. test_program (Arith Add8) g = Some p \<and> length p = 10 \<and> encode_vec p = Some (Inr bs)"
proof -
  let ?g = "\<lparr>gen_u8 = (\<lambda>_. 7), gen_u16 = (\<lambda>_. 7), gen_u32 = (\<lambda>_. 7), gen_range = (\<lambda>_ _. 0)\<rparr>"
  have g: "rng_law ?g"
    by (simp add: rng_law_def)
  have op: "Arith Add8 \<in> set faithful_ops"
    by code_simp
  obtain p bs where "test_program (Arith Add8) ?g = Some p" "encode_vec p = Some (Inr bs)"
    using test_programs_assemble [OF g, of "Arith Add8"] op by blast
  moreover have "map_option length (test_program (Arith Add8) ?g) = Some 10"
    by code_simp
  ultimately show ?thesis
    by auto
qed

end
