(* ===== verification/Spec2Isabelle.thy ===== *)
theory Spec2Isabelle
  imports X86_Laws_Core X86_Decoder_Ops X86_Laws_Arith X86_Laws_MulDiv X86_Laws_Devices X86_Laws_Video
    X86_Laws_Encoder X86_Laws_Machine X86_Laws_Interrupts X86_Laws_Debugger X86_Laws_Tracer X86_Laws_Fuzzer
begin

text \<open>
  A model of dustbox, an emulator of a real-mode PC (the crate src/dustbox): the processor, its
  memory, the instruction decoder, the devices on the bus, the BIOS and DOS services and the machine
  that runs them; the debugger and the static tracer of programs; and the fuzzer (src/fuzzer) that
  compares the processor with another machine. The definitions are translated function by function; a
  panic of the development build (checked arithmetic, an index out of range, \<open>unreachable!\<close>) is
  \<open>None\<close>.

  \<^bold>\<open>Theories.\<close>
  \<^item> \<open>X86_Prelude\<close>: the word types of the code, its checked arithmetic and loops over lists.
  \<^item> \<open>X86_Flags\<close> (cpu/flag.rs), \<open>X86_Registers\<close> (cpu/register.rs, cpu/segment.rs),
    \<open>X86_Memory\<close> (memory/), \<open>X86_Instr\<close> (cpu/op.rs, cpu/parameter.rs, cpu/instruction.rs),
    \<open>X86_Cpu\<close> (cpu/mod.rs): state and operand access.
  \<^item> \<open>X86_Exec_Arith\<close>, \<open>X86_Exec_Logic\<close>, \<open>X86_Exec_Shift\<close>, \<open>X86_Exec_Move\<close>, \<open>X86_Exec_Flow\<close>: the
    arms of \<open>Machine::execute\<close> in machine.rs, one definition \<open>exec_<Op>\<close> each.
  \<^item> \<open>X86_Decoder\<close>, \<open>X86_Decoder_Ops\<close>: cpu/decoder.rs.
  \<^item> \<open>X86_Device\<close>: the interface of a device (port reads, port writes, interrupts) as a locale, with
    an interpretation for every device: \<open>X86_Pic\<close> (pic.rs), \<open>X86_Pit\<close> (pit.rs), \<open>X86_Keyboard\<close>
    (keyboard.rs), \<open>X86_Mouse\<close> (mouse.rs), \<open>X86_Bios\<close> (bios.rs, cmos.rs, storage.rs), \<open>X86_Dos\<close>
    (dos/dos.rs, codepage/cp437.rs) and the graphics card: \<open>X86_Video_Modes\<close> (gpu/modes.rs,
    gpu/palette.rs), \<open>X86_Gpu_Data\<close> (gpu/font.rs, gpu/video_parameters.rs), \<open>X86_Gpu\<close> (gpu/crtc.rs,
    gpu/dac.rs, ports), \<open>X86_Gpu_Text\<close>, \<open>X86_Gpu_Int\<close> and \<open>X86_Gpu_Render\<close> (gpu/render.rs).
  \<^item> \<open>X86_Exe\<close> (format/exe.rs) and \<open>X86_Machine\<close>: the bus of devices, \<open>execute_instruction\<close>,
    \<open>execute_frame\<close> and the loading of programs (machine.rs).
  \<^item> \<open>X86_Encoder\<close> (cpu/encoder.rs): the assembler used by the tests and the fuzzer.
  \<^item> \<open>X86_Text\<close> (hex.rs, string.rs and the \<open>Display\<close> implementations of operations, operands,
    instructions and addresses): what is printed and how numbers are parsed.
  \<^item> \<open>X86_Debugger\<close> (debug/breakpoints.rs, debug/memory_breakpoints.rs, debug/debugger.rs):
    breakpoints, stepping and the command language, one \<open>cmd_<name>\<close> for each command with arguments.
  \<^item> \<open>X86_Tracer\<close> (debug/tracer.rs): the analysis that follows a program's code, tracks the registers
    and accounts for every byte in a listing; one \<open>trace_<op>\<close> for each arm of its instruction match.
  \<^item> \<open>X86_Fuzzer\<close> (src/fuzzer/src/fuzzer.rs): the random test programs, the flags each operation
    affects, and the comparison of a run here with a run elsewhere.
  \<^item> \<open>X86_Operands\<close>, \<open>X86_Narrow\<close>: lemmas on operand access and on results narrowed from a wider sum,
    for operands that fit the width and for those with bits above it (a sign-extended byte).
  \<^item> \<open>X86_Laws_Core\<close>, \<open>X86_Laws_Arith\<close>, \<open>X86_Laws_MulDiv\<close>, \<open>X86_Laws_Devices\<close>, \<open>X86_Laws_Video\<close>,
    \<open>X86_Laws_Encoder\<close>: the properties C1, C2, ... of the processor state, the arithmetic, the devices
    and the assembler (comparison, C9, is with the arithmetic). \<open>X86_Encoder_Alu\<close>, \<open>X86_Encoder_Rest\<close>: the round trip of each instruction group.
  \<^item> \<open>X86_Frame\<close>, \<open>X86_Frame_Devices\<close>: what no instruction and no interrupt handler changes, by a
    calculus of results in the style of weakest preconditions; \<open>X86_Laws_Machine\<close>: counting and the end
    of a frame; \<open>X86_Laws_Interrupts\<close>: the way into a handler and back, the vectors, the bus.
  \<^item> \<open>X86_Laws_Debugger\<close>: addresses parse as they were printed, both lists of breakpoints refine a set
    (one locale, two interpretations), every command keeps the debugger well formed, stepping stops at
    the first break, and the test after a step is an exact function of the error flag, CS:IP and the
    watched bytes. \<open>X86_Laws_Tracer\<close>: the analysis ends, follows
    no address twice and its listing covers the program. \<open>X86_Laws_Fuzzer\<close>: the test programs are
    assembled and disassemble to themselves, and which of them panic.

  \<^bold>\<open>Interaction.\<close> A step of the machine decodes at CS:IP, executes, and gives the timer its tick. An
  instruction that touches a port hands it to the devices in the order in which they were registered;
  the first one that accepts it wins. An interrupt enters the handler that its vector in memory names.
  When that is F000:n, in the BIOS segment, the next step offers interrupt n to the devices in the same
  order, and INT 20 and 21 to DOS when none accepts, before it executes the IRET that is there.

  The debugger holds a machine and drives it one instruction at a time; the tracer reads the memory and
  the entry point of a loaded machine and never runs it; the fuzzer assembles a program, loads it into
  a fresh machine, and runs as many instructions as the program has.

  \<^bold>\<open>Bounds.\<close> The decoder gets 257 steps of fuel: a prefix run is bounded by the 8-bit counter of the
  code, which panics before that many. The frame loop gets a fuel of its own, and its outer option
  tells an exhausted fuel from a panic; 83334 steps, one more than the cycles of a frame at the default
  clock rate, are enough. Stepping over an instruction may run for ever and keeps its fuel. The tracer
  needs 10FFF1h rounds and as many instructions a path: a round or a step visits a linear address
  for the first time, and a segment:offset pair names at most 10FFF0h of them.

  \<^bold>\<open>Parameters.\<close> Code that is not in the repository is an argument: the clock and the file system
  (record \<open>Host\<close>, in the debugger \<open>Environment\<close>), the binary reader of the executable header
  (\<open>Bincode\<close>), the random numbers of the fuzzer (\<open>Rng\<close>) and the text that its other machine prints, key
  codes and modifiers of the window library (datatypes with the names the code matches on).

  \<^bold>\<open>Not modelled.\<close> The front ends, the graphical debugger and the disassembler, harness and header
  programs around the library: windows, threads and command lines. The external commands of the
  fuzzer (assembler, virtual machines, HTTP), the external disassembler. Output on the console, and
  the conversion of a frame to an image. The two display scale factors (32-bit floats) are not kept in
  the mode record; the scaling of mouse positions is done on rationals. Of the errors of the standard
  library's number parsing, which are only printed, one value stands for all; debugger strings are
  ASCII.
\<close>

end
